(* ===== verification/Prelude.thy ===== *)
theory Prelude
  imports Main "HOL-Library.Word" "HOL-Library.List_Lexorder" "HOL-Library.Char_ord"
    "HOL-Library.Product_Lexorder"
begin

text \<open>
  Shared vocabulary of the development: Rust's \<open>Result\<close> as a sum type, machine integers
  (\<open>u64\<close> as a 64-bit word, \<open>i64\<close> as an integer whose range is checked where the code
  checks it), and the generic list lemmas the components share.
\<close>

section \<open>Results\<close>

text \<open>
  \<open>Result<T, E>\<close> is \<open>'e + 'a\<close>, with \<open>Inl\<close> for \<open>Err\<close>. \<open>and_then\<close> is the \<open>?\<close> operator:
  the rest of the function runs only on \<open>Ok\<close>.
\<close>

fun and_then :: "'e + 'a \<Rightarrow> ('a \<Rightarrow> 'e + 'b) \<Rightarrow> 'e + 'b" where
  "and_then (Inl e) f = Inl e"
| "and_then (Inr x) f = f x"

fun map_err :: "('e \<Rightarrow> 'f) \<Rightarrow> 'e + 'a \<Rightarrow> 'f + 'a" where
  "map_err g (Inl e) = Inl (g e)"
| "map_err g (Inr x) = Inr x"

definition ok_or :: "'e \<Rightarrow> 'a option \<Rightarrow> 'e + 'a" where
  "ok_or e x = (case x of None \<Rightarrow> Inl e | Some y \<Rightarrow> Inr y)"

text \<open>\<open>iter().map(f).collect::<Result<Vec<_>, _>>()\<close>: the first error wins.\<close>

fun collect_results :: "('a \<Rightarrow> 'e + 'b) \<Rightarrow> 'a list \<Rightarrow> 'e + 'b list" where
  "collect_results f [] = Inr []"
| "collect_results f (x # xs) =
     and_then (f x) (\<lambda>y. and_then (collect_results f xs) (\<lambda>ys. Inr (y # ys)))"

text \<open>
  \<open>filter_map\<close> over a fallible predicate followed by \<open>collect\<close>: entries judged \<open>true\<close> are
  kept, \<open>false\<close> are dropped and the first error is returned.
\<close>

fun filter_results :: "('a \<Rightarrow> 'e + bool) \<Rightarrow> 'a list \<Rightarrow> 'e + 'a list" where
  "filter_results p [] = Inr []"
| "filter_results p (x # xs) =
     and_then (p x) (\<lambda>b. and_then (filter_results p xs)
       (\<lambda>ys. Inr (if b then x # ys else ys)))"

named_theorems result_iffs \<open>characterisations of successful results\<close>

lemma and_then_Inr_iff [result_iffs]:
  "and_then r f = Inr y \<longleftrightarrow> (\<exists>x. r = Inr x \<and> f x = Inr y)"
  by (cases r) auto

lemma and_then_Inl_iff:
  "and_then r f = Inl e \<longleftrightarrow> r = Inl e \<or> (\<exists>x. r = Inr x \<and> f x = Inl e)"
  by (cases r) auto

lemma and_then_assoc: "and_then (and_then r f) g = and_then r (\<lambda>x. and_then (f x) g)"
  by (cases r) auto

lemma ok_or_simps [simp]:
  "ok_or e None = Inl e" "ok_or e (Some x) = Inr x"
  by (simp_all add: ok_or_def)

lemma ok_or_Inr_iff [result_iffs]: "ok_or e x = Inr y \<longleftrightarrow> x = Some y"
  by (cases x) auto

lemma map_err_Inr_iff [result_iffs]: "map_err g r = Inr y \<longleftrightarrow> r = Inr y"
  by (cases r) auto

lemma if_Inl_Inr_iff [result_iffs]:
  "(if b then Inl e else r) = Inr y \<longleftrightarrow> \<not> b \<and> r = Inr y"
  "(if b then r else Inl e) = Inr y \<longleftrightarrow> b \<and> r = Inr y"
  by auto

lemma collect_results_all_Inr:
  assumes "\<And>x. x \<in> set xs \<Longrightarrow> f x = Inr (g x)"
  shows "collect_results f xs = Inr (map g xs)"
  using assms by (induction xs) auto

lemma collect_results_map: "collect_results f (map g xs) = collect_results (\<lambda>x. f (g x)) xs"
  by (induction xs) auto

lemma collect_results_length: "collect_results f xs = Inr ys \<Longrightarrow> length ys = length xs"
  by (induction xs arbitrary: ys) (auto simp: result_iffs)

lemma filter_results_all_Inr:
  assumes "\<And>x. x \<in> set xs \<Longrightarrow> p x = Inr (q x)"
  shows "filter_results p xs = Inr (filter q xs)"
  using assms by (induction xs) auto

lemma filter_results_Inr:
  assumes "filter_results p xs = Inr ys"
  shows "ys = filter (\<lambda>x. p x = Inr True) xs" and "\<forall>x\<in>set xs. \<exists>b. p x = Inr b"
  using assms by (induction xs arbitrary: ys) (auto simp: result_iffs split: if_splits)

section \<open>Machine integers\<close>

type_synonym u8 = "8 word"
type_synonym u64 = "64 word"
type_synonym i64 = int
type_synonym bytes = "u8 list"

definition i64_max :: int where "i64_max = 9223372036854775807"
definition i64_min :: int where "i64_min = - 9223372036854775808"

definition u64_checked_add :: "u64 \<Rightarrow> u64 \<Rightarrow> u64 option" where
  "u64_checked_add a b = (if uint a + uint b < 2 ^ 64 then Some (a + b) else None)"

definition i64_checked_add :: "i64 \<Rightarrow> i64 \<Rightarrow> i64 option" where
  "i64_checked_add a b = (if i64_min \<le> a + b \<and> a + b \<le> i64_max then Some (a + b) else None)"

definition u64_try_i64 :: "u64 \<Rightarrow> i64 option" where
  "u64_try_i64 x = (if uint x \<le> i64_max then Some (uint x) else None)"

definition i64_try_u64 :: "i64 \<Rightarrow> u64 option" where
  "i64_try_u64 i = (if 0 \<le> i then Some (word_of_int i) else None)"

lemma uint_u64_bounds [simp]: "0 \<le> uint (x :: u64)" "uint x < 18446744073709551616"
  using uint_bounded [of x] by simp_all

lemma uint_succ_u64:
  assumes "uint x + 1 < 2 ^ 64"
  shows "uint ((x :: u64) + 1) = uint x + 1"
  using assms by (simp add: uint_word_ariths)

lemma u64_checked_succ_Some:
  "u64_checked_add x 1 = Some y \<Longrightarrow> y = x + 1 \<and> uint y = uint x + 1"
  by (auto simp: u64_checked_add_def uint_succ_u64 split: if_splits)

lemma i64_roundtrip: "0 \<le> i \<Longrightarrow> i \<le> i64_max \<Longrightarrow> uint (word_of_int i :: u64) = i"
  by (simp add: i64_max_def uint_word_of_int)

lemma u64_of_uint [simp]: "word_of_int (uint (x :: u64)) = x"
  by simp

lemma i64_try_u64_uint [simp]: "i64_try_u64 (uint x) = Some x"
  by (simp add: i64_try_u64_def)

lemma u64_less_uint: "(a :: u64) < b \<longleftrightarrow> uint a < uint b"
  by (simp add: word_less_def)

lemma u64_le_uint: "(a :: u64) \<le> b \<longleftrightarrow> uint a \<le> uint b"
  by (simp add: word_le_def)

lemma u64_of_unat: "unat (x :: u64) = n \<Longrightarrow> x = of_nat n"
  by auto

lemma uint_unat_u64: "uint (x :: u64) = int (unat x)"
  by simp

lemma unat_of_nat_i64:
  assumes "int n \<le> i64_max"
  shows "unat (of_nat n :: u64) = n" "uint (of_nat n :: u64) = int n"
  using assms by (simp_all add: i64_max_def unsigned_of_nat take_bit_nat_eq_self)

lemma unat_succ_u64:
  assumes "uint (x :: u64) + 1 < 2 ^ 64"
  shows "unat (x + 1) = unat x + 1"
proof -
  have "int (unat (x + 1)) = int (unat x + 1)"
    using uint_succ_u64 [OF assms] by simp
  then show ?thesis
    unfolding of_nat_eq_iff .
qed

section \<open>Lists\<close>

lemma find_filter_hd: "find P xs = (case filter P xs of [] \<Rightarrow> None | x # _ \<Rightarrow> Some x)"
  by (induction xs) auto

lemma find_append: "find P (xs @ ys) = (case find P xs of None \<Rightarrow> find P ys | Some x \<Rightarrow> Some x)"
  by (induction xs) auto

lemma find_filter:
  "find P (filter Q xs) = find (\<lambda>x. Q x \<and> P x) xs"
  by (induction xs) auto

lemma find_map: "find P (map f xs) = map_option f (find (P \<circ> f) xs)"
  by (induction xs) auto

lemma find_Some_set: "find P xs = Some x \<Longrightarrow> x \<in> set xs \<and> P x"
  by (induction xs) (auto split: if_splits)

lemma find_None_set: "find P xs = None \<longleftrightarrow> (\<forall>x\<in>set xs. \<not> P x)"
  by (induction xs) auto

lemma find_unique:
  assumes "x \<in> set xs" "P x" "\<And>y. y \<in> set xs \<Longrightarrow> P y \<Longrightarrow> y = x"
  shows "find P xs = Some x"
proof -
  have "find P xs \<noteq> None"
    using assms(1,2) by (auto simp: find_None_set)
  then obtain y where y: "find P xs = Some y" by blast
  then have "y = x"
    using find_Some_set [OF y] assms(3) by blast
  with y show ?thesis by simp
qed

text \<open>Sorting commutes with mapping.\<close>

lemma insort_key_map: "insort_key k (f x) (map f xs) = map f (insort_key (\<lambda>r. k (f r)) x xs)"
  by (induction xs) simp_all

lemma sort_key_map: "sort_key k (map f xs) = map f (sort_key (\<lambda>r. k (f r)) xs)"
  by (induction xs) (simp_all add: insort_key_map)

end
