(* ===== verification/Rust_Text.thy ===== *)
theory Rust_Text
  imports Prelude
begin

text \<open>
  Rust's \<open>str\<close> as the code uses it. A string is its UTF-8 byte sequence (\<open>string\<close>, one
  \<open>char\<close> per byte), so \<open>length\<close> is \<open>str::len\<close>; \<open>utf8_chars\<close> is \<open>str::chars\<close>, giving code
  points, on which \<open>char::is_control\<close> and \<open>char::is_whitespace\<close> are defined.
\<close>

section \<open>Bytes\<close>

definition byte_between :: "nat \<Rightarrow> nat \<Rightarrow> char \<Rightarrow> bool" where
  "byte_between lo hi c \<longleftrightarrow> lo \<le> of_char c \<and> of_char c \<le> hi"

definition is_ascii_digit :: "char \<Rightarrow> bool" where
  "is_ascii_digit c = byte_between 48 57 c"

definition is_ascii_lowercase :: "char \<Rightarrow> bool" where
  "is_ascii_lowercase c = byte_between 97 122 c"

definition is_ascii_uppercase :: "char \<Rightarrow> bool" where
  "is_ascii_uppercase c = byte_between 65 90 c"

definition is_ascii_alphanumeric :: "char \<Rightarrow> bool" where
  "is_ascii_alphanumeric c \<longleftrightarrow> is_ascii_digit c \<or> is_ascii_lowercase c \<or> is_ascii_uppercase c"

definition is_lower_hex :: "char \<Rightarrow> bool" where
  "is_lower_hex c \<longleftrightarrow> is_ascii_digit c \<or> byte_between 97 102 c"

section \<open>Code points\<close>

fun utf8_decode :: "nat list \<Rightarrow> nat list" where
  "utf8_decode [] = []"
| "utf8_decode (a # r) =
    (if a < 128 then a # utf8_decode r
     else if a < 224 then
       (case r of b # r' \<Rightarrow> ((a - 192) * 64 + (b - 128)) # utf8_decode r' | [] \<Rightarrow> [65533])
     else if a < 240 then
       (case r of b # c # r' \<Rightarrow>
          ((a - 224) * 4096 + (b - 128) * 64 + (c - 128)) # utf8_decode r'
        | _ \<Rightarrow> [65533])
     else
       (case r of b # c # d # r' \<Rightarrow>
          ((a - 240) * 262144 + (b - 128) * 4096 + (c - 128) * 64 + (d - 128)) # utf8_decode r'
        | _ \<Rightarrow> [65533]))"

definition utf8_chars :: "string \<Rightarrow> nat list" where
  "utf8_chars s = utf8_decode (map of_char s)"

definition is_control :: "nat \<Rightarrow> bool" where
  "is_control c \<longleftrightarrow> c < 32 \<or> (127 \<le> c \<and> c < 160)"

definition is_whitespace :: "nat \<Rightarrow> bool" where
  "is_whitespace c \<longleftrightarrow> (9 \<le> c \<and> c \<le> 13) \<or> c = 32 \<or> c = 133 \<or> c = 160 \<or> c = 5760 \<or>
     (8192 \<le> c \<and> c \<le> 8202) \<or> c = 8232 \<or> c = 8233 \<or> c = 8239 \<or> c = 8287 \<or> c = 12288"

text \<open>\<open>value.trim().is_empty()\<close>: trimming removes white space at both ends only.\<close>

definition trim_is_empty :: "string \<Rightarrow> bool" where
  "trim_is_empty s = list_all is_whitespace (utf8_chars s)"

definition has_control :: "string \<Rightarrow> bool" where
  "has_control s = list_ex is_control (utf8_chars s)"

text \<open>\<open>{n}\<close> in a format string: decimal digits.\<close>

fun nat_text :: "nat \<Rightarrow> string" where
  "nat_text n =
    (if n < 10 then [char_of (48 + n)] else nat_text (n div 10) @ [char_of (48 + n mod 10)])"

declare nat_text.simps [simp del]

section \<open>Splitting\<close>

text \<open>\<open>str::split\<close> on one ASCII byte: always at least one segment.\<close>

fun split_on :: "char \<Rightarrow> string \<Rightarrow> string list" where
  "split_on d [] = [[]]"
| "split_on d (c # s) =
     (if c = d then [] # split_on d s
      else (case split_on d s of [] \<Rightarrow> [[c]] | w # ws \<Rightarrow> (c # w) # ws))"

fun join_with :: "char \<Rightarrow> string list \<Rightarrow> string" where
  "join_with d [] = []"
| "join_with d [w] = w"
| "join_with d (w # ws) = w @ d # join_with d ws"

lemma split_on_nonempty [simp]: "split_on d s \<noteq> []"
  by (induction s) (auto split: list.splits)

lemma join_split: "join_with d (split_on d s) = s"
proof (induction s)
  case (Cons c s)
  obtain w ws where s: "split_on d s = w # ws"
    by (cases "split_on d s") auto
  with Cons show ?case
    by (cases ws) auto
qed simp

lemma split_on_no_delim: "w \<in> set (split_on d s) \<Longrightarrow> d \<notin> set w"
  by (induction s arbitrary: w) (auto split: list.splits if_splits)

lemma split_on_append:
  assumes "d \<notin> set w"
  shows "split_on d (w @ d # s) = w # split_on d s"
  using assms by (induction w) auto

lemma split_on_word: "d \<notin> set w \<Longrightarrow> split_on d w = [w]"
  by (induction w) auto

lemma split_join:
  assumes "ws \<noteq> []" "\<forall>w\<in>set ws. d \<notin> set w"
  shows "split_on d (join_with d ws) = ws"
  using assms
  by (induction d ws rule: join_with.induct) (auto simp: split_on_append split_on_word)

text \<open>
  \<open>str::trim\<close> on strings as bytes: a string is cut into its characters, and white space is dropped at
  both ends. Trimming twice is trimming once.
\<close>

section \<open>Characters and trimming\<close>

text \<open>A string cut into its characters: each code point with the bytes that encode it.\<close>

fun utf8_pieces :: "string \<Rightarrow> (nat \<times> string) list" where
  "utf8_pieces [] = []"
| "utf8_pieces (a # r) =
    (let n = of_char a in
     if n < 128 then (n, [a]) # utf8_pieces r
     else if n < 224 then
       (case r of b # r' \<Rightarrow> ((n - 192) * 64 + (of_char b - 128), [a, b]) # utf8_pieces r'
        | [] \<Rightarrow> [(65533, [a])])
     else if n < 240 then
       (case r of b # c # r' \<Rightarrow>
          ((n - 224) * 4096 + (of_char b - 128) * 64 + (of_char c - 128), [a, b, c]) # utf8_pieces r'
        | _ \<Rightarrow> [(65533, a # r)])
     else
       (case r of b # c # d # r' \<Rightarrow>
          ((n - 240) * 262144 + (of_char b - 128) * 4096 + (of_char c - 128) * 64 + (of_char d - 128),
           [a, b, c, d]) # utf8_pieces r'
        | _ \<Rightarrow> [(65533, a # r)]))"

definition pieces_text :: "(nat \<times> string) list \<Rightarrow> string" where
  "pieces_text ps = concat (map snd ps)"

text \<open>\<open>str::trim\<close>.\<close>

definition trim_text :: "string \<Rightarrow> string" where
  "trim_text s =
    pieces_text (rev (dropWhile (\<lambda>p. is_whitespace (fst p))
      (rev (dropWhile (\<lambda>p. is_whitespace (fst p)) (utf8_pieces s)))))"

section \<open>Trimming is idempotent\<close>

text \<open>A complete character is cut off whatever follows it.\<close>

definition piece_ok :: "nat \<times> string \<Rightarrow> bool" where
  "piece_ok p \<longleftrightarrow> (\<forall>rest. utf8_pieces (snd p @ rest) = p # utf8_pieces rest)"

definition pieces_ok :: "(nat \<times> string) list \<Rightarrow> bool" where
  "pieces_ok ps \<longleftrightarrow> list_all piece_ok (butlast ps) \<and> (ps \<noteq> [] \<longrightarrow> utf8_pieces (snd (last ps)) = [last ps])"

lemma pieces_ok_Cons: "piece_ok p \<Longrightarrow> pieces_ok ps \<Longrightarrow> pieces_ok (p # ps)"
  by (auto simp: pieces_ok_def piece_ok_def dest: spec [where x = "[]"])

lemma pieces_ok_single: "utf8_pieces (snd p) = [p] \<Longrightarrow> pieces_ok [p]"
  by (simp add: pieces_ok_def)

lemma piece_ok_lengths:
  "of_char a < (128 :: nat) \<Longrightarrow> piece_ok (of_char a, [a])"
  "\<not> of_char a < (128 :: nat) \<Longrightarrow> of_char a < (224 :: nat) \<Longrightarrow>
     piece_ok ((of_char a - 192) * 64 + (of_char b - 128), [a, b])"
  "\<not> of_char a < (224 :: nat) \<Longrightarrow> of_char a < (240 :: nat) \<Longrightarrow>
     piece_ok ((of_char a - 224) * 4096 + (of_char b - 128) * 64 + (of_char d - 128), [a, b, d])"
  "\<not> of_char a < (240 :: nat) \<Longrightarrow>
     piece_ok ((of_char a - 240) * 262144 + (of_char b - 128) * 4096 + (of_char d - 128) * 64
       + (of_char e - 128), [a, b, d, e])"
  unfolding piece_ok_def by (simp_all add: Let_def)

lemma pieces_ok_truncated:
  "utf8_pieces (a # r) = [(65533, a # r)] \<Longrightarrow> pieces_ok (utf8_pieces (a # r))"
  by (simp only: pieces_ok_single snd_conv)

lemma utf8_pieces_ok: "pieces_ok (utf8_pieces s)"
proof (induction s rule: utf8_pieces.induct)
  case 1
  then show ?case by (simp add: pieces_ok_def)
next
  case (2 a r)
  let ?n = "of_char a :: nat"
  consider "?n < 128" | "\<not> ?n < 128" "?n < 224" | "\<not> ?n < 224" "?n < 240" | "\<not> ?n < 240"
    by linarith
  then show ?case
  proof cases
    case 1
    with 2 show ?thesis
      using pieces_ok_Cons [OF piece_ok_lengths(1)] by (simp add: Let_def)
  next
    case two: 2
    show ?thesis
    proof (cases r)
      case Nil
      with two show ?thesis
        by (intro pieces_ok_truncated) (simp add: Let_def)
    next
      case (Cons b r1)
      with two 2 show ?thesis
        using pieces_ok_Cons [OF piece_ok_lengths(2)] by (simp add: Let_def)
    qed
  next
    case three: 3
    consider b d r2 where "r = b # d # r2" | "r = []" | b where "r = [b]"
      by (metis list.exhaust)
    then show ?thesis
    proof cases
      case 1
      with three 2 show ?thesis
        using pieces_ok_Cons [OF piece_ok_lengths(3)] by (simp add: Let_def)
    qed (use three in \<open>simp_all add: Let_def pieces_ok_single\<close>)
  next
    case four: 4
    consider b d e r3 where "r = b # d # e # r3" | "r = []" | b where "r = [b]" | b d where "r = [b, d]"
      by (metis list.exhaust)
    then show ?thesis
    proof cases
      case 1
      with four 2 show ?thesis
        using pieces_ok_Cons [OF piece_ok_lengths(4)] by (simp add: Let_def)
    qed (use four in \<open>simp_all add: Let_def pieces_ok_single\<close>)
  qed
qed

lemma pieces_text_ok: "pieces_ok ps \<Longrightarrow> utf8_pieces (pieces_text ps) = ps"
proof (induction ps)
  case (Cons p ps)
  show ?case
  proof (cases "ps = []")
    case False
    with Cons.prems have "piece_ok p" "pieces_ok ps"
      by (simp_all add: pieces_ok_def)
    with Cons.IH show ?thesis
      by (simp add: pieces_text_def piece_ok_def)
  qed (use Cons.prems in \<open>simp add: pieces_ok_def pieces_text_def\<close>)
qed (simp add: pieces_text_def)

lemma pieces_ok_tail: "pieces_ok (p # ps) \<Longrightarrow> pieces_ok ps"
  by (cases "ps = []") (simp_all add: pieces_ok_def)

lemma pieces_ok_suffix: "pieces_ok (ps @ qs) \<Longrightarrow> pieces_ok qs"
proof (induction ps)
  case (Cons p ps)
  then show ?case
    using pieces_ok_tail [of p "ps @ qs"] by simp
qed simp

lemma pieces_ok_prefix:
  assumes "pieces_ok (ps @ qs)"
  shows "pieces_ok ps"
proof (cases "qs = [] \<or> ps = []")
  case False
  then have "list_all piece_ok ps"
    using assms by (simp add: pieces_ok_def butlast_append)
  then have "list_all piece_ok (butlast ps)" "piece_ok (last ps)"
    using False by (auto simp: list_all_iff dest: in_set_butlastD)
  then show ?thesis
    by (auto simp: pieces_ok_def piece_ok_def dest: spec [where x = "[]"])
qed (use assms in \<open>auto simp: pieces_ok_def\<close>)

text \<open>What is left after dropping from both ends.\<close>

definition strip :: "('a \<Rightarrow> bool) \<Rightarrow> 'a list \<Rightarrow> 'a list" where
  "strip p xs = rev (dropWhile p (rev (dropWhile p xs)))"

lemma strip_middle: "\<exists>as bs. xs = as @ strip p xs @ bs"
proof -
  have "xs = takeWhile p xs @ dropWhile p xs"
    by simp
  moreover have "dropWhile p xs = strip p xs @ rev (takeWhile p (rev (dropWhile p xs)))"
    unfolding strip_def by (metis rev_append rev_rev_ident takeWhile_dropWhile_id)
  ultimately show ?thesis by metis
qed

lemma strip_strip: "strip p (strip p xs) = strip p xs"
proof -
  define a where "a = dropWhile p xs"
  define b where "b = rev (dropWhile p (rev a))"
  have ends: "dropWhile p (rev b) = rev b"
    by (simp add: b_def dropWhile_idem)
  have "dropWhile p b = b"
  proof (cases a)
    case Nil
    then show ?thesis by (simp add: b_def)
  next
    case (Cons x ys)
    then have x: "\<not> p x"
      unfolding a_def by (metis hd_dropWhile list.discI list.sel(1))
    have "dropWhile p (rev a) = dropWhile p (rev ys) @ [x]"
      using x Cons by (simp add: dropWhile_append)
    then show ?thesis
      using x by (simp add: b_def)
  qed
  then show ?thesis
    using ends unfolding strip_def a_def [symmetric] b_def [symmetric] by (simp add: b_def)
qed

lemma trim_text_strip: "trim_text s = pieces_text (strip (\<lambda>p. is_whitespace (fst p)) (utf8_pieces s))"
  by (simp add: trim_text_def strip_def)

theorem trim_text_idem: "trim_text (trim_text s) = trim_text s"
proof -
  let ?p = "\<lambda>p :: nat \<times> string. is_whitespace (fst p)"
  obtain as bs where "utf8_pieces s = as @ strip ?p (utf8_pieces s) @ bs"
    using strip_middle by metis
  then have "pieces_ok (strip ?p (utf8_pieces s))"
    using utf8_pieces_ok [of s] pieces_ok_suffix pieces_ok_prefix by metis
  then show ?thesis
    unfolding trim_text_strip by (simp add: pieces_text_ok strip_strip)
qed

end
