(* ===== verification/Domain_Types.thy ===== *)
theory Domain_Types
  imports Rust_Text
begin

text \<open>
  \<open>aidememo-domain\<close>: opaque identifiers, revisions, project sequences and the domain errors
  (\<open>identity.rs\<close> 1-210, \<open>command.rs\<close> 1-161, \<open>error.rs\<close>).

  A newtype over \<open>String\<close> is its string: \<open>TryFrom\<close> validates and keeps the text, \<open>as_str\<close>
  returns it, so the type invariant of the newtype is the predicate \<open>id_ok\<close> or \<open>name_ok\<close>.
  \<open>Revision\<close> is the \<open>u64\<close> it holds (\<open>rev_ok\<close>: non-zero).
\<close>

section \<open>Identifiers, revisions and sequences\<close>

type_synonym tenant_id = string
type_synonym project_id = string
type_synonym actor_id = string
type_synonym command_id = string
type_synonym project_epoch = string
type_synonym resource_id = string
type_synonym artifact_id = string
type_synonym source_id = string
type_synonym session_id = string
type_synonym fact_id = string
type_synonym handoff_id = string
type_synonym claim_id = string
type_synonym operation_name = string
type_synonym resource_kind = string
type_synonym command_fingerprint = string
type_synonym revision = u64
type_synonym project_sequence = u64

section \<open>Errors\<close>

text \<open>
  \<open>Text\<close> is a message the code writes; \<open>External\<close> stands for the \<open>to_string()\<close> of an error of
  SQLite, serde or the standard library.
\<close>

datatype diagnostic = Text string | External

datatype domain_error =
    InvalidIdentifier string string
  | IdentityMismatch
  | AuthenticationFailed
  | ProjectUnauthorized project_id
  | ProjectScopeMismatch project_id project_id
  | CommandConflict
  | HandoffActorMismatch
  | HandoffConflict string
  | StaleRevision revision revision
  | ResourceNotFound
  | ResourceAlreadyExists
  | CursorEpochMismatch project_epoch project_epoch
  | CursorOutOfRange project_sequence project_sequence
  | InvalidChangeBatch string
  | SnapshotRequired
  | SnapshotTooLarge nat
  | InvalidArtifactPath string
  | InvalidArtifactReference string
  | ConformanceViolation string string
  | InvalidCommand diagnostic
  | StorageFailure string diagnostic

datatype error_code =
    CodeInvalidIdentifier | CodeIdentityMismatch | CodeAuthenticationFailed
  | CodeProjectUnauthorized | CodeProjectScopeMismatch | CodeCommandConflict
  | CodeHandoffActorMismatch | CodeHandoffConflict | CodeStaleRevision
  | CodeResourceNotFound | CodeResourceAlreadyExists | CodeCursorEpochMismatch
  | CodeCursorOutOfRange | CodeInvalidChangeBatch | CodeSnapshotRequired
  | CodeSnapshotTooLarge | CodeInvalidArtifactPath | CodeInvalidArtifactReference
  | CodeConformanceViolation | CodeInvalidCommand | CodeStorageFailure

fun error_code_of :: "domain_error \<Rightarrow> error_code" where
  "error_code_of (InvalidIdentifier _ _) = CodeInvalidIdentifier"
| "error_code_of IdentityMismatch = CodeIdentityMismatch"
| "error_code_of AuthenticationFailed = CodeAuthenticationFailed"
| "error_code_of (ProjectUnauthorized _) = CodeProjectUnauthorized"
| "error_code_of (ProjectScopeMismatch _ _) = CodeProjectScopeMismatch"
| "error_code_of CommandConflict = CodeCommandConflict"
| "error_code_of HandoffActorMismatch = CodeHandoffActorMismatch"
| "error_code_of (HandoffConflict _) = CodeHandoffConflict"
| "error_code_of (StaleRevision _ _) = CodeStaleRevision"
| "error_code_of ResourceNotFound = CodeResourceNotFound"
| "error_code_of ResourceAlreadyExists = CodeResourceAlreadyExists"
| "error_code_of (CursorEpochMismatch _ _) = CodeCursorEpochMismatch"
| "error_code_of (CursorOutOfRange _ _) = CodeCursorOutOfRange"
| "error_code_of (InvalidChangeBatch _) = CodeInvalidChangeBatch"
| "error_code_of SnapshotRequired = CodeSnapshotRequired"
| "error_code_of (SnapshotTooLarge _) = CodeSnapshotTooLarge"
| "error_code_of (InvalidArtifactPath _) = CodeInvalidArtifactPath"
| "error_code_of (InvalidArtifactReference _) = CodeInvalidArtifactReference"
| "error_code_of (ConformanceViolation _ _) = CodeConformanceViolation"
| "error_code_of (InvalidCommand _) = CodeInvalidCommand"
| "error_code_of (StorageFailure _ _) = CodeStorageFailure"

type_synonym 'a domain_result = "domain_error + 'a"

section \<open>Validation of identifiers and names\<close>

definition MAX_ID_BYTES :: nat where "MAX_ID_BYTES = 128"
definition MAX_NAME_BYTES :: nat where "MAX_NAME_BYTES = 96"

definition id_byte :: "char \<Rightarrow> bool" where
  "id_byte c \<longleftrightarrow> is_ascii_alphanumeric c \<or>
     c \<in> {CHR ''-'', CHR ''_'', CHR ''.'', CHR '':'', CHR ''@''}"

definition validate_id :: "string \<Rightarrow> string \<Rightarrow> unit domain_result" where
  "validate_id kind s =
    (if s = [] then Inl (InvalidIdentifier kind ''must not be empty'')
     else if length s > MAX_ID_BYTES then
       Inl (InvalidIdentifier kind ''must be at most 128 bytes'')
     else if \<not> list_all id_byte s then
       Inl (InvalidIdentifier kind
         (''must contain only ASCII letters, digits, '-', '_', '.', ':', or '@'' @ [CHR 0x27]))
     else Inr ())"

text \<open>\<open>TryFrom<String>\<close> of every \<open>string_id!\<close> type, with the kind the macro is given.\<close>

definition id_try_from :: "string \<Rightarrow> string \<Rightarrow> string domain_result" where
  "id_try_from kind s = and_then (validate_id kind s) (\<lambda>_. Inr s)"

definition name_byte :: "char \<Rightarrow> bool" where
  "name_byte c \<longleftrightarrow> is_ascii_lowercase c \<or> is_ascii_digit c \<or>
     c \<in> {CHR ''.'', CHR ''-'', CHR ''_''}"

definition validate_name :: "string \<Rightarrow> string \<Rightarrow> unit domain_result" where
  "validate_name kind s =
    (if s = [] \<or> length s > MAX_NAME_BYTES then
       Inl (InvalidIdentifier kind ''must contain 1 to 96 bytes'')
     else if \<not> list_all name_byte s then
       Inl (InvalidIdentifier kind
         (''must contain only lowercase ASCII letters, digits, '.', '-', or '_'' @ [CHR 0x27]))
     else Inr ())"

definition name_try_from :: "string \<Rightarrow> string \<Rightarrow> string domain_result" where
  "name_try_from kind s = and_then (validate_name kind s) (\<lambda>_. Inr s)"

definition fingerprint_try_from :: "string \<Rightarrow> command_fingerprint domain_result" where
  "fingerprint_try_from s =
    (if length s \<noteq> 64 \<or> \<not> list_all is_lower_hex s then
       Inl (InvalidIdentifier ''command fingerprint''
         ''must be 64 lowercase hexadecimal characters'')
     else Inr s)"

definition revision_new :: "u64 \<Rightarrow> revision domain_result" where
  "revision_new v =
    (if v = 0 then Inl (InvalidIdentifier ''revision'' ''must be greater than zero'') else Inr v)"

definition revision_next :: "revision \<Rightarrow> revision domain_result" where
  "revision_next r =
     and_then (ok_or (InvalidIdentifier ''revision'' ''overflow'') (u64_checked_add r 1))
       revision_new"

section \<open>Type invariants\<close>

definition id_ok :: "string \<Rightarrow> bool" where
  "id_ok s \<longleftrightarrow> s \<noteq> [] \<and> length s \<le> MAX_ID_BYTES \<and> list_all id_byte s"

definition name_ok :: "string \<Rightarrow> bool" where
  "name_ok s \<longleftrightarrow> s \<noteq> [] \<and> length s \<le> MAX_NAME_BYTES \<and> list_all name_byte s"

definition fingerprint_ok :: "string \<Rightarrow> bool" where
  "fingerprint_ok s \<longleftrightarrow> length s = 64 \<and> list_all is_lower_hex s"

definition rev_ok :: "revision \<Rightarrow> bool" where
  "rev_ok r \<longleftrightarrow> r \<noteq> 0"

lemma id_try_from_Inr_iff [result_iffs]: "id_try_from kind s = Inr t \<longleftrightarrow> t = s \<and> id_ok s"
  by (auto simp: id_try_from_def validate_id_def id_ok_def)

lemma id_try_from_ok [simp]: "id_ok s \<Longrightarrow> id_try_from kind s = Inr s"
  by (simp add: result_iffs)

lemma name_try_from_Inr_iff [result_iffs]: "name_try_from kind s = Inr t \<longleftrightarrow> t = s \<and> name_ok s"
  by (auto simp: name_try_from_def validate_name_def name_ok_def)

lemma name_try_from_ok [simp]: "name_ok s \<Longrightarrow> name_try_from kind s = Inr s"
  by (simp add: result_iffs)

lemma fingerprint_try_from_Inr_iff [result_iffs]:
  "fingerprint_try_from s = Inr t \<longleftrightarrow> t = s \<and> fingerprint_ok s"
  by (auto simp: fingerprint_try_from_def fingerprint_ok_def)

lemma fingerprint_try_from_ok [simp]: "fingerprint_ok s \<Longrightarrow> fingerprint_try_from s = Inr s"
  by (simp add: result_iffs)

lemma revision_new_Inr_iff [result_iffs]: "revision_new v = Inr r \<longleftrightarrow> r = v \<and> rev_ok v"
  by (auto simp: revision_new_def rev_ok_def)

lemma revision_new_ok [simp]: "rev_ok r \<Longrightarrow> revision_new r = Inr r"
  by (simp add: result_iffs)

lemma rev_ok_uint: "rev_ok r \<longleftrightarrow> 0 < uint r"
  by (simp add: rev_ok_def word_neq_0_conv flip: word_less_def) (simp add: word_less_def)

lemma revision_next_Inr:
  "revision_next r = Inr r' \<longleftrightarrow> uint r + 1 < 2 ^ 64 \<and> r' = r + 1"
proof
  assume "revision_next r = Inr r'"
  then show "uint r + 1 < 2 ^ 64 \<and> r' = r + 1"
    by (auto simp: revision_next_def result_iffs u64_checked_add_def split: if_splits)
next
  assume r: "uint r + 1 < 2 ^ 64 \<and> r' = r + 1"
  then have "rev_ok r'"
    by (simp add: rev_ok_uint uint_succ_u64 add_nonneg_pos)
  with r show "revision_next r = Inr r'"
    by (simp add: revision_next_def u64_checked_add_def)
qed

end
