(* ===== verification/Domain_Identity.thy ===== *)
theory Domain_Identity
  imports Domain_Types
begin

text \<open>
  \<open>aidememo-domain/src/identity.rs\<close> from \<open>ProjectScope\<close> on and \<open>record.rs\<close>: scopes, roles,
  memberships and the authorization contexts derived from them.
\<close>

section \<open>Scopes and memberships\<close>

record project_scope =
  sc_tenant_id :: tenant_id
  sc_project_id :: project_id

definition scope_new :: "tenant_id \<Rightarrow> project_id \<Rightarrow> project_scope" where
  "scope_new t p = \<lparr>sc_tenant_id = t, sc_project_id = p\<rparr>"

datatype membership_role = Owner | Admin | Writer | Reader

fun can_mutate :: "membership_role \<Rightarrow> bool" where
  "can_mutate Reader = False"
| "can_mutate _ = True"

datatype membership_status = MembershipActive | MembershipSuspended

record project_membership =
  pm_tenant_id :: tenant_id
  pm_project_id :: project_id
  pm_actor_id :: actor_id
  pm_role :: membership_role
  pm_status :: membership_status

datatype record_status = Active | Suspended | Archived
datatype actor_kind = Human | Agent | Service

record tenant_record =
  tr_tenant_id :: tenant_id
  tr_display_name :: string
  tr_status :: record_status
  tr_revision :: revision
  tr_created_at_ms :: i64
  tr_updated_at_ms :: i64

record project_record =
  pr_tenant_id :: tenant_id
  pr_project_id :: project_id
  pr_display_name :: string
  pr_project_epoch :: project_epoch
  pr_status :: record_status
  pr_revision :: revision
  pr_created_at_ms :: i64
  pr_updated_at_ms :: i64

record actor_record =
  ar_tenant_id :: tenant_id
  ar_actor_id :: actor_id
  ar_display_name :: string
  ar_kind :: actor_kind
  ar_status :: record_status
  ar_revision :: revision
  ar_created_at_ms :: i64
  ar_updated_at_ms :: i64

section \<open>Authorization\<close>

record authenticated_actor =
  aa_tenant_id :: tenant_id
  aa_actor_id :: actor_id

record project_access =
  pa_tenant_id :: tenant_id
  pa_project_id :: project_id
  pa_actor_id :: actor_id
  pa_role :: membership_role

record project_authorization =
  pz_tenant_id :: tenant_id
  pz_project_id :: project_id
  pz_actor_id :: actor_id
  pz_role :: membership_role

definition access_authorize ::
  "authenticated_actor \<Rightarrow> project_membership \<Rightarrow> project_access domain_result" where
  "access_authorize auth m =
    (if aa_tenant_id auth \<noteq> pm_tenant_id m \<or> aa_actor_id auth \<noteq> pm_actor_id m then
       Inl IdentityMismatch
     else if pm_status m \<noteq> MembershipActive then Inl (ProjectUnauthorized (pm_project_id m))
     else Inr \<lparr>pa_tenant_id = pm_tenant_id m, pa_project_id = pm_project_id m,
               pa_actor_id = pm_actor_id m, pa_role = pm_role m\<rparr>)"

definition access_scope :: "project_access \<Rightarrow> project_scope" where
  "access_scope a = scope_new (pa_tenant_id a) (pa_project_id a)"

definition require_write :: "project_access \<Rightarrow> project_authorization domain_result" where
  "require_write a =
    (if \<not> can_mutate (pa_role a) then Inl (ProjectUnauthorized (pa_project_id a))
     else Inr \<lparr>pz_tenant_id = pa_tenant_id a, pz_project_id = pa_project_id a,
               pz_actor_id = pa_actor_id a, pz_role = pa_role a\<rparr>)"

definition authorization_authorize ::
  "authenticated_actor \<Rightarrow> project_membership \<Rightarrow> project_authorization domain_result" where
  "authorization_authorize auth m = and_then (access_authorize auth m) require_write"

definition authorization_scope :: "project_authorization \<Rightarrow> project_scope" where
  "authorization_scope z = scope_new (pz_tenant_id z) (pz_project_id z)"

section \<open>Lemmas\<close>

definition scope_ok :: "project_scope \<Rightarrow> bool" where
  "scope_ok s \<longleftrightarrow> id_ok (sc_tenant_id s) \<and> id_ok (sc_project_id s)"

definition authorization_ok :: "project_authorization \<Rightarrow> bool" where
  "authorization_ok z \<longleftrightarrow> id_ok (pz_tenant_id z) \<and> id_ok (pz_project_id z) \<and> id_ok (pz_actor_id z)"

definition membership_ok :: "project_membership \<Rightarrow> bool" where
  "membership_ok m \<longleftrightarrow> id_ok (pm_tenant_id m) \<and> id_ok (pm_project_id m) \<and> id_ok (pm_actor_id m)"

lemma scope_new_simps [simp]:
  "sc_tenant_id (scope_new t p) = t" "sc_project_id (scope_new t p) = p"
  by (simp_all add: scope_new_def)

lemma scope_new_eq_iff [simp]:
  "scope_new t p = s \<longleftrightarrow> t = sc_tenant_id s \<and> p = sc_project_id s"
  "s = scope_new t p \<longleftrightarrow> t = sc_tenant_id s \<and> p = sc_project_id s"
  by (cases s; auto simp: scope_new_def)+

lemma scope_new_collapse [simp]: "scope_new (sc_tenant_id s) (sc_project_id s) = s"
  by simp

lemma access_authorize_Inr_iff [result_iffs]:
  "access_authorize auth m = Inr a \<longleftrightarrow>
     aa_tenant_id auth = pm_tenant_id m \<and> aa_actor_id auth = pm_actor_id m \<and>
     pm_status m = MembershipActive \<and>
     a = \<lparr>pa_tenant_id = pm_tenant_id m, pa_project_id = pm_project_id m,
          pa_actor_id = pm_actor_id m, pa_role = pm_role m\<rparr>"
  by (auto simp: access_authorize_def)

lemma require_write_Inr_iff [result_iffs]:
  "require_write a = Inr z \<longleftrightarrow> can_mutate (pa_role a) \<and>
     z = \<lparr>pz_tenant_id = pa_tenant_id a, pz_project_id = pa_project_id a,
          pz_actor_id = pa_actor_id a, pz_role = pa_role a\<rparr>"
  by (auto simp: require_write_def)

lemma authorization_authorize_Inr_iff [result_iffs]:
  "authorization_authorize auth m = Inr z \<longleftrightarrow>
     aa_tenant_id auth = pm_tenant_id m \<and> aa_actor_id auth = pm_actor_id m \<and>
     pm_status m = MembershipActive \<and> can_mutate (pm_role m) \<and>
     z = \<lparr>pz_tenant_id = pm_tenant_id m, pz_project_id = pm_project_id m,
          pz_actor_id = pm_actor_id m, pz_role = pm_role m\<rparr>"
  by (auto simp: authorization_authorize_def result_iffs)

end
