(* ===== verification/Domain_Command.thy ===== *)
theory Domain_Command
  imports Domain_Identity
begin

text \<open>
  \<open>aidememo-domain/src/command.rs\<close> 163-320: resource coordinates, command envelopes, authorized
  commands, canonical resource state, receipts and audit entries.
\<close>

section \<open>Resources and commands\<close>

record resource_ref =
  rf_kind :: resource_kind
  rf_id :: resource_id

record 'p command_envelope =
  en_command_id :: command_id
  en_project_id :: project_id
  en_expected_revision :: "revision option"
  en_operation :: operation_name
  en_payload :: 'p

record 'p authorized_command =
  ac_authorization :: project_authorization
  ac_envelope :: "'p command_envelope"

definition command_authorize ::
  "project_authorization \<Rightarrow> 'p command_envelope \<Rightarrow> 'p authorized_command domain_result" where
  "command_authorize z env =
    (if pz_project_id z \<noteq> en_project_id env then
       Inl (ProjectScopeMismatch (en_project_id env) (pz_project_id z))
     else Inr \<lparr>ac_authorization = z, ac_envelope = env\<rparr>)"

datatype change_operation = Upsert | Delete

record mutation_command =
  mc_command :: "unit authorized_command"
  mc_fingerprint :: command_fingerprint
  mc_resource :: resource_ref
  mc_change :: change_operation
  mc_resource_body :: "bytes option"

datatype resource_state = Present bytes | Deleted

record canonical_resource =
  cr_scope :: project_scope
  cr_resource :: resource_ref
  cr_revision :: revision
  cr_state :: resource_state

record command_receipt =
  cp_command_id :: command_id
  cp_fingerprint :: command_fingerprint
  cp_tenant_id :: tenant_id
  cp_project_id :: project_id
  cp_actor_id :: actor_id
  cp_project_seq :: project_sequence
  cp_resource :: resource_ref
  cp_revision :: revision
  cp_committed_at_ms :: i64

record audit_entry =
  au_tenant_id :: tenant_id
  au_project_id :: project_id
  au_project_seq :: project_sequence
  au_command_id :: command_id
  au_operation :: operation_name
  au_resource :: resource_ref
  au_actor_id :: actor_id
  au_committed_at_ms :: i64

section \<open>Type invariants and accessors\<close>

definition ref_ok :: "resource_ref \<Rightarrow> bool" where
  "ref_ok r \<longleftrightarrow> name_ok (rf_kind r) \<and> id_ok (rf_id r)"

definition command_scope :: "mutation_command \<Rightarrow> project_scope" where
  "command_scope c = authorization_scope (ac_authorization (mc_command c))"

definition command_actor :: "mutation_command \<Rightarrow> actor_id" where
  "command_actor c = pz_actor_id (ac_authorization (mc_command c))"

definition command_id_of :: "mutation_command \<Rightarrow> command_id" where
  "command_id_of c = en_command_id (ac_envelope (mc_command c))"

text \<open>
  What the Rust types guarantee of every \<open>MutationCommand\<close>. Nothing below depends on the expected
  revision being positive, so that part of its type is left out.
\<close>

definition command_ok :: "mutation_command \<Rightarrow> bool" where
  "command_ok c \<longleftrightarrow>
     authorization_ok (ac_authorization (mc_command c)) \<and>
     en_project_id (ac_envelope (mc_command c)) = pz_project_id (ac_authorization (mc_command c)) \<and>
     id_ok (command_id_of c) \<and>
     name_ok (en_operation (ac_envelope (mc_command c))) \<and>
     fingerprint_ok (mc_fingerprint c) \<and> ref_ok (mc_resource c)"

definition body_matches_change :: "change_operation \<Rightarrow> bytes option \<Rightarrow> bool" where
  "body_matches_change ch body \<longleftrightarrow> (ch = Upsert) = (body \<noteq> None)"

lemma body_matches_change_simps [simp]:
  "body_matches_change Upsert (Some b)" "body_matches_change Delete None"
  "\<not> body_matches_change Upsert None" "\<not> body_matches_change Delete (Some b)"
  by (simp_all add: body_matches_change_def)

lemma command_authorize_Inr_iff [result_iffs]:
  "command_authorize z env = Inr c \<longleftrightarrow> en_project_id env = pz_project_id z \<and>
     c = \<lparr>ac_authorization = z, ac_envelope = env\<rparr>"
  by (auto simp: command_authorize_def)

definition receipt_scope :: "command_receipt \<Rightarrow> project_scope" where
  "receipt_scope r = scope_new (cp_tenant_id r) (cp_project_id r)"

definition state_of :: "change_operation \<Rightarrow> bytes option \<Rightarrow> resource_state" where
  "state_of ch body = (case ch of Upsert \<Rightarrow> Present (the body) | Delete \<Rightarrow> Deleted)"

end
