(* ===== verification/Domain_Handoff.thy ===== *)
theory Domain_Handoff
  imports Domain_Command
begin

text \<open>
  \<open>aidememo-domain/src/handoff.rs\<close>: sessions, facts, handoff context packets and the handoff
  record with its claim, lease and return transitions. A method taking \<open>&mut self\<close> returns the
  updated record; every check of such a method precedes its first assignment, so an error leaves
  the record as it was.
\<close>

section \<open>Text validation and mailbox queries\<close>

definition MAX_TOPIC_BYTES :: nat where "MAX_TOPIC_BYTES = 512"
definition MAX_FACT_BYTES :: nat where "MAX_FACT_BYTES = 65536"
definition MAX_HANDOFF_CONTEXT_BYTES :: nat where "MAX_HANDOFF_CONTEXT_BYTES = 65536"
definition MAX_HANDOFF_TEXT_BYTES :: nat where "MAX_HANDOFF_TEXT_BYTES = 4096"
definition MAX_MAILBOX_LIMIT :: nat where "MAX_MAILBOX_LIMIT = 100"
definition MAX_HANDOFF_LEASE_MS :: i64 where "MAX_HANDOFF_LEASE_MS = 24 * 60 * 60 * 1000"

definition validate_text :: "string \<Rightarrow> string \<Rightarrow> nat \<Rightarrow> unit domain_result" where
  "validate_text label s max_bytes =
    (if trim_is_empty s \<or> length s > max_bytes then
       Inl (InvalidCommand (Text (label @ '' must contain 1 to '' @ nat_text max_bytes @ '' bytes'')))
     else if list_ex (\<lambda>c. is_control c \<and> c \<notin> {10, 13, 9}) (utf8_chars s) then
       Inl (InvalidCommand (Text (label @ '' must not contain control characters'')))
     else Inr ())"

definition validate_optional_text :: "string \<Rightarrow> string option \<Rightarrow> nat \<Rightarrow> unit domain_result" where
  "validate_optional_text label v max_bytes =
     (case v of None \<Rightarrow> Inr () | Some s \<Rightarrow> validate_text label s max_bytes)"

datatype handoff_mailbox = Inbox | Outbox

record handoff_query =
  hq_mailbox :: handoff_mailbox
  hq_source_id :: "source_id option"
  hq_include_completed :: bool
  hq_before_seq :: "project_sequence option"
  hq_limit :: nat

definition handoff_query_new ::
  "handoff_mailbox \<Rightarrow> source_id option \<Rightarrow> bool \<Rightarrow> project_sequence option \<Rightarrow> nat
    \<Rightarrow> handoff_query domain_result" where
  "handoff_query_new mailbox source include before limit =
    (if limit = 0 \<or> limit > MAX_MAILBOX_LIMIT then
       Inl (InvalidCommand (Text ''handoff mailbox limit must be between 1 and 100''))
     else Inr \<lparr>hq_mailbox = mailbox, hq_source_id = source, hq_include_completed = include,
               hq_before_seq = before, hq_limit = limit\<rparr>)"

section \<open>Sessions, facts and context packets\<close>

record session_record =
  se_session_id :: session_id
  se_source_id :: "source_id option"
  se_topic :: string
  se_created_by :: actor_id

definition session_new ::
  "session_id \<Rightarrow> source_id option \<Rightarrow> string \<Rightarrow> actor_id \<Rightarrow> session_record domain_result" where
  "session_new sid source topic by_actor =
     and_then (validate_text ''session topic'' topic MAX_TOPIC_BYTES) (\<lambda>_.
       Inr \<lparr>se_session_id = sid, se_source_id = source, se_topic = topic, se_created_by = by_actor\<rparr>)"

record fact_record =
  fa_fact_id :: fact_id
  fa_session_id :: session_id
  fa_source_id :: "source_id option"
  fa_actor_id :: actor_id
  fa_content :: string

definition fact_new ::
  "fact_id \<Rightarrow> session_id \<Rightarrow> source_id option \<Rightarrow> actor_id \<Rightarrow> string \<Rightarrow> fact_record domain_result" where
  "fact_new fid sid source actor content =
     and_then (validate_text ''fact content'' content MAX_FACT_BYTES) (\<lambda>_.
       Inr \<lparr>fa_fact_id = fid, fa_session_id = sid, fa_source_id = source, fa_actor_id = actor,
            fa_content = content\<rparr>)"

record handoff_context_record =
  hc_context_id :: resource_id
  hc_handoff_id :: handoff_id
  hc_session_id :: session_id
  hc_source_id :: "source_id option"
  hc_from_actor :: actor_id
  hc_to_actor :: actor_id
  hc_content :: string

definition context_new ::
  "resource_id \<Rightarrow> handoff_id \<Rightarrow> session_record \<Rightarrow> actor_id \<Rightarrow> actor_id \<Rightarrow> string
    \<Rightarrow> handoff_context_record domain_result" where
  "context_new cid hid session from_actor to_actor content =
    (if from_actor = to_actor then
       Inl (InvalidCommand (Text ''handoff context sender and receiver must differ''))
     else and_then (validate_text ''handoff context'' content MAX_HANDOFF_CONTEXT_BYTES) (\<lambda>_.
       Inr \<lparr>hc_context_id = cid, hc_handoff_id = hid, hc_session_id = se_session_id session,
            hc_source_id = se_source_id session, hc_from_actor = from_actor,
            hc_to_actor = to_actor, hc_content = content\<rparr>))"

definition context_is_visible_to :: "handoff_context_record \<Rightarrow> actor_id \<Rightarrow> bool" where
  "context_is_visible_to c actor \<longleftrightarrow> hc_from_actor c = actor \<or> hc_to_actor c = actor"

section \<open>The handoff record\<close>

datatype handoff_status = Pending | Accepted | Completed
datatype handoff_outcome = Succeeded | Failed

record handoff_record =
  hr_handoff_id :: handoff_id
  hr_session_id :: session_id
  hr_source_id :: "source_id option"
  hr_from_actor :: actor_id
  hr_to_actor :: actor_id
  hr_focus :: "string option"
  hr_done_when :: "string option"
  hr_context_id :: "resource_id option"
  hr_status :: handoff_status
  hr_claim_id :: "claim_id option"
  hr_claim_heartbeat_at_ms :: "i64 option"
  hr_claim_expires_at_ms :: "i64 option"
  hr_attempt_count :: u64
  hr_result_fact_id :: "fact_id option"
  hr_outcome :: "handoff_outcome option"

record handoff_list_entry =
  hl_project_seq :: project_sequence
  hl_revision :: revision
  hl_record :: handoff_record

record handoff_page =
  hp_assignments :: "handoff_list_entry list"
  hp_next_before_seq :: "project_sequence option"

definition handoff_new ::
  "handoff_id \<Rightarrow> session_record \<Rightarrow> actor_id \<Rightarrow> actor_id \<Rightarrow> string option \<Rightarrow> string option
    \<Rightarrow> handoff_record domain_result" where
  "handoff_new hid session from_actor to_actor focus done_when =
    (if from_actor = to_actor then
       Inl (InvalidCommand (Text ''handoff sender and receiver must differ''))
     else and_then (validate_optional_text ''handoff focus'' focus MAX_HANDOFF_TEXT_BYTES) (\<lambda>_.
       and_then (validate_optional_text ''handoff done_when'' done_when MAX_HANDOFF_TEXT_BYTES) (\<lambda>_.
         Inr \<lparr>hr_handoff_id = hid, hr_session_id = se_session_id session,
              hr_source_id = se_source_id session, hr_from_actor = from_actor,
              hr_to_actor = to_actor, hr_focus = focus, hr_done_when = done_when,
              hr_context_id = None, hr_status = Pending, hr_claim_id = None,
              hr_claim_heartbeat_at_ms = None, hr_claim_expires_at_ms = None,
              hr_attempt_count = 0, hr_result_fact_id = None, hr_outcome = None\<rparr>)))"

definition attach_context ::
  "handoff_record \<Rightarrow> handoff_context_record \<Rightarrow> handoff_record domain_result" where
  "attach_context h c =
    (if hc_handoff_id c \<noteq> hr_handoff_id h then
       Inl (HandoffConflict ''context belongs to a different handoff'')
     else if hc_session_id c \<noteq> hr_session_id h then
       Inl (HandoffConflict ''context belongs to a different session'')
     else if hc_source_id c \<noteq> hr_source_id h then
       Inl (HandoffConflict ''context belongs to a different source'')
     else if hc_from_actor c \<noteq> hr_from_actor h \<or> hc_to_actor c \<noteq> hr_to_actor h then
       Inl (HandoffConflict ''context actor route does not match the handoff'')
     else Inr (h\<lparr>hr_context_id := Some (hc_context_id c)\<rparr>))"

definition handoff_is_visible_to :: "handoff_record \<Rightarrow> actor_id \<Rightarrow> bool" where
  "handoff_is_visible_to h actor \<longleftrightarrow> hr_from_actor h = actor \<or> hr_to_actor h = actor"

section \<open>Claims and leases\<close>

definition require_receiver :: "handoff_record \<Rightarrow> actor_id \<Rightarrow> unit domain_result" where
  "require_receiver h actor =
     (if hr_to_actor h = actor then Inr () else Inl HandoffActorMismatch)"

definition begin_claim :: "handoff_record \<Rightarrow> claim_id \<Rightarrow> handoff_record domain_result" where
  "begin_claim h claim =
     and_then (ok_or (HandoffConflict ''handoff attempt counter overflow'')
        (u64_checked_add (hr_attempt_count h) 1)) (\<lambda>n.
       Inr (h\<lparr>hr_attempt_count := n, hr_status := Accepted, hr_claim_id := Some claim,
              hr_claim_heartbeat_at_ms := None, hr_claim_expires_at_ms := None,
              hr_result_fact_id := None, hr_outcome := None\<rparr>))"

definition begin_claim_with_lease ::
  "handoff_record \<Rightarrow> claim_id \<Rightarrow> i64 \<Rightarrow> i64 \<Rightarrow> handoff_record domain_result" where
  "begin_claim_with_lease h claim now_ms expires_at_ms =
     and_then (begin_claim h claim) (\<lambda>h'.
       Inr (h'\<lparr>hr_claim_heartbeat_at_ms := Some now_ms,
               hr_claim_expires_at_ms := Some expires_at_ms\<rparr>))"

definition lease_expiry :: "i64 \<Rightarrow> i64 \<Rightarrow> i64 domain_result" where
  "lease_expiry now_ms lease_ms =
    (if now_ms < 0 then
       Inl (HandoffConflict ''handoff lease clock must be non-negative'')
     else if lease_ms \<le> 0 \<or> lease_ms > MAX_HANDOFF_LEASE_MS then
       Inl (HandoffConflict ''handoff lease must be between 1 and 86400000 milliseconds'')
     else ok_or (HandoffConflict ''handoff lease deadline overflow'')
       (i64_checked_add now_ms lease_ms))"

definition claim_is_stale_at :: "handoff_record \<Rightarrow> i64 \<Rightarrow> bool" where
  "claim_is_stale_at h now_ms \<longleftrightarrow> hr_status h = Accepted \<and> hr_outcome h \<noteq> Some Failed \<and>
     (case hr_claim_expires_at_ms h of None \<Rightarrow> False | Some e \<Rightarrow> now_ms \<ge> e)"

definition accept :: "handoff_record \<Rightarrow> actor_id \<Rightarrow> claim_id \<Rightarrow> handoff_record domain_result" where
  "accept h actor claim =
     and_then (require_receiver h actor) (\<lambda>_.
       case hr_status h of
         Pending \<Rightarrow> begin_claim h claim
       | Accepted \<Rightarrow>
           if hr_claim_id h = Some claim then Inr h
           else if hr_outcome h = Some Failed then begin_claim h claim
           else Inl (HandoffConflict ''handoff is already claimed by another worker'')
       | Completed \<Rightarrow> Inl (HandoffConflict ''completed handoff cannot be accepted''))"

definition accept_with_lease ::
  "handoff_record \<Rightarrow> actor_id \<Rightarrow> claim_id \<Rightarrow> i64 \<Rightarrow> i64 \<Rightarrow> handoff_record domain_result" where
  "accept_with_lease h actor claim now_ms lease_ms =
     and_then (require_receiver h actor) (\<lambda>_.
     and_then (lease_expiry now_ms lease_ms) (\<lambda>expires_at_ms.
       let stale = claim_is_stale_at h now_ms in
       case hr_status h of
         Pending \<Rightarrow> begin_claim_with_lease h claim now_ms expires_at_ms
       | Accepted \<Rightarrow>
           if hr_claim_id h = Some claim \<and> \<not> stale then Inr h
           else if hr_claim_id h = Some claim then
             Inl (HandoffConflict ''handoff claim lease expired; acquire a new claim'')
           else if hr_outcome h = Some Failed \<or> stale then
             begin_claim_with_lease h claim now_ms expires_at_ms
           else Inl (HandoffConflict ''handoff is already claimed by another live worker'')
       | Completed \<Rightarrow> Inl (HandoffConflict ''completed handoff cannot be accepted'')))"

definition heartbeat ::
  "handoff_record \<Rightarrow> actor_id \<Rightarrow> claim_id \<Rightarrow> i64 \<Rightarrow> i64 \<Rightarrow> handoff_record domain_result" where
  "heartbeat h actor claim now_ms lease_ms =
     and_then (require_receiver h actor) (\<lambda>_.
     and_then (lease_expiry now_ms lease_ms) (\<lambda>expires_at_ms.
       if hr_status h \<noteq> Accepted then
         Inl (HandoffConflict ''handoff must be accepted before heartbeat'')
       else if hr_claim_id h \<noteq> Some claim then
         Inl (HandoffConflict ''heartbeat claim does not match the active handoff claim'')
       else if hr_outcome h = Some Failed then
         Inl (HandoffConflict ''failed handoff claim cannot be heartbeated'')
       else if claim_is_stale_at h now_ms then
         Inl (HandoffConflict ''handoff claim lease expired'')
       else Inr (h\<lparr>hr_claim_heartbeat_at_ms := Some now_ms,
                   hr_claim_expires_at_ms := Some expires_at_ms\<rparr>)))"

section \<open>Returning a result\<close>

definition validate_result_fact :: "handoff_record \<Rightarrow> fact_record \<Rightarrow> unit domain_result" where
  "validate_result_fact h f =
    (if fa_session_id f \<noteq> hr_session_id h then
       Inl (HandoffConflict ''result fact belongs to a different session'')
     else if fa_source_id f \<noteq> hr_source_id h then
       Inl (HandoffConflict ''result fact belongs to a different source'')
     else if fa_actor_id f \<noteq> hr_to_actor h then
       Inl (HandoffConflict ''result fact was not written by the receiving actor'')
     else Inr ())"

definition return_result ::
  "handoff_record \<Rightarrow> actor_id \<Rightarrow> claim_id \<Rightarrow> fact_record \<Rightarrow> handoff_outcome
    \<Rightarrow> handoff_record domain_result" where
  "return_result h actor claim f outcome =
     and_then (require_receiver h actor) (\<lambda>_.
     and_then (validate_result_fact h f) (\<lambda>_.
       if hr_status h = Completed then
         (if hr_claim_id h = Some claim \<and> hr_result_fact_id h = Some (fa_fact_id f) \<and>
             hr_outcome h = Some outcome then Inr h
          else Inl (HandoffConflict ''handoff is already completed with different evidence''))
       else if hr_status h \<noteq> Accepted then
         Inl (HandoffConflict ''handoff must be accepted before returning a result'')
       else if hr_claim_id h \<noteq> Some claim then
         Inl (HandoffConflict ''result claim does not match the active handoff claim'')
       else
         let h' = h\<lparr>hr_result_fact_id := Some (fa_fact_id f), hr_outcome := Some outcome\<rparr> in
         if outcome = Succeeded then Inr (h'\<lparr>hr_status := Completed\<rparr>)
         else Inr (h'\<lparr>hr_claim_heartbeat_at_ms := None, hr_claim_expires_at_ms := None\<rparr>)))"

definition return_result_at ::
  "handoff_record \<Rightarrow> actor_id \<Rightarrow> claim_id \<Rightarrow> fact_record \<Rightarrow> handoff_outcome \<Rightarrow> i64
    \<Rightarrow> handoff_record domain_result" where
  "return_result_at h actor claim f outcome now_ms =
     and_then (require_receiver h actor) (\<lambda>_.
       if hr_status h = Accepted \<and> hr_claim_id h \<noteq> Some claim then
         Inl (HandoffConflict ''result claim does not match the active handoff claim'')
       else if claim_is_stale_at h now_ms then
         Inl (HandoffConflict ''handoff claim lease expired before result return'')
       else return_result h actor claim f outcome)"

end
