(* ===== verification/Handoff_Lifecycle.thy ===== *)
theory Handoff_Lifecycle
  imports Domain_Handoff
begin

text \<open>
  The lifecycle of one handoff under the server-facing transitions of
  \<open>aidememo-domain/src/handoff.rs\<close> (the ones \<open>aidememo-server/src/product.rs\<close> calls): a step
  relation, its reachable states and their invariant, exclusivity of live claims, loss of expired
  claims and the evidence a completion rests on.
\<close>

section \<open>Operations and reachable records\<close>

datatype handoff_op =
    OpAttach handoff_context_record
  | OpAccept actor_id claim_id i64 i64
  | OpHeartbeat actor_id claim_id i64 i64
  | OpReturn actor_id claim_id fact_record handoff_outcome i64

fun apply_handoff_op :: "handoff_op \<Rightarrow> handoff_record \<Rightarrow> handoff_record domain_result" where
  "apply_handoff_op (OpAttach c) h = attach_context h c"
| "apply_handoff_op (OpAccept a cl now lease) h = accept_with_lease h a cl now lease"
| "apply_handoff_op (OpHeartbeat a cl now lease) h = heartbeat h a cl now lease"
| "apply_handoff_op (OpReturn a cl f out now) h = return_result_at h a cl f out now"

inductive handoff_reachable :: "handoff_record \<Rightarrow> bool" where
  sent: "handoff_new hid session from_actor to_actor focus done_when = Inr h \<Longrightarrow>
    handoff_reachable h"
| step: "handoff_reachable h \<Longrightarrow> apply_handoff_op op h = Inr h' \<Longrightarrow> handoff_reachable h'"

definition handoff_inv :: "handoff_record \<Rightarrow> bool" where
  "handoff_inv h \<longleftrightarrow> hr_from_actor h \<noteq> hr_to_actor h \<and>
     (case hr_status h of
        Pending \<Rightarrow> hr_claim_id h = None \<and> hr_attempt_count h = 0 \<and>
          hr_claim_heartbeat_at_ms h = None \<and> hr_claim_expires_at_ms h = None \<and>
          hr_result_fact_id h = None \<and> hr_outcome h = None
      | Accepted \<Rightarrow> hr_claim_id h \<noteq> None \<and> hr_attempt_count h \<noteq> 0 \<and>
          (if hr_outcome h = Some Failed then
             hr_result_fact_id h \<noteq> None \<and> hr_claim_heartbeat_at_ms h = None \<and>
             hr_claim_expires_at_ms h = None
           else hr_outcome h = None \<and> hr_result_fact_id h = None \<and>
             (\<exists>b e. hr_claim_heartbeat_at_ms h = Some b \<and> hr_claim_expires_at_ms h = Some e \<and>
                0 \<le> b \<and> b < e \<and> e \<le> b + MAX_HANDOFF_LEASE_MS \<and> e \<le> i64_max))
      | Completed \<Rightarrow> hr_claim_id h \<noteq> None \<and> hr_attempt_count h \<noteq> 0 \<and>
          hr_outcome h = Some Succeeded \<and> hr_result_fact_id h \<noteq> None)"

section \<open>Component lemmas\<close>

lemma require_receiver_Inr_iff [result_iffs]:
  "require_receiver h actor = Inr u \<longleftrightarrow> actor = hr_to_actor h"
  by (auto simp: require_receiver_def)

lemma lease_expiry_Inr_iff [result_iffs]:
  "lease_expiry now lease = Inr e \<longleftrightarrow> 0 \<le> now \<and> 0 < lease \<and> lease \<le> MAX_HANDOFF_LEASE_MS \<and>
     now + lease \<le> i64_max \<and> e = now + lease"
  by (auto simp: lease_expiry_def i64_checked_add_def i64_min_def result_iffs)

lemma begin_claim_Inr:
  "begin_claim h claim = Inr h' \<longleftrightarrow> uint (hr_attempt_count h) + 1 < 2 ^ 64 \<and>
     h' = h\<lparr>hr_attempt_count := hr_attempt_count h + 1, hr_status := Accepted,
            hr_claim_id := Some claim, hr_claim_heartbeat_at_ms := None,
            hr_claim_expires_at_ms := None, hr_result_fact_id := None, hr_outcome := None\<rparr>"
  by (auto simp: begin_claim_def u64_checked_add_def result_iffs)

lemma begin_claim_with_lease_Inr:
  "begin_claim_with_lease h claim now e = Inr h' \<longleftrightarrow> uint (hr_attempt_count h) + 1 < 2 ^ 64 \<and>
     h' = h\<lparr>hr_attempt_count := hr_attempt_count h + 1, hr_status := Accepted,
            hr_claim_id := Some claim, hr_claim_heartbeat_at_ms := Some now,
            hr_claim_expires_at_ms := Some e, hr_result_fact_id := None, hr_outcome := None\<rparr>"
  by (auto simp: begin_claim_with_lease_def begin_claim_Inr result_iffs)

lemma succ_nonzero_u64:
  assumes "uint (n :: u64) + 1 < 2 ^ 64"
  shows "n + 1 \<noteq> 0"
proof -
  have "0 < uint (n + 1)"
    using uint_succ_u64 [OF assms] uint_u64_bounds(1) [of n] by linarith
  then show ?thesis
    by (metis less_irrefl unsigned_0)
qed

lemmas handoff_defs =
  attach_context_def accept_with_lease_def heartbeat_def return_result_def return_result_at_def
  validate_result_fact_def claim_is_stale_at_def begin_claim_with_lease_Inr

lemma attach_context_frame:
  "attach_context h c = Inr h' \<Longrightarrow> h' = h\<lparr>hr_context_id := Some (hc_context_id c)\<rparr>"
  by (auto simp: attach_context_def split: if_splits)

lemma accept_with_lease_Inr:
  assumes "accept_with_lease h a cl now lease = Inr h'"
  shows "a = hr_to_actor h" and "0 \<le> now" and "0 < lease" and "lease \<le> MAX_HANDOFF_LEASE_MS"
    and "now + lease \<le> i64_max" and "hr_status h \<noteq> Completed"
    and "(h' = h \<and> hr_status h = Accepted \<and> hr_claim_id h = Some cl \<and> \<not> claim_is_stale_at h now) \<or>
         (begin_claim_with_lease h cl now (now + lease) = Inr h' \<and>
           (hr_status h = Pending \<or> hr_status h = Accepted \<and> hr_claim_id h \<noteq> Some cl \<and>
              (hr_outcome h = Some Failed \<or> claim_is_stale_at h now)))"
  using assms
  by (auto simp: accept_with_lease_def result_iffs Let_def split: handoff_status.splits if_splits)

lemma heartbeat_Inr_iff [result_iffs]:
  "heartbeat h a cl now lease = Inr h' \<longleftrightarrow>
     a = hr_to_actor h \<and> 0 \<le> now \<and> 0 < lease \<and> lease \<le> MAX_HANDOFF_LEASE_MS \<and>
     now + lease \<le> i64_max \<and> hr_status h = Accepted \<and> hr_claim_id h = Some cl \<and>
     hr_outcome h \<noteq> Some Failed \<and> \<not> claim_is_stale_at h now \<and>
     h' = h\<lparr>hr_claim_heartbeat_at_ms := Some now, hr_claim_expires_at_ms := Some (now + lease)\<rparr>"
  by (auto simp: heartbeat_def result_iffs split: if_splits)

lemma validate_result_fact_Inr_iff [result_iffs]:
  "validate_result_fact h f = Inr u \<longleftrightarrow> fa_session_id f = hr_session_id h \<and>
     fa_source_id f = hr_source_id h \<and> fa_actor_id f = hr_to_actor h"
  by (auto simp: validate_result_fact_def)

lemma return_result_at_Inr:
  assumes "return_result_at h a cl f out now = Inr h'"
  shows "a = hr_to_actor h" and "hr_claim_id h = Some cl" and "\<not> claim_is_stale_at h now"
    and "fa_session_id f = hr_session_id h" and "fa_source_id f = hr_source_id h"
    and "fa_actor_id f = hr_to_actor h"
    and "(hr_status h = Completed \<and> h' = h \<and> hr_result_fact_id h = Some (fa_fact_id f) \<and>
           hr_outcome h = Some out) \<or>
         (hr_status h = Accepted \<and>
           (let g = h\<lparr>hr_result_fact_id := Some (fa_fact_id f), hr_outcome := Some out\<rparr> in
            h' = (if out = Succeeded then g\<lparr>hr_status := Completed\<rparr>
                  else g\<lparr>hr_claim_heartbeat_at_ms := None, hr_claim_expires_at_ms := None\<rparr>)))"
  using assms
  by (auto simp: return_result_at_def return_result_def result_iffs Let_def
      split: if_splits handoff_outcome.splits)

section \<open>The invariant\<close>

lemma handoff_new_inv:
  "handoff_new hid s fa ta fo dw = Inr h \<Longrightarrow> handoff_inv h"
  by (auto simp: handoff_new_def handoff_inv_def result_iffs split: if_splits)

lemma begin_claim_with_lease_inv:
  assumes "begin_claim_with_lease h cl now (now + lease) = Inr h'"
    and "hr_from_actor h \<noteq> hr_to_actor h" "0 \<le> now" "0 < lease"
    and "lease \<le> MAX_HANDOFF_LEASE_MS" "now + lease \<le> i64_max"
  shows "handoff_inv h'"
  using assms succ_nonzero_u64 [of "hr_attempt_count h"]
  by (auto simp: begin_claim_with_lease_Inr handoff_inv_def)

lemma handoff_inv_route: "handoff_inv h \<Longrightarrow> hr_from_actor h \<noteq> hr_to_actor h"
  by (simp add: handoff_inv_def)

lemma accept_inv:
  assumes "handoff_inv h" "accept_with_lease h a cl now lease = Inr h'"
  shows "handoff_inv h'"
proof -
  have "h' = h \<or> begin_claim_with_lease h cl now (now + lease) = Inr h'"
    using accept_with_lease_Inr(7) [OF assms(2)] by blast
  moreover have "handoff_inv h'" if "begin_claim_with_lease h cl now (now + lease) = Inr h'"
    using that
    by (rule begin_claim_with_lease_inv)
      (use accept_with_lease_Inr(2-5) [OF assms(2)] handoff_inv_route [OF assms(1)] in auto)
  ultimately show ?thesis
    using assms(1) by blast
qed

lemma heartbeat_inv:
  assumes "handoff_inv h" "heartbeat h a cl now lease = Inr h'"
  shows "handoff_inv h'"
  using assms by (auto simp: handoff_inv_def result_iffs)

lemma completed_inv:
  assumes "hr_from_actor h \<noteq> hr_to_actor h" "hr_claim_id h \<noteq> None" "hr_attempt_count h \<noteq> 0"
  shows "handoff_inv (h\<lparr>hr_result_fact_id := Some f, hr_outcome := Some Succeeded,
           hr_status := Completed\<rparr>)"
  using assms by (simp add: handoff_inv_def)

lemma failed_inv:
  assumes "hr_from_actor h \<noteq> hr_to_actor h" "hr_claim_id h \<noteq> None" "hr_attempt_count h \<noteq> 0"
    and "hr_status h = Accepted"
  shows "handoff_inv (h\<lparr>hr_result_fact_id := Some f, hr_outcome := Some Failed,
           hr_claim_heartbeat_at_ms := None, hr_claim_expires_at_ms := None\<rparr>)"
  using assms by (simp add: handoff_inv_def)

lemma return_inv:
  assumes "handoff_inv h" "return_result_at h a cl f out now = Inr h'"
  shows "handoff_inv h'"
proof (cases "hr_status h = Completed")
  case True
  with return_result_at_Inr(7) [OF assms(2)] assms(1) show ?thesis by auto
next
  case False
  with return_result_at_Inr(7) [OF assms(2)] have acc: "hr_status h = Accepted"
    and h': "let g = h\<lparr>hr_result_fact_id := Some (fa_fact_id f), hr_outcome := Some out\<rparr> in
            h' = (if out = Succeeded then g\<lparr>hr_status := Completed\<rparr>
                  else g\<lparr>hr_claim_heartbeat_at_ms := None, hr_claim_expires_at_ms := None\<rparr>)"
    by blast+
  have *: "hr_from_actor h \<noteq> hr_to_actor h" "hr_claim_id h \<noteq> None" "hr_attempt_count h \<noteq> 0"
    using assms(1) acc by (simp_all add: handoff_inv_def)
  show ?thesis
    by (cases out) (use h' completed_inv [OF *] failed_inv [OF * acc] in \<open>simp_all add: Let_def\<close>)
qed

lemma attach_inv:
  assumes "handoff_inv h" "attach_context h c = Inr h'"
  shows "handoff_inv h'"
  using assms attach_context_frame by (fastforce simp: handoff_inv_def split: handoff_status.splits)

lemma handoff_op_inv:
  assumes "handoff_inv h" "apply_handoff_op op h = Inr h'"
  shows "handoff_inv h'"
  by (cases op)
    (use assms in \<open>auto intro: accept_inv heartbeat_inv return_inv attach_inv\<close>)

text \<open>Identity, session, source and route never change; attempts grow by at most one.\<close>

definition handoff_route :: "handoff_record \<Rightarrow> handoff_id \<times> session_id \<times> source_id option \<times> actor_id \<times> actor_id" where
  "handoff_route h = (hr_handoff_id h, hr_session_id h, hr_source_id h, hr_from_actor h, hr_to_actor h)"

lemma handoff_op_route:
  assumes "apply_handoff_op op h = Inr h'"
  shows "handoff_route h' = handoff_route h"
proof (cases op)
  case (OpAttach c)
  with assms show ?thesis by (auto simp: handoff_route_def dest: attach_context_frame)
next
  case (OpAccept a cl now lease)
  with assms accept_with_lease_Inr(7) [of h a cl now lease h'] show ?thesis
    by (auto simp: handoff_route_def begin_claim_with_lease_Inr)
next
  case (OpHeartbeat a cl now lease)
  with assms show ?thesis by (auto simp: handoff_route_def result_iffs)
next
  case (OpReturn a cl f out now)
  with assms return_result_at_Inr(7) [of h a cl f out now h'] show ?thesis
    by (cases out) (auto simp: handoff_route_def Let_def)
qed

lemma handoff_op_completed:
  assumes "apply_handoff_op op h = Inr h'" "hr_status h = Completed"
  shows "h' = h \<or> (\<exists>c. op = OpAttach c \<and> h' = h\<lparr>hr_context_id := Some (hc_context_id c)\<rparr>)"
proof (cases op)
  case (OpAttach c)
  with assms show ?thesis by (auto dest: attach_context_frame)
next
  case (OpAccept a cl now lease)
  with assms accept_with_lease_Inr(6) [of h a cl now lease h'] show ?thesis by simp
next
  case (OpHeartbeat a cl now lease)
  with assms show ?thesis by (auto simp: result_iffs)
next
  case (OpReturn a cl f out now)
  with assms return_result_at_Inr(7) [of h a cl f out now h'] show ?thesis by auto
qed

lemma reachable_inv: "handoff_reachable h \<Longrightarrow> handoff_inv h"
  by (induction rule: handoff_reachable.induct) (blast intro: handoff_new_inv handoff_op_inv)+

section \<open>Leases\<close>

lemma live_claim_blocks_accept:
  assumes "handoff_inv h" "hr_status h = Accepted" "hr_outcome h \<noteq> Some Failed"
    and "\<not> claim_is_stale_at h now" "hr_claim_id h \<noteq> Some cl"
  shows "\<exists>e. accept_with_lease h a cl now lease = Inl e"
  using assms
  by (cases "accept_with_lease h a cl now lease") (auto dest!: accept_with_lease_Inr(7))

lemma stale_claim_lost:
  assumes "claim_is_stale_at h now"
  shows "heartbeat h a cl now lease \<noteq> Inr h'" "return_result_at h a cl f out now \<noteq> Inr h'"
  using assms by (auto simp: result_iffs dest: return_result_at_Inr(3))

lemma stale_claim_not_revived:
  assumes "claim_is_stale_at h now" "hr_claim_id h = Some cl"
  shows "accept_with_lease h a cl now lease \<noteq> Inr h'"
proof
  assume "accept_with_lease h a cl now lease = Inr h'"
  from accept_with_lease_Inr(7) [OF this] assms show False
    by (auto simp: claim_is_stale_at_def)
qed

lemma stale_claim_replaced:
  assumes "claim_is_stale_at h now" "hr_claim_id h \<noteq> Some cl"
    and "0 \<le> now" "0 < lease" "lease \<le> MAX_HANDOFF_LEASE_MS" "now + lease \<le> i64_max"
    and "uint (hr_attempt_count h) + 1 < 2 ^ 64"
  shows "\<exists>h'. accept_with_lease h (hr_to_actor h) cl now lease = Inr h' \<and>
     hr_claim_id h' = Some cl \<and> hr_claim_expires_at_ms h' = Some (now + lease) \<and>
     hr_attempt_count h' = hr_attempt_count h + 1 \<and> \<not> claim_is_stale_at h' now"
proof -
  have "lease_expiry now lease = Inr (now + lease)"
    using assms by (simp add: result_iffs)
  moreover obtain h' where "begin_claim_with_lease h cl now (now + lease) = Inr h'"
    using assms(7) by (simp add: begin_claim_with_lease_Inr)
  ultimately show ?thesis
    using assms
    by (auto simp: accept_with_lease_def require_receiver_def begin_claim_with_lease_Inr
        claim_is_stale_at_def)
qed

section \<open>Runs\<close>

text \<open>A run of requests: a refused request leaves the stored record unchanged.\<close>

fun run_handoff :: "handoff_op list \<Rightarrow> handoff_record \<Rightarrow> handoff_record" where
  "run_handoff [] h = h"
| "run_handoff (op # ops) h =
     run_handoff ops (case apply_handoff_op op h of Inl _ \<Rightarrow> h | Inr h' \<Rightarrow> h')"

definition handoff_outcome_view ::
  "handoff_record \<Rightarrow> handoff_status \<times> claim_id option \<times> u64 \<times> fact_id option \<times> handoff_outcome option" where
  "handoff_outcome_view h =
     (hr_status h, hr_claim_id h, hr_attempt_count h, hr_result_fact_id h, hr_outcome h)"

lemma run_completed_view:
  "hr_status h = Completed \<Longrightarrow> handoff_outcome_view (run_handoff ops h) = handoff_outcome_view h"
proof (induction ops arbitrary: h)
  case (Cons op ops)
  let ?g = "case apply_handoff_op op h of Inl _ \<Rightarrow> h | Inr h' \<Rightarrow> h'"
  have "?g = h \<or> (\<exists>c. ?g = h\<lparr>hr_context_id := Some c\<rparr>)"
    using handoff_op_completed [of op h] Cons.prems by (cases "apply_handoff_op op h") auto
  then have "hr_status ?g = Completed" "handoff_outcome_view ?g = handoff_outcome_view h"
    using Cons.prems by (auto simp: handoff_outcome_view_def)
  with Cons.IH [of ?g] show ?case by simp
qed simp

lemma completing_op:
  assumes "apply_handoff_op op h = Inr h'" "hr_status h \<noteq> Completed" "hr_status h' = Completed"
  shows "\<exists>cl f now. op = OpReturn (hr_to_actor h) cl f Succeeded now \<and>
     hr_status h = Accepted \<and> hr_claim_id h = Some cl \<and> \<not> claim_is_stale_at h now \<and>
     fa_session_id f = hr_session_id h \<and> fa_source_id f = hr_source_id h \<and>
     fa_actor_id f = hr_to_actor h \<and> hr_result_fact_id h' = Some (fa_fact_id f)"
proof (cases op)
  case (OpAttach c)
  with assms show ?thesis by (auto dest!: attach_context_frame)
next
  case (OpAccept a cl now lease)
  with assms accept_with_lease_Inr(7) [of h a cl now lease h'] show ?thesis
    by (auto simp: begin_claim_with_lease_Inr)
next
  case (OpHeartbeat a cl now lease)
  with assms show ?thesis by (auto simp: result_iffs)
next
  case (OpReturn a cl f out now)
  with assms(1) have r: "return_result_at h a cl f out now = Inr h'" by simp
  from return_result_at_Inr [OF r] assms OpReturn show ?thesis
    by (cases out) (auto simp: Let_def)
qed

section \<open>Example records\<close>

definition demo_session :: session_record where
  "demo_session = \<lparr>se_session_id = ''s1'', se_source_id = Some ''src'', se_topic = ''topic'',
     se_created_by = ''alice''\<rparr>"

definition demo_handoff :: handoff_record where
  "demo_handoff = \<lparr>hr_handoff_id = ''h1'', hr_session_id = ''s1'', hr_source_id = Some ''src'',
     hr_from_actor = ''alice'', hr_to_actor = ''bob'', hr_focus = Some ''review'',
     hr_done_when = None, hr_context_id = None, hr_status = Pending, hr_claim_id = None,
     hr_claim_heartbeat_at_ms = None, hr_claim_expires_at_ms = None, hr_attempt_count = 0,
     hr_result_fact_id = None, hr_outcome = None\<rparr>"

definition demo_claimed :: handoff_record where
  "demo_claimed = demo_handoff\<lparr>hr_status := Accepted, hr_claim_id := Some ''c1'',
     hr_attempt_count := 1, hr_claim_heartbeat_at_ms := Some 1000,
     hr_claim_expires_at_ms := Some 1100\<rparr>"

definition demo_failed :: handoff_record where
  "demo_failed = demo_handoff\<lparr>hr_status := Accepted, hr_claim_id := Some ''c1'',
     hr_attempt_count := 1, hr_result_fact_id := Some ''f1'', hr_outcome := Some Failed\<rparr>"

definition demo_fact :: fact_record where
  "demo_fact = \<lparr>fa_fact_id = ''f1'', fa_session_id = ''s1'', fa_source_id = Some ''src'',
     fa_actor_id = ''bob'', fa_content = ''done''\<rparr>"

lemma demo_handoff_new:
  "handoff_new ''h1'' demo_session ''alice'' ''bob'' (Some ''review'') None = Inr demo_handoff"
  by code_simp

lemma demo_accept: "accept_with_lease demo_handoff ''bob'' ''c1'' 1000 100 = Inr demo_claimed"
  by (simp add: accept_with_lease_def require_receiver_def lease_expiry_def i64_checked_add_def
      i64_min_def i64_max_def MAX_HANDOFF_LEASE_MS_def begin_claim_with_lease_def begin_claim_def
      u64_checked_add_def demo_handoff_def demo_claimed_def)

lemma demo_return_failed:
  "return_result_at demo_claimed ''bob'' ''c1'' demo_fact Failed 1050 = Inr demo_failed"
  by (simp add: return_result_at_def return_result_def require_receiver_def validate_result_fact_def
      claim_is_stale_at_def demo_claimed_def demo_handoff_def demo_fact_def demo_failed_def)

lemma demo_claimed_reachable: "handoff_reachable demo_claimed"
  using handoff_reachable.step [OF handoff_reachable.sent [OF demo_handoff_new],
      of "OpAccept ''bob'' ''c1'' 1000 100"] demo_accept by simp

lemma demo_failed_reachable: "handoff_reachable demo_failed"
  using handoff_reachable.step [OF demo_claimed_reachable,
      of "OpReturn ''bob'' ''c1'' demo_fact Failed 1050"] demo_return_failed by simp

section \<open>Properties\<close>

text \<open>
  Every handoff record reachable from \<open>HandoffRecord::new\<close> through the server-facing
  transitions is well-formed: sender and receiver differ; a pending record has no claim, lease or
  result; an accepted record has a claim and either a running lease of at most 24 hours or a
  failed result without lease; a completed record has a claim, a result fact and the outcome
  \<open>Succeeded\<close>.
\<close>

theorem handoff_wellformed: "handoff_reachable h \<Longrightarrow> handoff_inv h"
  by (rule reachable_inv)

theorem handoff_wellformed_witness:
  "handoff_inv demo_failed \<and> hr_status demo_failed = Accepted"
  using handoff_wellformed [OF demo_failed_reachable] by (simp add: demo_failed_def demo_handoff_def)

text \<open>
  C1. A live claim is exclusive: while its lease runs, every accept, heartbeat or return under
  another claim id is refused, whoever sends it.
\<close>

theorem live_claim_exclusive:
  assumes "handoff_reachable h" "hr_status h = Accepted" "hr_outcome h \<noteq> Some Failed"
    and "\<not> claim_is_stale_at h now" "hr_claim_id h \<noteq> Some cl"
  shows "(\<exists>e. accept_with_lease h a cl now lease = Inl e) \<and>
    (\<exists>e. heartbeat h a cl now lease = Inl e) \<and>
    (\<exists>e. return_result_at h a cl f out now = Inl e)"
proof (intro conjI)
  show "\<exists>e. accept_with_lease h a cl now lease = Inl e"
    using live_claim_blocks_accept [OF reachable_inv] assms by blast
  show "\<exists>e. heartbeat h a cl now lease = Inl e"
    using assms(5) by (cases "heartbeat h a cl now lease") (auto simp: result_iffs)
  show "\<exists>e. return_result_at h a cl f out now = Inl e"
    using assms(5) by (cases "return_result_at h a cl f out now") (auto dest: return_result_at_Inr(2))
qed

theorem live_claim_exclusive_witness:
  "\<exists>e. accept_with_lease demo_claimed ''bob'' ''c2'' 1099 100 = Inl e"
  using live_claim_exclusive [OF demo_claimed_reachable, of 1099 "''c2''" "''bob''" 100]
  by (simp add: demo_claimed_def demo_handoff_def claim_is_stale_at_def)

text \<open>
  An expired claim is lost and replaceable: from its deadline on the old claim can neither
  heartbeat, nor return a result, nor be accepted again, while the receiver can acquire any other
  claim id, which starts a fresh lease and counts one more attempt.
\<close>

theorem expired_claim_lost_and_replaceable:
  assumes "claim_is_stale_at h now" "hr_claim_id h = Some old" "cl \<noteq> old"
    and "0 \<le> now" "0 < lease" "lease \<le> MAX_HANDOFF_LEASE_MS" "now + lease \<le> i64_max"
    and "uint (hr_attempt_count h) + 1 < 2 ^ 64"
  shows "(\<forall>a h'. accept_with_lease h a old now lease \<noteq> Inr h') \<and>
    (\<forall>a h'. heartbeat h a old now lease \<noteq> Inr h') \<and>
    (\<forall>a f out h'. return_result_at h a old f out now \<noteq> Inr h') \<and>
    (\<exists>h'. accept_with_lease h (hr_to_actor h) cl now lease = Inr h' \<and>
       hr_claim_id h' = Some cl \<and> hr_claim_expires_at_ms h' = Some (now + lease) \<and>
       hr_attempt_count h' = hr_attempt_count h + 1 \<and> \<not> claim_is_stale_at h' now)"
  using assms stale_claim_lost [OF assms(1)] stale_claim_not_revived [OF assms(1,2)]
    stale_claim_replaced [OF assms(1)] by auto

theorem expired_claim_lost_and_replaceable_witness:
  "\<exists>h'. accept_with_lease demo_claimed ''bob'' ''c2'' 1100 100 = Inr h' \<and> hr_attempt_count h' = 2"
proof -
  have "claim_is_stale_at demo_claimed 1100" "hr_claim_id demo_claimed = Some ''c1''"
    "hr_to_actor demo_claimed = ''bob''" "hr_attempt_count demo_claimed = 1"
    by (simp_all add: claim_is_stale_at_def demo_claimed_def demo_handoff_def)
  then show ?thesis
    using expired_claim_lost_and_replaceable [of demo_claimed 1100 "''c1''" "''c2''" 100]
    by (auto simp: MAX_HANDOFF_LEASE_MS_def i64_max_def)
qed

text \<open>
  C2. Completion rests on evidence and is final: the only transition into \<open>Completed\<close> is a
  successful return by the receiver, under the current unexpired claim, of a fact of the same
  session and source written by the receiver; afterwards no sequence of requests changes status,
  claim, attempt count, result fact or outcome.
\<close>

theorem completion_needs_evidence_and_is_final:
  assumes "apply_handoff_op op h = Inr h'" "hr_status h \<noteq> Completed" "hr_status h' = Completed"
  shows "(\<exists>cl f now. op = OpReturn (hr_to_actor h) cl f Succeeded now \<and>
      hr_status h = Accepted \<and> hr_claim_id h = Some cl \<and> \<not> claim_is_stale_at h now \<and>
      fa_session_id f = hr_session_id h \<and> fa_source_id f = hr_source_id h \<and>
      fa_actor_id f = hr_to_actor h \<and> hr_result_fact_id h' = Some (fa_fact_id f)) \<and>
    (\<forall>ops. handoff_outcome_view (run_handoff ops h') = handoff_outcome_view h')"
  using completing_op [OF assms] run_completed_view [OF assms(3)] by simp

lemma demo_return_succeeded:
  "apply_handoff_op (OpReturn ''bob'' ''c1'' demo_fact Succeeded 1050) demo_claimed =
     Inr (demo_claimed\<lparr>hr_result_fact_id := Some ''f1'', hr_outcome := Some Succeeded,
       hr_status := Completed\<rparr>)"
  by (simp add: return_result_at_def return_result_def require_receiver_def validate_result_fact_def
      claim_is_stale_at_def demo_claimed_def demo_handoff_def demo_fact_def)

theorem completion_needs_evidence_and_is_final_witness:
  "handoff_outcome_view (run_handoff [OpAccept ''bob'' ''c9'' 2000 100]
     (demo_claimed\<lparr>hr_result_fact_id := Some ''f1'', hr_outcome := Some Succeeded,
       hr_status := Completed\<rparr>)) = (Completed, Some ''c1'', 1, Some ''f1'', Some Succeeded)"
proof -
  let ?X = "demo_claimed\<lparr>hr_result_fact_id := Some ''f1'', hr_outcome := Some Succeeded,
       hr_status := Completed\<rparr>"
  have "hr_status demo_claimed \<noteq> Completed"
    by (simp add: demo_claimed_def)
  then have "\<forall>ops. handoff_outcome_view (run_handoff ops ?X) = handoff_outcome_view ?X"
    using completion_needs_evidence_and_is_final [OF demo_return_succeeded, THEN conjunct2]
    by (simp add: demo_fact_def)
  then have "handoff_outcome_view (run_handoff [OpAccept ''bob'' ''c9'' 2000 100] ?X) =
    handoff_outcome_view ?X"
    by blast
  also have "handoff_outcome_view ?X = (Completed, Some ''c1'', 1, Some ''f1'', Some Succeeded)"
    by (simp add: handoff_outcome_view_def demo_claimed_def)
  finally show ?thesis .
qed

text \<open>
  C3. A failed return does not release its claim: the same claim may report success later, at any
  time and without a new lease, and completes the handoff. (The documentation says a failed
  return is eligible only for a new exclusive claim.)
\<close>

theorem failed_claim_can_still_complete:
  assumes "handoff_reachable h" "hr_status h = Accepted" "hr_outcome h = Some Failed"
    and "hr_claim_id h = Some cl" "fa_session_id f = hr_session_id h"
    and "fa_source_id f = hr_source_id h" "fa_actor_id f = hr_to_actor h"
  shows "\<exists>h'. return_result_at h (hr_to_actor h) cl f Succeeded now = Inr h' \<and>
    hr_status h' = Completed \<and> hr_attempt_count h' = hr_attempt_count h"
  using assms
  by (simp add: return_result_at_def return_result_def require_receiver_def
      validate_result_fact_def claim_is_stale_at_def)

theorem failed_claim_can_still_complete_witness:
  "\<exists>h'. return_result_at demo_failed ''bob'' ''c1'' demo_fact Succeeded 999999 = Inr h' \<and>
    hr_status h' = Completed"
  using failed_claim_can_still_complete [OF demo_failed_reachable, of "''c1''" demo_fact 999999]
  by (auto simp: demo_failed_def demo_handoff_def demo_fact_def)

end
