(* ===== verification/Sql_Table.thy ===== *)
theory Sql_Table
  imports Prelude
begin

text \<open>
  The SQL statements the stores use, over a table as the list of its rows in insertion order.
  A statement that violates a constraint returns \<open>None\<close>; SQLite then reports an error and the
  statement has no effect. \<open>NOT NULL\<close> and \<open>CHECK\<close> constraints are tested before uniqueness,
  foreign keys when a row is really added, as SQLite does.
\<close>

section \<open>Statements\<close>

text \<open>\<open>SELECT ... WHERE p\<close> read with \<open>query_row(..).optional()\<close>: the first row, if any.\<close>

abbreviation select_first :: "('r \<Rightarrow> bool) \<Rightarrow> 'r list \<Rightarrow> 'r option" where
  "select_first \<equiv> find"

definition select_count :: "('r \<Rightarrow> bool) \<Rightarrow> 'r list \<Rightarrow> i64" where
  "select_count p t = int (length (filter p t))"

text \<open>\<open>SELECT ... WHERE p ORDER BY k ASC LIMIT n\<close>.\<close>

definition select_ordered ::
  "('r \<Rightarrow> bool) \<Rightarrow> ('r \<Rightarrow> 'k :: linorder) \<Rightarrow> nat \<Rightarrow> 'r list \<Rightarrow> 'r list" where
  "select_ordered p k n t = take n (sort_key k (filter p t))"

definition insert_row ::
  "('r \<Rightarrow> 'r \<Rightarrow> bool) \<Rightarrow> ('r \<Rightarrow> bool) \<Rightarrow> ('r \<Rightarrow> bool) \<Rightarrow> 'r \<Rightarrow> 'r list \<Rightarrow> 'r list option" where
  "insert_row clash check fk r t =
    (if \<not> check r then None
     else if list_ex (clash r) t then None
     else if fk r then Some (t @ [r]) else None)"

text \<open>\<open>INSERT ... ON CONFLICT (...) DO NOTHING\<close>.\<close>

definition insert_or_ignore ::
  "('r \<Rightarrow> 'r \<Rightarrow> bool) \<Rightarrow> ('r \<Rightarrow> bool) \<Rightarrow> ('r \<Rightarrow> bool) \<Rightarrow> 'r \<Rightarrow> 'r list \<Rightarrow> 'r list option" where
  "insert_or_ignore clash check fk r t =
    (if \<not> check r then None
     else if list_ex (clash r) t then Some t
     else if fk r then Some (t @ [r]) else None)"

text \<open>
  \<open>INSERT ... ON CONFLICT (key) DO UPDATE SET c = excluded.c\<close> where every column outside the key
  is set: the conflicting row becomes the new one, in place.
\<close>

definition upsert_row ::
  "('r \<Rightarrow> 'k) \<Rightarrow> ('r \<Rightarrow> bool) \<Rightarrow> ('r \<Rightarrow> bool) \<Rightarrow> 'r \<Rightarrow> 'r list \<Rightarrow> 'r list option" where
  "upsert_row key check fk r t =
    (if \<not> check r then None
     else if list_ex (\<lambda>u. key u = key r) t then Some (map (\<lambda>u. if key u = key r then r else u) t)
     else if fk r then Some (t @ [r]) else None)"

text \<open>\<open>UPDATE ... SET ... WHERE p\<close>, with the number of changed rows.\<close>

definition update_rows ::
  "('r \<Rightarrow> bool) \<Rightarrow> ('r \<Rightarrow> bool) \<Rightarrow> ('r \<Rightarrow> 'r) \<Rightarrow> 'r list \<Rightarrow> ('r list \<times> nat) option" where
  "update_rows check p f t =
    (if list_all (\<lambda>r. p r \<longrightarrow> check (f r)) t
     then Some (map (\<lambda>r. if p r then f r else r) t, length (filter p t)) else None)"

definition delete_rows :: "('r \<Rightarrow> bool) \<Rightarrow> 'r list \<Rightarrow> 'r list" where
  "delete_rows p t = filter (\<lambda>r. \<not> p r) t"

section \<open>Lemmas\<close>

lemma insert_row_Some [result_iffs]:
  "insert_row clash check fk r t = Some t' \<longleftrightarrow>
     check r \<and> (\<forall>u\<in>set t. \<not> clash r u) \<and> fk r \<and> t' = t @ [r]"
  by (auto simp: insert_row_def list_ex_iff)

lemma find_replaced:
  "find (\<lambda>u. key u = k) (map (\<lambda>u. if key u = key r then r else u) t) =
     (case find (\<lambda>u. key u = k) t of None \<Rightarrow> None | Some u \<Rightarrow> Some (if k = key r then r else u))"
  by (induction t) auto

lemma find_upsert:
  assumes "upsert_row key check fk r t = Some t'"
  shows "find (\<lambda>u. key u = k) t' = (if k = key r then Some r else find (\<lambda>u. key u = k) t)"
proof (cases "list_ex (\<lambda>u. key u = key r) t")
  case True
  with assms have t': "t' = map (\<lambda>u. if key u = key r then r else u) t"
    by (auto simp: upsert_row_def split: if_splits)
  have "find (\<lambda>u. key u = key r) t \<noteq> None"
    using True by (auto simp: find_None_set list_ex_iff)
  then show ?thesis
    unfolding t' find_replaced by (auto split: option.splits)
next
  case False
  then have "find (\<lambda>u. key u = key r) t = None"
    by (simp add: find_None_set list_ex_iff)
  with assms False show ?thesis
    by (auto simp: upsert_row_def find_append split: if_splits option.splits)
qed

lemma upsert_succeeds: "check r \<Longrightarrow> fk r \<Longrightarrow> \<exists>t'. upsert_row key check fk r t = Some t'"
  by (simp add: upsert_row_def)

lemma replaced_keys: "map key (map (\<lambda>u. if key u = key r then r else u) t) = map key t"
  by (induction t) auto

lemma upsert_keys:
  assumes "upsert_row key check fk r t = Some t'" "distinct (map key t)"
  shows "distinct (map key t')"
proof (cases "list_ex (\<lambda>u. key u = key r) t")
  case True
  with assms(1) have "map key t' = map key t"
    by (auto simp: upsert_row_def replaced_keys simp del: map_map split: if_splits)
  with assms(2) show ?thesis by simp
next
  case False
  then have "key r \<notin> key ` set t"
    by (auto simp: list_ex_iff image_iff)
  with assms False show ?thesis
    by (auto simp: upsert_row_def split: if_splits)
qed

lemma find_delete:
  "find (\<lambda>u. key u = k) (delete_rows (\<lambda>u. key u = k') t) =
     (if k = k' then None else find (\<lambda>u. key u = k) t)"
  unfolding delete_rows_def by (induction t) auto

lemma delete_keys: "distinct (map key t) \<Longrightarrow> distinct (map key (delete_rows p t))"
  unfolding delete_rows_def by (induction t) auto

lemma find_map_key:
  assumes "\<And>u. key (f u) = key u"
  shows "find (\<lambda>u. key u = k) (map f t) = map_option f (find (\<lambda>u. key u = k) t)"
  using assms by (induction t) auto

lemma find_key_unique:
  assumes "distinct (map key t)" "r \<in> set t"
  shows "find (\<lambda>u. key u = key r) t = Some r"
  using assms by (induction t) (auto simp: image_iff)

lemma count_key_unique:
  assumes "distinct (map key t)" "find (\<lambda>u. key u = k) t = Some r"
  shows "length (filter (\<lambda>u. key u = k \<and> q u) t) = (if q r then 1 else 0)"
  using assms
proof (induction t)
  case (Cons a t)
  show ?case
  proof (cases "key a = k")
    case True
    with Cons.prems(1) have "\<forall>u\<in>set t. key u \<noteq> k"
      by (auto simp: image_iff)
    then have "filter (\<lambda>u. key u = k \<and> q u) t = []"
      by (auto simp: filter_empty_conv)
    with True Cons.prems show ?thesis by simp
  next
    case False
    with Cons show ?thesis by simp
  qed
qed simp

lemma select_ordered_sorted:
  assumes "sorted (map k (filter p t))"
  shows "select_ordered p k n t = take n (filter p t)"
  using assms by (simp add: select_ordered_def sort_key_id_if_sorted)

end
