(* ===== verification/Domain_Change.thy ===== *)
theory Domain_Change
  imports Domain_Command
begin

text \<open>
  \<open>aidememo-domain/src/change.rs\<close>: the ordered per-project change feed, its cursors, batches
  (plain, projected and materialized) and project snapshots, with the validators.
\<close>

section \<open>Entries, cursors and batches\<close>

record change_entry =
  ce_tenant_id :: tenant_id
  ce_project_id :: project_id
  ce_project_epoch :: project_epoch
  ce_seq :: project_sequence
  ce_resource :: resource_ref
  ce_operation :: change_operation
  ce_revision :: revision
  ce_actor_id :: actor_id
  ce_committed_at_ms :: i64

definition entry_validate :: "change_entry \<Rightarrow> unit domain_result" where
  "entry_validate e =
    (if ce_seq e = 0 then
       Inl (InvalidChangeBatch ''change entry sequence must be greater than zero'')
     else Inr ())"

record change_cursor =
  cu_project_epoch :: project_epoch
  cu_after_seq :: project_sequence

record change_batch =
  cb_scope :: project_scope
  cb_cursor :: change_cursor
  cb_entries :: "change_entry list"
  cb_next_cursor :: change_cursor
  cb_has_more :: bool

text \<open>The loop of \<open>ChangeBatch::new\<close>: returns the last sequence, or the first violation.\<close>

fun batch_scan ::
  "project_scope \<Rightarrow> project_epoch \<Rightarrow> project_sequence \<Rightarrow> change_entry list
    \<Rightarrow> project_sequence domain_result" where
  "batch_scan scope epoch previous [] = Inr previous"
| "batch_scan scope epoch previous (e # es) =
     and_then (entry_validate e) (\<lambda>_.
       if ce_tenant_id e \<noteq> sc_tenant_id scope \<or> ce_project_id e \<noteq> sc_project_id scope then
         Inl (InvalidChangeBatch ''entry project does not match requested project'')
       else if ce_project_epoch e \<noteq> epoch then
         Inl (InvalidChangeBatch ''entry epoch does not match cursor epoch'')
       else if ce_seq e \<le> previous then
         Inl (InvalidChangeBatch
           ''entry sequences must be strictly increasing after the cursor'')
       else batch_scan scope epoch (ce_seq e) es)"

definition batch_new ::
  "project_scope \<Rightarrow> change_cursor \<Rightarrow> change_entry list \<Rightarrow> bool \<Rightarrow> change_batch domain_result" where
  "batch_new scope cursor entries has_more =
     and_then (batch_scan scope (cu_project_epoch cursor) (cu_after_seq cursor) entries)
       (\<lambda>previous.
         if has_more \<and> entries = [] then
           Inl (InvalidChangeBatch ''an empty batch cannot claim additional entries'')
         else Inr \<lparr>cb_scope = scope, cb_cursor = cursor, cb_entries = entries,
                   cb_next_cursor = \<lparr>cu_project_epoch = cu_project_epoch cursor,
                                     cu_after_seq = previous\<rparr>,
                   cb_has_more = has_more\<rparr>)"

definition batch_projected ::
  "project_scope \<Rightarrow> change_cursor \<Rightarrow> change_entry list \<Rightarrow> change_cursor \<Rightarrow> bool
    \<Rightarrow> change_batch domain_result" where
  "batch_projected scope cursor entries next_cursor has_more =
     and_then (batch_new scope cursor entries False) (\<lambda>validated.
       if cu_project_epoch next_cursor \<noteq> cu_project_epoch cursor then
         Inl (InvalidChangeBatch ''projected change cursor changed history epoch'')
       else if cu_after_seq next_cursor < cu_after_seq (cb_next_cursor validated) then
         Inl (InvalidChangeBatch ''projected change cursor precedes a returned entry'')
       else if has_more \<and> cu_after_seq next_cursor \<le> cu_after_seq cursor then
         Inl (InvalidChangeBatch
           ''a projected batch with more entries must advance its cursor'')
       else Inr \<lparr>cb_scope = scope, cb_cursor = cursor, cb_entries = cb_entries validated,
                 cb_next_cursor = next_cursor, cb_has_more = has_more\<rparr>)"

section \<open>Materialized changes\<close>

record materialized_change =
  mz_change :: change_entry
  mz_resource :: canonical_resource

definition state_matches_operation :: "change_operation \<Rightarrow> resource_state \<Rightarrow> bool" where
  "state_matches_operation ch st =
     (case (ch, st) of (Upsert, Present _) \<Rightarrow> True | (Delete, Deleted) \<Rightarrow> True | _ \<Rightarrow> False)"

definition materialized_validate ::
  "project_scope \<Rightarrow> materialized_change \<Rightarrow> unit domain_result" where
  "materialized_validate scope m =
     and_then (entry_validate (mz_change m)) (\<lambda>_.
       if cr_scope (mz_resource m) \<noteq> scope \<or>
          ce_tenant_id (mz_change m) \<noteq> sc_tenant_id scope \<or>
          ce_project_id (mz_change m) \<noteq> sc_project_id scope then
         Inl (InvalidChangeBatch ''materialized change has the wrong project scope'')
       else if cr_resource (mz_resource m) \<noteq> ce_resource (mz_change m) then
         Inl (InvalidChangeBatch ''materialized resource coordinate does not match the change'')
       else if cr_revision (mz_resource m) \<noteq> ce_revision (mz_change m) then
         Inl (InvalidChangeBatch ''materialized resource revision does not match the change'')
       else if \<not> state_matches_operation (ce_operation (mz_change m)) (cr_state (mz_resource m)) then
         Inl (InvalidChangeBatch
           ''materialized resource state does not match the change operation'')
       else Inr ())"

record materialized_batch =
  mb_scope :: project_scope
  mb_cursor :: change_cursor
  mb_entries :: "materialized_change list"
  mb_next_cursor :: change_cursor
  mb_has_more :: bool

definition materialized_batch_new ::
  "project_scope \<Rightarrow> change_cursor \<Rightarrow> materialized_change list \<Rightarrow> bool
    \<Rightarrow> materialized_batch domain_result" where
  "materialized_batch_new scope cursor entries has_more =
     and_then (collect_results (materialized_validate scope) entries) (\<lambda>_.
     and_then (batch_new scope cursor (map mz_change entries) has_more) (\<lambda>metadata.
       Inr \<lparr>mb_scope = scope, mb_cursor = cursor, mb_entries = entries,
            mb_next_cursor = cb_next_cursor metadata, mb_has_more = has_more\<rparr>))"

definition materialized_batch_projected ::
  "project_scope \<Rightarrow> change_cursor \<Rightarrow> materialized_change list \<Rightarrow> change_cursor \<Rightarrow> bool
    \<Rightarrow> materialized_batch domain_result" where
  "materialized_batch_projected scope cursor entries next_cursor has_more =
     and_then (collect_results (materialized_validate scope) entries) (\<lambda>_.
     and_then (batch_projected scope cursor (map mz_change entries) next_cursor has_more)
       (\<lambda>metadata.
         Inr \<lparr>mb_scope = scope, mb_cursor = cursor, mb_entries = entries,
              mb_next_cursor = cb_next_cursor metadata, mb_has_more = has_more\<rparr>))"

section \<open>Snapshots\<close>

record project_snapshot =
  sn_scope :: project_scope
  sn_project_epoch :: project_epoch
  sn_at_seq :: project_sequence
  sn_resources :: "canonical_resource list"

fun snapshot_scan ::
  "project_scope \<Rightarrow> resource_ref list \<Rightarrow> canonical_resource list \<Rightarrow> unit domain_result" where
  "snapshot_scan scope seen [] = Inr ()"
| "snapshot_scan scope seen (r # rs) =
    (if cr_scope r \<noteq> scope then
       Inl (InvalidChangeBatch ''snapshot resource has the wrong project scope'')
     else if cr_resource r \<in> set seen then
       Inl (InvalidChangeBatch ''snapshot contains a duplicate resource coordinate'')
     else snapshot_scan scope (cr_resource r # seen) rs)"

definition snapshot_new ::
  "project_scope \<Rightarrow> project_epoch \<Rightarrow> project_sequence \<Rightarrow> canonical_resource list
    \<Rightarrow> project_snapshot domain_result" where
  "snapshot_new scope epoch at_seq resources =
     and_then (snapshot_scan scope [] resources) (\<lambda>_.
       Inr \<lparr>sn_scope = scope, sn_project_epoch = epoch, sn_at_seq = at_seq,
            sn_resources = resources\<rparr>)"

section \<open>Characterisations\<close>

definition entry_in_scope :: "project_scope \<Rightarrow> project_epoch \<Rightarrow> change_entry \<Rightarrow> bool" where
  "entry_in_scope scope epoch e \<longleftrightarrow> ce_tenant_id e = sc_tenant_id scope \<and>
     ce_project_id e = sc_project_id scope \<and> ce_project_epoch e = epoch"

lemma entry_validate_Inr_iff [result_iffs]: "entry_validate e = Inr u \<longleftrightarrow> ce_seq e \<noteq> 0"
  by (auto simp: entry_validate_def)

lemma batch_scan_Inr_iff:
  "batch_scan scope epoch previous es = Inr final \<longleftrightarrow>
     (\<forall>e\<in>set es. entry_in_scope scope epoch e) \<and>
     sorted_wrt (<) (previous # map ce_seq es) \<and> final = last (previous # map ce_seq es)"
proof (induction es arbitrary: previous)
  case (Cons e es)
  have "ce_seq e \<noteq> 0 \<and> previous < ce_seq e \<longleftrightarrow> previous < ce_seq e"
    by auto
  then show ?case
    using Cons [of "ce_seq e"]
    by (auto simp: result_iffs entry_in_scope_def not_le dest: order.strict_trans)
qed auto

lemma batch_new_Inr_iff:
  "batch_new scope cursor es hm = Inr b \<longleftrightarrow>
     (\<forall>e\<in>set es. entry_in_scope scope (cu_project_epoch cursor) e) \<and>
     sorted_wrt (<) (cu_after_seq cursor # map ce_seq es) \<and> (hm \<longrightarrow> es \<noteq> []) \<and>
     b = \<lparr>cb_scope = scope, cb_cursor = cursor, cb_entries = es,
          cb_next_cursor = \<lparr>cu_project_epoch = cu_project_epoch cursor,
                            cu_after_seq = last (cu_after_seq cursor # map ce_seq es)\<rparr>,
          cb_has_more = hm\<rparr>"
  by (auto simp: batch_new_def result_iffs batch_scan_Inr_iff)

lemma batch_projected_Inr_iff:
  "batch_projected scope cursor es nxt hm = Inr b \<longleftrightarrow>
     (\<forall>e\<in>set es. entry_in_scope scope (cu_project_epoch cursor) e) \<and>
     sorted_wrt (<) (cu_after_seq cursor # map ce_seq es) \<and>
     cu_project_epoch nxt = cu_project_epoch cursor \<and>
     last (cu_after_seq cursor # map ce_seq es) \<le> cu_after_seq nxt \<and>
     (hm \<longrightarrow> cu_after_seq cursor < cu_after_seq nxt) \<and>
     b = \<lparr>cb_scope = scope, cb_cursor = cursor, cb_entries = es, cb_next_cursor = nxt,
          cb_has_more = hm\<rparr>"
  by (auto simp: batch_projected_def result_iffs batch_new_Inr_iff not_le not_less)

definition materialized_ok :: "project_scope \<Rightarrow> materialized_change \<Rightarrow> bool" where
  "materialized_ok scope m \<longleftrightarrow> ce_seq (mz_change m) \<noteq> 0 \<and> cr_scope (mz_resource m) = scope \<and>
     ce_tenant_id (mz_change m) = sc_tenant_id scope \<and>
     ce_project_id (mz_change m) = sc_project_id scope \<and>
     cr_resource (mz_resource m) = ce_resource (mz_change m) \<and>
     cr_revision (mz_resource m) = ce_revision (mz_change m) \<and>
     state_matches_operation (ce_operation (mz_change m)) (cr_state (mz_resource m))"

lemma materialized_validate_Inr_iff [result_iffs]:
  "materialized_validate scope m = Inr u \<longleftrightarrow> materialized_ok scope m"
  by (auto simp: materialized_validate_def materialized_ok_def result_iffs)

lemma collect_validate_Inr_iff:
  "(\<exists>us. collect_results (materialized_validate scope) ms = Inr us) \<longleftrightarrow>
     (\<forall>m\<in>set ms. materialized_ok scope m)"
  by (induction ms) (auto simp: result_iffs)

lemma materialized_batch_projected_Inr_iff:
  "materialized_batch_projected scope cursor ms nxt hm = Inr b \<longleftrightarrow>
     (\<forall>m\<in>set ms. materialized_ok scope m \<and>
        ce_project_epoch (mz_change m) = cu_project_epoch cursor) \<and>
     sorted_wrt (<) (cu_after_seq cursor # map (ce_seq \<circ> mz_change) ms) \<and>
     cu_project_epoch nxt = cu_project_epoch cursor \<and>
     last (cu_after_seq cursor # map (ce_seq \<circ> mz_change) ms) \<le> cu_after_seq nxt \<and>
     (hm \<longrightarrow> cu_after_seq cursor < cu_after_seq nxt) \<and>
     b = \<lparr>mb_scope = scope, mb_cursor = cursor, mb_entries = ms, mb_next_cursor = nxt,
          mb_has_more = hm\<rparr>"
  unfolding materialized_batch_projected_def and_then_Inr_iff batch_projected_Inr_iff
  using collect_validate_Inr_iff [of scope ms]
  by (auto simp: entry_in_scope_def materialized_ok_def)

lemma materialized_batch_new_Inr_iff:
  "materialized_batch_new scope cursor ms hm = Inr b \<longleftrightarrow>
     (\<forall>m\<in>set ms. materialized_ok scope m \<and>
        ce_project_epoch (mz_change m) = cu_project_epoch cursor) \<and>
     sorted_wrt (<) (cu_after_seq cursor # map (ce_seq \<circ> mz_change) ms) \<and>
     (hm \<longrightarrow> ms \<noteq> []) \<and>
     b = \<lparr>mb_scope = scope, mb_cursor = cursor, mb_entries = ms,
          mb_next_cursor = \<lparr>cu_project_epoch = cu_project_epoch cursor,
            cu_after_seq = last (cu_after_seq cursor # map (ce_seq \<circ> mz_change) ms)\<rparr>,
          mb_has_more = hm\<rparr>"
  unfolding materialized_batch_new_def and_then_Inr_iff batch_new_Inr_iff
  using collect_validate_Inr_iff [of scope ms]
  by (auto simp: entry_in_scope_def materialized_ok_def)

lemma snapshot_scan_Inr_iff:
  "snapshot_scan scope seen rs = Inr () \<longleftrightarrow>
     (\<forall>r\<in>set rs. cr_scope r = scope) \<and> distinct (map cr_resource rs) \<and>
     set seen \<inter> cr_resource ` set rs = {}"
  by (induction rs arbitrary: seen) auto

lemma snapshot_new_Inr_iff:
  "snapshot_new scope epoch at_seq rs = Inr s \<longleftrightarrow>
     (\<forall>r\<in>set rs. cr_scope r = scope) \<and> distinct (map cr_resource rs) \<and>
     s = \<lparr>sn_scope = scope, sn_project_epoch = epoch, sn_at_seq = at_seq, sn_resources = rs\<rparr>"
  by (auto simp: snapshot_new_def result_iffs snapshot_scan_Inr_iff)

end
