(* ===== verification/Store_Schema.thy ===== *)
theory Store_Schema
  imports Sql_Table Domain_Change Domain_Handoff
begin

text \<open>
  \<open>aidememo-store-local/src/lib.rs\<close>: the tables of schema version 4 (\<open>create_schema_v4\<close>), their
  constraints, the text forms of the enumerations and the integer conversions at the database
  boundary. Rows hold raw column values (\<open>TEXT\<close> as \<open>string\<close>, \<open>INTEGER\<close> as an integer, \<open>BLOB\<close>
  as bytes); an I/O failure of SQLite itself is not modelled, a constraint violation is.
\<close>

section \<open>Rows\<close>

record tenant_row =
  tn_tenant_id :: string
  tn_display_name :: string
  tn_status :: string
  tn_revision :: i64
  tn_created_at_ms :: i64
  tn_updated_at_ms :: i64

record project_row =
  pj_tenant_id :: string
  pj_project_id :: string
  pj_project_epoch :: string
  pj_next_seq :: i64
  pj_display_name :: string
  pj_status :: string
  pj_revision :: i64
  pj_created_at_ms :: i64
  pj_updated_at_ms :: i64

record actor_row =
  at_tenant_id :: string
  at_actor_id :: string
  at_display_name :: string
  at_kind :: string
  at_status :: string
  at_revision :: i64
  at_created_at_ms :: i64
  at_updated_at_ms :: i64

record membership_row =
  ms_tenant_id :: string
  ms_project_id :: string
  ms_actor_id :: string
  ms_role :: string
  ms_status :: string

record token_row =
  tk_token_sha256 :: bytes
  tk_tenant_id :: string
  tk_actor_id :: string
  tk_active :: i64
  tk_created_at_ms :: i64

record resource_row =
  rs_tenant_id :: string
  rs_project_id :: string
  rs_resource_kind :: string
  rs_resource_id :: string
  rs_revision :: i64
  rs_deleted :: i64
  rs_body_json :: "bytes option"

record receipt_row =
  rc_tenant_id :: string
  rc_project_id :: string
  rc_command_id :: string
  rc_fingerprint :: string
  rc_actor_id :: string
  rc_project_seq :: i64
  rc_resource_kind :: string
  rc_resource_id :: string
  rc_revision :: i64
  rc_committed_at_ms :: i64

record change_row =
  ch_tenant_id :: string
  ch_project_id :: string
  ch_project_epoch :: string
  ch_seq :: i64
  ch_resource_kind :: string
  ch_resource_id :: string
  ch_operation :: string
  ch_revision :: i64
  ch_actor_id :: string
  ch_committed_at_ms :: i64
  ch_state_available :: i64
  ch_body_json :: "bytes option"

record audit_row =
  ad_tenant_id :: string
  ad_project_id :: string
  ad_project_seq :: i64
  ad_command_id :: string
  ad_operation :: string
  ad_resource_kind :: string
  ad_resource_id :: string
  ad_actor_id :: string
  ad_committed_at_ms :: i64

record index_row =
  ix_tenant_id :: string
  ix_project_id :: string
  ix_handoff_id :: string
  ix_resource_kind :: string
  ix_from_actor :: string
  ix_to_actor :: string
  ix_source_id :: "string option"
  ix_status :: string
  ix_revision :: i64
  ix_updated_seq :: i64

record store_db =
  db_user_version :: i64
  db_tenants :: "tenant_row list"
  db_projects :: "project_row list"
  db_actors :: "actor_row list"
  db_memberships :: "membership_row list"
  db_token_bindings :: "token_row list"
  db_resources :: "resource_row list"
  db_receipts :: "receipt_row list"
  db_changes :: "change_row list"
  db_audit :: "audit_row list"
  db_handoff_index :: "index_row list"

section \<open>Scopes and keys\<close>

text \<open>\<open>WHERE tenant_id = ?1 AND project_id = ?2\<close> compares this pair of columns with the scope.\<close>

definition pj_scope :: "project_row \<Rightarrow> project_scope" where
  "pj_scope r = scope_new (pj_tenant_id r) (pj_project_id r)"
definition rs_scope :: "resource_row \<Rightarrow> project_scope" where
  "rs_scope r = scope_new (rs_tenant_id r) (rs_project_id r)"
definition rc_scope :: "receipt_row \<Rightarrow> project_scope" where
  "rc_scope r = scope_new (rc_tenant_id r) (rc_project_id r)"
definition ch_scope :: "change_row \<Rightarrow> project_scope" where
  "ch_scope r = scope_new (ch_tenant_id r) (ch_project_id r)"
definition ad_scope :: "audit_row \<Rightarrow> project_scope" where
  "ad_scope r = scope_new (ad_tenant_id r) (ad_project_id r)"
definition ix_scope :: "index_row \<Rightarrow> project_scope" where
  "ix_scope r = scope_new (ix_tenant_id r) (ix_project_id r)"

lemmas scope_defs = pj_scope_def rs_scope_def rc_scope_def ch_scope_def ad_scope_def ix_scope_def

definition rs_ref :: "resource_row \<Rightarrow> resource_ref" where
  "rs_ref r = \<lparr>rf_kind = rs_resource_kind r, rf_id = rs_resource_id r\<rparr>"

definition rs_key :: "resource_row \<Rightarrow> project_scope \<times> resource_ref" where
  "rs_key r = (rs_scope r, rs_ref r)"

definition ix_key :: "index_row \<Rightarrow> project_scope \<times> string" where
  "ix_key r = (ix_scope r, ix_handoff_id r)"

section \<open>Constraints\<close>

definition status_text_ok :: "string \<Rightarrow> bool" where
  "status_text_ok s \<longleftrightarrow> s \<in> {''active'', ''suspended'', ''archived''}"

definition tenant_check :: "tenant_row \<Rightarrow> bool" where
  "tenant_check r \<longleftrightarrow> status_text_ok (tn_status r) \<and> tn_revision r > 0"

definition project_check :: "project_row \<Rightarrow> bool" where
  "project_check r \<longleftrightarrow> pj_next_seq r \<ge> 0 \<and> status_text_ok (pj_status r) \<and> pj_revision r > 0"

definition actor_check :: "actor_row \<Rightarrow> bool" where
  "actor_check r \<longleftrightarrow> at_kind r \<in> {''human'', ''agent'', ''service''} \<and>
     status_text_ok (at_status r) \<and> at_revision r > 0"

definition actor_fk :: "store_db \<Rightarrow> actor_row \<Rightarrow> bool" where
  "actor_fk db r \<longleftrightarrow> list_ex (\<lambda>t. tn_tenant_id t = at_tenant_id r) (db_tenants db)"

definition membership_check :: "membership_row \<Rightarrow> bool" where
  "membership_check r \<longleftrightarrow> ms_role r \<in> {''owner'', ''admin'', ''writer'', ''reader''} \<and>
     ms_status r \<in> {''active'', ''suspended''}"

definition project_exists :: "store_db \<Rightarrow> project_scope \<Rightarrow> bool" where
  "project_exists db scope \<longleftrightarrow> list_ex (\<lambda>p. pj_scope p = scope) (db_projects db)"

definition actor_exists :: "store_db \<Rightarrow> string \<Rightarrow> string \<Rightarrow> bool" where
  "actor_exists db t a \<longleftrightarrow> list_ex (\<lambda>r. at_tenant_id r = t \<and> at_actor_id r = a) (db_actors db)"

definition membership_fk :: "store_db \<Rightarrow> membership_row \<Rightarrow> bool" where
  "membership_fk db r \<longleftrightarrow>
     project_exists db (scope_new (ms_tenant_id r) (ms_project_id r)) \<and>
     actor_exists db (ms_tenant_id r) (ms_actor_id r)"

definition token_check :: "token_row \<Rightarrow> bool" where
  "token_check r \<longleftrightarrow> length (tk_token_sha256 r) = 32 \<and> tk_active r \<in> {0, 1}"

definition token_fk :: "store_db \<Rightarrow> token_row \<Rightarrow> bool" where
  "token_fk db r \<longleftrightarrow> actor_exists db (tk_tenant_id r) (tk_actor_id r)"

definition resource_check :: "resource_row \<Rightarrow> bool" where
  "resource_check r \<longleftrightarrow> rs_revision r > 0 \<and> rs_deleted r \<in> {0, 1} \<and>
     ((rs_deleted r = 0 \<and> rs_body_json r \<noteq> None) \<or> (rs_deleted r = 1 \<and> rs_body_json r = None))"

definition receipt_check :: "receipt_row \<Rightarrow> bool" where
  "receipt_check r \<longleftrightarrow> rc_project_seq r > 0 \<and> rc_revision r > 0"

text \<open>\<open>PRIMARY KEY (tenant_id, project_id, command_id), UNIQUE (tenant_id, project_id, project_seq)\<close>.\<close>

definition receipt_clash :: "receipt_row \<Rightarrow> receipt_row \<Rightarrow> bool" where
  "receipt_clash r u \<longleftrightarrow> rc_scope u = rc_scope r \<and>
     (rc_command_id u = rc_command_id r \<or> rc_project_seq u = rc_project_seq r)"

definition change_check :: "change_row \<Rightarrow> bool" where
  "change_check r \<longleftrightarrow> ch_seq r > 0 \<and> ch_operation r \<in> {''upsert'', ''delete''} \<and>
     ch_revision r > 0 \<and> ch_state_available r \<in> {0, 1} \<and>
     ((ch_state_available r = 0 \<and> ch_body_json r = None) \<or>
      (ch_state_available r = 1 \<and> ch_operation r = ''upsert'' \<and> ch_body_json r \<noteq> None) \<or>
      (ch_state_available r = 1 \<and> ch_operation r = ''delete'' \<and> ch_body_json r = None))"

definition change_clash :: "change_row \<Rightarrow> change_row \<Rightarrow> bool" where
  "change_clash r u \<longleftrightarrow> ch_scope u = ch_scope r \<and> ch_seq u = ch_seq r"

definition audit_check :: "audit_row \<Rightarrow> bool" where
  "audit_check r \<longleftrightarrow> ad_project_seq r > 0"

definition audit_clash :: "audit_row \<Rightarrow> audit_row \<Rightarrow> bool" where
  "audit_clash r u \<longleftrightarrow> ad_scope u = ad_scope r \<and>
     (ad_project_seq u = ad_project_seq r \<or> ad_command_id u = ad_command_id r)"

definition index_check :: "index_row \<Rightarrow> bool" where
  "index_check r \<longleftrightarrow> ix_resource_kind r = ''handoff'' \<and>
     ix_status r \<in> {''pending'', ''accepted'', ''completed''} \<and>
     ix_revision r > 0 \<and> ix_updated_seq r > 0"

definition index_fk :: "store_db \<Rightarrow> index_row \<Rightarrow> bool" where
  "index_fk db r \<longleftrightarrow> list_ex (\<lambda>u. rs_key u =
     (ix_scope r, \<lparr>rf_kind = ix_resource_kind r, rf_id = ix_handoff_id r\<rparr>)) (db_resources db)"

section \<open>Text forms and integer conversions\<close>

fun record_status_text :: "record_status \<Rightarrow> string" where
  "record_status_text Active = ''active''"
| "record_status_text Suspended = ''suspended''"
| "record_status_text Archived = ''archived''"

fun actor_kind_text :: "actor_kind \<Rightarrow> string" where
  "actor_kind_text Human = ''human''"
| "actor_kind_text Agent = ''agent''"
| "actor_kind_text Service = ''service''"

fun membership_role_text :: "membership_role \<Rightarrow> string" where
  "membership_role_text Owner = ''owner''"
| "membership_role_text Admin = ''admin''"
| "membership_role_text Writer = ''writer''"
| "membership_role_text Reader = ''reader''"

definition decode_error :: "string \<Rightarrow> string \<Rightarrow> domain_error" where
  "decode_error kind s =
     StorageFailure ''record_decode'' (Text (''unknown '' @ kind @ '' '' @ [CHR 0x27] @ s @ [CHR 0x27]))"

definition parse_membership_role :: "string \<Rightarrow> membership_role domain_result" where
  "parse_membership_role s =
    (if s = ''owner'' then Inr Owner else if s = ''admin'' then Inr Admin
     else if s = ''writer'' then Inr Writer else if s = ''reader'' then Inr Reader
     else Inl (decode_error ''membership role'' s))"

fun membership_status_text :: "membership_status \<Rightarrow> string" where
  "membership_status_text MembershipActive = ''active''"
| "membership_status_text MembershipSuspended = ''suspended''"

definition parse_membership_status :: "string \<Rightarrow> membership_status domain_result" where
  "parse_membership_status s =
    (if s = ''active'' then Inr MembershipActive
     else if s = ''suspended'' then Inr MembershipSuspended
     else Inl (decode_error ''membership status'' s))"

fun handoff_status_text :: "handoff_status \<Rightarrow> string" where
  "handoff_status_text Pending = ''pending''"
| "handoff_status_text Accepted = ''accepted''"
| "handoff_status_text Completed = ''completed''"

fun change_text :: "change_operation \<Rightarrow> string" where
  "change_text Upsert = ''upsert''"
| "change_text Delete = ''delete''"

definition parse_change :: "string \<Rightarrow> change_operation domain_result" where
  "parse_change s =
    (if s = ''upsert'' then Inr Upsert else if s = ''delete'' then Inr Delete
     else Inl (StorageFailure ''change_decode''
       (Text (''unknown change operation '' @ [CHR 0x27] @ s @ [CHR 0x27]))))"

definition to_i64 :: "string \<Rightarrow> u64 \<Rightarrow> i64 domain_result" where
  "to_i64 operation x = ok_or (StorageFailure operation External) (u64_try_i64 x)"

definition from_i64 :: "string \<Rightarrow> i64 \<Rightarrow> u64 domain_result" where
  "from_i64 operation i = ok_or (StorageFailure operation External) (i64_try_u64 i)"

text \<open>A statement's constraint violation, reported under the operation name given to \<open>storage\<close>.\<close>

definition sql :: "string \<Rightarrow> 'a option \<Rightarrow> 'a domain_result" where
  "sql operation r = ok_or (StorageFailure operation External) r"

section \<open>Lemmas\<close>

lemma record_status_text_ok [simp]: "status_text_ok (record_status_text s)"
  by (cases s) (auto simp: status_text_ok_def)

lemma parse_role_text [simp]: "parse_membership_role (membership_role_text r) = Inr r"
  by (cases r) (auto simp: parse_membership_role_def)

lemma parse_status_text [simp]: "parse_membership_status (membership_status_text s) = Inr s"
  by (cases s) (auto simp: parse_membership_status_def)

lemma parse_change_text [simp]: "parse_change (change_text c) = Inr c"
  by (cases c) (auto simp: parse_change_def)

lemma record_status_text_eq [simp]:
  "record_status_text s = record_status_text s' \<longleftrightarrow> s = s'"
  "record_status_text s = ''active'' \<longleftrightarrow> s = Active"
  by (cases s; cases s'; simp)+

lemma handoff_status_text_eq [simp]:
  "handoff_status_text s = handoff_status_text s' \<longleftrightarrow> s = s'"
  "handoff_status_text s = ''completed'' \<longleftrightarrow> s = Completed"
  by (cases s; cases s'; simp)+

lemma to_i64_Inr_iff [result_iffs]:
  "to_i64 op x = Inr i \<longleftrightarrow> uint x \<le> i64_max \<and> i = uint x"
  by (auto simp: to_i64_def u64_try_i64_def)

lemma to_i64_ok [simp]: "uint x \<le> i64_max \<Longrightarrow> to_i64 op x = Inr (uint x)"
  by (simp add: result_iffs)

lemma from_i64_Inr_iff [result_iffs]:
  "from_i64 op i = Inr x \<longleftrightarrow> 0 \<le> i \<and> x = word_of_int i"
  by (auto simp: from_i64_def i64_try_u64_def)

lemma from_i64_uint [simp]: "from_i64 op (uint x) = Inr x"
  by (simp add: from_i64_def)

lemma sql_Inr_iff [result_iffs]: "sql op r = Inr x \<longleftrightarrow> r = Some x"
  by (auto simp: sql_def result_iffs)

lemma sql_Some [simp]: "sql op (Some x) = Inr x"
  by (simp add: sql_def)

end
