(* ===== verification/Store_Command.thy ===== *)
theory Store_Command
  imports Store_Schema
begin

text \<open>
  \<open>aidememo-store-local/src/lib.rs\<close>: the command ledger (\<open>execute_transaction\<close>, \<open>execute\<close>,
  \<open>receipt\<close>) with its row readers and writers. A \<open>Transaction\<close> is the database value the
  statements thread; an early return drops it, so \<open>execute\<close> answers an error with the database it
  was given. \<open>serde_json::from_slice\<close> for handoff bodies is the parameter \<open>decode_handoff\<close>, the
  system clock (milliseconds since the epoch, negative before it) the parameter \<open>clock\<close>.
\<close>

section \<open>Readers\<close>

text \<open>\<open>row.map(f).transpose()\<close>.\<close>

definition map_transpose :: "('a \<Rightarrow> 'e + 'b) \<Rightarrow> 'a option \<Rightarrow> 'e + 'b option" where
  "map_transpose f x =
     (case x of None \<Rightarrow> Inr None | Some y \<Rightarrow> and_then (f y) (\<lambda>z. Inr (Some z)))"

definition find_project :: "store_db \<Rightarrow> project_scope \<Rightarrow> project_row option" where
  "find_project db scope = select_first (\<lambda>p. pj_scope p = scope) (db_projects db)"

definition load_project ::
  "store_db \<Rightarrow> project_scope \<Rightarrow> (project_epoch \<times> project_sequence) option domain_result" where
  "load_project db scope =
     map_transpose (\<lambda>p. and_then (id_try_from ''project_epoch'' (pj_project_epoch p)) (\<lambda>epoch.
       and_then (from_i64 ''project_sequence'' (pj_next_seq p)) (\<lambda>seq. Inr (epoch, seq))))
       (find_project db scope)"

definition find_receipt :: "store_db \<Rightarrow> project_scope \<Rightarrow> command_id \<Rightarrow> receipt_row option" where
  "find_receipt db scope cid =
     select_first (\<lambda>r. rc_scope r = scope \<and> rc_command_id r = cid) (db_receipts db)"

definition decode_ref :: "string \<Rightarrow> string \<Rightarrow> resource_ref domain_result" where
  "decode_ref kind i = and_then (name_try_from ''resource kind'' kind) (\<lambda>k.
     and_then (id_try_from ''resource_id'' i) (\<lambda>j. Inr \<lparr>rf_kind = k, rf_id = j\<rparr>))"

definition decode_revision :: "i64 \<Rightarrow> revision domain_result" where
  "decode_revision i = and_then (from_i64 ''resource_revision'' i) revision_new"

definition receipt_row_decode :: "receipt_row \<Rightarrow> command_receipt domain_result" where
  "receipt_row_decode r =
     and_then (id_try_from ''command_id'' (rc_command_id r)) (\<lambda>cid.
     and_then (fingerprint_try_from (rc_fingerprint r)) (\<lambda>fp.
     and_then (id_try_from ''tenant_id'' (rc_tenant_id r)) (\<lambda>tid.
     and_then (id_try_from ''project_id'' (rc_project_id r)) (\<lambda>pid.
     and_then (id_try_from ''actor_id'' (rc_actor_id r)) (\<lambda>aid.
     and_then (from_i64 ''project_sequence'' (rc_project_seq r)) (\<lambda>seq.
     and_then (decode_ref (rc_resource_kind r) (rc_resource_id r)) (\<lambda>ref.
     and_then (decode_revision (rc_revision r)) (\<lambda>rev.
       Inr \<lparr>cp_command_id = cid, cp_fingerprint = fp, cp_tenant_id = tid, cp_project_id = pid,
            cp_actor_id = aid, cp_project_seq = seq, cp_resource = ref, cp_revision = rev,
            cp_committed_at_ms = rc_committed_at_ms r\<rparr>))))))))"

definition find_resource :: "store_db \<Rightarrow> project_scope \<Rightarrow> resource_ref \<Rightarrow> resource_row option" where
  "find_resource db scope ref = select_first (\<lambda>r. rs_key r = (scope, ref)) (db_resources db)"

definition load_resource_revision ::
  "store_db \<Rightarrow> project_scope \<Rightarrow> resource_ref \<Rightarrow> revision option domain_result" where
  "load_resource_revision db scope ref =
     map_transpose (\<lambda>r. decode_revision (rs_revision r)) (find_resource db scope ref)"

section \<open>Writers\<close>

definition check_change_body :: "change_operation \<Rightarrow> bytes option \<Rightarrow> unit domain_result" where
  "check_change_body change body =
     (case (change, body) of
        (Upsert, Some _) \<Rightarrow> Inr ()
      | (Delete, None) \<Rightarrow> Inr ()
      | (Upsert, None) \<Rightarrow>
          Inl (InvalidCommand (Text ''upsert requires a canonical resource body''))
      | (Delete, Some _) \<Rightarrow>
          Inl (InvalidCommand (Text ''delete must not carry a resource body'')))"

definition write_resource ::
  "store_db \<Rightarrow> project_scope \<Rightarrow> mutation_command \<Rightarrow> revision \<Rightarrow> store_db domain_result" where
  "write_resource db scope c revision =
     and_then (to_i64 ''resource_revision'' revision) (\<lambda>rev.
       let row = \<lparr>rs_tenant_id = sc_tenant_id scope, rs_project_id = sc_project_id scope,
                  rs_resource_kind = rf_kind (mc_resource c), rs_resource_id = rf_id (mc_resource c),
                  rs_revision = rev, rs_deleted = (if mc_change c = Delete then 1 else 0),
                  rs_body_json = mc_resource_body c\<rparr> in
       and_then (sql ''resource_write''
           (upsert_row rs_key resource_check (\<lambda>r. project_exists db (rs_scope r)) row
              (db_resources db))) (\<lambda>t.
         Inr (db\<lparr>db_resources := t\<rparr>)))"

definition update_handoff_index ::
  "(bytes \<Rightarrow> handoff_record option) \<Rightarrow> store_db \<Rightarrow> project_scope \<Rightarrow> resource_ref \<Rightarrow> change_operation
    \<Rightarrow> bytes option \<Rightarrow> revision \<Rightarrow> project_sequence \<Rightarrow> store_db domain_result" where
  "update_handoff_index decode_handoff db scope ref change body revision sequence =
    (if rf_kind ref \<noteq> ''handoff'' then Inr db
     else if change = Delete then
       Inr (db\<lparr>db_handoff_index :=
         delete_rows (\<lambda>x. ix_key x = (scope, rf_id ref)) (db_handoff_index db)\<rparr>)
     else
       and_then (ok_or (StorageFailure ''handoff_index_decode''
           (Text ''handoff upsert is missing its canonical body'')) body) (\<lambda>bytes.
       and_then (ok_or (StorageFailure ''handoff_index_decode'' External)
           (decode_handoff bytes)) (\<lambda>record.
       if hr_handoff_id record \<noteq> rf_id ref then
         Inl (StorageFailure ''handoff_index_decode''
           (Text ''handoff body identity does not match its resource coordinate''))
       else
         and_then (to_i64 ''handoff_revision'' revision) (\<lambda>rev.
         and_then (to_i64 ''handoff_project_sequence'' sequence) (\<lambda>seq.
           let row = \<lparr>ix_tenant_id = sc_tenant_id scope, ix_project_id = sc_project_id scope,
                      ix_handoff_id = hr_handoff_id record, ix_resource_kind = ''handoff'',
                      ix_from_actor = hr_from_actor record, ix_to_actor = hr_to_actor record,
                      ix_source_id = hr_source_id record,
                      ix_status = handoff_status_text (hr_status record),
                      ix_revision = rev, ix_updated_seq = seq\<rparr> in
           and_then (sql ''handoff_index_write''
               (upsert_row ix_key index_check (index_fk db) row (db_handoff_index db))) (\<lambda>t.
             Inr (db\<lparr>db_handoff_index := t\<rparr>)))))))"

definition insert_receipt :: "store_db \<Rightarrow> command_receipt \<Rightarrow> store_db domain_result" where
  "insert_receipt db r =
     and_then (to_i64 ''project_sequence'' (cp_project_seq r)) (\<lambda>seq.
     and_then (to_i64 ''resource_revision'' (cp_revision r)) (\<lambda>rev.
       let row = \<lparr>rc_tenant_id = cp_tenant_id r, rc_project_id = cp_project_id r,
                  rc_command_id = cp_command_id r, rc_fingerprint = cp_fingerprint r,
                  rc_actor_id = cp_actor_id r, rc_project_seq = seq,
                  rc_resource_kind = rf_kind (cp_resource r),
                  rc_resource_id = rf_id (cp_resource r), rc_revision = rev,
                  rc_committed_at_ms = cp_committed_at_ms r\<rparr> in
       and_then (sql ''receipt_write''
           (insert_row receipt_clash receipt_check (\<lambda>x. project_exists db (rc_scope x)) row
              (db_receipts db))) (\<lambda>t.
         Inr (db\<lparr>db_receipts := t\<rparr>))))"

definition insert_change ::
  "store_db \<Rightarrow> command_receipt \<Rightarrow> change_operation \<Rightarrow> bytes option \<Rightarrow> store_db domain_result" where
  "insert_change db r change body =
    (if \<not> body_matches_change change body then
       Inl (InvalidCommand
         (Text ''change operation and canonical resource body are inconsistent''))
     else
       and_then (sql ''change_epoch_read'' (find_project db (receipt_scope r))) (\<lambda>p.
       and_then (to_i64 ''project_sequence'' (cp_project_seq r)) (\<lambda>seq.
       and_then (to_i64 ''resource_revision'' (cp_revision r)) (\<lambda>rev.
         let row = \<lparr>ch_tenant_id = cp_tenant_id r, ch_project_id = cp_project_id r,
                    ch_project_epoch = pj_project_epoch p, ch_seq = seq,
                    ch_resource_kind = rf_kind (cp_resource r),
                    ch_resource_id = rf_id (cp_resource r), ch_operation = change_text change,
                    ch_revision = rev, ch_actor_id = cp_actor_id r,
                    ch_committed_at_ms = cp_committed_at_ms r, ch_state_available = 1,
                    ch_body_json = body\<rparr> in
         and_then (sql ''change_write''
             (insert_row change_clash change_check (\<lambda>x. project_exists db (ch_scope x)) row
                (db_changes db))) (\<lambda>t.
           Inr (db\<lparr>db_changes := t\<rparr>))))))"

definition insert_audit ::
  "store_db \<Rightarrow> command_receipt \<Rightarrow> operation_name \<Rightarrow> store_db domain_result" where
  "insert_audit db r operation =
     and_then (to_i64 ''project_sequence'' (cp_project_seq r)) (\<lambda>seq.
       let row = \<lparr>ad_tenant_id = cp_tenant_id r, ad_project_id = cp_project_id r,
                  ad_project_seq = seq, ad_command_id = cp_command_id r,
                  ad_operation = operation, ad_resource_kind = rf_kind (cp_resource r),
                  ad_resource_id = rf_id (cp_resource r), ad_actor_id = cp_actor_id r,
                  ad_committed_at_ms = cp_committed_at_ms r\<rparr> in
       and_then (sql ''audit_write''
           (insert_row audit_clash audit_check (\<lambda>x. project_exists db (ad_scope x)) row
              (db_audit db))) (\<lambda>t.
         Inr (db\<lparr>db_audit := t\<rparr>)))"

definition next_sequence :: "project_sequence \<Rightarrow> project_sequence domain_result" where
  "next_sequence current =
     ok_or (StorageFailure ''project_sequence'' (Text ''overflow'')) (u64_checked_add current 1)"

definition unix_time_ms :: "int \<Rightarrow> i64 domain_result" where
  "unix_time_ms clock =
    (if clock < 0 \<or> clock > i64_max then Inl (StorageFailure ''system_time'' External)
     else Inr clock)"

definition advance_sequence ::
  "store_db \<Rightarrow> project_scope \<Rightarrow> project_sequence \<Rightarrow> project_sequence \<Rightarrow> store_db domain_result" where
  "advance_sequence db scope sequence current =
     and_then (to_i64 ''project_sequence'' sequence) (\<lambda>seq.
     and_then (to_i64 ''project_sequence'' current) (\<lambda>cur.
     and_then (sql ''project_sequence_write''
         (update_rows project_check (\<lambda>p. pj_scope p = scope \<and> pj_next_seq p = cur)
            (\<lambda>p. p\<lparr>pj_next_seq := seq\<rparr>) (db_projects db))) (\<lambda>(t, updated).
       if updated \<noteq> 1 then
         Inl (StorageFailure ''project_sequence_write''
           (Text ''project sequence compare-and-swap did not update one row''))
       else Inr (db\<lparr>db_projects := t\<rparr>))))"

section \<open>Executing a command\<close>

definition check_expected_revision ::
  "revision option \<Rightarrow> revision option \<Rightarrow> unit domain_result" where
  "check_expected_revision expected_revision current_revision =
     (case expected_revision of
        None \<Rightarrow> Inr ()
      | Some expected \<Rightarrow>
          (case current_revision of
             Some current \<Rightarrow>
               if current = expected then Inr () else Inl (StaleRevision expected current)
           | None \<Rightarrow> Inl ResourceNotFound))"

definition next_revision :: "revision option \<Rightarrow> revision domain_result" where
  "next_revision current = (case current of None \<Rightarrow> revision_new 1 | Some r \<Rightarrow> revision_next r)"

definition new_receipt ::
  "mutation_command \<Rightarrow> project_sequence \<Rightarrow> revision \<Rightarrow> i64 \<Rightarrow> command_receipt" where
  "new_receipt c sequence revision committed_at_ms =
     (let z = ac_authorization (mc_command c) in
      \<lparr>cp_command_id = command_id_of c, cp_fingerprint = mc_fingerprint c,
       cp_tenant_id = pz_tenant_id z, cp_project_id = pz_project_id z, cp_actor_id = pz_actor_id z,
       cp_project_seq = sequence, cp_resource = mc_resource c, cp_revision = revision,
       cp_committed_at_ms = committed_at_ms\<rparr>)"

definition execute_transaction ::
  "(bytes \<Rightarrow> handoff_record option) \<Rightarrow> int \<Rightarrow> store_db \<Rightarrow> mutation_command
    \<Rightarrow> (store_db \<times> command_receipt) domain_result" where
  "execute_transaction decode_handoff clock tx c =
    (let authorization = ac_authorization (mc_command c);
         envelope = ac_envelope (mc_command c);
         scope = authorization_scope authorization in
     and_then (check_change_body (mc_change c) (mc_resource_body c)) (\<lambda>_.
     and_then (load_project tx scope) (\<lambda>project.
     case project of
       None \<Rightarrow> Inl (ProjectUnauthorized (sc_project_id scope))
     | Some (epoch, current_sequence) \<Rightarrow>
       (case find_receipt tx scope (en_command_id envelope) of
          Some row \<Rightarrow>
            and_then (receipt_row_decode row) (\<lambda>receipt.
              if cp_actor_id receipt \<noteq> pz_actor_id authorization \<or>
                 cp_fingerprint receipt \<noteq> mc_fingerprint c then Inl CommandConflict
              else Inr (tx, receipt))
        | None \<Rightarrow>
            and_then (load_resource_revision tx scope (mc_resource c)) (\<lambda>current_revision.
            and_then (check_expected_revision (en_expected_revision envelope) current_revision) (\<lambda>_.
            and_then (next_revision current_revision) (\<lambda>revision.
            and_then (next_sequence current_sequence) (\<lambda>sequence.
            and_then (unix_time_ms clock) (\<lambda>committed_at_ms.
            and_then (write_resource tx scope c revision) (\<lambda>tx.
            and_then (update_handoff_index decode_handoff tx scope (mc_resource c) (mc_change c)
               (mc_resource_body c) revision sequence) (\<lambda>tx.
            let receipt = new_receipt c sequence revision committed_at_ms in
            and_then (insert_receipt tx receipt) (\<lambda>tx.
            and_then (insert_change tx receipt (mc_change c) (mc_resource_body c)) (\<lambda>tx.
            and_then (insert_audit tx receipt (en_operation envelope)) (\<lambda>tx.
            and_then (advance_sequence tx scope sequence current_sequence) (\<lambda>tx.
              Inr (tx, receipt))))))))))))))))"

definition execute ::
  "(bytes \<Rightarrow> handoff_record option) \<Rightarrow> int \<Rightarrow> mutation_command \<Rightarrow> store_db
    \<Rightarrow> store_db \<times> command_receipt domain_result" where
  "execute decode_handoff clock c db =
     (case execute_transaction decode_handoff clock db c of
        Inl e \<Rightarrow> (db, Inl e)
      | Inr (tx, receipt) \<Rightarrow> (tx, Inr receipt))"

definition receipt ::
  "store_db \<Rightarrow> project_scope \<Rightarrow> command_id \<Rightarrow> command_receipt option domain_result" where
  "receipt db scope cid = map_transpose receipt_row_decode (find_receipt db scope cid)"

definition audit_count :: "store_db \<Rightarrow> project_scope \<Rightarrow> u64 domain_result" where
  "audit_count db scope =
     from_i64 ''audit_count_decode'' (select_count (\<lambda>r. ad_scope r = scope) (db_audit db))"

section \<open>Lemmas\<close>

lemma map_transpose_simps [simp]:
  "map_transpose f None = Inr None"
  "map_transpose f (Some x) = and_then (f x) (\<lambda>z. Inr (Some z))"
  by (simp_all add: map_transpose_def)

lemma check_change_body_Inr_iff [result_iffs]:
  "check_change_body ch body = Inr u \<longleftrightarrow> body_matches_change ch body"
  by (cases ch; cases body) (auto simp: check_change_body_def)

lemma decode_ref_ok [simp]: "ref_ok ref \<Longrightarrow> decode_ref (rf_kind ref) (rf_id ref) = Inr ref"
  by (simp add: decode_ref_def ref_ok_def)

lemma decode_revision_ok [simp]: "rev_ok r \<Longrightarrow> decode_revision (uint r) = Inr r"
  by (simp add: decode_revision_def)

lemma unix_time_ms_Inr_iff [result_iffs]:
  "unix_time_ms clock = Inr t \<longleftrightarrow> 0 \<le> clock \<and> clock \<le> i64_max \<and> t = clock"
  by (auto simp: unix_time_ms_def)

text \<open>
  \<open>aidememo-store-local/src/lib.rs\<close>: the handoff mailbox, \<open>handoffs\<close> over the transactional
  index joined with the canonical resource rows, and the consistency check of each joined row.
\<close>

record handoff_index_row =
  hx_updated_seq :: i64
  hx_index_revision :: i64
  hx_handoff_id :: string
  hx_from_actor :: string
  hx_to_actor :: string
  hx_source_id :: "string option"
  hx_status :: string
  hx_resource_revision :: i64
  hx_body :: bytes

definition index_row_validate ::
  "handoff_index_row \<Rightarrow> handoff_record \<Rightarrow> unit domain_result" where
  "index_row_validate x record =
    (if hx_index_revision x = hx_resource_revision x \<and>
        hx_handoff_id x = hr_handoff_id record \<and>
        hx_from_actor x = hr_from_actor record \<and>
        hx_to_actor x = hr_to_actor record \<and>
        hx_source_id x = hr_source_id record \<and>
        hx_status x = handoff_status_text (hr_status record)
     then Inr ()
     else Inl (StorageFailure ''handoff_mailbox_decode''
       (Text ''handoff index does not match canonical resource state'')))"

definition handoff_ref :: "string \<Rightarrow> resource_ref" where
  "handoff_ref hid = \<lparr>rf_kind = ''handoff'', rf_id = hid\<rparr>"

text \<open>
  The \<open>JOIN\<close> on the resource's primary key yields at most one resource row per index row;
  \<open>resource.deleted = 0\<close> is part of the \<open>WHERE\<close> clause. \<open>row.get(8)\<close> reads the body as a
  non-null blob.
\<close>

definition join_resource :: "store_db \<Rightarrow> index_row \<Rightarrow> resource_row option" where
  "join_resource db x =
     select_first (\<lambda>r. rs_key r = (ix_scope x, handoff_ref (ix_handoff_id x))) (db_resources db)"

definition mailbox_where ::
  "store_db \<Rightarrow> project_scope \<Rightarrow> actor_id \<Rightarrow> handoff_query \<Rightarrow> i64 option \<Rightarrow> index_row \<Rightarrow> bool" where
  "mailbox_where db scope actor query before_seq x \<longleftrightarrow>
     ix_scope x = scope \<and>
     (case hq_mailbox query of Inbox \<Rightarrow> ix_to_actor x = actor | Outbox \<Rightarrow> ix_from_actor x = actor) \<and>
     (hq_source_id query = None \<or> ix_source_id x = hq_source_id query) \<and>
     (hq_include_completed query \<or> ix_status x \<noteq> ''completed'') \<and>
     (case before_seq of None \<Rightarrow> True | Some b \<Rightarrow> ix_updated_seq x < b) \<and>
     (case join_resource db x of None \<Rightarrow> False | Some r \<Rightarrow> rs_deleted r = 0)"

definition mailbox_row :: "store_db \<Rightarrow> index_row \<Rightarrow> handoff_index_row domain_result" where
  "mailbox_row db x =
     and_then (sql ''handoff_mailbox_row'' (join_resource db x)) (\<lambda>r.
     and_then (sql ''handoff_mailbox_row'' (rs_body_json r)) (\<lambda>body.
       Inr \<lparr>hx_updated_seq = ix_updated_seq x, hx_index_revision = ix_revision x,
            hx_handoff_id = ix_handoff_id x, hx_from_actor = ix_from_actor x,
            hx_to_actor = ix_to_actor x, hx_source_id = ix_source_id x, hx_status = ix_status x,
            hx_resource_revision = rs_revision r, hx_body = body\<rparr>))"

definition mailbox_entry ::
  "(bytes \<Rightarrow> handoff_record option) \<Rightarrow> store_db \<Rightarrow> index_row \<Rightarrow> handoff_list_entry domain_result" where
  "mailbox_entry decode_handoff db x =
     and_then (mailbox_row db x) (\<lambda>row.
     and_then (ok_or (StorageFailure ''handoff_mailbox_decode'' External)
        (decode_handoff (hx_body row))) (\<lambda>record.
     and_then (index_row_validate row record) (\<lambda>_.
     and_then (from_i64 ''handoff_project_sequence'' (hx_updated_seq row)) (\<lambda>seq.
     and_then (and_then (from_i64 ''handoff_revision'' (hx_resource_revision row)) revision_new)
       (\<lambda>rev. Inr \<lparr>hl_project_seq = seq, hl_revision = rev, hl_record = record\<rparr>)))))"

text \<open>\<open>ORDER BY idx.updated_seq DESC\<close>: ascending order of the negated sequence.\<close>

definition handoffs ::
  "(bytes \<Rightarrow> handoff_record option) \<Rightarrow> store_db \<Rightarrow> project_scope \<Rightarrow> actor_id \<Rightarrow> handoff_query
    \<Rightarrow> handoff_page domain_result" where
  "handoffs decode_handoff db scope actor query =
     and_then (map_transpose (to_i64 ''handoff_before_seq'') (hq_before_seq query)) (\<lambda>before_seq.
     and_then (collect_results (mailbox_entry decode_handoff db)
        (select_ordered (mailbox_where db scope actor query before_seq) (\<lambda>x. - ix_updated_seq x)
           (hq_limit query + 1) (db_handoff_index db))) (\<lambda>assignments.
       let has_more = length assignments > hq_limit query;
           page = (if has_more then take (hq_limit query) assignments else assignments) in
       Inr \<lparr>hp_assignments = page,
            hp_next_before_seq =
              (if has_more then
                 (if page = [] then None else Some (hl_project_seq (last page)))
               else None)\<rparr>))"

text \<open>
  \<open>aidememo-store-local/src/lib.rs\<close>: the reads of the command ledger, \<open>changes\<close>,
  \<open>materialized_changes\<close>, \<open>snapshot\<close> and \<open>resource\<close>, with the row decoders. Limits are \<open>usize\<close>
  values bounded by \<open>MAX_CHANGE_LIMIT\<close> before they are incremented, so \<open>limit.checked_add(1)\<close>
  and its conversion to \<open>i64\<close> cannot fail and are left out.
\<close>

definition MAX_CHANGE_LIMIT :: nat where "MAX_CHANGE_LIMIT = 10000"
definition MAX_SNAPSHOT_RESOURCES :: nat where "MAX_SNAPSHOT_RESOURCES = 10000"

section \<open>Row decoders\<close>

definition change_row_decode :: "project_scope \<Rightarrow> change_row \<Rightarrow> change_entry domain_result" where
  "change_row_decode scope r =
     and_then (id_try_from ''project_epoch'' (ch_project_epoch r)) (\<lambda>epoch.
     and_then (from_i64 ''change_sequence'' (ch_seq r)) (\<lambda>seq.
     and_then (decode_ref (ch_resource_kind r) (ch_resource_id r)) (\<lambda>ref.
     and_then (parse_change (ch_operation r)) (\<lambda>operation.
     and_then (decode_revision (ch_revision r)) (\<lambda>rev.
     and_then (id_try_from ''actor_id'' (ch_actor_id r)) (\<lambda>aid.
       Inr \<lparr>ce_tenant_id = sc_tenant_id scope, ce_project_id = sc_project_id scope,
            ce_project_epoch = epoch, ce_seq = seq, ce_resource = ref, ce_operation = operation,
            ce_revision = rev, ce_actor_id = aid,
            ce_committed_at_ms = ch_committed_at_ms r\<rparr>))))))"

definition materialized_row_decode ::
  "project_scope \<Rightarrow> change_row \<Rightarrow> materialized_change domain_result" where
  "materialized_row_decode scope r =
    (if ch_state_available r \<noteq> 1 then Inl SnapshotRequired
     else and_then (change_row_decode scope r) (\<lambda>change.
       and_then
         (case (ce_operation change, ch_body_json r) of
            (Upsert, Some body) \<Rightarrow> Inr (Present body)
          | (Delete, None) \<Rightarrow> Inr Deleted
          | _ \<Rightarrow> Inl (StorageFailure ''materialized_change_decode''
              (Text ''change operation and stored state are inconsistent''))) (\<lambda>state.
         Inr \<lparr>mz_change = change,
              mz_resource = \<lparr>cr_scope = scope, cr_resource = ce_resource change,
                             cr_revision = ce_revision change, cr_state = state\<rparr>\<rparr>)))"

definition decode_canonical_resource ::
  "project_scope \<Rightarrow> resource_ref \<Rightarrow> i64 \<Rightarrow> i64 \<Rightarrow> bytes option
    \<Rightarrow> canonical_resource domain_result" where
  "decode_canonical_resource scope ref revision deleted body =
     and_then
       (if deleted = 0 \<and> body \<noteq> None then Inr (Present (the body))
        else if deleted = 1 \<and> body = None then Inr Deleted
        else Inl (StorageFailure ''resource_state_decode''
          (Text ''resource body and deletion marker are inconsistent''))) (\<lambda>state.
     and_then (decode_revision revision) (\<lambda>rev.
       Inr \<lparr>cr_scope = scope, cr_resource = ref, cr_revision = rev, cr_state = state\<rparr>))"

section \<open>The change feed\<close>

definition validate_change_cursor ::
  "store_db \<Rightarrow> project_scope \<Rightarrow> change_cursor \<Rightarrow> nat \<Rightarrow> unit domain_result" where
  "validate_change_cursor db scope cursor limit =
    (if limit = 0 \<or> limit > MAX_CHANGE_LIMIT then
       Inl (InvalidChangeBatch (''limit must be between 1 and '' @ nat_text MAX_CHANGE_LIMIT))
     else and_then (load_project db scope) (\<lambda>project.
       case project of
         None \<Rightarrow> Inl (ProjectUnauthorized (sc_project_id scope))
       | Some (epoch, current_sequence) \<Rightarrow>
           if cu_project_epoch cursor \<noteq> epoch then
             Inl (CursorEpochMismatch (cu_project_epoch cursor) epoch)
           else if cu_after_seq cursor > current_sequence then
             Inl (CursorOutOfRange (cu_after_seq cursor) current_sequence)
           else Inr ()))"

definition select_changes ::
  "store_db \<Rightarrow> project_scope \<Rightarrow> i64 \<Rightarrow> nat \<Rightarrow> change_row list" where
  "select_changes db scope after_seq n =
     select_ordered (\<lambda>r. ch_scope r = scope \<and> ch_seq r > after_seq) ch_seq n (db_changes db)"

text \<open>\<open>changes\<close> repeats the checks of \<open>validate_change_cursor\<close> inline, in the same order.\<close>

definition changes ::
  "store_db \<Rightarrow> project_scope \<Rightarrow> change_cursor \<Rightarrow> nat \<Rightarrow> change_batch domain_result" where
  "changes db scope cursor limit =
     and_then (validate_change_cursor db scope cursor limit) (\<lambda>_.
     and_then (to_i64 ''cursor_sequence'' (cu_after_seq cursor)) (\<lambda>after_seq.
     and_then (collect_results (change_row_decode scope)
        (select_changes db scope after_seq (limit + 1))) (\<lambda>decoded.
       let has_more = length decoded > limit in
       batch_new scope cursor (if has_more then take limit decoded else decoded) has_more)))"

definition materialized_changes ::
  "store_db \<Rightarrow> project_scope \<Rightarrow> change_cursor \<Rightarrow> nat \<Rightarrow> materialized_batch domain_result" where
  "materialized_changes db scope cursor limit =
     and_then (validate_change_cursor db scope cursor limit) (\<lambda>_.
     and_then (to_i64 ''cursor_sequence'' (cu_after_seq cursor)) (\<lambda>after_seq.
     and_then (collect_results (materialized_row_decode scope)
        (select_changes db scope after_seq (limit + 1))) (\<lambda>decoded.
       let has_more = length decoded > limit in
       materialized_batch_new scope cursor
         (if has_more then take limit decoded else decoded) has_more)))"

section \<open>Current state\<close>

definition resource ::
  "store_db \<Rightarrow> project_scope \<Rightarrow> resource_ref \<Rightarrow> canonical_resource option domain_result" where
  "resource db scope ref =
     map_transpose (\<lambda>r. decode_canonical_resource scope ref (rs_revision r) (rs_deleted r)
       (rs_body_json r)) (find_resource db scope ref)"

definition snapshot_row_decode ::
  "project_scope \<Rightarrow> resource_row \<Rightarrow> canonical_resource domain_result" where
  "snapshot_row_decode scope r =
     and_then (decode_ref (rs_resource_kind r) (rs_resource_id r)) (\<lambda>ref.
       decode_canonical_resource scope ref (rs_revision r) (rs_deleted r) (rs_body_json r))"

definition snapshot :: "store_db \<Rightarrow> project_scope \<Rightarrow> project_snapshot domain_result" where
  "snapshot db scope =
     and_then (load_project db scope) (\<lambda>project.
     case project of
       None \<Rightarrow> Inl (ProjectUnauthorized (sc_project_id scope))
     | Some (epoch, at_seq) \<Rightarrow>
         and_then (collect_results (snapshot_row_decode scope)
            (select_ordered (\<lambda>r. rs_scope r = scope) (\<lambda>r. (rs_resource_kind r, rs_resource_id r))
               (MAX_SNAPSHOT_RESOURCES + 1) (db_resources db))) (\<lambda>resources.
           if length resources > MAX_SNAPSHOT_RESOURCES then
             Inl (SnapshotTooLarge MAX_SNAPSHOT_RESOURCES)
           else snapshot_new scope epoch at_seq resources))"

section \<open>Lemmas\<close>

lemma decode_canonical_resource_state:
  "rev_ok r \<Longrightarrow> body_matches_change ch body \<Longrightarrow>
     decode_canonical_resource scope ref (uint r) (if ch = Delete then 1 else 0) body =
       Inr \<lparr>cr_scope = scope, cr_resource = ref, cr_revision = r, cr_state = state_of ch body\<rparr>"
  by (cases ch; cases body) (auto simp: decode_canonical_resource_def state_of_def)

end
