(* ===== verification/Ledger_Spec.thy ===== *)
theory Ledger_Spec
  imports Store_Command
begin

text \<open>
  The contract of a command store, as an abstract machine: a ledger maps each registered project
  scope to its history epoch and an append-only log of committed commands. Every answer of
  \<open>CommandStore\<close> is a function of that log. The SQLite adapter is proved to refine it in
  \<open>Store_Refinement\<close>; clients are verified against it.
\<close>

section \<open>Logs\<close>

record log_entry =
  le_receipt :: command_receipt
  le_operation :: operation_name
  le_change :: change_operation
  le_body :: "bytes option"

type_synonym ledger = "project_scope \<Rightarrow> (project_epoch \<times> log_entry list) option"

definition le_ref :: "log_entry \<Rightarrow> resource_ref" where
  "le_ref e = cp_resource (le_receipt e)"

definition log_of :: "ledger \<Rightarrow> project_scope \<Rightarrow> log_entry list" where
  "log_of L scope = (case L scope of None \<Rightarrow> [] | Some (_, log) \<Rightarrow> log)"

definition find_command :: "log_entry list \<Rightarrow> command_id \<Rightarrow> log_entry option" where
  "find_command log cid = find (\<lambda>e. cp_command_id (le_receipt e) = cid) log"

definition last_entry :: "log_entry list \<Rightarrow> resource_ref \<Rightarrow> log_entry option" where
  "last_entry log ref = find (\<lambda>e. le_ref e = ref) (rev log)"

definition current_revision :: "log_entry list \<Rightarrow> resource_ref \<Rightarrow> revision option" where
  "current_revision log ref = map_option (\<lambda>e. cp_revision (le_receipt e)) (last_entry log ref)"

section \<open>Executing a command\<close>

definition check_handoff_body ::
  "(bytes \<Rightarrow> handoff_record option) \<Rightarrow> resource_ref \<Rightarrow> change_operation \<Rightarrow> bytes option
    \<Rightarrow> unit domain_result" where
  "check_handoff_body decode_handoff ref change body =
    (if rf_kind ref \<noteq> ''handoff'' \<or> change = Delete then Inr ()
     else case decode_handoff (the body) of
       None \<Rightarrow> Inl (StorageFailure ''handoff_index_decode'' External)
     | Some record \<Rightarrow>
         if hr_handoff_id record \<noteq> rf_id ref then
           Inl (StorageFailure ''handoff_index_decode''
             (Text ''handoff body identity does not match its resource coordinate''))
         else Inr ())"

definition succ_revision :: "revision option \<Rightarrow> revision" where
  "succ_revision current = (case current of None \<Rightarrow> 1 | Some r \<Rightarrow> r + 1)"

definition ledger_entry :: "log_entry list \<Rightarrow> i64 \<Rightarrow> mutation_command \<Rightarrow> log_entry" where
  "ledger_entry log now c =
     \<lparr>le_receipt = new_receipt c (of_nat (length log + 1))
        (succ_revision (current_revision log (mc_resource c))) now,
      le_operation = en_operation (ac_envelope (mc_command c)),
      le_change = mc_change c, le_body = mc_resource_body c\<rparr>"

text \<open>
  The branch for the exhaustion of the 63-bit sequence numbers is not part of the contract: the
  refinement assumes the project holds fewer than \<open>i64_max\<close> commands.
\<close>

definition ledger_execute ::
  "(bytes \<Rightarrow> handoff_record option) \<Rightarrow> int \<Rightarrow> mutation_command \<Rightarrow> ledger
    \<Rightarrow> ledger \<times> command_receipt domain_result" where
  "ledger_execute decode_handoff clock c L =
    (let scope = command_scope c in
     case check_change_body (mc_change c) (mc_resource_body c) of
       Inl e \<Rightarrow> (L, Inl e)
     | Inr _ \<Rightarrow>
    (case L scope of
       None \<Rightarrow> (L, Inl (ProjectUnauthorized (sc_project_id scope)))
     | Some (epoch, log) \<Rightarrow>
    (case find_command log (command_id_of c) of
       Some e \<Rightarrow>
         if cp_actor_id (le_receipt e) \<noteq> command_actor c \<or>
            cp_fingerprint (le_receipt e) \<noteq> mc_fingerprint c then (L, Inl CommandConflict)
         else (L, Inr (le_receipt e))
     | None \<Rightarrow>
    (case check_expected_revision (en_expected_revision (ac_envelope (mc_command c)))
            (current_revision log (mc_resource c)) of
       Inl e \<Rightarrow> (L, Inl e)
     | Inr _ \<Rightarrow>
    (case unix_time_ms clock of
       Inl e \<Rightarrow> (L, Inl e)
     | Inr now \<Rightarrow>
    (case check_handoff_body decode_handoff (mc_resource c) (mc_change c) (mc_resource_body c) of
       Inl e \<Rightarrow> (L, Inl e)
     | Inr _ \<Rightarrow>
         let e = ledger_entry log now c in
         (L(scope \<mapsto> (epoch, log @ [e])), Inr (le_receipt e))))))))"

section \<open>Reads\<close>

definition ledger_receipt :: "ledger \<Rightarrow> project_scope \<Rightarrow> command_id \<Rightarrow> command_receipt option" where
  "ledger_receipt L scope cid = map_option le_receipt (find_command (log_of L scope) cid)"

definition entry_change :: "project_scope \<Rightarrow> project_epoch \<Rightarrow> log_entry \<Rightarrow> change_entry" where
  "entry_change scope epoch e =
     \<lparr>ce_tenant_id = sc_tenant_id scope, ce_project_id = sc_project_id scope,
      ce_project_epoch = epoch, ce_seq = cp_project_seq (le_receipt e), ce_resource = le_ref e,
      ce_operation = le_change e, ce_revision = cp_revision (le_receipt e),
      ce_actor_id = cp_actor_id (le_receipt e),
      ce_committed_at_ms = cp_committed_at_ms (le_receipt e)\<rparr>"

definition entry_resource :: "project_scope \<Rightarrow> log_entry \<Rightarrow> canonical_resource" where
  "entry_resource scope e =
     \<lparr>cr_scope = scope, cr_resource = le_ref e, cr_revision = cp_revision (le_receipt e),
      cr_state = state_of (le_change e) (le_body e)\<rparr>"

definition entry_materialized :: "project_scope \<Rightarrow> project_epoch \<Rightarrow> log_entry \<Rightarrow> materialized_change" where
  "entry_materialized scope epoch e =
     \<lparr>mz_change = entry_change scope epoch e, mz_resource = entry_resource scope e\<rparr>"

text \<open>The window of the log a feed request reads.\<close>

definition feed_window ::
  "ledger \<Rightarrow> project_scope \<Rightarrow> change_cursor \<Rightarrow> nat \<Rightarrow> log_entry list domain_result" where
  "feed_window L scope cursor limit =
    (if limit = 0 \<or> limit > MAX_CHANGE_LIMIT then
       Inl (InvalidChangeBatch (''limit must be between 1 and '' @ nat_text MAX_CHANGE_LIMIT))
     else case L scope of
       None \<Rightarrow> Inl (ProjectUnauthorized (sc_project_id scope))
     | Some (epoch, log) \<Rightarrow>
         if cu_project_epoch cursor \<noteq> epoch then
           Inl (CursorEpochMismatch (cu_project_epoch cursor) epoch)
         else if unat (cu_after_seq cursor) > length log then
           Inl (CursorOutOfRange (cu_after_seq cursor) (of_nat (length log)))
         else Inr (take limit (drop (unat (cu_after_seq cursor)) log)))"

definition feed_next :: "change_cursor \<Rightarrow> log_entry list \<Rightarrow> change_cursor" where
  "feed_next cursor window =
     cursor\<lparr>cu_after_seq := of_nat (unat (cu_after_seq cursor) + length window)\<rparr>"

definition feed_has_more :: "ledger \<Rightarrow> project_scope \<Rightarrow> change_cursor \<Rightarrow> nat \<Rightarrow> bool" where
  "feed_has_more L scope cursor limit \<longleftrightarrow>
     length (log_of L scope) > unat (cu_after_seq cursor) + limit"

definition ledger_changes ::
  "ledger \<Rightarrow> project_scope \<Rightarrow> change_cursor \<Rightarrow> nat \<Rightarrow> change_batch domain_result" where
  "ledger_changes L scope cursor limit =
     and_then (feed_window L scope cursor limit) (\<lambda>window.
       Inr \<lparr>cb_scope = scope, cb_cursor = cursor,
            cb_entries = map (entry_change scope (cu_project_epoch cursor)) window,
            cb_next_cursor = feed_next cursor window,
            cb_has_more = feed_has_more L scope cursor limit\<rparr>)"

definition ledger_materialized ::
  "ledger \<Rightarrow> project_scope \<Rightarrow> change_cursor \<Rightarrow> nat \<Rightarrow> materialized_batch domain_result" where
  "ledger_materialized L scope cursor limit =
     and_then (feed_window L scope cursor limit) (\<lambda>window.
       Inr \<lparr>mb_scope = scope, mb_cursor = cursor,
            mb_entries = map (entry_materialized scope (cu_project_epoch cursor)) window,
            mb_next_cursor = feed_next cursor window,
            mb_has_more = feed_has_more L scope cursor limit\<rparr>)"

definition ledger_resource ::
  "ledger \<Rightarrow> project_scope \<Rightarrow> resource_ref \<Rightarrow> canonical_resource option" where
  "ledger_resource L scope ref = map_option (entry_resource scope) (last_entry (log_of L scope) ref)"

definition ref_key :: "resource_ref \<Rightarrow> string \<times> string" where
  "ref_key r = (rf_kind r, rf_id r)"

definition ledger_snapshot :: "ledger \<Rightarrow> project_scope \<Rightarrow> project_snapshot domain_result" where
  "ledger_snapshot L scope =
    (case L scope of
       None \<Rightarrow> Inl (ProjectUnauthorized (sc_project_id scope))
     | Some (epoch, log) \<Rightarrow>
         let refs = sort_key ref_key (remdups (map le_ref log)) in
         if length refs > MAX_SNAPSHOT_RESOURCES then Inl (SnapshotTooLarge MAX_SNAPSHOT_RESOURCES)
         else Inr \<lparr>sn_scope = scope, sn_project_epoch = epoch, sn_at_seq = of_nat (length log),
                   sn_resources = map (\<lambda>ref. the (ledger_resource L scope ref)) refs\<rparr>)"

section \<open>Well-formed ledgers\<close>

definition entry_ok :: "(bytes \<Rightarrow> handoff_record option) \<Rightarrow> project_scope \<Rightarrow> log_entry \<Rightarrow> bool" where
  "entry_ok decode_handoff scope e \<longleftrightarrow>
     (let r = le_receipt e in
      receipt_scope r = scope \<and> id_ok (cp_command_id r) \<and> fingerprint_ok (cp_fingerprint r) \<and>
      id_ok (cp_tenant_id r) \<and> id_ok (cp_project_id r) \<and> id_ok (cp_actor_id r) \<and>
      ref_ok (cp_resource r) \<and> rev_ok (cp_revision r) \<and>
      body_matches_change (le_change e) (le_body e) \<and>
      check_handoff_body decode_handoff (cp_resource r) (le_change e) (le_body e) = Inr ())"

definition prior_count :: "log_entry list \<Rightarrow> resource_ref \<Rightarrow> nat" where
  "prior_count log ref = length (filter (\<lambda>e. le_ref e = ref) log)"

definition log_ok :: "(bytes \<Rightarrow> handoff_record option) \<Rightarrow> project_scope \<Rightarrow> log_entry list \<Rightarrow> bool" where
  "log_ok decode_handoff scope log \<longleftrightarrow>
     int (length log) \<le> i64_max \<and> (\<forall>e\<in>set log. entry_ok decode_handoff scope e) \<and>
     distinct (map (\<lambda>e. cp_command_id (le_receipt e)) log) \<and>
     (\<forall>i<length log. unat (cp_project_seq (le_receipt (log ! i))) = i + 1) \<and>
     (\<forall>i<length log. unat (cp_revision (le_receipt (log ! i))) =
        prior_count (take i log) (le_ref (log ! i)) + 1)"

definition ledger_ok :: "(bytes \<Rightarrow> handoff_record option) \<Rightarrow> ledger \<Rightarrow> bool" where
  "ledger_ok decode_handoff L \<longleftrightarrow>
     (\<forall>scope epoch log. L scope = Some (epoch, log) \<longrightarrow>
        id_ok epoch \<and> log_ok decode_handoff scope log)"

section \<open>Lemmas\<close>

lemma log_of_simps [simp]:
  "L scope = None \<Longrightarrow> log_of L scope = []"
  "L scope = Some (epoch, log) \<Longrightarrow> log_of L scope = log"
  by (simp_all add: log_of_def)

lemma log_of_upd [simp]:
  "log_of (L(scope \<mapsto> (epoch, log))) s = (if s = scope then log else log_of L s)"
  by (simp add: log_of_def)

lemma last_entry_Nil [simp]: "last_entry [] ref = None"
  by (simp add: last_entry_def)

lemma last_entry_snoc [simp]:
  "last_entry (log @ [e]) ref = (if le_ref e = ref then Some e else last_entry log ref)"
  by (simp add: last_entry_def)

lemma last_entry_Some: "last_entry log ref = Some e \<Longrightarrow> e \<in> set log \<and> le_ref e = ref"
  by (auto simp: last_entry_def dest: find_Some_set)

lemma last_entry_None: "last_entry log ref = None \<longleftrightarrow> ref \<notin> le_ref ` set log"
  by (auto simp: last_entry_def find_None_set)

lemma find_command_Some:
  "find_command log cid = Some e \<Longrightarrow> e \<in> set log \<and> cp_command_id (le_receipt e) = cid"
  by (auto simp: find_command_def dest: find_Some_set)

lemma find_command_None:
  "find_command log cid = None \<longleftrightarrow> cid \<notin> (\<lambda>e. cp_command_id (le_receipt e)) ` set log"
  by (auto simp: find_command_def find_None_set)

lemma find_command_snoc:
  "find_command (log @ [e]) cid = (case find_command log cid of Some x \<Rightarrow> Some x
     | None \<Rightarrow> if cp_command_id (le_receipt e) = cid then Some e else None)"
  by (auto simp: find_command_def find_append split: option.splits)

lemma find_command_member:
  assumes "log_ok dec scope log" "e \<in> set log"
  shows "find_command log (cp_command_id (le_receipt e)) = Some e"
proof -
  have "inj_on (\<lambda>e. cp_command_id (le_receipt e)) (set log)"
    using assms(1) by (simp add: log_ok_def distinct_map)
  with assms(2) show ?thesis
    unfolding find_command_def by (auto intro!: find_unique dest: inj_onD)
qed

lemma prior_count_snoc:
  "prior_count (log @ [e]) ref = prior_count log ref + (if le_ref e = ref then 1 else 0)"
  by (simp add: prior_count_def)

lemma prior_count_le: "prior_count log ref \<le> length log"
  by (simp add: prior_count_def)

lemma log_ok_Nil [simp]: "log_ok dec scope []"
  by (simp add: log_ok_def i64_max_def)

lemma log_ok_snoc:
  "log_ok dec scope (log @ [e]) \<longleftrightarrow>
     log_ok dec scope log \<and> int (length log) < i64_max \<and> entry_ok dec scope e \<and>
     find_command log (cp_command_id (le_receipt e)) = None \<and>
     unat (cp_project_seq (le_receipt e)) = length log + 1 \<and>
     unat (cp_revision (le_receipt e)) = prior_count log (le_ref e) + 1"
  unfolding log_ok_def find_command_None
  by (auto simp: nth_append less_Suc_eq all_conj_distrib)

lemma last_revision_count:
  "log_ok dec scope log \<Longrightarrow> last_entry log ref = Some e \<Longrightarrow>
     unat (cp_revision (le_receipt e)) = prior_count log ref"
proof (induction log rule: rev_induct)
  case (snoc x log)
  then show ?case
    by (cases "le_ref x = ref") (auto simp: log_ok_snoc prior_count_snoc)
qed simp

lemma no_entry_count: "last_entry log ref = None \<longleftrightarrow> prior_count log ref = 0"
  by (auto simp: last_entry_None prior_count_def filter_empty_conv)

lemma seq_nth:
  assumes "log_ok dec scope log" "i < length log"
  shows "cp_project_seq (le_receipt (log ! i)) = of_nat (i + 1)"
  using assms unfolding log_ok_def by (intro u64_of_unat) blast

lemma ledger_ok_log: "ledger_ok dec L \<Longrightarrow> log_ok dec scope (log_of L scope)"
  by (cases "L scope") (auto simp: ledger_ok_def log_of_def)

lemma ledger_ok_epoch: "ledger_ok dec L \<Longrightarrow> L scope = Some (epoch, log) \<Longrightarrow> id_ok epoch"
  by (auto simp: ledger_ok_def)

lemma ledger_ok_upd:
  "ledger_ok dec L \<Longrightarrow> id_ok epoch \<Longrightarrow> log_ok dec scope log \<Longrightarrow>
     ledger_ok dec (L(scope \<mapsto> (epoch, log)))"
  by (auto simp: ledger_ok_def)

end
