(* ===== verification/Store_Identity.thy ===== *)
theory Store_Identity
  imports Store_Command
begin

text \<open>
  \<open>aidememo-store-local/src/lib.rs\<close>: opening a database, project registration and bootstrap,
  actor provisioning, bearer authentication and membership lookup (also reached through the
  delegating trait implementation in \<open>server_identity.rs\<close>).
\<close>

section \<open>A fresh database\<close>

definition SCHEMA_VERSION :: i64 where "SCHEMA_VERSION = 4"

text \<open>The result of \<open>create_schema_v4\<close> on an empty file.\<close>

definition create_schema_v4 :: store_db where
  "create_schema_v4 = \<lparr>db_user_version = SCHEMA_VERSION, db_tenants = [], db_projects = [],
     db_actors = [], db_memberships = [], db_token_bindings = [], db_resources = [],
     db_receipts = [], db_changes = [], db_audit = [], db_handoff_index = []\<rparr>"

definition schema_version :: "store_db \<Rightarrow> nat domain_result" where
  "schema_version db =
    (if 0 \<le> db_user_version db \<and> db_user_version db < 2 ^ 32 then Inr (nat (db_user_version db))
     else Inl (StorageFailure ''schema_version_decode'' External))"

text \<open>Commit the transaction on success, roll it back on an error.\<close>

definition commit_or_rollback :: "store_db \<Rightarrow> store_db domain_result \<Rightarrow> store_db \<times> unit domain_result" where
  "commit_or_rollback db r = (case r of Inl e \<Rightarrow> (db, Inl e) | Inr tx \<Rightarrow> (tx, Inr ()))"

section \<open>Projects\<close>

definition project_same_key :: "project_row \<Rightarrow> project_row \<Rightarrow> bool" where
  "project_same_key r u \<longleftrightarrow> pj_scope u = pj_scope r"

definition initialize_project ::
  "project_scope \<Rightarrow> project_epoch \<Rightarrow> store_db \<Rightarrow> store_db \<times> unit domain_result" where
  "initialize_project scope epoch db = commit_or_rollback db (
     let row = \<lparr>pj_tenant_id = sc_tenant_id scope, pj_project_id = sc_project_id scope,
                pj_project_epoch = epoch, pj_next_seq = 0, pj_display_name = '''',
                pj_status = ''active'', pj_revision = 1, pj_created_at_ms = 0,
                pj_updated_at_ms = 0\<rparr> in
     and_then (sql ''initialize_insert''
       (insert_or_ignore project_same_key project_check (\<lambda>_. True) row (db_projects db))) (\<lambda>t.
     let tx = db\<lparr>db_projects := t\<rparr> in
     and_then (sql ''initialize_read'' (find_project tx scope)) (\<lambda>p.
       if pj_project_epoch p \<noteq> epoch then
         Inl (StorageFailure ''initialize_project''
           (Text ''project already exists with a different epoch''))
       else Inr tx)))"

definition project_epoch_of :: "store_db \<Rightarrow> project_scope \<Rightarrow> project_epoch option domain_result" where
  "project_epoch_of db scope = and_then (load_project db scope) (\<lambda>p. Inr (map_option fst p))"

section \<open>Validation of administrative records\<close>

definition validate_record_text :: "string \<Rightarrow> string \<Rightarrow> unit domain_result" where
  "validate_record_text name s =
    (if s = [] \<or> length s > 256 \<or> has_control s then
       Inl (InvalidCommand (Text (name @ '' must contain 1 to 256 bytes and no control characters'')))
     else Inr ())"

definition validate_record_times :: "string \<Rightarrow> i64 \<Rightarrow> i64 \<Rightarrow> unit domain_result" where
  "validate_record_times name created updated =
    (if created < 0 \<or> updated < created then
       Inl (InvalidCommand (Text (name @
         '' timestamps must be non-negative and updated_at must not precede created_at'')))
     else Inr ())"

definition validate_tenant_project :: "tenant_record \<Rightarrow> project_record \<Rightarrow> unit domain_result" where
  "validate_tenant_project tenant project =
    (if tr_tenant_id tenant \<noteq> pr_tenant_id project then
       Inl (InvalidCommand (Text ''project tenant does not match tenant record''))
     else
       and_then (validate_record_text ''tenant display_name'' (tr_display_name tenant)) (\<lambda>_.
       and_then (validate_record_text ''project display_name'' (pr_display_name project)) (\<lambda>_.
       and_then (validate_record_times ''tenant'' (tr_created_at_ms tenant)
          (tr_updated_at_ms tenant)) (\<lambda>_.
         validate_record_times ''project'' (pr_created_at_ms project)
           (pr_updated_at_ms project)))))"

definition validate_actor_membership ::
  "actor_record \<Rightarrow> project_membership \<Rightarrow> bytes \<Rightarrow> unit domain_result" where
  "validate_actor_membership actor m token =
    (if ar_tenant_id actor \<noteq> pm_tenant_id m \<or> ar_actor_id actor \<noteq> pm_actor_id m then
       Inl (InvalidCommand (Text ''actor identity does not match membership''))
     else if length token \<noteq> 32 then
       Inl (InvalidCommand (Text ''bearer token digest must contain 32 bytes''))
     else
       and_then (validate_record_text ''actor display_name'' (ar_display_name actor)) (\<lambda>_.
         validate_record_times ''actor'' (ar_created_at_ms actor) (ar_updated_at_ms actor)))"

section \<open>Agreement with stored records\<close>

definition ensure_exact_match :: "i64 \<Rightarrow> string \<Rightarrow> string \<Rightarrow> unit domain_result" where
  "ensure_exact_match matched operation detail =
    (if matched = 1 then Inr () else Inl (StorageFailure operation (Text detail)))"

definition ensure_tenant_matches :: "store_db \<Rightarrow> tenant_record \<Rightarrow> unit domain_result" where
  "ensure_tenant_matches db tenant =
     and_then (to_i64 ''tenant_revision'' (tr_revision tenant)) (\<lambda>rev.
       ensure_exact_match
         (select_count (\<lambda>r. tn_tenant_id r = tr_tenant_id tenant \<and>
            tn_status r = record_status_text (tr_status tenant) \<and> tn_revision r = rev)
            (db_tenants db))
         ''tenant_bootstrap'' ''tenant record conflicts'')"

definition ensure_project_matches :: "store_db \<Rightarrow> project_record \<Rightarrow> unit domain_result" where
  "ensure_project_matches db project =
     and_then (to_i64 ''project_revision'' (pr_revision project)) (\<lambda>rev.
       ensure_exact_match
         (select_count (\<lambda>r. pj_tenant_id r = pr_tenant_id project \<and>
            pj_project_id r = pr_project_id project \<and>
            pj_project_epoch r = pr_project_epoch project \<and>
            pj_status r = record_status_text (pr_status project) \<and> pj_revision r = rev)
            (db_projects db))
         ''project_bootstrap'' ''project record conflicts'')"

definition ensure_actor_matches :: "store_db \<Rightarrow> actor_record \<Rightarrow> unit domain_result" where
  "ensure_actor_matches db actor =
     and_then (to_i64 ''actor_revision'' (ar_revision actor)) (\<lambda>rev.
       ensure_exact_match
         (select_count (\<lambda>r. at_tenant_id r = ar_tenant_id actor \<and>
            at_actor_id r = ar_actor_id actor \<and>
            at_kind r = actor_kind_text (ar_kind actor) \<and>
            at_status r = record_status_text (ar_status actor) \<and> at_revision r = rev)
            (db_actors db))
         ''actor_provision'' ''actor record conflicts'')"

definition ensure_membership_matches :: "store_db \<Rightarrow> project_membership \<Rightarrow> unit domain_result" where
  "ensure_membership_matches db m =
     ensure_exact_match
       (select_count (\<lambda>r. ms_tenant_id r = pm_tenant_id m \<and> ms_project_id r = pm_project_id m \<and>
          ms_actor_id r = pm_actor_id m \<and> ms_role r = membership_role_text (pm_role m) \<and>
          ms_status r = membership_status_text (pm_status m)) (db_memberships db))
       ''membership_provision'' ''membership record conflicts''"

definition ensure_token_matches :: "store_db \<Rightarrow> bytes \<Rightarrow> actor_record \<Rightarrow> unit domain_result" where
  "ensure_token_matches db token actor =
     ensure_exact_match
       (select_count (\<lambda>r. tk_token_sha256 r = token \<and> tk_tenant_id r = ar_tenant_id actor \<and>
          tk_actor_id r = ar_actor_id actor \<and> tk_active r = 1) (db_token_bindings db))
       ''token_provision'' ''token binding conflicts''"

text \<open>\<open>SELECT COUNT(*) ... JOIN\<close>: the number of matching pairs of rows.\<close>

definition ensure_active_tenant_project ::
  "store_db \<Rightarrow> tenant_id \<Rightarrow> project_id \<Rightarrow> unit domain_result" where
  "ensure_active_tenant_project db tid pid =
     ensure_exact_match
       (select_count (\<lambda>(t, p). pj_tenant_id p = tn_tenant_id t \<and> tn_tenant_id t = tid \<and>
          pj_project_id p = pid \<and> tn_status t = ''active'' \<and> pj_status p = ''active'')
          (List.product (db_tenants db) (db_projects db)))
       ''active_project'' ''active tenant and project were not found''"

section \<open>Bootstrap and provisioning\<close>

definition bootstrap_project_tx ::
  "store_db \<Rightarrow> tenant_record \<Rightarrow> project_record \<Rightarrow> store_db domain_result" where
  "bootstrap_project_tx db tenant project =
     and_then (validate_tenant_project tenant project) (\<lambda>_.
     and_then (to_i64 ''tenant_revision'' (tr_revision tenant)) (\<lambda>trev.
     and_then (sql ''tenant_bootstrap_write'' (insert_or_ignore
         (\<lambda>r u. tn_tenant_id u = tn_tenant_id r) tenant_check (\<lambda>_. True)
         \<lparr>tn_tenant_id = tr_tenant_id tenant, tn_display_name = tr_display_name tenant,
          tn_status = record_status_text (tr_status tenant), tn_revision = trev,
          tn_created_at_ms = tr_created_at_ms tenant, tn_updated_at_ms = tr_updated_at_ms tenant\<rparr>
         (db_tenants db))) (\<lambda>ts.
     let tx = db\<lparr>db_tenants := ts\<rparr> in
     and_then (ensure_tenant_matches tx tenant) (\<lambda>_.
     and_then (to_i64 ''project_revision'' (pr_revision project)) (\<lambda>prev.
     and_then (sql ''project_bootstrap_write'' (insert_or_ignore
         project_same_key project_check (\<lambda>_. True)
         \<lparr>pj_tenant_id = pr_tenant_id project, pj_project_id = pr_project_id project,
          pj_project_epoch = pr_project_epoch project, pj_next_seq = 0,
          pj_display_name = pr_display_name project,
          pj_status = record_status_text (pr_status project), pj_revision = prev,
          pj_created_at_ms = pr_created_at_ms project, pj_updated_at_ms = pr_updated_at_ms project\<rparr>
         (db_projects tx))) (\<lambda>ps.
     and_then (sql ''project_bootstrap_adopt'' (update_rows project_check
         (\<lambda>p. pj_tenant_id p = pr_tenant_id project \<and> pj_project_id p = pr_project_id project \<and>
            pj_project_epoch p = pr_project_epoch project \<and> pj_display_name p = '''' \<and>
            pj_status p = ''active'' \<and> pj_revision p = 1 \<and> pj_created_at_ms p = 0 \<and>
            pj_updated_at_ms p = 0)
         (\<lambda>p. p\<lparr>pj_display_name := pr_display_name project,
                 pj_status := record_status_text (pr_status project), pj_revision := prev,
                 pj_created_at_ms := pr_created_at_ms project,
                 pj_updated_at_ms := pr_updated_at_ms project\<rparr>) ps)) (\<lambda>(ps, _).
     let tx = tx\<lparr>db_projects := ps\<rparr> in
     and_then (ensure_project_matches tx project) (\<lambda>_. Inr tx))))))))"

definition bootstrap_project ::
  "tenant_record \<Rightarrow> project_record \<Rightarrow> store_db \<Rightarrow> store_db \<times> unit domain_result" where
  "bootstrap_project tenant project db =
     commit_or_rollback db (bootstrap_project_tx db tenant project)"

definition provision_actor_tx ::
  "store_db \<Rightarrow> actor_record \<Rightarrow> project_membership \<Rightarrow> bytes \<Rightarrow> i64 \<Rightarrow> store_db domain_result" where
  "provision_actor_tx db actor m token created_at_ms =
     and_then (validate_actor_membership actor m token) (\<lambda>_.
     and_then (ensure_active_tenant_project db (pm_tenant_id m) (pm_project_id m)) (\<lambda>_.
     and_then (to_i64 ''actor_revision'' (ar_revision actor)) (\<lambda>rev.
     and_then (sql ''actor_provision_write'' (insert_or_ignore
         (\<lambda>r u. at_tenant_id u = at_tenant_id r \<and> at_actor_id u = at_actor_id r)
         actor_check (actor_fk db)
         \<lparr>at_tenant_id = ar_tenant_id actor, at_actor_id = ar_actor_id actor,
          at_display_name = ar_display_name actor, at_kind = actor_kind_text (ar_kind actor),
          at_status = record_status_text (ar_status actor), at_revision = rev,
          at_created_at_ms = ar_created_at_ms actor, at_updated_at_ms = ar_updated_at_ms actor\<rparr>
         (db_actors db))) (\<lambda>rows.
     let tx = db\<lparr>db_actors := rows\<rparr> in
     and_then (ensure_actor_matches tx actor) (\<lambda>_.
     and_then (sql ''membership_provision_write'' (insert_or_ignore
         (\<lambda>r u. ms_tenant_id u = ms_tenant_id r \<and> ms_project_id u = ms_project_id r \<and>
            ms_actor_id u = ms_actor_id r)
         membership_check (membership_fk tx)
         \<lparr>ms_tenant_id = pm_tenant_id m, ms_project_id = pm_project_id m,
          ms_actor_id = pm_actor_id m, ms_role = membership_role_text (pm_role m),
          ms_status = membership_status_text (pm_status m)\<rparr>
         (db_memberships tx))) (\<lambda>rows.
     let tx = tx\<lparr>db_memberships := rows\<rparr> in
     and_then (ensure_membership_matches tx m) (\<lambda>_.
     and_then (sql ''token_provision_write'' (insert_or_ignore
         (\<lambda>r u. tk_token_sha256 u = tk_token_sha256 r) token_check (token_fk tx)
         \<lparr>tk_token_sha256 = token, tk_tenant_id = ar_tenant_id actor,
          tk_actor_id = ar_actor_id actor, tk_active = 1, tk_created_at_ms = created_at_ms\<rparr>
         (db_token_bindings tx))) (\<lambda>rows.
     let tx = tx\<lparr>db_token_bindings := rows\<rparr> in
     and_then (ensure_token_matches tx token actor) (\<lambda>_. Inr tx)))))))))"

definition provision_actor ::
  "actor_record \<Rightarrow> project_membership \<Rightarrow> bytes \<Rightarrow> i64 \<Rightarrow> store_db \<Rightarrow> store_db \<times> unit domain_result" where
  "provision_actor actor m token created_at_ms db =
     commit_or_rollback db (provision_actor_tx db actor m token created_at_ms)"

section \<open>Authentication and membership\<close>

definition active_tenant :: "store_db \<Rightarrow> string \<Rightarrow> bool" where
  "active_tenant db t \<longleftrightarrow>
     list_ex (\<lambda>r. tn_tenant_id r = t \<and> tn_status r = ''active'') (db_tenants db)"

definition active_project :: "store_db \<Rightarrow> project_scope \<Rightarrow> bool" where
  "active_project db scope \<longleftrightarrow>
     list_ex (\<lambda>r. pj_scope r = scope \<and> pj_status r = ''active'') (db_projects db)"

definition active_actor :: "store_db \<Rightarrow> string \<Rightarrow> string \<Rightarrow> bool" where
  "active_actor db t a \<longleftrightarrow>
     list_ex (\<lambda>r. at_tenant_id r = t \<and> at_actor_id r = a \<and> at_status r = ''active'') (db_actors db)"

text \<open>
  An inner \<open>JOIN\<close> on a primary key keeps a row exactly when the joined table has that key; the
  joined status conditions are the three \<open>active_\<close> predicates.
\<close>

definition authenticate_token ::
  "store_db \<Rightarrow> bytes \<Rightarrow> authenticated_actor option domain_result" where
  "authenticate_token db token =
    (if length token \<noteq> 32 then
       Inl (InvalidCommand (Text ''bearer token digest must contain 32 bytes''))
     else
       map_transpose (\<lambda>r. and_then (id_try_from ''tenant_id'' (tk_tenant_id r)) (\<lambda>t.
           and_then (id_try_from ''actor_id'' (tk_actor_id r)) (\<lambda>a.
             Inr \<lparr>aa_tenant_id = t, aa_actor_id = a\<rparr>)))
         (select_first (\<lambda>r. tk_token_sha256 r = token \<and> tk_active r = 1 \<and>
            active_tenant db (tk_tenant_id r) \<and> active_actor db (tk_tenant_id r) (tk_actor_id r))
            (db_token_bindings db)))"

definition project_membership_of ::
  "store_db \<Rightarrow> project_scope \<Rightarrow> actor_id \<Rightarrow> project_membership option domain_result" where
  "project_membership_of db scope actor =
     map_transpose (\<lambda>r. and_then (parse_membership_role (ms_role r)) (\<lambda>role.
         and_then (parse_membership_status (ms_status r)) (\<lambda>status.
           Inr \<lparr>pm_tenant_id = sc_tenant_id scope, pm_project_id = sc_project_id scope,
                pm_actor_id = actor, pm_role = role, pm_status = status\<rparr>)))
       (select_first (\<lambda>r. ms_tenant_id r = sc_tenant_id scope \<and>
          ms_project_id r = sc_project_id scope \<and> ms_actor_id r = actor \<and>
          ms_status r = ''active'' \<and> active_tenant db (sc_tenant_id scope) \<and>
          active_project db scope \<and> active_actor db (sc_tenant_id scope) actor)
          (db_memberships db))"

definition membership ::
  "store_db \<Rightarrow> authenticated_actor \<Rightarrow> project_id \<Rightarrow> project_membership option domain_result" where
  "membership db auth pid =
     project_membership_of db (scope_new (aa_tenant_id auth) pid) (aa_actor_id auth)"

end
