(* ===== verification/Store_Refinement.thy ===== *)
theory Store_Refinement
  imports Ledger_Spec Store_Identity
begin

text \<open>
  The SQLite command ledger implements the abstract ledger: \<open>store_rel\<close> relates the tables to a
  ledger, and every operation of the store answers as the ledger does and keeps the relation.
\<close>

section \<open>The relation\<close>

definition enc_receipt :: "log_entry \<Rightarrow> receipt_row" where
  "enc_receipt e = (let r = le_receipt e in
     \<lparr>rc_tenant_id = cp_tenant_id r, rc_project_id = cp_project_id r,
      rc_command_id = cp_command_id r, rc_fingerprint = cp_fingerprint r,
      rc_actor_id = cp_actor_id r, rc_project_seq = uint (cp_project_seq r),
      rc_resource_kind = rf_kind (cp_resource r), rc_resource_id = rf_id (cp_resource r),
      rc_revision = uint (cp_revision r), rc_committed_at_ms = cp_committed_at_ms r\<rparr>)"

definition enc_change :: "project_epoch \<Rightarrow> log_entry \<Rightarrow> change_row" where
  "enc_change epoch e = (let r = le_receipt e in
     \<lparr>ch_tenant_id = cp_tenant_id r, ch_project_id = cp_project_id r, ch_project_epoch = epoch,
      ch_seq = uint (cp_project_seq r), ch_resource_kind = rf_kind (cp_resource r),
      ch_resource_id = rf_id (cp_resource r), ch_operation = change_text (le_change e),
      ch_revision = uint (cp_revision r), ch_actor_id = cp_actor_id r,
      ch_committed_at_ms = cp_committed_at_ms r, ch_state_available = 1,
      ch_body_json = le_body e\<rparr>)"

definition enc_audit :: "log_entry \<Rightarrow> audit_row" where
  "enc_audit e = (let r = le_receipt e in
     \<lparr>ad_tenant_id = cp_tenant_id r, ad_project_id = cp_project_id r,
      ad_project_seq = uint (cp_project_seq r), ad_command_id = cp_command_id r,
      ad_operation = le_operation e, ad_resource_kind = rf_kind (cp_resource r),
      ad_resource_id = rf_id (cp_resource r), ad_actor_id = cp_actor_id r,
      ad_committed_at_ms = cp_committed_at_ms r\<rparr>)"

definition enc_resource :: "project_scope \<Rightarrow> log_entry \<Rightarrow> resource_row" where
  "enc_resource scope e =
     \<lparr>rs_tenant_id = sc_tenant_id scope, rs_project_id = sc_project_id scope,
      rs_resource_kind = rf_kind (le_ref e), rs_resource_id = rf_id (le_ref e),
      rs_revision = uint (cp_revision (le_receipt e)),
      rs_deleted = (if le_change e = Delete then 1 else 0), rs_body_json = le_body e\<rparr>"

definition enc_index :: "project_scope \<Rightarrow> log_entry \<Rightarrow> handoff_record \<Rightarrow> index_row" where
  "enc_index scope e h =
     \<lparr>ix_tenant_id = sc_tenant_id scope, ix_project_id = sc_project_id scope,
      ix_handoff_id = hr_handoff_id h, ix_resource_kind = ''handoff'',
      ix_from_actor = hr_from_actor h, ix_to_actor = hr_to_actor h,
      ix_source_id = hr_source_id h, ix_status = handoff_status_text (hr_status h),
      ix_revision = uint (cp_revision (le_receipt e)),
      ix_updated_seq = uint (cp_project_seq (le_receipt e))\<rparr>"

definition handoff_coord :: "string \<Rightarrow> resource_ref" where
  "handoff_coord hid = \<lparr>rf_kind = ''handoff'', rf_id = hid\<rparr>"

text \<open>The index row the log determines for one handoff id.\<close>

definition index_of ::
  "(bytes \<Rightarrow> handoff_record option) \<Rightarrow> project_scope \<Rightarrow> log_entry list \<Rightarrow> string \<Rightarrow> index_row option" where
  "index_of decode_handoff scope log hid =
     (case last_entry log (handoff_coord hid) of
        None \<Rightarrow> None
      | Some e \<Rightarrow>
          if le_change e = Delete then None
          else map_option (enc_index scope e) (decode_handoff (the (le_body e))))"

definition epoch_of :: "ledger \<Rightarrow> project_scope \<Rightarrow> project_epoch" where
  "epoch_of L scope = (case L scope of None \<Rightarrow> [] | Some (epoch, _) \<Rightarrow> epoch)"

definition projects_rel :: "store_db \<Rightarrow> ledger \<Rightarrow> bool" where
  "projects_rel db L \<longleftrightarrow> distinct (map pj_scope (db_projects db)) \<and>
     (\<forall>p\<in>set (db_projects db). project_check p) \<and>
     (\<forall>scope. map_option (\<lambda>p. (pj_project_epoch p, pj_next_seq p)) (find_project db scope) =
        map_option (\<lambda>(epoch, log). (epoch, int (length log))) (L scope))"

definition resources_rel :: "store_db \<Rightarrow> ledger \<Rightarrow> bool" where
  "resources_rel db L \<longleftrightarrow> distinct (map rs_key (db_resources db)) \<and>
     (\<forall>scope ref. find_resource db scope ref =
        map_option (enc_resource scope) (last_entry (log_of L scope) ref))"

definition rows_rel :: "store_db \<Rightarrow> ledger \<Rightarrow> bool" where
  "rows_rel db L \<longleftrightarrow> (\<forall>scope.
     filter (\<lambda>r. rc_scope r = scope) (db_receipts db) = map enc_receipt (log_of L scope) \<and>
     filter (\<lambda>r. ch_scope r = scope) (db_changes db) =
       map (enc_change (epoch_of L scope)) (log_of L scope) \<and>
     filter (\<lambda>r. ad_scope r = scope) (db_audit db) = map enc_audit (log_of L scope))"

definition index_rel :: "(bytes \<Rightarrow> handoff_record option) \<Rightarrow> store_db \<Rightarrow> ledger \<Rightarrow> bool" where
  "index_rel decode_handoff db L \<longleftrightarrow> distinct (map ix_key (db_handoff_index db)) \<and>
     (\<forall>scope hid. find (\<lambda>x. ix_key x = (scope, hid)) (db_handoff_index db) =
        index_of decode_handoff scope (log_of L scope) hid)"

definition store_rel :: "(bytes \<Rightarrow> handoff_record option) \<Rightarrow> store_db \<Rightarrow> ledger \<Rightarrow> bool" where
  "store_rel decode_handoff db L \<longleftrightarrow> ledger_ok decode_handoff L \<and> projects_rel db L \<and>
     resources_rel db L \<and> rows_rel db L \<and> index_rel decode_handoff db L"

section \<open>Reading the tables\<close>

lemma epoch_of_simps [simp]:
  "L scope = Some (epoch, log) \<Longrightarrow> epoch_of L scope = epoch"
  "epoch_of (L(scope \<mapsto> (epoch, log))) s = (if s = scope then epoch else epoch_of L s)"
  by (simp_all add: epoch_of_def)

lemma entry_okD:
  assumes "entry_ok dec scope e"
  shows "receipt_scope (le_receipt e) = scope" "id_ok (cp_command_id (le_receipt e))"
    "fingerprint_ok (cp_fingerprint (le_receipt e))" "id_ok (cp_tenant_id (le_receipt e))"
    "id_ok (cp_project_id (le_receipt e))" "id_ok (cp_actor_id (le_receipt e))"
    "ref_ok (cp_resource (le_receipt e))" "rev_ok (cp_revision (le_receipt e))"
    "body_matches_change (le_change e) (le_body e)"
    "check_handoff_body dec (cp_resource (le_receipt e)) (le_change e) (le_body e) = Inr ()"
  using assms by (auto simp: entry_ok_def Let_def)

lemma enc_receipt_scope [simp]: "rc_scope (enc_receipt e) = receipt_scope (le_receipt e)"
  by (simp add: enc_receipt_def rc_scope_def receipt_scope_def Let_def)

lemma receipt_row_decode_enc:
  "entry_ok dec scope e \<Longrightarrow> receipt_row_decode (enc_receipt e) = Inr (le_receipt e)"
  by (simp add: receipt_row_decode_def enc_receipt_def Let_def entry_okD)

lemma ledger_entry_ok:
  "ledger_ok dec L \<Longrightarrow> e \<in> set (log_of L scope) \<Longrightarrow> entry_ok dec scope e"
  using ledger_ok_log [of dec L scope] by (simp add: log_ok_def)

lemma load_project_rel:
  assumes "store_rel dec db L"
  shows "load_project db scope =
    Inr (map_option (\<lambda>(epoch, log). (epoch, of_nat (length log))) (L scope))"
proof (cases "L scope")
  case None
  then have "find_project db scope = None"
    using assms by (auto simp: store_rel_def projects_rel_def dest: spec [of _ scope])
  then show ?thesis by (simp add: load_project_def None)
next
  case (Some x)
  obtain epoch log where x: "x = (epoch, log)" by (cases x)
  have "map_option (\<lambda>p. (pj_project_epoch p, pj_next_seq p)) (find_project db scope) =
      Some (epoch, int (length log))"
    using assms Some x by (simp add: store_rel_def projects_rel_def)
  then obtain p where "find_project db scope = Some p" "pj_project_epoch p = epoch"
    "pj_next_seq p = int (length log)"
    by auto
  moreover have "id_ok epoch"
    using assms Some x by (auto simp: store_rel_def dest: ledger_ok_epoch)
  ultimately show ?thesis
    by (simp add: load_project_def Some x from_i64_def i64_try_u64_def)
qed

lemma find_receipt_rel:
  assumes "store_rel dec db L"
  shows "find_receipt db scope cid = map_option enc_receipt (find_command (log_of L scope) cid)"
proof -
  have "find_receipt db scope cid =
      find (\<lambda>r. rc_command_id r = cid) (filter (\<lambda>r. rc_scope r = scope) (db_receipts db))"
    by (simp add: find_receipt_def find_filter)
  also have "\<dots> = find (\<lambda>r. rc_command_id r = cid) (map enc_receipt (log_of L scope))"
    using assms by (simp add: store_rel_def rows_rel_def)
  also have "\<dots> = map_option enc_receipt (find_command (log_of L scope) cid)"
    by (simp add: find_map find_command_def enc_receipt_def comp_def Let_def)
  finally show ?thesis .
qed

lemma receipt_rel:
  assumes "store_rel dec db L"
  shows "receipt db scope cid = Inr (ledger_receipt L scope cid)"
proof (cases "find_command (log_of L scope) cid")
  case (Some e)
  then have "entry_ok dec scope e"
    using assms by (auto simp: store_rel_def dest: find_command_Some ledger_entry_ok)
  with Some show ?thesis
    by (simp add: receipt_def find_receipt_rel [OF assms] ledger_receipt_def receipt_row_decode_enc)
qed (simp add: receipt_def find_receipt_rel [OF assms] ledger_receipt_def)

lemma find_resource_rel:
  "store_rel dec db L \<Longrightarrow> find_resource db scope ref =
     map_option (enc_resource scope) (last_entry (log_of L scope) ref)"
  by (simp add: store_rel_def resources_rel_def)

lemma last_entry_ok:
  "store_rel dec db L \<Longrightarrow> last_entry (log_of L scope) ref = Some e \<Longrightarrow> entry_ok dec scope e"
  by (auto simp: store_rel_def dest: last_entry_Some ledger_entry_ok)

lemma load_resource_revision_rel:
  assumes "store_rel dec db L"
  shows "load_resource_revision db scope ref = Inr (current_revision (log_of L scope) ref)"
  using last_entry_ok [OF assms, of scope ref]
  by (cases "last_entry (log_of L scope) ref")
    (auto simp: load_resource_revision_def find_resource_rel [OF assms] current_revision_def
      enc_resource_def entry_okD)

lemma resource_rel:
  assumes "store_rel dec db L"
  shows "resource db scope ref = Inr (ledger_resource L scope ref)"
proof (cases "last_entry (log_of L scope) ref")
  case (Some e)
  then have "entry_ok dec scope e" "le_ref e = ref"
    using last_entry_ok [OF assms] last_entry_Some by blast+
  with Some show ?thesis
    using decode_canonical_resource_state [of "cp_revision (le_receipt e)" "le_change e" "le_body e"
        scope ref]
    by (simp add: resource_def find_resource_rel [OF assms] ledger_resource_def enc_resource_def
        entry_resource_def entry_okD del: split_paired_Ex)
qed (simp add: resource_def find_resource_rel [OF assms] ledger_resource_def)

lemma audit_count_rel:
  assumes "store_rel dec db L"
  shows "audit_count db scope = Inr (of_nat (length (log_of L scope)))"
  using assms
  by (simp add: audit_count_def select_count_def store_rel_def rows_rel_def from_i64_def
      i64_try_u64_def)

section \<open>Committing one entry\<close>

lemma next_revision_count:
  assumes "log_ok dec scope log" "int (length log) < i64_max"
  shows "next_revision (current_revision log ref) =
      Inr (succ_revision (current_revision log ref)) \<and>
    unat (succ_revision (current_revision log ref)) = prior_count log ref + 1"
proof (cases "last_entry log ref")
  case None
  then have "prior_count log ref = 0"
    using no_entry_count [of log ref] by simp
  with None show ?thesis
    by (simp add: current_revision_def next_revision_def revision_new_def succ_revision_def)
next
  case (Some e)
  let ?r = "cp_revision (le_receipt e)"
  have r: "unat ?r = prior_count log ref"
    using last_revision_count [OF assms(1) Some] .
  then have "uint ?r = int (prior_count log ref)"
    by (metis uint_unat_u64)
  then have bound: "uint ?r + 1 < 2 ^ 64"
    using assms(2) prior_count_le [of log ref] by (simp add: i64_max_def)
  with r Some show ?thesis
    by (simp add: current_revision_def next_revision_def revision_next_Inr unat_succ_u64
        succ_revision_def)
qed

lemma next_sequence_length:
  assumes "int n < i64_max"
  shows "next_sequence (of_nat n) = Inr (of_nat (n + 1))"
proof -
  have "uint (of_nat n :: u64) = int n"
    using assms by (intro unat_of_nat_i64) simp
  with assms show ?thesis
    by (simp add: next_sequence_def u64_checked_add_def i64_max_def add.commute)
qed

text \<open>What the commit path knows of the new entry.\<close>

definition fresh_entry ::
  "(bytes \<Rightarrow> handoff_record option) \<Rightarrow> project_scope \<Rightarrow> log_entry list \<Rightarrow> log_entry \<Rightarrow> bool" where
  "fresh_entry dec scope log e \<longleftrightarrow> log_ok dec scope (log @ [e])"

lemma fresh_entryD:
  assumes "fresh_entry dec scope log e"
  shows "entry_ok dec scope e" "log_ok dec scope log"
    "find_command log (cp_command_id (le_receipt e)) = None"
    "uint (cp_project_seq (le_receipt e)) = int (length log) + 1"
    "uint (cp_project_seq (le_receipt e)) \<le> i64_max"
    "0 < uint (cp_revision (le_receipt e))" "uint (cp_revision (le_receipt e)) \<le> i64_max"
proof -
  have e: "entry_ok dec scope e" "log_ok dec scope log" "int (length log) < i64_max"
    "find_command log (cp_command_id (le_receipt e)) = None"
    "unat (cp_project_seq (le_receipt e)) = length log + 1"
    "unat (cp_revision (le_receipt e)) = prior_count log (le_ref e) + 1"
    using assms by (auto simp: fresh_entry_def log_ok_snoc)
  then show "entry_ok dec scope e" "log_ok dec scope log"
    "find_command log (cp_command_id (le_receipt e)) = None" by blast+
  have "uint (cp_project_seq (le_receipt e)) = int (length log + 1)"
    "uint (cp_revision (le_receipt e)) = int (prior_count log (le_ref e) + 1)"
    using e(5,6) by (metis uint_unat_u64)+
  then show "uint (cp_project_seq (le_receipt e)) = int (length log) + 1"
    "uint (cp_project_seq (le_receipt e)) \<le> i64_max"
    "0 < uint (cp_revision (le_receipt e))" "uint (cp_revision (le_receipt e)) \<le> i64_max"
    using e(3) prior_count_le [of log "le_ref e"] by simp_all
qed

lemma receipt_scope_eq:
  "receipt_scope r = scope \<longleftrightarrow> cp_tenant_id r = sc_tenant_id scope \<and>
     cp_project_id r = sc_project_id scope"
  by (auto simp: receipt_scope_def)

lemma project_exists_rel:
  assumes "store_rel dec db L" "L scope = Some (epoch, log)"
  shows "project_exists db scope"
    and "\<exists>p. find_project db scope = Some p \<and> pj_project_epoch p = epoch \<and>
      pj_next_seq p = int (length log)"
proof -
  have "map_option (\<lambda>p. (pj_project_epoch p, pj_next_seq p)) (find_project db scope) =
      Some (epoch, int (length log))"
    using assms by (simp add: store_rel_def projects_rel_def)
  then show *: "\<exists>p. find_project db scope = Some p \<and> pj_project_epoch p = epoch \<and>
      pj_next_seq p = int (length log)"
    by auto
  then show "project_exists db scope"
    by (auto simp: project_exists_def find_project_def list_ex_iff dest: find_Some_set)
qed

lemma write_resource_commit:
  assumes "project_exists db scope" "body_matches_change (le_change e) (le_body e)"
    and "0 < uint (cp_revision (le_receipt e))" "uint (cp_revision (le_receipt e)) \<le> i64_max"
    and "mc_resource c = le_ref e" "mc_change c = le_change e" "mc_resource_body c = le_body e"
  shows "\<exists>t. write_resource db scope c (cp_revision (le_receipt e)) = Inr (db\<lparr>db_resources := t\<rparr>) \<and>
    upsert_row rs_key resource_check (\<lambda>r. project_exists db (rs_scope r)) (enc_resource scope e)
      (db_resources db) = Some t"
proof -
  have "rs_scope (enc_resource scope e) = scope"
    by (simp add: rs_scope_def enc_resource_def)
  moreover have "resource_check (enc_resource scope e)"
    using assms(2,3)
    by (cases "le_change e"; cases "le_body e") (simp_all add: resource_check_def enc_resource_def)
  ultimately obtain t where t: "upsert_row rs_key resource_check
      (\<lambda>r. project_exists db (rs_scope r)) (enc_resource scope e) (db_resources db) = Some t"
    using assms(1) upsert_succeeds [of resource_check "enc_resource scope e"
        "\<lambda>r. project_exists db (rs_scope r)" rs_key "db_resources db"] by auto
  then show ?thesis
    using assms(4-7) by (simp add: write_resource_def enc_resource_def le_ref_def)
qed

lemma update_handoff_index_commit:
  assumes "index_rel dec db L" "L scope = Some (epoch, log)" "fresh_entry dec scope log e"
    and "find (\<lambda>r. rs_key r = (scope, le_ref e)) (db_resources tx) \<noteq> None"
    and "db_handoff_index tx = db_handoff_index db"
  shows "\<exists>ix. update_handoff_index dec tx scope (le_ref e) (le_change e) (le_body e)
      (cp_revision (le_receipt e)) (cp_project_seq (le_receipt e)) =
        Inr (tx\<lparr>db_handoff_index := ix\<rparr>) \<and> distinct (map ix_key ix) \<and>
    (\<forall>s hid. find (\<lambda>x. ix_key x = (s, hid)) ix =
       index_of dec s (log_of (L(scope \<mapsto> (epoch, log @ [e]))) s) hid)"
  (is "\<exists>ix. ?upd ix \<and> ?dist ix \<and> ?rel ix")
proof (cases "rf_kind (le_ref e) = ''handoff''")
  case False
  then have "le_ref e \<noteq> handoff_coord hid" for hid
    by (auto simp: handoff_coord_def)
  then have "?rel (db_handoff_index db)"
    using assms(1,2) by (auto simp: index_rel_def index_of_def)
  moreover have "?upd (db_handoff_index db)"
    using False assms(5) by (simp add: update_handoff_index_def)
  ultimately show ?thesis
    using assms(1) unfolding index_rel_def by blast
next
  case kind: True
  then have coord: "le_ref e = handoff_coord hid \<longleftrightarrow> hid = rf_id (le_ref e)" for hid
    by (cases "le_ref e") (auto simp: handoff_coord_def)
  show ?thesis
  proof (cases "le_change e")
    case Delete
    let ?ix = "delete_rows (\<lambda>x. ix_key x = (scope, rf_id (le_ref e))) (db_handoff_index db)"
    have "?upd ?ix"
      using kind Delete assms(5) by (simp add: update_handoff_index_def)
    moreover have "?dist ?ix"
      using assms(1) by (simp add: index_rel_def delete_keys)
    moreover have "?rel ?ix"
      using assms(1,2) by (auto simp: index_rel_def index_of_def find_delete coord Delete)
    ultimately show ?thesis by blast
  next
    case Upsert
    note e = fresh_entryD [OF assms(3)]
    obtain body where body: "le_body e = Some body"
      using entry_okD(9) [OF e(1)] Upsert by (cases "le_body e") auto
    then obtain h where h: "dec body = Some h" "hr_handoff_id h = rf_id (le_ref e)"
      using entry_okD(10) [OF e(1)] kind Upsert
      by (auto simp: check_handoff_body_def le_ref_def split: option.splits if_splits)
    let ?row = "enc_index scope e h"
    have key: "ix_key ?row = (scope, rf_id (le_ref e))"
      by (simp add: ix_key_def ix_scope_def enc_index_def h)
    have "le_ref e = handoff_coord (rf_id (le_ref e))"
      using coord by blast
    moreover obtain r where "r \<in> set (db_resources tx)" "rs_key r = (scope, le_ref e)"
      using assms(4) by (auto simp: find_None_set)
    ultimately have "\<exists>r\<in>set (db_resources tx). rs_key r = (scope, handoff_coord (rf_id (le_ref e)))"
      by metis
    then have "index_fk tx ?row"
      by (simp add: index_fk_def list_ex_iff enc_index_def ix_scope_def handoff_coord_def h)
    moreover have "index_check ?row"
      using e(4,6) by (cases "hr_status h") (simp_all add: index_check_def enc_index_def)
    ultimately obtain ix where ix: "upsert_row ix_key index_check (index_fk tx) ?row
        (db_handoff_index db) = Some ix"
      using upsert_succeeds [of index_check ?row "index_fk tx" ix_key "db_handoff_index db"] by auto
    have "?upd ix"
      using ix kind Upsert body h e(5,7) assms(5)
      by (simp add: update_handoff_index_def enc_index_def)
    moreover have "?dist ix"
      using upsert_keys [OF ix] assms(1) by (simp add: index_rel_def)
    moreover have "?rel ix"
      using assms(1,2) body h
      by (auto simp: find_upsert [OF ix] key index_rel_def index_of_def coord Upsert)
    ultimately show ?thesis by blast
  qed
qed

lemma scoped_row_clash:
  assumes "filter (\<lambda>r. sc r = scope) rows = map enc log" "u \<in> set rows" "sc u = scope"
  shows "\<exists>e\<in>set log. u = enc e"
proof -
  have "u \<in> set (filter (\<lambda>r. sc r = scope) rows)"
    using assms(2,3) by simp
  then show ?thesis
    unfolding assms(1) by auto
qed

lemma log_member:
  assumes "log_ok dec scope log" "x \<in> set log"
  shows "uint (cp_project_seq (le_receipt x)) \<le> int (length log)"
    and "find_command log (cp_command_id (le_receipt x)) \<noteq> None"
proof -
  obtain i where "i < length log" "log ! i = x"
    using assms(2) by (auto simp: in_set_conv_nth)
  then have "unat (cp_project_seq (le_receipt x)) = i + 1"
    using assms(1) by (auto simp: log_ok_def)
  then have "uint (cp_project_seq (le_receipt x)) = int (i + 1)"
    by (metis uint_unat_u64)
  then show "uint (cp_project_seq (le_receipt x)) \<le> int (length log)"
    using \<open>i < length log\<close> by simp
  show "find_command log (cp_command_id (le_receipt x)) \<noteq> None"
    using find_command_member [OF assms] by simp
qed

lemma fresh_distinct:
  assumes "fresh_entry dec scope log e" "x \<in> set log"
  shows "cp_command_id (le_receipt x) \<noteq> cp_command_id (le_receipt e)"
    and "uint (cp_project_seq (le_receipt x)) \<noteq> uint (cp_project_seq (le_receipt e))"
  using log_member [OF fresh_entryD(2) [OF assms(1)] assms(2)] fresh_entryD(3,4) [OF assms(1)]
  by (metis, linarith)

lemma enc_change_scope [simp]: "ch_scope (enc_change epoch e) = receipt_scope (le_receipt e)"
  by (simp add: enc_change_def ch_scope_def receipt_scope_def Let_def)

lemma enc_audit_scope [simp]: "ad_scope (enc_audit e) = receipt_scope (le_receipt e)"
  by (simp add: enc_audit_def ad_scope_def receipt_scope_def Let_def)

lemma insert_receipt_commit:
  assumes "fresh_entry dec scope log e" "project_exists tx scope"
    and "filter (\<lambda>r. rc_scope r = scope) (db_receipts tx) = map enc_receipt log"
  shows "insert_receipt tx (le_receipt e) =
    Inr (tx\<lparr>db_receipts := db_receipts tx @ [enc_receipt e]\<rparr>)"
proof -
  note e = fresh_entryD [OF assms(1)] entry_okD [OF fresh_entryD(1) [OF assms(1)]]
  have "\<not> receipt_clash (enc_receipt e) u" if mem: "u \<in> set (db_receipts tx)" for u
  proof
    assume clash: "receipt_clash (enc_receipt e) u"
    then have "rc_scope u = scope"
      by (simp add: receipt_clash_def e)
    then obtain x where "x \<in> set log" "u = enc_receipt x"
      using scoped_row_clash [OF assms(3) mem] by blast
    with clash fresh_distinct [OF assms(1)] show False
      by (auto simp: receipt_clash_def enc_receipt_def Let_def)
  qed
  then have "insert_row receipt_clash receipt_check (\<lambda>x. project_exists tx (rc_scope x))
      (enc_receipt e) (db_receipts tx) = Some (db_receipts tx @ [enc_receipt e])"
    using assms(2) e(4,6,8) by (simp add: result_iffs receipt_check_def) (simp add: enc_receipt_def Let_def)
  then show ?thesis
    using e(5,7) by (simp add: insert_receipt_def enc_receipt_def Let_def)
qed

lemma insert_change_commit:
  assumes "fresh_entry dec scope log e" "project_exists tx scope"
    and "find_project tx scope = Some p" "pj_project_epoch p = epoch"
    and "filter (\<lambda>r. ch_scope r = scope) (db_changes tx) = map (enc_change epoch) log"
  shows "insert_change tx (le_receipt e) (le_change e) (le_body e) =
    Inr (tx\<lparr>db_changes := db_changes tx @ [enc_change epoch e]\<rparr>)"
proof -
  note e = fresh_entryD [OF assms(1)] entry_okD [OF fresh_entryD(1) [OF assms(1)]]
  have "\<not> change_clash (enc_change epoch e) u" if mem: "u \<in> set (db_changes tx)" for u
  proof
    assume clash: "change_clash (enc_change epoch e) u"
    then have "ch_scope u = scope"
      by (simp add: change_clash_def e)
    then obtain x where "x \<in> set log" "u = enc_change epoch x"
      using scoped_row_clash [OF assms(5) mem] by blast
    with clash fresh_distinct [OF assms(1)] show False
      by (auto simp: change_clash_def enc_change_def Let_def)
  qed
  moreover have "change_check (enc_change epoch e)"
    using e(4,6,16) by (cases "le_change e"; cases "le_body e")
      (simp_all add: change_check_def enc_change_def Let_def)
  ultimately have "insert_row change_clash change_check (\<lambda>x. project_exists tx (ch_scope x))
      (enc_change epoch e) (db_changes tx) = Some (db_changes tx @ [enc_change epoch e])"
    using assms(2) e(8) by (simp add: result_iffs)
  then show ?thesis
    using e(5,7,8,16) assms(3,4) by (simp add: insert_change_def enc_change_def Let_def)
qed

lemma insert_audit_commit:
  assumes "fresh_entry dec scope log e" "project_exists tx scope"
    and "filter (\<lambda>r. ad_scope r = scope) (db_audit tx) = map enc_audit log"
  shows "insert_audit tx (le_receipt e) (le_operation e) =
    Inr (tx\<lparr>db_audit := db_audit tx @ [enc_audit e]\<rparr>)"
proof -
  note e = fresh_entryD [OF assms(1)] entry_okD [OF fresh_entryD(1) [OF assms(1)]]
  have "\<not> audit_clash (enc_audit e) u" if mem: "u \<in> set (db_audit tx)" for u
  proof
    assume clash: "audit_clash (enc_audit e) u"
    then have "ad_scope u = scope"
      by (simp add: audit_clash_def e)
    then obtain x where "x \<in> set log" "u = enc_audit x"
      using scoped_row_clash [OF assms(3) mem] by blast
    with clash fresh_distinct [OF assms(1)] show False
      by (auto simp: audit_clash_def enc_audit_def Let_def)
  qed
  then have "insert_row audit_clash audit_check (\<lambda>x. project_exists tx (ad_scope x))
      (enc_audit e) (db_audit tx) = Some (db_audit tx @ [enc_audit e])"
    using assms(2) e(4,8) by (simp add: result_iffs audit_check_def) (simp add: enc_audit_def Let_def)
  then show ?thesis
    using e(5) by (simp add: insert_audit_def enc_audit_def Let_def)
qed

definition bump_sequence :: "project_scope \<Rightarrow> i64 \<Rightarrow> i64 \<Rightarrow> project_row \<Rightarrow> project_row" where
  "bump_sequence scope cur seq p =
     (if pj_scope p = scope \<and> pj_next_seq p = cur then p\<lparr>pj_next_seq := seq\<rparr> else p)"

lemma advance_sequence_commit:
  assumes "distinct (map pj_scope (db_projects tx))" "\<forall>p\<in>set (db_projects tx). project_check p"
    and "find_project tx scope = Some p" "pj_next_seq p = uint current"
    and "uint current \<le> i64_max" "uint sequence \<le> i64_max"
  shows "advance_sequence tx scope sequence current =
    Inr (tx\<lparr>db_projects := map (bump_sequence scope (uint current) (uint sequence)) (db_projects tx)\<rparr>)"
proof -
  have "length (filter (\<lambda>p. pj_scope p = scope \<and> pj_next_seq p = uint current) (db_projects tx)) = 1"
    using count_key_unique [OF assms(1) assms(3) [unfolded find_project_def],
        of "\<lambda>p. pj_next_seq p = uint current"] assms(4)
    by simp
  moreover have "list_all (\<lambda>p. pj_scope p = scope \<and> pj_next_seq p = uint current \<longrightarrow>
      project_check (p\<lparr>pj_next_seq := uint sequence\<rparr>)) (db_projects tx)"
    using assms(2) by (simp add: list_all_iff project_check_def)
  ultimately show ?thesis
    using assms(5,6) by (simp add: advance_sequence_def update_rows_def bump_sequence_def [abs_def])
qed

lemma bump_sequence_key [simp]: "pj_scope (bump_sequence scope cur seq p) = pj_scope p"
  by (simp add: bump_sequence_def pj_scope_def)

section \<open>The commit path\<close>

text \<open>The writes of \<open>execute_transaction\<close>, as one function of the entry they record.\<close>

definition commit_entry ::
  "(bytes \<Rightarrow> handoff_record option) \<Rightarrow> store_db \<Rightarrow> project_scope \<Rightarrow> mutation_command \<Rightarrow> log_entry
    \<Rightarrow> project_sequence \<Rightarrow> store_db domain_result" where
  "commit_entry dec tx scope c e current =
     (let r = le_receipt e in
     and_then (write_resource tx scope c (cp_revision r)) (\<lambda>tx.
     and_then (update_handoff_index dec tx scope (le_ref e) (le_change e) (le_body e)
        (cp_revision r) (cp_project_seq r)) (\<lambda>tx.
     and_then (insert_receipt tx r) (\<lambda>tx.
     and_then (insert_change tx r (le_change e) (le_body e)) (\<lambda>tx.
     and_then (insert_audit tx r (le_operation e)) (\<lambda>tx.
       advance_sequence tx scope (cp_project_seq r) current))))))"

lemma projects_relD:
  assumes "projects_rel db L"
  shows "map_option (\<lambda>p. (pj_project_epoch p, pj_next_seq p)) (find_project db s) =
     map_option (\<lambda>(epoch, log). (epoch, int (length log))) (L s)"
  using assms unfolding projects_rel_def by blast

lemma projects_rel_bump:
  assumes "projects_rel db L" "L scope = Some (epoch, log)"
    and "db_projects db' =
      map (bump_sequence scope (int (length log)) (int (length log) + 1)) (db_projects db)"
  shows "projects_rel db' (L(scope \<mapsto> (epoch, log @ [e])))"
proof -
  let ?f = "bump_sequence scope (int (length log)) (int (length log) + 1)"
  have find: "find_project db' s = map_option ?f (find_project db s)" for s
    unfolding find_project_def assms(3) by (intro find_map_key) simp
  have "map_option (\<lambda>p. (pj_project_epoch p, pj_next_seq p)) (find_project db' s) =
    map_option (\<lambda>(epoch, log). (epoch, int (length log))) ((L(scope \<mapsto> (epoch, log @ [e]))) s)" for s
  proof (cases "find_project db s")
    case None
    then have "L s = None"
      using projects_relD [OF assms(1), of s] by simp
    with assms(2) None show ?thesis by (auto simp: find)
  next
    case (Some p)
    have "pj_scope p = s"
      using find_Some_set [OF Some [unfolded find_project_def]] by simp
    moreover have "map_option (\<lambda>(epoch, log). (epoch, int (length log))) (L s) =
        Some (pj_project_epoch p, pj_next_seq p)"
      using projects_relD [OF assms(1), of s] Some by simp
    ultimately show ?thesis
      using assms(2) Some by (auto simp: find bump_sequence_def)
  qed
  moreover have "\<forall>p\<in>set (db_projects db'). project_check p"
    using assms(1) by (auto simp: projects_rel_def assms(3) bump_sequence_def project_check_def)
  moreover have "map pj_scope (db_projects db') = map pj_scope (db_projects db)"
    by (simp add: assms(3) comp_def)
  ultimately show ?thesis
    using assms(1) by (simp add: projects_rel_def)
qed

lemma rows_rel_append:
  assumes "rows_rel db L" "L scope = Some (epoch, log)" "receipt_scope (le_receipt e) = scope"
    and "db_receipts db' = db_receipts db @ [enc_receipt e]"
    and "db_changes db' = db_changes db @ [enc_change epoch e]"
    and "db_audit db' = db_audit db @ [enc_audit e]"
  shows "rows_rel db' (L(scope \<mapsto> (epoch, log @ [e])))"
  using assms by (auto simp: rows_rel_def)

lemma resources_rel_upsert:
  assumes "resources_rel db L" "L scope = Some (epoch, log)"
    and "upsert_row rs_key resource_check fk (enc_resource scope e) (db_resources db) = Some t"
    and "db_resources db' = t"
  shows "resources_rel db' (L(scope \<mapsto> (epoch, log @ [e])))"
proof -
  have key: "rs_key (enc_resource scope e) = (scope, le_ref e)"
    by (simp add: rs_key_def rs_scope_def rs_ref_def enc_resource_def)
  have "find_resource db' s ref = (if (s, ref) = (scope, le_ref e) then Some (enc_resource scope e)
      else find_resource db s ref)" for s ref
    using find_upsert [OF assms(3), of "(s, ref)"] by (simp add: find_resource_def assms(4) key)
  then show ?thesis
    using assms(1,2) upsert_keys [OF assms(3)] by (auto simp: resources_rel_def assms(4))
qed

lemma commit_entry_rel:
  assumes rel: "store_rel dec db L" and L: "L scope = Some (epoch, log)"
    and e: "fresh_entry dec scope log e"
    and c: "mc_resource c = le_ref e" "mc_change c = le_change e" "mc_resource_body c = le_body e"
  shows "\<exists>db'. commit_entry dec db scope c e (of_nat (length log)) = Inr db' \<and>
    store_rel dec db' (L(scope \<mapsto> (epoch, log @ [e])))"
proof -
  note parts = rel [unfolded store_rel_def]
  have exists: "project_exists db scope" by (rule project_exists_rel(1) [OF rel L])
  obtain p where p: "find_project db scope = Some p" "pj_project_epoch p = epoch"
    "pj_next_seq p = int (length log)"
    using project_exists_rel(2) [OF rel L] by blast
  obtain t where t: "write_resource db scope c (cp_revision (le_receipt e)) =
      Inr (db\<lparr>db_resources := t\<rparr>)"
    "upsert_row rs_key resource_check (\<lambda>r. project_exists db (rs_scope r)) (enc_resource scope e)
      (db_resources db) = Some t"
    using write_resource_commit [OF exists entry_okD(9) [OF fresh_entryD(1) [OF e]]
        fresh_entryD(6,7) [OF e] c] by blast
  have key: "rs_key (enc_resource scope e) = (scope, le_ref e)"
    by (simp add: rs_key_def rs_scope_def rs_ref_def enc_resource_def)
  obtain ix where ix: "update_handoff_index dec (db\<lparr>db_resources := t\<rparr>) scope (le_ref e)
      (le_change e) (le_body e) (cp_revision (le_receipt e)) (cp_project_seq (le_receipt e)) =
        Inr (db\<lparr>db_resources := t, db_handoff_index := ix\<rparr>)"
    "distinct (map ix_key ix)"
    "\<forall>s hid. find (\<lambda>x. ix_key x = (s, hid)) ix =
       index_of dec s (log_of (L(scope \<mapsto> (epoch, log @ [e]))) s) hid"
    using update_handoff_index_commit [of dec db L scope epoch log e "db\<lparr>db_resources := t\<rparr>"]
      parts L e find_upsert [OF t(2), of "(scope, le_ref e)"] key by auto
  define db' where "db' = db\<lparr>db_resources := t, db_handoff_index := ix,
      db_receipts := db_receipts db @ [enc_receipt e],
      db_changes := db_changes db @ [enc_change epoch e],
      db_audit := db_audit db @ [enc_audit e],
      db_projects := map (bump_sequence scope (int (length log)) (int (length log) + 1))
        (db_projects db)\<rparr>"
  have rows: "filter (\<lambda>r. rc_scope r = scope) (db_receipts db) = map enc_receipt log"
    "filter (\<lambda>r. ch_scope r = scope) (db_changes db) = map (enc_change epoch) log"
    "filter (\<lambda>r. ad_scope r = scope) (db_audit db) = map enc_audit log"
    using parts L by (simp_all add: rows_rel_def)
  have len: "uint (of_nat (length log) :: u64) = int (length log)" "int (length log) \<le> i64_max"
    using fresh_entryD(4,5) [OF e] by (auto intro: unat_of_nat_i64)
  let ?tx1 = "db\<lparr>db_resources := t, db_handoff_index := ix\<rparr>"
  let ?tx2 = "?tx1\<lparr>db_receipts := db_receipts db @ [enc_receipt e]\<rparr>"
  let ?tx3 = "?tx2\<lparr>db_changes := db_changes db @ [enc_change epoch e]\<rparr>"
  let ?tx4 = "?tx3\<lparr>db_audit := db_audit db @ [enc_audit e]\<rparr>"
  have same: "project_exists ?tx1 scope" "project_exists ?tx2 scope" "project_exists ?tx3 scope"
    "find_project ?tx2 scope = Some p" "find_project ?tx4 scope = Some p"
    using exists p(1) by (simp_all add: project_exists_def find_project_def)
  have "insert_receipt ?tx1 (le_receipt e) = Inr ?tx2"
    using insert_receipt_commit [OF e same(1)] rows(1) by simp
  moreover have "insert_change ?tx2 (le_receipt e) (le_change e) (le_body e) = Inr ?tx3"
    using insert_change_commit [OF e same(2,4) p(2)] rows(2) by simp
  moreover have "insert_audit ?tx3 (le_receipt e) (le_operation e) = Inr ?tx4"
    using insert_audit_commit [OF e same(3)] rows(3) by simp
  moreover have "advance_sequence ?tx4 scope (cp_project_seq (le_receipt e))
      (of_nat (length log)) = Inr db'"
    using advance_sequence_commit [OF _ _ same(5), of "of_nat (length log)"] parts p(3) len
      fresh_entryD(4,5) [OF e] by (simp add: projects_rel_def db'_def)
  ultimately have "commit_entry dec db scope c e (of_nat (length log)) = Inr db'"
    by (simp add: commit_entry_def t(1) ix(1) Let_def)
  moreover have "store_rel dec db' (L(scope \<mapsto> (epoch, log @ [e])))"
    unfolding store_rel_def
  proof (intro conjI)
    show "ledger_ok dec (L(scope \<mapsto> (epoch, log @ [e])))"
      using parts L e ledger_ok_epoch ledger_ok_upd by (fastforce simp: fresh_entry_def)
    show "projects_rel db' (L(scope \<mapsto> (epoch, log @ [e])))"
      using parts L by (intro projects_rel_bump [of db L scope epoch log]) (simp_all add: db'_def)
    show "resources_rel db' (L(scope \<mapsto> (epoch, log @ [e])))"
      using parts by (intro resources_rel_upsert [of db L, OF _ L t(2)]) (simp_all add: db'_def)
    show "rows_rel db' (L(scope \<mapsto> (epoch, log @ [e])))"
      using parts entry_okD(1) [OF fresh_entryD(1) [OF e]]
      by (intro rows_rel_append [of db L, OF _ L]) (simp_all add: db'_def)
    show "index_rel dec db' (L(scope \<mapsto> (epoch, log @ [e])))"
      using ix(2,3) by (simp add: index_rel_def db'_def)
  qed
  ultimately show ?thesis by blast
qed

section \<open>Refinement of \<open>execute\<close>\<close>

lemma update_handoff_index_error:
  assumes "check_handoff_body dec ref ch body = Inl er" "body_matches_change ch body"
  shows "update_handoff_index dec tx scope ref ch body r q = Inl er"
  using assms
  by (cases body; cases ch)
    (auto simp: check_handoff_body_def update_handoff_index_def split: option.splits if_splits)

lemma ledger_entry_simps [simp]:
  "le_receipt (ledger_entry log now c) =
     new_receipt c (of_nat (length log + 1)) (succ_revision (current_revision log (mc_resource c))) now"
  "le_operation (ledger_entry log now c) = en_operation (ac_envelope (mc_command c))"
  "le_change (ledger_entry log now c) = mc_change c"
  "le_body (ledger_entry log now c) = mc_resource_body c"
  by (simp_all add: ledger_entry_def)

lemma new_receipt_simps [simp]:
  "cp_command_id (new_receipt c s r t) = command_id_of c"
  "cp_fingerprint (new_receipt c s r t) = mc_fingerprint c"
  "cp_tenant_id (new_receipt c s r t) = sc_tenant_id (command_scope c)"
  "cp_project_id (new_receipt c s r t) = sc_project_id (command_scope c)"
  "cp_actor_id (new_receipt c s r t) = command_actor c"
  "cp_project_seq (new_receipt c s r t) = s" "cp_resource (new_receipt c s r t) = mc_resource c"
  "cp_revision (new_receipt c s r t) = r" "cp_committed_at_ms (new_receipt c s r t) = t"
  by (simp_all add: new_receipt_def Let_def command_scope_def authorization_scope_def
      command_actor_def)

lemma ledger_entry_ref [simp]: "le_ref (ledger_entry log now c) = mc_resource c"
  by (simp add: le_ref_def)

lemma new_receipt_scope [simp]: "receipt_scope (new_receipt c s r t) = command_scope c"
  by (simp add: receipt_scope_def)

lemma ledger_entry_fresh:
  assumes "log_ok dec (command_scope c) log" "int (length log) < i64_max" "command_ok c"
    and "body_matches_change (mc_change c) (mc_resource_body c)"
    and "find_command log (command_id_of c) = None"
    and "check_handoff_body dec (mc_resource c) (mc_change c) (mc_resource_body c) = Inr ()"
  shows "fresh_entry dec (command_scope c) log (ledger_entry log now c)"
proof -
  have "unat (of_nat (length log + 1) :: u64) = length log + 1"
    using assms(2) by (intro unat_of_nat_i64) simp
  moreover have rev: "unat (succ_revision (current_revision log (mc_resource c))) =
      prior_count log (mc_resource c) + 1"
    using next_revision_count [OF assms(1,2)] by blast
  moreover have "rev_ok (succ_revision (current_revision log (mc_resource c)))"
    unfolding rev_ok_def
  proof
    assume zero: "succ_revision (current_revision log (mc_resource c)) = 0"
    show False
      using rev unfolding zero by simp
  qed
  ultimately show ?thesis
    using assms
    by (simp add: fresh_entry_def log_ok_snoc entry_ok_def Let_def command_ok_def
        authorization_ok_def command_scope_def authorization_scope_def command_actor_def)
qed

lemma execute_transaction_rel:
  assumes rel: "store_rel dec db L" and L: "L (command_scope c) = Some (epoch, log)"
    and room: "int (length log) < i64_max"
    and body: "body_matches_change (mc_change c) (mc_resource_body c)"
  shows "execute_transaction dec clock db c =
    (case find_command log (command_id_of c) of
       Some e \<Rightarrow>
         if cp_actor_id (le_receipt e) \<noteq> command_actor c \<or>
            cp_fingerprint (le_receipt e) \<noteq> mc_fingerprint c then Inl CommandConflict
         else Inr (db, le_receipt e)
     | None \<Rightarrow>
         and_then (check_expected_revision (en_expected_revision (ac_envelope (mc_command c)))
           (current_revision log (mc_resource c))) (\<lambda>_.
         and_then (unix_time_ms clock) (\<lambda>now.
           let e = ledger_entry log now c in
           and_then (commit_entry dec db (command_scope c) c e (of_nat (length log))) (\<lambda>tx.
             Inr (tx, le_receipt e)))))"
proof -
  have ok: "log_ok dec (command_scope c) log"
    using rel L ledger_ok_log [of dec L "command_scope c"] by (simp add: store_rel_def)
  have load: "load_project db (command_scope c) = Inr (Some (epoch, of_nat (length log)))"
    using load_project_rel [OF rel, of "command_scope c"] L by simp
  have find: "find_receipt db (command_scope c) (command_id_of c) =
      map_option enc_receipt (find_command log (command_id_of c))"
    using find_receipt_rel [OF rel, of "command_scope c"] L by simp
  have dec: "receipt_row_decode (enc_receipt e) = Inr (le_receipt e)"
    if "find_command log (command_id_of c) = Some e" for e
    using find_command_Some [OF that] ok receipt_row_decode_enc [of dec "command_scope c" e]
    by (simp add: log_ok_def)
  have revision: "load_resource_revision db (command_scope c) (mc_resource c) =
      Inr (current_revision log (mc_resource c))"
    using load_resource_revision_rel [OF rel, of "command_scope c"] L by simp
  have "check_change_body (mc_change c) (mc_resource_body c) = Inr ()"
    using body by (simp add: result_iffs)
  then show ?thesis
    using dec next_revision_count [OF ok room, of "mc_resource c"] next_sequence_length [OF room]
    by (simp add: execute_transaction_def Let_def commit_entry_def load find revision and_then_assoc
        flip: command_scope_def command_actor_def command_id_of_def split: option.splits)
qed

lemma execute_unauthorized:
  assumes "store_rel dec db L" "L (command_scope c) = None"
    and "body_matches_change (mc_change c) (mc_resource_body c)"
  shows "execute_transaction dec clock db c = Inl (ProjectUnauthorized (sc_project_id (command_scope c)))"
proof -
  have "check_change_body (mc_change c) (mc_resource_body c) = Inr ()"
    using assms(3) by (simp add: result_iffs)
  then show ?thesis
    using load_project_rel [OF assms(1), of "command_scope c"] assms(2)
    by (simp add: execute_transaction_def Let_def flip: command_scope_def)
qed

lemma commit_entry_bad_handoff:
  assumes "project_exists db (command_scope c)" "log_ok dec (command_scope c) log"
    and "int (length log) < i64_max" "body_matches_change (mc_change c) (mc_resource_body c)"
    and "check_handoff_body dec (mc_resource c) (mc_change c) (mc_resource_body c) = Inl er"
  shows "commit_entry dec db (command_scope c) c (ledger_entry log now c) q = Inl er"
proof -
  let ?r = "succ_revision (current_revision log (mc_resource c))"
  have "unat ?r = prior_count log (mc_resource c) + 1"
    using next_revision_count [OF assms(2,3)] by blast
  then have "uint ?r = int (prior_count log (mc_resource c) + 1)"
    by (metis uint_unat_u64)
  then have "0 < uint ?r" "uint ?r \<le> i64_max"
    using assms(3) prior_count_le [of log "mc_resource c"] by simp_all
  then have "\<exists>t. write_resource db (command_scope c) c
      (cp_revision (le_receipt (ledger_entry log now c))) = Inr (db\<lparr>db_resources := t\<rparr>) \<and>
    upsert_row rs_key resource_check (\<lambda>r. project_exists db (rs_scope r))
      (enc_resource (command_scope c) (ledger_entry log now c)) (db_resources db) = Some t"
    using assms(4) by (intro write_resource_commit [OF assms(1)]) simp_all
  then obtain t where "write_resource db (command_scope c) c ?r = Inr (db\<lparr>db_resources := t\<rparr>)"
    by auto
  then show ?thesis
    using update_handoff_index_error [OF assms(5,4)] by (simp add: commit_entry_def Let_def)
qed

lemma execute_registered:
  assumes rel: "store_rel dec db L" and c: "command_ok c"
    and L: "L (command_scope c) = Some (epoch, log)" and room: "int (length log) < i64_max"
    and body: "body_matches_change (mc_change c) (mc_resource_body c)"
  shows "\<exists>db' L' r. execute dec clock c db = (db', r) \<and> ledger_execute dec clock c L = (L', r) \<and>
    store_rel dec db' L'"
proof -
  let ?scope = "command_scope c"
  have checked: "check_change_body (mc_change c) (mc_resource_body c) = Inr ()"
    using body by (simp add: result_iffs)
  have ok: "log_ok dec ?scope log"
    using rel L ledger_ok_log [of dec L ?scope] by (simp add: store_rel_def)
  note tx = execute_def execute_transaction_rel [OF rel L room body] ledger_execute_def L checked
  consider (replay) e where "find_command log (command_id_of c) = Some e"
    | (stale) er where "find_command log (command_id_of c) = None"
        "check_expected_revision (en_expected_revision (ac_envelope (mc_command c)))
          (current_revision log (mc_resource c)) = Inl er"
    | (bad_clock) er where "find_command log (command_id_of c) = None"
        "check_expected_revision (en_expected_revision (ac_envelope (mc_command c)))
          (current_revision log (mc_resource c)) = Inr ()" "unix_time_ms clock = Inl er"
    | (written) t where "find_command log (command_id_of c) = None"
        "check_expected_revision (en_expected_revision (ac_envelope (mc_command c)))
          (current_revision log (mc_resource c)) = Inr ()" "unix_time_ms clock = Inr t"
    by (cases "find_command log (command_id_of c)"; cases "check_expected_revision
          (en_expected_revision (ac_envelope (mc_command c))) (current_revision log (mc_resource c))";
        cases "unix_time_ms clock") auto
  then show ?thesis
  proof cases
    case replay
    then show ?thesis using rel by (auto simp: tx)
  next
    case stale
    then show ?thesis using rel by (simp add: tx)
  next
    case bad_clock
    then show ?thesis using rel by (simp add: tx)
  next
    case written
    let ?e = "ledger_entry log t c"
    show ?thesis
    proof (cases "check_handoff_body dec (mc_resource c) (mc_change c) (mc_resource_body c)")
      case (Inl er)
      then show ?thesis
        using written rel commit_entry_bad_handoff [OF project_exists_rel(1) [OF rel L] ok room body]
        by (simp add: tx Let_def)
    next
      case (Inr u)
      then have "fresh_entry dec ?scope log ?e"
        using ledger_entry_fresh [OF ok room c body written(1)] by simp
      then obtain db' where "commit_entry dec db ?scope c ?e (of_nat (length log)) = Inr db'"
        "store_rel dec db' (L(?scope \<mapsto> (epoch, log @ [?e])))"
        using commit_entry_rel [OF rel L] by fastforce
      then show ?thesis
        using written Inr by (simp add: tx Let_def)
    qed
  qed
qed

lemma execute_refines:
  assumes rel: "store_rel dec db L" and c: "command_ok c"
    and room: "int (length (log_of L (command_scope c))) < i64_max"
  shows "\<exists>db' L' r. execute dec clock c db = (db', r) \<and> ledger_execute dec clock c L = (L', r) \<and>
    store_rel dec db' L'"
proof (cases "body_matches_change (mc_change c) (mc_resource_body c)")
  case False
  then obtain er where "check_change_body (mc_change c) (mc_resource_body c) = Inl er"
    by (cases "check_change_body (mc_change c) (mc_resource_body c)") (auto simp: result_iffs)
  then show ?thesis
    using rel by (simp add: execute_def execute_transaction_def ledger_execute_def Let_def)
next
  case body: True
  then have checked: "check_change_body (mc_change c) (mc_resource_body c) = Inr ()"
    by (simp add: result_iffs)
  show ?thesis
  proof (cases "L (command_scope c)")
    case None
    then show ?thesis
      using rel body checked execute_unauthorized [OF rel None body]
      by (simp add: execute_def ledger_execute_def)
  next
    case (Some el)
    then show ?thesis
      using execute_registered [OF rel c _ _ body, of "fst el" "snd el" clock] room
      by (cases el) simp
  qed
qed

end
