(* ===== verification/Feed_Refinement.thy ===== *)
theory Feed_Refinement
  imports Store_Refinement
begin

text \<open>
  The reads of the SQLite ledger (\<open>changes\<close>, \<open>materialized_changes\<close>, \<open>snapshot\<close>) answer as the
  abstract ledger does, and the administrative operations register empty logs.
\<close>

section \<open>Windows of a log\<close>

lemma log_seq_nth:
  assumes "log_ok dec scope log" "i < length log"
  shows "uint (cp_project_seq (le_receipt (log ! i))) = int i + 1"
proof -
  have "unat (cp_project_seq (le_receipt (log ! i))) = i + 1"
    using assms by (simp add: log_ok_def)
  then have "uint (cp_project_seq (le_receipt (log ! i))) = int (i + 1)"
    by (metis uint_unat_u64)
  then show ?thesis by simp
qed

lemma filter_after_is_drop:
  "log_ok dec scope log \<Longrightarrow>
     filter (\<lambda>e. int a < uint (cp_project_seq (le_receipt e))) log = drop a log"
proof (induction log rule: rev_induct)
  case (snoc e log)
  then have "log_ok dec scope log" "unat (cp_project_seq (le_receipt e)) = length log + 1"
    by (simp_all add: log_ok_snoc)
  moreover from this(2) have "uint (cp_project_seq (le_receipt e)) = int (length log + 1)"
    by (metis uint_unat_u64)
  ultimately show ?case
    using snoc.IH by auto
qed simp

lemma window_seqs:
  assumes ok: "log_ok dec scope log" and w: "w = take n (drop a log)"
  shows "map (\<lambda>e. cp_project_seq (le_receipt e)) w = map (\<lambda>i. of_nat (a + i + 1)) [0..<length w]"
proof (rule nth_equalityI)
  fix i assume "i < length (map (\<lambda>e. cp_project_seq (le_receipt e)) w)"
  then have i: "i < length w" "a + i < length log"
    unfolding w by (simp, simp, linarith)
  then have "w ! i = log ! (a + i)"
    by (simp add: w)
  then have "cp_project_seq (le_receipt (w ! i)) = of_nat (a + i + 1)"
    using seq_nth [OF ok i(2)] by simp
  then show "map (\<lambda>e. cp_project_seq (le_receipt e)) w ! i =
      map (\<lambda>i. of_nat (a + i + 1)) [0..<length w] ! i"
    using i(1) by simp
qed simp

lemma window_bound:
  assumes "log_ok dec scope log" "w = take n (drop a log)" "a \<le> length log"
  shows "int (a + length w) \<le> i64_max"
proof -
  have "a + length w \<le> length log"
    using assms(2,3) by simp
  moreover have "int (length log) \<le> i64_max"
    using assms(1) by (simp add: log_ok_def)
  ultimately show ?thesis by linarith
qed

lemma sorted_of_nat_seqs:
  assumes "int (a + n) \<le> i64_max"
  shows "sorted_wrt (<) (of_nat a # map (\<lambda>i. of_nat (a + i + 1) :: u64) [0..<n])"
    and "last (of_nat a # map (\<lambda>i. of_nat (a + i + 1) :: u64) [0..<n]) = of_nat (a + n)"
proof -
  have "uint (of_nat k :: u64) = int k" if "k \<le> a + n" for k
    using assms that by (intro unat_of_nat_i64) simp
  then have less: "of_nat j < (of_nat k :: u64)" if "j < k" "k \<le> a + n" for j k
    using that by (simp add: u64_less_uint)
  have eq: "of_nat a # map (\<lambda>i. of_nat (a + i + 1) :: u64) [0..<n] =
      map (\<lambda>i. of_nat (a + i)) [0..<Suc n]"
    by (subst map_upt_Suc) simp
  show "sorted_wrt (<) (of_nat a # map (\<lambda>i. of_nat (a + i + 1) :: u64) [0..<n])"
    unfolding eq using less
    by (auto simp: sorted_wrt_iff_nth_less simp del: of_nat_add upt_Suc)
  show "last (of_nat a # map (\<lambda>i. of_nat (a + i + 1) :: u64) [0..<n]) = of_nat (a + n)"
    unfolding eq by (simp add: last_map)
qed

section \<open>The selected rows\<close>

lemma select_changes_rel:
  assumes rel: "store_rel dec db L" and L: "L scope = Some (epoch, log)"
  shows "select_changes db scope (int a) n = map (enc_change epoch) (take n (drop a log))"
proof -
  have ok: "log_ok dec scope log"
    using rel L ledger_ok_log [of dec L scope] by (simp add: store_rel_def)
  have "filter (\<lambda>r. ch_scope r = scope \<and> ch_seq r > int a) (db_changes db) =
      filter (\<lambda>r. ch_seq r > int a) (filter (\<lambda>r. ch_scope r = scope) (db_changes db))"
    by (simp add: conj_commute)
  also have "\<dots> = filter (\<lambda>r. ch_seq r > int a) (map (enc_change epoch) log)"
    using rel L by (simp add: store_rel_def rows_rel_def)
  also have "\<dots> = map (enc_change epoch) (drop a log)"
    unfolding filter_after_is_drop [OF ok, of a, symmetric]
    by (simp add: filter_map comp_def enc_change_def Let_def)
  finally have rows: "filter (\<lambda>r. ch_scope r = scope \<and> ch_seq r > int a) (db_changes db) =
      map (enc_change epoch) (drop a log)" .
  have "sorted (map ch_seq (map (enc_change epoch) (drop a log)))"
    by (auto simp: sorted_iff_nth_mono enc_change_def Let_def log_seq_nth [OF ok])
  then show ?thesis
    unfolding select_changes_def using rows
    by (subst select_ordered_sorted) (simp_all add: take_map)
qed

lemma change_row_decode_enc:
  "entry_ok dec scope e \<Longrightarrow> id_ok epoch \<Longrightarrow>
     change_row_decode scope (enc_change epoch e) = Inr (entry_change scope epoch e)"
  by (simp add: change_row_decode_def enc_change_def entry_change_def Let_def entry_okD le_ref_def)

lemma materialized_row_decode_enc:
  assumes "entry_ok dec scope e" "id_ok epoch"
  shows "materialized_row_decode scope (enc_change epoch e) = Inr (entry_materialized scope epoch e)"
proof -
  have avail: "ch_state_available (enc_change epoch e) = 1"
    "ch_body_json (enc_change epoch e) = le_body e"
    by (simp_all add: enc_change_def Let_def)
  show ?thesis
    using entry_okD(9) [OF assms(1)]
    by (cases "le_change e"; cases "le_body e")
      (simp_all add: materialized_row_decode_def avail change_row_decode_enc [OF assms]
        entry_change_def entry_materialized_def entry_resource_def state_of_def)
qed

section \<open>Feeds\<close>

lemma validate_change_cursor_rel:
  assumes rel: "store_rel dec db L"
  shows "and_then (validate_change_cursor db scope cursor limit) (\<lambda>_.
      Inr (take limit (drop (unat (cu_after_seq cursor)) (log_of L scope)))) =
    feed_window L scope cursor limit"
proof (cases "L scope")
  case (Some el)
  obtain epoch log where L: "L scope = Some (epoch, log)" using Some by (cases el) auto
  have "int (length log) \<le> i64_max"
    using rel L ledger_ok_log [of dec L scope] by (simp add: store_rel_def log_ok_def)
  then have "unat (of_nat (length log) :: u64) = length log"
    by (rule unat_of_nat_i64)
  then have "cu_after_seq cursor > of_nat (length log) \<longleftrightarrow> unat (cu_after_seq cursor) > length log"
    by (simp add: word_less_nat_alt)
  with L show ?thesis
    by (simp add: validate_change_cursor_def feed_window_def load_project_rel [OF rel])
qed (simp add: validate_change_cursor_def feed_window_def load_project_rel [OF rel])

lemma feed_window_Inr:
  assumes "feed_window L scope cursor limit = Inr w"
  shows "\<exists>log. L scope = Some (cu_project_epoch cursor, log) \<and> 0 < limit \<and>
    limit \<le> MAX_CHANGE_LIMIT \<and> unat (cu_after_seq cursor) \<le> length log \<and>
    w = take limit (drop (unat (cu_after_seq cursor)) log)"
  using assms by (auto simp: feed_window_def split: if_splits option.splits)

lemma feed_batch:
  assumes ok: "log_ok dec scope log" and w: "w = take limit (drop (unat (cu_after_seq cursor)) log)"
    and a: "unat (cu_after_seq cursor) \<le> length log" and pos: "0 < limit"
    and f: "\<And>e. ce_seq (f e) = cp_project_seq (le_receipt e)"
  shows "sorted_wrt (<) (cu_after_seq cursor # map ce_seq (map f w))"
    and "last (cu_after_seq cursor # map ce_seq (map f w)) =
      of_nat (unat (cu_after_seq cursor) + length w)"
    and "length log > unat (cu_after_seq cursor) + limit \<Longrightarrow> w \<noteq> []"
proof -
  have m: "map ce_seq (map f w) = map (\<lambda>i. of_nat (unat (cu_after_seq cursor) + i + 1)) [0..<length w]"
    using window_seqs [OF ok w] by (simp add: comp_def f)
  have "(of_nat (unat (cu_after_seq cursor)) :: u64) = cu_after_seq cursor"
    by simp
  then show "sorted_wrt (<) (cu_after_seq cursor # map ce_seq (map f w))"
    and "last (cu_after_seq cursor # map ce_seq (map f w)) =
      of_nat (unat (cu_after_seq cursor) + length w)"
    using sorted_of_nat_seqs [OF window_bound [OF ok w a]] unfolding m by metis+
  show "length log > unat (cu_after_seq cursor) + limit \<Longrightarrow> w \<noteq> []"
    using pos by (simp add: w)
qed

lemma fetch_more:
  fixes xs :: "'a list"
  shows "length (take (n + 1) (drop a xs)) > n \<longleftrightarrow> length xs > a + n"
    and "(if length (take (n + 1) (drop a xs)) > n then take n (take (n + 1) (drop a xs))
      else take (n + 1) (drop a xs)) = take n (drop a xs)"
  by (auto simp: min_def)

lemma to_i64_cursor:
  assumes "unat (x :: u64) \<le> n" "int n \<le> i64_max"
  shows "to_i64 op x = Inr (int (unat x))"
proof -
  have "uint x = int (unat x)" by simp
  with assms have "uint x \<le> i64_max" by linarith
  then show ?thesis by simp
qed

lemma cursor_checked:
  assumes rel: "store_rel dec db L"
  shows "(\<exists>er. validate_change_cursor db scope cursor limit = Inl er \<and>
        feed_window L scope cursor limit = Inl er) \<or>
    (\<exists>log. validate_change_cursor db scope cursor limit = Inr () \<and>
        L scope = Some (cu_project_epoch cursor, log) \<and> 0 < limit \<and>
        unat (cu_after_seq cursor) \<le> length log \<and>
        feed_window L scope cursor limit = Inr (take limit (drop (unat (cu_after_seq cursor)) log)))"
proof (cases "validate_change_cursor db scope cursor limit")
  case (Inl er)
  then show ?thesis
    using validate_change_cursor_rel [OF rel, of scope cursor limit] by simp
next
  case (Inr u)
  then have w: "feed_window L scope cursor limit =
      Inr (take limit (drop (unat (cu_after_seq cursor)) (log_of L scope)))"
    using validate_change_cursor_rel [OF rel, of scope cursor limit] by simp
  from feed_window_Inr [OF this] w Inr show ?thesis by fastforce
qed

lemma fetch_map:
  fixes f :: "'a \<Rightarrow> 'b"
  assumes "d = map f (take (n + 1) (drop a xs))"
  shows "n < length d \<longleftrightarrow> length xs > a + n"
    and "(if n < length d then take n d else d) = map f (take n (drop a xs))"
  using fetch_more [of n a xs] by (auto simp: assms take_map split: if_splits)

text \<open>What the two feeds share: the rows they fetch, cut to the limit, are the log's window.\<close>

lemma feed_rows:
  assumes rel: "store_rel dec db L" and L: "L scope = Some (cu_project_epoch cursor, log)"
    and a: "unat (cu_after_seq cursor) \<le> length log"
    and dec_row: "\<And>e. entry_ok dec scope e \<Longrightarrow>
      row_decode (enc_change (cu_project_epoch cursor) e) = Inr (f e)"
  shows "to_i64 op (cu_after_seq cursor) = Inr (int (unat (cu_after_seq cursor)))"
    and "collect_results row_decode
        (select_changes db scope (int (unat (cu_after_seq cursor))) (limit + 1)) =
      Inr (map f (take (limit + 1) (drop (unat (cu_after_seq cursor)) log)))"
proof -
  have ok: "log_ok dec scope log"
    using rel L ledger_ok_log [of dec L scope] by (simp add: store_rel_def)
  then show "to_i64 op (cu_after_seq cursor) = Inr (int (unat (cu_after_seq cursor)))"
    by (intro to_i64_cursor [OF a]) (simp add: log_ok_def)
  show "collect_results row_decode
        (select_changes db scope (int (unat (cu_after_seq cursor))) (limit + 1)) =
      Inr (map f (take (limit + 1) (drop (unat (cu_after_seq cursor)) log)))"
    unfolding select_changes_rel [OF rel L] collect_results_map
    by (rule collect_results_all_Inr)
      (use ok dec_row in \<open>auto simp: log_ok_def dest!: in_set_takeD in_set_dropD\<close>)
qed

lemma changes_rel:
  assumes rel: "store_rel dec db L"
  shows "changes db scope cursor limit = ledger_changes L scope cursor limit"
  using cursor_checked [OF rel, of scope cursor limit]
proof (elim disjE exE conjE)
  fix log :: "log_entry list"
  let ?a = "unat (cu_after_seq cursor)" and ?f = "entry_change scope (cu_project_epoch cursor)"
  define w where "w = take limit (drop ?a log)"
  define d where "d = map ?f (take (limit + 1) (drop ?a log))"
  assume v: "validate_change_cursor db scope cursor limit = Inr ()"
    and L: "L scope = Some (cu_project_epoch cursor, log)" and limit: "0 < limit"
    and a: "?a \<le> length log"
    and window: "feed_window L scope cursor limit = Inr (take limit (drop ?a log))"
  have ok: "log_ok dec scope log" and epoch: "id_ok (cu_project_epoch cursor)"
    using rel L ledger_ok_log [of dec L scope] ledger_ok_epoch [of dec L scope]
    by (simp_all add: store_rel_def)
  have "changes db scope cursor limit =
      batch_new scope cursor (if limit < length d then take limit d else d) (limit < length d)"
    using feed_rows [OF rel L a, of "change_row_decode scope" ?f] change_row_decode_enc epoch
    by (simp only: changes_def v and_then.simps d_def [symmetric] Let_def)
  also have "\<dots> = batch_new scope cursor (map ?f w) (length log > ?a + limit)"
    unfolding fetch_map(2) [OF d_def] unfolding fetch_map(1) [OF d_def] w_def ..
  also have "\<dots> = ledger_changes L scope cursor limit"
    unfolding ledger_changes_def window w_def [symmetric]
    using feed_batch [OF ok w_def a limit, of ?f] L
    by (simp add: batch_new_Inr_iff entry_in_scope_def entry_change_def feed_next_def
        feed_has_more_def)
  finally show ?thesis .
qed (simp add: changes_def ledger_changes_def)

lemma entry_materialized_ok:
  assumes "log_ok dec scope log" "e \<in> set log"
  shows "materialized_ok scope (entry_materialized scope epoch e)"
proof -
  obtain i where "i < length log" "log ! i = e"
    using assms(2) by (auto simp: in_set_conv_nth)
  then have "unat (cp_project_seq (le_receipt e)) = i + 1"
    using assms(1) by (auto simp: log_ok_def)
  then have "cp_project_seq (le_receipt e) \<noteq> 0"
    by (metis unsigned_0 add_is_0 zero_neq_one)
  then show ?thesis
    by (cases "le_change e")
      (simp_all add: materialized_ok_def entry_materialized_def entry_change_def entry_resource_def
        state_matches_operation_def state_of_def)
qed

lemma entry_seq_comp [simp]:
  "ce_seq (entry_change scope epoch e) = cp_project_seq (le_receipt e)"
  "mz_change (entry_materialized scope epoch e) = entry_change scope epoch e"
  "ce_project_epoch (entry_change scope epoch e) = epoch"
  by (simp_all add: entry_change_def entry_materialized_def)

lemma materialized_changes_rel:
  assumes rel: "store_rel dec db L"
  shows "materialized_changes db scope cursor limit = ledger_materialized L scope cursor limit"
  using cursor_checked [OF rel, of scope cursor limit]
proof (elim disjE exE conjE)
  fix log :: "log_entry list"
  let ?a = "unat (cu_after_seq cursor)"
  let ?f = "entry_materialized scope (cu_project_epoch cursor)"
  define w where "w = take limit (drop ?a log)"
  define d where "d = map ?f (take (limit + 1) (drop ?a log))"
  assume v: "validate_change_cursor db scope cursor limit = Inr ()"
    and L: "L scope = Some (cu_project_epoch cursor, log)" and limit: "0 < limit"
    and a: "?a \<le> length log"
    and window: "feed_window L scope cursor limit = Inr (take limit (drop ?a log))"
  have ok: "log_ok dec scope log" and epoch: "id_ok (cu_project_epoch cursor)"
    using rel L ledger_ok_log [of dec L scope] ledger_ok_epoch [of dec L scope]
    by (simp_all add: store_rel_def)
  have "materialized_changes db scope cursor limit =
      materialized_batch_new scope cursor (if limit < length d then take limit d else d)
        (limit < length d)"
    using feed_rows [OF rel L a, of "materialized_row_decode scope" ?f]
      materialized_row_decode_enc epoch
    by (simp only: materialized_changes_def v and_then.simps d_def [symmetric] Let_def)
  also have "\<dots> = materialized_batch_new scope cursor (map ?f w) (length log > ?a + limit)"
    unfolding fetch_map(2) [OF d_def] unfolding fetch_map(1) [OF d_def] w_def ..
  also have "\<dots> = ledger_materialized L scope cursor limit"
    unfolding ledger_materialized_def window w_def [symmetric]
    using feed_batch [OF ok w_def a limit, of "mz_change \<circ> ?f"] L
      entry_materialized_ok [OF ok, of _ "cu_project_epoch cursor"]
    by (auto simp: materialized_batch_new_Inr_iff feed_next_def feed_has_more_def comp_def w_def
        dest!: in_set_takeD in_set_dropD)
  finally show ?thesis .
qed (simp add: materialized_changes_def ledger_materialized_def)

section \<open>Snapshots\<close>

lemma ref_key_inj: "inj ref_key"
  by (rule injI) (simp add: ref_key_def)

lemma resource_rows_rel:
  assumes rel: "store_rel dec db L" and rows: "rows = filter (\<lambda>r. rs_scope r = scope) (db_resources db)"
  shows "\<And>r. r \<in> set rows \<Longrightarrow>
      r = enc_resource scope (the (last_entry (log_of L scope) (rs_ref r)))"
    and "rs_ref ` set rows = le_ref ` set (log_of L scope)"
    and "distinct (map rs_ref rows)"
proof -
  let ?log = "log_of L scope"
  have keys: "distinct (map rs_key (db_resources db))"
    using rel by (simp add: store_rel_def resources_rel_def)
  have row: "find_resource db scope ref = map_option (enc_resource scope) (last_entry ?log ref)" for ref
    by (rule find_resource_rel [OF rel])
  have member: "find_resource db scope (rs_ref r) = Some r" if "r \<in> set rows" for r
  proof -
    have r: "r \<in> set (db_resources db)" "rs_key r = (scope, rs_ref r)"
      using that by (simp_all add: rows rs_key_def)
    show ?thesis
      using find_key_unique [OF keys r(1)] unfolding r(2) find_resource_def .
  qed
  show "r = enc_resource scope (the (last_entry ?log (rs_ref r)))" if "r \<in> set rows" for r
    using member [OF that] row [of "rs_ref r"] by auto
  show "rs_ref ` set rows = le_ref ` set ?log"
  proof (intro equalityI subsetI)
    fix ref assume "ref \<in> rs_ref ` set rows"
    then obtain r where "r \<in> set rows" "ref = rs_ref r" by blast
    then have "last_entry ?log ref \<noteq> None"
      using member row [of ref] by (cases "last_entry ?log ref") auto
    then show "ref \<in> le_ref ` set ?log"
      using last_entry_None [of ?log ref] by simp
  next
    fix ref assume "ref \<in> le_ref ` set ?log"
    then obtain r where r: "find_resource db scope ref = Some r"
      using row [of ref] last_entry_None [of ?log ref] by (cases "last_entry ?log ref") auto
    then have "r \<in> set (db_resources db)" "rs_key r = (scope, ref)"
      using find_Some_set [OF r [unfolded find_resource_def]] by simp_all
    then show "ref \<in> rs_ref ` set rows"
      by (auto simp: rows rs_key_def)
  qed
  have "distinct (map rs_key rows)"
    using keys by (simp add: rows distinct_map_filter)
  moreover have "map rs_key rows = map (Pair scope) (map rs_ref rows)"
    by (simp add: rows rs_key_def)
  ultimately show "distinct (map rs_ref rows)"
    using distinct_map by metis
qed

lemma sorted_resource_rows:
  assumes rel: "store_rel dec db L"
  shows "sort_key (\<lambda>r. (rs_resource_kind r, rs_resource_id r))
      (filter (\<lambda>r. rs_scope r = scope) (db_resources db)) =
    map (\<lambda>ref. enc_resource scope (the (last_entry (log_of L scope) ref)))
      (sort_key ref_key (remdups (map le_ref (log_of L scope))))"
proof -
  define rows where "rows = filter (\<lambda>r. rs_scope r = scope) (db_resources db)"
  note r = resource_rows_rel [OF rel rows_def]
  let ?k = "\<lambda>r. (rs_resource_kind r, rs_resource_id r)"
  let ?g = "\<lambda>ref. enc_resource scope (the (last_entry (log_of L scope) ref))"
  have k: "?k = ref_key \<circ> rs_ref"
    by (auto simp: ref_key_def rs_ref_def)
  have "map rs_ref (sort_key ?k rows) = sort_key ref_key (remdups (map le_ref (log_of L scope)))"
  proof (rule map_sorted_distinct_set_unique [of ref_key])
    show "inj_on ref_key (set (map rs_ref (sort_key ?k rows)) \<union>
        set (sort_key ref_key (remdups (map le_ref (log_of L scope)))))"
      using ref_key_inj by (rule inj_on_subset) simp
    show "sorted (map ref_key (map rs_ref (sort_key ?k rows)))"
      using sorted_sort_key [of ?k rows] by (simp add: k)
    have "distinct (map rs_ref (sort_key ?k rows))"
      using r(3) by (simp add: distinct_map)
    then show "distinct (map ref_key (map rs_ref (sort_key ?k rows)))"
      using ref_key_inj by (simp only: distinct_map [of ref_key]) (blast intro: inj_on_subset)
    show "sorted (map ref_key (sort_key ref_key (remdups (map le_ref (log_of L scope)))))"
      by (rule sorted_sort_key)
    show "distinct (map ref_key (sort_key ref_key (remdups (map le_ref (log_of L scope)))))"
      using ref_key_inj by (simp only: distinct_map [of ref_key]) (auto intro: inj_on_subset)
    show "set (map rs_ref (sort_key ?k rows)) =
        set (sort_key ref_key (remdups (map le_ref (log_of L scope))))"
      using r(2) by simp
  qed
  then have "map ?g (map rs_ref (sort_key ?k rows)) =
      map ?g (sort_key ref_key (remdups (map le_ref (log_of L scope))))"
    by simp
  moreover have "map ?g (map rs_ref (sort_key ?k rows)) = sort_key ?k rows"
    using r(1) by (auto intro!: map_idI simp: comp_def)
  ultimately show ?thesis
    by (simp add: rows_def)
qed

lemma snapshot_rel:
  assumes rel: "store_rel dec db L"
  shows "snapshot db scope = ledger_snapshot L scope"
proof (cases "L scope")
  case None
  then show ?thesis by (simp add: snapshot_def ledger_snapshot_def load_project_rel [OF rel])
next
  case (Some el)
  obtain epoch log where L: "L scope = Some (epoch, log)" using Some by (cases el) auto
  let ?refs = "sort_key ref_key (remdups (map le_ref log))"
  let ?n = "Suc MAX_SNAPSHOT_RESOURCES"
  let ?row = "\<lambda>ref. enc_resource scope (the (last_entry log ref))"
  have rows: "select_ordered (\<lambda>r. rs_scope r = scope) (\<lambda>r. (rs_resource_kind r, rs_resource_id r)) ?n
      (db_resources db) = map ?row (take ?n ?refs)"
    using sorted_resource_rows [OF rel, of scope] L by (simp add: select_ordered_def take_map)
  have decode: "snapshot_row_decode scope (?row ref) = Inr (the (ledger_resource L scope ref))"
    if ref: "ref \<in> set (take ?n ?refs)" for ref
  proof -
    have "ref \<in> le_ref ` set log"
      using in_set_takeD [OF ref] by simp
    then obtain e where e: "last_entry log ref = Some e"
      using last_entry_None [of log ref] by (cases "last_entry log ref") auto
    then have ok: "entry_ok dec scope e" and le: "le_ref e = ref"
      using last_entry_ok [OF rel, of scope ref e] last_entry_Some [OF e] L by simp_all
    have "decode_ref (rf_kind (le_ref e)) (rf_id (le_ref e)) = Inr (le_ref e)"
      using entry_okD(7) [OF ok] by (simp add: le_ref_def)
    then show ?thesis
      using decode_canonical_resource_state [OF entry_okD(8,9) [OF ok], of scope ref] e L le
      by (simp add: snapshot_row_decode_def enc_resource_def ledger_resource_def entry_resource_def)
  qed
  have collected: "collect_results (snapshot_row_decode scope) (map ?row (take ?n ?refs)) =
      Inr (map (\<lambda>ref. the (ledger_resource L scope ref)) (take ?n ?refs))"
    unfolding collect_results_map using decode by (rule collect_results_all_Inr)
  have coord: "cr_resource (the (ledger_resource L scope ref)) = ref \<and>
      cr_scope (the (ledger_resource L scope ref)) = scope" if ref: "ref \<in> set ?refs" for ref
  proof -
    obtain e where "last_entry log ref = Some e"
      using ref last_entry_None [of log ref] by (cases "last_entry log ref") auto
    then show ?thesis
      using last_entry_Some [of log ref e] L by (simp add: ledger_resource_def entry_resource_def)
  qed
  have valid: "snapshot_new scope epoch seq (map (\<lambda>ref. the (ledger_resource L scope ref)) ?refs) =
      Inr \<lparr>sn_scope = scope, sn_project_epoch = epoch, sn_at_seq = seq,
           sn_resources = map (\<lambda>ref. the (ledger_resource L scope ref)) ?refs\<rparr>" for seq
  proof -
    have "map cr_resource (map (\<lambda>ref. the (ledger_resource L scope ref)) ?refs) = ?refs"
      using coord by (auto intro!: map_idI)
    then show ?thesis
      using coord by (simp add: snapshot_new_Inr_iff del: map_map)
  qed
  have load: "load_project db scope = Inr (Some (epoch, of_nat (length log)))"
    using load_project_rel [OF rel, of scope] L by simp
  show ?thesis
  proof (cases "length ?refs > MAX_SNAPSHOT_RESOURCES")
    case True
    then show ?thesis
      by (simp add: snapshot_def ledger_snapshot_def load rows collected L Let_def)
  next
    case False
    then have "take ?n ?refs = ?refs" by simp
    then show ?thesis
      using False rows collected
      by (simp add: snapshot_def ledger_snapshot_def load L Let_def valid)
  qed
qed

end
