(* ===== verification/Store_Admin.thy ===== *)
theory Store_Admin
  imports Feed_Refinement
begin

text \<open>
  Administrative operations of the SQLite store against the ledger: a fresh database holds the
  empty ledger, registering or bootstrapping a project adds at most one empty log, provisioning
  and authentication leave the ledger alone. Together with \<open>execute\<close> they generate the reachable
  databases, all of which represent a ledger.
\<close>

section \<open>Preserving the ledger\<close>

definition same_ledger_rows :: "store_db \<Rightarrow> store_db \<Rightarrow> bool" where
  "same_ledger_rows db db' \<longleftrightarrow> db_resources db' = db_resources db \<and>
     db_receipts db' = db_receipts db \<and> db_changes db' = db_changes db \<and>
     db_audit db' = db_audit db \<and> db_handoff_index db' = db_handoff_index db"

lemma store_rel_projects:
  assumes "store_rel dec db L" "same_ledger_rows db db'" "projects_rel db' L"
  shows "store_rel dec db' L"
  using assms
  by (simp add: store_rel_def same_ledger_rows_def resources_rel_def rows_rel_def index_rel_def
      find_resource_def)

lemma projects_rel_map:
  assumes "projects_rel db L" "db_projects db' = map f (db_projects db)"
    and f: "\<And>p. pj_scope (f p) = pj_scope p" "\<And>p. pj_project_epoch (f p) = pj_project_epoch p"
      "\<And>p. pj_next_seq (f p) = pj_next_seq p"
    and "\<forall>p\<in>set (db_projects db). project_check (f p)"
  shows "projects_rel db' L"
proof -
  have "find_project db' s = map_option f (find_project db s)" for s
    unfolding find_project_def assms(2) using f(1) by (rule find_map_key)
  moreover have "map pj_scope (db_projects db') = map pj_scope (db_projects db)"
    by (simp add: assms(2) comp_def f(1))
  ultimately show ?thesis
    using assms(1,2,6) by (simp add: projects_rel_def option.map_comp comp_def f)
qed

lemma register_rel:
  assumes rel: "store_rel dec db L" and L: "L scope = None" and epoch: "id_ok epoch"
    and rows: "same_ledger_rows db db'" "db_projects db' = db_projects db @ [row]"
    and row: "pj_scope row = scope" "pj_project_epoch row = epoch" "pj_next_seq row = 0"
      "project_check row"
  shows "store_rel dec db' (L(scope \<mapsto> (epoch, [])))"
proof -
  have logs: "log_of (L(scope \<mapsto> (epoch, []))) s = log_of L s" for s
    using L by simp
  have proj: "projects_rel db L" using rel by (simp add: store_rel_def)
  have none: "find_project db scope = None"
    using projects_relD [OF proj, of scope] L by simp
  have "find_project db' s = (if s = scope then Some row else find_project db s)" for s
    using none row(1) by (auto simp: find_project_def rows(2) find_append split: option.splits)
  moreover have "scope \<notin> pj_scope ` set (db_projects db)"
    using none by (auto simp: find_project_def find_None_set)
  ultimately have "projects_rel db' (L(scope \<mapsto> (epoch, [])))"
    using proj row by (simp add: projects_rel_def rows(2))
  moreover have "ledger_ok dec (L(scope \<mapsto> (epoch, [])))"
    using rel epoch by (simp add: store_rel_def ledger_ok_upd)
  moreover have "rows_rel db' (L(scope \<mapsto> (epoch, [])))"
    using rel rows(1) L by (simp add: store_rel_def rows_rel_def same_ledger_rows_def)
  moreover have "resources_rel db' (L(scope \<mapsto> (epoch, [])))"
    "index_rel dec db' (L(scope \<mapsto> (epoch, [])))"
    using rel rows(1) unfolding store_rel_def resources_rel_def index_rel_def logs
    by (simp_all add: same_ledger_rows_def find_resource_def)
  ultimately show ?thesis by (simp add: store_rel_def)
qed

section \<open>Registering a project\<close>

definition ledger_initialize ::
  "project_scope \<Rightarrow> project_epoch \<Rightarrow> ledger \<Rightarrow> ledger \<times> unit domain_result" where
  "ledger_initialize scope epoch L =
    (case L scope of
       None \<Rightarrow> (L(scope \<mapsto> (epoch, [])), Inr ())
     | Some (current, _) \<Rightarrow>
         if current = epoch then (L, Inr ())
         else (L, Inl (StorageFailure ''initialize_project''
           (Text ''project already exists with a different epoch''))))"

lemma registered_clash:
  assumes "projects_rel db L" "pj_scope row = scope"
  shows "list_ex (project_same_key row) (db_projects db) \<longleftrightarrow> L scope \<noteq> None"
proof -
  have "list_ex (project_same_key row) (db_projects db) \<longleftrightarrow> find_project db scope \<noteq> None"
    using assms(2) by (auto simp: project_same_key_def find_project_def find_None_set list_ex_iff)
  then show ?thesis
    using projects_relD [OF assms(1), of scope]
    by (cases "L scope"; cases "find_project db scope") auto
qed

lemma initialize_rel:
  assumes rel: "store_rel dec db L" and epoch: "id_ok epoch"
  shows "\<exists>db' L' r. initialize_project scope epoch db = (db', r) \<and>
    ledger_initialize scope epoch L = (L', r) \<and> store_rel dec db' L'"
proof -
  define row where "row = \<lparr>pj_tenant_id = sc_tenant_id scope, pj_project_id = sc_project_id scope,
    pj_project_epoch = epoch, pj_next_seq = 0, pj_display_name = '''', pj_status = ''active'',
    pj_revision = 1, pj_created_at_ms = 0, pj_updated_at_ms = 0\<rparr>"
  have row: "pj_scope row = scope" "pj_project_epoch row = epoch" "pj_next_seq row = 0"
    "project_check row"
    by (simp_all add: row_def pj_scope_def project_check_def status_text_ok_def)
  have proj: "projects_rel db L" using rel by (simp add: store_rel_def)
  note clash = registered_clash [OF proj row(1)]
  show ?thesis
  proof (cases "L scope")
    case None
    let ?db = "db\<lparr>db_projects := db_projects db @ [row]\<rparr>"
    have reg: "store_rel dec ?db (L(scope \<mapsto> (epoch, [])))"
      by (rule register_rel [OF rel None epoch _ _ row]) (simp_all add: same_ledger_rows_def)
    have "find_project db scope = None"
      using projects_relD [OF proj, of scope] None by simp
    then have "find_project ?db scope = Some row"
      using row(1) by (simp add: find_project_def find_append)
    then have "initialize_project scope epoch db = (?db, Inr ())"
      using clash None row
      by (simp add: initialize_project_def commit_or_rollback_def insert_or_ignore_def
          flip: row_def)
    with None reg show ?thesis by (simp add: ledger_initialize_def)
  next
    case (Some el)
    then obtain current log where L: "L scope = Some (current, log)" by (cases el) auto
    obtain p where "find_project db scope = Some p" "pj_project_epoch p = current"
      using project_exists_rel(2) [OF rel L] by blast
    then show ?thesis
      using clash L row rel
      by (simp add: initialize_project_def commit_or_rollback_def insert_or_ignore_def
          ledger_initialize_def flip: row_def)
  qed
qed

section \<open>Bootstrap and provisioning\<close>

definition registers :: "ledger \<Rightarrow> ledger \<Rightarrow> bool" where
  "registers L L' \<longleftrightarrow> L' = L \<or>
     (\<exists>scope epoch. L scope = None \<and> id_ok epoch \<and> L' = L(scope \<mapsto> (epoch, [])))"

lemma bootstrap_rel:
  assumes rel: "store_rel dec db L" and epoch: "id_ok (pr_project_epoch project)"
  shows "\<exists>L'. store_rel dec (fst (bootstrap_project tenant project db)) L' \<and> registers L L'"
proof (cases "bootstrap_project_tx db tenant project")
  case (Inl er)
  then show ?thesis
    using rel by (auto simp: bootstrap_project_def commit_or_rollback_def registers_def)
next
  case (Inr tx)
  define row where "row prev = \<lparr>pj_tenant_id = pr_tenant_id project,
    pj_project_id = pr_project_id project, pj_project_epoch = pr_project_epoch project,
    pj_next_seq = 0, pj_display_name = pr_display_name project,
    pj_status = record_status_text (pr_status project), pj_revision = prev,
    pj_created_at_ms = pr_created_at_ms project,
    pj_updated_at_ms = pr_updated_at_ms project\<rparr>" for prev
  define f where "f prev p = (if pj_tenant_id p = pr_tenant_id project \<and>
      pj_project_id p = pr_project_id project \<and> pj_project_epoch p = pr_project_epoch project \<and>
      pj_display_name p = '''' \<and> pj_status p = ''active'' \<and> pj_revision p = 1 \<and>
      pj_created_at_ms p = 0 \<and> pj_updated_at_ms p = 0
    then p\<lparr>pj_display_name := pr_display_name project,
           pj_status := record_status_text (pr_status project), pj_revision := prev,
           pj_created_at_ms := pr_created_at_ms project,
           pj_updated_at_ms := pr_updated_at_ms project\<rparr> else p)" for prev and p :: project_row
  obtain ts prev ps where tx: "tx = db\<lparr>db_tenants := ts, db_projects := map (f prev) ps\<rparr>"
    and ps: "insert_or_ignore project_same_key project_check (\<lambda>_. True) (row prev)
      (db_projects db) = Some ps"
    using Inr by (auto simp: bootstrap_project_tx_def result_iffs Let_def update_rows_def row_def
        f_def [abs_def] split: if_splits)
  then have prev: "0 < prev" "project_check (row prev)"
    by (auto simp: insert_or_ignore_def project_check_def row_def split: if_splits)
  let ?scope = "scope_new (pr_tenant_id project) (pr_project_id project)"
  let ?db1 = "db\<lparr>db_projects := ps\<rparr>"
  have row: "pj_scope (row prev) = ?scope" "pj_project_epoch (row prev) = pr_project_epoch project"
    "pj_next_seq (row prev) = 0"
    by (simp_all add: row_def pj_scope_def)
  have clash: "list_ex (project_same_key (row prev)) (db_projects db) \<longleftrightarrow> L ?scope \<noteq> None"
    using registered_clash [OF _ row(1)] rel by (simp add: store_rel_def)
  have "\<exists>L'. store_rel dec ?db1 L' \<and> registers L L'"
  proof (cases "L ?scope")
    case None
    then have "ps = db_projects db @ [row prev]"
      using ps clash by (auto simp: insert_or_ignore_def split: if_splits)
    then have "store_rel dec ?db1 (L(?scope \<mapsto> (pr_project_epoch project, [])))"
      using prev(2) row by (intro register_rel [OF rel None epoch])
        (simp_all add: same_ledger_rows_def)
    with None epoch show ?thesis unfolding registers_def by blast
  next
    case (Some el)
    then have "?db1 = db"
      using ps clash by (auto simp: insert_or_ignore_def split: if_splits)
    with rel show ?thesis unfolding registers_def by auto
  qed
  then obtain L' where L': "store_rel dec ?db1 L'" "registers L L'" by blast
  have check: "\<forall>p\<in>set (db_projects ?db1). project_check (f prev p)"
    using L'(1) prev(1) by (auto simp: store_rel_def projects_rel_def f_def project_check_def)
  have "projects_rel tx L'"
  proof (rule projects_rel_map [of ?db1 L' tx "f prev"])
    show "projects_rel ?db1 L'" using L'(1) by (simp add: store_rel_def)
    show "\<forall>p\<in>set (db_projects ?db1). project_check (f prev p)" by (rule check)
  qed (simp_all add: tx f_def pj_scope_def)
  then have "store_rel dec tx L'"
    by (rule store_rel_projects [OF L'(1), rotated]) (simp add: tx same_ledger_rows_def)
  with L'(2) Inr show ?thesis
    by (auto simp: bootstrap_project_def commit_or_rollback_def)
qed

lemma provision_rel:
  assumes rel: "store_rel dec db L"
  shows "store_rel dec (fst (provision_actor actor m token created db)) L"
proof (cases "provision_actor_tx db actor m token created")
  case (Inl er)
  with rel show ?thesis by (simp add: provision_actor_def commit_or_rollback_def)
next
  case (Inr tx)
  then have "same_ledger_rows db tx" "db_projects tx = db_projects db"
    by (auto simp: provision_actor_tx_def result_iffs Let_def same_ledger_rows_def)
  moreover from this(2) have "projects_rel tx L"
    using rel by (simp add: store_rel_def projects_rel_def find_project_def)
  ultimately have "store_rel dec tx L"
    using store_rel_projects [OF rel] by blast
  with Inr show ?thesis by (simp add: provision_actor_def commit_or_rollback_def)
qed

lemma empty_rel: "store_rel dec create_schema_v4 Map.empty"
  by (simp add: store_rel_def ledger_ok_def projects_rel_def resources_rel_def rows_rel_def
      index_rel_def create_schema_v4_def find_project_def find_resource_def log_of_def index_of_def)

section \<open>Steps and reachable databases\<close>

text \<open>
  One call of a mutating store operation, failed ones included. The bound on \<open>execute\<close> keeps every
  project below \<open>i64_max\<close> commands, the range of SQLite's integers.
\<close>

inductive store_step :: "(bytes \<Rightarrow> handoff_record option) \<Rightarrow> store_db \<Rightarrow> store_db \<Rightarrow> bool"
  for decode_handoff where
  initialized: "id_ok epoch \<Longrightarrow> initialize_project scope epoch db = (db', r) \<Longrightarrow>
    store_step decode_handoff db db'"
| bootstrapped: "id_ok (pr_project_epoch project) \<Longrightarrow>
    bootstrap_project tenant project db = (db', r) \<Longrightarrow> store_step decode_handoff db db'"
| provisioned: "provision_actor actor m token created db = (db', r) \<Longrightarrow>
    store_step decode_handoff db db'"
| executed: "command_ok c \<Longrightarrow>
    select_count (\<lambda>r. rc_scope r = command_scope c) (db_receipts db) < i64_max \<Longrightarrow>
    execute decode_handoff clock c db = (db', r) \<Longrightarrow> store_step decode_handoff db db'"

abbreviation store_steps where
  "store_steps decode_handoff \<equiv> (store_step decode_handoff)\<^sup>*\<^sup>*"

definition store_reachable :: "(bytes \<Rightarrow> handoff_record option) \<Rightarrow> store_db \<Rightarrow> bool" where
  "store_reachable decode_handoff db \<longleftrightarrow> store_steps decode_handoff create_schema_v4 db"

text \<open>Logs only grow, and epochs never change.\<close>

definition ledger_extends :: "ledger \<Rightarrow> ledger \<Rightarrow> bool" where
  "ledger_extends L L' \<longleftrightarrow> (\<forall>scope epoch log. L scope = Some (epoch, log) \<longrightarrow>
     (\<exists>ext. L' scope = Some (epoch, log @ ext)))"

lemma extends_refl [simp]: "ledger_extends L L"
  by (simp add: ledger_extends_def)

lemma extendsD:
  assumes "ledger_extends L L'" "L scope = Some (epoch, log)"
  obtains ext where "L' scope = Some (epoch, log @ ext)"
  using assms unfolding ledger_extends_def by blast

lemma extends_trans: "ledger_extends L L' \<Longrightarrow> ledger_extends L' L'' \<Longrightarrow> ledger_extends L L''"
  unfolding ledger_extends_def by (metis append_assoc)

lemma registers_extends: "registers L L' \<Longrightarrow> ledger_extends L L'"
  by (auto simp: registers_def ledger_extends_def)

lemma ledger_execute_cases:
  assumes "ledger_execute dec clock c L = (L', r)"
  obtains (failed) er where "r = Inl er" "L' = L"
  | (replayed) epoch log e where "L' = L" "L (command_scope c) = Some (epoch, log)"
      "find_command log (command_id_of c) = Some e" "r = Inr (le_receipt e)"
      "cp_actor_id (le_receipt e) = command_actor c"
      "cp_fingerprint (le_receipt e) = mc_fingerprint c"
  | (committed) epoch log now where "L (command_scope c) = Some (epoch, log)"
      "find_command log (command_id_of c) = None" "unix_time_ms clock = Inr now"
      "check_expected_revision (en_expected_revision (ac_envelope (mc_command c)))
         (current_revision log (mc_resource c)) = Inr ()"
      "body_matches_change (mc_change c) (mc_resource_body c)"
      "L' = L(command_scope c \<mapsto> (epoch, log @ [ledger_entry log now c]))"
      "r = Inr (le_receipt (ledger_entry log now c))"
proof -
  note run = assms [unfolded ledger_execute_def Let_def]
  show thesis
  proof (cases "check_change_body (mc_change c) (mc_resource_body c)")
    case (Inl er)
    with run failed [of er] show thesis by simp
  next
    case body: (Inr u)
    show thesis
    proof (cases "L (command_scope c)")
      case None
      with run body failed [of "ProjectUnauthorized (sc_project_id (command_scope c))"] show thesis by simp
    next
      case (Some el)
      obtain epoch log where L: "L (command_scope c) = Some (epoch, log)" using Some by (cases el) auto
      show thesis
      proof (cases "find_command log (command_id_of c)")
        case (Some e)
        with run body L show thesis
          using failed [of CommandConflict] replayed [OF _ L Some] by (simp split: if_splits)
      next
        case fresh: None
        show thesis
        proof (cases "check_expected_revision (en_expected_revision (ac_envelope (mc_command c)))
            (current_revision log (mc_resource c))")
          case (Inl er)
          with run body L fresh failed [of er] show thesis by simp
        next
          case expected: (Inr u)
          show thesis
          proof (cases "unix_time_ms clock")
            case (Inl er)
            with run body L fresh expected failed [of er] show thesis by simp
          next
            case (Inr now)
            note now = Inr
            show thesis
            proof (cases "check_handoff_body dec (mc_resource c) (mc_change c) (mc_resource_body c)")
              case (Inl er)
              with run body L fresh expected now failed [of er] show thesis by simp
            next
              case (Inr v)
              with run body L fresh expected now show thesis
                using committed [OF L fresh now] by (simp add: result_iffs)
            qed
          qed
        qed
      qed
    qed
  qed
qed

lemma ledger_execute_extends:
  "ledger_execute dec clock c L = (L', r) \<Longrightarrow> ledger_extends L L'"
  by (erule ledger_execute_cases) (auto simp: ledger_extends_def)

lemma receipts_count:
  "store_rel dec db L \<Longrightarrow>
     select_count (\<lambda>r. rc_scope r = scope) (db_receipts db) = int (length (log_of L scope))"
  by (simp add: select_count_def store_rel_def rows_rel_def)

lemma step_rel:
  assumes "store_step dec db db'" "store_rel dec db L"
  shows "\<exists>L'. store_rel dec db' L' \<and> ledger_extends L L'"
  using assms
proof (induction rule: store_step.induct)
  case (initialized epoch scope db db' r)
  have "ledger_extends L (fst (ledger_initialize scope epoch L))"
    by (simp add: ledger_initialize_def ledger_extends_def split: option.splits)
  with initialize_rel [OF initialized(3,1), of scope] initialized(2) show ?case by auto
next
  case (bootstrapped project tenant db db' r)
  with bootstrap_rel [of dec db L project tenant] registers_extends show ?case by fastforce
next
  case (provisioned actor m token created db db' r)
  with provision_rel [of dec db L actor m token created] show ?case by fastforce
next
  case (executed c db clock db' r)
  then have "int (length (log_of L (command_scope c))) < i64_max"
    using receipts_count by simp
  from execute_refines [OF executed(4,1) this, of clock] executed(3) ledger_execute_extends
  show ?case by fastforce
qed

lemma steps_rel:
  assumes "store_steps dec db db'" "store_rel dec db L"
  shows "\<exists>L'. store_rel dec db' L' \<and> ledger_extends L L'"
  using assms
proof (induction rule: rtranclp_induct)
  case base
  then show ?case using extends_refl by blast
next
  case (step y z)
  then show ?case using step_rel extends_trans by meson
qed

lemma reachable_rel: "store_reachable dec db \<Longrightarrow> \<exists>L. store_rel dec db L"
  using steps_rel empty_rel unfolding store_reachable_def by blast

lemma reachable_steps: "store_reachable dec db \<Longrightarrow> store_steps dec db db' \<Longrightarrow> store_reachable dec db'"
  unfolding store_reachable_def by simp

end
