(* ===== verification/Mailbox_Refinement.thy ===== *)
theory Mailbox_Refinement
  imports Store_Refinement Store_Command
begin

text \<open>
  The handoff mailbox against the ledger: a page lists, newest first, the handoffs whose last
  committed state is present and matches the query, whatever the index table holds.
\<close>

section \<open>The specification\<close>

definition current_handoffs ::
  "(bytes \<Rightarrow> handoff_record option) \<Rightarrow> log_entry list \<Rightarrow> (log_entry \<times> handoff_record) list" where
  "current_handoffs dec log =
     map (\<lambda>e. (e, the (dec (the (le_body e)))))
       (filter (\<lambda>e. last_entry log (le_ref e) = Some e \<and> rf_kind (le_ref e) = ''handoff'' \<and>
          le_change e = Upsert) log)"

definition mailbox_matches ::
  "actor_id \<Rightarrow> handoff_query \<Rightarrow> i64 option \<Rightarrow> log_entry \<times> handoff_record \<Rightarrow> bool" where
  "mailbox_matches actor query before_seq = (\<lambda>(e, h).
     (case hq_mailbox query of Inbox \<Rightarrow> hr_to_actor h = actor | Outbox \<Rightarrow> hr_from_actor h = actor) \<and>
     (hq_source_id query = None \<or> hr_source_id h = hq_source_id query) \<and>
     (hq_include_completed query \<or> hr_status h \<noteq> Completed) \<and>
     (case before_seq of None \<Rightarrow> True
      | Some b \<Rightarrow> uint (cp_project_seq (le_receipt e)) < b))"

definition list_entry :: "log_entry \<times> handoff_record \<Rightarrow> handoff_list_entry" where
  "list_entry = (\<lambda>(e, h). \<lparr>hl_project_seq = cp_project_seq (le_receipt e),
     hl_revision = cp_revision (le_receipt e), hl_record = h\<rparr>)"

definition ledger_handoffs ::
  "(bytes \<Rightarrow> handoff_record option) \<Rightarrow> ledger \<Rightarrow> project_scope \<Rightarrow> actor_id \<Rightarrow> handoff_query
    \<Rightarrow> handoff_page domain_result" where
  "ledger_handoffs dec L scope actor query =
     and_then (map_transpose (to_i64 ''handoff_before_seq'') (hq_before_seq query)) (\<lambda>before_seq.
       let found = rev (filter (mailbox_matches actor query before_seq)
             (current_handoffs dec (log_of L scope)));
           page = map list_entry (take (hq_limit query) found) in
       Inr \<lparr>hp_assignments = page,
            hp_next_before_seq = (if length found > hq_limit query \<and> page \<noteq> [] then
              Some (hl_project_seq (last page)) else None)\<rparr>)"

section \<open>Index rows and log entries\<close>

lemma last_entry_self:
  "last_entry log ref = Some e \<Longrightarrow> last_entry log (le_ref e) = Some e"
  using last_entry_Some by fastforce

lemma current_handoff_body:
  assumes "log_ok dec scope log" "e \<in> set log" "rf_kind (le_ref e) = ''handoff''"
    and "le_change e = Upsert"
  obtains body h where "le_body e = Some body" "dec body = Some h"
    "hr_handoff_id h = rf_id (le_ref e)"
proof -
  have e: "entry_ok dec scope e"
    using assms(1,2) by (simp add: log_ok_def)
  then obtain body where "le_body e = Some body"
    using entry_okD(9) [OF e] assms(4) by (cases "le_body e") auto
  with that show thesis
    using entry_okD(10) [OF e] assms(3,4)
    by (auto simp: check_handoff_body_def le_ref_def split: option.splits if_splits)
qed

lemma index_of_current:
  assumes ok: "log_ok dec scope log"
  shows "index_of dec scope log hid = Some x \<longleftrightarrow>
    (\<exists>e h. (e, h) \<in> set (current_handoffs dec log) \<and> hid = rf_id (le_ref e) \<and>
       x = enc_index scope e h)"
proof
  assume "index_of dec scope log hid = Some x"
  then obtain e h where e: "last_entry log (handoff_coord hid) = Some e" "le_change e \<noteq> Delete"
    "dec (the (le_body e)) = Some h" "x = enc_index scope e h"
    by (auto simp: index_of_def split: option.splits if_splits)
  moreover have "e \<in> set log" "le_ref e = handoff_coord hid"
    using last_entry_Some [OF e(1)] by simp_all
  moreover have "le_change e = Upsert"
    using e(2) by (cases "le_change e") simp_all
  ultimately show "\<exists>e h. (e, h) \<in> set (current_handoffs dec log) \<and> hid = rf_id (le_ref e) \<and>
       x = enc_index scope e h"
    using e by (intro exI [of _ e] exI [of _ h])
      (auto simp: current_handoffs_def handoff_coord_def)
next
  assume "\<exists>e h. (e, h) \<in> set (current_handoffs dec log) \<and> hid = rf_id (le_ref e) \<and>
       x = enc_index scope e h"
  then obtain e h where e: "e \<in> set log" "last_entry log (le_ref e) = Some e"
    "rf_kind (le_ref e) = ''handoff''" "le_change e = Upsert" "h = the (dec (the (le_body e)))"
    "hid = rf_id (le_ref e)" "x = enc_index scope e h"
    by (auto simp: current_handoffs_def)
  moreover have "handoff_coord hid = le_ref e"
    using e(3,6) by (simp add: handoff_coord_def)
  moreover obtain body h' where "le_body e = Some body" "dec body = Some h'"
    using current_handoff_body [OF ok e(1,3,4)] by blast
  ultimately show "index_of dec scope log hid = Some x"
    by (simp add: index_of_def)
qed

lemma index_rows_current:
  assumes rel: "store_rel dec db L"
  shows "x \<in> set (db_handoff_index db) \<and> ix_scope x = scope \<longleftrightarrow>
    (\<exists>e h. (e, h) \<in> set (current_handoffs dec (log_of L scope)) \<and> x = enc_index scope e h)"
proof -
  have ok: "log_ok dec scope (log_of L scope)"
    using rel ledger_ok_log by (simp add: store_rel_def)
  have keys: "distinct (map ix_key (db_handoff_index db))"
    and find: "\<And>hid. find (\<lambda>x. ix_key x = (scope, hid)) (db_handoff_index db) =
      index_of dec scope (log_of L scope) hid"
    using rel by (simp_all add: store_rel_def index_rel_def)
  have "x \<in> set (db_handoff_index db) \<and> ix_scope x = scope \<longleftrightarrow>
      (\<exists>hid. index_of dec scope (log_of L scope) hid = Some x)"
  proof
    assume x: "x \<in> set (db_handoff_index db) \<and> ix_scope x = scope"
    then have "find (\<lambda>y. ix_key y = ix_key x) (db_handoff_index db) = Some x"
      using find_key_unique [OF keys] by blast
    moreover have "ix_key x = (scope, ix_handoff_id x)"
      using x by (simp add: ix_key_def)
    ultimately show "\<exists>hid. index_of dec scope (log_of L scope) hid = Some x"
      using find by metis
  next
    assume "\<exists>hid. index_of dec scope (log_of L scope) hid = Some x"
    then obtain hid where "find (\<lambda>x. ix_key x = (scope, hid)) (db_handoff_index db) = Some x"
      using find by metis
    from find_Some_set [OF this] show "x \<in> set (db_handoff_index db) \<and> ix_scope x = scope"
      by (simp add: ix_key_def)
  qed
  then show ?thesis
    unfolding index_of_current [OF ok] by blast
qed

section \<open>The joined rows\<close>

lemma enc_index_simps [simp]:
  "ix_scope (enc_index scope e h) = scope" "ix_handoff_id (enc_index scope e h) = hr_handoff_id h"
  "ix_to_actor (enc_index scope e h) = hr_to_actor h"
  "ix_from_actor (enc_index scope e h) = hr_from_actor h"
  "ix_source_id (enc_index scope e h) = hr_source_id h"
  "ix_status (enc_index scope e h) = handoff_status_text (hr_status h)"
  "ix_updated_seq (enc_index scope e h) = uint (cp_project_seq (le_receipt e))"
  "ix_revision (enc_index scope e h) = uint (cp_revision (le_receipt e))"
  by (simp_all add: enc_index_def ix_scope_def)

lemma current_handoffD:
  assumes "log_ok dec scope log" "(e, h) \<in> set (current_handoffs dec log)"
  shows "e \<in> set log" "last_entry log (le_ref e) = Some e" "le_change e = Upsert"
    "le_ref e = handoff_ref (hr_handoff_id h)" "\<exists>body. le_body e = Some body \<and> dec body = Some h"
proof -
  have e: "e \<in> set log" "last_entry log (le_ref e) = Some e" "rf_kind (le_ref e) = ''handoff''"
    "le_change e = Upsert" "h = the (dec (the (le_body e)))"
    using assms(2) by (auto simp: current_handoffs_def)
  then show "e \<in> set log" "last_entry log (le_ref e) = Some e" "le_change e = Upsert" by simp_all
  obtain body h' where "le_body e = Some body" "dec body = Some h'"
    "hr_handoff_id h' = rf_id (le_ref e)"
    using current_handoff_body [OF assms(1) e(1,3,4)] by blast
  with e show "\<exists>body. le_body e = Some body \<and> dec body = Some h"
    "le_ref e = handoff_ref (hr_handoff_id h)"
    by (simp_all add: handoff_ref_def)
qed

lemma join_resource_current:
  assumes "store_rel dec db L" "(e, h) \<in> set (current_handoffs dec (log_of L scope))"
  shows "join_resource db (enc_index scope e h) = Some (enc_resource scope e)"
proof -
  have ok: "log_ok dec scope (log_of L scope)"
    using assms(1) ledger_ok_log by (simp add: store_rel_def)
  note e = current_handoffD [OF ok assms(2)]
  show ?thesis
    using find_resource_rel [OF assms(1), of scope "le_ref e"] e(2)
    unfolding e(4) by (simp add: join_resource_def find_resource_def)
qed

lemma mailbox_where_current:
  assumes "store_rel dec db L" "(e, h) \<in> set (current_handoffs dec (log_of L scope))"
  shows "mailbox_where db scope actor query before_seq (enc_index scope e h) \<longleftrightarrow>
    mailbox_matches actor query before_seq (e, h)"
proof -
  have ok: "log_ok dec scope (log_of L scope)"
    using assms(1) ledger_ok_log by (simp add: store_rel_def)
  have "rs_deleted (enc_resource scope e) = 0"
    using current_handoffD(3) [OF ok assms(2)] by (simp add: enc_resource_def)
  then show ?thesis
    by (simp add: mailbox_where_def mailbox_matches_def join_resource_current [OF assms]
        split: handoff_mailbox.split option.split)
qed

lemma mailbox_entry_current:
  assumes "store_rel dec db L" "(e, h) \<in> set (current_handoffs dec (log_of L scope))"
  shows "mailbox_entry dec db (enc_index scope e h) = Inr (list_entry (e, h))"
proof -
  have ok: "log_ok dec scope (log_of L scope)"
    using assms(1) ledger_ok_log by (simp add: store_rel_def)
  note e = current_handoffD [OF ok assms(2)]
  obtain body where body: "le_body e = Some body" "dec body = Some h" using e(5) by blast
  have "rev_ok (cp_revision (le_receipt e))"
    using ok e(1) entry_okD(8) by (auto simp: log_ok_def)
  then show ?thesis
    using body
    by (simp add: mailbox_entry_def mailbox_row_def join_resource_current [OF assms]
        index_row_validate_def list_entry_def enc_resource_def)
qed

section \<open>The page\<close>

lemma log_seqs_distinct:
  assumes "log_ok dec scope log"
  shows "distinct (map (\<lambda>e. uint (cp_project_seq (le_receipt e))) log)"
    and "sorted (map (\<lambda>e. uint (cp_project_seq (le_receipt e))) log)"
proof -
  have "map (\<lambda>e. uint (cp_project_seq (le_receipt e))) log = map (\<lambda>i. int i + 1) [0..<length log]"
  proof (rule nth_equalityI)
    fix i assume "i < length (map (\<lambda>e. uint (cp_project_seq (le_receipt e))) log)"
    then have i: "i < length log" by simp
    then have "unat (cp_project_seq (le_receipt (log ! i))) = i + 1"
      using assms by (simp add: log_ok_def)
    then have "uint (cp_project_seq (le_receipt (log ! i))) = int (i + 1)"
      by (metis uint_unat_u64)
    with i show "map (\<lambda>e. uint (cp_project_seq (le_receipt e))) log ! i =
        map (\<lambda>i. int i + 1) [0..<length log] ! i"
      by simp
  qed simp
  then show "distinct (map (\<lambda>e. uint (cp_project_seq (le_receipt e))) log)"
    and "sorted (map (\<lambda>e. uint (cp_project_seq (le_receipt e))) log)"
    by (simp_all add: distinct_map inj_on_def sorted_iff_nth_mono)
qed

lemma current_seqs:
  assumes "log_ok dec scope log"
  shows "distinct (map (\<lambda>(e, h). uint (cp_project_seq (le_receipt e))) (current_handoffs dec log))"
    and "sorted (map (\<lambda>(e, h). uint (cp_project_seq (le_receipt e))) (current_handoffs dec log))"
  using log_seqs_distinct [OF assms]
  by (simp_all add: current_handoffs_def comp_def distinct_map_filter sorted_filter)

lemma sort_desc_unique:
  fixes k :: "'a \<Rightarrow> int"
  assumes "set xs = set ys" "distinct xs" "distinct (map k ys)" "sorted (map k ys)"
  shows "sort_key (\<lambda>x. - k x) xs = rev ys"
proof (rule map_sorted_distinct_set_unique [of "\<lambda>x. - k x"])
  have inj: "inj_on k (set ys)" using assms(3) by (simp add: distinct_map)
  then show "inj_on (\<lambda>x. - k x) (set (sort_key (\<lambda>x. - k x) xs) \<union> set (rev ys))"
    using assms(1) by (simp add: inj_on_def)
  show "sorted (map (\<lambda>x. - k x) (sort_key (\<lambda>x. - k x) xs))"
    by (rule sorted_sort_key)
  show "distinct (map (\<lambda>x. - k x) (sort_key (\<lambda>x. - k x) xs))"
    using inj assms(1,2) by (simp add: distinct_map inj_on_def)
  show "sorted (map (\<lambda>x. - k x) (rev ys))"
    using assms(4) by (simp add: sorted_wrt_map sorted_wrt_rev)
  show "distinct (map (\<lambda>x. - k x) (rev ys))"
    using inj assms(3) by (simp add: distinct_map inj_on_def)
qed (use assms(1) in simp)

lemma select_mailbox_rel:
  assumes rel: "store_rel dec db L"
  shows "select_ordered (mailbox_where db scope actor query before_seq) (\<lambda>x. - ix_updated_seq x) n
      (db_handoff_index db) =
    map (\<lambda>(e, h). enc_index scope e h) (take n (rev (filter (mailbox_matches actor query before_seq)
      (current_handoffs dec (log_of L scope)))))"
proof -
  let ?log = "log_of L scope"
  let ?enc = "\<lambda>(e, h). enc_index scope e h"
  let ?found = "filter (mailbox_matches actor query before_seq) (current_handoffs dec ?log)"
  have ok: "log_ok dec scope ?log"
    using rel ledger_ok_log by (simp add: store_rel_def)
  have "set (filter (mailbox_where db scope actor query before_seq) (db_handoff_index db)) =
      set (map ?enc ?found)"
  proof (intro equalityI subsetI)
    fix x assume "x \<in> set (filter (mailbox_where db scope actor query before_seq) (db_handoff_index db))"
    then have x: "x \<in> set (db_handoff_index db)" "mailbox_where db scope actor query before_seq x"
      "ix_scope x = scope"
      by (auto simp: mailbox_where_def)
    then obtain e h where "(e, h) \<in> set (current_handoffs dec ?log)" "x = enc_index scope e h"
      using index_rows_current [OF rel, of x scope] by blast
    with x(2) mailbox_where_current [OF rel] show "x \<in> set (map ?enc ?found)"
      by force
  next
    fix x assume "x \<in> set (map ?enc ?found)"
    then obtain e h where e: "(e, h) \<in> set (current_handoffs dec ?log)" "x = enc_index scope e h"
      "mailbox_matches actor query before_seq (e, h)" by auto
    then have "x \<in> set (db_handoff_index db)"
      using index_rows_current [OF rel, of x scope] by blast
    with e mailbox_where_current [OF rel e(1)]
    show "x \<in> set (filter (mailbox_where db scope actor query before_seq) (db_handoff_index db))"
      by simp
  qed
  moreover have "distinct (filter (mailbox_where db scope actor query before_seq) (db_handoff_index db))"
    using rel by (simp add: store_rel_def index_rel_def distinct_map)
  moreover have seqs: "map ix_updated_seq (map ?enc ?found) =
      map (\<lambda>(e, h). uint (cp_project_seq (le_receipt e))) ?found"
    by auto
  moreover have "distinct (map (\<lambda>(e, h). uint (cp_project_seq (le_receipt e))) ?found)"
    "sorted (map (\<lambda>(e, h). uint (cp_project_seq (le_receipt e))) ?found)"
    using current_seqs [OF ok] by (simp_all add: distinct_map_filter sorted_filter)
  ultimately have "sort_key (\<lambda>x. - ix_updated_seq x)
      (filter (mailbox_where db scope actor query before_seq) (db_handoff_index db)) =
    rev (map ?enc ?found)"
    by (intro sort_desc_unique) (simp_all only: seqs)
  then show ?thesis
    by (simp add: select_ordered_def rev_map take_map)
qed

lemma handoffs_rel:
  assumes rel: "store_rel dec db L"
  shows "handoffs dec db scope actor query = ledger_handoffs dec L scope actor query"
proof (cases "map_transpose (to_i64 ''handoff_before_seq'') (hq_before_seq query)")
  case (Inr before_seq)
  define found where "found = rev (filter (mailbox_matches actor query before_seq)
      (current_handoffs dec (log_of L scope)))"
  define d where "d = map list_entry (take (hq_limit query + 1) found)"
  have entries: "set found \<subseteq> set (current_handoffs dec (log_of L scope))"
    by (auto simp: found_def)
  have "collect_results (mailbox_entry dec db)
      (map (\<lambda>(e, h). enc_index scope e h) (take (hq_limit query + 1) found)) = Inr d"
    unfolding collect_results_map d_def
  proof (rule collect_results_all_Inr)
    fix x assume "x \<in> set (take (hq_limit query + 1) found)"
    then have "x \<in> set (current_handoffs dec (log_of L scope))"
      using entries in_set_takeD by fastforce
    then show "mailbox_entry dec db (case x of (e, h) \<Rightarrow> enc_index scope e h) = Inr (list_entry x)"
      using mailbox_entry_current [OF rel, of "fst x" "snd x"] by (simp add: case_prod_beta)
  qed
  then have run: "handoffs dec db scope actor query =
      (let has_more = length d > hq_limit query;
           page = (if has_more then take (hq_limit query) d else d) in
       Inr \<lparr>hp_assignments = page, hp_next_before_seq = (if has_more then
          (if page = [] then None else Some (hl_project_seq (last page))) else None)\<rparr>)"
    using select_mailbox_rel [OF rel, of scope actor query before_seq "hq_limit query + 1"]
    by (simp only: handoffs_def Inr and_then.simps found_def)
  have more: "hq_limit query < length d \<longleftrightarrow> hq_limit query < length found"
    by (auto simp: d_def)
  have page: "(if hq_limit query < length found then take (hq_limit query) d else d) =
      map list_entry (take (hq_limit query) found)"
    by (auto simp: d_def take_map min_def)
  show ?thesis
    unfolding run ledger_handoffs_def Inr and_then.simps Let_def more page found_def [symmetric]
    by simp
qed (simp add: handoffs_def ledger_handoffs_def)

end
