(* ===== verification/Store_Examples.thy ===== *)
theory Store_Examples
  imports Store_Admin Mailbox_Refinement
begin

text \<open>
  A small concrete history: one project, a fact that is written and updated, and a handoff. The
  body codec of the example reads the body \<open>[1]\<close> as one fixed handoff.
\<close>

definition ex_decode :: "bytes \<Rightarrow> handoff_record option" where
  "ex_decode body = (if body = [1] then Some
     \<lparr>hr_handoff_id = ''h1'', hr_session_id = ''s1'', hr_source_id = Some ''src'',
      hr_from_actor = ''alice'', hr_to_actor = ''bob'', hr_focus = Some ''review'',
      hr_done_when = None, hr_context_id = None, hr_status = Pending, hr_claim_id = None,
      hr_claim_heartbeat_at_ms = None, hr_claim_expires_at_ms = None, hr_attempt_count = 0,
      hr_result_fact_id = None, hr_outcome = None\<rparr> else None)"

definition ex_scope :: project_scope where
  "ex_scope = scope_new ''t1'' ''p1''"

definition ex_actor :: "string \<Rightarrow> project_authorization" where
  "ex_actor a = \<lparr>pz_tenant_id = ''t1'', pz_project_id = ''p1'', pz_actor_id = a, pz_role = Writer\<rparr>"

definition ex_ref :: resource_ref where
  "ex_ref = \<lparr>rf_kind = ''fact'', rf_id = ''f1''\<rparr>"

definition ex_command ::
  "string \<Rightarrow> string \<Rightarrow> revision option \<Rightarrow> resource_ref \<Rightarrow> change_operation \<Rightarrow> bytes option
    \<Rightarrow> mutation_command" where
  "ex_command a cid expected ref ch body =
     \<lparr>mc_command = \<lparr>ac_authorization = ex_actor a, ac_envelope =
        \<lparr>en_command_id = cid, en_project_id = ''p1'', en_expected_revision = expected,
         en_operation = ''fact.add'', en_payload = ()\<rparr>\<rparr>,
      mc_fingerprint = replicate 64 (CHR ''a''), mc_resource = ref, mc_change = ch,
      mc_resource_body = body\<rparr>"

definition ex_create :: mutation_command where
  "ex_create = ex_command ''alice'' ''c1'' None ex_ref Upsert (Some [7])"
definition ex_update :: mutation_command where
  "ex_update = ex_command ''alice'' ''c2'' (Some 1) ex_ref Upsert (Some [8])"
definition ex_send :: mutation_command where
  "ex_send = ex_command ''alice'' ''c3'' None \<lparr>rf_kind = ''handoff'', rf_id = ''h1''\<rparr> Upsert (Some [1])"

definition ex_receipt :: "string \<Rightarrow> project_sequence \<Rightarrow> resource_ref \<Rightarrow> revision \<Rightarrow> command_receipt" where
  "ex_receipt cid seq ref r =
     \<lparr>cp_command_id = cid, cp_fingerprint = replicate 64 (CHR ''a''), cp_tenant_id = ''t1'',
      cp_project_id = ''p1'', cp_actor_id = ''alice'', cp_project_seq = seq, cp_resource = ref,
      cp_revision = r, cp_committed_at_ms = 1000\<rparr>"

definition ex_db0 :: store_db where
  "ex_db0 = fst (initialize_project ex_scope ''e1'' create_schema_v4)"
definition ex_db1 :: store_db where "ex_db1 = fst (execute ex_decode 1000 ex_create ex_db0)"
definition ex_db2 :: store_db where "ex_db2 = fst (execute ex_decode 1000 ex_update ex_db1)"
definition ex_db3 :: store_db where "ex_db3 = fst (execute ex_decode 1000 ex_send ex_db2)"

lemma ex_create_result: "snd (execute ex_decode 1000 ex_create ex_db0) = Inr (ex_receipt ''c1'' 1 ex_ref 1)"
  by code_simp

lemma ex_update_result: "snd (execute ex_decode 1000 ex_update ex_db1) = Inr (ex_receipt ''c2'' 2 ex_ref 2)"
  by code_simp

lemma ex_send_result:
  "snd (execute ex_decode 1000 ex_send ex_db2) =
     Inr (ex_receipt ''c3'' 3 \<lparr>rf_kind = ''handoff'', rf_id = ''h1''\<rparr> 1)"
  by code_simp

lemma ex_commands_ok: "command_ok ex_create" "command_ok ex_update" "command_ok ex_send"
  by code_simp+

lemma ex_scopes [simp]:
  "command_scope ex_create = ex_scope" "command_scope ex_update = ex_scope"
  "command_scope ex_send = ex_scope"
  by code_simp+

lemma ex_runs:
  "execute ex_decode 1000 ex_create ex_db0 = (ex_db1, Inr (ex_receipt ''c1'' 1 ex_ref 1))"
  "execute ex_decode 1000 ex_update ex_db1 = (ex_db2, Inr (ex_receipt ''c2'' 2 ex_ref 2))"
  "execute ex_decode 1000 ex_send ex_db2 =
     (ex_db3, Inr (ex_receipt ''c3'' 3 \<lparr>rf_kind = ''handoff'', rf_id = ''h1''\<rparr> 1))"
  using ex_create_result ex_update_result ex_send_result
  by (simp_all add: prod_eq_iff ex_db1_def ex_db2_def ex_db3_def)

lemma ex_counts:
  "select_count (\<lambda>r. rc_scope r = ex_scope) (db_receipts ex_db0) = 0"
  "select_count (\<lambda>r. rc_scope r = ex_scope) (db_receipts ex_db1) = 1"
  "select_count (\<lambda>r. rc_scope r = ex_scope) (db_receipts ex_db2) = 2"
  by code_simp+

lemma ex_steps:
  "store_step ex_decode create_schema_v4 ex_db0" "store_step ex_decode ex_db0 ex_db1"
  "store_step ex_decode ex_db1 ex_db2" "store_step ex_decode ex_db2 ex_db3"
proof -
  have "id_ok ''e1''" by code_simp
  then show "store_step ex_decode create_schema_v4 ex_db0"
    by (rule store_step.initialized) (simp add: ex_db0_def prod_eq_iff)
  show "store_step ex_decode ex_db0 ex_db1"
    by (rule store_step.executed [OF ex_commands_ok(1) _ ex_runs(1)])
      (simp only: ex_scopes ex_counts, simp add: i64_max_def)
  show "store_step ex_decode ex_db1 ex_db2"
    by (rule store_step.executed [OF ex_commands_ok(2) _ ex_runs(2)])
      (simp only: ex_scopes ex_counts, simp add: i64_max_def)
  show "store_step ex_decode ex_db2 ex_db3"
    by (rule store_step.executed [OF ex_commands_ok(3) _ ex_runs(3)])
      (simp only: ex_scopes ex_counts, simp add: i64_max_def)
qed

lemma ex_reachable:
  "store_reachable ex_decode ex_db0" "store_reachable ex_decode ex_db1"
  "store_reachable ex_decode ex_db2" "store_reachable ex_decode ex_db3"
  using ex_steps unfolding store_reachable_def
  by (meson converse_rtranclp_into_rtranclp rtranclp.rtrancl_refl)+

end
