(* ===== verification/Store_Properties.thy ===== *)
theory Store_Properties
  imports Store_Examples
begin

text \<open>
  What the SQLite command ledger guarantees its callers: refinement of the abstract ledger,
  idempotent replay, conflict detection, dense sequences and complete paging, compare-and-swap
  without lost updates, isolation of project scopes, snapshots and mailboxes that agree with the
  log. The properties are stated over the code's own operations on reachable databases.
\<close>

section \<open>Shared lemmas\<close>

lemma find_command_append:
  "find_command log cid = Some e \<Longrightarrow> find_command (log @ ext) cid = Some e"
  by (simp add: find_command_def find_append)

lemma execute_known:
  assumes rel: "store_rel dec db L" and L: "L (command_scope c) = Some (epoch, log)"
    and body: "body_matches_change (mc_change c) (mc_resource_body c)"
    and e: "find_command log (command_id_of c) = Some e"
  shows "execute dec clock c db = (db,
    if cp_actor_id (le_receipt e) \<noteq> command_actor c \<or>
       cp_fingerprint (le_receipt e) \<noteq> mc_fingerprint c then Inl CommandConflict
    else Inr (le_receipt e))"
proof -
  have "log_ok dec (command_scope c) log"
    using rel L ledger_ok_log [of dec L "command_scope c"] by (simp add: store_rel_def)
  then have "receipt_row_decode (enc_receipt e) = Inr (le_receipt e)"
    using find_command_Some [OF e] receipt_row_decode_enc [of dec "command_scope c" e]
    by (simp add: log_ok_def)
  moreover have "check_change_body (mc_change c) (mc_resource_body c) = Inr ()"
    using body by (simp add: result_iffs)
  ultimately show ?thesis
    using load_project_rel [OF rel, of "command_scope c"] L e
      find_receipt_rel [OF rel, of "command_scope c" "command_id_of c"]
    by (simp add: execute_def execute_transaction_def Let_def
        flip: command_scope_def command_actor_def command_id_of_def)
qed

text \<open>After a success the log holds the command under its id, for this actor and fingerprint.\<close>

lemma execute_success:
  assumes rel: "store_rel dec db L" and c: "command_ok c"
    and room: "select_count (\<lambda>r. rc_scope r = command_scope c) (db_receipts db) < i64_max"
    and run: "execute dec clock c db = (db', Inr r)"
  obtains L' epoch log e where "store_rel dec db' L'" "ledger_extends L L'"
    "ledger_execute dec clock c L = (L', Inr r)"
    "L' (command_scope c) = Some (epoch, log)" "find_command log (command_id_of c) = Some e"
    "le_receipt e = r" "cp_actor_id r = command_actor c" "cp_fingerprint r = mc_fingerprint c"
    "body_matches_change (mc_change c) (mc_resource_body c)"
proof -
  have "int (length (log_of L (command_scope c))) < i64_max"
    using room receipts_count [OF rel] by simp
  then obtain L' where L': "ledger_execute dec clock c L = (L', Inr r)" "store_rel dec db' L'"
    using execute_refines [OF rel c, of clock] run by auto
  have body: "body_matches_change (mc_change c) (mc_resource_body c)"
  proof (rule ccontr)
    assume "\<not> body_matches_change (mc_change c) (mc_resource_body c)"
    then obtain er where "check_change_body (mc_change c) (mc_resource_body c) = Inl er"
      by (cases "check_change_body (mc_change c) (mc_resource_body c)") (auto simp: result_iffs)
    with L'(1) show False by (simp add: ledger_execute_def Let_def)
  qed
  have "\<exists>epoch log e. L' (command_scope c) = Some (epoch, log) \<and>
      find_command log (command_id_of c) = Some e \<and> le_receipt e = r \<and>
      cp_actor_id r = command_actor c \<and> cp_fingerprint r = mc_fingerprint c"
    using L'(1)
  proof (cases rule: ledger_execute_cases)
    case (committed epoch log now)
    then show ?thesis by (auto simp: find_command_snoc)
  qed auto
  with that [OF L'(2) ledger_execute_extends [OF L'(1)] L'(1)] body show thesis by blast
qed

section \<open>Refinement\<close>

text \<open>
  C4. \<open>execute\<close> refines the abstract ledger: on any database that represents a ledger, it
  returns exactly the receipt or error the ledger returns, and the new database represents the
  ledger's new state (one appended entry for a fresh command, nothing for a replay or an error).
\<close>

theorem execute_refines_ledger:
  assumes "store_rel dec db L" "command_ok c"
    and "int (length (log_of L (command_scope c))) < i64_max"
  shows "store_rel dec (fst (execute dec clock c db)) (fst (ledger_execute dec clock c L)) \<and>
    snd (execute dec clock c db) = snd (ledger_execute dec clock c L)"
  using execute_refines [OF assms, of clock] by auto

theorem execute_refines_ledger_witness:
  "snd (execute ex_decode 1000 ex_create create_schema_v4) = Inl (ProjectUnauthorized ''p1'') \<and>
    store_rel ex_decode (fst (execute ex_decode 1000 ex_create create_schema_v4)) Map.empty"
proof -
  have spec: "ledger_execute ex_decode 1000 ex_create Map.empty =
      (Map.empty, Inl (ProjectUnauthorized ''p1''))"
    by (simp add: ledger_execute_def Let_def) (simp add: ex_create_def ex_command_def
        check_change_body_def ex_scope_def)
  have "int (length (log_of Map.empty (command_scope ex_create))) < i64_max"
    by (simp add: i64_max_def)
  from execute_refines_ledger [OF empty_rel [of ex_decode] ex_commands_ok(1) this, of 1000]
  show ?thesis by (simp add: spec)
qed

text \<open>
  C5. Every read of the store is a function of the ledger: receipts, resources, audit counts,
  plain and materialized feeds, snapshots and handoff mailboxes, with all their errors.
\<close>

theorem reads_refine_ledger:
  assumes "store_rel dec db L"
  shows "receipt db scope cid = Inr (ledger_receipt L scope cid) \<and>
    resource db scope ref = Inr (ledger_resource L scope ref) \<and>
    audit_count db scope = Inr (of_nat (length (log_of L scope))) \<and>
    changes db scope cursor limit = ledger_changes L scope cursor limit \<and>
    materialized_changes db scope cursor limit = ledger_materialized L scope cursor limit \<and>
    snapshot db scope = ledger_snapshot L scope \<and>
    handoffs dec db scope actor query = ledger_handoffs dec L scope actor query"
  by (intro conjI receipt_rel [OF assms] resource_rel [OF assms] audit_count_rel [OF assms]
      changes_rel [OF assms] materialized_changes_rel [OF assms] snapshot_rel [OF assms]
      handoffs_rel [OF assms])

theorem reads_refine_ledger_witness:
  "snapshot create_schema_v4 ex_scope = Inl (ProjectUnauthorized ''p1'') \<and>
    resource create_schema_v4 ex_scope ex_ref = Inr None"
  using reads_refine_ledger [OF empty_rel, of ex_scope "''c''" ex_ref]
  by (simp add: ledger_snapshot_def ledger_resource_def log_of_def ex_scope_def)

section \<open>Idempotency\<close>

text \<open>
  Retries are idempotent for ever: once a command has been answered with a receipt, executing
  it again after any number of further store operations, at any time, returns the same receipt
  and changes nothing.
\<close>

theorem execute_idempotent:
  assumes "store_reachable dec db" "command_ok c"
    and "select_count (\<lambda>r. rc_scope r = command_scope c) (db_receipts db) < i64_max"
    and "execute dec clock c db = (db1, Inr r)" "store_steps dec db1 db2"
  shows "execute dec clock' c db2 = (db2, Inr r)"
proof -
  obtain L where L: "store_rel dec db L" using reachable_rel [OF assms(1)] by blast
  obtain L1 epoch log e where one: "store_rel dec db1 L1"
    "L1 (command_scope c) = Some (epoch, log)" "find_command log (command_id_of c) = Some e"
    "le_receipt e = r" "cp_actor_id r = command_actor c" "cp_fingerprint r = mc_fingerprint c"
    "body_matches_change (mc_change c) (mc_resource_body c)"
    using execute_success [OF L assms(2-4)] by metis
  obtain L2 where two: "store_rel dec db2 L2" "ledger_extends L1 L2"
    using steps_rel [OF assms(5) one(1)] by blast
  obtain ext where "L2 (command_scope c) = Some (epoch, log @ ext)"
    using extendsD [OF two(2) one(2)] .
  from execute_known [OF two(1) this one(7) find_command_append [OF one(3)]] one(4-6)
  show ?thesis by simp
qed

theorem execute_idempotent_witness:
  "execute ex_decode 2000 ex_create ex_db3 = (ex_db3, Inr (ex_receipt ''c1'' 1 ex_ref 1))"
proof -
  have "select_count (\<lambda>r. rc_scope r = command_scope ex_create) (db_receipts ex_db0) < i64_max"
    by (simp only: ex_scopes ex_counts) (simp add: i64_max_def)
  moreover have "store_steps ex_decode ex_db1 ex_db3"
    using ex_steps(3,4) by (meson converse_rtranclp_into_rtranclp rtranclp.rtrancl_refl)
  ultimately show ?thesis
    using execute_idempotent [OF ex_reachable(1) ex_commands_ok(1) _ ex_runs(1)] by blast
qed

text \<open>
  A command id is bound for ever to the actor and request fingerprint that first used it in
  its project: any other actor or request under that id is refused with \<open>CommandConflict\<close> and
  changes nothing.
\<close>

theorem command_id_is_bound:
  assumes "store_reachable dec db" "command_ok c"
    and "select_count (\<lambda>r. rc_scope r = command_scope c) (db_receipts db) < i64_max"
    and "execute dec clock c db = (db1, Inr r)" "store_steps dec db1 db2"
    and "command_scope c' = command_scope c" "command_id_of c' = command_id_of c"
    and "command_actor c' \<noteq> command_actor c \<or> mc_fingerprint c' \<noteq> mc_fingerprint c"
    and "body_matches_change (mc_change c') (mc_resource_body c')"
  shows "execute dec clock' c' db2 = (db2, Inl CommandConflict)"
proof -
  obtain L where L: "store_rel dec db L" using reachable_rel [OF assms(1)] by blast
  obtain L1 epoch log e where one: "store_rel dec db1 L1"
    "L1 (command_scope c) = Some (epoch, log)" "find_command log (command_id_of c) = Some e"
    "le_receipt e = r" "cp_actor_id r = command_actor c" "cp_fingerprint r = mc_fingerprint c"
    using execute_success [OF L assms(2-4)] by metis
  obtain L2 where two: "store_rel dec db2 L2" "ledger_extends L1 L2"
    using steps_rel [OF assms(5) one(1)] by blast
  obtain ext where "L2 (command_scope c') = Some (epoch, log @ ext)"
    using extendsD [OF two(2) one(2)] assms(6) by metis
  moreover have "find_command (log @ ext) (command_id_of c') = Some e"
    using find_command_append [OF one(3)] assms(7) by simp
  ultimately show ?thesis
    using execute_known [OF two(1) _ assms(9)] one(4-6) assms(8) by auto
qed

definition ex_imposter :: mutation_command where
  "ex_imposter = ex_command ''mallory'' ''c1'' None ex_ref Upsert (Some [9])"

theorem command_id_is_bound_witness:
  "execute ex_decode 2000 ex_imposter ex_db3 = (ex_db3, Inl CommandConflict)"
proof -
  have "select_count (\<lambda>r. rc_scope r = command_scope ex_create) (db_receipts ex_db0) < i64_max"
    by (simp only: ex_scopes ex_counts) (simp add: i64_max_def)
  moreover have "store_steps ex_decode ex_db1 ex_db3"
    using ex_steps(3,4) by (meson converse_rtranclp_into_rtranclp rtranclp.rtrancl_refl)
  moreover have "command_scope ex_imposter = command_scope ex_create"
    "command_id_of ex_imposter = command_id_of ex_create"
    "command_actor ex_imposter \<noteq> command_actor ex_create"
    "body_matches_change (mc_change ex_imposter) (mc_resource_body ex_imposter)"
    by code_simp+
  ultimately show ?thesis
    using command_id_is_bound [OF ex_reachable(1) ex_commands_ok(1) _ ex_runs(1)] by blast
qed

end
