(* ===== verification/Feed_Properties.thy ===== *)
theory Feed_Properties
  imports Store_Examples
begin

text \<open>
  Ordering and state properties of the SQLite ledger: dense sequences, composable pages,
  compare-and-swap without lost updates, isolation of scopes, and the agreement of snapshots,
  resources and mailboxes with the change feed.
\<close>

section \<open>Shared lemmas\<close>

lemma log_length_count:
  assumes "store_rel dec db L"
  shows "audit_count db scope = Inr n \<longleftrightarrow> n = of_nat (length (log_of L scope))"
    and "unat (of_nat (length (log_of L scope)) :: u64) = length (log_of L scope)"
proof -
  show "audit_count db scope = Inr n \<longleftrightarrow> n = of_nat (length (log_of L scope))"
    using audit_count_rel [OF assms, of scope] by auto
  have "log_ok dec scope (log_of L scope)"
    using assms ledger_ok_log by (simp add: store_rel_def)
  then show "unat (of_nat (length (log_of L scope)) :: u64) = length (log_of L scope)"
    by (intro unat_of_nat_i64) (simp add: log_ok_def)
qed

lemma feed_next_unat:
  assumes "log_ok dec scope log" "w = take limit (drop (unat (cu_after_seq cursor)) log)"
    and "unat (cu_after_seq cursor) \<le> length log"
  shows "unat (cu_after_seq (feed_next cursor w)) = unat (cu_after_seq cursor) + length w"
proof -
  have "unat (of_nat (unat (cu_after_seq cursor) + length w) :: u64) =
      unat (cu_after_seq cursor) + length w"
    using window_bound [OF assms] by (rule unat_of_nat_i64)
  then show ?thesis by (simp add: feed_next_def del: of_nat_add)
qed

lemma window_unats:
  assumes "log_ok dec scope log" "w = take limit (drop a log)" "a \<le> length log"
  shows "map (\<lambda>e. unat (cp_project_seq (le_receipt e))) w = [a + 1..<a + 1 + length w]"
proof -
  have "map (\<lambda>e. unat (cp_project_seq (le_receipt e))) w =
      map unat (map (\<lambda>e. cp_project_seq (le_receipt e)) w)" by simp
  also have "\<dots> = map (\<lambda>i. unat (of_nat (a + i + 1) :: u64)) [0..<length w]"
    unfolding window_seqs [OF assms(1,2)] by (simp del: of_nat_add)
  also have "\<dots> = map (\<lambda>i. a + i + 1) [0..<length w]"
  proof (rule map_cong [OF refl])
    fix i assume "i \<in> set [0..<length w]"
    then show "unat (of_nat (a + i + 1) :: u64) = a + i + 1"
      using window_bound [OF assms] by (intro unat_of_nat_i64) simp
  qed
  also have "\<dots> = [a + 1..<a + 1 + length w]"
    by (intro nth_equalityI) (simp_all del: upt_Suc)
  finally show ?thesis .
qed

lemma ledger_changes_Inr:
  assumes "ledger_changes L scope cursor limit = Inr b"
  obtains log where "L scope = Some (cu_project_epoch cursor, log)" "0 < limit"
    "limit \<le> MAX_CHANGE_LIMIT" "unat (cu_after_seq cursor) \<le> length log"
    "feed_window L scope cursor limit = Inr (take limit (drop (unat (cu_after_seq cursor)) log))"
    "b = \<lparr>cb_scope = scope, cb_cursor = cursor,
      cb_entries = map (entry_change scope (cu_project_epoch cursor))
        (take limit (drop (unat (cu_after_seq cursor)) log)),
      cb_next_cursor = feed_next cursor (take limit (drop (unat (cu_after_seq cursor)) log)),
      cb_has_more = (length log > unat (cu_after_seq cursor) + limit)\<rparr>"
proof -
  obtain w where w: "feed_window L scope cursor limit = Inr w"
    using assms by (auto simp: ledger_changes_def result_iffs)
  from feed_window_Inr [OF w] that w assms show thesis
    by (auto simp: ledger_changes_def feed_has_more_def)
qed

lemma ledger_materialized_Inr:
  assumes "ledger_materialized L scope cursor limit = Inr b"
  obtains log where "L scope = Some (cu_project_epoch cursor, log)" "0 < limit"
    "limit \<le> MAX_CHANGE_LIMIT" "unat (cu_after_seq cursor) \<le> length log"
    "b = \<lparr>mb_scope = scope, mb_cursor = cursor,
      mb_entries = map (entry_materialized scope (cu_project_epoch cursor))
        (take limit (drop (unat (cu_after_seq cursor)) log)),
      mb_next_cursor = feed_next cursor (take limit (drop (unat (cu_after_seq cursor)) log)),
      mb_has_more = (length log > unat (cu_after_seq cursor) + limit)\<rparr>"
proof -
  obtain w where w: "feed_window L scope cursor limit = Inr w"
    using assms by (auto simp: ledger_materialized_def result_iffs)
  from feed_window_Inr [OF w] that w assms show thesis
    by (auto simp: ledger_materialized_def feed_has_more_def)
qed

section \<open>Ordering\<close>

text \<open>
  C6. The change feed is dense: a page after sequence \<open>a\<close> holds exactly the sequences
  \<open>a+1, a+2, ...\<close> without a gap, up to the limit or to the number of committed commands of the
  project; its cursor is the last of them and \<open>has_more\<close> says whether any are left.
\<close>

theorem feed_is_dense:
  assumes "store_reachable dec db" "changes db scope cursor limit = Inr b"
    and "audit_count db scope = Inr n"
  shows "map (unat \<circ> ce_seq) (cb_entries b) =
      [unat (cu_after_seq cursor) + 1 ..< min (unat (cu_after_seq cursor) + limit) (unat n) + 1] \<and>
    unat (cu_after_seq (cb_next_cursor b)) = min (unat (cu_after_seq cursor) + limit) (unat n) \<and>
    (cb_has_more b \<longleftrightarrow> unat (cu_after_seq cursor) + limit < unat n)"
proof -
  obtain L where L: "store_rel dec db L" using reachable_rel [OF assms(1)] by blast
  let ?a = "unat (cu_after_seq cursor)"
  have "ledger_changes L scope cursor limit = Inr b"
    using changes_rel [OF L] assms(2) by simp
  then obtain log where log: "L scope = Some (cu_project_epoch cursor, log)" "?a \<le> length log"
    "b = \<lparr>cb_scope = scope, cb_cursor = cursor,
      cb_entries = map (entry_change scope (cu_project_epoch cursor)) (take limit (drop ?a log)),
      cb_next_cursor = feed_next cursor (take limit (drop ?a log)),
      cb_has_more = (length log > ?a + limit)\<rparr>"
    by (rule ledger_changes_Inr)
  have n: "unat n = length log"
    using log_length_count(1) [OF L, of scope n] log_length_count(2) [OF L, of scope]
      assms(3) log(1) by simp
  have ok: "log_ok dec scope log"
    using L log(1) ledger_ok_log [of dec L scope] by (simp add: store_rel_def)
  define w where "w = take limit (drop ?a log)"
  have w: "?a + length w = min (?a + limit) (unat n)"
    using log(2) by (auto simp: w_def n min_def)
  have "map (unat \<circ> ce_seq) (cb_entries b) = map (\<lambda>e. unat (cp_project_seq (le_receipt e))) w"
    by (simp add: log(3) w_def)
  also have "\<dots> = [?a + 1..<min (?a + limit) (unat n) + 1]"
    unfolding window_unats [OF ok w_def log(2)] w [symmetric] by simp
  finally show ?thesis
    using feed_next_unat [OF ok w_def log(2)] w log(3) by (simp add: n w_def)
qed

theorem feed_is_dense_witness:
  "\<exists>b. changes ex_db3 ex_scope \<lparr>cu_project_epoch = ''e1'', cu_after_seq = 1\<rparr> 5 = Inr b \<and>
     map (unat \<circ> ce_seq) (cb_entries b) = [2, 3] \<and> \<not> cb_has_more b"
proof -
  have count: "audit_count ex_db3 ex_scope = Inr 3" by code_simp
  let ?b = "projr (changes ex_db3 ex_scope \<lparr>cu_project_epoch = ''e1'', cu_after_seq = 1\<rparr> 5)"
  have "changes ex_db3 ex_scope \<lparr>cu_project_epoch = ''e1'', cu_after_seq = 1\<rparr> 5 = Inr ?b"
    by code_simp
  then obtain b where b:
    "changes ex_db3 ex_scope \<lparr>cu_project_epoch = ''e1'', cu_after_seq = 1\<rparr> 5 = Inr b" by blast
  have "[unat (1 :: u64) + 1 ..< min (unat (1 :: u64) + 5) (unat (3 :: u64)) + 1] = [2, 3]"
    "\<not> unat (1 :: u64) + 5 < unat (3 :: u64)"
    by code_simp+
  with feed_is_dense [OF ex_reachable(4) b count]
  have "map (unat \<circ> ce_seq) (cb_entries b) = [2, 3] \<and> \<not> cb_has_more b"
    by (simp only: change_cursor.simps simp_thms)
  with b show ?thesis by (intro exI [of _ b]) (simp only: simp_thms)
qed

text \<open>
  Pages compose: reading a page and then the page after its cursor gives the entries of one
  larger page, so a client that follows \<open>next_cursor\<close> misses and repeats nothing.
\<close>

theorem pages_compose:
  assumes "store_reachable dec db" "l + l' \<le> MAX_CHANGE_LIMIT"
    and "materialized_changes db scope cursor l = Inr b"
    and "materialized_changes db scope (mb_next_cursor b) l' = Inr b'"
  shows "\<exists>c. materialized_changes db scope cursor (l + l') = Inr c \<and>
    mb_entries c = mb_entries b @ mb_entries b' \<and> mb_next_cursor c = mb_next_cursor b' \<and>
    mb_has_more c = mb_has_more b'"
proof -
  obtain L where L: "store_rel dec db L" using reachable_rel [OF assms(1)] by blast
  let ?a = "unat (cu_after_seq cursor)"
  have "ledger_materialized L scope cursor l = Inr b"
    using materialized_changes_rel [OF L] assms(3) by simp
  then obtain log where log: "L scope = Some (cu_project_epoch cursor, log)" "0 < l" "?a \<le> length log"
    "b = \<lparr>mb_scope = scope, mb_cursor = cursor,
      mb_entries = map (entry_materialized scope (cu_project_epoch cursor)) (take l (drop ?a log)),
      mb_next_cursor = feed_next cursor (take l (drop ?a log)),
      mb_has_more = (length log > ?a + l)\<rparr>"
    by (rule ledger_materialized_Inr)
  have ok: "log_ok dec scope log"
    using L log(1) ledger_ok_log [of dec L scope] by (simp add: store_rel_def)
  define w where "w = take l (drop ?a log)"
  let ?next = "feed_next cursor w"
  have next_seq: "unat (cu_after_seq ?next) = ?a + length w"
    using feed_next_unat [OF ok w_def log(3)] .
  have "ledger_materialized L scope ?next l' = Inr b'"
    using materialized_changes_rel [OF L] assms(4) log(4) by (simp add: w_def)
  then obtain log' where log': "L scope = Some (cu_project_epoch ?next, log')" "0 < l'"
    "b' = \<lparr>mb_scope = scope, mb_cursor = ?next,
      mb_entries = map (entry_materialized scope (cu_project_epoch ?next))
        (take l' (drop (unat (cu_after_seq ?next)) log')),
      mb_next_cursor = feed_next ?next (take l' (drop (unat (cu_after_seq ?next)) log')),
      mb_has_more = (length log' > unat (cu_after_seq ?next) + l')\<rparr>"
    by (rule ledger_materialized_Inr)
  have same: "log' = log" "cu_project_epoch ?next = cu_project_epoch cursor"
    using log(1) log'(1) by (simp_all add: feed_next_def)
  have drop: "drop (?a + length w) log = drop l (drop ?a log)"
    by (simp add: w_def min_def add.commute)
  have split: "take (l + l') (drop ?a log) = w @ take l' (drop (?a + length w) log)"
    by (subst drop) (simp add: w_def take_add)
  have "feed_window L scope cursor (l + l') = Inr (take (l + l') (drop ?a log))"
    using log(1-3) assms(2) by (simp add: feed_window_def)
  then have "ledger_materialized L scope cursor (l + l') =
    Inr \<lparr>mb_scope = scope, mb_cursor = cursor,
      mb_entries = map (entry_materialized scope (cu_project_epoch cursor))
        (w @ take l' (drop (?a + length w) log)),
      mb_next_cursor = feed_next cursor (w @ take l' (drop (?a + length w) log)),
      mb_has_more = (length log > ?a + (l + l'))\<rparr>"
    using log(1) by (simp add: ledger_materialized_def split feed_has_more_def)
  moreover have "feed_next cursor (w @ v) = feed_next ?next v" for v
    using next_seq by (simp add: feed_next_def add.assoc)
  moreover have "length log > ?a + (l + l') \<longleftrightarrow> length log > ?a + length w + l'"
    using log(3) by (auto simp: w_def min_def)
  ultimately show ?thesis
    using materialized_changes_rel [OF L, of scope cursor "l + l'"] log(4) [folded w_def]
      log'(3) [unfolded same next_seq] by simp
qed

theorem pages_compose_witness:
  "\<exists>b b' c. materialized_changes ex_db3 ex_scope \<lparr>cu_project_epoch = ''e1'', cu_after_seq = 0\<rparr> 1 = Inr b \<and>
     materialized_changes ex_db3 ex_scope (mb_next_cursor b) 2 = Inr b' \<and>
     materialized_changes ex_db3 ex_scope \<lparr>cu_project_epoch = ''e1'', cu_after_seq = 0\<rparr> (1 + 2) = Inr c \<and>
     mb_entries c = mb_entries b @ mb_entries b'"
proof -
  let ?cur = "\<lparr>cu_project_epoch = ''e1'', cu_after_seq = 0\<rparr>"
  let ?x = "projr (materialized_changes ex_db3 ex_scope ?cur 1)"
  have "materialized_changes ex_db3 ex_scope ?cur 1 = Inr ?x" by code_simp
  moreover have "materialized_changes ex_db3 ex_scope (mb_next_cursor ?x) 2 =
      Inr (projr (materialized_changes ex_db3 ex_scope (mb_next_cursor ?x) 2))" by code_simp
  ultimately obtain b b' where b: "materialized_changes ex_db3 ex_scope ?cur 1 = Inr b"
    "materialized_changes ex_db3 ex_scope (mb_next_cursor b) 2 = Inr b'" by metis
  have "1 + 2 \<le> MAX_CHANGE_LIMIT" by (simp add: MAX_CHANGE_LIMIT_def)
  from pages_compose [OF ex_reachable(4) this b] obtain c where
    "materialized_changes ex_db3 ex_scope ?cur (1 + 2) = Inr c"
    "mb_entries c = mb_entries b @ mb_entries b'" by (elim exE conjE)
  with b show ?thesis by (intro exI [of _ b] exI [of _ b'] exI [of _ c]) (simp only: simp_thms)
qed

end
