(* ===== verification/Mailbox_Properties.thy ===== *)
theory Mailbox_Properties
  imports Store_Examples
begin









end
