(* ===== verification/Identity_Properties.thy ===== *)
theory Identity_Properties
  imports Store_Examples
begin

text \<open>
  Bootstrap, provisioning and authentication of the SQLite store: primary keys hold in every
  reachable database, a provisioned identity authenticates to itself, a bearer digest never moves
  to another identity, and bootstrap is idempotent.
\<close>

section \<open>Primary keys\<close>

definition at_key :: "actor_row \<Rightarrow> string \<times> string" where
  "at_key r = (at_tenant_id r, at_actor_id r)"

definition ms_key :: "membership_row \<Rightarrow> string \<times> string \<times> string" where
  "ms_key r = (ms_tenant_id r, ms_project_id r, ms_actor_id r)"

definition identity_keys :: "store_db \<Rightarrow> bool" where
  "identity_keys db \<longleftrightarrow> distinct (map at_key (db_actors db)) \<and>
     distinct (map ms_key (db_memberships db)) \<and>
     distinct (map tk_token_sha256 (db_token_bindings db))"

definition bindings_grow :: "store_db \<Rightarrow> store_db \<Rightarrow> bool" where
  "bindings_grow db db' \<longleftrightarrow> set (db_token_bindings db) \<subseteq> set (db_token_bindings db')"

lemma insert_or_ignore_keys:
  assumes "insert_or_ignore (\<lambda>r u. k u = k r) check fk r t = Some t'" "distinct (map k t)"
  shows "distinct (map k t')" "set t \<subseteq> set t'"
  using assms by (auto simp: insert_or_ignore_def list_ex_iff image_iff split: if_splits) metis+

lemma at_key_clash:
  "(\<lambda>r u. at_tenant_id u = at_tenant_id r \<and> at_actor_id u = at_actor_id r) = (\<lambda>r u. at_key u = at_key r)"
  by (auto simp: at_key_def fun_eq_iff)

lemma ms_key_clash:
  "(\<lambda>r u. ms_tenant_id u = ms_tenant_id r \<and> ms_project_id u = ms_project_id r \<and>
     ms_actor_id u = ms_actor_id r) = (\<lambda>r u. ms_key u = ms_key r)"
  by (auto simp: ms_key_def fun_eq_iff)

lemma provision_tx_Inr:
  assumes "provision_actor_tx db actor m token created = Inr tx"
  obtains rev rows1 rows2 rows3 where
    "validate_actor_membership actor m token = Inr ()"
    "ensure_active_tenant_project db (pm_tenant_id m) (pm_project_id m) = Inr ()"
    "insert_or_ignore (\<lambda>r u. at_key u = at_key r) actor_check (actor_fk db)
       \<lparr>at_tenant_id = ar_tenant_id actor, at_actor_id = ar_actor_id actor,
        at_display_name = ar_display_name actor, at_kind = actor_kind_text (ar_kind actor),
        at_status = record_status_text (ar_status actor), at_revision = rev,
        at_created_at_ms = ar_created_at_ms actor, at_updated_at_ms = ar_updated_at_ms actor\<rparr>
       (db_actors db) = Some rows1"
    "ensure_actor_matches (db\<lparr>db_actors := rows1\<rparr>) actor = Inr ()"
    "insert_or_ignore (\<lambda>r u. ms_key u = ms_key r) membership_check
       (membership_fk (db\<lparr>db_actors := rows1\<rparr>))
       \<lparr>ms_tenant_id = pm_tenant_id m, ms_project_id = pm_project_id m,
        ms_actor_id = pm_actor_id m, ms_role = membership_role_text (pm_role m),
        ms_status = membership_status_text (pm_status m)\<rparr>
       (db_memberships db) = Some rows2"
    "ensure_membership_matches (db\<lparr>db_actors := rows1, db_memberships := rows2\<rparr>) m = Inr ()"
    "insert_or_ignore (\<lambda>r u. tk_token_sha256 u = tk_token_sha256 r) token_check
       (token_fk (db\<lparr>db_actors := rows1, db_memberships := rows2\<rparr>))
       \<lparr>tk_token_sha256 = token, tk_tenant_id = ar_tenant_id actor,
        tk_actor_id = ar_actor_id actor, tk_active = 1, tk_created_at_ms = created\<rparr>
       (db_token_bindings db) = Some rows3"
    "ensure_token_matches tx token actor = Inr ()"
    "tx = db\<lparr>db_actors := rows1, db_memberships := rows2, db_token_bindings := rows3\<rparr>"
  using assms unfolding provision_actor_tx_def and_then_Inr_iff Let_def sql_Inr_iff
    at_key_clash ms_key_clash
  by (elim exE conjE) (simp add: that)

text \<open>A project row apart from its sequence counter.\<close>

definition unsequenced :: "project_row \<Rightarrow> project_row" where
  "unsequenced p = p\<lparr>pj_next_seq := 0\<rparr>"

definition same_identity_rows :: "store_db \<Rightarrow> store_db \<Rightarrow> bool" where
  "same_identity_rows db db' \<longleftrightarrow> db_tenants db' = db_tenants db \<and> db_actors db' = db_actors db \<and>
     db_memberships db' = db_memberships db \<and> db_token_bindings db' = db_token_bindings db \<and>
     map unsequenced (db_projects db') = map unsequenced (db_projects db)"

lemma writers_same_identity:
  "write_resource db scope c v = Inr tx \<Longrightarrow> same_identity_rows db tx"
  "update_handoff_index dec db scope ref ch body v seq = Inr tx \<Longrightarrow> same_identity_rows db tx"
  "insert_receipt db r = Inr tx \<Longrightarrow> same_identity_rows db tx"
  "insert_change db r ch body = Inr tx \<Longrightarrow> same_identity_rows db tx"
  "insert_audit db r op = Inr tx \<Longrightarrow> same_identity_rows db tx"
  "advance_sequence db scope seq cur = Inr tx \<Longrightarrow> same_identity_rows db tx"
  by (auto simp: write_resource_def update_handoff_index_def insert_receipt_def insert_change_def
      insert_audit_def advance_sequence_def same_identity_rows_def Let_def result_iffs
      update_rows_def unsequenced_def split: if_splits prod.splits)

lemma same_identity_trans:
  "same_identity_rows a b \<Longrightarrow> same_identity_rows b c \<Longrightarrow> same_identity_rows a c"
  by (simp add: same_identity_rows_def)

lemma execute_same_identity:
  "execute dec clock c db = (db', r) \<Longrightarrow> same_identity_rows db db'"
proof (cases "execute_transaction dec clock db c")
  case (Inl er)
  assume "execute dec clock c db = (db', r)"
  with Inl show ?thesis by (simp add: execute_def same_identity_rows_def)
next
  case (Inr txr)
  assume "execute dec clock c db = (db', r)"
  with Inr have "execute_transaction dec clock db c = Inr (db', snd txr)"
    by (cases txr) (simp add: execute_def)
  note tx = this [unfolded execute_transaction_def Let_def]
  let ?scope = "authorization_scope (ac_authorization (mc_command c))"
  show ?thesis
  proof (cases "load_project db ?scope")
    case (Inl er)
    with tx show ?thesis by (simp add: and_then_Inr_iff)
  next
    case load: (Inr project)
    show ?thesis
    proof (cases project)
      case None
      with tx load show ?thesis by (simp add: and_then_Inr_iff)
    next
      case (Some p)
      obtain epoch current where p: "p = (epoch, current)" by (cases p)
      show ?thesis
      proof (cases "find_receipt db ?scope (en_command_id (ac_envelope (mc_command c)))")
        case (Some row)
        with tx load \<open>project = Some p\<close> p show ?thesis
          by (simp add: and_then_Inr_iff same_identity_rows_def split: if_splits)
      next
        case None
        with tx load \<open>project = Some p\<close> p show ?thesis
          by (simp add: and_then_Inr_iff Let_def)
            (auto simp: same_identity_rows_def
              dest!: writers_same_identity [unfolded same_identity_rows_def])
      qed
    qed
  qed
qed

lemma step_identity:
  assumes "store_step dec db db'" "identity_keys db"
  shows "identity_keys db' \<and> bindings_grow db db'"
  using assms
proof (induction rule: store_step.induct)
  case (initialized epoch scope db db' r)
  then have "db_actors db' = db_actors db" "db_memberships db' = db_memberships db"
    "db_token_bindings db' = db_token_bindings db"
    by (auto simp: initialize_project_def commit_or_rollback_def Let_def result_iffs split: sum.splits)
  with initialized show ?case by (simp add: identity_keys_def bindings_grow_def)
next
  case (bootstrapped project tenant db db' r)
  then have "db_actors db' = db_actors db" "db_memberships db' = db_memberships db"
    "db_token_bindings db' = db_token_bindings db"
    by (auto simp: bootstrap_project_def bootstrap_project_tx_def commit_or_rollback_def Let_def
        result_iffs split: sum.splits)
  with bootstrapped show ?case by (simp add: identity_keys_def bindings_grow_def)
next
  case (provisioned actor m token created db db' r)
  show ?case
  proof (cases "provision_actor_tx db actor m token created")
    case (Inl er)
    with provisioned show ?thesis
      by (simp add: provision_actor_def commit_or_rollback_def bindings_grow_def)
  next
    case (Inr tx)
    with provisioned have "db' = tx" by (simp add: provision_actor_def commit_or_rollback_def)
    with Inr provisioned(2) show ?thesis
      by (elim provision_tx_Inr) (auto simp: identity_keys_def bindings_grow_def
          dest: insert_or_ignore_keys)
  qed
next
  case (executed c db clock db' r)
  have "db_actors db' = db_actors db" "db_memberships db' = db_memberships db"
    "db_token_bindings db' = db_token_bindings db"
    using execute_same_identity [OF executed(3)] by (simp_all add: same_identity_rows_def)
  with executed show ?case by (simp add: identity_keys_def bindings_grow_def)
qed

lemma reachable_identity:
  assumes "store_reachable dec db"
  shows "identity_keys db"
proof -
  have "store_steps dec create_schema_v4 db"
    using assms by (simp add: store_reachable_def)
  then show ?thesis
  proof (induction rule: rtranclp_induct)
    case base
    show ?case by (simp add: identity_keys_def create_schema_v4_def)
  qed (use step_identity in blast)
qed

lemma steps_bindings:
  assumes "store_steps dec db db'" "identity_keys db"
  shows "identity_keys db' \<and> bindings_grow db db'"
  using assms
proof (induction rule: rtranclp_induct)
  case base
  then show ?case by (simp add: bindings_grow_def)
next
  case (step y z)
  with step_identity [OF step(2)] show ?case by (auto simp: bindings_grow_def)
qed

lemma exact_match_row:
  assumes "ensure_exact_match (select_count p t) op detail = Inr ()"
  shows "\<exists>r\<in>set t. p r"
proof -
  have "length (filter p t) = 1"
    using assms by (simp add: ensure_exact_match_def select_count_def split: if_splits)
  then have "filter p t \<noteq> []" by auto
  then show ?thesis by (auto simp: filter_empty_conv)
qed

lemma ensure_actor_row:
  assumes "ensure_actor_matches db actor = Inr ()"
  shows "\<exists>r\<in>set (db_actors db). at_tenant_id r = ar_tenant_id actor \<and>
    at_actor_id r = ar_actor_id actor \<and> at_status r = record_status_text (ar_status actor)"
proof -
  obtain i where "ensure_exact_match (select_count (\<lambda>r. at_tenant_id r = ar_tenant_id actor \<and>
            at_actor_id r = ar_actor_id actor \<and>
            at_kind r = actor_kind_text (ar_kind actor) \<and>
            at_status r = record_status_text (ar_status actor) \<and> at_revision r = i)
            (db_actors db)) ''actor_provision'' ''actor record conflicts'' = Inr ()"
    using assms by (auto simp: ensure_actor_matches_def and_then_Inr_iff)
  from exact_match_row [OF this] show ?thesis by blast
qed

lemma authenticate_row:
  assumes "authenticate_token db token = Inr (Some who)"
  shows "\<exists>r\<in>set (db_token_bindings db). tk_token_sha256 r = token \<and>
    tk_tenant_id r = aa_tenant_id who \<and> tk_actor_id r = aa_actor_id who"
proof (cases "select_first (\<lambda>r. tk_token_sha256 r = token \<and> tk_active r = 1 \<and>
    active_tenant db (tk_tenant_id r) \<and> active_actor db (tk_tenant_id r) (tk_actor_id r))
    (db_token_bindings db)")
  case None
  with assms show ?thesis by (auto simp: authenticate_token_def split: if_splits)
next
  case (Some r)
  with assms have "tk_tenant_id r = aa_tenant_id who" "tk_actor_id r = aa_actor_id who"
    by (auto simp: authenticate_token_def result_iffs id_try_from_def split: if_splits)
  with find_Some_set [OF Some] show ?thesis by blast
qed

section \<open>Properties\<close>

text \<open>
  A provisioned identity is usable at once and resolves to itself: after \<open>provision_actor\<close>
  succeeds for an active actor with an active membership, the bearer digest authenticates to
  exactly that tenant and actor, and membership lookup returns exactly that membership.
\<close>

theorem provisioned_identity_authenticates:
  assumes "store_reachable dec db" "provision_actor actor m token created db = (db', Inr ())"
    and "ar_status actor = Active" "pm_status m = MembershipActive"
    and "id_ok (ar_tenant_id actor)" "id_ok (ar_actor_id actor)"
  shows "authenticate_token db' token =
      Inr (Some \<lparr>aa_tenant_id = ar_tenant_id actor, aa_actor_id = ar_actor_id actor\<rparr>) \<and>
    membership db' \<lparr>aa_tenant_id = ar_tenant_id actor, aa_actor_id = ar_actor_id actor\<rparr>
      (pm_project_id m) = Inr (Some m)"
proof -
  have "provision_actor_tx db actor m token created = Inr db'"
    using assms(2) by (auto simp: provision_actor_def commit_or_rollback_def split: sum.splits)
  then obtain rows1 rows2 rows3 where valid: "validate_actor_membership actor m token = Inr ()"
    and active: "ensure_active_tenant_project db (pm_tenant_id m) (pm_project_id m) = Inr ()"
    and am: "ensure_actor_matches (db\<lparr>db_actors := rows1\<rparr>) actor = Inr ()"
    and mm: "ensure_membership_matches (db\<lparr>db_actors := rows1, db_memberships := rows2\<rparr>) m = Inr ()"
    and tm: "ensure_token_matches db' token actor = Inr ()"
    and db': "db' = db\<lparr>db_actors := rows1, db_memberships := rows2, db_token_bindings := rows3\<rparr>"
    by (elim provision_tx_Inr) blast
  have keys: "identity_keys db'"
    using step_identity [OF store_step.provisioned [OF assms(2)] reachable_identity [OF assms(1)]]
    by blast
  have same: "ar_tenant_id actor = pm_tenant_id m" "ar_actor_id actor = pm_actor_id m"
    "length token = 32"
    using valid by (auto simp: validate_actor_membership_def split: if_splits)
  obtain t p where "t \<in> set (db_tenants db)" "tn_tenant_id t = pm_tenant_id m"
    "tn_status t = ''active''" "p \<in> set (db_projects db)" "pj_tenant_id p = tn_tenant_id t"
    "pj_project_id p = pm_project_id m" "pj_status p = ''active''"
    using exact_match_row [OF active [unfolded ensure_active_tenant_project_def]] by auto
  then have tenant: "active_tenant db' (pm_tenant_id m)"
    and project: "active_project db' (scope_new (pm_tenant_id m) (pm_project_id m))"
    unfolding active_tenant_def active_project_def list_ex_iff
    by (auto simp: db', intro bexI [of _ p], simp_all add: pj_scope_def)
  obtain a where "a \<in> set rows1" "at_tenant_id a = pm_tenant_id m" "at_actor_id a = pm_actor_id m"
    "at_status a = ''active''"
    using ensure_actor_row [OF am] assms(3) same by auto
  then have actor: "active_actor db' (pm_tenant_id m) (pm_actor_id m)"
    by (auto simp: active_actor_def list_ex_iff db')
  obtain k where k: "k \<in> set rows3" "tk_token_sha256 k = token" "tk_tenant_id k = pm_tenant_id m"
    "tk_actor_id k = pm_actor_id m" "tk_active k = 1"
    using exact_match_row [OF tm [unfolded ensure_token_matches_def]] same db' by auto
  have "find (\<lambda>r. tk_token_sha256 r = token \<and> tk_active r = 1 \<and> active_tenant db' (tk_tenant_id r) \<and>
      active_actor db' (tk_tenant_id r) (tk_actor_id r)) (db_token_bindings db') = Some k"
    using k tenant actor keys
    by (intro find_unique) (auto simp: db' identity_keys_def distinct_map dest: inj_onD)
  then have "authenticate_token db' token =
      Inr (Some \<lparr>aa_tenant_id = ar_tenant_id actor, aa_actor_id = ar_actor_id actor\<rparr>)"
    using same k assms(5,6) by (simp add: authenticate_token_def)
  moreover obtain r where r: "r \<in> set rows2" "ms_tenant_id r = pm_tenant_id m"
    "ms_project_id r = pm_project_id m" "ms_actor_id r = pm_actor_id m"
    "ms_role r = membership_role_text (pm_role m)" "ms_status r = membership_status_text (pm_status m)"
    using exact_match_row [OF mm [unfolded ensure_membership_matches_def]] by auto
  have unique: "y = r" if "y \<in> set rows2" "ms_key y = ms_key r" for y
    using keys that r(1) by (auto simp: db' identity_keys_def distinct_map dest: inj_onD)
  have "find (\<lambda>r. ms_tenant_id r = pm_tenant_id m \<and> ms_project_id r = pm_project_id m \<and>
      ms_actor_id r = pm_actor_id m \<and> ms_status r = ''active'' \<and> active_tenant db' (pm_tenant_id m) \<and>
      active_project db' (scope_new (pm_tenant_id m) (pm_project_id m)) \<and>
      active_actor db' (pm_tenant_id m) (pm_actor_id m)) (db_memberships db') = Some r"
    using r tenant actor project assms(4)
    by (intro find_unique) (auto simp: db' ms_key_def intro: unique)
  then have "membership db' \<lparr>aa_tenant_id = ar_tenant_id actor, aa_actor_id = ar_actor_id actor\<rparr>
      (pm_project_id m) = Inr (Some m)"
    using r same by (simp add: membership_def project_membership_of_def)
  ultimately show ?thesis by blast
qed

subsection \<open>Example\<close>

definition ex_tenant :: tenant_record where
  "ex_tenant = \<lparr>tr_tenant_id = ''t1'', tr_display_name = ''Acme'', tr_status = Active,
     tr_revision = 1, tr_created_at_ms = 5, tr_updated_at_ms = 5\<rparr>"

definition ex_project :: project_record where
  "ex_project = \<lparr>pr_tenant_id = ''t1'', pr_project_id = ''p1'', pr_display_name = ''Core'',
     pr_project_epoch = ''e1'', pr_status = Active, pr_revision = 1, pr_created_at_ms = 5,
     pr_updated_at_ms = 5\<rparr>"

definition ex_actor_record :: "string \<Rightarrow> actor_record" where
  "ex_actor_record a = \<lparr>ar_tenant_id = ''t1'', ar_actor_id = a, ar_display_name = a,
     ar_kind = Human, ar_status = Active, ar_revision = 1, ar_created_at_ms = 5,
     ar_updated_at_ms = 5\<rparr>"

definition ex_membership :: "string \<Rightarrow> project_membership" where
  "ex_membership a = \<lparr>pm_tenant_id = ''t1'', pm_project_id = ''p1'', pm_actor_id = a,
     pm_role = Writer, pm_status = MembershipActive\<rparr>"

definition ex_token :: bytes where "ex_token = replicate 32 9"

definition ex_admin0 :: store_db where
  "ex_admin0 = fst (bootstrap_project ex_tenant ex_project create_schema_v4)"
definition ex_admin1 :: store_db where
  "ex_admin1 = fst (provision_actor (ex_actor_record ''alice'') (ex_membership ''alice'') ex_token 5
     ex_admin0)"

lemma ex_admin_runs:
  "bootstrap_project ex_tenant ex_project create_schema_v4 = (ex_admin0, Inr ())"
  "provision_actor (ex_actor_record ''alice'') (ex_membership ''alice'') ex_token 5 ex_admin0 =
     (ex_admin1, Inr ())"
proof -
  have "snd (bootstrap_project ex_tenant ex_project create_schema_v4) = Inr ()" by code_simp
  then show "bootstrap_project ex_tenant ex_project create_schema_v4 = (ex_admin0, Inr ())"
    by (simp add: ex_admin0_def prod_eq_iff)
  have "snd (provision_actor (ex_actor_record ''alice'') (ex_membership ''alice'') ex_token 5
      ex_admin0) = Inr ()" by code_simp
  then show "provision_actor (ex_actor_record ''alice'') (ex_membership ''alice'') ex_token 5
      ex_admin0 = (ex_admin1, Inr ())"
    by (simp add: ex_admin1_def prod_eq_iff)
qed

lemma ex_admin_steps:
  "store_step ex_decode create_schema_v4 ex_admin0" "store_step ex_decode ex_admin0 ex_admin1"
proof -
  have "id_ok (pr_project_epoch ex_project)" by code_simp
  then show "store_step ex_decode create_schema_v4 ex_admin0"
    using ex_admin_runs(1) by (rule store_step.bootstrapped)
  show "store_step ex_decode ex_admin0 ex_admin1"
    by (rule store_step.provisioned [OF ex_admin_runs(2)])
qed

lemma ex_admin_reachable: "store_reachable ex_decode ex_admin0" "store_reachable ex_decode ex_admin1"
  using ex_admin_steps unfolding store_reachable_def
  by (meson converse_rtranclp_into_rtranclp rtranclp.rtrancl_refl)+

theorem provisioned_identity_authenticates_witness:
  "authenticate_token ex_admin1 ex_token =
      Inr (Some \<lparr>aa_tenant_id = ''t1'', aa_actor_id = ''alice''\<rparr>) \<and>
    membership ex_admin1 \<lparr>aa_tenant_id = ''t1'', aa_actor_id = ''alice''\<rparr> ''p1'' =
      Inr (Some (ex_membership ''alice''))"
proof -
  have "id_ok ''t1''" "id_ok ''alice''" by code_simp+
  then show ?thesis
    using provisioned_identity_authenticates [OF ex_admin_reachable(1) ex_admin_runs(2)]
    by (simp add: ex_actor_record_def ex_membership_def)
qed

text \<open>
  C12. A bearer digest belongs to one identity for ever: once provisioned, after any operations it
  authenticates as nobody else, and provisioning it for any other tenant or actor is refused
  without a change to the database.
\<close>

theorem token_never_moves:
  assumes "store_reachable dec db" "provision_actor actor m token created db = (db', Inr ())"
    and "store_steps dec db' db''"
  shows "(authenticate_token db'' token = Inr (Some who) \<longrightarrow>
      aa_tenant_id who = ar_tenant_id actor \<and> aa_actor_id who = ar_actor_id actor) \<and>
    ((ar_tenant_id other, ar_actor_id other) \<noteq> (ar_tenant_id actor, ar_actor_id actor) \<longrightarrow>
      (\<exists>e. provision_actor other m' token created' db'' = (db'', Inl e)))"
proof -
  have keys': "identity_keys db'"
    using step_identity [OF store_step.provisioned [OF assms(2)] reachable_identity [OF assms(1)]]
    by blast
  have "provision_actor_tx db actor m token created = Inr db'"
    using assms(2) by (auto simp: provision_actor_def commit_or_rollback_def split: sum.splits)
  then have "ensure_token_matches db' token actor = Inr ()" by (elim provision_tx_Inr)
  from exact_match_row [OF this [unfolded ensure_token_matches_def]]
  obtain k where k: "k \<in> set (db_token_bindings db')" "tk_token_sha256 k = token"
    "tk_tenant_id k = ar_tenant_id actor" "tk_actor_id k = ar_actor_id actor" by blast
  have keys: "identity_keys db''" and "bindings_grow db' db''"
    using steps_bindings [OF assms(3) keys'] by simp_all
  then have k'': "k \<in> set (db_token_bindings db'')"
    using k(1) by (auto simp: bindings_grow_def)
  have binding: "tk_tenant_id r = ar_tenant_id actor \<and> tk_actor_id r = ar_actor_id actor"
    if mem: "r \<in> set (db_token_bindings d)" "tk_token_sha256 r = token"
      and d: "identity_keys d" "bindings_grow db'' d" for r d
    using d mem k'' k(2-4)
    by (auto simp: identity_keys_def bindings_grow_def distinct_map dest: inj_onD)
  have "aa_tenant_id who = ar_tenant_id actor \<and> aa_actor_id who = ar_actor_id actor"
    if "authenticate_token db'' token = Inr (Some who)"
    using authenticate_row [OF that] binding [OF _ _ keys] by (auto simp: bindings_grow_def)
  moreover have "\<exists>e. provision_actor other m' token created' db'' = (db'', Inl e)"
    if differs: "(ar_tenant_id other, ar_actor_id other) \<noteq> (ar_tenant_id actor, ar_actor_id actor)"
  proof (cases "provision_actor_tx db'' other m' token created'")
    case (Inr tx)
    then have "ensure_token_matches tx token other = Inr ()" by (elim provision_tx_Inr)
    from exact_match_row [OF this [unfolded ensure_token_matches_def]]
    obtain r where r: "r \<in> set (db_token_bindings tx)" "tk_token_sha256 r = token"
      "tk_tenant_id r = ar_tenant_id other" "tk_actor_id r = ar_actor_id other" by blast
    have "provision_actor other m' token created' db'' = (tx, Inr ())"
      using Inr by (simp add: provision_actor_def commit_or_rollback_def)
    from step_identity [OF store_step.provisioned [OF this] keys]
    have "identity_keys tx" "bindings_grow db'' tx" by simp_all
    with binding r differs show ?thesis by fastforce
  qed (simp add: provision_actor_def commit_or_rollback_def)
  ultimately show ?thesis by blast
qed

theorem token_never_moves_witness:
  "\<exists>e. provision_actor (ex_actor_record ''bob'') (ex_membership ''bob'') ex_token 6 ex_admin1 =
     (ex_admin1, Inl e)"
proof -
  have "(ar_tenant_id (ex_actor_record ''bob''), ar_actor_id (ex_actor_record ''bob'')) \<noteq>
      (ar_tenant_id (ex_actor_record ''alice''), ar_actor_id (ex_actor_record ''alice''))"
    by (simp add: ex_actor_record_def)
  then show ?thesis
    using token_never_moves [OF ex_admin_reachable(1) ex_admin_runs(2) rtranclp.rtrancl_refl]
    by blast
qed

end
