(* ===== verification/Bootstrap_Properties.thy ===== *)
theory Bootstrap_Properties
  imports Identity_Properties
begin

text \<open>
  Bootstrap of a tenant and project is idempotent: what a successful call wrote stays in force,
  whatever operations follow.
\<close>

section \<open>Bootstrapped rows\<close>

text \<open>A project row without a display name is still the one \<open>initialize_project\<close> wrote.\<close>

definition boot_row :: "project_row \<Rightarrow> bool" where
  "boot_row p \<longleftrightarrow> (pj_display_name p = [] \<longrightarrow> pj_status p = ''active'' \<and> pj_revision p = 1 \<and>
     pj_created_at_ms p = 0 \<and> pj_updated_at_ms p = 0)"

definition boot_ok :: "store_db \<Rightarrow> bool" where
  "boot_ok db \<longleftrightarrow> (\<forall>p\<in>set (db_projects db). boot_row p) \<and>
     distinct (map tn_tenant_id (db_tenants db)) \<and> distinct (map pj_scope (db_projects db))"

definition boot_kept :: "store_db \<Rightarrow> store_db \<Rightarrow> bool" where
  "boot_kept db db' \<longleftrightarrow> set (db_tenants db) \<subseteq> set (db_tenants db') \<and>
     (\<forall>p\<in>set (db_projects db). pj_display_name p \<noteq> [] \<longrightarrow>
        unsequenced p \<in> unsequenced ` set (db_projects db'))"

lemma boot_kept_refl [simp]: "boot_kept db db"
  by (simp add: boot_kept_def)

lemma unsequenced_simps [simp]:
  "pj_scope (unsequenced p) = pj_scope p" "pj_display_name (unsequenced p) = pj_display_name p"
  "pj_status (unsequenced p) = pj_status p" "pj_revision (unsequenced p) = pj_revision p"
  "pj_project_epoch (unsequenced p) = pj_project_epoch p"
  "pj_created_at_ms (unsequenced p) = pj_created_at_ms p"
  "pj_updated_at_ms (unsequenced p) = pj_updated_at_ms p"
  by (simp_all add: unsequenced_def pj_scope_def)

lemma boot_row_unsequenced: "boot_row (unsequenced p) = boot_row p"
  by (simp add: boot_row_def)

lemma boot_kept_trans:
  assumes "boot_kept a b" "boot_kept b c"
  shows "boot_kept a c"
proof -
  have "unsequenced p \<in> unsequenced ` set (db_projects c)"
    if "p \<in> set (db_projects a)" "pj_display_name p \<noteq> []" for p
  proof -
    have "unsequenced p \<in> unsequenced ` set (db_projects b)"
      using assms(1) that by (simp add: boot_kept_def)
    then obtain q where q: "q \<in> set (db_projects b)" "unsequenced p = unsequenced q" by blast
    then have "pj_display_name q \<noteq> []"
      using that(2) by (metis q(2) unsequenced_simps(2))
    with q assms(2) show ?thesis by (simp add: boot_kept_def)
  qed
  with assms show ?thesis by (auto simp: boot_kept_def)
qed

text \<open>Rows that change only in their counter keep everything.\<close>

lemma same_projects_boot:
  assumes "map unsequenced (db_projects db') = map unsequenced (db_projects db)"
    "db_tenants db' = db_tenants db" "boot_ok db"
  shows "boot_ok db' \<and> boot_kept db db'"
proof -
  have scopes: "map pj_scope (db_projects db') = map pj_scope (db_projects db)"
    using arg_cong [OF assms(1), of "map pj_scope"] by (simp only: map_map comp_def unsequenced_simps)
  have rows: "unsequenced ` set (db_projects db') = unsequenced ` set (db_projects db)"
    using arg_cong [OF assms(1), of set] unfolding set_map .
  have "boot_row p" if "p \<in> set (db_projects db')" for p
  proof -
    have "unsequenced p \<in> unsequenced ` set (db_projects db)"
      using that rows by blast
    then obtain q where "q \<in> set (db_projects db)" "unsequenced p = unsequenced q" by blast
    then show ?thesis
      using assms(3) boot_row_unsequenced [of p] boot_row_unsequenced [of q]
      by (simp add: boot_ok_def)
  qed
  moreover have "unsequenced p \<in> unsequenced ` set (db_projects db')"
    if "p \<in> set (db_projects db)" for p
    unfolding rows using that by (rule imageI)
  ultimately show ?thesis
    using scopes assms(2,3) by (simp add: boot_ok_def boot_kept_def)
qed

text \<open>The row and the adopting update of \<open>bootstrap_project\<close>.\<close>

definition boot_tenant_row :: "tenant_record \<Rightarrow> i64 \<Rightarrow> tenant_row" where
  "boot_tenant_row tenant r = \<lparr>tn_tenant_id = tr_tenant_id tenant,
     tn_display_name = tr_display_name tenant, tn_status = record_status_text (tr_status tenant),
     tn_revision = r, tn_created_at_ms = tr_created_at_ms tenant,
     tn_updated_at_ms = tr_updated_at_ms tenant\<rparr>"

definition boot_project_row :: "project_record \<Rightarrow> i64 \<Rightarrow> project_row" where
  "boot_project_row project r = \<lparr>pj_tenant_id = pr_tenant_id project,
     pj_project_id = pr_project_id project, pj_project_epoch = pr_project_epoch project,
     pj_next_seq = 0, pj_display_name = pr_display_name project,
     pj_status = record_status_text (pr_status project), pj_revision = r,
     pj_created_at_ms = pr_created_at_ms project, pj_updated_at_ms = pr_updated_at_ms project\<rparr>"

definition adoptable :: "project_record \<Rightarrow> project_row \<Rightarrow> bool" where
  "adoptable project p \<longleftrightarrow> pj_tenant_id p = pr_tenant_id project \<and>
     pj_project_id p = pr_project_id project \<and> pj_project_epoch p = pr_project_epoch project \<and>
     pj_display_name p = '''' \<and> pj_status p = ''active'' \<and> pj_revision p = 1 \<and>
     pj_created_at_ms p = 0 \<and> pj_updated_at_ms p = 0"

definition adopted :: "project_record \<Rightarrow> i64 \<Rightarrow> project_row \<Rightarrow> project_row" where
  "adopted project r p = p\<lparr>pj_display_name := pr_display_name project,
     pj_status := record_status_text (pr_status project), pj_revision := r,
     pj_created_at_ms := pr_created_at_ms project, pj_updated_at_ms := pr_updated_at_ms project\<rparr>"

lemma bootstrap_tx_Inr:
  assumes "bootstrap_project_tx db tenant project = Inr tx"
  obtains trev ts prev ps upd where "validate_tenant_project tenant project = Inr ()"
    "to_i64 ''tenant_revision'' (tr_revision tenant) = Inr trev"
    "insert_or_ignore (\<lambda>r u. tn_tenant_id u = tn_tenant_id r) tenant_check (\<lambda>_. True)
       (boot_tenant_row tenant trev) (db_tenants db) = Some ts"
    "ensure_tenant_matches (db\<lparr>db_tenants := ts\<rparr>) tenant = Inr ()"
    "to_i64 ''project_revision'' (pr_revision project) = Inr prev"
    "insert_or_ignore project_same_key project_check (\<lambda>_. True)
       (boot_project_row project prev) (db_projects (db\<lparr>db_tenants := ts\<rparr>)) = Some ps"
    "update_rows project_check (adoptable project) (adopted project prev) ps = Some upd"
    "ensure_project_matches tx project = Inr ()"
    "tx = db\<lparr>db_tenants := ts, db_projects := fst upd\<rparr>"
  using assms [unfolded bootstrap_project_tx_def and_then_Inr_iff Let_def sql_Inr_iff
    boot_tenant_row_def [symmetric] boot_project_row_def [symmetric]
    adoptable_def [symmetric] adopted_def [symmetric]]
  by (elim exE conjE) (rule that, simp, assumption, assumption, simp, assumption, assumption,
      assumption, auto simp: case_prod_beta and_then_Inr_iff)

lemma update_rows_fst:
  "update_rows check p f t = Some upd \<Longrightarrow> fst upd = map (\<lambda>r. if p r then f r else r) t"
  by (auto simp: update_rows_def split: if_splits)

lemma adopted_simps [simp]:
  "pj_scope (adopted project r p) = pj_scope p"
  "pj_display_name (adopted project r p) = pr_display_name project"
  by (simp_all add: adopted_def pj_scope_def)

lemma bootstrap_step:
  assumes "bootstrap_project tenant project db = (db', r)" "boot_ok db"
  shows "boot_ok db' \<and> boot_kept db db'"
proof (cases "bootstrap_project_tx db tenant project")
  case (Inl er)
  with assms show ?thesis by (simp add: bootstrap_project_def commit_or_rollback_def)
next
  case (Inr tx)
  with assms have "db' = tx" by (simp add: bootstrap_project_def commit_or_rollback_def)
  from Inr show ?thesis
  proof (rule bootstrap_tx_Inr)
    fix trev ts prev ps upd
    assume valid: "validate_tenant_project tenant project = Inr ()"
      and ts: "insert_or_ignore (\<lambda>r u. tn_tenant_id u = tn_tenant_id r) tenant_check (\<lambda>_. True)
        (boot_tenant_row tenant trev) (db_tenants db) = Some ts"
      and ps: "insert_or_ignore project_same_key project_check (\<lambda>_. True)
        (boot_project_row project prev) (db_projects (db\<lparr>db_tenants := ts\<rparr>)) = Some ps"
      and upd: "update_rows project_check (adoptable project) (adopted project prev) ps = Some upd"
      and tx: "tx = db\<lparr>db_tenants := ts, db_projects := fst upd\<rparr>"
    have named: "pr_display_name project \<noteq> []"
      using valid by (auto simp: validate_tenant_project_def validate_record_text_def result_iffs
          split: if_splits)
    note rows = update_rows_fst [OF upd]
    have clash: "project_same_key = (\<lambda>r u. pj_scope u = pj_scope r)"
      by (simp add: project_same_key_def fun_eq_iff)
    have keys: "distinct (map pj_scope ps)" "set (db_projects db) \<subseteq> set ps"
      using insert_or_ignore_keys [OF ps [unfolded clash]] assms(2) by (simp_all add: boot_ok_def)
    have old: "boot_row p" if "p \<in> set ps" for p
      using that ps assms(2) named by (auto simp: insert_or_ignore_def boot_ok_def boot_row_def
          boot_project_row_def split: if_splits)
    have "map pj_scope (fst upd) = map pj_scope ps"
      unfolding rows map_map by (rule map_cong) simp_all
    moreover have "boot_row p" if "p \<in> set (fst upd)" for p
      using that old named by (auto simp: rows boot_row_def)
    moreover have "distinct (map tn_tenant_id ts)" "set (db_tenants db) \<subseteq> set ts"
      using insert_or_ignore_keys [OF ts] assms(2) by (simp_all add: boot_ok_def)
    moreover have "p \<in> set (fst upd)" if "p \<in> set (db_projects db)" "pj_display_name p \<noteq> []" for p
      using that keys(2) by (auto simp: rows adoptable_def image_iff intro!: bexI [of _ p])
    ultimately show ?thesis
      using keys(1) by (auto simp: \<open>db' = tx\<close> tx boot_ok_def boot_kept_def)
  qed
qed

lemma step_boot:
  assumes "store_step dec db db'" "boot_ok db"
  shows "boot_ok db' \<and> boot_kept db db'"
  using assms
proof (induction rule: store_step.induct)
  case (initialized epoch scope db db' r)
  have clash: "project_same_key = (\<lambda>r u. pj_scope u = pj_scope r)"
    by (simp add: project_same_key_def fun_eq_iff)
  define row where "row = \<lparr>pj_tenant_id = sc_tenant_id scope, pj_project_id = sc_project_id scope,
    pj_project_epoch = epoch, pj_next_seq = 0, pj_display_name = '''', pj_status = ''active'',
    pj_revision = 1, pj_created_at_ms = 0, pj_updated_at_ms = 0\<rparr>"
  have row: "boot_row row" by (simp add: row_def boot_row_def)
  from initialized have "db' = db \<or> (\<exists>t. db' = db\<lparr>db_projects := t\<rparr> \<and>
      insert_or_ignore project_same_key project_check (\<lambda>_. True) row (db_projects db) = Some t)"
    unfolding initialize_project_def row_def [symmetric] Let_def
    by (auto simp: commit_or_rollback_def result_iffs split: sum.splits)
  then show ?case
  proof (elim disjE exE conjE)
    fix t
    assume db': "db' = db\<lparr>db_projects := t\<rparr>"
      and t: "insert_or_ignore project_same_key project_check (\<lambda>_. True) row (db_projects db) = Some t"
    have "distinct (map pj_scope t)" "set (db_projects db) \<subseteq> set t"
      using insert_or_ignore_keys [OF t [unfolded clash]] initialized(3) by (simp_all add: boot_ok_def)
    moreover have "\<forall>p\<in>set t. boot_row p"
      using t row initialized(3) by (auto simp: insert_or_ignore_def boot_ok_def split: if_splits)
    ultimately show ?thesis
      using initialized(3) by (auto simp: db' boot_ok_def boot_kept_def)
  qed (use initialized(3) in simp)
next
  case (bootstrapped project tenant db db' r)
  then show ?case using bootstrap_step by blast
next
  case (provisioned actor m token created db db' r)
  then have "db_projects db' = db_projects db" "db_tenants db' = db_tenants db"
    by (auto simp: provision_actor_def provision_actor_tx_def commit_or_rollback_def Let_def
        result_iffs split: sum.splits)
  with provisioned(2) show ?case by (simp add: boot_ok_def boot_kept_def)
next
  case (executed c db clock db' r)
  have "map unsequenced (db_projects db') = map unsequenced (db_projects db)"
    "db_tenants db' = db_tenants db"
    using execute_same_identity [OF executed(3)] by (simp_all add: same_identity_rows_def)
  then show ?case using same_projects_boot executed(4) by blast
qed

lemma steps_boot:
  assumes "store_steps dec db db'" "boot_ok db"
  shows "boot_ok db' \<and> boot_kept db db'"
  using assms
proof (induction rule: rtranclp_induct)
  case (step y z)
  with step_boot [OF step(2)] show ?case by (blast intro: boot_kept_trans)
qed simp

lemma reachable_boot:
  assumes "store_reachable dec db"
  shows "boot_ok db"
proof -
  have "boot_ok create_schema_v4" by (simp add: boot_ok_def create_schema_v4_def)
  then show ?thesis using steps_boot assms unfolding store_reachable_def by blast
qed

lemma select_count_one:
  assumes "distinct (map k t)" "x \<in> set t" "P x" "\<And>y. P y \<Longrightarrow> k y = k x"
  shows "select_count P t = 1"
proof -
  have "filter P t = [x]"
    using assms(1,2)
  proof (induction t)
    case (Cons a t)
    have other: "\<not> P y" if "y \<in> set t" "x = a" for y
      using that Cons.prems(1) assms(4) by (metis distinct.simps(2) image_eqI list.map(2) list.set_map)
    show ?case
    proof (cases "x = a")
      case True
      with other have "filter P t = []" by (simp add: filter_empty_conv)
      with True assms(3) show ?thesis by simp
    next
      case False
      then have "k a \<noteq> k x" using Cons.prems by (auto simp: image_iff)
      then have "\<not> P a" using assms(4) by blast
      with Cons False show ?thesis by simp
    qed
  qed simp
  then show ?thesis by (simp add: select_count_def)
qed

lemma insert_ignored:
  assumes "insert_or_ignore clash check fk r t0 = Some t1" "u \<in> set t" "clash r u"
  shows "insert_or_ignore clash check fk r t = Some t"
  using assms by (auto simp: insert_or_ignore_def list_ex_iff split: if_splits)

section \<open>Properties\<close>

text \<open>
  Bootstrap is idempotent: once a tenant and project are bootstrapped, calling it again with the
  same records succeeds and leaves the database exactly as it is, after any sequence of operations.
\<close>

theorem bootstrap_idempotent:
  assumes "store_reachable dec db" "bootstrap_project tenant project db = (db', Inr ())"
    and "store_steps dec db' db''"
  shows "bootstrap_project tenant project db'' = (db'', Inr ())"
proof -
  have "bootstrap_project_tx db tenant project = Inr db'"
    using assms(2) by (auto simp: bootstrap_project_def commit_or_rollback_def split: sum.splits)
  then show ?thesis
  proof (rule bootstrap_tx_Inr)
    fix trev ts prev ps upd
    assume valid: "validate_tenant_project tenant project = Inr ()"
      and trev: "to_i64 ''tenant_revision'' (tr_revision tenant) = Inr trev"
      and ts: "insert_or_ignore (\<lambda>r u. tn_tenant_id u = tn_tenant_id r) tenant_check (\<lambda>_. True)
        (boot_tenant_row tenant trev) (db_tenants db) = Some ts"
      and tm: "ensure_tenant_matches (db\<lparr>db_tenants := ts\<rparr>) tenant = Inr ()"
      and prev: "to_i64 ''project_revision'' (pr_revision project) = Inr prev"
      and ps: "insert_or_ignore project_same_key project_check (\<lambda>_. True)
        (boot_project_row project prev) (db_projects (db\<lparr>db_tenants := ts\<rparr>)) = Some ps"
      and upd: "update_rows project_check (adoptable project) (adopted project prev) ps = Some upd"
      and pm: "ensure_project_matches db' project = Inr ()"
      and db': "db' = db\<lparr>db_tenants := ts, db_projects := fst upd\<rparr>"
    have ok': "boot_ok db'"
      using bootstrap_step [OF assms(2)] reachable_boot [OF assms(1)] by simp
    then have ok: "boot_ok db''" and kept: "boot_kept db' db''"
      using steps_boot [OF assms(3)] by simp_all
    obtain t where t: "t \<in> set ts" "tn_tenant_id t = tr_tenant_id tenant"
      "tn_status t = record_status_text (tr_status tenant)" "tn_revision t = trev"
      using exact_match_row [OF tm [unfolded ensure_tenant_matches_def trev and_then.simps]] by auto
    have t'': "t \<in> set (db_tenants db'')"
      using kept t(1) by (auto simp: boot_kept_def db')
    obtain p where p: "p \<in> set (db_projects db')" "pj_tenant_id p = pr_tenant_id project"
      "pj_project_id p = pr_project_id project" "pj_project_epoch p = pr_project_epoch project"
      "pj_status p = record_status_text (pr_status project)" "pj_revision p = prev"
      using exact_match_row [OF pm [unfolded ensure_project_matches_def prev and_then.simps]] by auto
    have named: "pj_display_name p \<noteq> []"
    proof
      assume blank: "pj_display_name p = []"
      have "boot_row p" using ok' p(1) by (simp add: boot_ok_def)
      with blank p(2-4) have "adoptable project p" by (simp add: boot_row_def adoptable_def)
      moreover have "pr_display_name project \<noteq> []"
        using valid by (auto simp: validate_tenant_project_def validate_record_text_def result_iffs
            split: if_splits)
      ultimately show False
        using p(1) blank by (auto simp: db' update_rows_fst [OF upd] adopted_def)
    qed
    then obtain q where q: "q \<in> set (db_projects db'')" "unsequenced p = unsequenced q"
      using kept p(1) by (auto simp: boot_kept_def)
    have same: "pj_tenant_id q = pr_tenant_id project" "pj_project_id q = pr_project_id project"
      "pj_project_epoch q = pr_project_epoch project" "pj_display_name q \<noteq> []"
      "pj_status q = record_status_text (pr_status project)" "pj_revision q = prev"
      using p(2-6) named q(2) by (cases p; cases q; simp add: unsequenced_def)+
    have tenants: "insert_or_ignore (\<lambda>r u. tn_tenant_id u = tn_tenant_id r) tenant_check (\<lambda>_. True)
        (boot_tenant_row tenant trev) (db_tenants db'') = Some (db_tenants db'')"
      using t(2) by (intro insert_ignored [OF ts t'']) (simp add: boot_tenant_row_def)
    have projects: "insert_or_ignore project_same_key project_check (\<lambda>_. True)
        (boot_project_row project prev) (db_projects db'') = Some (db_projects db'')"
      using same by (intro insert_ignored [OF ps q(1)])
        (simp add: boot_project_row_def project_same_key_def pj_scope_def)
    have none: "\<not> adoptable project u" if "u \<in> set (db_projects db'')" for u
    proof
      assume a: "adoptable project u"
      then have "pj_scope u = pj_scope q" using same by (simp add: adoptable_def pj_scope_def)
      with ok that q(1) have "u = q" by (auto simp: boot_ok_def distinct_map dest: inj_onD)
      with a same(4) show False by (simp add: adoptable_def)
    qed
    then have "update_rows project_check (adoptable project) (adopted project prev)
        (db_projects db'') = Some (db_projects db'', 0)"
      by (simp add: update_rows_def list_all_iff map_idI filter_empty_conv)
    moreover have "ensure_tenant_matches db'' tenant = Inr ()"
      unfolding ensure_tenant_matches_def trev and_then.simps ensure_exact_match_def
      using ok t'' t(2-4) by (subst select_count_one [of tn_tenant_id _ t]) (simp_all add: boot_ok_def)
    moreover have "ensure_project_matches db'' project = Inr ()"
      unfolding ensure_project_matches_def prev and_then.simps ensure_exact_match_def
      using ok q(1) same by (subst select_count_one [of pj_scope _ q])
        (simp_all add: boot_ok_def pj_scope_def)
    ultimately have "bootstrap_project_tx db'' tenant project = Inr db''"
      unfolding bootstrap_project_tx_def boot_tenant_row_def [symmetric]
        boot_project_row_def [symmetric] adoptable_def [symmetric] adopted_def [symmetric]
      using valid trev prev tenants projects by simp
    then show ?thesis by (simp add: bootstrap_project_def commit_or_rollback_def)
  qed
qed

theorem bootstrap_idempotent_witness:
  "bootstrap_project ex_tenant ex_project ex_admin1 = (ex_admin1, Inr ())"
proof -
  have "store_reachable ex_decode create_schema_v4" by (simp add: store_reachable_def)
  then show ?thesis
    using bootstrap_idempotent [OF _ ex_admin_runs(1)] ex_admin_steps(2) by blast
qed

end
