(* ===== verification/Rust_Bytes.thy ===== *)
theory Rust_Bytes
  imports Domain_Handoff
begin

text \<open>
  Text as bytes (\<open>String::into_bytes\<close>, \<open>std::str\<close>), the \<open>Debug\<close> names of error codes, and the
  sequencing of fallible operations on a mutable state: \<open>?\<close> inside a function that holds
  \<open>&mut self\<close> keeps the state reached so far.
\<close>

section \<open>Text and bytes\<close>

definition string_bytes :: "string \<Rightarrow> bytes" where
  "string_bytes s = map (\<lambda>c. of_nat (of_char c)) s"

definition bytes_string :: "bytes \<Rightarrow> string" where
  "bytes_string bs = map (\<lambda>b. char_of (unat b)) bs"

lemma char_code_less: "(of_char (c :: char) :: nat) < 256"
  using range_nat_of_char by (metis atLeastLessThan_iff rangeI)

lemma bytes_string_bytes [simp]: "bytes_string (string_bytes s) = s"
  by (induction s) (simp_all add: bytes_string_def string_bytes_def unat_of_nat char_code_less)

lemma string_bytes_inject [simp]: "string_bytes a = string_bytes b \<longleftrightarrow> a = b"
  by (metis bytes_string_bytes)

section \<open>Error codes in messages\<close>

fun error_code_debug :: "error_code \<Rightarrow> string" where
  "error_code_debug CodeInvalidIdentifier = ''InvalidIdentifier''"
| "error_code_debug CodeIdentityMismatch = ''IdentityMismatch''"
| "error_code_debug CodeAuthenticationFailed = ''AuthenticationFailed''"
| "error_code_debug CodeProjectUnauthorized = ''ProjectUnauthorized''"
| "error_code_debug CodeProjectScopeMismatch = ''ProjectScopeMismatch''"
| "error_code_debug CodeCommandConflict = ''CommandConflict''"
| "error_code_debug CodeHandoffActorMismatch = ''HandoffActorMismatch''"
| "error_code_debug CodeHandoffConflict = ''HandoffConflict''"
| "error_code_debug CodeStaleRevision = ''StaleRevision''"
| "error_code_debug CodeResourceNotFound = ''ResourceNotFound''"
| "error_code_debug CodeResourceAlreadyExists = ''ResourceAlreadyExists''"
| "error_code_debug CodeCursorEpochMismatch = ''CursorEpochMismatch''"
| "error_code_debug CodeCursorOutOfRange = ''CursorOutOfRange''"
| "error_code_debug CodeInvalidChangeBatch = ''InvalidChangeBatch''"
| "error_code_debug CodeSnapshotRequired = ''SnapshotRequired''"
| "error_code_debug CodeSnapshotTooLarge = ''SnapshotTooLarge''"
| "error_code_debug CodeInvalidArtifactPath = ''InvalidArtifactPath''"
| "error_code_debug CodeInvalidArtifactReference = ''InvalidArtifactReference''"
| "error_code_debug CodeConformanceViolation = ''ConformanceViolation''"
| "error_code_debug CodeInvalidCommand = ''InvalidCommand''"
| "error_code_debug CodeStorageFailure = ''StorageFailure''"

section \<open>Fallible operations on a state\<close>

text \<open>\<open>try_do (op s) f\<close> runs \<open>f\<close> on the new state and value; \<open>try_ok s r f\<close> leaves the state alone.\<close>

definition try_do :: "'st \<times> ('e + 'a) \<Rightarrow> ('st \<Rightarrow> 'a \<Rightarrow> 'st \<times> ('e + 'b)) \<Rightarrow> 'st \<times> ('e + 'b)" where
  "try_do p f = (case snd p of Inl e \<Rightarrow> (fst p, Inl e) | Inr x \<Rightarrow> f (fst p) x)"

definition try_ok :: "'st \<Rightarrow> 'e + 'a \<Rightarrow> ('a \<Rightarrow> 'st \<times> ('e + 'b)) \<Rightarrow> 'st \<times> ('e + 'b)" where
  "try_ok s r f = (case r of Inl e \<Rightarrow> (s, Inl e) | Inr x \<Rightarrow> f x)"

lemma try_ok_simps [simp]:
  "try_ok s (Inl e) f = (s, Inl e)" "try_ok s (Inr x) f = f x"
  by (simp_all add: try_ok_def)

lemma try_do_simps [simp]:
  "try_do (s, Inl e) f = (s, Inl e)" "try_do (s, Inr x) f = f s x"
  by (simp_all add: try_do_def)

lemma try_ok_result: "snd (try_ok s r f) = and_then r (\<lambda>x. snd (f x))"
  by (cases r) simp_all

lemma try_ok_Inr [result_iffs]:
  "try_ok s r f = (s', Inr y) \<longleftrightarrow> (\<exists>x. r = Inr x \<and> f x = (s', Inr y))"
  by (cases r) auto

lemma try_do_Inr [result_iffs]:
  "try_do p f = (s', Inr y) \<longleftrightarrow> (\<exists>t x. p = (t, Inr x) \<and> f t x = (s', Inr y))"
  by (cases p; cases "snd p") auto

end
