(* ===== verification/Command_Contract.thy ===== *)
theory Command_Contract
  imports Rust_Bytes Store_Admin Mailbox_Refinement
begin

text \<open>
  The traits of \<open>aidememo-domain/src/storage.rs\<close> as dictionaries of operations, their contract as
  locales over the abstract ledger, and the SQLite store as an instance of it.
\<close>

section \<open>The traits\<close>

text \<open>
  \<open>CommandStore\<close> and \<open>HandoffStore: CommandStore\<close>. A value of the implementing type is a state
  \<open>'st\<close>; \<open>execute\<close> takes \<open>&mut self\<close> and returns the new one.
\<close>

record 'st command_store =
  cs_execute :: "mutation_command \<Rightarrow> 'st \<Rightarrow> 'st \<times> command_receipt domain_result"
  cs_receipt :: "'st \<Rightarrow> project_scope \<Rightarrow> command_id \<Rightarrow> command_receipt option domain_result"
  cs_changes :: "'st \<Rightarrow> project_scope \<Rightarrow> change_cursor \<Rightarrow> nat \<Rightarrow> change_batch domain_result"
  cs_materialized_changes ::
    "'st \<Rightarrow> project_scope \<Rightarrow> change_cursor \<Rightarrow> nat \<Rightarrow> materialized_batch domain_result"
  cs_snapshot :: "'st \<Rightarrow> project_scope \<Rightarrow> project_snapshot domain_result"
  cs_resource :: "'st \<Rightarrow> project_scope \<Rightarrow> resource_ref \<Rightarrow> canonical_resource option domain_result"

record 'st handoff_store = "'st command_store" +
  hs_handoffs :: "'st \<Rightarrow> project_scope \<Rightarrow> actor_id \<Rightarrow> handoff_query \<Rightarrow> handoff_page domain_result"

text \<open>\<open>ServerIdentityStore\<close>, its provided method \<open>membership\<close>, and \<open>ServerCanonicalStore\<close>.\<close>

record 'st identity_store =
  id_schema_version :: "'st \<Rightarrow> nat domain_result"
  id_project_epoch :: "'st \<Rightarrow> project_scope \<Rightarrow> project_epoch option domain_result"
  id_bootstrap_project :: "tenant_record \<Rightarrow> project_record \<Rightarrow> 'st \<Rightarrow> 'st \<times> unit domain_result"
  id_provision_actor ::
    "actor_record \<Rightarrow> project_membership \<Rightarrow> bytes \<Rightarrow> i64 \<Rightarrow> 'st \<Rightarrow> 'st \<times> unit domain_result"
  id_authenticate_token :: "'st \<Rightarrow> bytes \<Rightarrow> authenticated_actor option domain_result"
  id_project_membership ::
    "'st \<Rightarrow> project_scope \<Rightarrow> actor_id \<Rightarrow> project_membership option domain_result"

definition id_membership ::
  "('st, 'x) identity_store_scheme \<Rightarrow> 'st \<Rightarrow> authenticated_actor \<Rightarrow> project_id
    \<Rightarrow> project_membership option domain_result" where
  "id_membership ids s auth pid =
     id_project_membership ids s (scope_new (aa_tenant_id auth) pid) (aa_actor_id auth)"

record 'st canonical_store = "'st handoff_store" +
  sc_identity :: "'st identity_store"

section \<open>The contract\<close>

text \<open>
  \<open>rep s L\<close>: the state \<open>s\<close> holds the ledger \<open>L\<close>. \<open>clock s\<close> is the reading of the system clock the
  next \<open>execute\<close> sees, in milliseconds since the epoch.
\<close>

locale ledger_store =
  fixes store :: "('st, 'x) command_store_scheme"
    and dec :: "bytes \<Rightarrow> handoff_record option"
    and rep :: "'st \<Rightarrow> ledger \<Rightarrow> bool"
    and clock :: "'st \<Rightarrow> int"
  assumes rep_ok: "rep s L \<Longrightarrow> ledger_ok dec L"
    and execute_result: "rep s L \<Longrightarrow> command_ok c \<Longrightarrow>
      int (length (log_of L (command_scope c))) < i64_max \<Longrightarrow>
      snd (cs_execute store c s) = snd (ledger_execute dec (clock s) c L)"
    and execute_state: "rep s L \<Longrightarrow> command_ok c \<Longrightarrow>
      int (length (log_of L (command_scope c))) < i64_max \<Longrightarrow>
      rep (fst (cs_execute store c s)) (fst (ledger_execute dec (clock s) c L))"
    and receipt_read: "rep s L \<Longrightarrow> cs_receipt store s scope cid = Inr (ledger_receipt L scope cid)"
    and changes_read: "rep s L \<Longrightarrow>
      cs_changes store s scope cursor limit = ledger_changes L scope cursor limit"
    and materialized_read: "rep s L \<Longrightarrow>
      cs_materialized_changes store s scope cursor limit = ledger_materialized L scope cursor limit"
    and snapshot_read: "rep s L \<Longrightarrow> cs_snapshot store s scope = ledger_snapshot L scope"
    and resource_read: "rep s L \<Longrightarrow> cs_resource store s scope ref = Inr (ledger_resource L scope ref)"
begin

lemma execute_step:
  assumes "rep s L" "command_ok c" "int (length (log_of L (command_scope c))) < i64_max"
    and "ledger_execute dec (clock s) c L = (L', r)"
  obtains s' where "cs_execute store c s = (s', r)" "rep s' L'"
  using that execute_result [OF assms(1-3)] execute_state [OF assms(1-3)] assms(4)
  by (metis fst_conv snd_conv surjective_pairing)

lemma execute_outcome:
  assumes "rep s L" "command_ok c" "int (length (log_of L (command_scope c))) < i64_max"
    and "cs_execute store c s = (s', r)"
  obtains L' where "ledger_execute dec (clock s) c L = (L', r)" "rep s' L'" "ledger_extends L L'"
  using that execute_result [OF assms(1-3)] execute_state [OF assms(1-3)] assms(4)
    ledger_execute_extends
  by (metis fst_conv snd_conv surjective_pairing)

end

locale mailbox_store = ledger_store store dec rep clock
  for store :: "('st, 'x) handoff_store_scheme"
    and dec :: "bytes \<Rightarrow> handoff_record option"
    and rep :: "'st \<Rightarrow> ledger \<Rightarrow> bool" and clock :: "'st \<Rightarrow> int" +
  assumes handoffs_read: "rep s L \<Longrightarrow>
      hs_handoffs store s scope actor query = ledger_handoffs dec L scope actor query"

text \<open>A store whose system clock stays inside the range of \<open>i64\<close> milliseconds after the epoch.\<close>

locale timed_store = ledger_store +
  assumes clock_valid: "rep s L \<Longrightarrow> unix_time_ms (clock s) = Inr (clock s)"

section \<open>The SQLite store\<close>

text \<open>
  The database together with its environment: call number \<open>n\<close> of \<open>execute\<close> reads the time
  \<open>se_clock n\<close>.
\<close>

record sqlite_env =
  se_db :: store_db
  se_clock :: "nat \<Rightarrow> int"
  se_calls :: nat

definition env_now :: "sqlite_env \<Rightarrow> int" where
  "env_now s = se_clock s (se_calls s)"

definition env_execute ::
  "(bytes \<Rightarrow> handoff_record option) \<Rightarrow> mutation_command \<Rightarrow> sqlite_env
    \<Rightarrow> sqlite_env \<times> command_receipt domain_result" where
  "env_execute dec c s =
     (case execute dec (env_now s) c (se_db s) of
        (db, r) \<Rightarrow> (s\<lparr>se_db := db, se_calls := Suc (se_calls s)\<rparr>, r))"

text \<open>An administrative operation on the database inside its environment.\<close>

definition on_db :: "(store_db \<Rightarrow> store_db \<times> 'a) \<Rightarrow> sqlite_env \<Rightarrow> sqlite_env \<times> 'a" where
  "on_db f s = (case f (se_db s) of (db, r) \<Rightarrow> (s\<lparr>se_db := db\<rparr>, r))"

definition sqlite_identity_store :: "sqlite_env identity_store" where
  "sqlite_identity_store =
     \<lparr>id_schema_version = (\<lambda>s. schema_version (se_db s)),
      id_project_epoch = (\<lambda>s. project_epoch_of (se_db s)),
      id_bootstrap_project = (\<lambda>tenant project. on_db (bootstrap_project tenant project)),
      id_provision_actor = (\<lambda>actor m token now. on_db (provision_actor actor m token now)),
      id_authenticate_token = (\<lambda>s. authenticate_token (se_db s)),
      id_project_membership = (\<lambda>s. project_membership_of (se_db s))\<rparr>"

definition sqlite_store :: "(bytes \<Rightarrow> handoff_record option) \<Rightarrow> sqlite_env canonical_store" where
  "sqlite_store dec =
     \<lparr>cs_execute = env_execute dec,
      cs_receipt = (\<lambda>s. receipt (se_db s)),
      cs_changes = (\<lambda>s. changes (se_db s)),
      cs_materialized_changes = (\<lambda>s. materialized_changes (se_db s)),
      cs_snapshot = (\<lambda>s. snapshot (se_db s)),
      cs_resource = (\<lambda>s. resource (se_db s)),
      hs_handoffs = (\<lambda>s. handoffs dec (se_db s)),
      sc_identity = sqlite_identity_store\<rparr>"

definition sqlite_rep :: "(bytes \<Rightarrow> handoff_record option) \<Rightarrow> sqlite_env \<Rightarrow> ledger \<Rightarrow> bool" where
  "sqlite_rep dec s L \<longleftrightarrow> store_rel dec (se_db s) L"

lemma sqlite_store_simps [simp]:
  "cs_execute (sqlite_store dec) = env_execute dec"
  "cs_receipt (sqlite_store dec) s = receipt (se_db s)"
  "cs_changes (sqlite_store dec) s = changes (se_db s)"
  "cs_materialized_changes (sqlite_store dec) s = materialized_changes (se_db s)"
  "cs_snapshot (sqlite_store dec) s = snapshot (se_db s)"
  "cs_resource (sqlite_store dec) s = resource (se_db s)"
  "hs_handoffs (sqlite_store dec) s = handoffs dec (se_db s)"
  "sc_identity (sqlite_store dec) = sqlite_identity_store"
  by (simp_all add: sqlite_store_def)

lemma sqlite_identity_simps [simp]:
  "id_project_epoch sqlite_identity_store s = project_epoch_of (se_db s)"
  "id_bootstrap_project sqlite_identity_store tenant project = on_db (bootstrap_project tenant project)"
  "id_provision_actor sqlite_identity_store actor m token now =
     on_db (provision_actor actor m token now)"
  "id_authenticate_token sqlite_identity_store s = authenticate_token (se_db s)"
  "id_project_membership sqlite_identity_store s = project_membership_of (se_db s)"
  by (simp_all add: sqlite_identity_store_def)

lemma env_execute_simps [simp]:
  "snd (env_execute dec c s) = snd (execute dec (env_now s) c (se_db s))"
  "se_db (fst (env_execute dec c s)) = fst (execute dec (env_now s) c (se_db s))"
  by (simp_all add: env_execute_def split: prod.splits)

lemma sqlite_execute:
  assumes "sqlite_rep dec s L" "command_ok c" "int (length (log_of L (command_scope c))) < i64_max"
  shows "snd (env_execute dec c s) = snd (ledger_execute dec (env_now s) c L)"
    and "sqlite_rep dec (fst (env_execute dec c s)) (fst (ledger_execute dec (env_now s) c L))"
  using execute_refines [OF _ assms(2,3), of dec "se_db s" "env_now s"] assms(1)
  by (auto simp: sqlite_rep_def)

interpretation sqlite: mailbox_store "sqlite_store dec" dec "sqlite_rep dec" env_now
  for dec
proof (unfold_locales, goal_cases)
  case 1
  then show ?case by (simp add: sqlite_rep_def store_rel_def)
next
  case 2
  then show ?case unfolding sqlite_store_simps by (rule sqlite_execute(1))
next
  case 3
  then show ?case unfolding sqlite_store_simps by (rule sqlite_execute(2))
qed (simp_all add: sqlite_rep_def receipt_rel changes_rel materialized_changes_rel snapshot_rel
    resource_rel handoffs_rel)

definition timed_rep :: "(bytes \<Rightarrow> handoff_record option) \<Rightarrow> sqlite_env \<Rightarrow> ledger \<Rightarrow> bool" where
  "timed_rep dec s L \<longleftrightarrow> sqlite_rep dec s L \<and> (\<forall>n. 0 \<le> se_clock s n \<and> se_clock s n \<le> i64_max)"

lemma env_execute_clock [simp]: "se_clock (fst (env_execute dec c s)) = se_clock s"
  by (simp add: env_execute_def split: prod.splits)

interpretation sqlite_timed: timed_store "sqlite_store dec" dec "timed_rep dec" env_now
  for dec
proof (unfold_locales, goal_cases)
  case (1 s L)
  then show ?case using sqlite.rep_ok [of dec s L] by (simp add: timed_rep_def)
next
  case 2
  then show ?case by (intro sqlite.execute_result) (simp_all add: timed_rep_def)
next
  case (3 s L c)
  then show ?case using sqlite.execute_state [of dec s L c] by (simp add: timed_rep_def)
next
  case (9 s L)
  then show ?case by (simp add: timed_rep_def env_now_def unix_time_ms_def not_less)
qed (auto simp: timed_rep_def sqlite_rep_def intro: receipt_rel changes_rel materialized_changes_rel
    snapshot_rel resource_rel)

end
