(* ===== verification/Conformance.thy ===== *)
theory Conformance
  imports Command_Contract
begin

text \<open>
  The portable conformance suite of \<open>aidememo-domain/src/conformance.rs\<close>: fixtures, checks and the
  whole \<open>run\<close>, over any dictionary of \<open>CommandStore\<close> operations. Every store that meets the
  ledger contract passes it, the SQLite store included.
\<close>

section \<open>Checks and fixtures\<close>

record conformance_report =
  cf_checks :: "string list"
  cf_final_sequence :: project_sequence
  cf_tombstone_revision :: revision

definition violation :: "string \<Rightarrow> string \<Rightarrow> domain_error" where
  "violation name detail = ConformanceViolation name detail"

definition conf_check :: "bool \<Rightarrow> string \<Rightarrow> string \<Rightarrow> unit domain_result" where
  "conf_check condition name detail = (if condition then Inr () else Inl (violation name detail))"

definition check_error_code ::
  "'a domain_result \<Rightarrow> error_code \<Rightarrow> string \<Rightarrow> unit domain_result" where
  "check_error_code result expected name =
     (case result of
        Inl e \<Rightarrow>
          if error_code_of e = expected then Inr ()
          else Inl (violation name (''expected '' @ error_code_debug expected @ '', observed '' @
            error_code_debug (error_code_of e)))
      | Inr _ \<Rightarrow> Inl (violation name
          (''expected '' @ error_code_debug expected @ '', observed success'')))"

definition fixture_authorization_for :: "string \<Rightarrow> project_authorization domain_result" where
  "fixture_authorization_for actor =
     and_then (id_try_from ''tenant_id'' ''tenant_fixture'') (\<lambda>tenant.
     and_then (id_try_from ''actor_id'' actor) (\<lambda>actor_id.
     and_then (id_try_from ''project_id'' ''project_fixture'') (\<lambda>project.
       authorization_authorize
         \<lparr>aa_tenant_id = tenant, aa_actor_id = actor_id\<rparr>
         \<lparr>pm_tenant_id = tenant, pm_project_id = project, pm_actor_id = actor_id,
          pm_role = Writer, pm_status = MembershipActive\<rparr>)))"

definition fixture_authorization :: "project_authorization domain_result" where
  "fixture_authorization = fixture_authorization_for ''actor_fixture''"

definition conf_fingerprint :: "char \<Rightarrow> command_fingerprint domain_result" where
  "conf_fingerprint byte = fingerprint_try_from (replicate 64 byte)"

definition fixture_body :: "char \<Rightarrow> bytes" where
  "fixture_body byte = string_bytes
     ([CHR ''{'', CHR 0x22] @ ''fixture'' @ [CHR 0x22, CHR '':'', CHR 0x22, byte, CHR 0x22, CHR ''}''])"

definition fixture_command ::
  "project_authorization \<Rightarrow> string \<Rightarrow> revision option \<Rightarrow> string \<Rightarrow> char \<Rightarrow> resource_ref
    \<Rightarrow> change_operation \<Rightarrow> mutation_command domain_result" where
  "fixture_command authorization cid expected op byte ref ch =
     and_then (id_try_from ''command_id'' cid) (\<lambda>command_id.
     and_then (name_try_from ''operation name'' op) (\<lambda>operation.
     and_then (command_authorize authorization
       \<lparr>en_command_id = command_id, en_project_id = pz_project_id authorization,
        en_expected_revision = expected, en_operation = operation, en_payload = ()\<rparr>) (\<lambda>command.
     and_then (conf_fingerprint byte) (\<lambda>fingerprint.
       Inr \<lparr>mc_command = command, mc_fingerprint = fingerprint, mc_resource = ref, mc_change = ch,
            mc_resource_body =
              (case ch of Upsert \<Rightarrow> Some (fixture_body byte) | Delete \<Rightarrow> None)\<rparr>))))"

text \<open>The \<open>matches!\<close> patterns on an optional canonical resource.\<close>

fun present_with :: "bytes \<Rightarrow> resource_state \<Rightarrow> bool" where
  "present_with b (Present body) \<longleftrightarrow> body = b"
| "present_with b Deleted \<longleftrightarrow> False"

fun is_deleted :: "resource_state \<Rightarrow> bool" where
  "is_deleted (Present body) \<longleftrightarrow> False"
| "is_deleted Deleted \<longleftrightarrow> True"

definition state_matches :: "(resource_state \<Rightarrow> bool) \<Rightarrow> canonical_resource option \<Rightarrow> bool" where
  "state_matches p x = (case x of None \<Rightarrow> False | Some r \<Rightarrow> p (cr_state r))"

definition conformance_checks :: "string list" where
  "conformance_checks = [''initial_commit'', ''canonical_resource_upsert'', ''idempotent_replay'',
     ''receipt_lookup'', ''command_actor_conflict'', ''command_id_conflict'', ''stale_revision'',
     ''compare_and_swap'', ''single_mutation_per_command'', ''delete_tombstone'',
     ''canonical_resource_tombstone'', ''revision_pinned_change_materialization'',
     ''atomic_project_snapshot'', ''cursor_epoch_fail_closed'', ''cursor_sequence_fail_closed'']"

section \<open>The run\<close>

text \<open>The reading half of \<open>run\<close>, after the three committed mutations.\<close>

definition conformance_reads ::
  "('st, 'x) command_store_scheme \<Rightarrow> project_epoch \<Rightarrow> command_receipt \<Rightarrow> 'st
    \<Rightarrow> conformance_report domain_result" where
  "conformance_reads store epoch deleted s =
     (let cursor = \<lparr>cu_project_epoch = epoch, cu_after_seq = 0\<rparr> in
     and_then (id_try_from ''tenant_id'' ''tenant_fixture'') (\<lambda>tenant.
     and_then (id_try_from ''project_id'' ''project_fixture'') (\<lambda>project.
     let scope = scope_new tenant project in
     and_then (cs_changes store s scope cursor 100) (\<lambda>batch.
     and_then (conf_check (length (cb_entries batch) = 3) ''single_mutation_per_command''
       ''create retry, command conflict, and stale CAS must not append changes'') (\<lambda>_.
     and_then (ok_or (violation ''delete_tombstone''
         ''change feed did not contain the deletion entry'')
       (if cb_entries batch = [] then None else Some (last (cb_entries batch)))) (\<lambda>final.
     and_then (conf_check (ce_operation final = Delete \<and> ce_seq final = cp_project_seq deleted \<and>
         ce_revision final = cp_revision deleted) ''delete_tombstone''
       ''last change must be a deletion tombstone with the committed receipt coordinates'') (\<lambda>_.
     and_then (cs_resource store s scope (cp_resource deleted)) (\<lambda>deleted_resource.
     and_then (conf_check (state_matches is_deleted deleted_resource)
       ''canonical_resource_tombstone''
       ''delete must retain a body-free canonical tombstone'') (\<lambda>_.
     and_then (cs_materialized_changes store s scope cursor 100) (\<lambda>materialized.
     let es = map mz_resource (mb_entries materialized) in
     and_then (conf_check (length es = 3 \<and>
         cr_revision (es ! 0) = 1 \<and> present_with (fixture_body (CHR ''a'')) (cr_state (es ! 0)) \<and>
         cr_revision (es ! 1) = 2 \<and> present_with (fixture_body (CHR ''d'')) (cr_state (es ! 1)) \<and>
         is_deleted (cr_state (es ! 2))) ''revision_pinned_change_materialization''
       ''every change must carry the exact body or tombstone committed at its revision'') (\<lambda>_.
     and_then (cs_snapshot store s scope) (\<lambda>snap.
     and_then (conf_check (sn_project_epoch snap = cu_project_epoch cursor \<and>
         sn_at_seq snap = cp_project_seq deleted \<and> length (sn_resources snap) = 1 \<and>
         is_deleted (cr_state (sn_resources snap ! 0))) ''atomic_project_snapshot''
       ''snapshot must pair complete current state with the represented project head'') (\<lambda>_.
     and_then (id_try_from ''project_epoch'' ''epoch_replaced'') (\<lambda>wrong.
     and_then (check_error_code (cs_changes store s scope
         \<lparr>cu_project_epoch = wrong, cu_after_seq = 0\<rparr> 100)
       CodeCursorEpochMismatch ''cursor_epoch_fail_closed'') (\<lambda>_.
     and_then (check_error_code (cs_changes store s scope
         \<lparr>cu_project_epoch = epoch, cu_after_seq = cp_project_seq deleted + 1\<rparr> 100)
       CodeCursorOutOfRange ''cursor_sequence_fail_closed'') (\<lambda>_.
       Inr \<lparr>cf_checks = conformance_checks, cf_final_sequence = cp_project_seq deleted,
            cf_tombstone_revision = cp_revision deleted\<rparr>))))))))))))))))"

text \<open>The writing half: create, retries and conflicts, a stale and a matching precondition, delete.\<close>

definition conformance_run ::
  "('st, 'x) command_store_scheme \<Rightarrow> project_epoch \<Rightarrow> 'st
    \<Rightarrow> 'st \<times> conformance_report domain_result" where
  "conformance_run store epoch s =
     try_ok s fixture_authorization (\<lambda>authorization.
     try_ok s (name_try_from ''resource kind'' ''fact'') (\<lambda>kind.
     try_ok s (id_try_from ''resource_id'' ''fact_fixture'') (\<lambda>rid.
     let ref = \<lparr>rf_kind = kind, rf_id = rid\<rparr> in
     try_ok s (fixture_command authorization ''command_create'' None ''fact.add'' (CHR ''a'') ref
       Upsert) (\<lambda>create.
     try_do (cs_execute store create s) (\<lambda>s created.
     try_ok s (conf_check (cp_project_seq created = 1 \<and> cp_revision created = 1)
       ''initial_commit'' ''first mutation must commit sequence 1 and revision 1'') (\<lambda>_.
     try_ok s (cs_resource store s (receipt_scope created) (cp_resource created)) (\<lambda>res.
     try_ok s (conf_check (state_matches (present_with (fixture_body (CHR ''a''))) res)
       ''canonical_resource_upsert'' ''upsert must materialize the canonical resource body'') (\<lambda>_.
     try_do (cs_execute store create s) (\<lambda>s replayed.
     try_ok s (conf_check (replayed = created) ''idempotent_replay''
       ''identical command retry must return the exact stored receipt'') (\<lambda>_.
     try_ok s (cs_receipt store s (receipt_scope created) (cp_command_id created)) (\<lambda>looked_up.
     try_ok s (conf_check (looked_up = Some created) ''receipt_lookup''
       ''receipt lookup must return the exact committed result'') (\<lambda>_.
     try_ok s (fixture_authorization_for ''actor_other'') (\<lambda>other.
     try_ok s (fixture_command other ''command_create'' None ''fact.add'' (CHR ''a'')
       (mc_resource create) Upsert) (\<lambda>actor_conflict.
     let (s, r) = cs_execute store actor_conflict s in
     try_ok s (check_error_code r CodeCommandConflict ''command_actor_conflict'') (\<lambda>_.
     try_ok s (conf_fingerprint (CHR ''b'')) (\<lambda>fingerprint.
     let (s, r) = cs_execute store (create\<lparr>mc_fingerprint := fingerprint\<rparr>) s in
     try_ok s (check_error_code r CodeCommandConflict ''command_id_conflict'') (\<lambda>_.
     try_ok s (revision_new 2) (\<lambda>two.
     try_ok s (fixture_command authorization ''command_stale'' (Some two) ''fact.edit'' (CHR ''c'') ref
       Upsert) (\<lambda>stale.
     let (s, r) = cs_execute store stale s in
     try_ok s (check_error_code r CodeStaleRevision ''stale_revision'') (\<lambda>_.
     try_ok s (fixture_command authorization ''command_update'' (Some (cp_revision created))
       ''fact.edit'' (CHR ''d'') ref Upsert) (\<lambda>update.
     try_do (cs_execute store update s) (\<lambda>s updated.
     try_ok s (conf_check (cp_project_seq updated = 2 \<and> cp_revision updated = 2)
       ''compare_and_swap''
       ''matching revision must advance project sequence and resource revision once'') (\<lambda>_.
     try_ok s (fixture_command authorization ''command_delete'' (Some (cp_revision updated))
       ''fact.delete'' (CHR ''e'') ref Delete) (\<lambda>delete.
     try_do (cs_execute store delete s) (\<lambda>s deleted.
       (s, conformance_reads store epoch deleted s))))))))))))))))))))))))))"

end
