(* ===== verification/Conformance_Passes.thy ===== *)
theory Conformance_Passes
  imports Conformance Store_Examples
begin

text \<open>
  Every implementation of the ledger contract passes the conformance suite, so the SQLite store
  does on any database whose fixture project is registered and empty.
\<close>

section \<open>The commands of the suite\<close>

definition conf_scope :: project_scope where
  "conf_scope = scope_new ''tenant_fixture'' ''project_fixture''"

definition conf_ref :: resource_ref where
  "conf_ref = \<lparr>rf_kind = ''fact'', rf_id = ''fact_fixture''\<rparr>"

definition conf_authorization :: "string \<Rightarrow> project_authorization" where
  "conf_authorization actor = \<lparr>pz_tenant_id = ''tenant_fixture'', pz_project_id = ''project_fixture'',
     pz_actor_id = actor, pz_role = Writer\<rparr>"

definition conf_command ::
  "string \<Rightarrow> string \<Rightarrow> revision option \<Rightarrow> string \<Rightarrow> char \<Rightarrow> change_operation \<Rightarrow> mutation_command" where
  "conf_command actor cid expected op byte ch =
     \<lparr>mc_command = \<lparr>ac_authorization = conf_authorization actor, ac_envelope =
        \<lparr>en_command_id = cid, en_project_id = ''project_fixture'', en_expected_revision = expected,
         en_operation = op, en_payload = ()\<rparr>\<rparr>,
      mc_fingerprint = replicate 64 byte, mc_resource = conf_ref, mc_change = ch,
      mc_resource_body = (case ch of Upsert \<Rightarrow> Some (fixture_body byte) | Delete \<Rightarrow> None)\<rparr>"

definition conf_create :: mutation_command where
  "conf_create = conf_command ''actor_fixture'' ''command_create'' None ''fact.add'' (CHR ''a'') Upsert"
definition conf_conflict :: mutation_command where
  "conf_conflict = conf_command ''actor_other'' ''command_create'' None ''fact.add'' (CHR ''a'') Upsert"
definition conf_stale :: mutation_command where
  "conf_stale = conf_command ''actor_fixture'' ''command_stale'' (Some 2) ''fact.edit'' (CHR ''c'') Upsert"
definition conf_update :: mutation_command where
  "conf_update = conf_command ''actor_fixture'' ''command_update'' (Some 1) ''fact.edit'' (CHR ''d'') Upsert"
definition conf_delete :: mutation_command where
  "conf_delete = conf_command ''actor_fixture'' ''command_delete'' (Some 2) ''fact.delete'' (CHR ''e'') Delete"

lemmas conf_defs = conf_create_def conf_conflict_def conf_stale_def conf_update_def conf_delete_def
  conf_command_def conf_authorization_def conf_ref_def conf_scope_def

lemma fixture_values:
  "fixture_authorization = Inr (conf_authorization ''actor_fixture'')"
  "fixture_authorization_for ''actor_other'' = Inr (conf_authorization ''actor_other'')"
  "name_try_from ''resource kind'' ''fact'' = Inr ''fact''"
  "id_try_from ''resource_id'' ''fact_fixture'' = Inr ''fact_fixture''"
  "conf_fingerprint (CHR ''b'') = Inr (replicate 64 (CHR ''b''))"
  "revision_new 2 = Inr 2"
  "id_try_from ''tenant_id'' ''tenant_fixture'' = Inr ''tenant_fixture''"
  "id_try_from ''project_id'' ''project_fixture'' = Inr ''project_fixture''"
  "id_try_from ''project_epoch'' ''epoch_replaced'' = Inr ''epoch_replaced''"
  by code_simp+

lemma fixture_commands:
  "fixture_command (conf_authorization ''actor_fixture'') ''command_create'' None ''fact.add''
     (CHR ''a'') conf_ref Upsert = Inr conf_create"
  "fixture_command (conf_authorization ''actor_other'') ''command_create'' None ''fact.add''
     (CHR ''a'') conf_ref Upsert = Inr conf_conflict"
  "fixture_command (conf_authorization ''actor_fixture'') ''command_stale'' (Some 2) ''fact.edit''
     (CHR ''c'') conf_ref Upsert = Inr conf_stale"
  "fixture_command (conf_authorization ''actor_fixture'') ''command_update'' (Some 1) ''fact.edit''
     (CHR ''d'') conf_ref Upsert = Inr conf_update"
  "fixture_command (conf_authorization ''actor_fixture'') ''command_delete'' (Some 2) ''fact.delete''
     (CHR ''e'') conf_ref Delete = Inr conf_delete"
  by code_simp+

abbreviation conf_forged :: mutation_command where
  "conf_forged \<equiv> conf_create\<lparr>mc_fingerprint := replicate 64 (CHR ''b'')\<rparr>"

lemma conf_commands_ok:
  "command_ok conf_create" "command_ok conf_conflict" "command_ok conf_forged"
  "command_ok conf_stale" "command_ok conf_update" "command_ok conf_delete"
  by code_simp+

lemma conf_scopes [simp]:
  "command_scope conf_create = conf_scope" "command_scope conf_conflict = conf_scope"
  "command_scope conf_forged = conf_scope" "command_scope conf_stale = conf_scope"
  "command_scope conf_update = conf_scope" "command_scope conf_delete = conf_scope"
  by code_simp+

section \<open>Their effect on the ledger\<close>

definition conf_entry ::
  "string \<Rightarrow> char \<Rightarrow> project_sequence \<Rightarrow> revision \<Rightarrow> string \<Rightarrow> change_operation \<Rightarrow> i64 \<Rightarrow> log_entry" where
  "conf_entry cid byte seq rv op ch now =
     \<lparr>le_receipt = \<lparr>cp_command_id = cid, cp_fingerprint = replicate 64 byte,
        cp_tenant_id = ''tenant_fixture'', cp_project_id = ''project_fixture'',
        cp_actor_id = ''actor_fixture'', cp_project_seq = seq, cp_resource = conf_ref,
        cp_revision = rv, cp_committed_at_ms = now\<rparr>,
      le_operation = op, le_change = ch,
      le_body = (case ch of Upsert \<Rightarrow> Some (fixture_body byte) | Delete \<Rightarrow> None)\<rparr>"

definition conf_log :: "i64 \<Rightarrow> i64 \<Rightarrow> i64 \<Rightarrow> log_entry list" where
  "conf_log t1 t2 t3 =
     [conf_entry ''command_create'' (CHR ''a'') 1 1 ''fact.add'' Upsert t1,
      conf_entry ''command_update'' (CHR ''d'') 2 2 ''fact.edit'' Upsert t2,
      conf_entry ''command_delete'' (CHR ''e'') 3 3 ''fact.delete'' Delete t3]"

lemma conf_log_simps [simp]:
  "length (conf_log t1 t2 t3) = 3"
  "take (Suc 0) (conf_log t1 t2 t3) =
     [conf_entry ''command_create'' (CHR ''a'') 1 1 ''fact.add'' Upsert t1]"
  by (simp_all add: conf_log_def)

lemmas conf_eval = ledger_execute_def Let_def conf_defs conf_entry_def ledger_entry_def
  new_receipt_def check_change_body_def check_handoff_body_def check_expected_revision_def
  current_revision_def last_entry_def find_command_def command_id_of_def command_actor_def
  succ_revision_def le_ref_def command_scope_def authorization_scope_def

lemma conf_run_ledger:
  assumes "unix_time_ms t = Inr t" "L conf_scope = Some (epoch, log)"
  shows "log = [] \<Longrightarrow> ledger_execute dec t conf_create L =
      (L(conf_scope \<mapsto> (epoch, take 1 (conf_log t t2 t3))),
       Inr (le_receipt (conf_log t t2 t3 ! 0)))"
    and "log = take 1 (conf_log t1 t2 t3) \<Longrightarrow> ledger_execute dec t conf_create L =
      (L, Inr (le_receipt (conf_log t1 t2 t3 ! 0)))"
    and "log = take 1 (conf_log t1 t2 t3) \<Longrightarrow> ledger_execute dec t conf_conflict L =
      (L, Inl CommandConflict)"
    and "log = take 1 (conf_log t1 t2 t3) \<Longrightarrow> ledger_execute dec t conf_forged L =
      (L, Inl CommandConflict)"
    and "log = take 1 (conf_log t1 t2 t3) \<Longrightarrow> ledger_execute dec t conf_stale L =
      (L, Inl (StaleRevision 2 1))"
    and "log = take 1 (conf_log t1 t2 t3) \<Longrightarrow> ledger_execute dec t conf_update L =
      (L(conf_scope \<mapsto> (epoch, take 2 (conf_log t1 t t3))),
       Inr (le_receipt (conf_log t1 t t3 ! 1)))"
    and "log = take 2 (conf_log t1 t2 t3) \<Longrightarrow> ledger_execute dec t conf_delete L =
      (L(conf_scope \<mapsto> (epoch, conf_log t1 t2 t)), Inr (le_receipt (conf_log t1 t2 t ! 2)))"
  using assms by (simp_all add: conf_eval conf_log_def)

section \<open>Reading the final ledger\<close>

lemmas read_eval = ledger_changes_def ledger_materialized_def ledger_resource_def
  ledger_receipt_def ledger_snapshot_def feed_window_def feed_next_def feed_has_more_def
  MAX_CHANGE_LIMIT_def MAX_SNAPSHOT_RESOURCES_def entry_resource_def entry_change_def
  entry_materialized_def state_of_def

definition conf_report :: conformance_report where
  "conf_report = \<lparr>cf_checks = conformance_checks, cf_final_sequence = 3, cf_tombstone_revision = 3\<rparr>"

context ledger_store
begin

lemma conformance_reads_pass:
  assumes rep: "rep s L" and L: "L conf_scope = Some (epoch, conf_log t1 t2 t3)"
    and epoch: "epoch \<noteq> ''epoch_replaced''"
  shows "conformance_reads store epoch (le_receipt (conf_log t1 t2 t3 ! 2)) s = Inr conf_report"
proof -
  let ?cursor = "\<lparr>cu_project_epoch = epoch, cu_after_seq = 0 :: 64 word\<rparr>"
  have feed: "ledger_changes L conf_scope ?cursor 100 = Inr \<lparr>cb_scope = conf_scope,
      cb_cursor = ?cursor, cb_entries = map (entry_change conf_scope epoch) (conf_log t1 t2 t3),
      cb_next_cursor = \<lparr>cu_project_epoch = epoch, cu_after_seq = 3\<rparr>, cb_has_more = False\<rparr>"
    and materialized: "ledger_materialized L conf_scope ?cursor 100 = Inr \<lparr>mb_scope = conf_scope,
      mb_cursor = ?cursor, mb_entries = map (entry_materialized conf_scope epoch) (conf_log t1 t2 t3),
      mb_next_cursor = \<lparr>cu_project_epoch = epoch, cu_after_seq = 3\<rparr>, mb_has_more = False\<rparr>"
    using L by (simp_all add: read_eval)
  have res: "ledger_resource L conf_scope conf_ref = Some \<lparr>cr_scope = conf_scope,
      cr_resource = conf_ref, cr_revision = 3, cr_state = Deleted\<rparr>"
    using L by (simp add: ledger_resource_def entry_resource_def last_entry_def conf_log_def
        conf_entry_def le_ref_def state_of_def)
  have snap: "ledger_snapshot L conf_scope = Inr \<lparr>sn_scope = conf_scope, sn_project_epoch = epoch,
      sn_at_seq = 3, sn_resources = [\<lparr>cr_scope = conf_scope, cr_resource = conf_ref, cr_revision = 3,
        cr_state = Deleted\<rparr>]\<rparr>"
  proof -
    have "remdups (map le_ref (conf_log t1 t2 t3)) = [conf_ref]"
      by (simp add: conf_log_def conf_entry_def le_ref_def)
    then show ?thesis
      using L res by (simp add: ledger_snapshot_def MAX_SNAPSHOT_RESOURCES_def)
  qed
  have wrong: "ledger_changes L conf_scope \<lparr>cu_project_epoch = ''epoch_replaced'', cu_after_seq = 0\<rparr> 100
      = Inl (CursorEpochMismatch ''epoch_replaced'' epoch)"
    and future: "ledger_changes L conf_scope \<lparr>cu_project_epoch = epoch, cu_after_seq = 4\<rparr> 100
      = Inl (CursorOutOfRange 4 3)"
    using L epoch by (simp_all add: read_eval)
  show ?thesis
    unfolding conformance_reads_def Let_def fixture_values and_then.simps conf_scope_def [symmetric]
      changes_read [OF rep] resource_read [OF rep] materialized_read [OF rep] snapshot_read [OF rep]
      feed materialized snap wrong
    using future res
    by (simp add: conf_check_def conf_log_def conf_entry_def entry_change_def
        entry_materialized_def entry_resource_def state_of_def state_matches_def check_error_code_def
        conf_report_def le_ref_def)
qed

end

lemma conf_receipts [simp]:
  "cp_project_seq (le_receipt (conf_log t1 t2 t3 ! 0)) = 1"
  "cp_revision (le_receipt (conf_log t1 t2 t3 ! 0)) = 1"
  "receipt_scope (le_receipt (conf_log t1 t2 t3 ! 0)) = conf_scope"
  "cp_resource (le_receipt (conf_log t1 t2 t3 ! 0)) = conf_ref"
  "cp_command_id (le_receipt (conf_log t1 t2 t3 ! 0)) = ''command_create''"
  "cp_project_seq (le_receipt (conf_log t1 t2 t3 ! Suc 0)) = 2"
  "cp_revision (le_receipt (conf_log t1 t2 t3 ! Suc 0)) = 2"
  by (simp_all add: conf_log_def conf_entry_def receipt_scope_def conf_scope_def)

lemma conf_after_create:
  assumes "L conf_scope = Some (epoch, take 1 (conf_log t1 t2 t3))"
  shows "state_matches (present_with (fixture_body (CHR ''a''))) (ledger_resource L conf_scope conf_ref)"
    and "ledger_receipt L conf_scope ''command_create'' = Some (le_receipt (conf_log t1 t2 t3 ! 0))"
  using assms by (simp_all add: read_eval conf_log_def conf_entry_def last_entry_def le_ref_def
      state_matches_def find_command_def)

context timed_store
begin

lemma conf_step:
  assumes "rep s M" "command_ok c" "command_scope c = conf_scope" "M conf_scope = Some (epoch, log)"
    and "length log \<le> 3" "ledger_execute dec (clock s) c M = (M', r)"
  obtains s' where "cs_execute store c s = (s', r)" "rep s' M'"
proof -
  have "int (length (log_of M (command_scope c))) < i64_max"
    using assms(3-5) by (simp add: i64_max_def)
  with that execute_step [OF assms(1,2) _ assms(6)] show thesis by blast
qed

lemma conformance_run_passes:
  assumes rep: "rep s L" and L: "L conf_scope = Some (epoch, [])" and epoch: "epoch \<noteq> ''epoch_replaced''"
  shows "snd (conformance_run store epoch s) = Inr conf_report"
proof -
  have len: "length ([] :: log_entry list) \<le> 3" "length (take n (conf_log a b c)) \<le> 3" for n a b c
    by simp_all
  let ?t = clock
  let ?log = "\<lambda>n. take n (conf_log (?t s) 0 0)"
  let ?r1 = "le_receipt (conf_log (?t s) 0 0 ! 0)"
  let ?L1 = "L(conf_scope \<mapsto> (epoch, ?log 1))"
  have L1: "?L1 conf_scope = Some (epoch, ?log 1)" by simp
  obtain s1 where s1: "cs_execute store conf_create s = (s1, Inr ?r1)" "rep s1 ?L1"
    using conf_step [where M = "L", OF rep conf_commands_ok(1) conf_scopes(1) L len(1)
        conf_run_ledger(1) [where L = "L", OF clock_valid [OF rep] L refl]] by auto
  obtain s2 where s2: "cs_execute store conf_create s1 = (s2, Inr ?r1)" "rep s2 ?L1"
    using conf_step [where M = "?L1", OF s1(2) conf_commands_ok(1) conf_scopes(1) L1 len(2)
        conf_run_ledger(2) [where L = "?L1", OF clock_valid [OF s1(2)] L1 refl]] by auto
  obtain s3 where s3: "cs_execute store conf_conflict s2 = (s3, Inl CommandConflict)" "rep s3 ?L1"
    using conf_step [where M = "?L1", OF s2(2) conf_commands_ok(2) conf_scopes(2) L1 len(2)
        conf_run_ledger(3) [where L = "?L1", OF clock_valid [OF s2(2)] L1 refl]] by auto
  obtain s4 where s4: "cs_execute store conf_forged s3 = (s4, Inl CommandConflict)" "rep s4 ?L1"
    using conf_step [where M = "?L1", OF s3(2) conf_commands_ok(3) conf_scopes(3) L1 len(2)
        conf_run_ledger(4) [where L = "?L1", OF clock_valid [OF s3(2)] L1 refl]] by auto
  obtain s5 where s5: "cs_execute store conf_stale s4 = (s5, Inl (StaleRevision 2 1))" "rep s5 ?L1"
    using conf_step [where M = "?L1", OF s4(2) conf_commands_ok(4) conf_scopes(4) L1 len(2)
        conf_run_ledger(5) [where L = "?L1", OF clock_valid [OF s4(2)] L1 refl]] by auto
  let ?L2 = "?L1(conf_scope \<mapsto> (epoch, take 2 (conf_log (?t s) (?t s5) 0)))"
  let ?r2 = "le_receipt (conf_log (?t s) (?t s5) 0 ! 1)"
  have L2: "?L2 conf_scope = Some (epoch, take 2 (conf_log (?t s) (?t s5) 0))" by simp
  obtain s6 where s6: "cs_execute store conf_update s5 = (s6, Inr ?r2)" "rep s6 ?L2"
    using conf_step [where M = "?L1", OF s5(2) conf_commands_ok(5) conf_scopes(5) L1 len(2)
        conf_run_ledger(6) [where L = "?L1", OF clock_valid [OF s5(2)] L1 refl]] by auto
  let ?log3 = "conf_log (?t s) (?t s5) (?t s6)"
  let ?L3 = "?L2(conf_scope \<mapsto> (epoch, ?log3))"
  obtain s7 where s7: "cs_execute store conf_delete s6 = (s7, Inr (le_receipt (?log3 ! 2)))" "rep s7 ?L3"
    using conf_step [where M = "?L2", OF s6(2) conf_commands_ok(6) conf_scopes(6) L2 len(2)
        conf_run_ledger(7) [where L = "?L2", OF clock_valid [OF s6(2)] L2 refl]] by auto
  have reads: "conformance_reads store epoch (le_receipt (?log3 ! 2)) s7 = Inr conf_report"
    by (rule conformance_reads_pass [where L = "?L3", OF s7(2) _ epoch]) simp
  note at1 = conf_after_create [where L = "?L1", OF L1]
  have "mc_resource conf_create = conf_ref" by (simp add: conf_defs)
  then show ?thesis
    unfolding conformance_run_def Let_def fixture_values try_ok_simps conf_ref_def [symmetric]
      fixture_commands s1(1)
    using at1 s2(1) s3(1) s4(1) s5(1) s6(1) s7(1) reads
    by (simp add: conf_check_def check_error_code_def fixture_commands resource_read [OF s1(2)]
        receipt_read [OF s2(2)])
qed

end

section \<open>Property\<close>

text \<open>
  C13. The SQLite store passes the whole portable conformance suite: on any reachable database whose
  fixture project is registered and still empty, with a working clock, \<open>run\<close> returns the report
  with all fifteen checks, final sequence 3 and tombstone revision 3.
\<close>

theorem sqlite_passes_conformance:
  assumes "store_reachable dec db" "project_epoch_of db conf_scope = Inr (Some epoch)"
    and "audit_count db conf_scope = Inr 0" "epoch \<noteq> ''epoch_replaced''"
    and "\<forall>n. 0 \<le> clk n \<and> clk n \<le> i64_max"
  shows "snd (conformance_run (sqlite_store dec) epoch
      \<lparr>se_db = db, se_clock = clk, se_calls = k\<rparr>) =
    Inr \<lparr>cf_checks = conformance_checks, cf_final_sequence = 3, cf_tombstone_revision = 3\<rparr>"
proof -
  obtain L where L: "store_rel dec db L" using reachable_rel [OF assms(1)] by blast
  then have "ledger_ok dec L" by (simp add: store_rel_def)
  then have short: "int (length (log_of L conf_scope)) \<le> i64_max"
    using ledger_ok_log [of dec L conf_scope] by (simp add: log_ok_def)
  obtain log where log: "L conf_scope = Some (epoch, log)"
    using assms(2) load_project_rel [OF L, of conf_scope]
    by (auto simp: project_epoch_of_def result_iffs)
  have "unat (of_nat (length log) :: u64) = 0"
    using assms(3) audit_count_rel [OF L, of conf_scope] log by simp
  then have "log = []"
    using unat_of_nat_i64 [of "length log"] short log by simp
  with log have empty: "L conf_scope = Some (epoch, [])" by simp
  have "timed_rep dec \<lparr>se_db = db, se_clock = clk, se_calls = k\<rparr> L"
    using L assms(5) by (simp add: timed_rep_def sqlite_rep_def)
  from sqlite_timed.conformance_run_passes [OF this empty assms(4)] show ?thesis
    by (simp add: conf_report_def)
qed

definition conf_db :: store_db where
  "conf_db = fst (initialize_project conf_scope ''e1'' create_schema_v4)"

lemma conf_db_reachable: "store_reachable dec conf_db"
proof -
  have "id_ok ''e1''" by code_simp
  then have "store_step dec create_schema_v4 conf_db"
    by (rule store_step.initialized) (simp add: conf_db_def prod_eq_iff)
  then show ?thesis unfolding store_reachable_def by blast
qed

theorem sqlite_passes_conformance_witness:
  "snd (conformance_run (sqlite_store ex_decode) ''e1''
      \<lparr>se_db = conf_db, se_clock = (\<lambda>n. 1000), se_calls = 0\<rparr>) =
    Inr \<lparr>cf_checks = conformance_checks, cf_final_sequence = 3, cf_tombstone_revision = 3\<rparr>"
proof -
  have "project_epoch_of conf_db conf_scope = Inr (Some ''e1'')" "audit_count conf_db conf_scope = Inr 0"
    by code_simp+
  then show ?thesis
    by (rule sqlite_passes_conformance [OF conf_db_reachable]) (simp_all add: i64_max_def)
qed

end
