(* ===== verification/Identity_Conformance.thy ===== *)
theory Identity_Conformance
  imports Conformance Bootstrap_Properties
begin

text \<open>
  The identity conformance suite of \<open>identity_conformance.rs\<close>, over any dictionary of
  \<open>ServerIdentityStore\<close> operations; the SQLite store passes it.
\<close>

section \<open>Fixtures\<close>

definition fixture_tenant :: "tenant_record domain_result" where
  "fixture_tenant =
     and_then (id_try_from ''tenant_id'' ''tenant_identity_fixture'') (\<lambda>tenant_id.
     and_then (revision_new 1) (\<lambda>r.
       Inr \<lparr>tr_tenant_id = tenant_id, tr_display_name = ''Identity fixture tenant'',
            tr_status = Active, tr_revision = r, tr_created_at_ms = 1000, tr_updated_at_ms = 1000\<rparr>))"

definition fixture_project :: "tenant_record \<Rightarrow> project_record domain_result" where
  "fixture_project tenant =
     and_then (id_try_from ''project_id'' ''project_identity_fixture'') (\<lambda>project_id.
     and_then (id_try_from ''project_epoch'' ''epoch_identity_fixture'') (\<lambda>epoch.
     and_then (revision_new 1) (\<lambda>r.
       Inr \<lparr>pr_tenant_id = tr_tenant_id tenant, pr_project_id = project_id,
            pr_display_name = ''Identity fixture project'', pr_project_epoch = epoch,
            pr_status = Active, pr_revision = r, pr_created_at_ms = 1000, pr_updated_at_ms = 1000\<rparr>)))"

definition fixture_actor :: "tenant_record \<Rightarrow> actor_record domain_result" where
  "fixture_actor tenant =
     and_then (id_try_from ''actor_id'' ''actor_identity_fixture'') (\<lambda>actor_id.
     and_then (revision_new 1) (\<lambda>r.
       Inr \<lparr>ar_tenant_id = tr_tenant_id tenant, ar_actor_id = actor_id,
            ar_display_name = ''Identity fixture actor'', ar_kind = Agent, ar_status = Active,
            ar_revision = r, ar_created_at_ms = 1000, ar_updated_at_ms = 1000\<rparr>))"

definition fixture_membership :: "project_record \<Rightarrow> actor_record \<Rightarrow> project_membership" where
  "fixture_membership project actor =
     \<lparr>pm_tenant_id = pr_tenant_id project, pm_project_id = pr_project_id project,
      pm_actor_id = ar_actor_id actor, pm_role = Writer, pm_status = MembershipActive\<rparr>"

definition fixture_scope :: "project_record \<Rightarrow> project_scope" where
  "fixture_scope project = scope_new (pr_tenant_id project) (pr_project_id project)"

fun is_err :: "'e + 'a \<Rightarrow> bool" where
  "is_err (Inl e) \<longleftrightarrow> True"
| "is_err (Inr x) \<longleftrightarrow> False"

fun is_invalid_command :: "'a domain_result \<Rightarrow> bool" where
  "is_invalid_command (Inl (InvalidCommand d)) \<longleftrightarrow> True"
| "is_invalid_command _ \<longleftrightarrow> False"

definition identity_checks :: "string list" where
  "identity_checks = [''project_bootstrap_idempotent'', ''project_epoch_conflict'',
     ''token_authentication'', ''active_membership'', ''exact_membership_lookup'',
     ''actor_identity_conflict'', ''token_binding_conflict'', ''token_binding_rollback'',
     ''invalid_digest_length'', ''membership_scope_isolation'']"

section \<open>The run\<close>

definition identity_conformance_run ::
  "('st, 'x) identity_store_scheme \<Rightarrow> 'st \<Rightarrow> 'st \<times> string list domain_result" where
  "identity_conformance_run store s =
     try_ok s fixture_tenant (\<lambda>tenant.
     try_ok s (fixture_project tenant) (\<lambda>project.
     try_ok s (fixture_actor tenant) (\<lambda>actor.
     let m = fixture_membership project actor; token = replicate 32 0x61 in
     try_do (id_bootstrap_project store tenant project s) (\<lambda>s _.
     try_do (id_bootstrap_project store tenant project s) (\<lambda>s _.
     try_ok s (id_project_epoch store s (fixture_scope project)) (\<lambda>epoch.
     try_ok s (conf_check (epoch = Some (pr_project_epoch project)) ''project_bootstrap_idempotent''
       ''project bootstrap retry must preserve the original epoch'') (\<lambda>_.
     try_ok s (id_try_from ''project_epoch'' ''epoch_identity_conflict'') (\<lambda>other_epoch.
     let (s, r) = id_bootstrap_project store tenant (project\<lparr>pr_project_epoch := other_epoch\<rparr>) s in
     try_ok s (conf_check (is_err r) ''project_epoch_conflict''
       ''reusing a project scope with another epoch must fail closed'') (\<lambda>_.
     try_do (id_provision_actor store actor m token 1000 s) (\<lambda>s _.
     try_do (id_provision_actor store actor m token 9999 s) (\<lambda>s _.
     try_ok s (id_authenticate_token store s token) (\<lambda>found.
     try_ok s (ok_or (violation ''token_authentication'' ''active token binding disappeared'')
       found) (\<lambda>auth.
     try_ok s (conf_check (aa_tenant_id auth = tr_tenant_id tenant \<and>
         aa_actor_id auth = ar_actor_id actor) ''token_authentication''
       ''bearer digest must resolve to the exact provisioned tenant and actor'') (\<lambda>_.
     try_ok s (id_membership store s auth (pr_project_id project)) (\<lambda>found.
     try_ok s (conf_check (found = Some m) ''active_membership''
       ''authenticated identity must load its active project membership'') (\<lambda>_.
     try_ok s (id_project_membership store s (fixture_scope project) (ar_actor_id actor)) (\<lambda>found.
     try_ok s (conf_check (found = Some m) ''exact_membership_lookup''
       ''exact tenant-project actor lookup must return the provisioned membership'') (\<lambda>_.
     let (s, r) = id_provision_actor store (actor\<lparr>ar_kind := Service\<rparr>) m (replicate 32 0x62) 1000 s in
     try_ok s (conf_check (is_err r) ''actor_identity_conflict''
       ''same actor identity with another immutable kind must fail closed'') (\<lambda>_.
     try_ok s (id_try_from ''actor_id'' ''actor_identity_fixture_other'') (\<lambda>other_id.
     try_ok s (revision_new 1) (\<lambda>one.
     let other = \<lparr>ar_tenant_id = tr_tenant_id tenant, ar_actor_id = other_id,
                  ar_display_name = ''Other identity fixture actor'', ar_kind = Agent,
                  ar_status = Active, ar_revision = one, ar_created_at_ms = 1000,
                  ar_updated_at_ms = 1000\<rparr>;
         other_m = \<lparr>pm_tenant_id = tr_tenant_id tenant, pm_project_id = pr_project_id project,
                    pm_actor_id = other_id, pm_role = Writer, pm_status = MembershipActive\<rparr> in
     let (s, r) = id_provision_actor store other other_m token 1000 s in
     try_ok s (conf_check (is_err r) ''token_binding_conflict''
       ''one bearer digest must not bind to another tenant/actor identity'') (\<lambda>_.
     try_ok s (id_authenticate_token store s token) (\<lambda>found.
     try_ok s (ok_or (violation ''token_binding_rollback'' ''original token binding disappeared'')
       found) (\<lambda>auth.
     try_ok s (conf_check (aa_actor_id auth = ar_actor_id actor) ''token_binding_rollback''
       ''failed conflicting provisioning must preserve the original binding'') (\<lambda>_.
     try_ok s (conf_check (is_invalid_command (id_authenticate_token store s (replicate 31 0)))
       ''invalid_digest_length''
       ''non-SHA-256 bearer digests must be rejected before lookup'') (\<lambda>_.
     try_ok s (id_try_from ''project_id'' ''project_identity_missing'') (\<lambda>missing.
     try_ok s (id_project_membership store s (scope_new (tr_tenant_id tenant) missing)
       (ar_actor_id actor)) (\<lambda>found.
     try_ok s (conf_check (found = None) ''membership_scope_isolation''
       ''membership lookup must not escape its exact tenant-project scope'') (\<lambda>_.
       (s, Inr identity_checks))))))))))))))))))))))))))))))"

section \<open>The SQLite store passes\<close>

definition suite_tenant :: tenant_record where
  "suite_tenant = \<lparr>tr_tenant_id = ''tenant_identity_fixture'',
     tr_display_name = ''Identity fixture tenant'', tr_status = Active, tr_revision = 1,
     tr_created_at_ms = 1000, tr_updated_at_ms = 1000\<rparr>"

definition suite_project :: project_record where
  "suite_project = \<lparr>pr_tenant_id = ''tenant_identity_fixture'',
     pr_project_id = ''project_identity_fixture'', pr_display_name = ''Identity fixture project'',
     pr_project_epoch = ''epoch_identity_fixture'', pr_status = Active, pr_revision = 1,
     pr_created_at_ms = 1000, pr_updated_at_ms = 1000\<rparr>"

definition suite_actor :: actor_record where
  "suite_actor = \<lparr>ar_tenant_id = ''tenant_identity_fixture'',
     ar_actor_id = ''actor_identity_fixture'', ar_display_name = ''Identity fixture actor'',
     ar_kind = Agent, ar_status = Active, ar_revision = 1, ar_created_at_ms = 1000,
     ar_updated_at_ms = 1000\<rparr>"

definition suite_member :: project_membership where
  "suite_member = \<lparr>pm_tenant_id = ''tenant_identity_fixture'',
     pm_project_id = ''project_identity_fixture'', pm_actor_id = ''actor_identity_fixture'',
     pm_role = Writer, pm_status = MembershipActive\<rparr>"

definition suite_other :: actor_record where
  "suite_other = suite_actor\<lparr>ar_actor_id := ''actor_identity_fixture_other'',
     ar_display_name := ''Other identity fixture actor''\<rparr>"

text \<open>The database after the bootstrap and after the provisioning.\<close>

definition suite_db1 :: store_db where
  "suite_db1 = create_schema_v4\<lparr>
     db_tenants := [\<lparr>tn_tenant_id = ''tenant_identity_fixture'',
       tn_display_name = ''Identity fixture tenant'', tn_status = ''active'', tn_revision = 1,
       tn_created_at_ms = 1000, tn_updated_at_ms = 1000\<rparr>],
     db_projects := [\<lparr>pj_tenant_id = ''tenant_identity_fixture'',
       pj_project_id = ''project_identity_fixture'', pj_project_epoch = ''epoch_identity_fixture'',
       pj_next_seq = 0, pj_display_name = ''Identity fixture project'', pj_status = ''active'',
       pj_revision = 1, pj_created_at_ms = 1000, pj_updated_at_ms = 1000\<rparr>]\<rparr>"

definition suite_db2 :: store_db where
  "suite_db2 = suite_db1\<lparr>
     db_actors := [\<lparr>at_tenant_id = ''tenant_identity_fixture'',
       at_actor_id = ''actor_identity_fixture'', at_display_name = ''Identity fixture actor'',
       at_kind = ''agent'', at_status = ''active'', at_revision = 1, at_created_at_ms = 1000,
       at_updated_at_ms = 1000\<rparr>],
     db_memberships := [\<lparr>ms_tenant_id = ''tenant_identity_fixture'',
       ms_project_id = ''project_identity_fixture'', ms_actor_id = ''actor_identity_fixture'',
       ms_role = ''writer'', ms_status = ''active''\<rparr>],
     db_token_bindings := [\<lparr>tk_token_sha256 = replicate 32 0x61,
       tk_tenant_id = ''tenant_identity_fixture'', tk_actor_id = ''actor_identity_fixture'',
       tk_active = 1, tk_created_at_ms = 1000\<rparr>]\<rparr>"

lemma suite_fixtures:
  "fixture_tenant = Inr suite_tenant" "fixture_project suite_tenant = Inr suite_project"
  "fixture_actor suite_tenant = Inr suite_actor"
  "id_try_from ''project_epoch'' ''epoch_identity_conflict'' = Inr ''epoch_identity_conflict''"
  "id_try_from ''actor_id'' ''actor_identity_fixture_other'' = Inr ''actor_identity_fixture_other''"
  "id_try_from ''project_id'' ''project_identity_missing'' = Inr ''project_identity_missing''"
  "revision_new 1 = Inr 1"
  by code_simp+

lemma suite_writes:
  "bootstrap_project suite_tenant suite_project create_schema_v4 = (suite_db1, Inr ())"
  "provision_actor suite_actor suite_member (replicate 32 0x61) 1000 suite_db1 = (suite_db2, Inr ())"
  by code_simp+

lemma suite_repeats:
  "bootstrap_project suite_tenant suite_project suite_db1 = (suite_db1, Inr ())"
  "provision_actor suite_actor suite_member (replicate 32 0x61) 9999 suite_db2 = (suite_db2, Inr ())"
  by code_simp+

lemma rolled_back:
  "is_err (snd (bootstrap_project t p db)) \<Longrightarrow> fst (bootstrap_project t p db) = db"
  "is_err (snd (provision_actor a m tok now db)) \<Longrightarrow> fst (provision_actor a m tok now db) = db"
  by (simp_all add: bootstrap_project_def provision_actor_def commit_or_rollback_def split: sum.splits)

lemma suite_conflicts:
  "is_err (snd (bootstrap_project suite_tenant
     (suite_project\<lparr>pr_project_epoch := ''epoch_identity_conflict''\<rparr>) suite_db1))"
  "is_err (snd (provision_actor (suite_actor\<lparr>ar_kind := Service\<rparr>) suite_member (replicate 32 0x62)
     1000 suite_db2))"
  "is_err (snd (provision_actor suite_other
     (suite_member\<lparr>pm_actor_id := ''actor_identity_fixture_other''\<rparr>) (replicate 32 0x61) 1000 suite_db2))"
  by code_simp+

lemma suite_reads:
  "project_epoch_of suite_db1 (fixture_scope suite_project) = Inr (Some (pr_project_epoch suite_project))"
  "authenticate_token suite_db2 (replicate 32 0x61) = Inr (Some
     \<lparr>aa_tenant_id = tr_tenant_id suite_tenant, aa_actor_id = ar_actor_id suite_actor\<rparr>)"
  "project_membership_of suite_db2 (fixture_scope suite_project) (ar_actor_id suite_actor) =
     Inr (Some suite_member)"
  "project_membership_of suite_db2 (scope_new (tr_tenant_id suite_tenant) ''project_identity_missing'')
     (ar_actor_id suite_actor) = Inr None"
  "is_invalid_command (authenticate_token suite_db2 (replicate 31 0))"
  by code_simp+

lemma suite_shapes:
  "fixture_membership suite_project suite_actor = suite_member"
  "scope_new (tr_tenant_id suite_tenant) (pr_project_id suite_project) = fixture_scope suite_project"
  "\<lparr>ar_tenant_id = tr_tenant_id suite_tenant, ar_actor_id = ''actor_identity_fixture_other'',
     ar_display_name = ''Other identity fixture actor'', ar_kind = Agent, ar_status = Active,
     ar_revision = 1, ar_created_at_ms = 1000, ar_updated_at_ms = 1000\<rparr> = suite_other"
  "\<lparr>pm_tenant_id = tr_tenant_id suite_tenant, pm_project_id = pr_project_id suite_project,
     pm_actor_id = ''actor_identity_fixture_other'', pm_role = Writer,
     pm_status = MembershipActive\<rparr> = suite_member\<lparr>pm_actor_id := ''actor_identity_fixture_other''\<rparr>"
  by code_simp+

lemma on_db_at [simp]: "on_db f \<lparr>se_db = db, se_clock = clk, se_calls = n\<rparr> =
    (\<lparr>se_db = fst (f db), se_clock = clk, se_calls = n\<rparr>, snd (f db))"
  by (simp add: on_db_def case_prod_beta)

lemma identity_suite_passes:
  "identity_conformance_run sqlite_identity_store
     \<lparr>se_db = create_schema_v4, se_clock = clk, se_calls = n\<rparr> =
   (\<lparr>se_db = suite_db2, se_clock = clk, se_calls = n\<rparr>, Inr identity_checks)"
  unfolding identity_conformance_run_def Let_def suite_fixtures try_ok_simps try_do_simps suite_shapes
    sqlite_identity_simps
  by (simp add: suite_reads conf_check_def suite_writes suite_repeats suite_conflicts
      rolled_back id_membership_def suite_shapes suite_fixtures case_prod_beta)

section \<open>Property\<close>

text \<open>
  The SQLite store passes the identity conformance suite on a fresh database: bootstrap and
  provisioning retries, conflicting epochs, actors and tokens, authentication, membership lookup and
  their isolation all answer as the suite requires.
\<close>

theorem sqlite_passes_identity_suite:
  "snd (identity_conformance_run sqlite_identity_store
     \<lparr>se_db = create_schema_v4, se_clock = clk, se_calls = n\<rparr>) = Inr identity_checks"
  by (simp add: identity_suite_passes)

end
