(* ===== verification/Domain_Artifact.thy ===== *)
theory Domain_Artifact
  imports Domain_Command
begin

text \<open>
  \<open>aidememo-domain/src/artifact.rs\<close>: canonical logical paths, content digests, immutable body
  references, reservations and observations, with their validators.
\<close>

section \<open>Paths and digests\<close>

type_synonym artifact_path = string
type_synonym content_digest = string

definition MAX_PATH_BYTES :: nat where "MAX_PATH_BYTES = 1024"

definition bad_segment :: "string \<Rightarrow> bool" where
  "bad_segment w \<longleftrightarrow> w = [] \<or> w = ''.'' \<or> w = ''..''"

definition artifact_path_try_from :: "string \<Rightarrow> artifact_path domain_result" where
  "artifact_path_try_from s =
    (if length s < 2 \<or> length s > MAX_PATH_BYTES \<or> hd s \<noteq> CHR ''/'' then
       Inl (InvalidArtifactPath
         (''must start with '/' and contain 2 to '' @ nat_text MAX_PATH_BYTES @ '' bytes''))
     else if last s = CHR ''/'' \<or> CHR 0x5C \<in> set s \<or> has_control s then
       Inl (InvalidArtifactPath
         ''must not end with '/', contain backslashes, or contain control characters'')
     else if list_ex bad_segment (drop 1 (split_on (CHR ''/'') s)) then
       Inl (InvalidArtifactPath (''segments must be non-empty and may not be '.' or '..'' @ [CHR 0x27]))
     else Inr s)"

definition content_digest_try_from :: "string \<Rightarrow> content_digest domain_result" where
  "content_digest_try_from s =
    (if length s \<noteq> 64 \<or> \<not> list_all is_lower_hex s then
       Inl (InvalidArtifactReference ''content digest must be 64 lowercase hexadecimal characters'')
     else Inr s)"

section \<open>Body references\<close>

datatype artifact_body_ref =
    InlineBody (ib_size_bytes: u64) (ib_digest: content_digest)
  | ObjectBody (ob_object_key: string) (ob_generation: string) (ob_size_bytes: u64) (ob_etag: string)
      (ob_version: "string option") (ob_digest: "content_digest option")

definition validate_metadata_text :: "string \<Rightarrow> string \<Rightarrow> unit domain_result" where
  "validate_metadata_text name s =
    (if s = [] \<or> length s > MAX_PATH_BYTES \<or> has_control s then
       Inl (InvalidArtifactReference
         (name @ '' must be non-empty, bounded, and contain no control characters''))
     else Inr ())"

definition body_ref_validate :: "artifact_body_ref \<Rightarrow> unit domain_result" where
  "body_ref_validate b =
     (case b of
        InlineBody _ _ \<Rightarrow> Inr ()
      | ObjectBody object_key generation _ etag version _ \<Rightarrow>
          and_then (validate_metadata_text ''object_key'' object_key) (\<lambda>_.
          and_then (validate_metadata_text ''generation'' generation) (\<lambda>_.
          and_then (validate_metadata_text ''etag'' etag) (\<lambda>_.
            case version of None \<Rightarrow> Inr () | Some v \<Rightarrow> validate_metadata_text ''version'' v))))"

section \<open>References, reservations and observations\<close>

record artifact_reference =
  af_artifact_id :: artifact_id
  af_scope :: project_scope
  af_path :: artifact_path
  af_revision :: revision
  af_mutation_token :: string
  af_body :: artifact_body_ref

definition reference_validate :: "artifact_reference \<Rightarrow> unit domain_result" where
  "reference_validate r =
     and_then (validate_metadata_text ''mutation_token'' (af_mutation_token r)) (\<lambda>_.
       body_ref_validate (af_body r))"

record artifact_reservation =
  av_artifact_id :: artifact_id
  av_scope :: project_scope
  av_path :: artifact_path
  av_revision :: revision
  av_mutation_token :: string
  av_generation :: string
  av_expires_at_ms :: i64

definition reservation_validate :: "artifact_reservation \<Rightarrow> unit domain_result" where
  "reservation_validate r =
     and_then (validate_metadata_text ''mutation_token'' (av_mutation_token r)) (\<lambda>_.
     and_then (validate_metadata_text ''generation'' (av_generation r)) (\<lambda>_.
       if av_expires_at_ms r \<le> 0 then
         Inl (InvalidArtifactReference ''reservation expiry must be a positive Unix timestamp'')
       else Inr ()))"

record artifact_observation =
  ao_object_key :: string
  ao_generation :: string
  ao_size_bytes :: u64
  ao_etag :: string
  ao_version :: "string option"
  ao_digest :: "content_digest option"

definition observation_body_ref :: "artifact_observation \<Rightarrow> artifact_body_ref domain_result" where
  "observation_body_ref ob =
     (let body = ObjectBody (ao_object_key ob) (ao_generation ob) (ao_size_bytes ob) (ao_etag ob)
        (ao_version ob) (ao_digest ob) in
      and_then (body_ref_validate body) (\<lambda>_. Inr body))"

section \<open>Canonical segments\<close>

definition path_segments :: "artifact_path \<Rightarrow> string list" where
  "path_segments p = drop 1 (split_on (CHR ''/'') p)"

definition path_of_segments :: "string list \<Rightarrow> artifact_path" where
  "path_of_segments ws = concat (map (\<lambda>w. CHR ''/'' # w) ws)"

definition segment_ok :: "string \<Rightarrow> bool" where
  "segment_ok w \<longleftrightarrow> \<not> bad_segment w \<and> CHR ''/'' \<notin> set w"

lemma path_of_segments_join:
  "ws \<noteq> [] \<Longrightarrow> path_of_segments ws = CHR ''/'' # join_with (CHR ''/'') ws"
  by (induction "CHR ''/''" ws rule: join_with.induct) (simp_all add: path_of_segments_def)

lemma split_on_hd: "split_on d (d # s) = [] # split_on d s"
  by simp

lemma path_segments_of:
  assumes "ws \<noteq> []" "\<forall>w\<in>set ws. CHR ''/'' \<notin> set w"
  shows "path_segments (path_of_segments ws) = ws"
  using assms by (simp add: path_segments_def path_of_segments_join split_join)

lemma path_of_path_segments:
  "path_of_segments (path_segments (CHR ''/'' # s)) = CHR ''/'' # s"
  by (simp add: path_segments_def path_of_segments_join join_split)

lemma path_of_segments_last:
  assumes "ws \<noteq> []" "\<forall>w\<in>set ws. segment_ok w"
  shows "last (path_of_segments ws) \<noteq> CHR ''/''"
proof -
  obtain us w where ws: "ws = us @ [w]" using assms(1) by (metis rev_exhaust)
  have w: "w \<noteq> []" "CHR ''/'' \<notin> set w"
    using assms(2) ws by (auto simp: segment_ok_def bad_segment_def)
  then have "last (path_of_segments ws) = last w"
    by (simp add: ws path_of_segments_def)
  with w show ?thesis by (metis last_in_set)
qed

lemma path_of_segments_length: "ws \<noteq> [] \<Longrightarrow> hd ws \<noteq> [] \<Longrightarrow> 2 \<le> length (path_of_segments ws)"
  by (cases ws; cases "hd ws") (auto simp: path_of_segments_def)

section \<open>Property\<close>

text \<open>
  An \<open>ArtifactPath\<close> is exactly a non-empty list of clean segments: \<open>try_from\<close> accepts a text and
  keeps it unchanged precisely when it is the rendering of segments that are non-empty, are not \<open>.\<close>
  or \<open>..\<close>, contain no slash, and the text has no backslash, no control character and at most 1024
  bytes; no other list of segments renders to the same path.
\<close>

theorem artifact_path_canonical:
  "artifact_path_try_from s = Inr p \<longleftrightarrow>
     p = s \<and> length s \<le> 1024 \<and> CHR 0x5C \<notin> set s \<and> \<not> has_control s \<and>
     (\<exists>!ws. ws \<noteq> [] \<and> (\<forall>w\<in>set ws. segment_ok w) \<and> s = path_of_segments ws)"
proof
  assume ok: "artifact_path_try_from s = Inr p"
  then have len: "2 \<le> length s" "length s \<le> 1024" and hd: "hd s = CHR ''/''"
    and clean: "CHR 0x5C \<notin> set s" "\<not> has_control s" and p: "p = s"
    and segs: "\<not> list_ex bad_segment (path_segments s)"
    by (auto simp: artifact_path_try_from_def MAX_PATH_BYTES_def path_segments_def split: if_splits)
  obtain t where s: "s = CHR ''/'' # t" using len(1) hd by (cases s) auto
  let ?ws = "path_segments s"
  have "?ws = split_on (CHR ''/'') t" by (simp add: path_segments_def s)
  then have ws: "?ws \<noteq> [] \<and> (\<forall>w\<in>set ?ws. segment_ok w) \<and> s = path_of_segments ?ws"
    using segs split_on_no_delim [of _ "CHR ''/''" t] path_of_path_segments [of t]
    by (auto simp: segment_ok_def list_ex_iff s)
  moreover have "us = ?ws" if "us \<noteq> [] \<and> (\<forall>w\<in>set us. segment_ok w) \<and> s = path_of_segments us" for us
    using that path_segments_of [of us] by (auto simp: segment_ok_def)
  ultimately show "p = s \<and> length s \<le> 1024 \<and> CHR 0x5C \<notin> set s \<and> \<not> has_control s \<and>
     (\<exists>!ws. ws \<noteq> [] \<and> (\<forall>w\<in>set ws. segment_ok w) \<and> s = path_of_segments ws)"
    using len clean p by blast
next
  assume r: "p = s \<and> length s \<le> 1024 \<and> CHR 0x5C \<notin> set s \<and> \<not> has_control s \<and>
     (\<exists>!ws. ws \<noteq> [] \<and> (\<forall>w\<in>set ws. segment_ok w) \<and> s = path_of_segments ws)"
  then obtain ws where ws: "ws \<noteq> []" "\<forall>w\<in>set ws. segment_ok w" "s = path_of_segments ws" by blast
  have "hd ws \<noteq> []" using ws(1,2) by (cases ws) (auto simp: segment_ok_def bad_segment_def)
  then have "2 \<le> length s" using path_of_segments_length ws(1,3) by simp
  moreover have "hd s = CHR ''/''" using ws(1,3) by (cases ws) (auto simp: path_of_segments_def)
  moreover have "last s \<noteq> CHR ''/''" using path_of_segments_last ws by simp
  moreover have "path_segments s = ws"
    using path_segments_of [of ws] ws by (auto simp: segment_ok_def)
  ultimately show "artifact_path_try_from s = Inr p"
    using r ws(2) by (auto simp: artifact_path_try_from_def MAX_PATH_BYTES_def path_segments_def
        list_ex_iff segment_ok_def)
qed

theorem artifact_path_canonical_witness:
  "artifact_path_try_from ''/s/a.md'' = Inr ''/s/a.md'' \<and>
    (\<exists>!ws. ws \<noteq> [] \<and> (\<forall>w\<in>set ws. segment_ok w) \<and> ''/s/a.md'' = path_of_segments ws)"
proof -
  have "artifact_path_try_from ''/s/a.md'' = Inr ''/s/a.md''" by code_simp
  with artifact_path_canonical [of "''/s/a.md''" "''/s/a.md''"] show ?thesis by blast
qed

end
