(* ===== verification/Json_Value.thy ===== *)
theory Json_Value
  imports Rust_Bytes Domain_Change
begin

text \<open>
  \<open>serde_json::Value\<close> and the recursive key sorting of \<open>canonicalize_json\<close>
  (\<open>aidememo-service/src/lib.rs\<close> 477-492). An object is the list of its entries in iteration order.
\<close>

section \<open>Values\<close>

text \<open>Numbers are integers or the bits of a double.\<close>

datatype json =
    JNull
  | JBool bool
  | JInt int
  | JFloat u64
  | JString string
  | JArray "json list"
  | JObject "(string \<times> json) list"

lemma json_size_array [termination_simp]: "v \<in> set vs \<Longrightarrow> size v < Suc (size_list size vs)"
  by (induction vs) auto

lemma json_size_object:
  "(k, v) \<in> set kvs \<Longrightarrow> size v < Suc (size_list (size_prod (\<lambda>x. 0) size) kvs)"
  by (induction kvs) auto

section \<open>Canonical form\<close>

text \<open>
  \<open>sort_by\<close> on the keys is a stable sort by the byte order of the strings; collecting the sorted
  entries into a \<open>Map\<close> keeps their order.
\<close>

function canonicalize_json :: "json \<Rightarrow> json" where
  "canonicalize_json (JArray vs) = JArray (map canonicalize_json vs)"
| "canonicalize_json (JObject kvs) =
     JObject (map (\<lambda>(k, v). (k, canonicalize_json v)) (sort_key fst kvs))"
| "canonicalize_json JNull = JNull"
| "canonicalize_json (JBool b) = JBool b"
| "canonicalize_json (JInt i) = JInt i"
| "canonicalize_json (JFloat x) = JFloat x"
| "canonicalize_json (JString s) = JString s"
  by pat_completeness auto

termination
proof (relation "measure size", goal_cases)
  case (2 vs v)
  then show ?case using json_size_array by simp
next
  case (3 kvs kv k v)
  then have "(k, v) \<in> set kvs" by simp
  then show ?case using json_size_object by simp
qed simp

section \<open>Well-formed values\<close>

text \<open>The invariant of \<open>Map\<close>: no key occurs twice.\<close>

fun json_wf :: "json \<Rightarrow> bool" where
  "json_wf (JArray vs) \<longleftrightarrow> (\<forall>v\<in>set vs. json_wf v)"
| "json_wf (JObject kvs) \<longleftrightarrow> distinct (map fst kvs) \<and> (\<forall>kv\<in>set kvs. json_wf (snd kv))"
| "json_wf _ \<longleftrightarrow> True"

text \<open>Keys in strictly increasing order everywhere.\<close>

fun json_sorted :: "json \<Rightarrow> bool" where
  "json_sorted (JArray vs) \<longleftrightarrow> (\<forall>v\<in>set vs. json_sorted v)"
| "json_sorted (JObject kvs) \<longleftrightarrow>
     sorted_wrt (<) (map fst kvs) \<and> (\<forall>kv\<in>set kvs. json_sorted (snd kv))"
| "json_sorted _ \<longleftrightarrow> True"

text \<open>The same value when objects are read as maps.\<close>

inductive json_equiv :: "json \<Rightarrow> json \<Rightarrow> bool" where
  json_refl: "json_equiv v v"
| json_array: "list_all2 json_equiv vs ws \<Longrightarrow> json_equiv (JArray vs) (JArray ws)"
| json_object: "(\<And>k. rel_option json_equiv (map_of kvs k) (map_of kws k)) \<Longrightarrow>
    json_equiv (JObject kvs) (JObject kws)"

inductive_cases json_equiv_objectE: "json_equiv (JObject kvs) w"
inductive_cases json_equiv_arrayE: "json_equiv (JArray vs) w"

section \<open>Sorted association lists\<close>

lemma map_fst_canonical [simp]:
  "map fst (map (\<lambda>(k, v). (k, canonicalize_json v)) kvs) = map fst kvs"
  by (induction kvs) auto


lemma sorted_entries_unique:
  assumes "sorted (map fst xs)" "distinct (map fst xs)" "sorted (map fst ys)" "distinct (map fst ys)"
    and "map_of xs = map_of ys"
  shows "xs = ys"
proof -
  have same: "set xs = set ys"
    using assms(2,4,5) by (simp add: map_of_inject_set)
  moreover have "inj_on fst (set xs \<union> set ys)"
    using assms(2) same by (simp add: distinct_map)
  ultimately show ?thesis
    using assms(1-4) by (blast intro: map_sorted_distinct_set_unique)
qed

lemma map_of_sort_key:
  assumes "distinct (map fst kvs)"
  shows "map_of (sort_key fst kvs) = map_of kvs"
proof -
  have "distinct (map fst (sort_key fst kvs))"
    using assms by (simp add: distinct_map)
  with assms show ?thesis by (simp add: map_of_inject_set)
qed

lemma sorted_entries: "distinct (map fst kvs) \<Longrightarrow> sorted_wrt (<) (map fst (sort_key fst kvs))"
  by (simp add: strict_sorted_iff distinct_map)

lemma canonical_map_of:
  assumes "distinct (map fst kvs)"
  shows "map_of (map (\<lambda>(k, v). (k, canonicalize_json v)) (sort_key fst kvs)) k =
    map_option canonicalize_json (map_of kvs k)"
  using map_of_sort_key [OF assms] by (simp add: map_of_map)

section \<open>What the canonical form is\<close>

lemma canonical_sorted: "json_wf v \<Longrightarrow> json_sorted (canonicalize_json v)"
proof (induction v rule: canonicalize_json.induct)
  case (2 kvs)
  then have "distinct (map fst kvs)" by simp
  moreover have "json_sorted (canonicalize_json v)" if "(k, v) \<in> set kvs" for k v
    using 2 that by force
  ultimately show ?case
    using sorted_entries [of kvs] by (auto simp only: canonicalize_json.simps json_sorted.simps
        map_fst_canonical set_map set_sort snd_conv)
qed simp_all

lemma canonical_id: "json_sorted v \<Longrightarrow> canonicalize_json v = v"
proof (induction v)
  case (JObject kvs)
  then have "sort_key fst kvs = kvs"
    by (intro sort_key_id_if_sorted) (simp add: strict_sorted_iff)
  moreover have "canonicalize_json v = v" if "(k, v) \<in> set kvs" for k v
    using JObject that by force
  ultimately show ?case by (auto intro!: map_idI)
qed (auto intro!: map_idI)

lemma canonical_object_iff:
  assumes "distinct (map fst kvs)" "distinct (map fst kws)"
  shows "canonicalize_json (JObject kvs) = canonicalize_json (JObject kws) \<longleftrightarrow>
    (\<forall>k. map_option canonicalize_json (map_of kvs k) = map_option canonicalize_json (map_of kws k))"
proof
  assume "canonicalize_json (JObject kvs) = canonicalize_json (JObject kws)"
  then show "\<forall>k. map_option canonicalize_json (map_of kvs k) =
      map_option canonicalize_json (map_of kws k)"
    using canonical_map_of [OF assms(1)] canonical_map_of [OF assms(2)]
    by (simp only: canonicalize_json.simps json.inject) metis
next
  assume same: "\<forall>k. map_option canonicalize_json (map_of kvs k) =
      map_option canonicalize_json (map_of kws k)"
  let ?can = "\<lambda>kvs. map (\<lambda>(k, v). (k, canonicalize_json v)) (sort_key fst kvs)"
  have "?can kvs = ?can kws"
  proof (rule sorted_entries_unique)
    show "map_of (?can kvs) = map_of (?can kws)"
      using same canonical_map_of [OF assms(1)] canonical_map_of [OF assms(2)] by (simp add: fun_eq_iff)
  qed (use assms in \<open>simp_all only: map_fst_canonical sorted_sort_key, simp_all add: distinct_map\<close>)
  then show "canonicalize_json (JObject kvs) = canonicalize_json (JObject kws)" by simp
qed

lemma canonical_eq_iff:
  "json_wf v \<Longrightarrow> json_wf w \<Longrightarrow> canonicalize_json v = canonicalize_json w \<longleftrightarrow> json_equiv v w"
proof (induction v arbitrary: w)
  case (JArray vs)
  show ?case
  proof
    assume eq: "canonicalize_json (JArray vs) = canonicalize_json w"
    then obtain ws where w: "w = JArray ws" by (cases w) auto
    have "list_all2 json_equiv vs ws"
      using eq JArray by (auto simp: w list_all2_conv_all_nth list_eq_iff_nth_eq)
    then show "json_equiv (JArray vs) w" by (simp add: w json_array)
  next
    assume "json_equiv (JArray vs) w"
    then show "canonicalize_json (JArray vs) = canonicalize_json w"
      using JArray by (elim json_equiv_arrayE) (auto simp: list_all2_conv_all_nth list_eq_iff_nth_eq)
  qed
next
  case (JObject kvs)
  have IH: "canonicalize_json v = canonicalize_json u \<longleftrightarrow> json_equiv v u"
    if "map_of kvs k = Some v" "json_wf u" for k v u
    using JObject.IH [of "(k, v)" v u] JObject.prems(1) map_of_SomeD [OF that(1)] that(2) by force
  have distinct: "distinct (map fst kvs)" using JObject.prems(1) by simp
  have entries: "map_option canonicalize_json (map_of kvs k) = map_option canonicalize_json (map_of kws k)
      \<longleftrightarrow> rel_option json_equiv (map_of kvs k) (map_of kws k)" if "json_wf (JObject kws)" for k kws
  proof -
    have "json_wf u" if "map_of kws k = Some u" for u
      using map_of_SomeD [OF that] \<open>json_wf (JObject kws)\<close> by force
    with IH show ?thesis
      by (cases "map_of kvs k"; cases "map_of kws k") auto
  qed
  show ?case
  proof
    assume eq: "canonicalize_json (JObject kvs) = canonicalize_json w"
    then obtain kws where w: "w = JObject kws" by (cases w) auto
    have "distinct (map fst kws)" using JObject.prems(2) w by simp
    then show "json_equiv (JObject kvs) w"
      using eq entries JObject.prems(2) canonical_object_iff [OF distinct] unfolding w
      by (blast intro: json_object)
  next
    assume "json_equiv (JObject kvs) w"
    then show "canonicalize_json (JObject kvs) = canonicalize_json w"
    proof (rule json_equiv_objectE)
      fix kws
      assume w: "w = JObject kws" and rel: "\<And>k. rel_option json_equiv (map_of kvs k) (map_of kws k)"
      have "distinct (map fst kws)" using JObject.prems(2) w by simp
      then show ?thesis
        using rel entries JObject.prems(2) canonical_object_iff [OF distinct] unfolding w by blast
    qed simp
  qed
qed (auto elim: json_equiv.cases intro: json_refl, (case_tac w; auto intro: json_refl)+)

text \<open>
  \<open>canonicalize_json\<close> computes a normal form: it ends on every value, its result has strictly
  sorted keys everywhere and is a fixed point, and two values get the same form exactly when they
  are equal as JSON with objects read as maps, whatever order their entries were inserted in.
\<close>

theorem canonical_form:
  assumes "json_wf v" "json_wf w"
  shows "json_sorted (canonicalize_json v) \<and>
    canonicalize_json (canonicalize_json v) = canonicalize_json v \<and>
    (canonicalize_json v = canonicalize_json w \<longleftrightarrow> json_equiv v w)"
  using assms canonical_sorted canonical_id canonical_eq_iff by blast

theorem canonical_form_witness:
  "json_equiv (JObject [(''b'', JInt 1), (''a'', JArray [JObject [(''d'', JNull), (''c'', JInt 2)]])])
     (JObject [(''a'', JArray [JObject [(''c'', JInt 2), (''d'', JNull)]]), (''b'', JInt 1)])"
proof -
  let ?v = "JObject [(''b'', JInt 1), (''a'', JArray [JObject [(''d'', JNull), (''c'', JInt 2)]])]"
  let ?w = "JObject [(''a'', JArray [JObject [(''c'', JInt 2), (''d'', JNull)]]), (''b'', JInt 1)]"
  have "json_wf ?v" "json_wf ?w" by simp_all
  moreover have "canonicalize_json ?v = canonicalize_json ?w" by code_simp
  ultimately show ?thesis using canonical_form [of ?v ?w] by blast
qed

end
