(* ===== verification/Service.thy ===== *)
theory Service
  imports Json_Value Command_Contract
begin

text \<open>
  \<open>aidememo-service/src/lib.rs\<close>: the storage-neutral command service. It authorizes a caller,
  fingerprints the request, delegates one mutation to the store, and projects every read to what
  the caller may see.
\<close>

section \<open>Encodings\<close>

text \<open>
  What the service uses of \<open>serde_json\<close>, of the derived serialization of the typed records and of
  SHA-256: encoding a value as bytes, decoding bytes as a record or as a value, the value of a
  record, a digest.
\<close>

record codec =
  cd_to_vec :: "json \<Rightarrow> bytes"
  cd_sha256 :: "bytes \<Rightarrow> bytes"
  cd_handoff_of :: "bytes \<Rightarrow> handoff_record option"
  cd_context_of :: "bytes \<Rightarrow> handoff_context_record option"
  cd_session_of :: "bytes \<Rightarrow> session_record option"
  cd_fact_of :: "bytes \<Rightarrow> fact_record option"
  cd_handoff_value :: "handoff_record \<Rightarrow> json"
  cd_context_value :: "handoff_context_record \<Rightarrow> json"
  cd_session_value :: "session_record \<Rightarrow> json"
  cd_fact_value :: "fact_record \<Rightarrow> json"
  cd_value_of :: "bytes \<Rightarrow> json option"

definition canonical_json_bytes :: "codec \<Rightarrow> json \<Rightarrow> bytes" where
  "canonical_json_bytes cod v = cd_to_vec cod (canonicalize_json v)"

definition hex_digit :: "nat \<Rightarrow> char" where
  "hex_digit n = (if n < 10 then char_of (48 + n) else char_of (87 + n))"

text \<open>\<open>{byte:02x}\<close>.\<close>

definition hex_byte :: "u8 \<Rightarrow> string" where
  "hex_byte b = [hex_digit (unat b div 16), hex_digit (unat b mod 16)]"

fun change_json :: "change_operation \<Rightarrow> json" where
  "change_json Upsert = JString ''upsert''"
| "change_json Delete = JString ''delete''"

text \<open>
  \<open>serde_json::to_value\<close> of a struct: an object with one entry per field. Such a map keeps its
  entries ordered by key.
\<close>

definition json_struct :: "(string \<times> json) list \<Rightarrow> json" where
  "json_struct entries = JObject (sort_key fst entries)"

definition ref_json :: "resource_ref \<Rightarrow> json" where
  "ref_json r = json_struct [(''kind'', JString (rf_kind r)), (''id'', JString (rf_id r))]"

definition revision_option_json :: "revision option \<Rightarrow> json" where
  "revision_option_json r = (case r of None \<Rightarrow> JNull | Some v \<Rightarrow> JInt (uint v))"

definition fingerprint_material ::
  "json command_envelope \<Rightarrow> resource_ref \<Rightarrow> change_operation \<Rightarrow> json" where
  "fingerprint_material env ref ch = json_struct
     [(''project_id'', JString (en_project_id env)),
      (''expected_revision'', revision_option_json (en_expected_revision env)),
      (''operation'', JString (en_operation env)),
      (''payload'', en_payload env),
      (''resource'', ref_json ref),
      (''change'', change_json ch)]"

definition command_fingerprint ::
  "codec \<Rightarrow> json command_envelope \<Rightarrow> resource_ref \<Rightarrow> change_operation
    \<Rightarrow> command_fingerprint domain_result" where
  "command_fingerprint cod env ref ch =
     (let canonical = canonicalize_json (fingerprint_material env ref ch);
          digest = cd_sha256 cod (cd_to_vec cod canonical) in
      fingerprint_try_from (concat (map hex_byte digest)))"

section \<open>Commands\<close>

definition metadata_envelope :: "json command_envelope \<Rightarrow> unit command_envelope" where
  "metadata_envelope env =
     \<lparr>en_command_id = en_command_id env, en_project_id = en_project_id env,
      en_expected_revision = en_expected_revision env, en_operation = en_operation env,
      en_payload = ()\<rparr>"

definition execute_prepared ::
  "codec \<Rightarrow> ('st, 'x) command_store_scheme \<Rightarrow> authenticated_actor \<Rightarrow> project_membership
    \<Rightarrow> json command_envelope \<Rightarrow> resource_ref \<Rightarrow> change_operation \<Rightarrow> bytes option \<Rightarrow> 'st
    \<Rightarrow> 'st \<times> command_receipt domain_result" where
  "execute_prepared cod store auth m env ref ch body s =
     try_ok s (access_authorize auth m) (\<lambda>access.
     try_ok s (require_write access) (\<lambda>authorization.
       if pz_project_id authorization \<noteq> en_project_id env then
         (s, Inl (ProjectScopeMismatch (en_project_id env) (pz_project_id authorization)))
       else
         try_ok s (command_fingerprint cod env ref ch) (\<lambda>fingerprint.
         try_ok s (command_authorize authorization (metadata_envelope env)) (\<lambda>command.
           cs_execute store \<lparr>mc_command = command, mc_fingerprint = fingerprint,
             mc_resource = ref, mc_change = ch, mc_resource_body = body\<rparr> s))))"

definition service_execute ::
  "codec \<Rightarrow> ('st, 'x) command_store_scheme \<Rightarrow> authenticated_actor \<Rightarrow> project_membership
    \<Rightarrow> json command_envelope \<Rightarrow> resource_ref \<Rightarrow> change_operation \<Rightarrow> 'st
    \<Rightarrow> 'st \<times> command_receipt domain_result" where
  "service_execute cod store auth m env ref ch s =
     execute_prepared cod store auth m env ref ch
       (case ch of Upsert \<Rightarrow> Some (canonical_json_bytes cod (en_payload env)) | Delete \<Rightarrow> None) s"

definition service_execute_with_body ::
  "codec \<Rightarrow> ('st, 'x) command_store_scheme \<Rightarrow> authenticated_actor \<Rightarrow> project_membership
    \<Rightarrow> json command_envelope \<Rightarrow> resource_ref \<Rightarrow> change_operation \<Rightarrow> json \<Rightarrow> 'st
    \<Rightarrow> 'st \<times> command_receipt domain_result" where
  "service_execute_with_body cod store auth m env ref ch body s =
     (case ch of
        Upsert \<Rightarrow>
          execute_prepared cod store auth m env ref ch (Some (canonical_json_bytes cod body)) s
      | Delete \<Rightarrow>
          (s, Inl (InvalidCommand (Text ''execute_with_body only supports upsert commands''))))"

definition service_replay ::
  "codec \<Rightarrow> ('st, 'x) command_store_scheme \<Rightarrow> authenticated_actor \<Rightarrow> project_membership
    \<Rightarrow> json command_envelope \<Rightarrow> resource_ref \<Rightarrow> change_operation \<Rightarrow> 'st
    \<Rightarrow> command_receipt option domain_result" where
  "service_replay cod store auth m env ref ch s =
     and_then (access_authorize auth m) (\<lambda>access.
     and_then (require_write access) (\<lambda>authorization.
       if pz_project_id authorization \<noteq> en_project_id env then
         Inl (ProjectScopeMismatch (en_project_id env) (pz_project_id authorization))
       else
         and_then (command_fingerprint cod env ref ch) (\<lambda>fingerprint.
         and_then (cs_receipt store s (authorization_scope authorization) (en_command_id env)) (\<lambda>found.
           case found of
             None \<Rightarrow> Inr None
           | Some r \<Rightarrow>
               if cp_actor_id r = pz_actor_id authorization \<and> cp_fingerprint r = fingerprint \<and>
                  cp_resource r = ref then Inr (Some r)
               else Inl CommandConflict))))"

section \<open>Visibility\<close>

definition is_participant_scoped_kind :: "resource_kind \<Rightarrow> bool" where
  "is_participant_scoped_kind kind \<longleftrightarrow> kind = ''handoff'' \<or> kind = ''handoff_context''"

definition resource_visible_to :: "codec \<Rightarrow> actor_id \<Rightarrow> canonical_resource \<Rightarrow> bool domain_result" where
  "resource_visible_to cod actor r =
     (let kind = rf_kind (cr_resource r) in
      if \<not> is_participant_scoped_kind kind then Inr True
      else case cr_state r of
        Deleted \<Rightarrow> Inr False
      | Present body \<Rightarrow>
          if kind = ''handoff'' then
            (case cd_handoff_of cod body of
               None \<Rightarrow> Inl (StorageFailure ''handoff_visibility_decode'' External)
             | Some record \<Rightarrow> Inr (handoff_is_visible_to record actor))
          else if kind = ''handoff_context'' then
            (case cd_context_of cod body of
               None \<Rightarrow> Inl (StorageFailure ''handoff_context_visibility_decode'' External)
             | Some record \<Rightarrow> Inr (context_is_visible_to record actor))
          else Inr True)"

section \<open>Reads\<close>

text \<open>The loop of \<open>changes\<close> over the entries of a batch.\<close>

definition entry_visible ::
  "codec \<Rightarrow> ('st, 'x) command_store_scheme \<Rightarrow> 'st \<Rightarrow> project_scope \<Rightarrow> actor_id \<Rightarrow> change_entry
    \<Rightarrow> bool domain_result" where
  "entry_visible cod store s scope actor e =
    (if \<not> is_participant_scoped_kind (rf_kind (ce_resource e)) then Inr True
     else and_then (cs_resource store s scope (ce_resource e)) (\<lambda>found.
       case found of None \<Rightarrow> Inr False | Some r \<Rightarrow> resource_visible_to cod actor r))"

definition service_changes ::
  "codec \<Rightarrow> ('st, 'x) command_store_scheme \<Rightarrow> authenticated_actor \<Rightarrow> project_membership
    \<Rightarrow> change_cursor \<Rightarrow> nat \<Rightarrow> 'st \<Rightarrow> change_batch domain_result" where
  "service_changes cod store auth m cursor limit s =
     and_then (access_authorize auth m) (\<lambda>access.
     let scope = access_scope access in
     and_then (cs_changes store s scope cursor limit) (\<lambda>batch.
     and_then (filter_results (entry_visible cod store s scope (aa_actor_id auth))
       (cb_entries batch)) (\<lambda>entries.
       batch_projected scope (cb_cursor batch) entries (cb_next_cursor batch) (cb_has_more batch))))"

definition service_materialized_changes ::
  "codec \<Rightarrow> ('st, 'x) command_store_scheme \<Rightarrow> authenticated_actor \<Rightarrow> project_membership
    \<Rightarrow> change_cursor \<Rightarrow> nat \<Rightarrow> 'st \<Rightarrow> materialized_batch domain_result" where
  "service_materialized_changes cod store auth m cursor limit s =
     and_then (access_authorize auth m) (\<lambda>access.
     let scope = access_scope access in
     and_then (cs_materialized_changes store s scope cursor limit) (\<lambda>batch.
     and_then (filter_results (\<lambda>e. resource_visible_to cod (aa_actor_id auth) (mz_resource e))
       (mb_entries batch)) (\<lambda>entries.
       materialized_batch_projected scope (mb_cursor batch) entries (mb_next_cursor batch)
         (mb_has_more batch))))"

definition service_snapshot ::
  "codec \<Rightarrow> ('st, 'x) command_store_scheme \<Rightarrow> authenticated_actor \<Rightarrow> project_membership
    \<Rightarrow> project_id \<Rightarrow> 'st \<Rightarrow> project_snapshot domain_result" where
  "service_snapshot cod store auth m pid s =
    (if pm_project_id m \<noteq> pid then Inl (ProjectScopeMismatch pid (pm_project_id m))
     else
       and_then (access_authorize auth m) (\<lambda>access.
       let scope = access_scope access in
       and_then (cs_snapshot store s scope) (\<lambda>snap.
       and_then (filter_results (resource_visible_to cod (aa_actor_id auth)) (sn_resources snap))
         (\<lambda>resources. snapshot_new scope (sn_project_epoch snap) (sn_at_seq snap) resources))))"

definition service_resource ::
  "('st, 'x) command_store_scheme \<Rightarrow> authenticated_actor \<Rightarrow> project_membership \<Rightarrow> project_id
    \<Rightarrow> resource_ref \<Rightarrow> 'st \<Rightarrow> canonical_resource option domain_result" where
  "service_resource store auth m pid ref s =
    (if pm_project_id m \<noteq> pid then Inl (ProjectScopeMismatch pid (pm_project_id m))
     else and_then (access_authorize auth m) (\<lambda>access.
       cs_resource store s (access_scope access) ref))"

definition service_visible_resource ::
  "codec \<Rightarrow> ('st, 'x) command_store_scheme \<Rightarrow> authenticated_actor \<Rightarrow> project_membership
    \<Rightarrow> project_id \<Rightarrow> resource_ref \<Rightarrow> 'st \<Rightarrow> canonical_resource option domain_result" where
  "service_visible_resource cod store auth m pid ref s =
     and_then (service_resource store auth m pid ref s) (\<lambda>found.
       case found of
         None \<Rightarrow> Inr None
       | Some r \<Rightarrow> and_then (resource_visible_to cod (aa_actor_id auth) r) (\<lambda>visible.
           Inr (if visible then Some r else None)))"

definition service_handoffs ::
  "('st, 'x) handoff_store_scheme \<Rightarrow> authenticated_actor \<Rightarrow> project_membership \<Rightarrow> project_id
    \<Rightarrow> handoff_query \<Rightarrow> 'st \<Rightarrow> handoff_page domain_result" where
  "service_handoffs store auth m pid query s =
    (if pm_project_id m \<noteq> pid then Inl (ProjectScopeMismatch pid (pm_project_id m))
     else and_then (access_authorize auth m) (\<lambda>access.
       hs_handoffs store s (access_scope access) (aa_actor_id auth) query))"

end
