(* ===== verification/Service_Visibility.thy ===== *)
theory Service_Visibility
  imports Service
begin

text \<open>
  The visibility projection of the service: against any store that meets the ledger contract, a
  projected feed page or snapshot holds exactly the visible part of the store's answer, with the
  same cursors.
\<close>

section \<open>Projecting valid batches\<close>

lemma le_last_sorted:
  fixes xs :: "'a :: linorder list"
  shows "sorted_wrt (<) xs \<Longrightarrow> x \<in> set xs \<Longrightarrow> x \<le> last xs"
  by (induction xs rule: rev_induct) (auto simp: sorted_wrt_append less_imp_le)

lemma last_seq_filter_le:
  fixes f :: "'a \<Rightarrow> u64"
  assumes "sorted_wrt (<) (c # map f ms)"
  shows "sorted_wrt (<) (c # map f (filter p ms))"
    and "last (c # map f (filter p ms)) \<le> last (c # map f ms)"
proof -
  show "sorted_wrt (<) (c # map f (filter p ms))"
    using assms by (auto simp: sorted_wrt_map intro: sorted_wrt_filter)
  have "last (c # map f (filter p ms)) \<in> set (c # map f (filter p ms))"
    by (rule last_in_set) simp
  then have "last (c # map f (filter p ms)) \<in> set (c # map f ms)"
    by (auto simp del: last.simps)
  then show "last (c # map f (filter p ms)) \<le> last (c # map f ms)"
    by (rule le_last_sorted [OF assms])
qed

lemma last_seq_advances:
  fixes f :: "'a \<Rightarrow> u64"
  assumes "sorted_wrt (<) (c # map f ms)" "ms \<noteq> []"
  shows "c < last (c # map f ms)"
proof -
  have "last (map f ms) \<in> set (map f ms)" using assms(2) by (intro last_in_set) simp
  with assms show ?thesis by (auto simp: last_map)
qed

lemma materialized_projection:
  assumes "materialized_batch_new scope cursor ms hm = Inr b"
  shows "materialized_batch_projected scope (mb_cursor b) (filter p (mb_entries b)) (mb_next_cursor b)
      (mb_has_more b) = Inr (b\<lparr>mb_entries := filter p (mb_entries b)\<rparr>)"
proof -
  have b: "\<forall>m\<in>set ms. materialized_ok scope m \<and> ce_project_epoch (mz_change m) = cu_project_epoch cursor"
    "sorted_wrt (<) (cu_after_seq cursor # map (ce_seq \<circ> mz_change) ms)" "hm \<longrightarrow> ms \<noteq> []"
    "b = \<lparr>mb_scope = scope, mb_cursor = cursor, mb_entries = ms,
       mb_next_cursor = \<lparr>cu_project_epoch = cu_project_epoch cursor,
         cu_after_seq = last (cu_after_seq cursor # map (ce_seq \<circ> mz_change) ms)\<rparr>, mb_has_more = hm\<rparr>"
    using assms by (simp_all add: materialized_batch_new_Inr_iff)
  show ?thesis
    using last_seq_filter_le [OF b(2)] last_seq_advances [OF b(2)] b(1,3)
    unfolding materialized_batch_projected_Inr_iff b(4) by auto
qed

lemma plain_projection:
  assumes "batch_new scope cursor es hm = Inr b"
  shows "batch_projected scope (cb_cursor b) (filter p (cb_entries b)) (cb_next_cursor b)
      (cb_has_more b) = Inr (b\<lparr>cb_entries := filter p (cb_entries b)\<rparr>)"
proof -
  have b: "\<forall>e\<in>set es. entry_in_scope scope (cu_project_epoch cursor) e"
    "sorted_wrt (<) (cu_after_seq cursor # map ce_seq es)" "hm \<longrightarrow> es \<noteq> []"
    "b = \<lparr>cb_scope = scope, cb_cursor = cursor, cb_entries = es,
       cb_next_cursor = \<lparr>cu_project_epoch = cu_project_epoch cursor,
         cu_after_seq = last (cu_after_seq cursor # map ce_seq es)\<rparr>, cb_has_more = hm\<rparr>"
    using assms by (simp_all add: batch_new_Inr_iff)
  show ?thesis
    using last_seq_filter_le [OF b(2)] last_seq_advances [OF b(2)] b(1,3)
    unfolding batch_projected_Inr_iff b(4) by auto
qed

lemma snapshot_projection:
  assumes "snapshot_new scope epoch seq rs = Inr b"
  shows "snapshot_new scope (sn_project_epoch b) (sn_at_seq b) (filter p (sn_resources b)) =
    Inr (b\<lparr>sn_resources := filter p (sn_resources b)\<rparr>)"
  using assms by (auto simp: snapshot_new_Inr_iff distinct_map_filter)

section \<open>Answers of the ledger are valid batches\<close>

lemma ledger_materialized_valid:
  assumes "ledger_ok dec L" "ledger_materialized L scope cursor limit = Inr b"
  shows "materialized_batch_new scope cursor (mb_entries b) (mb_has_more b) = Inr b"
proof -
  obtain w where w: "feed_window L scope cursor limit = Inr w"
    and b: "b = \<lparr>mb_scope = scope, mb_cursor = cursor,
      mb_entries = map (entry_materialized scope (cu_project_epoch cursor)) w,
      mb_next_cursor = feed_next cursor w, mb_has_more = feed_has_more L scope cursor limit\<rparr>"
    using assms(2) by (auto simp: ledger_materialized_def result_iffs)
  from feed_window_Inr [OF w] obtain log where log: "L scope = Some (cu_project_epoch cursor, log)"
    "0 < limit" "unat (cu_after_seq cursor) \<le> length log"
    "w = take limit (drop (unat (cu_after_seq cursor)) log)" by blast
  have ok: "log_ok dec scope log" using ledger_ok_log [OF assms(1), of scope] log(1) by simp
  show ?thesis
    using feed_batch [OF ok log(4,3,2), of "mz_change \<circ> entry_materialized scope (cu_project_epoch cursor)"]
      entry_materialized_ok [OF ok, of _ "cu_project_epoch cursor"] log
    by (auto simp: materialized_batch_new_Inr_iff b feed_next_def feed_has_more_def comp_def
        dest!: in_set_takeD in_set_dropD)
qed

lemma ledger_changes_valid:
  assumes "ledger_ok dec L" "ledger_changes L scope cursor limit = Inr b"
  shows "batch_new scope cursor (cb_entries b) (cb_has_more b) = Inr b"
proof -
  obtain w where w: "feed_window L scope cursor limit = Inr w"
    and b: "b = \<lparr>cb_scope = scope, cb_cursor = cursor,
      cb_entries = map (entry_change scope (cu_project_epoch cursor)) w,
      cb_next_cursor = feed_next cursor w, cb_has_more = feed_has_more L scope cursor limit\<rparr>"
    using assms(2) by (auto simp: ledger_changes_def result_iffs)
  from feed_window_Inr [OF w] obtain log where log: "L scope = Some (cu_project_epoch cursor, log)"
    "0 < limit" "unat (cu_after_seq cursor) \<le> length log"
    "w = take limit (drop (unat (cu_after_seq cursor)) log)" by blast
  have ok: "log_ok dec scope log" using ledger_ok_log [OF assms(1), of scope] log(1) by simp
  show ?thesis
    using feed_batch [OF ok log(4,3,2), of "entry_change scope (cu_project_epoch cursor)"] log
    by (auto simp: batch_new_Inr_iff b feed_next_def feed_has_more_def entry_in_scope_def
        entry_change_def)
qed

lemma ledger_snapshot_valid:
  assumes "ledger_ok dec L" "ledger_snapshot L scope = Inr b"
  shows "snapshot_new scope (sn_project_epoch b) (sn_at_seq b) (sn_resources b) = Inr b"
proof -
  obtain epoch log where L: "L scope = Some (epoch, log)"
    and b: "b = \<lparr>sn_scope = scope, sn_project_epoch = epoch, sn_at_seq = of_nat (length log),
      sn_resources = map (\<lambda>ref. the (ledger_resource L scope ref))
        (sort_key ref_key (remdups (map le_ref log)))\<rparr>"
    using assms(2) by (auto simp: ledger_snapshot_def Let_def split: option.splits if_splits)
  have coord: "cr_resource (the (ledger_resource L scope ref)) = ref \<and>
      cr_scope (the (ledger_resource L scope ref)) = scope" if ref: "ref \<in> le_ref ` set log" for ref
  proof -
    obtain e where "last_entry log ref = Some e"
      using ref last_entry_None [of log ref] by (cases "last_entry log ref") auto
    then show ?thesis
      using last_entry_Some [of log ref e] L by (simp add: ledger_resource_def entry_resource_def)
  qed
  then have "map cr_resource (sn_resources b) = sort_key ref_key (remdups (map le_ref log))"
    by (auto simp: b intro!: map_idI)
  then show ?thesis
    using coord by (auto simp: snapshot_new_Inr_iff b simp del: map_map)
qed

text \<open>
  The command fingerprint identifies the request: the hexadecimal form of a digest determines the
  digest, and the canonical material determines every field of the request up to the order of the
  payload's object entries.
\<close>

section \<open>Hexadecimal digests\<close>

lemma hex_digit_inject: "m < 16 \<Longrightarrow> n < 16 \<Longrightarrow> hex_digit m = hex_digit n \<longleftrightarrow> m = n"
  by (auto simp: hex_digit_def of_char_eq_iff [symmetric] simp del: of_char_eq_iff split: if_splits)

lemma unat_u8: "unat (b :: u8) < 256"
  by (rule order_less_le_trans [OF unsigned_less]) simp

lemma hex_byte_inject [simp]: "hex_byte a = hex_byte b \<longleftrightarrow> a = b"
proof
  assume "hex_byte a = hex_byte b"
  moreover have "unat a div 16 < 16" "unat b div 16 < 16"
    using unat_u8 [of a] unat_u8 [of b] by (simp_all add: div_less_iff_less_mult)
  ultimately have "unat a div 16 = unat b div 16" "unat a mod 16 = unat b mod 16"
    by (simp_all add: hex_byte_def hex_digit_inject)
  then have "unat a = unat b" by (metis div_mult_mod_eq)
  then show "a = b" by (simp add: word_unat_eq_iff)
qed simp

lemma hex_inject: "concat (map hex_byte ds) = concat (map hex_byte es) \<longleftrightarrow> ds = es"
proof (induction ds arbitrary: es)
  case Nil
  then show ?case by (cases es) (simp_all add: hex_byte_def)
next
  case (Cons d ds)
  have two: "length (hex_byte x) = 2" "hex_byte x \<noteq> []" for x by (simp_all add: hex_byte_def)
  show ?case
    by (cases es) (simp_all add: append_eq_append_conv two Cons.IH)
qed

lemma hex_digit_lower: "n < 16 \<Longrightarrow> is_lower_hex (hex_digit n)"
  by (simp add: hex_digit_def is_lower_hex_def is_ascii_digit_def byte_between_def)

lemma hex_fingerprint_ok: "length d = 32 \<Longrightarrow> fingerprint_ok (concat (map hex_byte d))"
proof -
  have len: "length (concat (map hex_byte ds)) = 2 * length ds" for ds
    by (induction ds) (simp_all add: hex_byte_def)
  have "list_all is_lower_hex (concat (map hex_byte ds))" for ds
    using unat_u8 by (induction ds) (simp_all add: hex_byte_def hex_digit_lower div_less_iff_less_mult)
  with len show "length d = 32 \<Longrightarrow> fingerprint_ok (concat (map hex_byte d))"
    by (simp add: fingerprint_ok_def)
qed

section \<open>Canonical material\<close>

lemma struct_eq_iff:
  assumes "distinct (map fst es)" "distinct (map fst fs)"
  shows "canonicalize_json (json_struct es) = canonicalize_json (json_struct fs) \<longleftrightarrow>
    (\<forall>k. map_option canonicalize_json (map_of es k) = map_option canonicalize_json (map_of fs k))"
proof -
  have "distinct (map fst (sort_key fst es))" "distinct (map fst (sort_key fst fs))"
    using assms by (simp_all add: distinct_map)
  from canonical_object_iff [OF this] show ?thesis
    by (simp only: json_struct_def map_of_sort_key [OF assms(1)] map_of_sort_key [OF assms(2)])
qed

lemma ref_material_iff: "canonicalize_json (ref_json r) = canonicalize_json (ref_json q) \<longleftrightarrow> r = q"
proof
  assume "canonicalize_json (ref_json r) = canonicalize_json (ref_json q)"
  then have eq: "\<forall>k. map_option canonicalize_json
      (map_of [(''kind'', JString (rf_kind r)), (''id'', JString (rf_id r))] k) =
    map_option canonicalize_json
      (map_of [(''kind'', JString (rf_kind q)), (''id'', JString (rf_id q))] k)"
    unfolding ref_json_def by (subst (asm) struct_eq_iff) simp_all
  show "r = q"
    using eq [rule_format, of "''kind''"] eq [rule_format, of "''id''"]
    by (simp add: resource_ref.equality)
qed simp

lemma change_json_inject: "canonicalize_json (change_json a) = canonicalize_json (change_json b) \<longleftrightarrow> a = b"
  by (cases a; cases b) simp_all

lemma revision_json_inject:
  "canonicalize_json (revision_option_json a) = canonicalize_json (revision_option_json b) \<longleftrightarrow> a = b"
  by (cases a; cases b) (simp_all add: revision_option_json_def word_uint_eq_iff)

definition same_request ::
  "json command_envelope \<Rightarrow> resource_ref \<Rightarrow> change_operation \<Rightarrow> json command_envelope \<Rightarrow> resource_ref
    \<Rightarrow> change_operation \<Rightarrow> bool" where
  "same_request env1 ref1 ch1 env2 ref2 ch2 \<longleftrightarrow>
     en_project_id env1 = en_project_id env2 \<and>
     en_expected_revision env1 = en_expected_revision env2 \<and>
     en_operation env1 = en_operation env2 \<and> json_equiv (en_payload env1) (en_payload env2) \<and>
     ref1 = ref2 \<and> ch1 = ch2"

lemma material_iff:
  assumes "json_wf (en_payload env1)" "json_wf (en_payload env2)"
  shows "canonicalize_json (fingerprint_material env1 ref1 ch1) =
      canonicalize_json (fingerprint_material env2 ref2 ch2) \<longleftrightarrow>
    same_request env1 ref1 ch1 env2 ref2 ch2"
proof -
  let ?es = "\<lambda>env ref ch. [(''project_id'', JString (en_project_id env)),
      (''expected_revision'', revision_option_json (en_expected_revision env)),
      (''operation'', JString (en_operation env)), (''payload'', en_payload env),
      (''resource'', ref_json ref), (''change'', change_json ch)]"
  have "canonicalize_json (fingerprint_material env1 ref1 ch1) =
      canonicalize_json (fingerprint_material env2 ref2 ch2) \<longleftrightarrow>
    (\<forall>k. map_option canonicalize_json (map_of (?es env1 ref1 ch1) k) =
      map_option canonicalize_json (map_of (?es env2 ref2 ch2) k))" (is "_ \<longleftrightarrow> (\<forall>k. ?eq k)")
    unfolding fingerprint_material_def by (rule struct_eq_iff) simp_all
  moreover have "(\<forall>k. ?eq k) \<longleftrightarrow> same_request env1 ref1 ch1 env2 ref2 ch2"
  proof
    assume "\<forall>k. ?eq k"
    then have "?eq ''project_id''" "?eq ''expected_revision''" "?eq ''operation''" "?eq ''payload''"
      "?eq ''resource''" "?eq ''change''"
      by blast+
    then show "same_request env1 ref1 ch1 env2 ref2 ch2"
      using assms by (simp add: same_request_def canonical_eq_iff ref_material_iff change_json_inject
          revision_json_inject)
  next
    assume "same_request env1 ref1 ch1 env2 ref2 ch2"
    moreover from this have "canonicalize_json (en_payload env1) = canonicalize_json (en_payload env2)"
      using assms by (simp add: same_request_def canonical_eq_iff)
    ultimately show "\<forall>k. ?eq k" by (simp add: same_request_def)
  qed
  ultimately show ?thesis by simp
qed

section \<open>Fingerprints\<close>

text \<open>
  The hypotheses on the encodings: SHA-256 digests have 32 bytes, and the two canonical materials at
  hand do not collide. (No digest is injective on all values.)
\<close>

definition digest_material ::
  "codec \<Rightarrow> json command_envelope \<Rightarrow> resource_ref \<Rightarrow> change_operation \<Rightarrow> bytes" where
  "digest_material cod env ref ch =
     cd_sha256 cod (cd_to_vec cod (canonicalize_json (fingerprint_material env ref ch)))"

definition sha256_sized :: "codec \<Rightarrow> bool" where
  "sha256_sized cod \<longleftrightarrow> (\<forall>bs. length (cd_sha256 cod bs) = 32)"

definition no_collision ::
  "codec \<Rightarrow> json command_envelope \<Rightarrow> resource_ref \<Rightarrow> change_operation \<Rightarrow> json command_envelope
    \<Rightarrow> resource_ref \<Rightarrow> change_operation \<Rightarrow> bool" where
  "no_collision cod env1 ref1 ch1 env2 ref2 ch2 \<longleftrightarrow>
     (digest_material cod env1 ref1 ch1 = digest_material cod env2 ref2 ch2 \<longrightarrow>
      canonicalize_json (fingerprint_material env1 ref1 ch1) =
      canonicalize_json (fingerprint_material env2 ref2 ch2))"

lemma command_fingerprint_eq:
  "sha256_sized cod \<Longrightarrow>
    command_fingerprint cod env ref ch = Inr (concat (map hex_byte (digest_material cod env ref ch)))"
  by (simp add: command_fingerprint_def digest_material_def sha256_sized_def hex_fingerprint_ok Let_def)

lemma fingerprint_binds:
  assumes "sha256_sized cod" "json_wf (en_payload env1)" "json_wf (en_payload env2)"
    and "no_collision cod env1 ref1 ch1 env2 ref2 ch2"
  shows "command_fingerprint cod env1 ref1 ch1 = command_fingerprint cod env2 ref2 ch2 \<longleftrightarrow>
    same_request env1 ref1 ch1 env2 ref2 ch2"
proof -
  have "digest_material cod env1 ref1 ch1 = digest_material cod env2 ref2 ch2 \<longleftrightarrow>
      canonicalize_json (fingerprint_material env1 ref1 ch1) =
      canonicalize_json (fingerprint_material env2 ref2 ch2)"
    using assms(4) unfolding no_collision_def by (metis digest_material_def)
  then show ?thesis
    by (simp add: command_fingerprint_eq [OF assms(1)] hex_inject material_iff [OF assms(2,3)])
qed

end
