(* ===== verification/Service_Properties.thy ===== *)
theory Service_Properties
  imports Service_Visibility Store_Properties
begin

text \<open>
  What the command service guarantees over any ledger store, and therefore over the SQLite store:
  writes only under an active writable membership, requests bound to their command ids, reads
  projected exactly to what the caller may see.
\<close>

section \<open>Projected reads\<close>

text \<open>
  Who may see a resource: a handoff and a handoff context only the two actors their record names,
  and only while it exists; anything else every member.
\<close>

definition may_see :: "codec \<Rightarrow> actor_id \<Rightarrow> canonical_resource \<Rightarrow> bool" where
  "may_see cod actor r \<longleftrightarrow>
     (rf_kind (cr_resource r) = ''handoff'' \<longrightarrow>
        (\<exists>body h. cr_state r = Present body \<and> cd_handoff_of cod body = Some h \<and>
          (hr_from_actor h = actor \<or> hr_to_actor h = actor))) \<and>
     (rf_kind (cr_resource r) = ''handoff_context'' \<longrightarrow>
        (\<exists>body c. cr_state r = Present body \<and> cd_context_of cod body = Some c \<and>
          (hc_from_actor c = actor \<or> hc_to_actor c = actor)))"

definition handoff_decodes :: "codec \<Rightarrow> canonical_resource \<Rightarrow> bool" where
  "handoff_decodes cod r \<longleftrightarrow> (\<forall>body. rf_kind (cr_resource r) = ''handoff'' \<longrightarrow>
     cr_state r = Present body \<longrightarrow> cd_handoff_of cod body \<noteq> None)"

definition context_decodes :: "codec \<Rightarrow> canonical_resource \<Rightarrow> bool" where
  "context_decodes cod r \<longleftrightarrow> (\<forall>body. rf_kind (cr_resource r) = ''handoff_context'' \<longrightarrow>
     cr_state r = Present body \<longrightarrow> cd_context_of cod body \<noteq> None)"

lemma decoded_visible:
  "handoff_decodes cod r \<Longrightarrow> context_decodes cod r \<Longrightarrow>
    resource_visible_to cod actor r = Inr (may_see cod actor r)"
  by (auto simp: may_see_def resource_visible_to_def handoff_decodes_def context_decodes_def
      is_participant_scoped_kind_def handoff_is_visible_to_def context_is_visible_to_def Let_def
      split: resource_state.splits option.splits)

definition membership_admits :: "authenticated_actor \<Rightarrow> project_membership \<Rightarrow> bool" where
  "membership_admits auth m \<longleftrightarrow> aa_tenant_id auth = pm_tenant_id m \<and>
     aa_actor_id auth = pm_actor_id m \<and> pm_status m = MembershipActive"

definition member_scope :: "project_membership \<Rightarrow> project_scope" where
  "member_scope m = scope_new (pm_tenant_id m) (pm_project_id m)"

lemma access_granted:
  assumes "membership_admits auth m"
  obtains access where "access_authorize auth m = Inr access" "access_scope access = member_scope m"
    "pa_role access = pm_role m"
proof -
  let ?access = "\<lparr>pa_tenant_id = pm_tenant_id m, pa_project_id = pm_project_id m,
    pa_actor_id = pm_actor_id m, pa_role = pm_role m\<rparr>"
  have "access_authorize auth m = Inr ?access"
    using assms by (simp add: membership_admits_def access_authorize_def)
  then show ?thesis
    by (rule that) (simp_all add: access_scope_def member_scope_def)
qed

lemma entry_handoff_decodes:
  "entry_ok dec scope e \<Longrightarrow> cd_handoff_of cod = dec \<Longrightarrow> handoff_decodes cod (entry_resource scope e)"
  by (auto simp: entry_ok_def handoff_decodes_def entry_resource_def le_ref_def state_of_def
      check_handoff_body_def Let_def split: change_operation.splits option.splits)

lemma log_entry_ok: "ledger_ok dec L \<Longrightarrow> e \<in> set (log_of L scope) \<Longrightarrow> entry_ok dec scope e"
  using ledger_ok_log [of dec L scope] by (auto simp: log_ok_def)

lemma ledger_resource_decodes:
  assumes "ledger_ok dec L" "cd_handoff_of cod = dec" "ledger_resource L scope ref = Some r"
  shows "handoff_decodes cod r"
  using assms(3) log_entry_ok [OF assms(1)] entry_handoff_decodes [OF _ assms(2)]
  by (auto simp: ledger_resource_def dest!: last_entry_Some)

lemma materialized_decodes:
  assumes "ledger_ok dec L" "cd_handoff_of cod = dec" "ledger_materialized L scope cursor limit = Inr b"
    and "e \<in> set (mb_entries b)"
  shows "handoff_decodes cod (mz_resource e)"
proof -
  obtain x where "x \<in> set (log_of L scope)" "mz_resource e = entry_resource scope x"
    using assms(3,4) by (auto simp: ledger_materialized_def feed_window_def entry_materialized_def
        result_iffs split: option.splits if_splits dest!: in_set_takeD in_set_dropD)
  then show ?thesis using log_entry_ok [OF assms(1)] entry_handoff_decodes [OF _ assms(2)] by simp
qed

lemma snapshot_decodes:
  assumes "ledger_ok dec L" "cd_handoff_of cod = dec" "ledger_snapshot L scope = Inr b"
    and "r \<in> set (sn_resources b)"
  shows "handoff_decodes cod r"
proof -
  obtain ref where ref: "ref \<in> le_ref ` set (log_of L scope)" "r = the (ledger_resource L scope ref)"
    using that assms(3,4)
    by (force simp: ledger_snapshot_def Let_def split: option.splits if_splits)
  then have "ledger_resource L scope ref = Some r"
    using last_entry_None [of "log_of L scope" ref]
    by (cases "last_entry (log_of L scope) ref") (auto simp: ledger_resource_def)
  then show ?thesis by (rule ledger_resource_decodes [OF assms(1,2)])
qed

context ledger_store
begin

lemma materialized_projected:
  assumes "rep s L" "membership_admits auth m" "cd_handoff_of cod = dec"
    and "cs_materialized_changes store s (member_scope m) cursor limit = Inr full"
    and "\<forall>e\<in>set (mb_entries full). context_decodes cod (mz_resource e)"
  shows "service_materialized_changes cod store auth m cursor limit s =
    Inr (full\<lparr>mb_entries := filter (\<lambda>e. may_see cod (aa_actor_id auth) (mz_resource e))
      (mb_entries full)\<rparr>)"
proof -
  obtain access where access: "access_authorize auth m = Inr access" "access_scope access = member_scope m"
    using access_granted [OF assms(2)] by blast
  have full: "ledger_materialized L (member_scope m) cursor limit = Inr full"
    using assms(4) materialized_read [OF assms(1)] by simp
  have "resource_visible_to cod (aa_actor_id auth) (mz_resource e) =
      Inr (may_see cod (aa_actor_id auth) (mz_resource e))" if "e \<in> set (mb_entries full)" for e
    using materialized_decodes [OF rep_ok [OF assms(1)] assms(3) full that] assms(5) that
    by (intro decoded_visible) auto
  then have "filter_results (\<lambda>e. resource_visible_to cod (aa_actor_id auth) (mz_resource e))
      (mb_entries full) = Inr (filter (\<lambda>e. may_see cod (aa_actor_id auth) (mz_resource e))
        (mb_entries full))"
    by (rule filter_results_all_Inr)
  then show ?thesis
    using assms(4) materialized_projection [OF ledger_materialized_valid [OF rep_ok [OF assms(1)] full]]
    by (simp add: service_materialized_changes_def access Let_def)
qed

lemma snapshot_projected:
  assumes "rep s L" "membership_admits auth m" "cd_handoff_of cod = dec" "pm_project_id m = pid"
    and "cs_snapshot store s (member_scope m) = Inr full"
    and "\<forall>r\<in>set (sn_resources full). context_decodes cod r"
  shows "service_snapshot cod store auth m pid s =
    Inr (full\<lparr>sn_resources := filter (may_see cod (aa_actor_id auth)) (sn_resources full)\<rparr>)"
proof -
  obtain access where access: "access_authorize auth m = Inr access" "access_scope access = member_scope m"
    using access_granted [OF assms(2)] by blast
  have full: "ledger_snapshot L (member_scope m) = Inr full"
    using assms(5) snapshot_read [OF assms(1)] by simp
  have "resource_visible_to cod (aa_actor_id auth) r = Inr (may_see cod (aa_actor_id auth) r)"
    if "r \<in> set (sn_resources full)" for r
    using snapshot_decodes [OF rep_ok [OF assms(1)] assms(3) full that] assms(6) that
    by (intro decoded_visible) auto
  then have "filter_results (resource_visible_to cod (aa_actor_id auth)) (sn_resources full) =
      Inr (filter (may_see cod (aa_actor_id auth)) (sn_resources full))"
    by (rule filter_results_all_Inr)
  then show ?thesis
    using assms(4,5) snapshot_projection [OF ledger_snapshot_valid [OF rep_ok [OF assms(1)] full]]
    by (simp add: service_snapshot_def access Let_def)
qed

text \<open>The plain feed judges an entry by the current state of its resource.\<close>

lemma changes_projected:
  assumes "rep s L" "membership_admits auth m" "cd_handoff_of cod = dec"
    and "cs_changes store s (member_scope m) cursor limit = Inr full"
    and "\<forall>ref r. cs_resource store s (member_scope m) ref = Inr (Some r) \<longrightarrow> context_decodes cod r"
  shows "service_changes cod store auth m cursor limit s =
    Inr (full\<lparr>cb_entries := filter (\<lambda>e. case ledger_resource L (member_scope m) (ce_resource e) of
        None \<Rightarrow> \<not> is_participant_scoped_kind (rf_kind (ce_resource e))
      | Some r \<Rightarrow> may_see cod (aa_actor_id auth) r) (cb_entries full)\<rparr>)"
proof -
  obtain access where access: "access_authorize auth m = Inr access" "access_scope access = member_scope m"
    using access_granted [OF assms(2)] by blast
  have full: "ledger_changes L (member_scope m) cursor limit = Inr full"
    using assms(4) changes_read [OF assms(1)] by simp
  have decodes: "resource_visible_to cod actor r = Inr (may_see cod actor r)"
    "rf_kind (cr_resource r) = rf_kind ref"
    if "ledger_resource L (member_scope m) ref = Some r" for actor ref r
    using ledger_resource_decodes [OF rep_ok [OF assms(1)] assms(3) that] assms(5) that
      resource_read [OF assms(1)]
    by (auto intro!: decoded_visible simp: ledger_resource_def entry_resource_def
        dest: last_entry_Some)
  have "entry_visible cod store s (member_scope m) (aa_actor_id auth) e =
      Inr (case ledger_resource L (member_scope m) (ce_resource e) of
        None \<Rightarrow> \<not> is_participant_scoped_kind (rf_kind (ce_resource e))
      | Some r \<Rightarrow> may_see cod (aa_actor_id auth) r)" for e
    using resource_read [OF assms(1)] decodes
    by (auto simp: entry_visible_def may_see_def is_participant_scoped_kind_def split: option.splits)
  then have "filter_results (entry_visible cod store s (member_scope m) (aa_actor_id auth))
      (cb_entries full) = Inr (filter (\<lambda>e. case ledger_resource L (member_scope m) (ce_resource e) of
        None \<Rightarrow> \<not> is_participant_scoped_kind (rf_kind (ce_resource e))
      | Some r \<Rightarrow> may_see cod (aa_actor_id auth) r) (cb_entries full))"
    by (rule filter_results_all_Inr)
  then show ?thesis
    using assms(4) plain_projection [OF ledger_changes_valid [OF rep_ok [OF assms(1)] full]]
    by (simp add: service_changes_def access Let_def)
qed

end

end
