(* ===== verification/Service_Writes.thy ===== *)
theory Service_Writes
  imports Service_Visibility Service_Properties
begin

text \<open>
  The write path of the service: which commands reach the store, and the properties of the whole
  stack - service over SQLite store - that clients rely on.
\<close>

section \<open>Which commands reach the store\<close>

definition write_admitted :: "authenticated_actor \<Rightarrow> project_membership \<Rightarrow> project_id \<Rightarrow> bool" where
  "write_admitted auth m pid \<longleftrightarrow>
     membership_admits auth m \<and> can_mutate (pm_role m) \<and> pm_project_id m = pid"

definition prepared_command ::
  "codec \<Rightarrow> project_membership \<Rightarrow> json command_envelope \<Rightarrow> resource_ref \<Rightarrow> change_operation
    \<Rightarrow> bytes option \<Rightarrow> mutation_command" where
  "prepared_command cod m env ref ch body =
     \<lparr>mc_command = \<lparr>ac_authorization = \<lparr>pz_tenant_id = pm_tenant_id m,
        pz_project_id = pm_project_id m, pz_actor_id = pm_actor_id m, pz_role = pm_role m\<rparr>,
        ac_envelope = metadata_envelope env\<rparr>,
      mc_fingerprint = concat (map hex_byte (digest_material cod env ref ch)),
      mc_resource = ref, mc_change = ch, mc_resource_body = body\<rparr>"

lemma prepared_simps [simp]:
  "command_scope (prepared_command cod m env ref ch body) = member_scope m"
  "command_actor (prepared_command cod m env ref ch body) = pm_actor_id m"
  "command_id_of (prepared_command cod m env ref ch body) = en_command_id env"
  "mc_fingerprint (prepared_command cod m env ref ch body) =
     concat (map hex_byte (digest_material cod env ref ch))"
  "mc_resource (prepared_command cod m env ref ch body) = ref"
  "mc_change (prepared_command cod m env ref ch body) = ch"
  "mc_resource_body (prepared_command cod m env ref ch body) = body"
  "en_expected_revision (ac_envelope (mc_command (prepared_command cod m env ref ch body))) =
     en_expected_revision env"
  by (simp_all add: prepared_command_def command_scope_def command_actor_def command_id_of_def
      authorization_scope_def member_scope_def metadata_envelope_def)

lemma prepared_granted:
  assumes "sha256_sized cod" "write_admitted auth m (en_project_id env)"
  shows "execute_prepared cod store auth m env ref ch body s =
    cs_execute store (prepared_command cod m env ref ch body) s"
  using assms by (simp add: execute_prepared_def write_admitted_def membership_admits_def
      access_authorize_def require_write_def command_fingerprint_eq command_authorize_def
      metadata_envelope_def prepared_command_def)

lemma prepared_refused:
  assumes "\<not> write_admitted auth m (en_project_id env)"
  shows "\<exists>e. execute_prepared cod store auth m env ref ch body s = (s, Inl e)"
  using assms by (auto simp: execute_prepared_def write_admitted_def membership_admits_def
      access_authorize_def require_write_def)

text \<open>What the Rust types guarantee of the arguments.\<close>

definition request_ok :: "project_membership \<Rightarrow> json command_envelope \<Rightarrow> resource_ref \<Rightarrow> bool" where
  "request_ok m env ref \<longleftrightarrow> membership_ok m \<and> id_ok (en_command_id env) \<and>
     name_ok (en_operation env) \<and> ref_ok ref"

lemma prepared_ok:
  assumes "sha256_sized cod" "request_ok m env ref" "pm_project_id m = en_project_id env"
  shows "command_ok (prepared_command cod m env ref ch body)"
proof -
  have "length (digest_material cod env ref ch) = 32"
    using assms(1) by (simp add: sha256_sized_def digest_material_def)
  then show ?thesis
    using assms hex_fingerprint_ok
    by (simp add: command_ok_def request_ok_def membership_ok_def authorization_ok_def)
      (simp add: prepared_command_def metadata_envelope_def)
qed

definition request_body :: "codec \<Rightarrow> json command_envelope \<Rightarrow> change_operation \<Rightarrow> bytes option" where
  "request_body cod env ch =
     (case ch of Upsert \<Rightarrow> Some (canonical_json_bytes cod (en_payload env)) | Delete \<Rightarrow> None)"

lemma request_body_matches [simp]: "body_matches_change ch (request_body cod env ch)"
  by (cases ch) (simp_all add: request_body_def)

lemma service_execute_granted:
  assumes "sha256_sized cod" "write_admitted auth m (en_project_id env)"
  shows "service_execute cod store auth m env ref ch s =
    cs_execute store (prepared_command cod m env ref ch (request_body cod env ch)) s"
  using prepared_granted [OF assms] by (simp add: service_execute_def request_body_def)

lemma sqlite_execute_prepared:
  "cs_execute (sqlite_store dec) c s = (s', r) \<Longrightarrow>
     execute dec (env_now s) c (se_db s) = (se_db s', r)"
  by (auto simp: env_execute_def split: prod.splits)

lemma execute_error_state: "execute dec clock c db = (db', Inl e) \<Longrightarrow> db' = db"
  by (auto simp: execute_def split: sum.splits prod.splits)

section \<open>Write authority\<close>

definition room_for :: "project_scope \<Rightarrow> store_db \<Rightarrow> bool" where
  "room_for scope db \<longleftrightarrow> select_count (\<lambda>r. rc_scope r = scope) (db_receipts db) < i64_max"

text \<open>
  C14. Nothing is written without authority: if the service answers a command with a receipt, the
  caller is the active member the membership names, the role may mutate, the envelope is for that
  project, and the receipt carries the authenticated tenant, actor, project, command id and the
  fingerprint of this request; afterwards the store answers for the command with this receipt. If it
  answers with an error, the database is unchanged.
\<close>

theorem write_authority:
  assumes "store_reachable dec (se_db s)" "sha256_sized cod" "request_ok m env ref"
    and "room_for (member_scope m) (se_db s)"
    and "service_execute cod (sqlite_store dec) auth m env ref ch s = (s', answer)"
  shows "case answer of
      Inl e \<Rightarrow> se_db s' = se_db s
    | Inr r \<Rightarrow> write_admitted auth m (en_project_id env) \<and> cp_tenant_id r = aa_tenant_id auth \<and>
        cp_actor_id r = aa_actor_id auth \<and> cp_project_id r = en_project_id env \<and>
        cp_command_id r = en_command_id env \<and>
        command_fingerprint cod env ref ch = Inr (cp_fingerprint r) \<and>
        receipt (se_db s') (member_scope m) (en_command_id env) = Inr (Some r)"
proof (cases "write_admitted auth m (en_project_id env)")
  case False
  from prepared_refused [OF this] have "\<exists>e. answer = Inl e \<and> s' = s"
    using assms(5) unfolding service_execute_def by (metis prod.inject)
  then show ?thesis by auto
next
  case True
  let ?c = "prepared_command cod m env ref ch (request_body cod env ch)"
  have run: "execute dec (env_now s) ?c (se_db s) = (se_db s', answer)"
    using assms(5) unfolding service_execute_granted [OF assms(2) True]
    by (rule sqlite_execute_prepared)
  obtain L where L: "store_rel dec (se_db s) L" using reachable_rel [OF assms(1)] by blast
  have c: "command_ok ?c"
    using prepared_ok [OF assms(2,3)] True by (simp add: write_admitted_def)
  show ?thesis
  proof (cases answer)
    case (Inl e)
    then show ?thesis using execute_error_state [OF run [unfolded Inl]] by simp
  next
    case (Inr r)
    have "select_count (\<lambda>r. rc_scope r = command_scope ?c) (db_receipts (se_db s)) < i64_max"
      using assms(4) by (simp add: room_for_def)
    from execute_success [OF L c this run [unfolded Inr]]
    obtain L' epoch log e where L': "store_rel dec (se_db s') L'"
      "L' (member_scope m) = Some (epoch, log)" "find_command log (en_command_id env) = Some e"
      "le_receipt e = r" "cp_actor_id r = pm_actor_id m"
      "cp_fingerprint r = concat (map hex_byte (digest_material cod env ref ch))"
      by (metis prepared_simps(1-4))
    have ok: "entry_ok dec (member_scope m) e"
      using log_entry_ok [of dec L' e "member_scope m"] L'(1,2) find_command_Some [OF L'(3)]
      by (simp add: store_rel_def)
    have "receipt (se_db s') (member_scope m) (en_command_id env) = Inr (Some r)"
      using receipt_rel [OF L'(1)] L'(2-4) by (simp add: ledger_receipt_def)
    moreover have "receipt_scope r = member_scope m" using ok L'(4) by (simp add: entry_ok_def Let_def)
    ultimately show ?thesis
      using True L'(5,6) find_command_Some [OF L'(3)] L'(4) Inr
      by (auto simp: write_admitted_def membership_admits_def receipt_scope_def member_scope_def
          command_fingerprint_eq [OF assms(2)])
  qed
qed

section \<open>A concrete service\<close>

text \<open>An encoding and a checksum that are enough to run the service on small requests.\<close>

fun ex_encode :: "json \<Rightarrow> bytes" where
  "ex_encode (JString s) = string_bytes s"
| "ex_encode (JInt i) = [word_of_int i]"
| "ex_encode (JArray vs) = concat (map ex_encode vs)"
| "ex_encode (JObject kvs) = concat (map (\<lambda>kv. string_bytes (fst kv) @ ex_encode (snd kv)) kvs)"
| "ex_encode _ = []"

definition ex_codec :: codec where
  "ex_codec =
     \<lparr>cd_to_vec = ex_encode, cd_sha256 = (\<lambda>bs. sum_list bs # replicate 31 0),
      cd_handoff_of = ex_decode, cd_context_of = (\<lambda>_. None), cd_session_of = (\<lambda>_. None),
      cd_fact_of = (\<lambda>_. None), cd_handoff_value = (\<lambda>_. JNull), cd_context_value = (\<lambda>_. JNull),
      cd_session_value = (\<lambda>_. JNull), cd_fact_value = (\<lambda>_. JNull),
      cd_value_of = (\<lambda>_. None)\<rparr>"

definition ex_auth :: "string \<Rightarrow> authenticated_actor" where
  "ex_auth a = \<lparr>aa_tenant_id = ''t1'', aa_actor_id = a\<rparr>"

definition ex_member :: "string \<Rightarrow> project_membership" where
  "ex_member a = \<lparr>pm_tenant_id = ''t1'', pm_project_id = ''p1'', pm_actor_id = a, pm_role = Writer,
     pm_status = MembershipActive\<rparr>"

definition ex_envelope :: "string \<Rightarrow> json \<Rightarrow> json command_envelope" where
  "ex_envelope cid payload = \<lparr>en_command_id = cid, en_project_id = ''p1'',
     en_expected_revision = None, en_operation = ''fact.add'', en_payload = payload\<rparr>"

definition ex_server :: "store_db \<Rightarrow> sqlite_env" where
  "ex_server db = \<lparr>se_db = db, se_clock = (\<lambda>_. 1000), se_calls = 0\<rparr>"

definition ex_payload :: json where
  "ex_payload = JObject [(''title'', JString ''x''), (''rank'', JInt 3)]"

definition ex_request :: mutation_command where
  "ex_request = prepared_command ex_codec (ex_member ''alice'') (ex_envelope ''k1'' ex_payload) ex_ref
     Upsert (request_body ex_codec (ex_envelope ''k1'' ex_payload) Upsert)"

definition ex_written :: store_db where "ex_written = fst (execute ex_decode 1000 ex_request ex_db0)"

definition ex_answer :: command_receipt where
  "ex_answer = \<lparr>cp_command_id = ''k1'', cp_fingerprint = concat (map hex_byte
       (digest_material ex_codec (ex_envelope ''k1'' ex_payload) ex_ref Upsert)),
     cp_tenant_id = ''t1'', cp_project_id = ''p1'', cp_actor_id = ''alice'', cp_project_seq = 1,
     cp_resource = ex_ref, cp_revision = 1, cp_committed_at_ms = 1000\<rparr>"

lemma ex_request_result: "snd (execute ex_decode 1000 ex_request ex_db0) = Inr ex_answer"
  by code_simp

lemma ex_request_run: "execute ex_decode 1000 ex_request ex_db0 = (ex_written, Inr ex_answer)"
  using ex_request_result by (simp add: prod_eq_iff ex_written_def)

lemma ex_codec_sized: "sha256_sized ex_codec"
  by (simp add: sha256_sized_def ex_codec_def)

lemma ex_request_ok: "request_ok (ex_member ''alice'') (ex_envelope ''k1'' ex_payload) ex_ref"
  by code_simp

lemma ex_admitted: "write_admitted (ex_auth a) (ex_member a) (en_project_id (ex_envelope cid v))"
  by (simp add: write_admitted_def membership_admits_def ex_auth_def ex_member_def ex_envelope_def)

lemma ex_member_scope [simp]: "member_scope (ex_member a) = ex_scope"
  by (simp add: member_scope_def ex_member_def ex_scope_def)

lemma ex_service_run:
  "service_execute ex_codec (sqlite_store ex_decode) (ex_auth ''alice'') (ex_member ''alice'')
     (ex_envelope ''k1'' ex_payload) ex_ref Upsert (ex_server ex_db0) =
   ((ex_server ex_written)\<lparr>se_calls := 1\<rparr>, Inr ex_answer)"
  unfolding service_execute_granted [OF ex_codec_sized ex_admitted]
  using ex_request_run
  by (simp flip: ex_request_def add: env_execute_def env_now_def ex_server_def)

lemma ex_room: "room_for ex_scope ex_db0"
  using ex_counts(1) by (simp add: room_for_def i64_max_def)

theorem write_authority_witness:
  "command_fingerprint ex_codec (ex_envelope ''k1'' ex_payload) ex_ref Upsert =
      Inr (cp_fingerprint ex_answer) \<and>
    receipt ex_written ex_scope ''k1'' = Inr (Some ex_answer)"
proof -
  have "store_reachable ex_decode (se_db (ex_server ex_db0))"
    using ex_reachable(1) by (simp add: ex_server_def)
  from write_authority [OF this ex_codec_sized ex_request_ok _ ex_service_run] ex_room
  show ?thesis by (simp add: ex_server_def ex_envelope_def)
qed

section \<open>Requests are bound to their command ids\<close>

text \<open>
  C15. Through the service a command id identifies one request for ever: after a request has been
  answered with a receipt, and after any further activity on the store, a request of the same tenant
  under the same command id gets that receipt back when it is the same request of the same actor -
  the payload compared as JSON, whatever the order of its entries - and \<open>CommandConflict\<close>
  otherwise; neither changes the database. The digests of the two requests are assumed not to
  collide.
\<close>

theorem service_requests_bound:
  assumes "store_reachable dec (se_db s)" "sha256_sized cod" "request_ok m env ref"
    and "room_for (member_scope m) (se_db s)"
    and "service_execute cod (sqlite_store dec) auth m env ref ch s = (s1, Inr r)"
    and "store_steps dec (se_db s1) (se_db s2)"
    and "write_admitted auth' m' (en_project_id env')" "member_scope m' = member_scope m"
    and "en_command_id env' = en_command_id env"
    and "json_wf (en_payload env)" "json_wf (en_payload env')"
    and "no_collision cod env' ref' ch' env ref ch"
  shows "snd (service_execute cod (sqlite_store dec) auth' m' env' ref' ch' s2) =
      (if aa_actor_id auth' = aa_actor_id auth \<and> same_request env' ref' ch' env ref ch
       then Inr r else Inl CommandConflict) \<and>
    se_db (fst (service_execute cod (sqlite_store dec) auth' m' env' ref' ch' s2)) = se_db s2"
proof -
  have admitted: "write_admitted auth m (en_project_id env)"
    using assms(5) prepared_refused unfolding service_execute_def by (metis Inr_Inl_False prod.inject)
  let ?c = "prepared_command cod m env ref ch (request_body cod env ch)"
  let ?c' = "prepared_command cod m' env' ref' ch' (request_body cod env' ch')"
  have run: "execute dec (env_now s) ?c (se_db s) = (se_db s1, Inr r)"
    using assms(5) unfolding service_execute_granted [OF assms(2) admitted]
    by (rule sqlite_execute_prepared)
  obtain L where L: "store_rel dec (se_db s) L" using reachable_rel [OF assms(1)] by blast
  have c: "command_ok ?c"
    using prepared_ok [OF assms(2,3)] admitted by (simp add: write_admitted_def)
  have room: "select_count (\<lambda>r. rc_scope r = command_scope ?c) (db_receipts (se_db s)) < i64_max"
    using assms(4) by (simp add: room_for_def)
  obtain L1 epoch log e where one: "store_rel dec (se_db s1) L1"
    "L1 (member_scope m) = Some (epoch, log)" "find_command log (en_command_id env) = Some e"
    "le_receipt e = r" "cp_actor_id r = pm_actor_id m" "cp_fingerprint r = mc_fingerprint ?c"
    using execute_success [OF L c room run] by (metis prepared_simps(1-3))
  obtain L2 where two: "store_rel dec (se_db s2) L2" "ledger_extends L1 L2"
    using steps_rel [OF assms(6) one(1)] by blast
  obtain ext where "L2 (command_scope ?c') = Some (epoch, log @ ext)"
    using extendsD [OF two(2) one(2)] assms(8) by (metis prepared_simps(1))
  from execute_known [OF two(1) this, of e "env_now s2"] find_command_append [OF one(3)] assms(9)
  have known: "execute dec (env_now s2) ?c' (se_db s2) = (se_db s2,
      if cp_actor_id r \<noteq> pm_actor_id m' \<or> cp_fingerprint r \<noteq> mc_fingerprint ?c'
      then Inl CommandConflict else Inr r)"
    by (simp add: one(4))
  have "cp_fingerprint r = mc_fingerprint ?c' \<longleftrightarrow> same_request env' ref' ch' env ref ch"
    using fingerprint_binds [OF assms(2,11,10,12)] one(6)
    by (auto simp: command_fingerprint_eq [OF assms(2)])
  moreover have "pm_actor_id m = aa_actor_id auth" "pm_actor_id m' = aa_actor_id auth'"
    using admitted assms(7) by (auto simp: write_admitted_def membership_admits_def)
  ultimately show ?thesis
    using known one(5) unfolding service_execute_granted [OF assms(2,7)]
    by (auto simp: env_execute_simps)
qed

definition ex_other_payload :: json where
  "ex_other_payload = JObject [(''title'', JString ''y''), (''rank'', JInt 3)]"

definition ex_reordered_payload :: json where
  "ex_reordered_payload = JObject [(''rank'', JInt 3), (''title'', JString ''x'')]"

lemma ex_no_collision:
  "no_collision ex_codec (ex_envelope ''k1'' ex_other_payload) ex_ref Upsert
     (ex_envelope ''k1'' ex_payload) ex_ref Upsert"
  "no_collision ex_codec (ex_envelope ''k1'' ex_reordered_payload) ex_ref Upsert
     (ex_envelope ''k1'' ex_payload) ex_ref Upsert"
  by code_simp+

lemma ex_same_request:
  "\<not> same_request (ex_envelope ''k1'' ex_other_payload) ex_ref Upsert
     (ex_envelope ''k1'' ex_payload) ex_ref Upsert"
  "same_request (ex_envelope ''k1'' ex_reordered_payload) ex_ref Upsert
     (ex_envelope ''k1'' ex_payload) ex_ref Upsert"
proof -
  have wf: "json_wf (en_payload (ex_envelope ''k1'' ex_payload))"
    "json_wf (en_payload (ex_envelope ''k1'' ex_other_payload))"
    "json_wf (en_payload (ex_envelope ''k1'' ex_reordered_payload))"
    by code_simp+
  show "\<not> same_request (ex_envelope ''k1'' ex_other_payload) ex_ref Upsert
     (ex_envelope ''k1'' ex_payload) ex_ref Upsert"
    unfolding material_iff [OF wf(2,1), symmetric] by code_simp
  show "same_request (ex_envelope ''k1'' ex_reordered_payload) ex_ref Upsert
     (ex_envelope ''k1'' ex_payload) ex_ref Upsert"
    unfolding material_iff [OF wf(3,1), symmetric] by code_simp
qed

theorem service_requests_bound_witness:
  "snd (service_execute ex_codec (sqlite_store ex_decode) (ex_auth ''alice'') (ex_member ''alice'')
      (ex_envelope ''k1'' ex_reordered_payload) ex_ref Upsert (ex_server ex_written)) = Inr ex_answer \<and>
    snd (service_execute ex_codec (sqlite_store ex_decode) (ex_auth ''alice'') (ex_member ''alice'')
      (ex_envelope ''k1'' ex_other_payload) ex_ref Upsert (ex_server ex_written)) = Inl CommandConflict"
proof -
  have reach: "store_reachable ex_decode (se_db (ex_server ex_db0))"
    using ex_reachable(1) by (simp add: ex_server_def)
  have steps: "store_steps ex_decode (se_db ((ex_server ex_written)\<lparr>se_calls := 1\<rparr>))
      (se_db (ex_server ex_written))"
    by (simp add: ex_server_def)
  have room: "room_for (member_scope (ex_member ''alice'')) (se_db (ex_server ex_db0))"
    using ex_room by (simp add: ex_server_def)
  have wf: "json_wf (en_payload (ex_envelope ''k1'' ex_payload))"
    "json_wf (en_payload (ex_envelope ''k1'' ex_other_payload))"
    "json_wf (en_payload (ex_envelope ''k1'' ex_reordered_payload))"
    by code_simp+
  note bound = service_requests_bound [OF reach ex_codec_sized ex_request_ok room ex_service_run steps
      ex_admitted refl _ wf(1)]
  have id: "en_command_id (ex_envelope ''k1'' v) = en_command_id (ex_envelope ''k1'' ex_payload)" for v
    by (simp add: ex_envelope_def)
  show ?thesis
    using bound [OF id wf(3) ex_no_collision(2)] bound [OF id wf(2) ex_no_collision(1)]
      ex_same_request by simp
qed

text \<open>
  The read path of the service over the SQLite store: what a member receives of a snapshot or a
  feed page, and what nobody else does.
\<close>

section \<open>Projected reads\<close>

text \<open>
  C16. A member's snapshot is the store's snapshot of the project - same epoch, same sequence -
  without the handoffs and handoff contexts that do not name the member; nothing else is dropped.
  Only handoff contexts are assumed to decode: the store has validated every handoff body.
\<close>

theorem member_snapshot:
  assumes "store_reachable dec (se_db s)" "cd_handoff_of cod = dec" "membership_admits auth m"
    and "pm_project_id m = pid" "snapshot (se_db s) (member_scope m) = Inr full"
    and "\<forall>r\<in>set (sn_resources full). context_decodes cod r"
  shows "service_snapshot cod (sqlite_store dec) auth m pid s =
    Inr (full\<lparr>sn_resources := filter (may_see cod (aa_actor_id auth)) (sn_resources full)\<rparr>)"
proof -
  obtain L where "sqlite_rep dec s L"
    using reachable_rel [OF assms(1)] by (auto simp: sqlite_rep_def)
  from sqlite.snapshot_projected [OF this assms(3,2,4)] assms(5,6) show ?thesis by simp
qed

text \<open>
  A member's feed page is the store's page with the entries whose resource the member may not
  see removed; the cursor to continue from and the end-of-feed flag are the store's, so a page
  emptied by the projection still advances.
\<close>

theorem member_feed_page:
  assumes "store_reachable dec (se_db s)" "cd_handoff_of cod = dec" "membership_admits auth m"
    and "materialized_changes (se_db s) (member_scope m) cursor limit = Inr full"
    and "\<forall>e\<in>set (mb_entries full). context_decodes cod (mz_resource e)"
  shows "service_materialized_changes cod (sqlite_store dec) auth m cursor limit s =
    Inr (full\<lparr>mb_entries := filter (\<lambda>e. may_see cod (aa_actor_id auth) (mz_resource e))
      (mb_entries full)\<rparr>)"
proof -
  obtain L where "sqlite_rep dec s L"
    using reachable_rel [OF assms(1)] by (auto simp: sqlite_rep_def)
  from sqlite.materialized_projected [OF this assms(3,2)] assms(4,5) show ?thesis by simp
qed

text \<open>The handoff of the example history is for alice and bob only.\<close>

definition ex_handoff_resource :: canonical_resource where
  "ex_handoff_resource = \<lparr>cr_scope = ex_scope,
     cr_resource = \<lparr>rf_kind = ''handoff'', rf_id = ''h1''\<rparr>, cr_revision = 1, cr_state = Present [1]\<rparr>"

definition ex_fact_resource :: canonical_resource where
  "ex_fact_resource = \<lparr>cr_scope = ex_scope, cr_resource = ex_ref, cr_revision = 2,
     cr_state = Present [8]\<rparr>"

lemma ex_snapshot:
  "snapshot ex_db3 ex_scope = Inr \<lparr>sn_scope = ex_scope, sn_project_epoch = ''e1'', sn_at_seq = 3,
     sn_resources = [ex_fact_resource, ex_handoff_resource]\<rparr>"
  by code_simp

lemma ex_context_decodes [simp]:
  "context_decodes ex_codec ex_handoff_resource" "context_decodes ex_codec ex_fact_resource"
  by (simp_all add: context_decodes_def ex_handoff_resource_def ex_fact_resource_def ex_ref_def)

lemma ex_may_see:
  "may_see ex_codec a ex_handoff_resource \<longleftrightarrow> a = ''alice'' \<or> a = ''bob''"
  "may_see ex_codec a ex_fact_resource"
  by (auto simp: may_see_def ex_codec_def ex_decode_def ex_handoff_resource_def ex_fact_resource_def
      ex_ref_def)

lemma ex_codec_handoff: "cd_handoff_of ex_codec = ex_decode"
  by (simp add: ex_codec_def)

lemma ex_admits: "membership_admits (ex_auth a) (ex_member a)"
  by (simp add: membership_admits_def ex_auth_def ex_member_def)

theorem member_snapshot_witness:
  "service_snapshot ex_codec (sqlite_store ex_decode) (ex_auth ''carol'') (ex_member ''carol'') ''p1''
     (ex_server ex_db3) = Inr \<lparr>sn_scope = ex_scope, sn_project_epoch = ''e1'', sn_at_seq = 3,
     sn_resources = [ex_fact_resource]\<rparr>"
proof -
  have "store_reachable ex_decode (se_db (ex_server ex_db3))"
    using ex_reachable(4) by (simp add: ex_server_def)
  moreover have "pm_project_id (ex_member ''carol'') = ''p1''" by (simp add: ex_member_def)
  moreover have "snapshot (se_db (ex_server ex_db3)) (member_scope (ex_member ''carol'')) =
      Inr \<lparr>sn_scope = ex_scope, sn_project_epoch = ''e1'', sn_at_seq = 3,
        sn_resources = [ex_fact_resource, ex_handoff_resource]\<rparr>"
    using ex_snapshot by (simp add: ex_server_def)
  ultimately show ?thesis
    using member_snapshot [OF _ ex_codec_handoff ex_admits]
    by (simp add: ex_may_see) (simp add: ex_auth_def)
qed

definition ex_page :: materialized_batch where
  "ex_page = (case materialized_changes ex_db3 ex_scope
       \<lparr>cu_project_epoch = ''e1'', cu_after_seq = 2\<rparr> 10 of Inr b \<Rightarrow> b)"

lemma ex_page_read:
  "materialized_changes ex_db3 ex_scope \<lparr>cu_project_epoch = ''e1'', cu_after_seq = 2\<rparr> 10 = Inr ex_page"
  "map mz_resource (mb_entries ex_page) = [ex_handoff_resource]"
  "cu_after_seq (mb_next_cursor ex_page) = 3"
  by code_simp+

theorem member_feed_page_witness:
  "\<exists>page. service_materialized_changes ex_codec (sqlite_store ex_decode) (ex_auth ''carol'')
     (ex_member ''carol'') \<lparr>cu_project_epoch = ''e1'', cu_after_seq = 2\<rparr> 10 (ex_server ex_db3) = Inr page \<and>
   mb_entries page = [] \<and> cu_after_seq (mb_next_cursor page) = 3"
proof -
  have reach: "store_reachable ex_decode (se_db (ex_server ex_db3))"
    using ex_reachable(4) by (simp add: ex_server_def)
  have page: "materialized_changes (se_db (ex_server ex_db3)) (member_scope (ex_member ''carol''))
      \<lparr>cu_project_epoch = ''e1'', cu_after_seq = 2\<rparr> 10 = Inr ex_page"
    using ex_page_read(1) by (simp add: ex_server_def)
  have one: "mz_resource e = ex_handoff_resource" if "e \<in> set (mb_entries ex_page)" for e
    using ex_page_read(2) that by (metis image_eqI image_set list.set(1) list.set(2) singletonD)
  then have "filter (\<lambda>e. may_see ex_codec (aa_actor_id (ex_auth ''carol'')) (mz_resource e))
      (mb_entries ex_page) = []"
    by (simp add: filter_empty_conv ex_may_see) (simp add: ex_auth_def)
  with member_feed_page [OF reach ex_codec_handoff ex_admits page] one show ?thesis
    by (simp add: ex_page_read(3))
qed

end
