(* ===== verification/Server_Gateway.thy ===== *)
theory Server_Gateway
  imports Service
begin

text \<open>
  \<open>aidememo-server/src/lib.rs\<close>: the authenticated HTTP boundary. Bearer tokens, the raw command
  endpoint with its \<open>custom.*\<close> restriction, the feed, snapshot and resource reads, response bodies
  and the translation of errors. A request body or query is what axum's extractor hands the handler:
  the parsed value, or the rejection text. \<open>/search\<close> and the artifact routes are not modelled.
\<close>

section \<open>Errors and the executor boundary\<close>

text \<open>
  \<open>BlockingStoreError\<close> without \<open>Domain\<close>, and \<open>ApiError\<close>; \<open>Executor (Domain e)\<close> answers as
  \<open>Domain e\<close> does, so both are \<open>ApiDomain\<close>.
\<close>

datatype executor_error =
    Saturated | TimedOut | BackendUnavailable | ConfigurationError string | JoinError string

datatype api_error = ApiDomain domain_error | ApiExecutor executor_error

text \<open>
  How the executor runs one closure. The closure holds the store for its whole run, so it is one
  atomic step on the state. A caller that times out no longer sees the result, but the closure still
  runs to its end.
\<close>

datatype run_outcome = Completes | FailsBefore executor_error | CallerTimesOut

definition run_service ::
  "run_outcome \<Rightarrow> ('st \<Rightarrow> 'st \<times> 'a domain_result) \<Rightarrow> 'st \<Rightarrow> 'st \<times> (api_error + 'a)" where
  "run_service outcome operation s =
     (case outcome of
        Completes \<Rightarrow> (fst (operation s), map_err ApiDomain (snd (operation s)))
      | FailsBefore e \<Rightarrow> (s, Inl (ApiExecutor e))
      | CallerTimesOut \<Rightarrow> (fst (operation s), Inl (ApiExecutor TimedOut)))"

text \<open>A read-only closure.\<close>

definition reading :: "('st \<Rightarrow> 'a domain_result) \<Rightarrow> 'st \<Rightarrow> 'st \<times> 'a domain_result" where
  "reading f s = (s, f s)"

definition try_api :: "'st \<Rightarrow> 'a domain_result \<Rightarrow> ('a \<Rightarrow> 'st \<times> (api_error + 'b)) \<Rightarrow> 'st \<times> (api_error + 'b)" where
  "try_api s r f = try_ok s (map_err ApiDomain r) f"

lemma try_api_simps [simp]:
  "try_api s (Inl e) f = (s, Inl (ApiDomain e))" "try_api s (Inr x) f = f x"
  by (simp_all add: try_api_def)

section \<open>Bearer tokens\<close>

text \<open>The \<open>Authorization\<close> header: text, or bytes that \<open>to_str\<close> refuses.\<close>

datatype header_value = HeaderText string | HeaderOpaque

type_synonym headers = "header_value option"

definition MAX_BEARER_BYTES :: nat where "MAX_BEARER_BYTES = 4096"

definition bearer_token_digest :: "codec \<Rightarrow> string \<Rightarrow> bytes domain_result" where
  "bearer_token_digest cod token =
    (if token = [] \<or> length token > MAX_BEARER_BYTES \<or>
        list_ex (\<lambda>c. is_whitespace c \<or> is_control c) (utf8_chars token) then
       Inl AuthenticationFailed
     else Inr (cd_sha256 cod (string_bytes token)))"

definition strip_prefix :: "string \<Rightarrow> string \<Rightarrow> string option" where
  "strip_prefix p s = (if take (length p) s = p then Some (drop (length p) s) else None)"

definition bearer_digest_from_headers :: "codec \<Rightarrow> headers \<Rightarrow> bytes domain_result" where
  "bearer_digest_from_headers cod headers =
     and_then (ok_or AuthenticationFailed headers) (\<lambda>header.
     and_then (case header of HeaderText t \<Rightarrow> Inr t | HeaderOpaque \<Rightarrow> Inl AuthenticationFailed) (\<lambda>text.
     and_then (ok_or AuthenticationFailed (strip_prefix ''Bearer '' text)) (\<lambda>token.
       bearer_token_digest cod token)))"

definition request_context ::
  "('st, 'x) identity_store_scheme \<Rightarrow> bytes \<Rightarrow> project_id \<Rightarrow> 'st
    \<Rightarrow> (authenticated_actor \<times> project_membership) domain_result" where
  "request_context ids digest pid s =
     and_then (id_authenticate_token ids s digest) (\<lambda>found.
     and_then (ok_or AuthenticationFailed found) (\<lambda>auth.
     and_then (id_membership ids s auth pid) (\<lambda>found.
     and_then (ok_or (ProjectUnauthorized pid) found) (\<lambda>m.
       Inr (auth, m)))))"

section \<open>Raw commands\<close>

record command_request =
  rq_command_id :: command_id
  rq_project_id :: project_id
  rq_expected_revision :: "revision option"
  rq_operation :: operation_name
  rq_payload :: json
  rq_resource :: resource_ref
  rq_change :: change_operation

definition EXTENSION_RESOURCE_PREFIX :: string where "EXTENSION_RESOURCE_PREFIX = ''custom.''"

definition starts_with :: "string \<Rightarrow> string \<Rightarrow> bool" where
  "starts_with p s \<longleftrightarrow> take (length p) s = p"

definition validate_resource_command :: "command_request \<Rightarrow> unit domain_result" where
  "validate_resource_command rq =
    (if \<not> starts_with EXTENSION_RESOURCE_PREFIX (rf_kind (rq_resource rq)) then
       Inl (InvalidCommand (Text (''raw resource commands only accept custom.* extension kinds; ''
         @ ''product kinds require a typed API'')))
     else if rq_operation rq = ''resource.put'' \<and> rq_change rq = Upsert then Inr ()
     else if rq_operation rq = ''resource.delete'' \<and> rq_change rq = Delete then
       (if rq_payload rq = JNull then Inr ()
        else Inl (InvalidCommand (Text ''resource.delete payload must be JSON null'')))
     else Inl (InvalidCommand (Text
       ''operation/change must be resource.put/upsert or resource.delete/delete'')))"

definition raw_command_closure ::
  "codec \<Rightarrow> ('st, 'x) canonical_store_scheme \<Rightarrow> bytes \<Rightarrow> command_request \<Rightarrow> 'st
    \<Rightarrow> 'st \<times> command_receipt domain_result" where
  "raw_command_closure cod store digest rq s =
     try_ok s (request_context (sc_identity store) digest (rq_project_id rq) s) (\<lambda>(auth, m).
     try_ok s (validate_resource_command rq) (\<lambda>_.
       service_execute cod store auth m
         \<lparr>en_command_id = rq_command_id rq, en_project_id = rq_project_id rq,
          en_expected_revision = rq_expected_revision rq, en_operation = rq_operation rq,
          en_payload = rq_payload rq\<rparr>
         (rq_resource rq) (rq_change rq) s))"

text \<open>\<open>payload.map_err(...)\<close>: a rejected body or query is an invalid command.\<close>

definition extracted :: "string + 'a \<Rightarrow> 'a domain_result" where
  "extracted payload = map_err (\<lambda>text. InvalidCommand (Text text)) payload"

definition server_command ::
  "codec \<Rightarrow> ('st, 'x) canonical_store_scheme \<Rightarrow> run_outcome \<Rightarrow> headers \<Rightarrow> string + command_request
    \<Rightarrow> 'st \<Rightarrow> 'st \<times> (api_error + command_receipt)" where
  "server_command cod store outcome headers payload s =
     try_api s (extracted payload) (\<lambda>request.
     try_api s (bearer_digest_from_headers cod headers) (\<lambda>digest.
       run_service outcome (raw_command_closure cod store digest request) s))"

section \<open>Response bodies\<close>

datatype response_state = ResponsePresent json | ResponseDeleted

record resource_response =
  rr_scope :: project_scope
  rr_resource :: resource_ref
  rr_revision :: revision
  rr_state :: response_state

definition resource_response :: "codec \<Rightarrow> canonical_resource \<Rightarrow> resource_response domain_result" where
  "resource_response cod r =
     and_then (case cr_state r of
         Present body \<Rightarrow> (case cd_value_of cod body of
             None \<Rightarrow> Inl (StorageFailure ''resource_json_decode'' External)
           | Some v \<Rightarrow> Inr (ResponsePresent v))
       | Deleted \<Rightarrow> Inr ResponseDeleted) (\<lambda>state.
       Inr \<lparr>rr_scope = cr_scope r, rr_resource = cr_resource r, rr_revision = cr_revision r,
            rr_state = state\<rparr>)"

record materialized_change_response =
  mr_change :: change_entry
  mr_resource :: resource_response

record materialized_batch_response =
  br_scope :: project_scope
  br_cursor :: change_cursor
  br_entries :: "materialized_change_response list"
  br_next_cursor :: change_cursor
  br_has_more :: bool

definition materialized_batch_response ::
  "codec \<Rightarrow> materialized_batch \<Rightarrow> materialized_batch_response domain_result" where
  "materialized_batch_response cod b =
     and_then (collect_results (\<lambda>e. and_then (resource_response cod (mz_resource e)) (\<lambda>r.
         Inr \<lparr>mr_change = mz_change e, mr_resource = r\<rparr>)) (mb_entries b)) (\<lambda>entries.
       Inr \<lparr>br_scope = mb_scope b, br_cursor = mb_cursor b, br_entries = entries,
            br_next_cursor = mb_next_cursor b, br_has_more = mb_has_more b\<rparr>)"

record snapshot_response =
  sr_scope :: project_scope
  sr_project_epoch :: project_epoch
  sr_at_seq :: project_sequence
  sr_resources :: "resource_response list"

definition snapshot_response :: "codec \<Rightarrow> project_snapshot \<Rightarrow> snapshot_response domain_result" where
  "snapshot_response cod snap =
     and_then (collect_results (resource_response cod) (sn_resources snap)) (\<lambda>resources.
       Inr \<lparr>sr_scope = sn_scope snap, sr_project_epoch = sn_project_epoch snap,
            sr_at_seq = sn_at_seq snap, sr_resources = resources\<rparr>)"

section \<open>Reads\<close>

definition DEFAULT_CHANGE_LIMIT :: nat where "DEFAULT_CHANGE_LIMIT = 100"

record change_query =
  cq_project_epoch :: project_epoch
  cq_after_seq :: u64
  cq_limit :: "nat option"

definition query_cursor :: "change_query \<Rightarrow> change_cursor" where
  "query_cursor q = \<lparr>cu_project_epoch = cq_project_epoch q, cu_after_seq = cq_after_seq q\<rparr>"

definition query_limit :: "change_query \<Rightarrow> nat" where
  "query_limit q = (case cq_limit q of None \<Rightarrow> DEFAULT_CHANGE_LIMIT | Some n \<Rightarrow> n)"

definition server_changes ::
  "codec \<Rightarrow> ('st, 'x) canonical_store_scheme \<Rightarrow> run_outcome \<Rightarrow> headers \<Rightarrow> string
    \<Rightarrow> string + change_query \<Rightarrow> 'st \<Rightarrow> 'st \<times> (api_error + change_batch)" where
  "server_changes cod store outcome headers path query s =
     try_api s (id_try_from ''project_id'' path) (\<lambda>pid.
     try_api s (extracted query) (\<lambda>q.
     try_api s (bearer_digest_from_headers cod headers) (\<lambda>digest.
       run_service outcome (reading (\<lambda>s.
         and_then (request_context (sc_identity store) digest pid s) (\<lambda>(auth, m).
           service_changes cod store auth m (query_cursor q) (query_limit q) s))) s)))"

definition server_materialized_changes ::
  "codec \<Rightarrow> ('st, 'x) canonical_store_scheme \<Rightarrow> run_outcome \<Rightarrow> headers \<Rightarrow> string
    \<Rightarrow> string + change_query \<Rightarrow> 'st \<Rightarrow> 'st \<times> (api_error + materialized_batch_response)" where
  "server_materialized_changes cod store outcome headers path query s =
     try_api s (id_try_from ''project_id'' path) (\<lambda>pid.
     try_api s (extracted query) (\<lambda>q.
     try_api s (bearer_digest_from_headers cod headers) (\<lambda>digest.
     try_do (run_service outcome (reading (\<lambda>s.
         and_then (request_context (sc_identity store) digest pid s) (\<lambda>(auth, m).
           service_materialized_changes cod store auth m (query_cursor q) (query_limit q) s))) s)
       (\<lambda>s batch. try_api s (materialized_batch_response cod batch) (\<lambda>r. (s, Inr r))))))"

definition server_snapshot ::
  "codec \<Rightarrow> ('st, 'x) canonical_store_scheme \<Rightarrow> run_outcome \<Rightarrow> headers \<Rightarrow> string \<Rightarrow> 'st
    \<Rightarrow> 'st \<times> (api_error + snapshot_response)" where
  "server_snapshot cod store outcome headers path s =
     try_api s (id_try_from ''project_id'' path) (\<lambda>pid.
     try_api s (bearer_digest_from_headers cod headers) (\<lambda>digest.
     try_do (run_service outcome (reading (\<lambda>s.
         and_then (request_context (sc_identity store) digest pid s) (\<lambda>(auth, m).
           service_snapshot cod store auth m pid s))) s)
       (\<lambda>s snap. try_api s (snapshot_response cod snap) (\<lambda>r. (s, Inr r)))))"

definition server_resource ::
  "codec \<Rightarrow> ('st, 'x) canonical_store_scheme \<Rightarrow> run_outcome \<Rightarrow> headers \<Rightarrow> string \<times> string \<times> string
    \<Rightarrow> 'st \<Rightarrow> 'st \<times> (api_error + resource_response)" where
  "server_resource cod store outcome headers path s =
     (case path of (project, kind, rid) \<Rightarrow>
     try_api s (id_try_from ''project_id'' project) (\<lambda>pid.
     try_api s (name_try_from ''resource kind'' kind) (\<lambda>kind.
     try_api s (id_try_from ''resource_id'' rid) (\<lambda>rid.
     try_api s (bearer_digest_from_headers cod headers) (\<lambda>digest.
     try_do (run_service outcome (reading (\<lambda>s.
         and_then (request_context (sc_identity store) digest pid s) (\<lambda>(auth, m).
         and_then (service_visible_resource cod store auth m pid \<lparr>rf_kind = kind, rf_id = rid\<rparr> s)
           (\<lambda>found. ok_or ResourceNotFound found)))) s)
       (\<lambda>s r. try_api s (resource_response cod r) (\<lambda>r. (s, Inr r))))))))"

definition server_health ::
  "('st, 'x) canonical_store_scheme \<Rightarrow> run_outcome \<Rightarrow> 'st \<Rightarrow> 'st \<times> (api_error + nat)" where
  "server_health store outcome s =
     run_service outcome (reading (\<lambda>s. id_schema_version (sc_identity store) s)) s"

section \<open>Error responses\<close>

text \<open>\<open>Display\<close> of \<open>DomainError\<close>; \<open>ext\<close> is the text of an external diagnostic.\<close>

definition diagnostic_text :: "string \<Rightarrow> diagnostic \<Rightarrow> string" where
  "diagnostic_text ext d = (case d of Text t \<Rightarrow> t | External \<Rightarrow> ext)"

fun error_message :: "string \<Rightarrow> domain_error \<Rightarrow> string" where
  "error_message ext (InvalidIdentifier kind reason) = ''invalid '' @ kind @ '': '' @ reason"
| "error_message ext IdentityMismatch = ''authenticated identity does not match project membership''"
| "error_message ext AuthenticationFailed = ''authentication failed''"
| "error_message ext (ProjectUnauthorized pid) = ''actor is not authorized to mutate project '' @ pid"
| "error_message ext (ProjectScopeMismatch requested authorized) =
     ''command project '' @ requested @ '' does not match authorized project '' @ authorized"
| "error_message ext CommandConflict = ''command ID was already used with a different request''"
| "error_message ext HandoffActorMismatch =
     ''authenticated actor is not allowed to perform this handoff action''"
| "error_message ext (HandoffConflict text) = ''handoff conflict: '' @ text"
| "error_message ext (StaleRevision expected current) =
     ''stale revision: expected '' @ nat_text (unat expected) @ '', current '' @ nat_text (unat current)"
| "error_message ext ResourceNotFound = ''resource not found''"
| "error_message ext ResourceAlreadyExists = ''resource already exists''"
| "error_message ext (CursorEpochMismatch cursor current) =
     ''cursor epoch '' @ cursor @ '' does not match current project epoch '' @ current"
| "error_message ext (CursorOutOfRange after current) =
     ''cursor sequence '' @ nat_text (unat after) @ '' is ahead of current project sequence ''
       @ nat_text (unat current)"
| "error_message ext (InvalidChangeBatch text) = ''invalid change batch: '' @ text"
| "error_message ext SnapshotRequired =
     ''exact change materialization is unavailable; refresh from a project snapshot''"
| "error_message ext (SnapshotTooLarge limit) =
     ''project snapshot exceeds the current limit of '' @ nat_text limit @ '' resources''"
| "error_message ext (InvalidArtifactPath text) = ''invalid artifact path: '' @ text"
| "error_message ext (InvalidArtifactReference text) = ''invalid artifact reference: '' @ text"
| "error_message ext (ConformanceViolation check detail) =
     ''conformance check '' @ [CHR 0x27] @ check @ [CHR 0x27] @ '' failed: '' @ detail"
| "error_message ext (InvalidCommand d) = ''invalid command: '' @ diagnostic_text ext d"
| "error_message ext (StorageFailure op d) =
     ''storage operation '' @ [CHR 0x27] @ op @ [CHR 0x27] @ '' failed: '' @ diagnostic_text ext d"

fun status_for_error :: "domain_error \<Rightarrow> nat" where
  "status_for_error AuthenticationFailed = 401"
| "status_for_error IdentityMismatch = 403"
| "status_for_error HandoffActorMismatch = 403"
| "status_for_error (ProjectUnauthorized _) = 403"
| "status_for_error (ProjectScopeMismatch _ _) = 403"
| "status_for_error ResourceNotFound = 404"
| "status_for_error CommandConflict = 409"
| "status_for_error ResourceAlreadyExists = 409"
| "status_for_error (HandoffConflict _) = 409"
| "status_for_error (StaleRevision _ _) = 409"
| "status_for_error (CursorEpochMismatch _ _) = 409"
| "status_for_error (CursorOutOfRange _ _) = 409"
| "status_for_error SnapshotRequired = 409"
| "status_for_error (SnapshotTooLarge _) = 413"
| "status_for_error (InvalidIdentifier _ _) = 400"
| "status_for_error (InvalidChangeBatch _) = 400"
| "status_for_error (InvalidArtifactPath _) = 400"
| "status_for_error (InvalidArtifactReference _) = 400"
| "status_for_error (InvalidCommand _) = 400"
| "status_for_error (StorageFailure _ _) = 500"
| "status_for_error (ConformanceViolation _ _) = 500"

record error_response =
  er_status :: nat
  er_code :: error_code
  er_message :: string

definition domain_error_response :: "string \<Rightarrow> domain_error \<Rightarrow> error_response" where
  "domain_error_response ext e =
     \<lparr>er_status = status_for_error e, er_code = error_code_of e,
      er_message = (case e of
          StorageFailure _ _ \<Rightarrow> ''internal server error''
        | ConformanceViolation _ _ \<Rightarrow> ''internal server error''
        | _ \<Rightarrow> error_message ext e)\<rparr>"

definition api_error_response :: "string \<Rightarrow> api_error \<Rightarrow> error_response" where
  "api_error_response ext e =
     (case e of
        ApiDomain d \<Rightarrow> domain_error_response ext d
      | ApiExecutor x \<Rightarrow>
          (if x \<in> {Saturated, TimedOut, BackendUnavailable} then
             \<lparr>er_status = 503, er_code = CodeStorageFailure,
              er_message = ''canonical storage temporarily unavailable''\<rparr>
           else
             \<lparr>er_status = 500, er_code = CodeStorageFailure,
              er_message = ''internal server error''\<rparr>))"

end
