(* ===== verification/Server_Product.thy ===== *)
theory Server_Product
  imports Server_Gateway
begin

text \<open>
  \<open>aidememo-server/src/product.rs\<close>: the typed routes for sessions, facts, handoff contexts and
  handoffs. Every mutating handler has the same frame - request context, replay of an already
  committed command, the route's own reads and checks, one \<open>execute_with_body\<close> - which is
  \<open>typed_prepare\<close> and \<open>typed_mutation\<close>; the part between is a definition per route.
\<close>

section \<open>Requests\<close>

record 'p create_request =
  ct_command_id :: command_id
  ct_payload :: 'p

record 'p transition_request =
  tn_command_id :: command_id
  tn_expected_revision :: revision
  tn_payload :: 'p

record session_create_payload =
  sp_session_id :: session_id
  sp_source_id :: "source_id option"
  sp_topic :: string

record fact_create_payload =
  fp_fact_id :: fact_id
  fp_session_id :: session_id
  fp_content :: string

record handoff_send_payload =
  hs_handoff_id :: handoff_id
  hs_session_id :: session_id
  hs_to_actor :: actor_id
  hs_focus :: "string option"
  hs_done_when :: "string option"
  hs_context_id :: "resource_id option"

record context_create_payload =
  xp_context_id :: resource_id
  xp_handoff_id :: handoff_id
  xp_session_id :: session_id
  xp_to_actor :: actor_id
  xp_content :: string

record accept_payload = ap_claim_id :: claim_id
record heartbeat_payload = bp_claim_id :: claim_id

record return_payload =
  rp_claim_id :: claim_id
  rp_result_fact_id :: fact_id
  rp_outcome :: handoff_outcome

record handoff_list_query =
  lq_mailbox :: handoff_mailbox
  lq_source_id :: "source_id option"
  lq_include_completed :: "bool option"
  lq_before_seq :: "u64 option"
  lq_limit :: "nat option"

text \<open>The derived serialization of the payloads, which the request fingerprint covers.\<close>

definition text_option_json :: "string option \<Rightarrow> json" where
  "text_option_json v = (case v of None \<Rightarrow> JNull | Some t \<Rightarrow> JString t)"

fun outcome_json :: "handoff_outcome \<Rightarrow> json" where
  "outcome_json Succeeded = JString ''succeeded''"
| "outcome_json Failed = JString ''failed''"

definition session_payload_json :: "session_create_payload \<Rightarrow> json" where
  "session_payload_json p = json_struct
     [(''session_id'', JString (sp_session_id p)), (''source_id'', text_option_json (sp_source_id p)),
      (''topic'', JString (sp_topic p))]"

definition fact_payload_json :: "fact_create_payload \<Rightarrow> json" where
  "fact_payload_json p = json_struct
     [(''fact_id'', JString (fp_fact_id p)), (''session_id'', JString (fp_session_id p)),
      (''content'', JString (fp_content p))]"

definition send_payload_json :: "handoff_send_payload \<Rightarrow> json" where
  "send_payload_json p = json_struct
     [(''handoff_id'', JString (hs_handoff_id p)), (''session_id'', JString (hs_session_id p)),
      (''to_actor'', JString (hs_to_actor p)), (''focus'', text_option_json (hs_focus p)),
      (''done_when'', text_option_json (hs_done_when p)),
      (''context_id'', text_option_json (hs_context_id p))]"

definition context_payload_json :: "context_create_payload \<Rightarrow> json" where
  "context_payload_json p = json_struct
     [(''context_id'', JString (xp_context_id p)), (''handoff_id'', JString (xp_handoff_id p)),
      (''session_id'', JString (xp_session_id p)), (''to_actor'', JString (xp_to_actor p)),
      (''content'', JString (xp_content p))]"

definition accept_payload_json :: "accept_payload \<Rightarrow> json" where
  "accept_payload_json p = json_struct [(''claim_id'', JString (ap_claim_id p))]"

definition heartbeat_payload_json :: "heartbeat_payload \<Rightarrow> json" where
  "heartbeat_payload_json p = json_struct [(''claim_id'', JString (bp_claim_id p))]"

definition return_payload_json :: "return_payload \<Rightarrow> json" where
  "return_payload_json p = json_struct
     [(''claim_id'', JString (rp_claim_id p)), (''result_fact_id'', JString (rp_result_fact_id p)),
      (''outcome'', outcome_json (rp_outcome p))]"

section \<open>Helpers of the handlers\<close>

definition HANDOFF_LEASE_MS :: i64 where "HANDOFF_LEASE_MS = 120000"

definition current_epoch_ms :: "int \<Rightarrow> i64 domain_result" where
  "current_epoch_ms clock =
    (if clock < 0 \<or> clock > i64_max then Inl (StorageFailure ''system_time'' External)
     else Inr clock)"

definition resource_ref_of :: "string \<Rightarrow> string \<Rightarrow> resource_ref domain_result" where
  "resource_ref_of kind rid =
     and_then (name_try_from ''resource kind'' kind) (\<lambda>kind.
     and_then (id_try_from ''resource_id'' rid) (\<lambda>rid.
       Inr \<lparr>rf_kind = kind, rf_id = rid\<rparr>))"

definition create_envelope ::
  "command_id \<Rightarrow> project_id \<Rightarrow> string \<Rightarrow> json \<Rightarrow> json command_envelope domain_result" where
  "create_envelope cid pid op payload =
     and_then (name_try_from ''operation name'' op) (\<lambda>operation.
       Inr \<lparr>en_command_id = cid, en_project_id = pid, en_expected_revision = None,
            en_operation = operation, en_payload = payload\<rparr>)"

definition transition_envelope ::
  "command_id \<Rightarrow> project_id \<Rightarrow> revision \<Rightarrow> string \<Rightarrow> json \<Rightarrow> json command_envelope domain_result" where
  "transition_envelope cid pid expected op payload =
     and_then (name_try_from ''operation name'' op) (\<lambda>operation.
       Inr \<lparr>en_command_id = cid, en_project_id = pid, en_expected_revision = Some expected,
            en_operation = operation, en_payload = payload\<rparr>)"

definition ensure_absent ::
  "('st, 'x) command_store_scheme \<Rightarrow> authenticated_actor \<Rightarrow> project_membership \<Rightarrow> project_id
    \<Rightarrow> resource_ref \<Rightarrow> 'st \<Rightarrow> unit domain_result" where
  "ensure_absent store auth m pid ref s =
     and_then (service_resource store auth m pid ref s) (\<lambda>found.
       if found \<noteq> None then Inl ResourceAlreadyExists else Inr ())"

definition decode_record :: "(bytes \<Rightarrow> 'r option) \<Rightarrow> canonical_resource \<Rightarrow> (revision \<times> 'r) domain_result" where
  "decode_record dec r =
     (case cr_state r of
        Present body \<Rightarrow> (case dec body of
            None \<Rightarrow> Inl (StorageFailure ''typed_resource_decode'' External)
          | Some record \<Rightarrow> Inr (cr_revision r, record))
      | Deleted \<Rightarrow> Inl ResourceNotFound)"

definition load_record ::
  "(bytes \<Rightarrow> 'r option) \<Rightarrow> ('st, 'x) command_store_scheme \<Rightarrow> authenticated_actor
    \<Rightarrow> project_membership \<Rightarrow> project_id \<Rightarrow> resource_ref \<Rightarrow> 'st \<Rightarrow> (revision \<times> 'r) domain_result" where
  "load_record dec store auth m pid ref s =
     and_then (service_resource store auth m pid ref s) (\<lambda>found.
     and_then (ok_or ResourceNotFound found) (\<lambda>r. decode_record dec r))"

definition require_writable_receiver ::
  "('st, 'x) identity_store_scheme \<Rightarrow> authenticated_actor \<Rightarrow> project_id \<Rightarrow> actor_id \<Rightarrow> 'st
    \<Rightarrow> unit domain_result" where
  "require_writable_receiver ids auth pid receiver s =
     and_then (id_project_membership ids s (scope_new (aa_tenant_id auth) pid) receiver) (\<lambda>found.
     and_then (ok_or (InvalidCommand (Text ''handoff receiver is not an active project member'')) found)
       (\<lambda>m. if \<not> can_mutate (pm_role m) then
          Inl (InvalidCommand (Text ''handoff receiver must have a writable project membership''))
        else Inr ()))"

definition require_revision :: "revision \<Rightarrow> revision \<Rightarrow> unit domain_result" where
  "require_revision expected current =
     (if expected = current then Inr () else Inl (StaleRevision expected current))"

section \<open>The frame of a typed mutation\<close>

text \<open>
  \<open>typed_prepare\<close> is the closure up to its last call: the answer of an earlier run of the same
  command, or the identity and record to execute with. \<open>build\<close> is the route's own part.
\<close>

datatype prepared = Answered command_receipt | Ready authenticated_actor project_membership json

definition typed_prepare ::
  "codec \<Rightarrow> ('st, 'x) canonical_store_scheme \<Rightarrow> bytes \<Rightarrow> project_id \<Rightarrow> resource_ref
    \<Rightarrow> json command_envelope
    \<Rightarrow> (authenticated_actor \<Rightarrow> project_membership \<Rightarrow> 'st \<Rightarrow> json domain_result) \<Rightarrow> 'st
    \<Rightarrow> prepared domain_result" where
  "typed_prepare cod store digest pid ref env build s =
     and_then (request_context (sc_identity store) digest pid s) (\<lambda>(auth, m).
     and_then (service_replay cod store auth m env ref Upsert s) (\<lambda>found.
       case found of
         Some r \<Rightarrow> Inr (Answered r)
       | None \<Rightarrow> and_then (build auth m s) (\<lambda>record. Inr (Ready auth m record))))"

definition typed_mutation ::
  "codec \<Rightarrow> ('st, 'x) canonical_store_scheme \<Rightarrow> bytes \<Rightarrow> project_id \<Rightarrow> resource_ref
    \<Rightarrow> json command_envelope
    \<Rightarrow> (authenticated_actor \<Rightarrow> project_membership \<Rightarrow> 'st \<Rightarrow> json domain_result) \<Rightarrow> 'st
    \<Rightarrow> 'st \<times> command_receipt domain_result" where
  "typed_mutation cod store digest pid ref env build s =
     try_ok s (typed_prepare cod store digest pid ref env build s) (\<lambda>p.
       case p of
         Answered r \<Rightarrow> (s, Inr r)
       | Ready auth m record \<Rightarrow> service_execute_with_body cod store auth m env ref Upsert record s)"

section \<open>What each route reads and checks\<close>

definition session_build ::
  "codec \<Rightarrow> ('st, 'x) canonical_store_scheme \<Rightarrow> project_id \<Rightarrow> resource_ref \<Rightarrow> session_create_payload
    \<Rightarrow> authenticated_actor \<Rightarrow> project_membership \<Rightarrow> 'st \<Rightarrow> json domain_result" where
  "session_build cod store pid ref p auth m s =
     and_then (ensure_absent store auth m pid ref s) (\<lambda>_.
     and_then (session_new (sp_session_id p) (sp_source_id p) (sp_topic p) (aa_actor_id auth))
       (\<lambda>record. Inr (cd_session_value cod record)))"

definition fact_build ::
  "codec \<Rightarrow> ('st, 'x) canonical_store_scheme \<Rightarrow> project_id \<Rightarrow> resource_ref \<Rightarrow> fact_create_payload
    \<Rightarrow> authenticated_actor \<Rightarrow> project_membership \<Rightarrow> 'st \<Rightarrow> json domain_result" where
  "fact_build cod store pid ref p auth m s =
     and_then (resource_ref_of ''session'' (fp_session_id p)) (\<lambda>session_ref.
     and_then (load_record (cd_session_of cod) store auth m pid session_ref s) (\<lambda>(_, session).
     and_then (ensure_absent store auth m pid ref s) (\<lambda>_.
     and_then (fact_new (fp_fact_id p) (se_session_id session) (se_source_id session)
         (aa_actor_id auth) (fp_content p))
       (\<lambda>record. Inr (cd_fact_value cod record)))))"

definition send_build ::
  "codec \<Rightarrow> ('st, 'x) canonical_store_scheme \<Rightarrow> project_id \<Rightarrow> resource_ref \<Rightarrow> handoff_send_payload
    \<Rightarrow> authenticated_actor \<Rightarrow> project_membership \<Rightarrow> 'st \<Rightarrow> json domain_result" where
  "send_build cod store pid ref p auth m s =
     and_then (resource_ref_of ''session'' (hs_session_id p)) (\<lambda>session_ref.
     and_then (load_record (cd_session_of cod) store auth m pid session_ref s) (\<lambda>(_, session).
     and_then (require_writable_receiver (sc_identity store) auth pid (hs_to_actor p) s) (\<lambda>_.
     and_then (ensure_absent store auth m pid ref s) (\<lambda>_.
     and_then (handoff_new (hs_handoff_id p) session (aa_actor_id auth) (hs_to_actor p) (hs_focus p)
         (hs_done_when p)) (\<lambda>record.
     and_then (case hs_context_id p of
           None \<Rightarrow> Inr record
         | Some context_id \<Rightarrow>
             and_then (resource_ref_of ''handoff_context'' context_id) (\<lambda>context_ref.
             and_then (load_record (cd_context_of cod) store auth m pid context_ref s)
               (\<lambda>(_, context_record). attach_context record context_record)))
       (\<lambda>record. Inr (cd_handoff_value cod record)))))))"

definition context_build ::
  "codec \<Rightarrow> ('st, 'x) canonical_store_scheme \<Rightarrow> project_id \<Rightarrow> resource_ref \<Rightarrow> context_create_payload
    \<Rightarrow> authenticated_actor \<Rightarrow> project_membership \<Rightarrow> 'st \<Rightarrow> json domain_result" where
  "context_build cod store pid ref p auth m s =
     and_then (resource_ref_of ''session'' (xp_session_id p)) (\<lambda>session_ref.
     and_then (load_record (cd_session_of cod) store auth m pid session_ref s) (\<lambda>(_, session).
     and_then (require_writable_receiver (sc_identity store) auth pid (xp_to_actor p) s) (\<lambda>_.
     and_then (ensure_absent store auth m pid ref s) (\<lambda>_.
     and_then (context_new (xp_context_id p) (xp_handoff_id p) session (aa_actor_id auth)
         (xp_to_actor p) (xp_content p))
       (\<lambda>record. Inr (cd_context_value cod record))))))"

text \<open>The transitions of an existing handoff: load, compare the revision, apply the transition.\<close>

definition transition_build ::
  "codec \<Rightarrow> ('st, 'x) canonical_store_scheme \<Rightarrow> project_id \<Rightarrow> resource_ref \<Rightarrow> revision
    \<Rightarrow> (authenticated_actor \<Rightarrow> project_membership \<Rightarrow> 'st \<Rightarrow> handoff_record \<Rightarrow> handoff_record domain_result)
    \<Rightarrow> authenticated_actor \<Rightarrow> project_membership \<Rightarrow> 'st \<Rightarrow> json domain_result" where
  "transition_build cod store pid ref expected move auth m s =
     and_then (load_record (cd_handoff_of cod) store auth m pid ref s) (\<lambda>(current, record).
     and_then (require_revision expected current) (\<lambda>_.
     and_then (move auth m s record) (\<lambda>record. Inr (cd_handoff_value cod record))))"

definition accept_move ::
  "accept_payload \<Rightarrow> i64 \<Rightarrow> authenticated_actor \<Rightarrow> project_membership \<Rightarrow> 'st \<Rightarrow> handoff_record
    \<Rightarrow> handoff_record domain_result" where
  "accept_move p now auth m s record =
     accept_with_lease record (aa_actor_id auth) (ap_claim_id p) now HANDOFF_LEASE_MS"

definition heartbeat_move ::
  "heartbeat_payload \<Rightarrow> i64 \<Rightarrow> authenticated_actor \<Rightarrow> project_membership \<Rightarrow> 'st \<Rightarrow> handoff_record
    \<Rightarrow> handoff_record domain_result" where
  "heartbeat_move p now auth m s record =
     heartbeat record (aa_actor_id auth) (bp_claim_id p) now HANDOFF_LEASE_MS"

definition return_move ::
  "codec \<Rightarrow> ('st, 'x) canonical_store_scheme \<Rightarrow> project_id \<Rightarrow> return_payload \<Rightarrow> i64
    \<Rightarrow> authenticated_actor \<Rightarrow> project_membership \<Rightarrow> 'st \<Rightarrow> handoff_record
    \<Rightarrow> handoff_record domain_result" where
  "return_move cod store pid p now auth m s record =
     and_then (resource_ref_of ''fact'' (rp_result_fact_id p)) (\<lambda>fact_ref.
     and_then (load_record (cd_fact_of cod) store auth m pid fact_ref s) (\<lambda>(_, fact).
       return_result_at record (aa_actor_id auth) (rp_claim_id p) fact (rp_outcome p) now))"

section \<open>Mutating handlers\<close>

definition create_session ::
  "codec \<Rightarrow> ('st, 'x) canonical_store_scheme \<Rightarrow> run_outcome \<Rightarrow> headers \<Rightarrow> string
    \<Rightarrow> string + session_create_payload create_request \<Rightarrow> 'st \<Rightarrow> 'st \<times> (api_error + command_receipt)" where
  "create_session cod store outcome headers path payload s =
     try_api s (id_try_from ''project_id'' path) (\<lambda>pid.
     try_api s (extracted payload) (\<lambda>rq.
     try_api s (resource_ref_of ''session'' (sp_session_id (ct_payload rq))) (\<lambda>ref.
     try_api s (create_envelope (ct_command_id rq) pid ''session.create''
       (session_payload_json (ct_payload rq))) (\<lambda>env.
     try_api s (bearer_digest_from_headers cod headers) (\<lambda>digest.
       run_service outcome (typed_mutation cod store digest pid ref env
         (session_build cod store pid ref (ct_payload rq))) s)))))"

definition create_fact ::
  "codec \<Rightarrow> ('st, 'x) canonical_store_scheme \<Rightarrow> run_outcome \<Rightarrow> headers \<Rightarrow> string
    \<Rightarrow> string + fact_create_payload create_request \<Rightarrow> 'st \<Rightarrow> 'st \<times> (api_error + command_receipt)" where
  "create_fact cod store outcome headers path payload s =
     try_api s (id_try_from ''project_id'' path) (\<lambda>pid.
     try_api s (extracted payload) (\<lambda>rq.
     try_api s (resource_ref_of ''fact'' (fp_fact_id (ct_payload rq))) (\<lambda>ref.
     try_api s (create_envelope (ct_command_id rq) pid ''fact.create''
       (fact_payload_json (ct_payload rq))) (\<lambda>env.
     try_api s (bearer_digest_from_headers cod headers) (\<lambda>digest.
       run_service outcome (typed_mutation cod store digest pid ref env
         (fact_build cod store pid ref (ct_payload rq))) s)))))"

definition send_handoff ::
  "codec \<Rightarrow> ('st, 'x) canonical_store_scheme \<Rightarrow> run_outcome \<Rightarrow> headers \<Rightarrow> string
    \<Rightarrow> string + handoff_send_payload create_request \<Rightarrow> 'st \<Rightarrow> 'st \<times> (api_error + command_receipt)" where
  "send_handoff cod store outcome headers path payload s =
     try_api s (id_try_from ''project_id'' path) (\<lambda>pid.
     try_api s (extracted payload) (\<lambda>rq.
     try_api s (resource_ref_of ''handoff'' (hs_handoff_id (ct_payload rq))) (\<lambda>ref.
     try_api s (create_envelope (ct_command_id rq) pid ''handoff.send''
       (send_payload_json (ct_payload rq))) (\<lambda>env.
     try_api s (bearer_digest_from_headers cod headers) (\<lambda>digest.
       run_service outcome (typed_mutation cod store digest pid ref env
         (send_build cod store pid ref (ct_payload rq))) s)))))"

definition create_handoff_context ::
  "codec \<Rightarrow> ('st, 'x) canonical_store_scheme \<Rightarrow> run_outcome \<Rightarrow> headers \<Rightarrow> string
    \<Rightarrow> string + context_create_payload create_request \<Rightarrow> 'st \<Rightarrow> 'st \<times> (api_error + command_receipt)" where
  "create_handoff_context cod store outcome headers path payload s =
     try_api s (id_try_from ''project_id'' path) (\<lambda>pid.
     try_api s (extracted payload) (\<lambda>rq.
     try_api s (resource_ref_of ''handoff_context'' (xp_context_id (ct_payload rq))) (\<lambda>ref.
     try_api s (create_envelope (ct_command_id rq) pid ''handoff_context.create''
       (context_payload_json (ct_payload rq))) (\<lambda>env.
     try_api s (bearer_digest_from_headers cod headers) (\<lambda>digest.
       run_service outcome (typed_mutation cod store digest pid ref env
         (context_build cod store pid ref (ct_payload rq))) s)))))"

definition accept_handoff ::
  "codec \<Rightarrow> ('st, 'x) canonical_store_scheme \<Rightarrow> run_outcome \<Rightarrow> int \<Rightarrow> headers \<Rightarrow> string \<times> string
    \<Rightarrow> string + accept_payload transition_request \<Rightarrow> 'st \<Rightarrow> 'st \<times> (api_error + command_receipt)" where
  "accept_handoff cod store outcome clock headers path payload s =
     try_api s (id_try_from ''project_id'' (fst path)) (\<lambda>pid.
     try_api s (id_try_from ''handoff_id'' (snd path)) (\<lambda>hid.
     try_api s (extracted payload) (\<lambda>rq.
     try_api s (resource_ref_of ''handoff'' hid) (\<lambda>ref.
     try_api s (transition_envelope (tn_command_id rq) pid (tn_expected_revision rq) ''handoff.accept''
       (accept_payload_json (tn_payload rq))) (\<lambda>env.
     try_api s (bearer_digest_from_headers cod headers) (\<lambda>digest.
     try_api s (current_epoch_ms clock) (\<lambda>now.
       run_service outcome (typed_mutation cod store digest pid ref env
         (transition_build cod store pid ref (tn_expected_revision rq)
           (accept_move (tn_payload rq) now))) s)))))))"

definition heartbeat_handoff ::
  "codec \<Rightarrow> ('st, 'x) canonical_store_scheme \<Rightarrow> run_outcome \<Rightarrow> int \<Rightarrow> headers \<Rightarrow> string \<times> string
    \<Rightarrow> string + heartbeat_payload transition_request \<Rightarrow> 'st \<Rightarrow> 'st \<times> (api_error + command_receipt)" where
  "heartbeat_handoff cod store outcome clock headers path payload s =
     try_api s (id_try_from ''project_id'' (fst path)) (\<lambda>pid.
     try_api s (id_try_from ''handoff_id'' (snd path)) (\<lambda>hid.
     try_api s (extracted payload) (\<lambda>rq.
     try_api s (resource_ref_of ''handoff'' hid) (\<lambda>ref.
     try_api s (transition_envelope (tn_command_id rq) pid (tn_expected_revision rq)
       ''handoff.heartbeat'' (heartbeat_payload_json (tn_payload rq))) (\<lambda>env.
     try_api s (bearer_digest_from_headers cod headers) (\<lambda>digest.
     try_api s (current_epoch_ms clock) (\<lambda>now.
       run_service outcome (typed_mutation cod store digest pid ref env
         (transition_build cod store pid ref (tn_expected_revision rq)
           (heartbeat_move (tn_payload rq) now))) s)))))))"

definition return_handoff ::
  "codec \<Rightarrow> ('st, 'x) canonical_store_scheme \<Rightarrow> run_outcome \<Rightarrow> int \<Rightarrow> headers \<Rightarrow> string \<times> string
    \<Rightarrow> string + return_payload transition_request \<Rightarrow> 'st \<Rightarrow> 'st \<times> (api_error + command_receipt)" where
  "return_handoff cod store outcome clock headers path payload s =
     try_api s (id_try_from ''project_id'' (fst path)) (\<lambda>pid.
     try_api s (id_try_from ''handoff_id'' (snd path)) (\<lambda>hid.
     try_api s (extracted payload) (\<lambda>rq.
     try_api s (resource_ref_of ''handoff'' hid) (\<lambda>ref.
     try_api s (transition_envelope (tn_command_id rq) pid (tn_expected_revision rq) ''handoff.return''
       (return_payload_json (tn_payload rq))) (\<lambda>env.
     try_api s (bearer_digest_from_headers cod headers) (\<lambda>digest.
     try_api s (current_epoch_ms clock) (\<lambda>now.
       run_service outcome (typed_mutation cod store digest pid ref env
         (transition_build cod store pid ref (tn_expected_revision rq)
           (return_move cod store pid (tn_payload rq) now))) s)))))))"

section \<open>Reading handlers\<close>

record identity_response =
  ir_tenant_id :: tenant_id
  ir_project_id :: project_id
  ir_project_epoch :: project_epoch
  ir_actor_id :: actor_id
  ir_role :: membership_role

definition get_identity ::
  "codec \<Rightarrow> ('st, 'x) canonical_store_scheme \<Rightarrow> run_outcome \<Rightarrow> headers \<Rightarrow> string \<Rightarrow> 'st
    \<Rightarrow> 'st \<times> (api_error + identity_response)" where
  "get_identity cod store outcome headers path s =
     try_api s (id_try_from ''project_id'' path) (\<lambda>pid.
     try_api s (bearer_digest_from_headers cod headers) (\<lambda>digest.
       run_service outcome (reading (\<lambda>s.
         and_then (request_context (sc_identity store) digest pid s) (\<lambda>(auth, m).
         let scope = scope_new (aa_tenant_id auth) pid in
         and_then (id_project_epoch (sc_identity store) s scope) (\<lambda>found.
         and_then (ok_or (ProjectUnauthorized pid) found) (\<lambda>epoch.
           Inr \<lparr>ir_tenant_id = aa_tenant_id auth, ir_project_id = pid, ir_project_epoch = epoch,
                ir_actor_id = aa_actor_id auth, ir_role = pm_role m\<rparr>))))) s))"

definition list_handoffs ::
  "codec \<Rightarrow> ('st, 'x) canonical_store_scheme \<Rightarrow> run_outcome \<Rightarrow> headers \<Rightarrow> string
    \<Rightarrow> string + handoff_list_query \<Rightarrow> 'st \<Rightarrow> 'st \<times> (api_error + handoff_page)" where
  "list_handoffs cod store outcome headers path query s =
     try_api s (id_try_from ''project_id'' path) (\<lambda>pid.
     try_api s (extracted query) (\<lambda>q.
     try_api s (handoff_query_new (lq_mailbox q) (lq_source_id q)
       (case lq_include_completed q of None \<Rightarrow> lq_mailbox q = Outbox | Some b \<Rightarrow> b)
       (lq_before_seq q) (case lq_limit q of None \<Rightarrow> 20 | Some n \<Rightarrow> n)) (\<lambda>q.
     try_api s (bearer_digest_from_headers cod headers) (\<lambda>digest.
       run_service outcome (reading (\<lambda>s.
         and_then (request_context (sc_identity store) digest pid s) (\<lambda>(auth, m).
           service_handoffs store auth m pid q s))) s))))"

definition get_handoff ::
  "codec \<Rightarrow> ('st, 'x) canonical_store_scheme \<Rightarrow> run_outcome \<Rightarrow> headers \<Rightarrow> string \<times> string \<Rightarrow> 'st
    \<Rightarrow> 'st \<times> (api_error + (revision \<times> handoff_record))" where
  "get_handoff cod store outcome headers path s =
     try_api s (id_try_from ''project_id'' (fst path)) (\<lambda>pid.
     try_api s (id_try_from ''handoff_id'' (snd path)) (\<lambda>hid.
     try_api s (bearer_digest_from_headers cod headers) (\<lambda>digest.
       run_service outcome (reading (\<lambda>s.
         and_then (request_context (sc_identity store) digest pid s) (\<lambda>(auth, m).
         and_then (resource_ref_of ''handoff'' hid) (\<lambda>ref.
         and_then (load_record (cd_handoff_of cod) store auth m pid ref s) (\<lambda>(revision, record).
           if \<not> handoff_is_visible_to record (aa_actor_id auth) then Inl HandoffActorMismatch
           else Inr (revision, record)))))) s)))"

end
