(* ===== verification/Server_Router.thy ===== *)
theory Server_Router
  imports Server_Product Service_Writes
begin

text \<open>
  \<open>router\<close> of \<open>aidememo-server/src/lib.rs\<close> and \<open>routes\<close> of \<open>product.rs\<close>: the requests the modelled
  routes serve, the dispatch to their handlers, and the runs of a server: requests interleaved with
  the operator's provisioning calls.
\<close>

section \<open>Requests and replies\<close>

datatype http_request =
    GetHealth
  | PostCommand headers "string + command_request"
  | GetChanges headers string "string + change_query"
  | GetMaterialized headers string "string + change_query"
  | GetSnapshot headers string
  | GetResource headers "string \<times> string \<times> string"
  | GetIdentity headers string
  | PostSession headers string "string + session_create_payload create_request"
  | PostFact headers string "string + fact_create_payload create_request"
  | PostContext headers string "string + context_create_payload create_request"
  | PostHandoff headers string "string + handoff_send_payload create_request"
  | ListHandoffs headers string "string + handoff_list_query"
  | GetHandoff headers "string \<times> string"
  | PostAccept headers "string \<times> string" "string + accept_payload transition_request"
  | PostHeartbeat headers "string \<times> string" "string + heartbeat_payload transition_request"
  | PostReturn headers "string \<times> string" "string + return_payload transition_request"

datatype http_reply =
    ReplyError api_error
  | ReplyHealth nat
  | ReplyReceipt command_receipt
  | ReplyChanges change_batch
  | ReplyMaterialized materialized_batch_response
  | ReplySnapshot snapshot_response
  | ReplyResource resource_response
  | ReplyIdentity identity_response
  | ReplyPage handoff_page
  | ReplyHandoff revision handoff_record

definition reply :: "('a \<Rightarrow> http_reply) \<Rightarrow> 'st \<times> (api_error + 'a) \<Rightarrow> 'st \<times> http_reply" where
  "reply f p = (fst p, case snd p of Inl e \<Rightarrow> ReplyError e | Inr x \<Rightarrow> f x)"

text \<open>\<open>clock\<close> is what the handler reads from the system clock, if it reads it.\<close>

fun handle ::
  "codec \<Rightarrow> ('st, 'x) canonical_store_scheme \<Rightarrow> run_outcome \<Rightarrow> int \<Rightarrow> http_request \<Rightarrow> 'st
    \<Rightarrow> 'st \<times> http_reply" where
  "handle cod store out clock GetHealth s = reply ReplyHealth (server_health store out s)"
| "handle cod store out clock (PostCommand h p) s =
     reply ReplyReceipt (server_command cod store out h p s)"
| "handle cod store out clock (GetChanges h path q) s =
     reply ReplyChanges (server_changes cod store out h path q s)"
| "handle cod store out clock (GetMaterialized h path q) s =
     reply ReplyMaterialized (server_materialized_changes cod store out h path q s)"
| "handle cod store out clock (GetSnapshot h path) s =
     reply ReplySnapshot (server_snapshot cod store out h path s)"
| "handle cod store out clock (GetResource h path) s =
     reply ReplyResource (server_resource cod store out h path s)"
| "handle cod store out clock (GetIdentity h path) s =
     reply ReplyIdentity (get_identity cod store out h path s)"
| "handle cod store out clock (PostSession h path p) s =
     reply ReplyReceipt (create_session cod store out h path p s)"
| "handle cod store out clock (PostFact h path p) s =
     reply ReplyReceipt (create_fact cod store out h path p s)"
| "handle cod store out clock (PostContext h path p) s =
     reply ReplyReceipt (create_handoff_context cod store out h path p s)"
| "handle cod store out clock (PostHandoff h path p) s =
     reply ReplyReceipt (send_handoff cod store out h path p s)"
| "handle cod store out clock (ListHandoffs h path q) s =
     reply ReplyPage (list_handoffs cod store out h path q s)"
| "handle cod store out clock (GetHandoff h path) s =
     reply (\<lambda>(revision, record). ReplyHandoff revision record) (get_handoff cod store out h path s)"
| "handle cod store out clock (PostAccept h path p) s =
     reply ReplyReceipt (accept_handoff cod store out clock h path p s)"
| "handle cod store out clock (PostHeartbeat h path p) s =
     reply ReplyReceipt (heartbeat_handoff cod store out clock h path p s)"
| "handle cod store out clock (PostReturn h path p) s =
     reply ReplyReceipt (return_handoff cod store out clock h path p s)"

section \<open>Addressing\<close>

text \<open>The credentials of a request and the project it addresses, as text.\<close>

fun request_headers :: "http_request \<Rightarrow> headers" where
  "request_headers GetHealth = None"
| "request_headers (PostCommand h p) = h"
| "request_headers (GetChanges h path q) = h"
| "request_headers (GetMaterialized h path q) = h"
| "request_headers (GetSnapshot h path) = h"
| "request_headers (GetResource h path) = h"
| "request_headers (GetIdentity h path) = h"
| "request_headers (PostSession h path p) = h"
| "request_headers (PostFact h path p) = h"
| "request_headers (PostContext h path p) = h"
| "request_headers (PostHandoff h path p) = h"
| "request_headers (ListHandoffs h path q) = h"
| "request_headers (GetHandoff h path) = h"
| "request_headers (PostAccept h path p) = h"
| "request_headers (PostHeartbeat h path p) = h"
| "request_headers (PostReturn h path p) = h"

fun request_project :: "http_request \<Rightarrow> string option" where
  "request_project GetHealth = None"
| "request_project (PostCommand h p) =
     (case p of Inl _ \<Rightarrow> None | Inr rq \<Rightarrow> Some (rq_project_id rq))"
| "request_project (GetChanges h path q) = Some path"
| "request_project (GetMaterialized h path q) = Some path"
| "request_project (GetSnapshot h path) = Some path"
| "request_project (GetResource h path) = Some (fst path)"
| "request_project (GetIdentity h path) = Some path"
| "request_project (PostSession h path p) = Some path"
| "request_project (PostFact h path p) = Some path"
| "request_project (PostContext h path p) = Some path"
| "request_project (PostHandoff h path p) = Some path"
| "request_project (ListHandoffs h path q) = Some path"
| "request_project (GetHandoff h path) = Some (fst path)"
| "request_project (PostAccept h path p) = Some (fst path)"
| "request_project (PostHeartbeat h path p) = Some (fst path)"
| "request_project (PostReturn h path p) = Some (fst path)"

section \<open>Failing early\<close>

definition fails :: "'st \<Rightarrow> 'st \<times> (api_error + 'a) \<Rightarrow> bool" where
  "fails s p \<longleftrightarrow> (\<exists>e. p = (s, Inl e))"

lemma fails_try_api: "(\<And>x. r = Inr x \<Longrightarrow> fails s (f x)) \<Longrightarrow> fails s (try_api s r f)"
  by (cases r) (auto simp: fails_def)

lemma fails_try_do: "fails s p \<Longrightarrow> fails s (try_do p f)"
  by (auto simp: fails_def)

lemma fails_reply: "fails s p \<Longrightarrow> \<exists>e. reply f p = (s, ReplyError e)"
  by (auto simp: fails_def reply_def)

lemma fails_run: "operation s = (s, Inl e) \<Longrightarrow> fails s (run_service outcome operation s)"
  by (cases outcome) (auto simp: run_service_def fails_def)

text \<open>A request of which no credential check succeeds for its project.\<close>

definition unauthorized_request ::
  "codec \<Rightarrow> ('st, 'x) identity_store_scheme \<Rightarrow> http_request \<Rightarrow> 'st \<Rightarrow> bool" where
  "unauthorized_request cod ids rq s \<longleftrightarrow> rq \<noteq> GetHealth \<and>
     (\<forall>digest pid am. bearer_digest_from_headers cod (request_headers rq) = Inr digest \<longrightarrow>
        request_project rq = Some pid \<longrightarrow> request_context ids digest pid s \<noteq> Inr am)"

lemma fails_context:
  assumes "\<And>am. request_context ids digest pid s \<noteq> Inr am"
    and "\<And>e. request_context ids digest pid s = Inl e \<Longrightarrow> \<exists>e'. operation s = (s, Inl e')"
  shows "fails s (run_service outcome operation s)"
proof -
  obtain e where "request_context ids digest pid s = Inl e"
    using assms(1) by (cases "request_context ids digest pid s") auto
  with assms(2) show ?thesis using fails_run by metis
qed

lemma fails_typed:
  assumes "\<And>am. request_context (sc_identity store) digest pid s \<noteq> Inr am"
  shows "fails s (run_service outcome (typed_mutation cod store digest pid ref env build) s)"
  by (rule fails_context [OF assms]) (simp add: typed_mutation_def typed_prepare_def)

lemma fails_raw:
  assumes "\<And>am. request_context (sc_identity store) digest (rq_project_id rq) s \<noteq> Inr am"
  shows "fails s (run_service outcome (raw_command_closure cod store digest rq) s)"
  by (rule fails_context [OF assms]) (simp add: raw_command_closure_def)

lemma fails_reading:
  assumes "\<And>am. request_context (sc_identity store) digest pid s \<noteq> Inr am"
  shows "fails s (run_service outcome (reading (\<lambda>s.
    and_then (request_context (sc_identity store) digest pid s) (f s))) s)"
  by (rule fails_context [OF assms]) (simp add: reading_def)

lemmas fails_intros = fails_reply fails_try_api fails_try_do fails_typed fails_raw fails_reading

lemma id_try_from_same: "id_try_from kind t = Inr x \<Longrightarrow> x = t"
  by (simp add: result_iffs)

lemma unauthorized_fails:
  assumes "unauthorized_request cod (sc_identity store) rq s"
  shows "\<exists>e. handle cod store out clock rq s = (s, ReplyError e)"
proof -
  have none: "request_context (sc_identity store) digest pid s \<noteq> Inr am"
    if "bearer_digest_from_headers cod (request_headers rq) = Inr digest" "request_project rq = Some pid"
    for digest pid am
    using assms that unfolding unauthorized_request_def by blast
  have "rq \<noteq> GetHealth" using assms by (simp add: unauthorized_request_def)
  then show ?thesis
    using none
    by (cases rq; simp only: handle.simps request_headers.simps request_project.simps
        server_command_def server_changes_def server_materialized_changes_def server_snapshot_def
        server_resource_def get_identity_def create_session_def create_fact_def
        create_handoff_context_def send_handoff_def list_handoffs_def get_handoff_def
        accept_handoff_def heartbeat_handoff_def return_handoff_def split_beta option.inject
        simp_thms; intro fails_intros; auto dest!: id_try_from_same simp: extracted_def result_iffs)
qed

end
