(* ===== verification/Server_Spec.thy ===== *)
theory Server_Spec
  imports Server_Router Handoff_Lifecycle
begin

text \<open>
  What a server may do to its ledger, as an abstract machine: which entries a request may append to
  a project's log, given what the log holds. A server over any store that meets the contract
  refines it.
\<close>

section \<open>Entries a request may append\<close>

text \<open>The record a canonical resource currently holds.\<close>

definition stored ::
  "(bytes \<Rightarrow> 'r option) \<Rightarrow> ledger \<Rightarrow> project_scope \<Rightarrow> resource_ref \<Rightarrow> 'r \<Rightarrow> bool" where
  "stored dec L scope ref x \<longleftrightarrow> (\<exists>r body. ledger_resource L scope ref = Some r \<and>
     cr_state r = Present body \<and> dec body = Some x)"

definition coord :: "string \<Rightarrow> string \<Rightarrow> resource_ref" where
  "coord kind rid = \<lparr>rf_kind = kind, rf_id = rid\<rparr>"

definition entry_actor :: "log_entry \<Rightarrow> actor_id" where
  "entry_actor e = cp_actor_id (le_receipt e)"

definition writes :: "codec \<Rightarrow> log_entry \<Rightarrow> json \<Rightarrow> bool" where
  "writes cod e v \<longleftrightarrow> le_change e = Upsert \<and> le_body e = Some (canonical_json_bytes cod v)"

text \<open>A handoff as it is first stored: new, and possibly with the context packet it names.\<close>

definition freshly_sent :: "actor_id \<Rightarrow> handoff_id \<Rightarrow> handoff_record \<Rightarrow> bool" where
  "freshly_sent sender hid h \<longleftrightarrow> (\<exists>session receiver focus done_when h0.
     handoff_new hid session sender receiver focus done_when = Inr h0 \<and>
     (h = h0 \<or> (\<exists>c. attach_context h0 c = Inr h)))"

text \<open>
  A transition made by an actor. Its lease is the server's, and the evidence of a return is a fact
  that is stored in the same project.
\<close>

fun move_by :: "codec \<Rightarrow> ledger \<Rightarrow> project_scope \<Rightarrow> actor_id \<Rightarrow> handoff_op \<Rightarrow> bool" where
  "move_by cod L scope actor (OpAttach c) \<longleftrightarrow> False"
| "move_by cod L scope actor (OpAccept a claim now lease) \<longleftrightarrow> a = actor \<and> lease = HANDOFF_LEASE_MS"
| "move_by cod L scope actor (OpHeartbeat a claim now lease) \<longleftrightarrow> a = actor \<and> lease = HANDOFF_LEASE_MS"
| "move_by cod L scope actor (OpReturn a claim f out now) \<longleftrightarrow>
     a = actor \<and> (\<exists>fid. stored (cd_fact_of cod) L scope (coord ''fact'' fid) f)"

inductive server_entry :: "codec \<Rightarrow> ledger \<Rightarrow> project_scope \<Rightarrow> log_entry \<Rightarrow> bool"
  for cod L scope where
  extension: "starts_with EXTENSION_RESOURCE_PREFIX (rf_kind (le_ref e)) \<Longrightarrow>
    le_change e = Delete \<or> (\<exists>v. writes cod e v) \<Longrightarrow> server_entry cod L scope e"
| session_created: "le_ref e = coord ''session'' sid \<Longrightarrow>
    ledger_resource L scope (le_ref e) = None \<Longrightarrow>
    session_new sid source topic (entry_actor e) = Inr r \<Longrightarrow> writes cod e (cd_session_value cod r) \<Longrightarrow>
    server_entry cod L scope e"
| fact_created: "le_ref e = coord ''fact'' fid \<Longrightarrow> ledger_resource L scope (le_ref e) = None \<Longrightarrow>
    stored (cd_session_of cod) L scope (coord ''session'' sid) session \<Longrightarrow>
    fact_new fid (se_session_id session) (se_source_id session) (entry_actor e) content = Inr r \<Longrightarrow>
    writes cod e (cd_fact_value cod r) \<Longrightarrow> server_entry cod L scope e"
| context_created: "le_ref e = coord ''handoff_context'' xid \<Longrightarrow>
    ledger_resource L scope (le_ref e) = None \<Longrightarrow>
    stored (cd_session_of cod) L scope (coord ''session'' sid) session \<Longrightarrow>
    context_new xid hid session (entry_actor e) receiver content = Inr r \<Longrightarrow>
    writes cod e (cd_context_value cod r) \<Longrightarrow> server_entry cod L scope e"
| handoff_sent: "le_ref e = coord ''handoff'' hid \<Longrightarrow> ledger_resource L scope (le_ref e) = None \<Longrightarrow>
    freshly_sent (entry_actor e) hid h \<Longrightarrow> writes cod e (cd_handoff_value cod h) \<Longrightarrow>
    server_entry cod L scope e"
| handoff_moved: "le_ref e = coord ''handoff'' hid \<Longrightarrow>
    stored (cd_handoff_of cod) L scope (le_ref e) h \<Longrightarrow> move_by cod L scope (entry_actor e) op \<Longrightarrow>
    apply_handoff_op op h = Inr h' \<Longrightarrow> writes cod e (cd_handoff_value cod h') \<Longrightarrow>
    server_entry cod L scope e"

inductive_cases server_entryE: "server_entry cod L scope e"

section \<open>Ledgers of a server\<close>

definition appends :: "ledger \<Rightarrow> project_scope \<Rightarrow> log_entry \<Rightarrow> ledger \<Rightarrow> bool" where
  "appends L scope e L' \<longleftrightarrow> (\<exists>epoch log. L scope = Some (epoch, log) \<and>
     L' = L(scope \<mapsto> (epoch, log @ [e])))"

inductive server_ledger :: "codec \<Rightarrow> ledger \<Rightarrow> bool" for cod where
  empty: "server_ledger cod Map.empty"
| registered: "server_ledger cod L \<Longrightarrow> registers L L' \<Longrightarrow> server_ledger cod L'"
| appended: "server_ledger cod L \<Longrightarrow> server_entry cod L scope e \<Longrightarrow> appends L scope e L' \<Longrightarrow>
    server_ledger cod L'"

section \<open>The interface of a canonical store\<close>

text \<open>
  Beside the ledger contract, the handlers rely on the identities the store returns: valid ids for a
  token, and for a membership lookup exactly the membership asked for, active.
\<close>

locale canonical_server = mailbox_store store dec rep clock
  for store :: "('st, 'x) canonical_store_scheme"
    and dec :: "bytes \<Rightarrow> handoff_record option"
    and rep :: "'st \<Rightarrow> ledger \<Rightarrow> bool" and clock :: "'st \<Rightarrow> int" +
  assumes authenticated_ids: "id_authenticate_token (sc_identity store) s digest = Inr (Some auth) \<Longrightarrow>
      id_ok (aa_tenant_id auth) \<and> id_ok (aa_actor_id auth)"
    and membership_exact: "id_project_membership (sc_identity store) s scope actor = Inr (Some m) \<Longrightarrow>
      pm_tenant_id m = sc_tenant_id scope \<and> pm_project_id m = sc_project_id scope \<and>
      pm_actor_id m = actor \<and> pm_status m = MembershipActive"
begin

lemma context_admits:
  assumes "request_context (sc_identity store) digest pid s = Inr (auth, m)"
  shows "membership_admits auth m" "pm_project_id m = pid" "id_ok (aa_tenant_id auth)"
    "id_ok (aa_actor_id auth)" "member_scope m = scope_new (aa_tenant_id auth) pid"
proof -
  have parts: "id_authenticate_token (sc_identity store) s digest = Inr (Some auth)"
    "id_project_membership (sc_identity store) s (scope_new (aa_tenant_id auth) pid)
       (aa_actor_id auth) = Inr (Some m)"
    using assms by (auto simp: request_context_def id_membership_def result_iffs)
  from authenticated_ids [OF parts(1)] membership_exact [OF parts(2)]
  show "membership_admits auth m" "pm_project_id m = pid" "id_ok (aa_tenant_id auth)"
    "id_ok (aa_actor_id auth)" "member_scope m = scope_new (aa_tenant_id auth) pid"
    by (simp_all add: membership_admits_def member_scope_def)
qed

lemma resource_read_context:
  assumes "rep s L" "request_context (sc_identity store) digest pid s = Inr (auth, m)"
  shows "service_resource store auth m pid ref s =
    Inr (ledger_resource L (scope_new (aa_tenant_id auth) pid) ref)"
  using context_admits [OF assms(2)] resource_read [OF assms(1)]
  by (simp add: service_resource_def membership_admits_def access_authorize_def access_scope_def
      member_scope_def)

lemma absent_context:
  assumes "rep s L" "request_context (sc_identity store) digest pid s = Inr (auth, m)"
    and "ensure_absent store auth m pid ref s = Inr u"
  shows "ledger_resource L (scope_new (aa_tenant_id auth) pid) ref = None"
  using assms(3) resource_read_context [OF assms(1,2)] by (simp add: ensure_absent_def result_iffs)

lemma load_context:
  assumes "rep s L" "request_context (sc_identity store) digest pid s = Inr (auth, m)"
    and "load_record dec' store auth m pid ref s = Inr (v, x)"
  shows "stored dec' L (scope_new (aa_tenant_id auth) pid) ref x"
proof -
  obtain c where "ledger_resource L (scope_new (aa_tenant_id auth) pid) ref = Some c"
    "decode_record dec' c = Inr (v, x)"
    using assms(3) resource_read_context [OF assms(1,2)] by (auto simp: load_record_def result_iffs)
  then show ?thesis
    by (cases "cr_state c") (auto simp: decode_record_def stored_def split: option.splits)
qed

text \<open>Executing one command leaves the ledger or appends one entry.\<close>

lemma execute_effect:
  assumes "rep s L" "command_ok c" "int (length (log_of L (command_scope c))) < i64_max"
    and "cs_execute store c s = (s', r)"
  obtains (same) "rep s' L"
  | (appended) e L' where "rep s' L'" "appends L (command_scope c) e L'" "r = Inr (le_receipt e)"
      "le_ref e = mc_resource c" "le_body e = mc_resource_body c" "le_change e = mc_change c"
      "entry_actor e = command_actor c"
proof -
  obtain L' where L': "ledger_execute dec (clock s) c L = (L', r)" "rep s' L'"
    using execute_outcome [OF assms] by blast
  from L'(1) show thesis
  proof (cases rule: ledger_execute_cases)
    case (committed epoch log now)
    show thesis
    proof (rule appended [of L' "ledger_entry log now c"])
      show "rep s' L'" by (rule L'(2))
      show "appends L (command_scope c) (ledger_entry log now c) L'"
        using committed by (auto simp: appends_def)
      show "r = Inr (le_receipt (ledger_entry log now c))" by (rule committed)
    qed (simp_all add: ledger_entry_def new_receipt_def le_ref_def entry_actor_def command_actor_def Let_def)
  qed (use L'(2) same in auto)
qed

lemma typed_effect:
  assumes "rep s L" "sha256_sized cod" "id_ok pid" "en_project_id env = pid"
    and "id_ok (en_command_id env)" "name_ok (en_operation env)" "ref_ok ref"
    and "\<And>scope. int (length (log_of L scope)) < i64_max"
    and "typed_mutation cod store digest pid ref env build s = (s', r)"
  obtains (same) "rep s' L"
  | (appended) auth m v e L' where
      "request_context (sc_identity store) digest pid s = Inr (auth, m)"
      "build auth m s = Inr v" "rep s' L'"
      "appends L (scope_new (aa_tenant_id auth) pid) e L'" "r = Inr (le_receipt e)" "le_ref e = ref"
      "writes cod e v" "entry_actor e = aa_actor_id auth"
proof (cases "typed_prepare cod store digest pid ref env build s")
  case (Inl er)
  then have "s' = s" using assms(9) by (simp add: typed_mutation_def)
  with assms(1) same show thesis by simp
next
  case (Inr p)
  show thesis
  proof (cases p)
    case (Answered rc)
    then have "s' = s" using assms(9) Inr by (simp add: typed_mutation_def)
    with assms(1) same show thesis by simp
  next
    case (Ready auth m v)
    have run: "execute_prepared cod store auth m env ref Upsert
        (Some (canonical_json_bytes cod v)) s = (s', r)"
      using assms(9) Inr Ready by (simp add: typed_mutation_def service_execute_with_body_def)
    have ready: "request_context (sc_identity store) digest pid s = Inr (auth, m)"
      "build auth m s = Inr v"
      using Inr Ready by (auto simp: typed_prepare_def result_iffs split: option.splits)
    note admits = context_admits [OF ready(1)]
    show thesis
    proof (cases "write_admitted auth m (en_project_id env)")
      case False
      then have "s' = s" using prepared_refused run by (metis prod.inject)
      with assms(1) same show thesis by simp
    next
      case True
      let ?c = "prepared_command cod m env ref Upsert (Some (canonical_json_bytes cod v))"
      have m: "membership_ok m" "pm_actor_id m = aa_actor_id auth"
        using admits assms(3) by (simp_all add: membership_ok_def membership_admits_def)
      have c: "command_ok ?c"
        using m prepared_ok [OF assms(2)] assms(4-7) admits(2) by (simp add: request_ok_def)
      have exec: "cs_execute store ?c s = (s', r)"
        using run prepared_granted [OF assms(2) True] by metis
      show thesis
      proof (rule execute_effect [OF assms(1) c assms(8) exec])
        assume "rep s' L"
        then show thesis by (rule same)
      next
        fix e L'
        assume "rep s' L'" "appends L (command_scope ?c) e L'" "r = Inr (le_receipt e)"
          "le_ref e = mc_resource ?c" "le_body e = mc_resource_body ?c" "le_change e = mc_change ?c"
          "entry_actor e = command_actor ?c"
        then show thesis
          using appended [OF ready, of L' e] m admits by (simp add: writes_def)
      qed
    qed
  qed
qed

end

end
