(* ===== verification/Server_Refinement.thy ===== *)
theory Server_Refinement
  imports Server_Spec
begin

text \<open>
  Every request a server handles is a step of the abstract server: the ledger stays as it is, or
  grows by one entry that \<open>server_entry\<close> allows. The SQLite-backed server is an instance.
\<close>

section \<open>What the typed handlers append\<close>

text \<open>What the Rust types guarantee of a request: its command id and coordinates are valid.\<close>

fun request_typed :: "http_request \<Rightarrow> bool" where
  "request_typed (PostCommand h (Inr rq)) \<longleftrightarrow> id_ok (rq_command_id rq) \<and> id_ok (rq_project_id rq) \<and>
     name_ok (rq_operation rq) \<and> ref_ok (rq_resource rq)"
| "request_typed (PostSession h path (Inr rq)) \<longleftrightarrow> id_ok (ct_command_id rq)"
| "request_typed (PostFact h path (Inr rq)) \<longleftrightarrow> id_ok (ct_command_id rq)"
| "request_typed (PostContext h path (Inr rq)) \<longleftrightarrow> id_ok (ct_command_id rq)"
| "request_typed (PostHandoff h path (Inr rq)) \<longleftrightarrow> id_ok (ct_command_id rq)"
| "request_typed (PostAccept h path (Inr rq)) \<longleftrightarrow> id_ok (tn_command_id rq)"
| "request_typed (PostHeartbeat h path (Inr rq)) \<longleftrightarrow> id_ok (tn_command_id rq)"
| "request_typed (PostReturn h path (Inr rq)) \<longleftrightarrow> id_ok (tn_command_id rq)"
| "request_typed _ \<longleftrightarrow> True"

lemma resource_ref_of_Inr [result_iffs]:
  "resource_ref_of kind rid = Inr ref \<longleftrightarrow> name_ok kind \<and> id_ok rid \<and> ref = coord kind rid"
  by (auto simp: resource_ref_of_def coord_def result_iffs)

lemma coord_ok: "name_ok kind \<Longrightarrow> id_ok rid \<Longrightarrow> ref_ok (coord kind rid)"
  by (simp add: ref_ok_def coord_def)

lemma coord_simps [simp]: "rf_kind (coord kind rid) = kind" "rf_id (coord kind rid) = rid"
  by (simp_all add: coord_def)

lemma create_envelope_Inr [result_iffs]:
  "create_envelope cid pid op v = Inr env \<longleftrightarrow> name_ok op \<and>
     env = \<lparr>en_command_id = cid, en_project_id = pid, en_expected_revision = None,
       en_operation = op, en_payload = v\<rparr>"
  by (auto simp: create_envelope_def result_iffs)

lemma transition_envelope_Inr [result_iffs]:
  "transition_envelope cid pid expected op v = Inr env \<longleftrightarrow> name_ok op \<and>
     env = \<lparr>en_command_id = cid, en_project_id = pid, en_expected_revision = Some expected,
       en_operation = op, en_payload = v\<rparr>"
  by (auto simp: transition_envelope_def result_iffs)

lemma load_record_Inr_pair:
  "and_then (load_record dec store auth m pid ref s) (\<lambda>(v, x). f x) = Inr y \<longleftrightarrow>
     (\<exists>v x. load_record dec store auth m pid ref s = Inr (v, x) \<and> f x = Inr y)"
  by (auto simp: result_iffs)

lemmas build_iffs = result_iffs load_record_Inr_pair

context canonical_server
begin

lemma session_entry:
  assumes "rep s L" "request_context (sc_identity store) digest pid s = Inr (auth, m)"
    and "session_build cod store pid ref p auth m s = Inr v"
    and "ref = coord ''session'' (sp_session_id p)" "le_ref e = ref" "writes cod e v"
    and "entry_actor e = aa_actor_id auth"
  shows "server_entry cod L (scope_new (aa_tenant_id auth) pid) e"
proof -
  obtain r where r: "ensure_absent store auth m pid ref s = Inr ()"
    "session_new (sp_session_id p) (sp_source_id p) (sp_topic p) (entry_actor e) = Inr r"
    "v = cd_session_value cod r"
    using assms(3,7) by (auto simp: session_build_def build_iffs)
  show ?thesis
    using absent_context [OF assms(1,2) r(1)] r(2,3) assms(4-6)
    by (intro server_entry.session_created [of e "sp_session_id p" L _ "sp_source_id p" "sp_topic p" r]) simp_all
qed

lemma fact_entry:
  assumes "rep s L" "request_context (sc_identity store) digest pid s = Inr (auth, m)"
    and "fact_build cod store pid ref p auth m s = Inr v"
    and "ref = coord ''fact'' (fp_fact_id p)" "le_ref e = ref" "writes cod e v"
    and "entry_actor e = aa_actor_id auth"
  shows "server_entry cod L (scope_new (aa_tenant_id auth) pid) e"
proof -
  obtain w session r where r:
    "load_record (cd_session_of cod) store auth m pid (coord ''session'' (fp_session_id p)) s =
      Inr (w, session)"
    "ensure_absent store auth m pid ref s = Inr ()"
    "fact_new (fp_fact_id p) (se_session_id session) (se_source_id session) (entry_actor e)
      (fp_content p) = Inr r" "v = cd_fact_value cod r"
    using assms(3,7) by (auto simp: fact_build_def build_iffs)
  show ?thesis
    by (rule server_entry.fact_created [OF _ _ load_context [OF assms(1,2) r(1)] r(3)])
      (use absent_context [OF assms(1,2) r(2)] r(4) assms(4-6) in simp_all)
qed

lemma context_entry:
  assumes "rep s L" "request_context (sc_identity store) digest pid s = Inr (auth, m)"
    and "context_build cod store pid ref p auth m s = Inr v"
    and "ref = coord ''handoff_context'' (xp_context_id p)" "le_ref e = ref" "writes cod e v"
    and "entry_actor e = aa_actor_id auth"
  shows "server_entry cod L (scope_new (aa_tenant_id auth) pid) e"
proof -
  obtain w session r where r:
    "load_record (cd_session_of cod) store auth m pid (coord ''session'' (xp_session_id p)) s =
      Inr (w, session)"
    "ensure_absent store auth m pid ref s = Inr ()"
    "context_new (xp_context_id p) (xp_handoff_id p) session (entry_actor e) (xp_to_actor p)
      (xp_content p) = Inr r" "v = cd_context_value cod r"
    using assms(3,7) by (auto simp: context_build_def build_iffs)
  show ?thesis
    by (rule server_entry.context_created [OF _ _ load_context [OF assms(1,2) r(1)] r(3)])
      (use absent_context [OF assms(1,2) r(2)] r(4) assms(4-6) in simp_all)
qed

lemma send_entry:
  assumes "rep s L" "request_context (sc_identity store) digest pid s = Inr (auth, m)"
    and "send_build cod store pid ref p auth m s = Inr v"
    and "ref = coord ''handoff'' (hs_handoff_id p)" "le_ref e = ref" "writes cod e v"
    and "entry_actor e = aa_actor_id auth"
  shows "server_entry cod L (scope_new (aa_tenant_id auth) pid) e"
proof -
  obtain session h0 h where h: "ensure_absent store auth m pid ref s = Inr ()"
    "handoff_new (hs_handoff_id p) session (entry_actor e) (hs_to_actor p) (hs_focus p)
      (hs_done_when p) = Inr h0"
    "h = h0 \<or> (\<exists>c. attach_context h0 c = Inr h)" "v = cd_handoff_value cod h"
    using assms(3,7) by (auto simp: send_build_def build_iffs split: option.splits) blast
  then have "freshly_sent (entry_actor e) (hs_handoff_id p) h"
    unfolding freshly_sent_def by blast
  then show ?thesis
    by (rule server_entry.handoff_sent [rotated 2])
      (use absent_context [OF assms(1,2) h(1)] h(4) assms(4-6) in simp_all)
qed

lemma transition_entry:
  assumes "rep s L" "request_context (sc_identity store) digest pid s = Inr (auth, m)"
    and "transition_build cod store pid ref expected move auth m s = Inr v"
    and "ref = coord ''handoff'' hid" "le_ref e = ref" "writes cod e v"
    and "entry_actor e = aa_actor_id auth"
    and "\<And>h h'. move auth m s h = Inr h' \<Longrightarrow> \<exists>op. apply_handoff_op op h = Inr h' \<and>
      move_by cod L (scope_new (aa_tenant_id auth) pid) (aa_actor_id auth) op"
  shows "server_entry cod L (scope_new (aa_tenant_id auth) pid) e"
proof -
  obtain w h h' where h: "load_record (cd_handoff_of cod) store auth m pid ref s = Inr (w, h)"
    "move auth m s h = Inr h'" "v = cd_handoff_value cod h'"
    using assms(3) by (auto simp: transition_build_def build_iffs)
  obtain op where op: "apply_handoff_op op h = Inr h'"
    "move_by cod L (scope_new (aa_tenant_id auth) pid) (entry_actor e) op"
    using assms(8) [OF h(2)] assms(7) by auto
  show ?thesis
    by (rule server_entry.handoff_moved [OF _ _ op(2,1)])
      (use load_context [OF assms(1,2) h(1)] h(3) assms(4-6) in simp_all)
qed

lemma accept_is_move:
  "accept_move p now auth m s h = Inr h' \<Longrightarrow> \<exists>op. apply_handoff_op op h = Inr h' \<and>
     move_by cod L scope (aa_actor_id auth) op"
  by (rule exI [of _ "OpAccept (aa_actor_id auth) (ap_claim_id p) now HANDOFF_LEASE_MS"])
    (simp add: accept_move_def)

lemma heartbeat_is_move:
  "heartbeat_move p now auth m s h = Inr h' \<Longrightarrow> \<exists>op. apply_handoff_op op h = Inr h' \<and>
     move_by cod L scope (aa_actor_id auth) op"
  by (rule exI [of _ "OpHeartbeat (aa_actor_id auth) (bp_claim_id p) now HANDOFF_LEASE_MS"])
    (simp add: heartbeat_move_def)

lemma return_is_move:
  assumes "rep s L" "request_context (sc_identity store) digest pid s = Inr (auth, m)"
    and "return_move cod store pid p now auth m s h = Inr h'"
  shows "\<exists>op. apply_handoff_op op h = Inr h' \<and>
    move_by cod L (scope_new (aa_tenant_id auth) pid) (aa_actor_id auth) op"
proof -
  obtain w f where f:
    "load_record (cd_fact_of cod) store auth m pid (coord ''fact'' (rp_result_fact_id p)) s = Inr (w, f)"
    "return_result_at h (aa_actor_id auth) (rp_claim_id p) f (rp_outcome p) now = Inr h'"
    using assms(3) by (auto simp: return_move_def build_iffs)
  show ?thesis
    using load_context [OF assms(1,2) f(1)] f(2)
    by (intro exI [of _ "OpReturn (aa_actor_id auth) (rp_claim_id p) f (rp_outcome p) now"]) auto
qed

end

section \<open>One request is one step\<close>

definition ledger_step :: "('st \<Rightarrow> ledger \<Rightarrow> bool) \<Rightarrow> codec \<Rightarrow> ledger \<Rightarrow> 'st \<Rightarrow> bool" where
  "ledger_step rep cod L s' \<longleftrightarrow> rep s' L \<or>
     (\<exists>scope e L'. rep s' L' \<and> appends L scope e L' \<and> server_entry cod L scope e)"

lemma step_same: "rep s L \<Longrightarrow> ledger_step rep cod L s"
  by (simp add: ledger_step_def)

lemma step_try_api:
  "rep s L \<Longrightarrow> (\<And>x. r = Inr x \<Longrightarrow> ledger_step rep cod L (fst (f x))) \<Longrightarrow>
     ledger_step rep cod L (fst (try_api s r f))"
  by (cases r) (auto simp: ledger_step_def)

lemma step_run:
  "rep s L \<Longrightarrow> ledger_step rep cod L (fst (operation s)) \<Longrightarrow>
     ledger_step rep cod L (fst (run_service outcome operation s))"
  by (cases outcome) (auto simp: run_service_def ledger_step_def)

lemma fst_run_reading [simp]: "fst (run_service outcome (reading f) s) = s"
  by (cases outcome) (simp_all add: run_service_def reading_def)

lemma fst_try_api_pure [simp]: "fst (try_api s r (\<lambda>y. (s, g y))) = s"
  by (cases r) simp_all

lemma fst_read_then [simp]:
  "fst (try_do (run_service outcome (reading f) s) (\<lambda>s x. try_api s (g x) (\<lambda>y. (s, Inr y)))) = s"
  by (simp add: try_do_def split: sum.splits)

lemma step_read: "rep s L \<Longrightarrow> fst p = s \<Longrightarrow> ledger_step rep cod L (fst p)"
  by (simp add: ledger_step_def)

lemma fst_reply [simp]: "fst (reply f p) = fst p"
  by (simp add: reply_def)

lemma service_refused:
  "\<not> write_admitted auth m (en_project_id env) \<Longrightarrow>
     \<exists>e. service_execute cod store auth m env ref ch s = (s, Inl e)"
  unfolding service_execute_def by (rule prepared_refused)

context canonical_server
begin

lemma step_typed:
  assumes "rep s L" "sha256_sized cod" "id_ok pid" "en_project_id env = pid"
    and "id_ok (en_command_id env)" "name_ok (en_operation env)" "ref_ok ref"
    and "\<And>scope. int (length (log_of L scope)) < i64_max"
    and "\<And>auth m v e. request_context (sc_identity store) digest pid s = Inr (auth, m) \<Longrightarrow>
      build auth m s = Inr v \<Longrightarrow> le_ref e = ref \<Longrightarrow> writes cod e v \<Longrightarrow>
      entry_actor e = aa_actor_id auth \<Longrightarrow> server_entry cod L (scope_new (aa_tenant_id auth) pid) e"
  shows "ledger_step rep cod L (fst (typed_mutation cod store digest pid ref env build s))"
proof -
  obtain s' r where run: "typed_mutation cod store digest pid ref env build s = (s', r)"
    by (cases "typed_mutation cod store digest pid ref env build s")
  show ?thesis
  proof (rule typed_effect [OF assms(1-8) run])
    assume "rep s' L"
    then show ?thesis by (simp add: run step_same)
  next
    fix auth m v e L'
    assume "request_context (sc_identity store) digest pid s = Inr (auth, m)" "build auth m s = Inr v"
      "rep s' L'" "appends L (scope_new (aa_tenant_id auth) pid) e L'" "le_ref e = ref"
      "writes cod e v" "entry_actor e = aa_actor_id auth"
    then show ?thesis using assms(9) unfolding ledger_step_def run fst_conv by blast
  qed
qed

lemma step_raw:
  assumes "rep s L" "sha256_sized cod" "request_typed (PostCommand h (Inr rq))"
    and "\<And>scope. int (length (log_of L scope)) < i64_max"
  shows "ledger_step rep cod L (fst (raw_command_closure cod store digest rq s))"
proof -
  let ?env = "\<lparr>en_command_id = rq_command_id rq, en_project_id = rq_project_id rq,
    en_expected_revision = rq_expected_revision rq, en_operation = rq_operation rq,
    en_payload = rq_payload rq\<rparr>"
  show ?thesis
  proof (cases "\<exists>auth m. request_context (sc_identity store) digest (rq_project_id rq) s = Inr (auth, m) \<and>
      validate_resource_command rq = Inr () \<and> write_admitted auth m (rq_project_id rq)")
    case False
    have "fst (raw_command_closure cod store digest rq s) = s"
    proof (cases "request_context (sc_identity store) digest (rq_project_id rq) s")
      case (Inr am)
      obtain auth m where am: "am = (auth, m)" by (cases am)
      show ?thesis
      proof (cases "validate_resource_command rq")
        case valid: (Inr u)
        then have "\<not> write_admitted auth m (en_project_id ?env)" using False Inr am by auto
        then obtain er where "service_execute cod store auth m ?env (rq_resource rq) (rq_change rq) s =
            (s, Inl er)"
          using service_refused [where store = store and cod = cod and s = s and ref = "rq_resource rq"
              and ch = "rq_change rq"] by blast
        then show ?thesis using Inr am valid by (simp add: raw_command_closure_def)
      qed (use Inr am in \<open>simp add: raw_command_closure_def\<close>)
    qed (simp add: raw_command_closure_def)
    then show ?thesis using assms(1) by (simp add: step_same)
  next
    case True
    then obtain auth m where ok: "request_context (sc_identity store) digest (rq_project_id rq) s =
        Inr (auth, m)" "validate_resource_command rq = Inr ()"
      "write_admitted auth m (rq_project_id rq)" by blast
    let ?c = "prepared_command cod m ?env (rq_resource rq) (rq_change rq)
      (request_body cod ?env (rq_change rq))"
    have "command_ok ?c"
      using context_admits [OF ok(1)] assms(3)
      by (intro prepared_ok [OF assms(2)]) (simp_all add: request_ok_def membership_ok_def
          membership_admits_def)
    obtain s' r where run: "cs_execute store ?c s = (s', r)" by (cases "cs_execute store ?c s")
    have eq: "fst (raw_command_closure cod store digest rq s) = s'"
      using ok run service_execute_granted [OF assms(2), of auth m ?env store "rq_resource rq"
          "rq_change rq" s] by (simp add: raw_command_closure_def)
    have custom: "starts_with EXTENSION_RESOURCE_PREFIX (rf_kind (rq_resource rq))"
      using ok(2) by (auto simp: validate_resource_command_def result_iffs split: if_splits)
    show ?thesis
    proof (rule execute_effect [OF assms(1) \<open>command_ok ?c\<close> assms(4) run])
      assume "rep s' L"
      then show ?thesis by (simp add: eq step_same)
    next
      fix e L'
      assume e: "rep s' L'" "appends L (command_scope ?c) e L'" "le_ref e = mc_resource ?c"
        "le_body e = mc_resource_body ?c" "le_change e = mc_change ?c"
      have "le_change e = Delete \<or> (\<exists>v. writes cod e v)"
        using e(4,5) by (cases "rq_change rq") (auto simp: writes_def request_body_def)
      then have "server_entry cod L (command_scope ?c) e"
        using server_entry.extension [of e cod L] custom e(3) by simp
      then show ?thesis using e(1,2) unfolding ledger_step_def eq by blast
    qed
  qed
qed

lemma step_transition:
  assumes "rep s L" "sha256_sized cod" "id_ok pid" "id_ok cid" "id_ok hid" "name_ok op"
    and "name_ok ''handoff''" "\<And>scope. int (length (log_of L scope)) < i64_max"
    and "\<And>auth m h h'. request_context (sc_identity store) digest pid s = Inr (auth, m) \<Longrightarrow>
      move auth m s h = Inr h' \<Longrightarrow> \<exists>op. apply_handoff_op op h = Inr h' \<and>
        move_by cod L (scope_new (aa_tenant_id auth) pid) (aa_actor_id auth) op"
  shows "ledger_step rep cod L (fst (typed_mutation cod store digest pid (coord ''handoff'' hid)
    \<lparr>en_command_id = cid, en_project_id = pid, en_expected_revision = Some expected,
     en_operation = op, en_payload = payload\<rparr>
    (transition_build cod store pid (coord ''handoff'' hid) expected move) s))"
proof (rule step_typed [OF assms(1-3)])
  show "ref_ok (coord ''handoff'' hid)" using assms(5,7) by (rule coord_ok [rotated])
next
  fix auth m v e
  assume ctx: "request_context (sc_identity store) digest pid s = Inr (auth, m)"
    and "transition_build cod store pid (coord ''handoff'' hid) expected move auth m s = Inr v"
      "le_ref e = coord ''handoff'' hid" "writes cod e v" "entry_actor e = aa_actor_id auth"
  then show "server_entry cod L (scope_new (aa_tenant_id auth) pid) e"
    by (intro transition_entry [OF assms(1) ctx _ refl _ _ _ assms(9) [OF ctx]])
qed (use assms in simp_all)

lemma handle_step:
  assumes "rep s L" "sha256_sized cod" "request_typed rq"
    and "\<And>scope. int (length (log_of L scope)) < i64_max"
  shows "ledger_step rep cod L (fst (handle cod store out clk rq s))"
proof (cases rq)
  case (PostCommand h p)
  show ?thesis
    unfolding PostCommand handle.simps server_command_def fst_reply
    using assms(3) by (intro step_try_api step_run step_raw assms(1,2,4))
      (auto simp: PostCommand extracted_def result_iffs assms(1))
next
  case (PostSession h path p)
  show ?thesis
    unfolding PostSession handle.simps create_session_def fst_reply
    by (intro step_try_api step_run step_typed [OF assms(1,2)] session_entry [OF assms(1)] assms(1,4))
      (use assms(3) in \<open>auto simp: PostSession extracted_def result_iffs coord_ok\<close>)
next
  case (PostFact h path p)
  show ?thesis
    unfolding PostFact handle.simps create_fact_def fst_reply
    by (intro step_try_api step_run step_typed [OF assms(1,2)] fact_entry [OF assms(1)] assms(1,4))
      (use assms(3) in \<open>auto simp: PostFact extracted_def result_iffs coord_ok\<close>)
next
  case (PostContext h path p)
  show ?thesis
    unfolding PostContext handle.simps create_handoff_context_def fst_reply
    by (intro step_try_api step_run step_typed [OF assms(1,2)] context_entry [OF assms(1)] assms(1,4))
      (use assms(3) in \<open>auto simp: PostContext extracted_def result_iffs coord_ok\<close>)
next
  case (PostHandoff h path p)
  show ?thesis
    unfolding PostHandoff handle.simps send_handoff_def fst_reply
    by (intro step_try_api step_run step_typed [OF assms(1,2)] send_entry [OF assms(1)] assms(1,4))
      (use assms(3) in \<open>auto simp: PostHandoff extracted_def result_iffs coord_ok\<close>)
next
  case (PostAccept h path p)
  show ?thesis
    unfolding PostAccept handle.simps accept_handoff_def fst_reply
    by (intro step_try_api step_run assms(1)) (use assms(3) accept_is_move in \<open>auto simp: PostAccept extracted_def
      result_iffs intro!: step_transition [OF assms(1,2)] assms(4)\<close>)
next
  case (PostHeartbeat h path p)
  show ?thesis
    unfolding PostHeartbeat handle.simps heartbeat_handoff_def fst_reply
    by (intro step_try_api step_run assms(1)) (use assms(3) heartbeat_is_move in \<open>auto simp: PostHeartbeat extracted_def
      result_iffs intro!: step_transition [OF assms(1,2)] assms(4)\<close>)
next
  case (PostReturn h path p)
  show ?thesis
    unfolding PostReturn handle.simps return_handoff_def fst_reply
    by (intro step_try_api step_run assms(1)) (use assms(3) return_is_move [OF assms(1)] in \<open>auto simp: PostReturn extracted_def
      result_iffs intro!: step_transition [OF assms(1,2)] assms(4)\<close>)
next
  case GetHealth
  show ?thesis
    unfolding GetHealth handle.simps server_health_def fst_reply split_beta
    by (intro step_try_api step_read assms(1)) (simp_all add: assms(1))
next
  case (GetChanges h path q)
  show ?thesis
    unfolding GetChanges handle.simps server_changes_def fst_reply split_beta
    by (intro step_try_api step_read assms(1)) (simp_all add: assms(1))
next
  case (GetMaterialized h path q)
  show ?thesis
    unfolding GetMaterialized handle.simps server_materialized_changes_def fst_reply split_beta
    by (intro step_try_api step_read assms(1)) (simp_all add: assms(1))
next
  case (GetSnapshot h path)
  show ?thesis
    unfolding GetSnapshot handle.simps server_snapshot_def fst_reply split_beta
    by (intro step_try_api step_read assms(1)) (simp_all add: assms(1))
next
  case (GetResource h path)
  show ?thesis
    unfolding GetResource handle.simps server_resource_def fst_reply split_beta
    by (intro step_try_api step_read assms(1)) (simp_all add: assms(1))
next
  case (GetIdentity h path)
  show ?thesis
    unfolding GetIdentity handle.simps get_identity_def fst_reply split_beta
    by (intro step_try_api step_read assms(1)) (simp_all add: assms(1))
next
  case (ListHandoffs h path q)
  show ?thesis
    unfolding ListHandoffs handle.simps list_handoffs_def fst_reply split_beta
    by (intro step_try_api step_read assms(1)) (simp_all add: assms(1))
next
  case (GetHandoff h path)
  show ?thesis
    unfolding GetHandoff handle.simps get_handoff_def fst_reply split_beta
    by (intro step_try_api step_read assms(1)) (simp_all add: assms(1))
qed

end

end
