(* ===== verification/Server_Runs.thy ===== *)
theory Server_Runs
  imports Server_Refinement
begin

text \<open>
  The server over the SQLite store: an instance of the canonical-store interface, and its runs -
  requests in any order, with any outcome at the executor boundary and any clock, interleaved with
  the operator's bootstrap and provisioning calls.
\<close>

section \<open>The SQLite store behind the server\<close>

lemma sqlite_authenticated_ids:
  "authenticate_token db digest = Inr (Some auth) \<Longrightarrow>
     id_ok (aa_tenant_id auth) \<and> id_ok (aa_actor_id auth)"
  by (auto simp: authenticate_token_def map_transpose_def result_iffs split: if_splits option.splits)

lemma parse_active: "parse_membership_status ''active'' = Inr st \<Longrightarrow> st = MembershipActive"
  by (simp add: parse_membership_status_def)

lemma sqlite_membership_exact:
  "project_membership_of db scope actor = Inr (Some m) \<Longrightarrow>
     pm_tenant_id m = sc_tenant_id scope \<and> pm_project_id m = sc_project_id scope \<and>
     pm_actor_id m = actor \<and> pm_status m = MembershipActive"
  by (auto simp: project_membership_of_def map_transpose_def result_iffs parse_active
      split: option.splits dest!: find_Some_set)

interpretation sqlite_server: canonical_server "sqlite_store dec" dec "sqlite_rep dec" env_now
  for dec
  by unfold_locales (auto simp: sqlite_authenticated_ids sqlite_membership_exact)

section \<open>Runs\<close>

text \<open>The room every request leaves in the store's integers, as for \<open>store_step\<close>.\<close>

definition roomy :: "store_db \<Rightarrow> bool" where
  "roomy db \<longleftrightarrow> (\<forall>scope. room_for scope db)"

text \<open>
  One step of a server: a call of the operator, or a request, which runs against the database in
  any environment \<open>s\<close> - whatever the system clock shows.
\<close>

inductive server_step :: "codec \<Rightarrow> store_db \<Rightarrow> store_db \<Rightarrow> bool" for cod where
  bootstrapped: "id_ok (pr_project_epoch project) \<Longrightarrow>
    bootstrap_project tenant project db = (db', r) \<Longrightarrow> server_step cod db db'"
| provisioned: "provision_actor actor m token now db = (db', r) \<Longrightarrow> server_step cod db db'"
| requested: "request_typed rq \<Longrightarrow> roomy (se_db s) \<Longrightarrow>
    handle cod (sqlite_store (cd_handoff_of cod)) out clk rq s = (s', answer) \<Longrightarrow>
    server_step cod (se_db s) (se_db s')"

abbreviation server_steps :: "codec \<Rightarrow> store_db \<Rightarrow> store_db \<Rightarrow> bool" where
  "server_steps cod \<equiv> (server_step cod)\<^sup>*\<^sup>*"

text \<open>The databases a server can reach from a new store.\<close>

definition server_run :: "codec \<Rightarrow> store_db \<Rightarrow> bool" where
  "server_run cod db \<longleftrightarrow> server_steps cod create_schema_v4 db"

lemma roomy_log:
  assumes "store_rel dec db L" "roomy db"
  shows "int (length (log_of L scope)) < i64_max"
proof -
  have "room_for scope db" using assms(2) by (simp add: roomy_def)
  then show ?thesis using receipts_count [OF assms(1), of scope] by (simp add: room_for_def)
qed

lemma request_refines:
  assumes "store_rel (cd_handoff_of cod) (se_db s) L" "sha256_sized cod" "request_typed rq"
    and "roomy (se_db s)" "handle cod (sqlite_store (cd_handoff_of cod)) out clk rq s = (s', answer)"
  obtains (same) "store_rel (cd_handoff_of cod) (se_db s') L"
  | (appended) scope e L' where "store_rel (cd_handoff_of cod) (se_db s') L'" "appends L scope e L'"
      "server_entry cod L scope e"
proof -
  have "ledger_step (sqlite_rep (cd_handoff_of cod)) cod L s'"
    using sqlite_server.handle_step [where dec = "cd_handoff_of cod", of s L cod rq out clk]
      roomy_log [OF assms(1,4)] assms by (simp add: sqlite_rep_def)
  then show thesis using that unfolding ledger_step_def sqlite_rep_def by blast
qed

lemma appends_extends: "appends L scope e L' \<Longrightarrow> ledger_extends L L'"
  by (auto simp: appends_def ledger_extends_def)

lemma step_refines:
  assumes "server_step cod db db'" "store_rel (cd_handoff_of cod) db L" "sha256_sized cod"
  shows "\<exists>L'. store_rel (cd_handoff_of cod) db' L' \<and> ledger_extends L L' \<and>
    (server_ledger cod L \<longrightarrow> server_ledger cod L')"
  using assms(1)
proof (cases rule: server_step.cases)
  case (bootstrapped project tenant r)
  then show ?thesis
    using bootstrap_rel [OF assms(2), of project tenant] server_ledger.registered
      registers_extends by (metis fst_conv)
next
  case (provisioned actor m token now r)
  then show ?thesis using provision_rel [OF assms(2)] extends_refl by (metis fst_conv)
next
  case (requested rq s out clk s' answer)
  show ?thesis
  proof (rule request_refines [of cod s L rq out clk s' answer])
    assume "store_rel (cd_handoff_of cod) (se_db s') L"
    then show ?thesis using requested(2) extends_refl by blast
  next
    fix scope e L'
    assume "store_rel (cd_handoff_of cod) (se_db s') L'" "appends L scope e L'"
      "server_entry cod L scope e"
    then show ?thesis
      using requested(2) server_ledger.appended appends_extends by blast
  qed (use requested assms in simp_all)
qed

lemma steps_refine:
  assumes "server_steps cod db db'" "store_rel (cd_handoff_of cod) db L" "sha256_sized cod"
  shows "\<exists>L'. store_rel (cd_handoff_of cod) db' L' \<and> ledger_extends L L' \<and>
    (server_ledger cod L \<longrightarrow> server_ledger cod L')"
  using assms(1)
proof (induction rule: rtranclp_induct)
  case base
  then show ?case using assms(2) extends_refl by blast
next
  case (step db' db'')
  then show ?case using step_refines [OF step(2) _ assms(3)] extends_trans by metis
qed

lemma run_refines:
  assumes "server_run cod db" "sha256_sized cod"
  shows "\<exists>L. store_rel (cd_handoff_of cod) db L \<and> server_ledger cod L"
  using steps_refine [OF assms(1) [unfolded server_run_def] empty_rel assms(2)]
    server_ledger.empty by blast

end
