(* ===== verification/Server_History.thy ===== *)
theory Server_History
  imports Server_Runs
begin

text \<open>
  The histories of a server's ledger: every handoff went through its lifecycle by the hands of the
  actors on its route, and sessions, facts and context packets were written once.
\<close>

section \<open>Handoff histories\<close>

text \<open>The versions of one handoff in a log, oldest first, with the actor who wrote each.\<close>

definition handoff_versions ::
  "codec \<Rightarrow> log_entry list \<Rightarrow> handoff_id \<Rightarrow> (actor_id \<times> handoff_record) list" where
  "handoff_versions cod log hid =
     map (\<lambda>e. (entry_actor e, the (cd_handoff_of cod (the (le_body e)))))
       (filter (\<lambda>e. le_ref e = coord ''handoff'' hid) log)"

definition logged_facts :: "codec \<Rightarrow> log_entry list \<Rightarrow> fact_record set" where
  "logged_facts cod log = {f. \<exists>e\<in>set log. \<exists>body. rf_kind (le_ref e) = ''fact'' \<and>
     le_body e = Some body \<and> cd_fact_of cod body = Some f}"

text \<open>A transition that an actor makes through the server, on the evidence of known facts.\<close>

fun server_move :: "fact_record set \<Rightarrow> actor_id \<Rightarrow> handoff_op \<Rightarrow> bool" where
  "server_move facts actor (OpAttach c) \<longleftrightarrow> False"
| "server_move facts actor (OpAccept a claim now lease) \<longleftrightarrow> a = actor \<and> lease = HANDOFF_LEASE_MS"
| "server_move facts actor (OpHeartbeat a claim now lease) \<longleftrightarrow> a = actor \<and> lease = HANDOFF_LEASE_MS"
| "server_move facts actor (OpReturn a claim f out now) \<longleftrightarrow> a = actor \<and> f \<in> facts"

inductive handoff_history ::
  "fact_record set \<Rightarrow> handoff_id \<Rightarrow> (actor_id \<times> handoff_record) list \<Rightarrow> bool" for facts hid where
  sent: "freshly_sent a hid h \<Longrightarrow> handoff_history facts hid [(a, h)]"
| moved: "handoff_history facts hid (vs @ [(b, h)]) \<Longrightarrow> server_move facts a op \<Longrightarrow>
    apply_handoff_op op h = Inr h' \<Longrightarrow> handoff_history facts hid (vs @ [(b, h), (a, h')])"

lemma server_move_mono: "server_move F a op \<Longrightarrow> F \<subseteq> G \<Longrightarrow> server_move G a op"
  by (cases op) auto

lemma handoff_history_mono: "handoff_history F hid vs \<Longrightarrow> F \<subseteq> G \<Longrightarrow> handoff_history G hid vs"
  by (induction rule: handoff_history.induct)
    (auto intro: handoff_history.intros dest: server_move_mono)

lemma handoff_history_snoc:
  assumes "handoff_history facts hid vs" "vs \<noteq> []" "snd (last vs) = h" "server_move facts a op"
    and "apply_handoff_op op h = Inr h'"
  shows "handoff_history facts hid (vs @ [(a, h')])"
proof -
  have vs: "vs = butlast vs @ [(fst (last vs), h)]"
    using assms(2,3) by (metis append_butlast_last_id prod.collapse)
  then have "handoff_history facts hid (butlast vs @ [(fst (last vs), h)])" using assms(1) by simp
  from handoff_history.moved [OF this assms(4,5)] vs show ?thesis
    by (metis append.assoc append_Cons append_Nil)
qed

text \<open>
  Decoding an encoded handoff never yields another one. (Encoding and decoding are total inverses
  on the values the Rust types admit; here the type invariants of ids are predicates.)
\<close>

definition handoff_codec :: "codec \<Rightarrow> bool" where
  "handoff_codec cod \<longleftrightarrow> (\<forall>h h'. cd_handoff_of cod (canonical_json_bytes cod (cd_handoff_value cod h)) =
     Some h' \<longrightarrow> h' = h)"

definition histories_ok :: "codec \<Rightarrow> log_entry list \<Rightarrow> bool" where
  "histories_ok cod log \<longleftrightarrow> (\<forall>hid. handoff_versions cod log hid = [] \<or>
     handoff_history (logged_facts cod log) hid (handoff_versions cod log hid))"

lemma logged_facts_mono: "logged_facts cod log \<subseteq> logged_facts cod (log @ [e])"
  by (auto simp: logged_facts_def)

lemma versions_snoc:
  "handoff_versions cod (log @ [e]) hid = handoff_versions cod log hid @
     (if le_ref e = coord ''handoff'' hid
      then [(entry_actor e, the (cd_handoff_of cod (the (le_body e))))] else [])"
  by (simp add: handoff_versions_def)

lemma resource_None_last:
  "L scope = Some (epoch, log) \<Longrightarrow> ledger_resource L scope ref = None \<longleftrightarrow> last_entry log ref = None"
  by (simp add: ledger_resource_def)

lemma stored_last:
  assumes "L scope = Some (epoch, log)" "stored dec L scope ref x"
  obtains e where "last_entry log ref = Some e" "le_change e = Upsert" "dec (the (le_body e)) = Some x"
proof -
  obtain r body where "ledger_resource L scope ref = Some r" "cr_state r = Present body"
    "dec body = Some x"
    using assms(2) by (auto simp: stored_def)
  moreover from this obtain e where e: "last_entry log ref = Some e" "r = entry_resource scope e"
    using assms(1) by (auto simp: ledger_resource_def)
  ultimately show thesis
    using that [of e] by (cases "le_change e") (auto simp: entry_resource_def state_of_def)
qed

lemma versions_empty:
  assumes "last_entry log (coord ''handoff'' hid) = None"
  shows "handoff_versions cod log hid = []"
proof -
  have "filter (\<lambda>e. le_ref e = coord ''handoff'' hid) log = []"
    using assms by (force simp: last_entry_None filter_empty_conv)
  then show ?thesis by (simp add: handoff_versions_def)
qed

lemma versions_last:
  assumes "last_entry log (coord ''handoff'' hid) = Some e"
  shows "handoff_versions cod log hid \<noteq> []"
    and "snd (last (handoff_versions cod log hid)) = the (cd_handoff_of cod (the (le_body e)))"
proof -
  have "filter (\<lambda>e. le_ref e = coord ''handoff'' hid) log \<noteq> [] \<and>
      last (filter (\<lambda>e. le_ref e = coord ''handoff'' hid) log) = e"
    using assms
  proof (induction log rule: rev_induct)
    case (snoc x log)
    then show ?case by (cases "le_ref x = coord ''handoff'' hid") auto
  qed simp
  then show "handoff_versions cod log hid \<noteq> []"
    "snd (last (handoff_versions cod log hid)) = the (cd_handoff_of cod (the (le_body e)))"
    by (simp_all add: handoff_versions_def last_map)
qed

lemma stored_fact_logged:
  assumes "ledger_ok dec L" "L scope = Some (epoch, log)"
    and "stored (cd_fact_of cod) L scope (coord ''fact'' fid) f"
  shows "f \<in> logged_facts cod log"
proof -
  obtain e where e: "last_entry log (coord ''fact'' fid) = Some e" "le_change e = Upsert"
    "cd_fact_of cod (the (le_body e)) = Some f"
    using stored_last [OF assms(2,3)] by blast
  have mem: "e \<in> set log" "le_ref e = coord ''fact'' fid" using last_entry_Some [OF e(1)] by auto
  then have "entry_ok dec scope e" using log_entry_ok [OF assms(1), of e scope] assms(2) by simp
  then obtain body where "le_body e = Some body"
    using e(2) entry_okD(9) [of dec scope e] by (auto simp: body_matches_change_def)
  then show ?thesis using mem e(3) by (force simp: logged_facts_def)
qed

lemma written_decodes:
  assumes "entry_ok (cd_handoff_of cod) scope e" "handoff_codec cod"
    and "le_ref e = coord ''handoff'' hid" "writes cod e (cd_handoff_value cod h)"
  shows "the (cd_handoff_of cod (the (le_body e))) = h"
proof -
  have "check_handoff_body (cd_handoff_of cod) (le_ref e) Upsert (le_body e) = Inr ()"
    using entry_okD(10) [OF assms(1)] assms(4) by (simp add: writes_def le_ref_def)
  then obtain h' where "cd_handoff_of cod (the (le_body e)) = Some h'"
    using assms(3) by (auto simp: check_handoff_body_def split: if_splits option.splits)
  then show ?thesis using assms(2,4) by (auto simp: handoff_codec_def writes_def)
qed

lemma histories_step:
  assumes "histories_ok cod log" "L scope = Some (epoch, log)" "ledger_ok (cd_handoff_of cod) L"
    and "entry_ok (cd_handoff_of cod) scope e" "handoff_codec cod" "server_entry cod L scope e"
  shows "histories_ok cod (log @ [e])"
  unfolding histories_ok_def
proof
  fix hid
  let ?old = "handoff_versions cod log hid" and ?F = "logged_facts cod (log @ [e])"
  have old: "?old = [] \<or> handoff_history ?F hid ?old"
    using assms(1) handoff_history_mono [OF _ logged_facts_mono] unfolding histories_ok_def by blast
  show "handoff_versions cod (log @ [e]) hid = [] \<or> handoff_history ?F hid (handoff_versions cod (log @ [e]) hid)"
  proof (cases "le_ref e = coord ''handoff'' hid")
    case False
    then show ?thesis using old by (simp add: versions_snoc)
  next
    case True
    from assms(6) have "handoff_history ?F hid (handoff_versions cod (log @ [e]) hid)"
    proof (cases rule: server_entry.cases)
      case extension
      then show ?thesis using True by (simp add: starts_with_def EXTENSION_RESOURCE_PREFIX_def)
    next
      case (handoff_sent hid' h)
      then have "hid' = hid" using True by (simp add: coord_def)
      moreover have "?old = []"
        using handoff_sent(2) True resource_None_last [of L scope epoch log, OF assms(2)] versions_empty by metis
      ultimately show ?thesis
        using written_decodes [OF assms(4,5) True handoff_sent(4)] handoff_sent(3) True
        by (simp add: versions_snoc handoff_history.sent)
    next
      case (handoff_moved hid' h op h')
      obtain x where x: "last_entry log (le_ref e) = Some x"
        "cd_handoff_of cod (the (le_body x)) = Some h"
        using stored_last [OF assms(2) handoff_moved(2)] by blast
      note last = versions_last [OF x(1) [unfolded True], of cod]
      have "server_move ?F (entry_actor e) op"
        using handoff_moved(3) stored_fact_logged [OF assms(3,2), of cod]
          subsetD [OF logged_facts_mono [of cod log e]] by (cases op) auto
      then have "handoff_history ?F hid (?old @ [(entry_actor e, h')])"
        using old last x(2) handoff_moved(4) by (intro handoff_history_snoc [of _ _ _ h]) auto
      then show ?thesis
        using written_decodes [OF assms(4,5) True handoff_moved(5)] True by (simp add: versions_snoc)
    qed (use True in \<open>simp_all add: coord_def\<close>)
    then show ?thesis by simp
  qed
qed

text \<open>Along the appended entries, well-formed ledgers come from well-formed ledgers.\<close>

lemma appends_ok:
  assumes "appends L scope e L'" "ledger_ok dec L'"
  shows "ledger_ok dec L" "entry_ok dec scope e"
proof -
  obtain epoch log where log: "L scope = Some (epoch, log)" "L' = L(scope \<mapsto> (epoch, log @ [e]))"
    using assms(1) by (auto simp: appends_def)
  then have ok: "log_ok dec scope (log @ [e])" "id_ok epoch"
    using assms(2) unfolding ledger_ok_def by (metis fun_upd_same)+
  show "entry_ok dec scope e" using ok by (simp add: log_ok_snoc)
  show "ledger_ok dec L"
    unfolding ledger_ok_def
  proof (intro allI impI)
    fix scope' epoch' log'
    assume "L scope' = Some (epoch', log')"
    then show "id_ok epoch' \<and> log_ok dec scope' log'"
    proof (cases "scope' = scope")
      case True
      then show ?thesis using \<open>L scope' = Some (epoch', log')\<close> log(1) ok by (simp add: log_ok_snoc)
    next
      case False
      then have "L' scope' = Some (epoch', log')" using \<open>L scope' = Some (epoch', log')\<close> log(2) by simp
      then show ?thesis using assms(2) unfolding ledger_ok_def by blast
    qed
  qed
qed

lemma registers_ok:
  assumes "registers L L'" "ledger_ok dec L'"
  shows "ledger_ok dec L"
proof -
  have "L scope = Some x \<Longrightarrow> L' scope = Some x" for scope x
    using assms(1) by (auto simp: registers_def)
  with assms(2) show ?thesis unfolding ledger_ok_def by blast
qed

lemma ledger_histories:
  assumes "server_ledger cod L" "handoff_codec cod" "ledger_ok (cd_handoff_of cod) L"
  shows "histories_ok cod (log_of L scope)"
  using assms(1,3)
proof (induction arbitrary: scope rule: server_ledger.induct)
  case empty
  then show ?case by (simp add: histories_ok_def handoff_versions_def log_of_def)
next
  case (registered L L')
  then have "histories_ok cod (log_of L scope)" using registers_ok by blast
  moreover have "log_of L' scope = log_of L scope"
    using registered(2) by (auto simp: registers_def log_of_def)
  ultimately show ?case by simp
next
  case (appended L scope' e L')
  note ok = appends_ok [OF appended(3) appended.prems]
  obtain epoch log where log: "L scope' = Some (epoch, log)" "L' = L(scope' \<mapsto> (epoch, log @ [e]))"
    using appended(3) by (auto simp: appends_def)
  have "log_of L' scope = (if scope = scope' then log @ [e] else log_of L scope)"
    by (simp add: log(2))
  moreover have "histories_ok cod (log @ [e])"
    using appended.IH [OF ok(1), of scope'] histories_step [OF _ log(1) ok assms(2) appended(2)] log(1)
    by simp
  ultimately show ?case using appended.IH [OF ok(1), of scope] by simp
qed

section \<open>Written once\<close>

definition write_once_kinds :: "string set" where
  "write_once_kinds = {''session'', ''fact'', ''handoff_context''}"

lemma entry_kinds:
  "server_entry cod L scope e \<Longrightarrow> rf_kind (le_ref e) \<in> write_once_kinds \<Longrightarrow>
     ledger_resource L scope (le_ref e) = None"
  by (cases rule: server_entry.cases)
    (auto simp: write_once_kinds_def starts_with_def EXTENSION_RESOURCE_PREFIX_def)

lemma ledger_write_once:
  assumes "server_ledger cod L" "rf_kind ref \<in> write_once_kinds"
  shows "prior_count (log_of L scope) ref \<le> 1"
  using assms(1)
proof (induction arbitrary: scope rule: server_ledger.induct)
  case empty
  then show ?case by (simp add: prior_count_def log_of_def)
next
  case (registered L L')
  moreover have "log_of L' scope = log_of L scope"
    using registered(2) by (auto simp: registers_def log_of_def)
  ultimately show ?case by simp
next
  case (appended L scope' e L')
  obtain epoch log where log: "L scope' = Some (epoch, log)" "L' = L(scope' \<mapsto> (epoch, log @ [e]))"
    using appended(3) by (auto simp: appends_def)
  have "log_of L' scope = (if scope = scope' then log @ [e] else log_of L scope)"
    by (simp add: log(2))
  moreover have "le_ref e = ref \<Longrightarrow> prior_count log ref = 0"
    using entry_kinds [OF appended(2)] assms(2) resource_None_last [of L scope' epoch log, OF log(1)]
      no_entry_count by metis
  ultimately show ?case
    using appended.IH [of scope] log(1) by (cases "scope = scope'") (simp_all add: prior_count_snoc)
qed

section \<open>What a history tells\<close>

lemma freshly_sent_facts:
  assumes "freshly_sent a hid h"
  shows "handoff_reachable h" "hr_from_actor h = a" "hr_handoff_id h = hid" "hr_status h = Pending"
proof -
  obtain session receiver focus done_when h0 where
    h0: "handoff_new hid session a receiver focus done_when = Inr h0"
    "h = h0 \<or> (\<exists>c. attach_context h0 c = Inr h)"
    using assms unfolding freshly_sent_def by blast
  have reach: "handoff_reachable h0" using h0(1) by (rule handoff_reachable.sent)
  have new: "hr_from_actor h0 = a" "hr_handoff_id h0 = hid" "hr_status h0 = Pending"
    using h0(1) by (auto simp: handoff_new_def result_iffs split: if_splits)
  have "h = h0 \<or> (\<exists>c. apply_handoff_op (OpAttach c) h0 = Inr h)" using h0(2) by simp
  then show "handoff_reachable h" using reach handoff_reachable.step by metis
  show "hr_from_actor h = a" "hr_handoff_id h = hid" "hr_status h = Pending"
    using h0(2) new by (auto dest: attach_context_frame)
qed

lemma move_by_receiver:
  "server_move F a op \<Longrightarrow> apply_handoff_op op h = Inr h' \<Longrightarrow> a = hr_to_actor h"
  by (cases op) (auto simp: result_iffs dest: accept_with_lease_Inr(1) return_result_at_Inr(1))

lemma history_facts:
  assumes "handoff_history F hid vs"
  shows "(\<forall>v\<in>set vs. handoff_reachable (snd v) \<and> handoff_route (snd v) = handoff_route (snd (hd vs))) \<and>
    hr_handoff_id (snd (hd vs)) = hid \<and> fst (hd vs) = hr_from_actor (snd (hd vs)) \<and>
    (\<forall>v\<in>set (tl vs). fst v = hr_to_actor (snd (hd vs))) \<and> vs \<noteq> []"
  using assms
proof (induction rule: handoff_history.induct)
  case (sent a h)
  then show ?case using freshly_sent_facts [OF sent] by simp
next
  case (moved vs b h a op h')
  have "handoff_reachable h'"
    using moved.IH moved.hyps(3) handoff_reachable.step by auto
  moreover have "handoff_route h' = handoff_route (snd (hd (vs @ [(b, h)])))"
    using moved.IH handoff_op_route [OF moved.hyps(3)] by simp
  moreover have "a = hr_to_actor (snd (hd (vs @ [(b, h)])))"
    using moved.IH move_by_receiver [OF moved.hyps(2,3)] by (auto simp: handoff_route_def)
  moreover have "hd (vs @ [(b, h), (a, h')]) = hd (vs @ [(b, h)])"
    "tl (vs @ [(b, h), (a, h')]) = tl (vs @ [(b, h)]) @ [(a, h')]"
    "set (vs @ [(b, h), (a, h')]) = insert (a, h') (set (vs @ [(b, h)]))"
    by (cases vs; auto)+
  ultimately show ?case
    using moved.IH by (simp only: set_append ball_Un snd_conv fst_conv) simp
qed

end
