(* ===== verification/Server_Examples.thy ===== *)
theory Server_Examples
  imports Server_History Identity_Properties
begin

text \<open>
  A small run of the server: a bootstrapped project with two members, a session, a handoff from
  alice to bob, and bob's accept.
\<close>

definition srv_sent :: handoff_record where
  "srv_sent = \<lparr>hr_handoff_id = ''h1'', hr_session_id = ''s1'', hr_source_id = None,
     hr_from_actor = ''alice'', hr_to_actor = ''bob'', hr_focus = Some ''review'',
     hr_done_when = None, hr_context_id = None, hr_status = Pending, hr_claim_id = None,
     hr_claim_heartbeat_at_ms = None, hr_claim_expires_at_ms = None, hr_attempt_count = 0,
     hr_result_fact_id = None, hr_outcome = None\<rparr>"

definition srv_accepted :: handoff_record where
  "srv_accepted = srv_sent\<lparr>hr_status := Accepted, hr_claim_id := Some ''w1'',
     hr_claim_heartbeat_at_ms := Some 5000, hr_claim_expires_at_ms := Some 125000,
     hr_attempt_count := 1\<rparr>"

definition srv_session :: session_record where
  "srv_session = \<lparr>se_session_id = ''s1'', se_source_id = None, se_topic = ''plan'',
     se_created_by = ''alice''\<rparr>"

definition srv_packet :: handoff_context_record where
  "srv_packet = \<lparr>hc_context_id = ''x1'', hc_handoff_id = ''h1'', hc_session_id = ''s1'',
     hc_source_id = None, hc_from_actor = ''alice'', hc_to_actor = ''bob'', hc_content = ''notes''\<rparr>"

text \<open>A codec that knows the records of the example.\<close>

definition srv_handoff_value :: "handoff_record \<Rightarrow> json" where
  "srv_handoff_value h = (if h = srv_sent then JInt 1 else if h = srv_accepted then JInt 2 else JNull)"

definition srv_handoff_of :: "bytes \<Rightarrow> handoff_record option" where
  "srv_handoff_of body = (if body = [1] then Some srv_sent else if body = [2] then Some srv_accepted
     else None)"

definition srv_codec :: codec where
  "srv_codec =
     \<lparr>cd_to_vec = (\<lambda>v. case v of JInt i \<Rightarrow> [word_of_int i] | _ \<Rightarrow> []),
      cd_sha256 = (\<lambda>bs. (if bs = string_bytes ''tb'' then 2 else 1) # replicate 31 0),
      cd_handoff_of = srv_handoff_of,
      cd_context_of = (\<lambda>body. if body = [] then Some srv_packet else None),
      cd_session_of = (\<lambda>body. if body = [3] then Some srv_session else None),
      cd_fact_of = (\<lambda>_. None), cd_handoff_value = srv_handoff_value, cd_context_value = (\<lambda>_. JNull),
      cd_session_value = (\<lambda>_. JInt 3), cd_fact_value = (\<lambda>_. JNull),
      cd_value_of = (\<lambda>body. Some (case body of [] \<Rightarrow> JNull | b # _ \<Rightarrow> JInt (uint b)))\<rparr>"

lemma srv_codec_ok: "sha256_sized srv_codec" "handoff_codec srv_codec"
proof -
  show "sha256_sized srv_codec" by (simp add: sha256_sized_def srv_codec_def)
  have "srv_sent \<noteq> srv_accepted" by (simp add: srv_accepted_def srv_sent_def)
  then show "handoff_codec srv_codec"
    by (auto simp: handoff_codec_def srv_codec_def canonical_json_bytes_def srv_handoff_value_def
        srv_handoff_of_def split: if_splits)
qed

definition srv_env :: "store_db \<Rightarrow> sqlite_env" where
  "srv_env db = \<lparr>se_db = db, se_clock = (\<lambda>_. 1000), se_calls = 0\<rparr>"

definition srv_bearer :: "string \<Rightarrow> headers" where
  "srv_bearer token = Some (HeaderText (''Bearer '' @ token))"

text \<open>The states of the run: members only, then with one, two and three commands.\<close>

definition srv_token :: "u8 \<Rightarrow> actor_id \<Rightarrow> token_row" where
  "srv_token n a = \<lparr>tk_token_sha256 = n # replicate 31 0, tk_tenant_id = ''t1'', tk_actor_id = a,
     tk_active = 1, tk_created_at_ms = 5\<rparr>"

definition srv_actor :: "actor_id \<Rightarrow> actor_row" where
  "srv_actor a = \<lparr>at_tenant_id = ''t1'', at_actor_id = a, at_display_name = a, at_kind = ''human'',
     at_status = ''active'', at_revision = 1, at_created_at_ms = 5, at_updated_at_ms = 5\<rparr>"

definition srv_member :: "actor_id \<Rightarrow> membership_row" where
  "srv_member a = \<lparr>ms_tenant_id = ''t1'', ms_project_id = ''p1'', ms_actor_id = a,
     ms_role = ''writer'', ms_status = ''active''\<rparr>"

definition srv_base :: "i64 \<Rightarrow> store_db" where
  "srv_base n = \<lparr>db_user_version = 4,
     db_tenants = [\<lparr>tn_tenant_id = ''t1'', tn_display_name = ''Acme'', tn_status = ''active'',
       tn_revision = 1, tn_created_at_ms = 5, tn_updated_at_ms = 5\<rparr>],
     db_projects = [\<lparr>pj_tenant_id = ''t1'', pj_project_id = ''p1'', pj_project_epoch = ''e1'',
       pj_next_seq = n, pj_display_name = ''Core'', pj_status = ''active'', pj_revision = 1,
       pj_created_at_ms = 5, pj_updated_at_ms = 5\<rparr>],
     db_actors = [srv_actor ''alice'', srv_actor ''bob''],
     db_memberships = [srv_member ''alice'', srv_member ''bob''],
     db_token_bindings = [srv_token 1 ''alice'', srv_token 2 ''bob''],
     db_resources = [], db_receipts = [], db_changes = [], db_audit = [], db_handoff_index = []\<rparr>"

definition srv_resource :: "string \<Rightarrow> string \<Rightarrow> i64 \<Rightarrow> u8 \<Rightarrow> resource_row" where
  "srv_resource kind rid v b = \<lparr>rs_tenant_id = ''t1'', rs_project_id = ''p1'',
     rs_resource_kind = kind, rs_resource_id = rid, rs_revision = v, rs_deleted = 0,
     rs_body_json = Some [b]\<rparr>"

definition srv_receipt :: "string \<Rightarrow> actor_id \<Rightarrow> i64 \<Rightarrow> string \<Rightarrow> string \<Rightarrow> i64 \<Rightarrow> receipt_row" where
  "srv_receipt cid a seq kind rid v = \<lparr>rc_tenant_id = ''t1'', rc_project_id = ''p1'',
     rc_command_id = cid, rc_fingerprint = ''01'' @ replicate 62 (CHR ''0''), rc_actor_id = a,
     rc_project_seq = seq, rc_resource_kind = kind, rc_resource_id = rid, rc_revision = v,
     rc_committed_at_ms = 1000\<rparr>"

definition srv_change :: "actor_id \<Rightarrow> i64 \<Rightarrow> string \<Rightarrow> string \<Rightarrow> i64 \<Rightarrow> u8 \<Rightarrow> change_row" where
  "srv_change a seq kind rid v b = \<lparr>ch_tenant_id = ''t1'', ch_project_id = ''p1'',
     ch_project_epoch = ''e1'', ch_seq = seq, ch_resource_kind = kind, ch_resource_id = rid,
     ch_operation = ''upsert'', ch_revision = v, ch_actor_id = a, ch_committed_at_ms = 1000,
     ch_state_available = 1, ch_body_json = Some [b]\<rparr>"

definition srv_audit :: "string \<Rightarrow> actor_id \<Rightarrow> i64 \<Rightarrow> string \<Rightarrow> string \<Rightarrow> string \<Rightarrow> audit_row" where
  "srv_audit cid a seq op kind rid = \<lparr>ad_tenant_id = ''t1'', ad_project_id = ''p1'',
     ad_project_seq = seq, ad_command_id = cid, ad_operation = op, ad_resource_kind = kind,
     ad_resource_id = rid, ad_actor_id = a, ad_committed_at_ms = 1000\<rparr>"

definition srv_index :: "string \<Rightarrow> i64 \<Rightarrow> i64 \<Rightarrow> index_row" where
  "srv_index status v seq = \<lparr>ix_tenant_id = ''t1'', ix_project_id = ''p1'', ix_handoff_id = ''h1'',
     ix_resource_kind = ''handoff'', ix_from_actor = ''alice'', ix_to_actor = ''bob'',
     ix_source_id = None, ix_status = status, ix_revision = v, ix_updated_seq = seq\<rparr>"

definition srv_db0 :: store_db where
  "srv_db0 = fst (bootstrap_project ex_tenant ex_project create_schema_v4)"
definition srv_db1 :: store_db where
  "srv_db1 = fst (provision_actor (ex_actor_record ''alice'') (ex_membership ''alice'')
     (cd_sha256 srv_codec (string_bytes ''ta'')) 5 srv_db0)"
definition srv_db2 :: store_db where "srv_db2 = srv_base 0"

definition srv_db3 :: store_db where
  "srv_db3 = (srv_base 1)\<lparr>db_resources := [srv_resource ''session'' ''s1'' 1 3],
     db_receipts := [srv_receipt ''k1'' ''alice'' 1 ''session'' ''s1'' 1],
     db_changes := [srv_change ''alice'' 1 ''session'' ''s1'' 1 3],
     db_audit := [srv_audit ''k1'' ''alice'' 1 ''session.create'' ''session'' ''s1'']\<rparr>"

definition srv_db4 :: store_db where
  "srv_db4 = (srv_base 2)\<lparr>
     db_resources := [srv_resource ''session'' ''s1'' 1 3, srv_resource ''handoff'' ''h1'' 1 1],
     db_receipts := [srv_receipt ''k1'' ''alice'' 1 ''session'' ''s1'' 1,
       srv_receipt ''k2'' ''alice'' 2 ''handoff'' ''h1'' 1],
     db_changes := [srv_change ''alice'' 1 ''session'' ''s1'' 1 3,
       srv_change ''alice'' 2 ''handoff'' ''h1'' 1 1],
     db_audit := [srv_audit ''k1'' ''alice'' 1 ''session.create'' ''session'' ''s1'',
       srv_audit ''k2'' ''alice'' 2 ''handoff.send'' ''handoff'' ''h1''],
     db_handoff_index := [srv_index ''pending'' 1 2]\<rparr>"

definition srv_db5 :: store_db where
  "srv_db5 = (srv_base 3)\<lparr>
     db_resources := [srv_resource ''session'' ''s1'' 1 3, srv_resource ''handoff'' ''h1'' 2 2],
     db_receipts := [srv_receipt ''k1'' ''alice'' 1 ''session'' ''s1'' 1,
       srv_receipt ''k2'' ''alice'' 2 ''handoff'' ''h1'' 1, srv_receipt ''k3'' ''bob'' 3 ''handoff'' ''h1'' 2],
     db_changes := [srv_change ''alice'' 1 ''session'' ''s1'' 1 3,
       srv_change ''alice'' 2 ''handoff'' ''h1'' 1 1, srv_change ''bob'' 3 ''handoff'' ''h1'' 2 2],
     db_audit := [srv_audit ''k1'' ''alice'' 1 ''session.create'' ''session'' ''s1'',
       srv_audit ''k2'' ''alice'' 2 ''handoff.send'' ''handoff'' ''h1'',
       srv_audit ''k3'' ''bob'' 3 ''handoff.accept'' ''handoff'' ''h1''],
     db_handoff_index := [srv_index ''accepted'' 2 3]\<rparr>"

definition srv_post_session :: http_request where
  "srv_post_session = PostSession (srv_bearer ''ta'') ''p1''
     (Inr \<lparr>ct_command_id = ''k1'', ct_payload = \<lparr>sp_session_id = ''s1'', sp_source_id = None,
        sp_topic = ''plan''\<rparr>\<rparr>)"
definition srv_post_handoff :: http_request where
  "srv_post_handoff = PostHandoff (srv_bearer ''ta'') ''p1''
     (Inr \<lparr>ct_command_id = ''k2'', ct_payload = \<lparr>hs_handoff_id = ''h1'', hs_session_id = ''s1'',
        hs_to_actor = ''bob'', hs_focus = Some ''review'', hs_done_when = None,
        hs_context_id = None\<rparr>\<rparr>)"
definition srv_post_accept :: http_request where
  "srv_post_accept = PostAccept (srv_bearer ''tb'') (''p1'', ''h1'')
     (Inr \<lparr>tn_command_id = ''k3'', tn_expected_revision = 1, tn_payload = \<lparr>ap_claim_id = ''w1''\<rparr>\<rparr>)"

definition srv_run :: "http_request \<Rightarrow> store_db \<Rightarrow> sqlite_env \<times> http_reply" where
  "srv_run rq db = handle srv_codec (sqlite_store (cd_handoff_of srv_codec)) Completes 5000 rq (srv_env db)"

lemma srv_db2_provisioned:
  "fst (provision_actor (ex_actor_record ''bob'') (ex_membership ''bob'')
     (cd_sha256 srv_codec (string_bytes ''tb'')) 5 srv_db1) = srv_db2"
  by code_simp

lemma srv_run1: "se_db (fst (srv_run srv_post_session srv_db2)) = srv_db3" by code_simp
lemma srv_run2: "se_db (fst (srv_run srv_post_handoff srv_db3)) = srv_db4" by code_simp
lemma srv_run3: "se_db (fst (srv_run srv_post_accept srv_db4)) = srv_db5" by code_simp

section \<open>The run is a run of the server\<close>

lemma small_roomy: "length (db_receipts db) < 9 \<Longrightarrow> roomy db"
  unfolding roomy_def room_for_def select_count_def i64_max_def
proof
  fix scope
  assume "length (db_receipts db) < 9"
  then show "int (length (filter (\<lambda>r. rc_scope r = scope) (db_receipts db))) < 9223372036854775807"
    using length_filter_le [of "\<lambda>r. rc_scope r = scope" "db_receipts db"] by linarith
qed

lemma srv_roomy: "roomy srv_db2" "roomy srv_db3" "roomy srv_db4" "roomy srv_db5"
  by (rule small_roomy; simp add: srv_db2_def srv_db3_def srv_db4_def srv_db5_def srv_base_def)+

lemma srv_typed: "request_typed srv_post_session" "request_typed srv_post_handoff"
    "request_typed srv_post_accept"
proof -
  have "id_ok ''k1''" "id_ok ''k2''" "id_ok ''k3''" by code_simp+
  then show "request_typed srv_post_session" "request_typed srv_post_handoff"
    "request_typed srv_post_accept"
    by (simp_all add: srv_post_session_def srv_post_handoff_def srv_post_accept_def)
qed

lemma srv_request_step:
  assumes "request_typed rq" "roomy db"
  shows "server_step srv_codec db (se_db (fst (srv_run rq db)))"
  using server_step.requested [of rq "srv_env db" srv_codec Completes 5000 "fst (srv_run rq db)"
      "snd (srv_run rq db)"] assms
  by (simp add: srv_run_def srv_env_def)

lemma srv_provision_step:
  "server_step cod db (fst (provision_actor actor m token now db))"
  by (rule server_step.provisioned [of actor m token now db _ "snd (provision_actor actor m token now db)"])
    simp

lemma srv_chain: "server_steps srv_codec srv_db3 srv_db5" "server_steps srv_codec srv_db2 srv_db3"
  "server_steps srv_codec srv_db3 srv_db4"
  using srv_request_step [OF srv_typed(1) srv_roomy(1)] srv_request_step [OF srv_typed(2) srv_roomy(2)]
    srv_request_step [OF srv_typed(3) srv_roomy(3)]
  unfolding srv_run1 srv_run2 srv_run3 by auto

lemma srv_reached: "server_run srv_codec srv_db2" "server_run srv_codec srv_db3"
  "server_run srv_codec srv_db4" "server_run srv_codec srv_db5"
proof -
  have "id_ok (pr_project_epoch ex_project)" by code_simp
  then have "server_step srv_codec create_schema_v4 srv_db0"
    unfolding srv_db0_def
    by (rule server_step.bootstrapped [of _ ex_tenant _ _ "snd (bootstrap_project ex_tenant ex_project create_schema_v4)"])
      simp
  moreover have "server_step srv_codec srv_db0 srv_db1"
    unfolding srv_db1_def by (rule srv_provision_step)
  moreover have "server_step srv_codec srv_db1 srv_db2"
    unfolding srv_db2_provisioned [symmetric] by (rule srv_provision_step)
  ultimately show two: "server_run srv_codec srv_db2"
    unfolding server_run_def by (meson converse_rtranclp_into_rtranclp rtranclp.rtrancl_refl)
  show three: "server_run srv_codec srv_db3"
    using two srv_chain(2) unfolding server_run_def by (rule rtranclp_trans)
  show "server_run srv_codec srv_db4" "server_run srv_codec srv_db5"
    using three srv_chain(1,3) unfolding server_run_def by (blast intro: rtranclp_trans)+
qed

end
