(* ===== verification/Server_Retry.thy ===== *)
theory Server_Retry
  imports Server_Examples
begin

text \<open>
  Retrying a typed mutation: once the command has committed, whatever the caller saw of it, every
  further attempt answers with the stored receipt.
\<close>

context canonical_server
begin

lemma replay_context:
  assumes "rep s L" "request_context (sc_identity store) digest pid s = Inr (auth, m)"
    and "can_mutate (pm_role m)" "en_project_id env = pid" "sha256_sized cod"
  shows "service_replay cod store auth m env ref ch s =
    (case ledger_receipt L (scope_new (aa_tenant_id auth) pid) (en_command_id env) of
       None \<Rightarrow> Inr None
     | Some r \<Rightarrow> if cp_actor_id r = aa_actor_id auth \<and>
           cp_fingerprint r = concat (map hex_byte (digest_material cod env ref ch)) \<and>
           cp_resource r = ref then Inr (Some r) else Inl CommandConflict)"
  using context_admits [OF assms(2)] assms(3,4) receipt_read [OF assms(1)]
  by (simp add: service_replay_def membership_admits_def access_authorize_def require_write_def
      command_fingerprint_eq [OF assms(5)] authorization_scope_def split: option.splits)

text \<open>What a successful run leaves in the ledger.\<close>

lemma typed_success:
  assumes "rep s L" "sha256_sized cod" "id_ok pid" "en_project_id env = pid"
    and "id_ok (en_command_id env)" "name_ok (en_operation env)" "ref_ok ref"
    and "\<And>scope. int (length (log_of L scope)) < i64_max"
    and "typed_mutation cod store digest pid ref env build s = (s', Inr r)"
  obtains auth m L' where "request_context (sc_identity store) digest pid s = Inr (auth, m)"
    "can_mutate (pm_role m)" "rep s' L'"
    "ledger_receipt L' (scope_new (aa_tenant_id auth) pid) (en_command_id env) = Some r"
    "cp_actor_id r = aa_actor_id auth" "cp_resource r = ref"
    "cp_fingerprint r = concat (map hex_byte (digest_material cod env ref Upsert))"
proof -
  obtain p where p: "typed_prepare cod store digest pid ref env build s = Inr p"
    using assms(9) by (auto simp: typed_mutation_def result_iffs)
  obtain auth m found where ctx: "request_context (sc_identity store) digest pid s = Inr (auth, m)"
    and replay: "service_replay cod store auth m env ref Upsert s = Inr found"
    using p by (auto simp: typed_prepare_def result_iffs)
  have may_write: "can_mutate (pm_role m)"
    using replay context_admits [OF ctx]
    by (auto simp: service_replay_def membership_admits_def access_authorize_def result_iffs)
  note found = replay [unfolded replay_context [OF assms(1) ctx may_write assms(4,2)]]
  show thesis
  proof (cases found)
    case (Some rc)
    then have "rc = r" "s' = s"
      using assms(9) ctx replay by (simp_all add: typed_mutation_def typed_prepare_def)
    then show thesis
      using that [OF ctx may_write] assms(1) found Some by (auto split: option.splits if_splits)
  next
    case None
    then obtain v where "build auth m s = Inr v"
      and run: "service_execute_with_body cod store auth m env ref Upsert v s = (s', Inr r)"
      using assms(9) ctx replay by (auto simp: typed_mutation_def typed_prepare_def result_iffs)
    let ?c = "prepared_command cod m env ref Upsert (Some (canonical_json_bytes cod v))"
    note admits = context_admits [OF ctx]
    have admitted: "write_admitted auth m (en_project_id env)"
      using admits may_write assms(4) by (simp add: write_admitted_def)
    have exec: "cs_execute store ?c s = (s', Inr r)"
      using run prepared_granted [where store = store, OF assms(2) admitted]
      by (simp add: service_execute_with_body_def)
    have m: "membership_ok m" "pm_actor_id m = aa_actor_id auth"
      using admits assms(3) by (simp_all add: membership_ok_def membership_admits_def)
    then have c: "command_ok ?c"
      using prepared_ok [OF assms(2)] assms(4-7) admits(2) by (simp add: request_ok_def)
    obtain L' where L': "ledger_execute dec (clock s) ?c L = (L', Inr r)" "rep s' L'"
      using execute_outcome [OF assms(1) c assms(8) exec] by blast
    have fresh: "find_command (log_of L (member_scope m)) (en_command_id env) = None"
      using found None admits(5) by (auto simp: ledger_receipt_def split: option.splits if_splits)
    from L'(1) show thesis
    proof (cases rule: ledger_execute_cases)
      case (replayed epoch log e)
      then show thesis using fresh by simp
    next
      case (committed epoch log now)
      let ?e = "ledger_entry log now ?c"
      have r: "r = le_receipt ?e" using committed by simp
      have fields: "cp_command_id r = en_command_id env" "cp_actor_id r = aa_actor_id auth"
        "cp_resource r = ref" "cp_fingerprint r = concat (map hex_byte (digest_material cod env ref Upsert))"
        using m(2) unfolding r by (simp_all add: ledger_entry_def new_receipt_def Let_def
            prepared_command_def command_id_of_def metadata_envelope_def)
      have "log_of L' (member_scope m) = log @ [?e]" using committed by simp
      then have "ledger_receipt L' (member_scope m) (en_command_id env) = Some r"
        using committed(1,2) fields(1) r
        by (simp add: ledger_receipt_def find_command_snoc split: option.splits)
      then show thesis
        using that [OF ctx may_write L'(2)] fields admits(5) by simp
    qed simp
  qed
qed

lemma typed_retry:
  assumes "rep s L" "request_context (sc_identity store) digest pid s = Inr (auth, m)"
    and "can_mutate (pm_role m)" "en_project_id env = pid" "sha256_sized cod"
    and "ledger_receipt L (scope_new (aa_tenant_id auth) pid) (en_command_id env) = Some r"
    and "cp_actor_id r = aa_actor_id auth" "cp_resource r = ref"
    and "cp_fingerprint r = concat (map hex_byte (digest_material cod env ref Upsert))"
  shows "typed_mutation cod store digest pid ref env build s = (s, Inr r)"
  using replay_context [OF assms(1-5), of ref Upsert] assms(2,6-9)
  by (simp add: typed_mutation_def typed_prepare_def)

end

lemma receipt_extends:
  assumes "ledger_extends L L'" "ledger_receipt L scope cid = Some r"
  shows "ledger_receipt L' scope cid = Some r"
proof -
  obtain epoch log where log: "L scope = Some (epoch, log)"
    using assms(2) by (cases "L scope") (auto simp: ledger_receipt_def find_command_def log_of_def)
  obtain ext where "L' scope = Some (epoch, log @ ext)" using extendsD [OF assms(1) log] .
  then show ?thesis
    using assms(2) log by (auto simp: ledger_receipt_def find_command_append)
qed

text \<open>
  C21. Retries are exactly-once, through timeouts: if a typed mutation ran and committed a receipt -
  even when its caller only saw a timeout - then after any further activity of the server, repeating
  the request with the same command id answers with that receipt and changes nothing, as long as the
  caller is still a writing member.
\<close>

theorem retry_after_timeout:
  assumes "server_run cod (se_db s)" "sha256_sized cod" "roomy (se_db s)"
    and "id_ok pid" "en_project_id env = pid" "id_ok (en_command_id env)"
    and "name_ok (en_operation env)" "ref_ok ref"
    and "outcome = Completes \<or> outcome = CallerTimesOut"
    and "store = sqlite_store (cd_handoff_of cod)"
    and "snd (typed_mutation cod store digest pid ref env build s) = Inr r"
    and "run_service outcome (typed_mutation cod store digest pid ref env build) s = (sa, seen)"
    and "request_context sqlite_identity_store digest pid s = Inr (auth, m)"
    and "server_steps cod (se_db sa) (se_db sl)"
    and "request_context sqlite_identity_store digest pid sl = Inr (auth, m')" "can_mutate (pm_role m')"
  shows "run_service Completes (typed_mutation cod store digest pid ref env build') sl = (sl, Inr r)"
proof -
  let ?dec = "cd_handoff_of cod"
  obtain L where L: "sqlite_rep ?dec s L"
    using run_refines [OF assms(1,2)] by (auto simp: sqlite_rep_def)
  have room: "int (length (log_of L scope)) < i64_max" for scope
    using roomy_log [OF _ assms(3)] L by (simp add: sqlite_rep_def)
  obtain s' where run: "typed_mutation cod (sqlite_store ?dec) digest pid ref env build s = (s', Inr r)"
    using assms(10,11) by (metis prod.collapse)
  then have sa: "sa = s'" using assms(9,10,12) by (auto simp: run_service_def)
  obtain auth0 m0 L1 where one: "request_context sqlite_identity_store digest pid s = Inr (auth0, m0)"
    "sqlite_rep ?dec s' L1"
    "ledger_receipt L1 (scope_new (aa_tenant_id auth0) pid) (en_command_id env) = Some r"
    "cp_actor_id r = aa_actor_id auth0" "cp_resource r = ref"
    "cp_fingerprint r = concat (map hex_byte (digest_material cod env ref Upsert))"
    using sqlite_server.typed_success [OF L assms(2,4-8) room run] unfolding sqlite_store_simps by blast
  then have auth: "auth0 = auth" using assms(13) by simp
  obtain L2 where L2: "sqlite_rep ?dec sl L2" "ledger_extends L1 L2"
    using steps_refine [OF assms(14) _ assms(2)] one(2) sa by (auto simp: sqlite_rep_def)
  have "typed_mutation cod (sqlite_store ?dec) digest pid ref env build' sl = (sl, Inr r)"
    using assms(15,16) receipt_extends [OF L2(2) one(3)] one(4-6)
    by (intro sqlite_server.typed_retry [OF L2(1) _ _ assms(5,2)]) (simp_all add: auth)
  then show ?thesis by (simp add: run_service_def assms(10))
qed

text \<open>Bob's accept, whose first answer was lost, repeated after the claim was stored.\<close>

definition srv_accept_envelope :: "json command_envelope" where
  "srv_accept_envelope = \<lparr>en_command_id = ''k3'', en_project_id = ''p1'',
     en_expected_revision = Some 1, en_operation = ''handoff.accept'',
     en_payload = accept_payload_json \<lparr>ap_claim_id = ''w1''\<rparr>\<rparr>"

definition srv_accept_build ::
  "authenticated_actor \<Rightarrow> project_membership \<Rightarrow> sqlite_env \<Rightarrow> json domain_result" where
  "srv_accept_build = transition_build srv_codec (sqlite_store (cd_handoff_of srv_codec)) ''p1''
     (coord ''handoff'' ''h1'') 1 (accept_move \<lparr>ap_claim_id = ''w1''\<rparr> 5000)"

definition srv_accept :: "sqlite_env \<Rightarrow> sqlite_env \<times> command_receipt domain_result" where
  "srv_accept = typed_mutation srv_codec (sqlite_store (cd_handoff_of srv_codec)) (2 # replicate 31 0)
     ''p1'' (coord ''handoff'' ''h1'') srv_accept_envelope srv_accept_build"

lemma srv_accept_commits:
  "se_db (fst (srv_accept (srv_env srv_db4))) = srv_db5 \<and>
   cp_revision (projr (snd (srv_accept (srv_env srv_db4)))) = 2 \<and>
   isl (snd (srv_accept (srv_env srv_db4))) = False"
  by code_simp

theorem retry_after_timeout_witness:
  "\<exists>r. snd (srv_accept (srv_env srv_db4)) = Inr r \<and> cp_revision r = 2 \<and>
     run_service Completes srv_accept (srv_env srv_db5) = (srv_env srv_db5, Inr r)"
proof -
  have ids: "id_ok ''p1''" "id_ok ''k3''" "name_ok ''handoff.accept''"
    "ref_ok (coord ''handoff'' ''h1'')" by code_simp+
  have bob: "request_context sqlite_identity_store (2 # replicate 31 0) ''p1'' (srv_env srv_db4) =
      Inr (\<lparr>aa_tenant_id = ''t1'', aa_actor_id = ''bob''\<rparr>, ex_membership ''bob'')"
    "request_context sqlite_identity_store (2 # replicate 31 0) ''p1'' (srv_env srv_db5) =
      Inr (\<lparr>aa_tenant_id = ''t1'', aa_actor_id = ''bob''\<rparr>, ex_membership ''bob'')"
    by code_simp+
  obtain r where r: "snd (srv_accept (srv_env srv_db4)) = Inr r" "cp_revision r = 2"
    using srv_accept_commits by (cases "snd (srv_accept (srv_env srv_db4))") auto
  have "run_service Completes (typed_mutation srv_codec (sqlite_store (cd_handoff_of srv_codec))
      (2 # replicate 31 0) ''p1'' (coord ''handoff'' ''h1'') srv_accept_envelope srv_accept_build)
      (srv_env srv_db5) = (srv_env srv_db5, Inr r)"
    using srv_reached(3) srv_codec_ok(1) srv_roomy(3) ids bob r(1) srv_accept_commits
    by (intro retry_after_timeout [where s = "srv_env srv_db4" and outcome = CallerTimesOut and
        build = srv_accept_build and sa = "fst (srv_accept (srv_env srv_db4))" and
        seen = "Inl (ApiExecutor TimedOut)" and m' = "ex_membership ''bob''"])
      (simp_all add: srv_env_def srv_accept_def srv_accept_envelope_def run_service_def
        ex_membership_def)
  then show ?thesis using r by (auto simp: srv_accept_def)
qed

end
