(* ===== verification/Server_Guarantees.thy ===== *)
theory Server_Guarantees
  imports Server_Examples Server_Retry
begin

text \<open>
  What a server run guarantees, stated over the database it leaves behind: the history of every
  handoff, records that are written once, and requests without authority.
\<close>

section \<open>Histories in the change table\<close>

text \<open>The committed versions of one handoff, oldest first, with the actor who wrote each.\<close>

definition stored_versions ::
  "codec \<Rightarrow> store_db \<Rightarrow> project_scope \<Rightarrow> handoff_id \<Rightarrow> (actor_id \<times> handoff_record) list" where
  "stored_versions cod db scope hid =
     map (\<lambda>c. (ch_actor_id c, the (cd_handoff_of cod (the (ch_body_json c)))))
       (filter (\<lambda>c. ch_scope c = scope \<and> ch_resource_kind c = ''handoff'' \<and> ch_resource_id c = hid)
         (db_changes db))"

definition stored_facts :: "codec \<Rightarrow> store_db \<Rightarrow> project_scope \<Rightarrow> fact_record set" where
  "stored_facts cod db scope = {f. \<exists>c\<in>set (db_changes db). \<exists>body. ch_scope c = scope \<and>
     ch_resource_kind c = ''fact'' \<and> ch_body_json c = Some body \<and> cd_fact_of cod body = Some f}"

lemma change_rows:
  assumes "store_rel dec db L"
  shows "filter (\<lambda>c. ch_scope c = scope \<and> P c) (db_changes db) =
    map (enc_change (epoch_of L scope)) (filter (\<lambda>e. P (enc_change (epoch_of L scope) e)) (log_of L scope))"
proof -
  have "filter (\<lambda>c. ch_scope c = scope) (db_changes db) =
      map (enc_change (epoch_of L scope)) (log_of L scope)"
    using assms unfolding store_rel_def rows_rel_def by blast
  moreover have "filter (\<lambda>c. ch_scope c = scope \<and> P c) (db_changes db) =
      filter P (filter (\<lambda>c. ch_scope c = scope) (db_changes db))"
    by (simp add: conj_commute)
  ultimately show ?thesis by (simp add: filter_map o_def)
qed

lemma enc_change_fields [simp]:
  "ch_actor_id (enc_change epoch e) = entry_actor e" "ch_body_json (enc_change epoch e) = le_body e"
  "ch_resource_kind (enc_change epoch e) = rf_kind (le_ref e)"
  "ch_resource_id (enc_change epoch e) = rf_id (le_ref e)"
  by (simp_all add: enc_change_def entry_actor_def le_ref_def Let_def)

lemma ref_coord: "rf_kind ref = kind \<and> rf_id ref = rid \<longleftrightarrow> ref = coord kind rid"
  by (auto simp: coord_def)

lemma stored_versions_rel:
  assumes "store_rel dec db L"
  shows "stored_versions cod db scope hid = handoff_versions cod (log_of L scope) hid"
  unfolding stored_versions_def handoff_versions_def change_rows [OF assms]
  by (simp add: o_def ref_coord)

lemma stored_facts_rel:
  assumes "store_rel dec db L"
  shows "stored_facts cod db scope = logged_facts cod (log_of L scope)"
proof -
  have rows: "{c \<in> set (db_changes db). ch_scope c = scope} =
      enc_change (epoch_of L scope) ` set (log_of L scope)"
    using arg_cong [OF change_rows [OF assms, of scope "\<lambda>_. True"], of set] by simp
  have "stored_facts cod db scope = {f. \<exists>c\<in>{c \<in> set (db_changes db). ch_scope c = scope}.
      \<exists>body. ch_resource_kind c = ''fact'' \<and> ch_body_json c = Some body \<and> cd_fact_of cod body = Some f}"
    unfolding stored_facts_def by blast
  then show ?thesis unfolding rows by (simp add: logged_facts_def)
qed

lemma last_entry_skip:
  "filter (\<lambda>e. le_ref e = ref) ext = [] \<Longrightarrow> last_entry (log @ ext) ref = last_entry log ref"
proof (induction ext rule: rev_induct)
  case (snoc e ext)
  then show ?case
    unfolding append_assoc [symmetric] last_entry_snoc by (simp split: if_splits)
qed simp

lemma run_histories:
  assumes "server_run cod db" "sha256_sized cod" "handoff_codec cod"
  shows "stored_versions cod db scope hid = [] \<or>
    handoff_history (stored_facts cod db scope) hid (stored_versions cod db scope hid)"
proof -
  obtain L where L: "store_rel (cd_handoff_of cod) db L" "server_ledger cod L"
    using run_refines [OF assms(1,2)] by blast
  then have "ledger_ok (cd_handoff_of cod) L" by (simp add: store_rel_def)
  then have "histories_ok cod (log_of L scope)" using ledger_histories [OF L(2) assms(3)] by blast
  then show ?thesis
    by (simp add: histories_ok_def stored_versions_rel [OF L(1)] stored_facts_rel [OF L(1)])
qed

section \<open>Properties\<close>

text \<open>
  C17. The server implements its abstract machine: whatever requests a run served, with whatever
  outcomes and clocks, the database holds a ledger every entry of which an abstract server may
  append - a custom.* resource, a first session, fact, context packet or handoff written by its
  author, or a transition of a stored handoff by an actor, a lease and a stored fact it is open to.
\<close>

theorem server_refines_machine:
  assumes "server_run cod db" "sha256_sized cod"
  shows "\<exists>L. store_rel (cd_handoff_of cod) db L \<and> server_ledger cod L"
  by (rule run_refines [OF assms])

theorem server_refines_machine_witness:
  "\<exists>L. store_rel (cd_handoff_of srv_codec) srv_db5 L \<and> server_ledger srv_codec L"
  by (rule server_refines_machine [OF srv_reached(4) srv_codec_ok(1)])

text \<open>
  C18. The stored history of a handoff is a lifecycle: its first version was sent by its sender, every
  later one is an accept, heartbeat or return by its receiver with the server's lease and, for a
  return, a fact stored in the project; every version satisfies the handoff invariant and no version
  changes the route.
\<close>

theorem handoff_provenance:
  assumes "server_run cod db" "sha256_sized cod" "handoff_codec cod"
    and "stored_versions cod db scope hid = (a, h) # vs"
  shows "handoff_history (stored_facts cod db scope) hid ((a, h) # vs) \<and>
    hr_handoff_id h = hid \<and> a = hr_from_actor h \<and> (\<forall>(b, h')\<in>set vs. b = hr_to_actor h) \<and>
    (\<forall>(b, h')\<in>set ((a, h) # vs). handoff_inv h' \<and> handoff_route h' = handoff_route h)"
proof -
  have history: "handoff_history (stored_facts cod db scope) hid ((a, h) # vs)"
    using run_histories [OF assms(1-3), of scope hid] assms(4) by simp
  from history_facts [OF history] history show ?thesis
    by (auto simp: reachable_inv)
qed

lemma srv_versions:
  "stored_versions srv_codec srv_db5 ex_scope ''h1'' = [(''alice'', srv_sent), (''bob'', srv_accepted)]"
  by (simp add: stored_versions_def srv_db5_def srv_base_def srv_change_def ch_scope_def ex_scope_def
      scope_new_def srv_codec_def srv_handoff_of_def)

theorem handoff_provenance_witness:
  "handoff_history (stored_facts srv_codec srv_db5 ex_scope) ''h1''
     [(''alice'', srv_sent), (''bob'', srv_accepted)] \<and>
   handoff_inv srv_accepted \<and> handoff_route srv_accepted = handoff_route srv_sent"
proof -
  note all = handoff_provenance [OF srv_reached(4) srv_codec_ok srv_versions]
  have "(''bob'', srv_accepted) \<in> set [(''alice'', srv_sent), (''bob'', srv_accepted)]" by simp
  from bspec [OF all [THEN conjunct2, THEN conjunct2, THEN conjunct2, THEN conjunct2] this]
  show ?thesis using conjunct1 [OF all] by (simp only: prod.case simp_thms)
qed

text \<open>
  C19. Sessions, facts and context packets are written once: a stored one is never replaced or
  deleted by anything the server serves later, and it has exactly one row in the change table.
\<close>

theorem records_written_once:
  assumes "server_run cod db" "sha256_sized cod" "rf_kind ref \<in> write_once_kinds"
    and "resource db scope ref = Inr (Some r)" "server_steps cod db db'"
  shows "resource db' scope ref = Inr (Some r) \<and>
    select_count (\<lambda>c. ch_scope c = scope \<and> ch_resource_kind c = rf_kind ref \<and>
      ch_resource_id c = rf_id ref) (db_changes db') = 1"
proof -
  obtain L where L: "store_rel (cd_handoff_of cod) db L" "server_ledger cod L"
    using run_refines [OF assms(1,2)] by blast
  obtain L' where L': "store_rel (cd_handoff_of cod) db' L'" "ledger_extends L L'" "server_ledger cod L'"
    using steps_refine [OF assms(5) L(1) assms(2)] L(2) by blast
  obtain e where e: "last_entry (log_of L scope) ref = Some e" "r = entry_resource scope e"
    using assms(4) resource_rel [OF L(1), of scope ref] by (auto simp: ledger_resource_def)
  note mem = last_entry_Some [OF e(1)]
  obtain epoch log where log: "L scope = Some (epoch, log)"
    using mem by (cases "L scope") (auto simp: log_of_def)
  obtain ext where ext: "L' scope = Some (epoch, log @ ext)" using extendsD [OF L'(2) log] .
  have once: "prior_count (log @ ext) ref \<le> 1"
    using ledger_write_once [OF L'(3) assms(3), of scope] ext by simp
  have "length (filter (\<lambda>x. le_ref x = ref) log) \<noteq> 0"
    using mem log by (auto simp: filter_empty_conv)
  with once have "length (filter (\<lambda>x. le_ref x = ref) log) = 1"
    "length (filter (\<lambda>x. le_ref x = ref) ext) = 0"
    unfolding prior_count_def filter_append length_append by linarith+
  then have new: "filter (\<lambda>x. le_ref x = ref) ext = []"
    "length (filter (\<lambda>x. le_ref x = ref) (log @ ext)) = 1"
    by simp_all
  have "last_entry (log @ ext) ref = last_entry log ref"
    by (rule last_entry_skip [OF new(1)])
  then have kept: "resource db' scope ref = Inr (Some r)"
    using resource_rel [OF L'(1), of scope ref] ext e log by (simp add: ledger_resource_def)
  have refs: "rf_kind x = rf_kind ref \<and> rf_id x = rf_id ref \<longleftrightarrow> x = ref" for x :: resource_ref
    by auto
  show ?thesis
    using kept new(2) ext by (simp add: select_count_def change_rows [OF L'(1)] refs)
qed

theorem records_written_once_witness:
  "resource srv_db5 ex_scope (coord ''session'' ''s1'') =
     Inr (Some \<lparr>cr_scope = ex_scope, cr_resource = coord ''session'' ''s1'',
       cr_revision = 1, cr_state = Present [3]\<rparr>) \<and>
   select_count (\<lambda>c. ch_scope c = ex_scope \<and> ch_resource_kind c = ''session'' \<and>
      ch_resource_id c = ''s1'') (db_changes srv_db5) = 1"
proof -
  have "resource srv_db3 ex_scope (coord ''session'' ''s1'') =
     Inr (Some \<lparr>cr_scope = ex_scope, cr_resource = coord ''session'' ''s1'',
       cr_revision = 1, cr_state = Present [3]\<rparr>)" by code_simp
  then show ?thesis
    using records_written_once [OF srv_reached(2) srv_codec_ok(1) _ _ srv_chain(1),
        of "coord ''session'' ''s1''" ex_scope]
    by (simp add: write_once_kinds_def)
qed

text \<open>
  C20. A request without authority does nothing: unless its bearer token belongs to an active actor
  with an active membership in the project it addresses, the answer is an error and the database is
  untouched - whatever the route, the executor outcome and the clock.
\<close>

theorem unauthorized_request_refused:
  assumes "store = sqlite_store (cd_handoff_of cod)" "rq \<noteq> GetHealth"
    and "\<And>digest auth m pid. bearer_digest_from_headers cod (request_headers rq) = Inr digest \<Longrightarrow>
      request_project rq = Some pid \<Longrightarrow> authenticate_token (se_db s) digest = Inr (Some auth) \<Longrightarrow>
      membership (se_db s) auth pid \<noteq> Inr (Some m)"
  shows "\<exists>e. handle cod store outcome clock rq s = (s, ReplyError e)"
proof (rule unauthorized_fails)
  have "request_context sqlite_identity_store digest pid s \<noteq> Inr am"
    if "bearer_digest_from_headers cod (request_headers rq) = Inr digest" "request_project rq = Some pid"
    for digest pid am
    using assms(3) [OF that]
    by (cases am) (auto simp: request_context_def sqlite_identity_store_def id_membership_def
        membership_def result_iffs)
  then show "unauthorized_request cod (sc_identity store) rq s"
    using assms(2) by (simp add: unauthorized_request_def assms(1) sqlite_store_simps)
qed

text \<open>A member of no project, and a request with an unknown token.\<close>

theorem unauthorized_request_refused_witness:
  "\<exists>e. handle srv_codec (sqlite_store (cd_handoff_of srv_codec)) Completes 5000
     (GetSnapshot (srv_bearer ''ta'') ''p2'') (srv_env srv_db5) = (srv_env srv_db5, ReplyError e)"
proof (rule unauthorized_request_refused [OF refl])
  fix digest auth m pid
  assume "bearer_digest_from_headers srv_codec (request_headers (GetSnapshot (srv_bearer ''ta'') ''p2'')) =
      Inr digest" "request_project (GetSnapshot (srv_bearer ''ta'') ''p2'') = Some pid"
    "authenticate_token (se_db (srv_env srv_db5)) digest = Inr (Some auth)"
  moreover have "bearer_digest_from_headers srv_codec (srv_bearer ''ta'') = Inr (1 # replicate 31 0)"
    by code_simp
  moreover have "authenticate_token srv_db5 (1 # replicate 31 0) =
      Inr (Some \<lparr>aa_tenant_id = ''t1'', aa_actor_id = ''alice''\<rparr>)" by code_simp
  moreover have "membership srv_db5 \<lparr>aa_tenant_id = ''t1'', aa_actor_id = ''alice''\<rparr> ''p2'' = Inr None"
    by code_simp
  ultimately show "membership (se_db (srv_env srv_db5)) auth pid \<noteq> Inr (Some m)"
    by (simp add: srv_env_def)
qed simp

end
