(* ===== verification/Server_Errors.thy ===== *)
theory Server_Errors
  imports Server_Examples
begin

text \<open>
  Error answers of the server: an answer other than a timeout commits nothing, and what an answer
  reveals of an internal failure.
\<close>

text \<open>An operation whose errors, a lost answer apart, leave the database as it was.\<close>

definition quiet :: "store_db \<Rightarrow> sqlite_env \<times> (api_error + 'a) \<Rightarrow> bool" where
  "quiet db p \<longleftrightarrow> (\<forall>e. snd p = Inl e \<longrightarrow> e = ApiExecutor TimedOut \<or> se_db (fst p) = db)"

lemma quiet_try_api:
  "db = se_db s \<Longrightarrow> (\<And>x. quiet db (f x)) \<Longrightarrow> quiet db (try_api s r f)"
  by (cases r) (auto simp: quiet_def)

lemma quiet_run:
  assumes "\<And>e s'. operation s = (s', Inl e) \<Longrightarrow> se_db s' = se_db s" "db = se_db s"
  shows "quiet db (run_service outcome operation s)"
  using assms(1) [of "fst (operation s)"] assms(2)
  by (cases outcome; cases "operation s"; cases "snd (operation s)")
    (auto simp: quiet_def run_service_def)

lemma quiet_reading: "db = se_db s \<Longrightarrow> quiet db (run_service outcome (reading f) s)"
  by (intro quiet_run) (auto simp: reading_def)

lemma quiet_respond:
  assumes "db = se_db s"
  shows "quiet db (try_do (run_service outcome (reading f) s) (\<lambda>s x. try_api s (g x) (\<lambda>r. (s, Inr r))))"
  using assms
  by (cases outcome; cases "f s"; cases "g (projr (f s))")
    (auto simp: quiet_def run_service_def reading_def)

lemma try_ok_Inl: "try_ok s r f = (s', Inl e) \<longleftrightarrow>
    r = Inl e \<and> s' = s \<or> (\<exists>x. r = Inr x \<and> f x = (s', Inl e))"
  by (cases r) auto

lemma env_execute_error: "env_execute dec c s = (s', Inl e) \<Longrightarrow> se_db s' = se_db s"
  using execute_error_state [of dec "env_now s" c "se_db s"]
  by (auto simp: env_execute_def Let_def split: prod.splits)

lemma prepared_error:
  assumes "execute_prepared cod (sqlite_store dec) auth m env ref ch body s = (s', Inl e)"
  shows "se_db s' = se_db s"
  using assms unfolding execute_prepared_def
  by (auto simp: try_ok_Inl split: if_splits dest: env_execute_error)

lemma typed_error:
  assumes "typed_mutation cod (sqlite_store dec) digest pid ref env build s = (s', Inl e)"
  shows "se_db s' = se_db s"
proof (cases "typed_prepare cod (sqlite_store dec) digest pid ref env build s")
  case (Inr p)
  then show ?thesis
    using assms prepared_error
    by (cases p) (auto simp: typed_mutation_def service_execute_with_body_def)
qed (use assms in \<open>simp add: typed_mutation_def\<close>)

lemma raw_error:
  assumes "raw_command_closure cod (sqlite_store dec) digest rq s = (s', Inl e)"
  shows "se_db s' = se_db s"
  using assms unfolding raw_command_closure_def service_execute_def
  by (auto simp: try_ok_Inl dest: prepared_error)

lemma quiet_typed:
  "db = se_db s \<Longrightarrow> quiet db (run_service outcome
     (typed_mutation cod (sqlite_store dec) digest pid ref env build) s)"
  by (intro quiet_run) (auto dest: typed_error)

lemma quiet_raw:
  "db = se_db s \<Longrightarrow> quiet db (run_service outcome (raw_command_closure cod (sqlite_store dec) digest rq) s)"
  by (intro quiet_run) (auto dest: raw_error)

lemma quiet_reply:
  "quiet db p \<Longrightarrow> reply f p = (s', ReplyError e) \<Longrightarrow> (\<And>x. f x \<noteq> ReplyError e) \<Longrightarrow>
     e = ApiExecutor TimedOut \<or> se_db s' = db"
  by (auto simp: quiet_def reply_def split: sum.splits)

lemmas quiet_intros = quiet_try_api quiet_respond quiet_typed quiet_raw quiet_reading

text \<open>
  C23. An error answer other than a lost one means that nothing was committed: on every route, with
  every executor outcome, if the reply's status is not 503 the database is as before the request.
\<close>

theorem errors_commit_nothing:
  assumes "handle cod (sqlite_store dec) outcome clock rq s = (s', ReplyError e)"
    and "er_status (api_error_response ext e) \<noteq> 503"
  shows "se_db s' = se_db s"
proof -
  have "e = ApiExecutor TimedOut \<or> se_db s' = se_db s"
    by (insert assms(1), cases rq; simp only: handle.simps; erule quiet_reply [rotated];
        simp only: server_health_def
        server_command_def server_changes_def server_materialized_changes_def server_snapshot_def
        server_resource_def get_identity_def create_session_def create_fact_def
        create_handoff_context_def send_handoff_def list_handoffs_def get_handoff_def
        accept_handoff_def heartbeat_handoff_def return_handoff_def split_beta http_reply.simps
        not_False_eq_True; (intro quiet_intros refl)?)
  then show ?thesis using assms(2) by (auto simp: api_error_response_def)
qed

text \<open>Creating the session again, under another command id.\<close>

definition srv_post_again :: http_request where
  "srv_post_again = PostSession (srv_bearer ''tb'') ''p1''
     (Inr \<lparr>ct_command_id = ''k9'', ct_payload = \<lparr>sp_session_id = ''s1'', sp_source_id = None,
        sp_topic = ''mine''\<rparr>\<rparr>)"

theorem errors_commit_nothing_witness:
  "\<exists>s'. srv_run srv_post_again srv_db5 = (s', ReplyError (ApiDomain ResourceAlreadyExists)) \<and>
     se_db s' = srv_db5"
proof -
  have "snd (srv_run srv_post_again srv_db5) = ReplyError (ApiDomain ResourceAlreadyExists)"
    by code_simp
  then have run: "srv_run srv_post_again srv_db5 =
      (fst (srv_run srv_post_again srv_db5), ReplyError (ApiDomain ResourceAlreadyExists))"
    by (simp add: prod_eq_iff)
  have "er_status (api_error_response [] (ApiDomain ResourceAlreadyExists)) \<noteq> 503"
    by (simp add: api_error_response_def domain_error_response_def)
  with errors_commit_nothing [OF trans [OF srv_run_def [symmetric] run]]
  have "se_db (fst (srv_run srv_post_again srv_db5)) = srv_db5"
    by (simp add: srv_env_def)
  then show ?thesis using run by blast
qed

section \<open>What an error reveals\<close>

text \<open>
  Internal failures are opaque: a reply with a 5xx status carries one of two fixed texts and the
  code of a storage or conformance failure, whatever the failing operation, backend message or
  executor state was; 503 stands exactly for a backend that is saturated, unavailable or slow.
\<close>

theorem internal_errors_opaque:
  "(er_status (api_error_response ext e) = 503 \<longleftrightarrow>
      e \<in> {ApiExecutor Saturated, ApiExecutor TimedOut, ApiExecutor BackendUnavailable}) \<and>
   (er_status (api_error_response ext e) \<ge> 500 \<longleftrightarrow>
      (\<exists>x. e = ApiExecutor x) \<or> (\<exists>op d. e = ApiDomain (StorageFailure op d)) \<or>
      (\<exists>c d. e = ApiDomain (ConformanceViolation c d))) \<and>
   (if er_status (api_error_response ext e) < 500
    then er_status (api_error_response ext e) \<in> {400, 401, 403, 404, 409, 413}
    else er_message (api_error_response ext e) \<in>
        {''internal server error'', ''canonical storage temporarily unavailable''} \<and>
      er_code (api_error_response ext e) \<in> {CodeStorageFailure, CodeConformanceViolation})"
proof (cases e)
  case (ApiDomain d)
  then show ?thesis
    by (cases d) (simp_all add: api_error_response_def domain_error_response_def)
next
  case (ApiExecutor x)
  then show ?thesis by (cases x) (simp_all add: api_error_response_def)
qed

text \<open>
  Handlers that overlap. A create handler checks that its resource is absent and then executes a
  command without an expected revision; only the executor's exclusive hold on the store keeps the
  two together. With the pooled backend of \<open>executor.rs\<close> (\<open>postgres_no_tls\<close> with a pool of more than
  one connection) the closures of two requests run side by side, and only each \<open>execute\<close> is atomic.
\<close>

text \<open>Two creates of session s1, by alice and by bob, each with its own command id.\<close>

definition overlap_payload :: session_create_payload where
  "overlap_payload = \<lparr>sp_session_id = ''s1'', sp_source_id = None, sp_topic = ''plan''\<rparr>"

definition overlap_envelope :: "command_id \<Rightarrow> json command_envelope" where
  "overlap_envelope cid = \<lparr>en_command_id = cid, en_project_id = ''p1'', en_expected_revision = None,
     en_operation = ''session.create'', en_payload = session_payload_json overlap_payload\<rparr>"

definition overlap_prepare :: "u8 \<Rightarrow> command_id \<Rightarrow> sqlite_env \<Rightarrow> prepared domain_result" where
  "overlap_prepare token cid =
     typed_prepare srv_codec (sqlite_store (cd_handoff_of srv_codec)) (token # replicate 31 0) ''p1''
       (coord ''session'' ''s1'') (overlap_envelope cid)
       (session_build srv_codec (sqlite_store (cd_handoff_of srv_codec)) ''p1''
         (coord ''session'' ''s1'') overlap_payload)"

definition overlap_finish ::
  "command_id \<Rightarrow> prepared domain_result \<Rightarrow> sqlite_env \<Rightarrow> sqlite_env \<times> command_receipt domain_result" where
  "overlap_finish cid p s = try_ok s p (\<lambda>p. case p of
       Answered r \<Rightarrow> (s, Inr r)
     | Ready auth m record \<Rightarrow> service_execute_with_body srv_codec
         (sqlite_store (cd_handoff_of srv_codec)) auth m (overlap_envelope cid)
         (coord ''session'' ''s1'') Upsert record s)"

text \<open>A handler is its two halves, run on one state.\<close>

lemma overlap_whole:
  "overlap_finish cid (overlap_prepare token cid s) s =
     typed_mutation srv_codec (sqlite_store (cd_handoff_of srv_codec)) (token # replicate 31 0) ''p1''
       (coord ''session'' ''s1'') (overlap_envelope cid)
       (session_build srv_codec (sqlite_store (cd_handoff_of srv_codec)) ''p1''
         (coord ''session'' ''s1'') overlap_payload) s"
  by (simp add: overlap_finish_def overlap_prepare_def typed_mutation_def)







end
