(* ===== verification/Replica_Store.thy ===== *)
theory Replica_Store
  imports Server_Gateway
begin

text \<open>
  \<open>aidememo-client/src/lib.rs\<close>: the local exact-read replica. Its two tables, the application of
  snapshots and change batches, offline reads, the typed HTTP client and the pull loop. The HTTP
  agent, URL routing and the JSON text of derived types are the fields of \<open>transport\<close>.
\<close>

section \<open>Errors and identity\<close>

text \<open>\<open>ClientError\<close>, less \<open>Filesystem\<close>, which only opening the file raises.\<close>

datatype client_error =
    ClientDomain domain_error
  | ClientStorage string diagnostic
  | Transport diagnostic
  | Remote nat string
  | Protocol diagnostic
  | ScopeMismatch project_scope project_scope
  | EpochMismatch project_epoch project_epoch
  | ActorMismatch "actor_id option" actor_id
  | CursorMismatch project_sequence project_sequence

type_synonym 'a client_result = "client_error + 'a"

abbreviation in_domain :: "'a domain_result \<Rightarrow> 'a client_result" where
  "in_domain \<equiv> map_err ClientDomain"

record project_identity =
  pi_tenant_id :: tenant_id
  pi_project_id :: project_id
  pi_project_epoch :: project_epoch
  pi_actor_id :: actor_id
  pi_role :: membership_role

definition identity_scope :: "project_identity \<Rightarrow> project_scope" where
  "identity_scope i = scope_new (pi_tenant_id i) (pi_project_id i)"

section \<open>Tables\<close>

text \<open>
  \<open>replica_meta\<close> has the singleton key 1, so any two of its rows clash. A version 1 file has no
  \<open>actor_id\<close> column; its rows carry \<open>None\<close>.
\<close>

record meta_row =
  mt_tenant_id :: string
  mt_project_id :: string
  mt_project_epoch :: string
  mt_actor_id :: "string option"
  mt_after_seq :: i64
  mt_updated_at_ms :: i64

record replica_row =
  rx_kind :: string
  rx_id :: string
  rx_revision :: i64
  rx_deleted :: i64
  rx_body :: "bytes option"
  rx_observed_after_seq :: i64

record replica_db =
  rp_user_version :: i64
  rp_meta :: "meta_row list"
  rp_resources :: "replica_row list"

definition REPLICA_SCHEMA_VERSION :: i64 where "REPLICA_SCHEMA_VERSION = 2"
definition CLIENT_CHANGE_LIMIT :: nat where "CLIENT_CHANGE_LIMIT = 1000"
definition MAX_PULL_BATCHES :: nat where "MAX_PULL_BATCHES = 10000"

definition meta_check :: "meta_row \<Rightarrow> bool" where
  "meta_check r \<longleftrightarrow> mt_after_seq r \<ge> 0"

definition replica_check :: "replica_row \<Rightarrow> bool" where
  "replica_check r \<longleftrightarrow> rx_revision r > 0 \<and> rx_deleted r \<in> {0, 1} \<and> rx_observed_after_seq r \<ge> 0 \<and>
     (rx_deleted r = 0 \<and> rx_body r \<noteq> None \<or> rx_deleted r = 1 \<and> rx_body r = None)"

definition rx_ref :: "replica_row \<Rightarrow> resource_ref" where
  "rx_ref r = \<lparr>rf_kind = rx_kind r, rf_id = rx_id r\<rparr>"

definition replica_migrate :: "replica_db \<Rightarrow> replica_db \<times> unit client_result" where
  "replica_migrate db =
    (if rp_user_version db = 0 then
       (\<lparr>rp_user_version = 2, rp_meta = [], rp_resources = []\<rparr>, Inr ())
     else if rp_user_version db = 1 then
       (db\<lparr>rp_user_version := 2, rp_meta := map (\<lambda>r. r\<lparr>mt_actor_id := None\<rparr>) (rp_meta db)\<rparr>, Inr ())
     else if rp_user_version db = REPLICA_SCHEMA_VERSION then (db, Inr ())
     else (db, Inl (ClientStorage ''schema_version'' External)))"

section \<open>Rows\<close>

definition client_to_i64 :: "string \<Rightarrow> u64 \<Rightarrow> i64 client_result" where
  "client_to_i64 field v = ok_or (Protocol (Text (field @ '' exceeds i64''))) (u64_try_i64 v)"

definition client_from_i64 :: "string \<Rightarrow> i64 \<Rightarrow> u64 client_result" where
  "client_from_i64 field v =
     ok_or (ClientStorage ''integer_decode'' (Text (field @ '' is negative''))) (i64_try_u64 v)"

definition client_sql :: "string \<Rightarrow> 'a option \<Rightarrow> 'a client_result" where
  "client_sql operation r = ok_or (ClientStorage operation External) r"

definition now_ms :: "int \<Rightarrow> i64 client_result" where
  "now_ms clock =
    (if clock < 0 then Inl (Protocol External)
     else if clock > i64_max then Inl (Protocol (Text ''current timestamp exceeds i64''))
     else Inr clock)"

record replica_meta =
  rm_scope :: project_scope
  rm_project_epoch :: project_epoch
  rm_actor_id :: "actor_id option"
  rm_after_seq :: project_sequence
  rm_updated_at_ms :: i64

definition decode_meta :: "meta_row \<Rightarrow> replica_meta client_result" where
  "decode_meta row =
     and_then (in_domain (id_try_from ''tenant_id'' (mt_tenant_id row))) (\<lambda>tenant.
     and_then (in_domain (id_try_from ''project_id'' (mt_project_id row))) (\<lambda>project.
     and_then (in_domain (id_try_from ''project_epoch'' (mt_project_epoch row))) (\<lambda>epoch.
     and_then (map_transpose (\<lambda>a. in_domain (id_try_from ''actor_id'' a)) (mt_actor_id row)) (\<lambda>actor.
     and_then (client_from_i64 ''cursor'' (mt_after_seq row)) (\<lambda>after_seq.
       Inr \<lparr>rm_scope = scope_new tenant project, rm_project_epoch = epoch, rm_actor_id = actor,
            rm_after_seq = after_seq, rm_updated_at_ms = mt_updated_at_ms row\<rparr>)))))"

definition load_meta :: "replica_db \<Rightarrow> replica_meta option client_result" where
  "load_meta db = map_transpose decode_meta (select_first (\<lambda>_. True) (rp_meta db))"

definition decode_replica_resource ::
  "project_scope \<Rightarrow> resource_ref \<Rightarrow> i64 \<Rightarrow> i64 \<Rightarrow> bytes option \<Rightarrow> canonical_resource client_result" where
  "decode_replica_resource scope ref revision deleted body =
     and_then (case (deleted = 0, deleted = 1, body) of
         (True, _, Some b) \<Rightarrow> Inr (Present b)
       | (_, True, None) \<Rightarrow> Inr Deleted
       | _ \<Rightarrow> Inl (ClientStorage ''resource_decode''
           (Text ''body and deletion marker are inconsistent''))) (\<lambda>state.
     and_then (client_from_i64 ''revision'' revision) (\<lambda>v.
     and_then (in_domain (revision_new v)) (\<lambda>v.
       Inr \<lparr>cr_scope = scope, cr_resource = ref, cr_revision = v, cr_state = state\<rparr>)))"

section \<open>Validation\<close>

definition validate_materialized_batch :: "materialized_batch \<Rightarrow> unit client_result" where
  "validate_materialized_batch b =
     and_then (in_domain (materialized_batch_projected (mb_scope b) (mb_cursor b) (mb_entries b)
       (mb_next_cursor b) (mb_has_more b))) (\<lambda>validated.
       if validated \<noteq> b then Inl (Protocol (Text
         ''server materialized batch does not match its validated projection''))
       else Inr ())"

definition validate_snapshot :: "project_snapshot \<Rightarrow> unit client_result" where
  "validate_snapshot s =
     and_then (in_domain (snapshot_new (sn_scope s) (sn_project_epoch s) (sn_at_seq s)
       (sn_resources s))) (\<lambda>validated.
       if validated \<noteq> s then Inl (Protocol (Text
         ''server snapshot does not match its validated representation''))
       else Inr ())"

section \<open>Operations of the store\<close>

text \<open>The \<open>Debug\<close> text of a coordinate; its identifiers need no escapes.\<close>

definition ref_debug :: "resource_ref \<Rightarrow> string" where
  "ref_debug ref = ''ResourceRef { kind: ResourceKind('' @ [CHR 0x22] @ rf_kind ref @ [CHR 0x22] @
     ''), id: ResourceId('' @ [CHR 0x22] @ rf_id ref @ [CHR 0x22] @ '') }''"

definition apply_resource ::
  "replica_db \<Rightarrow> canonical_resource \<Rightarrow> project_sequence \<Rightarrow> replica_db client_result" where
  "apply_resource db r observed_after_seq =
     (let current = select_first (\<lambda>x. rx_ref x = cr_resource r) (rp_resources db) in
      and_then (client_to_i64 ''revision'' (cr_revision r)) (\<lambda>revision.
      let (deleted, body) = (case cr_state r of Present b \<Rightarrow> (0, Some b) | Deleted \<Rightarrow> (1, None)) in
      let store = and_then (client_to_i64 ''cursor'' observed_after_seq) (\<lambda>observed.
          and_then (client_sql ''resource_apply'' (upsert_row rx_ref replica_check (\<lambda>_. True)
            \<lparr>rx_kind = rf_kind (cr_resource r), rx_id = rf_id (cr_resource r),
             rx_revision = revision, rx_deleted = deleted, rx_body = body,
             rx_observed_after_seq = observed\<rparr> (rp_resources db))) (\<lambda>rows.
            Inr (db\<lparr>rp_resources := rows\<rparr>)))
      in case current of
           None \<Rightarrow> store
         | Some x \<Rightarrow>
             if rx_revision x > revision then Inr db
             else if rx_revision x = revision then
               (if rx_deleted x \<noteq> deleted \<or> rx_body x \<noteq> body then
                  Inl (Protocol (Text (''resource '' @ ref_debug (cr_resource r) @
                    '' changed without a revision advance'')))
                else Inr db)
             else store))"

fun apply_resources ::
  "replica_db \<Rightarrow> (canonical_resource \<times> project_sequence) list \<Rightarrow> replica_db client_result" where
  "apply_resources db [] = Inr db"
| "apply_resources db ((r, observed) # rest) =
     and_then (apply_resource db r observed) (\<lambda>db. apply_resources db rest)"

text \<open>A transaction: an error rolls back.\<close>

definition in_transaction ::
  "replica_db \<Rightarrow> replica_db client_result \<Rightarrow> replica_db \<times> unit client_result" where
  "in_transaction db r = (case r of Inl e \<Rightarrow> (db, Inl e) | Inr db' \<Rightarrow> (db', Inr ()))"

definition verify_identity :: "replica_db \<Rightarrow> project_identity \<Rightarrow> bool client_result" where
  "verify_identity db identity =
     and_then (load_meta db) (\<lambda>found.
       case found of
         None \<Rightarrow> Inr True
       | Some meta \<Rightarrow>
           if rm_scope meta \<noteq> identity_scope identity then
             Inl (ScopeMismatch (rm_scope meta) (identity_scope identity))
           else if rm_project_epoch meta \<noteq> pi_project_epoch identity then
             Inl (EpochMismatch (rm_project_epoch meta) (pi_project_epoch identity))
           else if rm_actor_id meta \<noteq> Some (pi_actor_id identity) then
             Inl (ActorMismatch (rm_actor_id meta) (pi_actor_id identity))
           else Inr False)"

definition replica_cursor :: "replica_db \<Rightarrow> change_cursor option client_result" where
  "replica_cursor db =
     and_then (load_meta db) (\<lambda>found. Inr (map_option (\<lambda>meta.
       \<lparr>cu_project_epoch = rm_project_epoch meta, cu_after_seq = rm_after_seq meta\<rparr>) found))"

definition snapshot_tx ::
  "int \<Rightarrow> project_snapshot \<Rightarrow> project_identity \<Rightarrow> replica_db \<Rightarrow> replica_db client_result" where
  "snapshot_tx clock snap identity tx =
     and_then (load_meta tx) (\<lambda>found.
       if found \<noteq> None then Inl (Protocol (Text
         ''replica is already initialized; reset explicitly before applying a snapshot''))
       else
     and_then (now_ms clock) (\<lambda>updated_at_ms.
     and_then (client_to_i64 ''snapshot_cursor'' (sn_at_seq snap)) (\<lambda>at_seq.
     and_then (client_sql ''snapshot_meta_apply'' (insert_row (\<lambda>_ _. True) meta_check (\<lambda>_. True)
       \<lparr>mt_tenant_id = sc_tenant_id (sn_scope snap), mt_project_id = sc_project_id (sn_scope snap),
        mt_project_epoch = sn_project_epoch snap, mt_actor_id = Some (pi_actor_id identity),
        mt_after_seq = at_seq, mt_updated_at_ms = updated_at_ms\<rparr> (rp_meta tx))) (\<lambda>meta.
       apply_resources (tx\<lparr>rp_meta := meta\<rparr>)
         (map (\<lambda>r. (r, sn_at_seq snap)) (sn_resources snap))))))"

definition apply_snapshot ::
  "int \<Rightarrow> project_snapshot \<Rightarrow> project_identity \<Rightarrow> replica_db \<Rightarrow> replica_db \<times> unit client_result" where
  "apply_snapshot clock snap identity db =
     try_ok db (validate_snapshot snap) (\<lambda>_.
       if sn_scope snap \<noteq> identity_scope identity then
         (db, Inl (ScopeMismatch (identity_scope identity) (sn_scope snap)))
       else if sn_project_epoch snap \<noteq> pi_project_epoch identity then
         (db, Inl (EpochMismatch (pi_project_epoch identity) (sn_project_epoch snap)))
       else in_transaction db (snapshot_tx clock snap identity db))"

definition batch_tx :: "int \<Rightarrow> materialized_batch \<Rightarrow> replica_db \<Rightarrow> replica_db client_result" where
  "batch_tx clock b tx =
     and_then (load_meta tx) (\<lambda>found.
     and_then (ok_or (Protocol (Text ''replica must be prepared before applying changes'')) found)
       (\<lambda>meta.
       if rm_scope meta \<noteq> mb_scope b then Inl (ScopeMismatch (rm_scope meta) (mb_scope b))
       else if rm_project_epoch meta \<noteq> cu_project_epoch (mb_cursor b) then
         Inl (EpochMismatch (rm_project_epoch meta) (cu_project_epoch (mb_cursor b)))
       else if rm_after_seq meta \<noteq> cu_after_seq (mb_cursor b) then
         Inl (CursorMismatch (rm_after_seq meta) (cu_after_seq (mb_cursor b)))
       else
     and_then (apply_resources tx (map (\<lambda>e. (mz_resource e, ce_seq (mz_change e))) (mb_entries b)))
       (\<lambda>tx.
     and_then (client_to_i64 ''cursor'' (cu_after_seq (mb_next_cursor b))) (\<lambda>after_seq.
     and_then (now_ms clock) (\<lambda>now.
     and_then (client_sql ''cursor_advance'' (update_rows meta_check (\<lambda>_. True)
         (\<lambda>row. row\<lparr>mt_after_seq := after_seq, mt_updated_at_ms := now\<rparr>) (rp_meta tx)))
       (\<lambda>(rows, _). Inr (tx\<lparr>rp_meta := rows\<rparr>)))))))"

definition apply_materialized_batch ::
  "int \<Rightarrow> materialized_batch \<Rightarrow> replica_db \<Rightarrow> replica_db \<times> unit client_result" where
  "apply_materialized_batch clock b db =
     try_ok db (validate_materialized_batch b) (\<lambda>_. in_transaction db (batch_tx clock b db))"

definition replica_resource :: "replica_db \<Rightarrow> resource_ref \<Rightarrow> canonical_resource option client_result" where
  "replica_resource db ref =
     and_then (load_meta db) (\<lambda>found.
       case found of
         None \<Rightarrow> Inr None
       | Some meta \<Rightarrow>
           map_transpose (\<lambda>x. decode_replica_resource (rm_scope meta) ref (rx_revision x)
               (rx_deleted x) (rx_body x))
             (select_first (\<lambda>x. rx_ref x = ref) (rp_resources db)))"

record replica_status =
  su_initialized :: bool
  su_scope :: "project_scope option"
  su_project_epoch :: "project_epoch option"
  su_actor_id :: "actor_id option"
  su_after_seq :: project_sequence
  su_resource_count :: u64
  su_tombstone_count :: u64
  su_updated_at_ms :: "i64 option"

definition status_of :: "replica_db \<Rightarrow> replica_status client_result" where
  "status_of db =
     and_then (load_meta db) (\<lambda>meta.
     let live = select_count (\<lambda>x. rx_deleted x = 0) (rp_resources db);
         dead = select_count (\<lambda>x. rx_deleted x = 1) (rp_resources db) in
     and_then (client_from_i64 ''resource_count'' live) (\<lambda>live.
     and_then (client_from_i64 ''tombstone_count'' dead) (\<lambda>dead.
       Inr \<lparr>su_initialized = (meta \<noteq> None), su_scope = map_option rm_scope meta,
            su_project_epoch = map_option rm_project_epoch meta,
            su_actor_id = Option.bind meta rm_actor_id,
            su_after_seq = (case meta of None \<Rightarrow> 0 | Some m \<Rightarrow> rm_after_seq m),
            su_resource_count = live, su_tombstone_count = dead,
            su_updated_at_ms = map_option rm_updated_at_ms meta\<rparr>)))"

definition replica_reset :: "replica_db \<Rightarrow> replica_db \<times> unit client_result" where
  "replica_reset db = (db\<lparr>rp_resources := [], rp_meta := []\<rparr>, Inr ())"

section \<open>The typed HTTP client\<close>

text \<open>
  \<open>get_json\<close> per response type, on the world \<open>'w\<close> the client lives in, with the system clock. Requests
  are values; the project is the profile's.
\<close>

record 'w transport =
  tp_identity :: "project_id \<Rightarrow> 'w \<Rightarrow> 'w \<times> project_identity client_result"
  tp_materialized :: "project_id \<Rightarrow> change_cursor \<Rightarrow> nat \<Rightarrow> 'w
    \<Rightarrow> 'w \<times> materialized_batch_response client_result"
  tp_snapshot :: "project_id \<Rightarrow> 'w \<Rightarrow> 'w \<times> snapshot_response client_result"
  tp_resource :: "project_id \<Rightarrow> resource_ref \<Rightarrow> 'w \<Rightarrow> 'w \<times> resource_response client_result"
  tp_clock :: "'w \<Rightarrow> int"

definition resource_of_wire :: "codec \<Rightarrow> resource_response \<Rightarrow> canonical_resource client_result" where
  "resource_of_wire cod r =
     Inr \<lparr>cr_scope = rr_scope r, cr_resource = rr_resource r, cr_revision = rr_revision r,
          cr_state = (case rr_state r of
              ResponsePresent body \<Rightarrow> Present (cd_to_vec cod body)
            | ResponseDeleted \<Rightarrow> Deleted)\<rparr>"

definition batch_of_wire :: "codec \<Rightarrow> materialized_batch_response \<Rightarrow> materialized_batch client_result" where
  "batch_of_wire cod b =
     and_then (collect_results (\<lambda>e. and_then (resource_of_wire cod (mr_resource e)) (\<lambda>r.
         Inr \<lparr>mz_change = mr_change e, mz_resource = r\<rparr>)) (br_entries b)) (\<lambda>entries.
       in_domain (materialized_batch_projected (br_scope b) (br_cursor b) entries
         (br_next_cursor b) (br_has_more b)))"

definition snapshot_of_wire :: "codec \<Rightarrow> snapshot_response \<Rightarrow> project_snapshot client_result" where
  "snapshot_of_wire cod s =
     and_then (collect_results (resource_of_wire cod) (sr_resources s)) (\<lambda>resources.
       in_domain (snapshot_new (sr_scope s) (sr_project_epoch s) (sr_at_seq s) resources))"

definition bad_limit :: "nat \<Rightarrow> unit client_result" where
  "bad_limit limit =
    (if limit = 0 \<or> limit > CLIENT_CHANGE_LIMIT then Inl (Protocol (Text
       (''change limit must be between 1 and '' @ nat_text CLIENT_CHANGE_LIMIT))) else Inr ())"

definition client_materialized_changes ::
  "codec \<Rightarrow> 'w transport \<Rightarrow> project_id \<Rightarrow> change_cursor \<Rightarrow> nat \<Rightarrow> 'w
    \<Rightarrow> 'w \<times> materialized_batch client_result" where
  "client_materialized_changes cod tp pid cursor limit w =
     try_ok w (bad_limit limit) (\<lambda>_.
     try_do (tp_materialized tp pid cursor limit w) (\<lambda>w wire.
     try_ok w (batch_of_wire cod wire) (\<lambda>batch.
     try_ok w (validate_materialized_batch batch) (\<lambda>_. (w, Inr batch)))))"

definition client_snapshot ::
  "codec \<Rightarrow> 'w transport \<Rightarrow> project_id \<Rightarrow> 'w \<Rightarrow> 'w \<times> project_snapshot client_result" where
  "client_snapshot cod tp pid w =
     try_do (tp_snapshot tp pid w) (\<lambda>w wire.
     try_ok w (snapshot_of_wire cod wire) (\<lambda>snap.
     try_ok w (validate_snapshot snap) (\<lambda>_. (w, Inr snap))))"

definition client_resource ::
  "codec \<Rightarrow> 'w transport \<Rightarrow> project_id \<Rightarrow> resource_ref \<Rightarrow> 'w \<Rightarrow> 'w \<times> canonical_resource client_result" where
  "client_resource cod tp pid ref w =
     try_do (tp_resource tp pid ref w) (\<lambda>w wire. (w, resource_of_wire cod wire))"

section \<open>Pulling\<close>

text \<open>The state of a pull is the client's world and the replica file.\<close>

definition on_world ::
  "('w \<Rightarrow> 'w \<times> 'a client_result) \<Rightarrow> 'w \<times> replica_db \<Rightarrow> ('w \<times> replica_db) \<times> 'a client_result" where
  "on_world f s = (let (w, r) = f (fst s) in ((w, snd s), r))"

definition on_replica ::
  "(replica_db \<Rightarrow> replica_db \<times> 'a client_result) \<Rightarrow> 'w \<times> replica_db
    \<Rightarrow> ('w \<times> replica_db) \<times> 'a client_result" where
  "on_replica f s = (let (db, r) = f (snd s) in ((fst s, db), r))"

text \<open>The body of the loop: one batch, fetched from the durable cursor and applied.\<close>

definition pull_batch ::
  "codec \<Rightarrow> 'w transport \<Rightarrow> project_id \<Rightarrow> project_identity \<Rightarrow> nat \<Rightarrow> 'w \<times> replica_db
    \<Rightarrow> ('w \<times> replica_db) \<times> materialized_batch client_result" where
  "pull_batch cod tp pid identity limit s =
     try_ok s (and_then (replica_cursor (snd s))
       (ok_or (Protocol (Text ''prepared replica omitted its cursor'')))) (\<lambda>cursor.
     try_do (on_world (client_materialized_changes cod tp pid cursor limit) s) (\<lambda>s batch.
       if mb_scope batch \<noteq> identity_scope identity then
         (s, Inl (ScopeMismatch (identity_scope identity) (mb_scope batch)))
       else
     try_do (on_replica (apply_materialized_batch (tp_clock tp (fst s)) batch) s) (\<lambda>s _.
       (s, Inr batch))))"

function pull_loop ::
  "codec \<Rightarrow> 'w transport \<Rightarrow> project_id \<Rightarrow> project_identity \<Rightarrow> nat \<Rightarrow> nat \<Rightarrow> nat \<Rightarrow> 'w \<times> replica_db
    \<Rightarrow> ('w \<times> replica_db) \<times> (nat \<times> nat) client_result" where
  "pull_loop cod tp pid identity limit batches consumed s =
    (if batches \<ge> MAX_PULL_BATCHES then (s, Inl (Protocol (Text (''pull exceeded '' @
       nat_text MAX_PULL_BATCHES @ '' batches without reaching the current head''))))
     else try_do (pull_batch cod tp pid identity limit s) (\<lambda>s batch.
       if mb_has_more batch then pull_loop cod tp pid identity limit (Suc batches)
         (consumed + length (mb_entries batch)) s
       else (s, Inr (Suc batches, consumed + length (mb_entries batch)))))"
  by pat_completeness auto

termination
  by (relation "measure (\<lambda>(_, _, _, _, _, batches, _, _). MAX_PULL_BATCHES - batches)") auto

declare pull_loop.simps [simp del]

record pull_report =
  pu_bootstrapped :: bool
  pu_batches :: nat
  pu_changes :: nat
  pu_after_seq :: project_sequence
  pu_identity :: project_identity
  pu_resource_count :: u64
  pu_tombstone_count :: u64

definition pull_bootstrap ::
  "codec \<Rightarrow> 'w transport \<Rightarrow> project_id \<Rightarrow> project_identity \<Rightarrow> 'w \<times> replica_db
    \<Rightarrow> ('w \<times> replica_db) \<times> unit client_result" where
  "pull_bootstrap cod tp pid identity s =
     try_do (on_world (client_snapshot cod tp pid) s) (\<lambda>s snap.
       if sn_scope snap \<noteq> identity_scope identity then
         (s, Inl (ScopeMismatch (identity_scope identity) (sn_scope snap)))
       else if sn_project_epoch snap \<noteq> pi_project_epoch identity then
         (s, Inl (EpochMismatch (pi_project_epoch identity) (sn_project_epoch snap)))
       else on_replica (apply_snapshot (tp_clock tp (fst s)) snap identity) s)"

definition pull_to_current ::
  "codec \<Rightarrow> 'w transport \<Rightarrow> project_id \<Rightarrow> nat \<Rightarrow> 'w \<times> replica_db
    \<Rightarrow> ('w \<times> replica_db) \<times> pull_report client_result" where
  "pull_to_current cod tp pid limit s =
     try_ok s (bad_limit limit) (\<lambda>_.
     try_do (on_world (tp_identity tp pid) s) (\<lambda>s identity.
     try_ok s (verify_identity (snd s) identity) (\<lambda>bootstrapped.
     try_do (if bootstrapped then pull_bootstrap cod tp pid identity s else (s, Inr ())) (\<lambda>s _.
     try_do (pull_loop cod tp pid identity limit 0 0 s) (\<lambda>s (batches, consumed).
     try_ok s (status_of (snd s)) (\<lambda>status.
       (s, Inr \<lparr>pu_bootstrapped = bootstrapped, pu_batches = batches, pu_changes = consumed,
          pu_after_seq = su_after_seq status, pu_identity = identity,
          pu_resource_count = su_resource_count status,
          pu_tombstone_count = su_tombstone_count status\<rparr>)))))))"

end
