(* ===== verification/Replica_Log.thy ===== *)
theory Replica_Log
  imports Replica_Store Feed_Properties
begin

text \<open>
  The replica file as the state a prefix of the project's log determines, restricted to the entries
  its actor may see; snapshots and change batches move it from prefix to prefix.
\<close>

section \<open>Contents of the file\<close>

definition row_cell :: "replica_row \<Rightarrow> i64 \<times> i64 \<times> bytes option" where
  "row_cell x = (rx_revision x, rx_deleted x, rx_body x)"

definition resource_cell :: "canonical_resource \<Rightarrow> i64 \<times> i64 \<times> bytes option" where
  "resource_cell r = (uint (cr_revision r),
     case cr_state r of Present b \<Rightarrow> (0, Some b) | Deleted \<Rightarrow> (1, None))"

definition replica_view :: "replica_db \<Rightarrow> resource_ref \<Rightarrow> (i64 \<times> i64 \<times> bytes option) option" where
  "replica_view db ref = map_option row_cell (find (\<lambda>x. rx_ref x = ref) (rp_resources db))"

definition log_view ::
  "(log_entry \<Rightarrow> bool) \<Rightarrow> project_scope \<Rightarrow> log_entry list \<Rightarrow> resource_ref
    \<Rightarrow> (i64 \<times> i64 \<times> bytes option) option" where
  "log_view vis scope log ref =
     map_option (\<lambda>e. resource_cell (entry_resource scope e)) (last_entry (filter vis log) ref)"

text \<open>The file holds exactly what the visible entries of \<open>log\<close> say, and its cursor is at the end.\<close>

definition replica_at ::
  "(log_entry \<Rightarrow> bool) \<Rightarrow> project_scope \<Rightarrow> project_epoch \<Rightarrow> actor_id \<Rightarrow> log_entry list \<Rightarrow> replica_db
    \<Rightarrow> bool" where
  "replica_at vis scope epoch actor log db \<longleftrightarrow>
     (\<exists>t. rp_meta db = [\<lparr>mt_tenant_id = sc_tenant_id scope, mt_project_id = sc_project_id scope,
        mt_project_epoch = epoch, mt_actor_id = Some actor, mt_after_seq = int (length log),
        mt_updated_at_ms = t\<rparr>]) \<and>
     replica_view db = log_view vis scope log"

lemma replica_view_meta [simp]: "replica_view (db\<lparr>rp_meta := m\<rparr>) = replica_view db"
  by (simp add: replica_view_def fun_eq_iff)

lemma client_to_i64_ok: "uint v \<le> i64_max \<Longrightarrow> client_to_i64 field v = Inr (uint v)"
  by (simp add: client_to_i64_def u64_try_i64_def)

lemma client_from_i64_uint: "client_from_i64 field (uint (v :: u64)) = Inr v"
  by (simp add: client_from_i64_def i64_try_u64_def)

section \<open>Applying resources\<close>

lemma apply_resource_newer:
  assumes "rev_ok (cr_revision r)" "uint (cr_revision r) \<le> i64_max" "uint observed \<le> i64_max"
    and "\<And>v d b. replica_view db (cr_resource r) = Some (v, d, b) \<Longrightarrow> v < uint (cr_revision r)"
  obtains rows where "apply_resource db r observed = Inr (db\<lparr>rp_resources := rows\<rparr>)"
    "replica_view (db\<lparr>rp_resources := rows\<rparr>) = (replica_view db)(cr_resource r \<mapsto> resource_cell r)"
proof -
  define row where "row = \<lparr>rx_kind = rf_kind (cr_resource r), rx_id = rf_id (cr_resource r),
    rx_revision = uint (cr_revision r), rx_deleted = fst (snd (resource_cell r)),
    rx_body = snd (snd (resource_cell r)), rx_observed_after_seq = uint observed\<rparr>"
  have ref: "rx_ref row = cr_resource r" by (simp add: row_def rx_ref_def)
  have cell: "row_cell row = resource_cell r"
    by (simp add: row_def row_cell_def resource_cell_def)
  have "0 < uint (cr_revision r)" using assms(1) by (simp add: rev_ok_uint)
  then have "replica_check row"
    by (auto simp: replica_check_def row_def resource_cell_def split: resource_state.splits)
  then obtain rows where rows: "upsert_row rx_ref replica_check (\<lambda>_. True) row (rp_resources db) = Some rows"
    using upsert_succeeds by metis
  have view: "replica_view (db\<lparr>rp_resources := rows\<rparr>) = (replica_view db)(cr_resource r \<mapsto> resource_cell r)"
    by (auto simp: replica_view_def find_upsert [OF rows] ref cell fun_eq_iff)
  have lower: "rx_revision x < uint (cr_revision r)"
    if "find (\<lambda>x. rx_ref x = cr_resource r) (rp_resources db) = Some x" for x
    using assms(4) that by (simp add: replica_view_def row_cell_def)
  have "apply_resource db r observed = Inr (db\<lparr>rp_resources := rows\<rparr>)"
    using rows lower unfolding row_def resource_cell_def
    by (auto simp: apply_resource_def client_to_i64_ok assms(2,3) client_sql_def Let_def
        split: option.splits resource_state.splits dest: order.strict_implies_not_eq)
  then show thesis using view by (rule that)
qed

lemma log_ok_prefix: "log_ok dec scope (pre @ ext) \<Longrightarrow> log_ok dec scope pre"
proof (induction ext rule: rev_induct)
  case (snoc e ext)
  then have "log_ok dec scope ((pre @ ext) @ [e])" by simp
  then show ?case using snoc.IH by (simp only: log_ok_snoc)
qed simp

lemma revision_le_count:
  "log_ok dec scope log \<Longrightarrow> x \<in> set log \<Longrightarrow>
     unat (cp_revision (le_receipt x)) \<le> prior_count log (le_ref x)"
  by (induction log rule: rev_induct) (auto simp: log_ok_snoc prior_count_snoc)

lemma next_entry_fits:
  assumes "log_ok dec scope (pre @ [e])"
  shows "rev_ok (cp_revision (le_receipt e))" "uint (cp_revision (le_receipt e)) \<le> i64_max"
    "uint (cp_project_seq (le_receipt e)) \<le> i64_max"
    "x \<in> set pre \<Longrightarrow> le_ref x = le_ref e \<Longrightarrow>
      uint (cp_revision (le_receipt x)) < uint (cp_revision (le_receipt e))"
proof -
  have pre: "log_ok dec scope pre" and bound: "int (length pre) < i64_max"
    and e: "entry_ok dec scope e" "unat (cp_project_seq (le_receipt e)) = length pre + 1"
      "unat (cp_revision (le_receipt e)) = prior_count pre (le_ref e) + 1"
    using assms by (simp_all add: log_ok_snoc)
  show "rev_ok (cp_revision (le_receipt e))" using entry_okD(8) [OF e(1)] .
  show "uint (cp_revision (le_receipt e)) \<le> i64_max"
    using e(3) bound prior_count_le [of pre "le_ref e"] by (simp add: uint_nat)
  show "uint (cp_project_seq (le_receipt e)) \<le> i64_max" using e(2) bound by (simp add: uint_nat)
  assume "x \<in> set pre" "le_ref x = le_ref e"
  then have "unat (cp_revision (le_receipt x)) < unat (cp_revision (le_receipt e))"
    using revision_le_count [OF pre, of x] e(3) by simp
  then show "uint (cp_revision (le_receipt x)) < uint (cp_revision (le_receipt e))"
    by (simp only: uint_nat of_nat_less_iff)
qed

lemma entry_resource_simps [simp]:
  "cr_resource (entry_resource scope e) = le_ref e"
  "cr_revision (entry_resource scope e) = cp_revision (le_receipt e)"
  "cr_scope (entry_resource scope e) = scope"
  by (simp_all add: entry_resource_def)

lemma log_view_snoc:
  "log_view vis scope (log @ [e]) =
    (if vis e then (log_view vis scope log)(le_ref e \<mapsto> resource_cell (entry_resource scope e))
     else log_view vis scope log)"
  by (auto simp: log_view_def fun_eq_iff)

text \<open>The visible entries of an extension of the log, applied in order.\<close>

lemma apply_log_entries:
  assumes "log_ok dec scope (pre @ ext)" "replica_view db = log_view vis scope pre"
  shows "\<exists>rows. apply_resources db (map (\<lambda>e. (entry_resource scope e, cp_project_seq (le_receipt e)))
      (filter vis ext)) = Inr (db\<lparr>rp_resources := rows\<rparr>) \<and>
    replica_view (db\<lparr>rp_resources := rows\<rparr>) = log_view vis scope (pre @ ext)"
  using assms
proof (induction ext arbitrary: pre db)
  case Nil
  then show ?case by (intro exI [of _ "rp_resources db"]) simp
next
  case (Cons e ext)
  have ok: "log_ok dec scope ((pre @ [e]) @ ext)" using Cons.prems(1) by simp
  note fits = next_entry_fits [OF log_ok_prefix [OF ok]]
  show ?case
  proof (cases "vis e")
    case True
    have "v < uint (cr_revision (entry_resource scope e))"
      if "replica_view db (cr_resource (entry_resource scope e)) = Some (v, d, b)" for v d b
    proof -
      obtain x where "last_entry (filter vis pre) (le_ref e) = Some x"
        "v = uint (cp_revision (le_receipt x))"
        using \<open>replica_view db (cr_resource (entry_resource scope e)) = Some (v, d, b)\<close> Cons.prems(2)
        by (auto simp: log_view_def resource_cell_def)
      then show ?thesis using last_entry_Some [of "filter vis pre" "le_ref e" x] fits(4) [of x] by simp
    qed
    then obtain rows where rows: "apply_resource db (entry_resource scope e)
        (cp_project_seq (le_receipt e)) = Inr (db\<lparr>rp_resources := rows\<rparr>)"
      "replica_view (db\<lparr>rp_resources := rows\<rparr>) =
        (replica_view db)(le_ref e \<mapsto> resource_cell (entry_resource scope e))"
      using apply_resource_newer [of "entry_resource scope e" "cp_project_seq (le_receipt e)" db thesis]
        fits(1-3) unfolding entry_resource_simps by blast
    have "replica_view (db\<lparr>rp_resources := rows\<rparr>) = log_view vis scope (pre @ [e])"
      using rows(2) Cons.prems(2) True by (simp add: log_view_snoc)
    from Cons.IH [OF ok this] show ?thesis using rows(1) True by simp
  next
    case False
    then have "replica_view db = log_view vis scope (pre @ [e])"
      using Cons.prems(2) by (simp add: log_view_snoc)
    from Cons.IH [OF ok this] show ?thesis using False by simp
  qed
qed

text \<open>The resources of a snapshot, applied to an empty table.\<close>

lemma apply_distinct_resources:
  assumes "distinct (map cr_resource rs)" "uint observed \<le> i64_max"
    and "\<forall>r\<in>set rs. rev_ok (cr_revision r) \<and> uint (cr_revision r) \<le> i64_max \<and>
      replica_view db (cr_resource r) = None"
  shows "\<exists>rows. apply_resources db (map (\<lambda>r. (r, observed)) rs) = Inr (db\<lparr>rp_resources := rows\<rparr>) \<and>
    replica_view (db\<lparr>rp_resources := rows\<rparr>) = (\<lambda>ref. case find (\<lambda>r. cr_resource r = ref) rs of
      None \<Rightarrow> replica_view db ref | Some r \<Rightarrow> Some (resource_cell r))"
  using assms(1,3)
proof (induction rs arbitrary: db)
  case Nil
  then show ?case by (intro exI [of _ "rp_resources db"]) simp
next
  case (Cons r rs)
  obtain rows where rows: "apply_resource db r observed = Inr (db\<lparr>rp_resources := rows\<rparr>)"
    "replica_view (db\<lparr>rp_resources := rows\<rparr>) = (replica_view db)(cr_resource r \<mapsto> resource_cell r)"
    using apply_resource_newer [of r observed db] Cons.prems(2) assms(2) by auto
  have "\<forall>x\<in>set rs. rev_ok (cr_revision x) \<and> uint (cr_revision x) \<le> i64_max \<and>
      replica_view (db\<lparr>rp_resources := rows\<rparr>) (cr_resource x) = None"
    using Cons.prems rows(2) by (metis distinct.simps(2) fun_upd_apply image_eqI list.map(2)
        list.set_map list.set_intros(2))
  moreover have none: "find (\<lambda>x. cr_resource x = cr_resource r) rs = None"
    using Cons.prems(1) by (auto simp: find_None_set image_iff)
  ultimately obtain rows' where rows': "apply_resources (db\<lparr>rp_resources := rows\<rparr>)
      (map (\<lambda>r. (r, observed)) rs) = Inr (db\<lparr>rp_resources := rows'\<rparr>)"
    "replica_view (db\<lparr>rp_resources := rows'\<rparr>) = (\<lambda>ref. case find (\<lambda>r. cr_resource r = ref) rs of
      None \<Rightarrow> replica_view (db\<lparr>rp_resources := rows\<rparr>) ref | Some r \<Rightarrow> Some (resource_cell r))"
    using Cons.IH [of "db\<lparr>rp_resources := rows\<rparr>"] Cons.prems(1) by auto
  then show ?case
    using rows none by (intro exI [of _ rows']) (auto simp: fun_eq_iff split: option.splits)
qed

section \<open>Reading and moving\<close>

lemma load_meta_at:
  assumes "replica_at vis scope epoch actor log db" "id_ok (sc_tenant_id scope)"
    and "id_ok (sc_project_id scope)" "id_ok epoch" "id_ok actor" "int (length log) \<le> i64_max"
  obtains t where "load_meta db = Inr (Some \<lparr>rm_scope = scope, rm_project_epoch = epoch,
    rm_actor_id = Some actor, rm_after_seq = of_nat (length log), rm_updated_at_ms = t\<rparr>)"
proof -
  have "0 \<le> int (length log)" by simp
  then show thesis
    using assms that by (auto simp: replica_at_def load_meta_def decode_meta_def client_from_i64_def
        i64_try_u64_def)
qed

text \<open>An offline read answers with the last visible entry of the consumed log.\<close>

lemma replica_resource_at:
  assumes "replica_at vis scope epoch actor log db" "log_ok dec scope log"
    and "id_ok (sc_tenant_id scope)" "id_ok (sc_project_id scope)" "id_ok epoch" "id_ok actor"
  shows "replica_resource db ref =
    Inr (map_option (entry_resource scope) (last_entry (filter vis log) ref))"
proof -
  have "int (length log) \<le> i64_max" using assms(2) by (simp add: log_ok_def)
  then obtain t where meta: "load_meta db = Inr (Some \<lparr>rm_scope = scope, rm_project_epoch = epoch,
      rm_actor_id = Some actor, rm_after_seq = of_nat (length log), rm_updated_at_ms = t\<rparr>)"
    using load_meta_at [OF assms(1,3-6)] by blast
  have view: "replica_view db ref = log_view vis scope log ref"
    using assms(1) by (simp add: replica_at_def)
  show ?thesis
  proof (cases "last_entry (filter vis log) ref")
    case None
    then show ?thesis using meta view by (simp add: replica_resource_def replica_view_def log_view_def)
  next
    case (Some e)
    have e: "e \<in> set log" "le_ref e = ref" using last_entry_Some [OF Some] by auto
    then have "entry_ok dec scope e" using assms(2) by (simp add: log_ok_def)
    then have "rev_ok (cp_revision (le_receipt e))" by (rule entry_okD(8))
    moreover obtain x where "find (\<lambda>x. rx_ref x = ref) (rp_resources db) = Some x"
      "row_cell x = resource_cell (entry_resource scope e)"
      using view Some by (auto simp: replica_view_def log_view_def)
    ultimately show ?thesis
      using meta Some e(2)
      by (cases "cr_state (entry_resource scope e)")
        (auto simp: replica_resource_def row_cell_def resource_cell_def decode_replica_resource_def
          client_from_i64_uint entry_resource_def result_iffs)
  qed
qed

text \<open>A change batch cut from the log moves the file to the end of the cut, or leaves it alone.\<close>

definition log_batch ::
  "(log_entry \<Rightarrow> bool) \<Rightarrow> project_scope \<Rightarrow> project_epoch \<Rightarrow> log_entry list \<Rightarrow> log_entry list \<Rightarrow> bool
    \<Rightarrow> materialized_batch" where
  "log_batch vis scope epoch pre ext more_follow =
     \<lparr>mb_scope = scope, mb_cursor = \<lparr>cu_project_epoch = epoch, cu_after_seq = of_nat (length pre)\<rparr>,
      mb_entries = map (entry_materialized scope epoch) (filter vis ext),
      mb_next_cursor = \<lparr>cu_project_epoch = epoch, cu_after_seq = of_nat (length (pre @ ext))\<rparr>,
      mb_has_more = more_follow\<rparr>"

lemma apply_log_batch:
  assumes "replica_at vis scope epoch actor pre db" "log_ok dec scope (pre @ ext)"
    and "id_ok (sc_tenant_id scope)" "id_ok (sc_project_id scope)" "id_ok epoch" "id_ok actor"
    and "apply_materialized_batch clock (log_batch vis scope epoch pre ext more_follow) db = (db', r)"
  shows "case r of Inl _ \<Rightarrow> db' = db | Inr _ \<Rightarrow> replica_at vis scope epoch actor (pre @ ext) db'"
    and "0 \<le> clock \<Longrightarrow> clock \<le> i64_max \<Longrightarrow>
      validate_materialized_batch (log_batch vis scope epoch pre ext more_follow) = Inr () \<Longrightarrow> r = Inr ()"
proof -
  let ?b = "log_batch vis scope epoch pre ext more_follow"
  have bound: "int (length (pre @ ext)) \<le> i64_max" using assms(2) by (simp add: log_ok_def)
  then have "int (length pre) \<le> i64_max" by simp
  then obtain t where meta: "load_meta db = Inr (Some \<lparr>rm_scope = scope, rm_project_epoch = epoch,
      rm_actor_id = Some actor, rm_after_seq = of_nat (length pre), rm_updated_at_ms = t\<rparr>)"
    using load_meta_at [OF assms(1,3-6)] by blast
  obtain rows where rows: "apply_resources db (map (\<lambda>e. (mz_resource e, ce_seq (mz_change e)))
      (mb_entries ?b)) = Inr (db\<lparr>rp_resources := rows\<rparr>)"
    "replica_view (db\<lparr>rp_resources := rows\<rparr>) = log_view vis scope (pre @ ext)"
    using apply_log_entries [OF assms(2), of db vis] assms(1)
    by (auto simp: replica_at_def log_batch_def entry_materialized_def entry_change_def o_def)
  obtain t0 where row: "rp_meta db = [\<lparr>mt_tenant_id = sc_tenant_id scope,
      mt_project_id = sc_project_id scope, mt_project_epoch = epoch, mt_actor_id = Some actor,
      mt_after_seq = int (length pre), mt_updated_at_ms = t0\<rparr>]"
    using assms(1) by (auto simp: replica_at_def)
  have "unat (of_nat (length (pre @ ext)) :: u64) = length (pre @ ext)"
    using bound by (rule unat_of_nat_i64)
  then have seq: "client_to_i64 field (of_nat (length (pre @ ext))) = Inr (int (length (pre @ ext)))"
    for field
    using bound client_to_i64_ok [of "of_nat (length (pre @ ext))" field] by (simp add: uint_nat)
  define db1 where "db1 = (\<lambda>now. db\<lparr>rp_resources := rows,
    rp_meta := [\<lparr>mt_tenant_id = sc_tenant_id scope, mt_project_id = sc_project_id scope,
      mt_project_epoch = epoch, mt_actor_id = Some actor, mt_after_seq = int (length (pre @ ext)),
      mt_updated_at_ms = now\<rparr>]\<rparr>)"
  have tx: "batch_tx clock ?b db = and_then (now_ms clock) (\<lambda>now. Inr (db1 now))"
    using meta rows(1) seq row
    by (simp add: batch_tx_def log_batch_def ok_or_def client_sql_def update_rows_def meta_check_def
        db1_def del: of_nat_add length_append)
  have at: "replica_at vis scope epoch actor (pre @ ext) (db1 now)" for now
    using rows(2) by (simp add: replica_at_def db1_def replica_view_def)
  show "case r of Inl _ \<Rightarrow> db' = db | Inr _ \<Rightarrow> replica_at vis scope epoch actor (pre @ ext) db'"
    using assms(7) tx at unfolding apply_materialized_batch_def in_transaction_def
    by (cases "validate_materialized_batch ?b"; cases "now_ms clock") (auto split: sum.splits)
  assume "0 \<le> clock" "clock \<le> i64_max" "validate_materialized_batch ?b = Inr ()"
  then show "r = Inr ()"
    using assms(7) tx unfolding apply_materialized_batch_def in_transaction_def by (auto simp: now_ms_def)
qed

section \<open>Snapshots\<close>

text \<open>Whether an entry is visible depends on its resource only.\<close>

definition vis_stable :: "(log_entry \<Rightarrow> bool) \<Rightarrow> log_entry list \<Rightarrow> bool" where
  "vis_stable vis log \<longleftrightarrow> (\<forall>x\<in>set log. \<forall>y\<in>set log. le_ref x = le_ref y \<longrightarrow> vis x = vis y)"

lemma stable_last_entry:
  assumes "vis_stable vis log"
  shows "last_entry (filter vis log) ref =
    (case last_entry log ref of None \<Rightarrow> None | Some e \<Rightarrow> if vis e then Some e else None)"
  using assms
proof (induction log rule: rev_induct)
  case (snoc e log)
  have "vis_stable vis log" using snoc.prems unfolding vis_stable_def set_append by blast
  note IH = snoc.IH [OF this]
  show ?case
  proof (cases "le_ref e = ref \<and> \<not> vis e")
    case True
    then have "\<not> vis x" if "x \<in> set log" "le_ref x = ref" for x
      using snoc.prems that by (auto simp: vis_stable_def)
    then have "last_entry (filter vis log) ref = None"
      by (auto simp: last_entry_None)
    then show ?thesis using True by simp
  next
    case False
    then show ?thesis using IH by (cases "le_ref e = ref") auto
  qed
qed simp

text \<open>A snapshot that shows the current state of a log to the actor.\<close>

definition shows_log ::
  "(log_entry \<Rightarrow> bool) \<Rightarrow> project_scope \<Rightarrow> project_epoch \<Rightarrow> log_entry list \<Rightarrow> project_snapshot \<Rightarrow> bool" where
  "shows_log vis scope epoch log s \<longleftrightarrow> sn_scope s = scope \<and> sn_project_epoch s = epoch \<and>
     sn_at_seq s = of_nat (length log) \<and> distinct (map cr_resource (sn_resources s)) \<and>
     set (sn_resources s) = {entry_resource scope e | e. last_entry log (le_ref e) = Some e \<and> vis e}"

definition replica_empty :: "replica_db \<Rightarrow> bool" where
  "replica_empty db \<longleftrightarrow> rp_meta db = [] \<and> rp_resources db = []"

lemma find_distinct_key:
  assumes "distinct (map key rs)"
  shows "find (\<lambda>r. key r = k) rs = Some x \<longleftrightarrow> x \<in> set rs \<and> key x = k"
proof
  assume "x \<in> set rs \<and> key x = k"
  then show "find (\<lambda>r. key r = k) rs = Some x"
    using find_key_unique [OF assms, of x] by auto
qed (auto dest: find_Some_set)

lemma shown_view:
  assumes "shows_log vis scope epoch log s" "vis_stable vis log"
  shows "(case find (\<lambda>r. cr_resource r = ref) (sn_resources s) of None \<Rightarrow> None
      | Some r \<Rightarrow> Some (resource_cell r)) = log_view vis scope log ref"
proof -
  note keys = find_distinct_key [of cr_resource "sn_resources s" ref]
  have distinct: "distinct (map cr_resource (sn_resources s))"
    and set: "set (sn_resources s) = {entry_resource scope e | e. last_entry log (le_ref e) = Some e \<and> vis e}"
    using assms(1) by (simp_all add: shows_log_def)
  show ?thesis
  proof (cases "last_entry (filter vis log) ref")
    case None
    have "cr_resource r \<noteq> ref" if "r \<in> set (sn_resources s)" for r
      using that None set by (auto simp: stable_last_entry [OF assms(2)])
    then have "find (\<lambda>r. cr_resource r = ref) (sn_resources s) = None"
      by (auto simp: find_None_set)
    then show ?thesis using None by (simp add: log_view_def)
  next
    case (Some e)
    then have "last_entry log ref = Some e" "vis e"
      by (auto simp: stable_last_entry [OF assms(2)] split: option.splits if_splits)
    moreover from this have "le_ref e = ref" using last_entry_Some by blast
    ultimately have "find (\<lambda>r. cr_resource r = ref) (sn_resources s) = Some (entry_resource scope e)"
      using keys [OF distinct] set by auto
    then show ?thesis using Some by (simp add: log_view_def)
  qed
qed

lemma apply_shown_snapshot:
  assumes "replica_empty db" "shows_log vis scope epoch log s" "vis_stable vis log"
    and "log_ok dec scope log" "identity_scope i = scope" "pi_project_epoch i = epoch"
    and "apply_snapshot clock s i db = (db', r)"
  shows "case r of Inl _ \<Rightarrow> db' = db | Inr _ \<Rightarrow> replica_at vis scope epoch (pi_actor_id i) log db'"
    and "0 \<le> clock \<Longrightarrow> clock \<le> i64_max \<Longrightarrow> validate_snapshot s = Inr () \<Longrightarrow> r = Inr ()"
proof -
  have s: "sn_scope s = scope" "sn_project_epoch s = epoch" "sn_at_seq s = of_nat (length log)"
    "distinct (map cr_resource (sn_resources s))"
    using assms(2) by (simp_all add: shows_log_def)
  have bound: "int (length log) \<le> i64_max" using assms(4) by (simp add: log_ok_def)
  then have nat: "unat (of_nat (length log) :: u64) = length log" by (rule unat_of_nat_i64)
  then have seq: "client_to_i64 field (of_nat (length log)) = Inr (int (length log))" for field
    using bound client_to_i64_ok [of "of_nat (length log)" field] by (simp add: uint_nat)
  define db1 where "db1 = (\<lambda>now. db\<lparr>rp_meta := [\<lparr>mt_tenant_id = sc_tenant_id scope,
      mt_project_id = sc_project_id scope, mt_project_epoch = epoch,
      mt_actor_id = Some (pi_actor_id i), mt_after_seq = int (length log), mt_updated_at_ms = now\<rparr>]\<rparr>)"
  have rev: "rev_ok (cr_revision r) \<and> uint (cr_revision r) \<le> i64_max"
    if "r \<in> set (sn_resources s)" for r
  proof -
    obtain e where e: "r = entry_resource scope e" "last_entry log (le_ref e) = Some e"
      using \<open>r \<in> set (sn_resources s)\<close> assms(2) by (auto simp: shows_log_def)
    then have "e \<in> set log" using last_entry_Some by blast
    then have "rev_ok (cp_revision (le_receipt e))"
      using assms(4) entry_okD(8) by (auto simp: log_ok_def)
    moreover have "uint (cp_revision (le_receipt e)) \<le> i64_max"
      using revision_le_count [OF assms(4) \<open>e \<in> set log\<close>] prior_count_le [of log "le_ref e"] bound
      unfolding uint_nat by linarith
    ultimately show ?thesis by (simp add: e(1))
  qed
  have "\<exists>rows. apply_resources (db1 now) (map (\<lambda>r. (r, of_nat (length log))) (sn_resources s)) =
      Inr (db1 now\<lparr>rp_resources := rows\<rparr>) \<and>
      replica_view (db1 now\<lparr>rp_resources := rows\<rparr>) = log_view vis scope log" for now
  proof -
    have none: "replica_view (db1 now) ref = None" for ref
      using assms(1) by (simp add: db1_def replica_empty_def replica_view_def)
    have "uint (of_nat (length log) :: u64) \<le> i64_max" using nat bound by (simp add: uint_nat)
    moreover have "(\<lambda>ref. case find (\<lambda>r. cr_resource r = ref) (sn_resources s) of
        None \<Rightarrow> replica_view (db1 now) ref | Some r \<Rightarrow> Some (resource_cell r)) = log_view vis scope log"
      by (intro ext) (simp only: none shown_view [OF assms(2,3)])
    ultimately show ?thesis
      using apply_distinct_resources [OF s(4), of "of_nat (length log)" "db1 now"] rev none by simp
  qed
  then obtain rows where rows: "\<And>now. apply_resources (db1 now) (map (\<lambda>r. (r, of_nat (length log)))
      (sn_resources s)) = Inr (db1 now\<lparr>rp_resources := rows now\<rparr>)"
    "\<And>now. replica_view (db1 now\<lparr>rp_resources := rows now\<rparr>) = log_view vis scope log"
    by metis
  have tx: "snapshot_tx clock s i db = and_then (now_ms clock) (\<lambda>now. Inr (db1 now\<lparr>rp_resources := rows now\<rparr>))"
    using assms(1) s seq rows(1) [unfolded db1_def]
    by (simp add: snapshot_tx_def replica_empty_def load_meta_def client_sql_def insert_row_def
        meta_check_def db1_def)
  have at: "replica_at vis scope epoch (pi_actor_id i) log (db1 now\<lparr>rp_resources := rows now\<rparr>)" for now
    using rows(2) by (simp add: replica_at_def) (simp add: db1_def)
  show "case r of Inl _ \<Rightarrow> db' = db | Inr _ \<Rightarrow> replica_at vis scope epoch (pi_actor_id i) log db'"
    using assms(5-7) s(1,2) tx at unfolding apply_snapshot_def in_transaction_def
    by (cases "validate_snapshot s"; cases "now_ms clock") (auto split: sum.splits)
  assume "0 \<le> clock" "clock \<le> i64_max" "validate_snapshot s = Inr ()"
  then show "r = Inr ()"
    using assms(5-7) s(1,2) tx unfolding apply_snapshot_def in_transaction_def by (auto simp: now_ms_def)
qed

end
