(* ===== verification/Replica_Pull.thy ===== *)
theory Replica_Pull
  imports Replica_Log
begin

text \<open>
  Pulling from a source of feed pages: the interface the replica relies on, and what a pull does to
  the file over any source that keeps it.
\<close>

section \<open>The source\<close>

text \<open>
  \<open>at w log\<close>: in the world \<open>w\<close> the project's log is \<open>log\<close>. Between calls the log may grow; an answer
  is an error, or it describes the log at the time of the call.
\<close>

locale feed_source =
  fixes cod :: codec and tp :: "'w transport" and pid :: project_id
    and scope :: project_scope and epoch :: project_epoch and actor :: actor_id
    and vis :: "log_entry \<Rightarrow> bool" and dec :: "bytes \<Rightarrow> handoff_record option"
    and at :: "'w \<Rightarrow> log_entry list \<Rightarrow> bool"
  assumes log_good: "at w log \<Longrightarrow> log_ok dec scope log \<and> vis_stable vis log"
    and ids_good: "at w log \<Longrightarrow> id_ok (sc_tenant_id scope) \<and> id_ok (sc_project_id scope) \<and>
      id_ok epoch \<and> id_ok actor"
    and identity_answer: "at w log \<Longrightarrow> tp_identity tp pid w = (w', r) \<Longrightarrow>
      (\<exists>ext. at w' (log @ ext)) \<and> (\<forall>i. r = Inr i \<longrightarrow> identity_scope i = scope \<and>
         pi_project_epoch i = epoch \<and> pi_actor_id i = actor)"
    and snapshot_answer: "at w log \<Longrightarrow> client_snapshot cod tp pid w = (w', rs) \<Longrightarrow>
      (\<exists>ext. at w' (log @ ext)) \<and> (\<forall>s. rs = Inr s \<longrightarrow> shows_log vis scope epoch log s)"
    and batch_answer: "at w log \<Longrightarrow> cu_project_epoch cursor = epoch \<Longrightarrow>
      client_materialized_changes cod tp pid cursor limit w = (w', rb) \<Longrightarrow>
      (\<exists>ext. at w' (log @ ext)) \<and> (\<forall>b. rb = Inr b \<longrightarrow>
         b = log_batch vis scope epoch (take (unat (cu_after_seq cursor)) log)
           (take limit (drop (unat (cu_after_seq cursor)) log))
           (unat (cu_after_seq cursor) + limit < length log))"
begin

text \<open>The file at a prefix of length \<open>n\<close>.\<close>

abbreviation holds :: "log_entry list \<Rightarrow> nat \<Rightarrow> replica_db \<Rightarrow> bool" where
  "holds log n db \<equiv> n \<le> length log \<and> replica_at vis scope epoch actor (take n log) db"

lemma holds_grows: "holds log n db \<Longrightarrow> holds (log @ ext) n db"
  by simp

lemma at_bound: "at w log \<Longrightarrow> int (length log) \<le> i64_max"
  using log_good by (simp add: log_ok_def)

lemma cursor_holds:
  assumes "at w log" "holds log n db"
  shows "replica_cursor db = Inr (Some \<lparr>cu_project_epoch = epoch, cu_after_seq = of_nat n\<rparr>)"
    "unat (of_nat n :: u64) = n"
proof -
  have n: "int n \<le> i64_max" using at_bound [OF assms(1)] assms(2) by simp
  then obtain t where "load_meta db = Inr (Some \<lparr>rm_scope = scope, rm_project_epoch = epoch,
      rm_actor_id = Some actor, rm_after_seq = of_nat (length (take n log)), rm_updated_at_ms = t\<rparr>)"
    using load_meta_at [of vis scope epoch actor "take n log" db] assms(2) ids_good [OF assms(1)]
    by auto
  then show "replica_cursor db = Inr (Some \<lparr>cu_project_epoch = epoch, cu_after_seq = of_nat n\<rparr>)"
    using assms(2) by (simp add: replica_cursor_def)
  show "unat (of_nat n :: u64) = n" using n by (rule unat_of_nat_i64)
qed

lemma pull_batch_step:
  assumes "at w log" "holds log n db" "identity_scope i = scope"
    and "pull_batch cod tp pid i limit (w, db) = ((w', db'), r)"
  shows "\<exists>ext n'. at w' (log @ ext) \<and> n \<le> n' \<and> holds log n' db' \<and>
    (\<forall>b. r = Inr b \<longrightarrow> n' = min (n + limit) (length log) \<and>
       (mb_has_more b \<longleftrightarrow> n + limit < length log))"
proof -
  let ?cursor = "\<lparr>cu_project_epoch = epoch, cu_after_seq = of_nat n\<rparr>"
  note cursor = cursor_holds [OF assms(1,2)]
  obtain w1 answer where answer: "client_materialized_changes cod tp pid ?cursor limit w = (w1, answer)"
    by (cases "client_materialized_changes cod tp pid ?cursor limit w")
  from batch_answer [OF assms(1) _ answer] obtain ext where ext: "at w1 (log @ ext)"
    and batch: "\<And>b. answer = Inr b \<Longrightarrow> b = log_batch vis scope epoch (take n log)
      (take limit (drop n log)) (n + limit < length log)"
    using cursor(2) by auto
  show ?thesis
  proof (cases answer)
    case (Inl e)
    then have "w' = w1" "db' = db" "r = Inl e"
      using assms(4) cursor(1) answer by (auto simp: pull_batch_def on_world_def ok_or_def)
    then show ?thesis using ext assms(2) by auto
  next
    case (Inr b)
    note b = batch [OF Inr]
    obtain db1 r1 where applied: "apply_materialized_batch (tp_clock tp w1) b db = (db1, r1)"
      by (cases "apply_materialized_batch (tp_clock tp w1) b db")
    have result: "w' = w1" "db' = db1" "r = and_then r1 (\<lambda>_. Inr b)"
      using assms(3,4) cursor(1) answer Inr applied
      by (cases r1; simp add: pull_batch_def on_world_def on_replica_def ok_or_def b log_batch_def)+
    have take: "take n log @ take limit (drop n log) = take (min (n + limit) (length log)) log"
      by (simp only: take_add [symmetric]) (simp add: min_def)
    have "log_ok dec scope (take (min (n + limit) (length log)) log)"
      using log_good [OF assms(1)] log_ok_prefix [of dec scope _ "drop (min (n + limit) (length log)) log"]
      by simp
    then have "log_ok dec scope (take n log @ take limit (drop n log))" by (simp only: take)
    from apply_log_batch(1) [OF _ this _ _ _ _ applied [unfolded b]] assms(2) ids_good [OF assms(1)]
    have after: "case r1 of Inl _ \<Rightarrow> db1 = db
      | Inr _ \<Rightarrow> replica_at vis scope epoch actor (take (min (n + limit) (length log)) log) db1"
      by (simp only: take)
    show ?thesis
    proof (cases r1)
      case (Inl e)
      then show ?thesis using after result ext assms(2) by auto
    next
      case (Inr u)
      then have "holds log (min (n + limit) (length log)) db'" using after result by simp
      moreover have "mb_has_more b \<longleftrightarrow> n + limit < length log" by (simp add: b log_batch_def)
      moreover have "n \<le> min (n + limit) (length log)" using assms(2) by simp
      ultimately show ?thesis using ext result Inr by auto
    qed
  qed
qed

lemma pull_loop_holds:
  assumes "at w log" "holds log n db" "identity_scope i = scope"
    and "pull_loop cod tp pid i limit batches consumed (w, db) = ((w', db'), r)"
  shows "\<exists>ext n'. at w' (log @ ext) \<and> n \<le> n' \<and> holds (log @ ext) n' db' \<and>
    (\<forall>x. r = Inr x \<longrightarrow> length log \<le> n')"
  using assms(1,2,4)
proof (induction "MAX_PULL_BATCHES - batches" arbitrary: batches consumed w db log n)
  case 0
  then have "w' = w" "db' = db" "isl r" by (auto simp: pull_loop.simps [of _ _ _ _ _ batches])
  then show ?case using 0 by (intro exI [of _ "[]"] exI [of _ n]) auto
next
  case (Suc k)
  then have more: "\<not> batches \<ge> MAX_PULL_BATCHES" by simp
  obtain w1 db1 r1 where step: "pull_batch cod tp pid i limit (w, db) = ((w1, db1), r1)"
    by (metis prod.collapse)
  from pull_batch_step [OF Suc.prems(1,2) assms(3) step] obtain ext n1 where
    one: "at w1 (log @ ext)" "n \<le> n1" "holds log n1 db1"
      "\<And>b. r1 = Inr b \<Longrightarrow> n1 = min (n + limit) (length log) \<and> (mb_has_more b \<longleftrightarrow> n + limit < length log)"
    by blast
  have one': "holds (log @ ext) n1 db1" using holds_grows one(3) by blast
  show ?case
  proof (cases r1)
    case (Inl e)
    then have "w' = w1" "db' = db1" "r = Inl e"
      using Suc.prems(3) step more by (auto simp: pull_loop.simps [of _ _ _ _ _ batches])
    then show ?thesis using one one' by blast
  next
    case (Inr b)
    show ?thesis
    proof (cases "mb_has_more b")
      case False
      then have "w' = w1" "db' = db1" "length log \<le> n1"
        using Suc.prems(3) step more Inr one(4) by (auto simp: pull_loop.simps [of _ _ _ _ _ batches])
      then show ?thesis using one one' by blast
    next
      case True
      then have "pull_loop cod tp pid i limit (Suc batches) (consumed + length (mb_entries b)) (w1, db1) =
          ((w', db'), r)"
        using Suc.prems(3) step more Inr by (simp add: pull_loop.simps [of _ _ _ _ _ batches])
      moreover have "k = MAX_PULL_BATCHES - Suc batches" using Suc.hyps(2) by simp
      ultimately obtain ext' n' where "at w' ((log @ ext) @ ext')" "n1 \<le> n'"
        "holds ((log @ ext) @ ext') n' db'" "\<forall>x. r = Inr x \<longrightarrow> length (log @ ext) \<le> n'"
        using Suc.hyps(1) [OF _ one(1) one'] by blast
      then show ?thesis using one(2)
        by (intro exI [of _ "ext @ ext'"] exI [of _ n']) auto
    qed
  qed
qed

lemma status_holds:
  assumes "at w log" "holds log n db" "status_of db = Inr st"
  shows "su_after_seq st = of_nat n"
proof -
  have "int n \<le> i64_max" using at_bound [OF assms(1)] assms(2) by simp
  then obtain t where "load_meta db = Inr (Some \<lparr>rm_scope = scope, rm_project_epoch = epoch,
      rm_actor_id = Some actor, rm_after_seq = of_nat (length (take n log)), rm_updated_at_ms = t\<rparr>)"
    using load_meta_at [of vis scope epoch actor "take n log" db] assms(2) ids_good [OF assms(1)]
    by auto
  then show ?thesis using assms(2,3) by (auto simp: status_of_def Let_def result_iffs)
qed

text \<open>Whatever the answers: the file stays a prefix, and a successful pull has caught up.\<close>

definition pulled :: "log_entry list \<Rightarrow> log_entry list \<Rightarrow> nat \<Rightarrow> replica_db \<Rightarrow> replica_db
    \<Rightarrow> pull_report client_result \<Rightarrow> bool" where
  "pulled log log' n db db' r \<longleftrightarrow> db' = db \<and> isl r \<or>
     (\<exists>n'. n \<le> n' \<and> holds log' n' db' \<and>
       (\<forall>report. r = Inr report \<longrightarrow> length log \<le> n' \<and> pu_after_seq report = of_nat n'))"

lemma pull_tail:
  assumes "at w log" "holds log n db" "identity_scope i = scope"
    and "try_do (pull_loop cod tp pid i limit 0 0 (w, db)) (\<lambda>s (batches, consumed).
      try_ok s (status_of (snd s)) (\<lambda>status.
       (s, Inr \<lparr>pu_bootstrapped = b, pu_batches = batches, pu_changes = consumed,
          pu_after_seq = su_after_seq status, pu_identity = i,
          pu_resource_count = su_resource_count status,
          pu_tombstone_count = su_tombstone_count status\<rparr>))) = ((w', db'), r)"
  shows "\<exists>ext n'. at w' (log @ ext) \<and> n \<le> n' \<and> holds (log @ ext) n' db' \<and>
    (\<forall>report. r = Inr report \<longrightarrow> length log \<le> n' \<and> pu_after_seq report = of_nat n')"
proof -
  obtain w1 db1 r1 where loop: "pull_loop cod tp pid i limit 0 0 (w, db) = ((w1, db1), r1)"
    by (metis prod.collapse)
  from pull_loop_holds [OF assms(1-3) loop] obtain ext n' where
    one: "at w1 (log @ ext)" "n \<le> n'" "holds (log @ ext) n' db1"
      "\<forall>x. r1 = Inr x \<longrightarrow> length log \<le> n'" by blast
  have end_state: "w' = w1" "db' = db1"
    using assms(4) loop by (cases r1; cases "status_of db1"; auto simp: split_beta)+
  have "length log \<le> n' \<and> pu_after_seq report = of_nat n'" if "r = Inr report" for report
  proof -
    obtain x st where x: "r1 = Inr x" "status_of db1 = Inr st" "pu_after_seq report = su_after_seq st"
      using assms(4) loop \<open>r = Inr report\<close>
      by (cases r1; cases "status_of db1"; auto simp: split_beta)
    then show ?thesis using one(4) status_holds [OF one(1,3) x(2)] by simp
  qed
  then show ?thesis using one end_state by blast
qed

lemma pull_bootstrap_holds:
  assumes "at w log" "replica_empty db" "identity_scope i = scope" "pi_project_epoch i = epoch"
    and "pi_actor_id i = actor" "pull_bootstrap cod tp pid i (w, db) = ((w', db'), r)"
  shows "\<exists>ext. at w' (log @ ext) \<and>
    (case r of Inl _ \<Rightarrow> db' = db | Inr _ \<Rightarrow> holds (log @ ext) (length log) db')"
proof -
  obtain w1 answer where answer: "client_snapshot cod tp pid w = (w1, answer)"
    by (cases "client_snapshot cod tp pid w")
  from snapshot_answer [OF assms(1) answer] obtain ext where ext: "at w1 (log @ ext)"
    and shown: "\<And>s. answer = Inr s \<Longrightarrow> shows_log vis scope epoch log s" by blast
  show ?thesis
  proof (cases answer)
    case (Inl e)
    then show ?thesis using assms(6) answer ext by (auto simp: pull_bootstrap_def on_world_def)
  next
    case (Inr s)
    obtain db1 r1 where applied: "apply_snapshot (tp_clock tp w1) s i db = (db1, r1)"
      by (cases "apply_snapshot (tp_clock tp w1) s i db")
    have result: "w' = w1" "db' = db1" "r = r1"
      using assms(3,4,6) answer Inr applied shown [OF Inr]
      by (auto simp: pull_bootstrap_def on_world_def on_replica_def shows_log_def)
    from apply_shown_snapshot(1) [OF assms(2) shown [OF Inr] _ _ assms(3,4) applied, of dec]
      log_good [OF assms(1)] assms(5)
    have "case r1 of Inl _ \<Rightarrow> db1 = db | Inr _ \<Rightarrow> replica_at vis scope epoch actor log db1"
      by (cases r1) simp_all
    then show ?thesis using result ext by (auto split: sum.splits)
  qed
qed

lemma verify_holds:
  assumes "at w log" "identity_scope i = scope" "pi_project_epoch i = epoch" "pi_actor_id i = actor"
  shows "replica_empty db \<Longrightarrow> verify_identity db i = Inr True"
    and "holds log n db \<Longrightarrow> verify_identity db i = Inr False"
proof -
  show "verify_identity db i = Inr True" if "replica_empty db"
    using that by (simp add: verify_identity_def load_meta_def replica_empty_def)
  assume h: "holds log n db"
  have "int n \<le> i64_max" using at_bound [OF assms(1)] h by simp
  then obtain t where "load_meta db = Inr (Some \<lparr>rm_scope = scope, rm_project_epoch = epoch,
      rm_actor_id = Some actor, rm_after_seq = of_nat (length (take n log)), rm_updated_at_ms = t\<rparr>)"
    using load_meta_at [of vis scope epoch actor "take n log" db] h ids_good [OF assms(1)]
    by auto
  then show "verify_identity db i = Inr False" using assms(2-4) by (simp add: verify_identity_def)
qed

lemma pull_holds:
  assumes "at w log" "replica_empty db \<and> n = 0 \<or> holds log n db"
    and "pull_to_current cod tp pid limit (w, db) = ((w', db'), r)"
  shows "\<exists>ext. at w' (log @ ext) \<and> pulled log (log @ ext) n db db' r"
proof (cases "bad_limit limit")
  case (Inl e)
  then have "w' = w" "db' = db" "isl r" using assms(3) by (auto simp: pull_to_current_def)
  then show ?thesis using assms(1) by (intro exI [of _ "[]"]) (simp add: pulled_def)
next
  case limit: (Inr u)
  obtain w1 answer where answer: "tp_identity tp pid w = (w1, answer)"
    by (cases "tp_identity tp pid w")
  from identity_answer [OF assms(1) answer] obtain ext where ext: "at w1 (log @ ext)"
    and identity: "\<And>i. answer = Inr i \<Longrightarrow> identity_scope i = scope \<and> pi_project_epoch i = epoch \<and>
      pi_actor_id i = actor" by blast
  show ?thesis
  proof (cases answer)
    case (Inl e)
    then have "w' = w1" "db' = db" "isl r"
      using assms(3) limit answer by (auto simp: pull_to_current_def on_world_def)
    then show ?thesis using ext by (auto simp: pulled_def)
  next
    case (Inr i)
    note i = identity [OF Inr]
    show ?thesis
    proof (cases "replica_empty db")
      case True
      then have n: "n = 0" using assms(2) by (auto simp: replica_empty_def replica_at_def)
      obtain w2 db2 r2 where boot: "pull_bootstrap cod tp pid i (w1, db) = ((w2, db2), r2)"
        by (metis prod.collapse)
      from pull_bootstrap_holds [OF ext True _ _ _ boot] i obtain ext2 where
        two: "at w2 ((log @ ext) @ ext2)" "case r2 of Inl _ \<Rightarrow> db2 = db
          | Inr _ \<Rightarrow> holds ((log @ ext) @ ext2) (length (log @ ext)) db2" by blast
      have verify: "verify_identity db i = Inr True" using verify_holds(1) [OF ext] i True by simp
      show ?thesis
      proof (cases r2)
        case e: (Inl e)
        then have "w' = w2" "db' = db2" "r = Inl e"
          using assms(3) limit answer Inr verify boot by (auto simp: pull_to_current_def on_world_def)
        then show ?thesis using two e by (auto simp: pulled_def)
      next
        case v: (Inr v)
        then have tail: "holds ((log @ ext) @ ext2) (length (log @ ext)) db2" using two(2) by simp
        have "\<exists>ext3 n'. at w' (((log @ ext) @ ext2) @ ext3) \<and> length (log @ ext) \<le> n' \<and>
            holds (((log @ ext) @ ext2) @ ext3) n' db' \<and>
            (\<forall>report. r = Inr report \<longrightarrow> length ((log @ ext) @ ext2) \<le> n' \<and>
               pu_after_seq report = of_nat n')"
          using assms(3) limit answer Inr verify boot v i
          by (intro pull_tail [OF two(1) tail, of i limit True])
            (simp_all add: pull_to_current_def on_world_def)
        then obtain ext3 n' where three: "at w' (((log @ ext) @ ext2) @ ext3)"
          "holds (((log @ ext) @ ext2) @ ext3) n' db'"
          "\<forall>report. r = Inr report \<longrightarrow> length ((log @ ext) @ ext2) \<le> n' \<and>
               pu_after_seq report = of_nat n'" by blast
        have "pulled log (((log @ ext) @ ext2) @ ext3) n db db' r"
          unfolding pulled_def using three(2,3) n by (intro disjI2 exI [of _ n']) auto
        then show ?thesis using three(1) unfolding append_assoc by blast
      qed
    next
      case False
      then have h: "holds log n db" using assms(2) by blast
      then have h1: "holds (log @ ext) n db" by (rule holds_grows)
      have verify: "verify_identity db i = Inr False" using verify_holds(2) [OF ext _ _ _ h1] i by simp
      have "\<exists>ext3 n'. at w' ((log @ ext) @ ext3) \<and> n \<le> n' \<and> holds ((log @ ext) @ ext3) n' db' \<and>
          (\<forall>report. r = Inr report \<longrightarrow> length (log @ ext) \<le> n' \<and> pu_after_seq report = of_nat n')"
        using assms(3) limit answer Inr verify i
        by (intro pull_tail [OF ext h1, of i limit False])
          (simp_all add: pull_to_current_def on_world_def)
      then obtain ext3 n' where three: "at w' ((log @ ext) @ ext3)" "n \<le> n'"
        "holds ((log @ ext) @ ext3) n' db'"
        "\<forall>report. r = Inr report \<longrightarrow> length (log @ ext) \<le> n' \<and> pu_after_seq report = of_nat n'"
        by blast
      have "pulled log ((log @ ext) @ ext3) n db db' r"
        unfolding pulled_def using three(2-4) by (intro disjI2 exI [of _ n']) auto
      then show ?thesis using three(1) unfolding append_assoc by blast
    qed
  qed
qed

end

section \<open>A source that stands still\<close>

text \<open>Every call is answered and the log does not move: then a pull ends at the head.\<close>

locale steady_source = feed_source cod tp pid scope epoch actor vis dec at
  for cod :: codec and tp :: "'w transport" and pid :: project_id
    and scope :: project_scope and epoch :: project_epoch and actor :: actor_id
    and vis :: "log_entry \<Rightarrow> bool" and dec :: "bytes \<Rightarrow> handoff_record option"
    and at :: "'w \<Rightarrow> log_entry list \<Rightarrow> bool" +
  assumes steady_identity: "at w log \<Longrightarrow> \<exists>w' i. tp_identity tp pid w = (w', Inr i) \<and> at w' log"
    and steady_snapshot: "at w log \<Longrightarrow> \<exists>w' s. client_snapshot cod tp pid w = (w', Inr s) \<and> at w' log"
    and steady_batch: "at w log \<Longrightarrow> bad_limit limit = Inr () \<Longrightarrow> cu_project_epoch cursor = epoch \<Longrightarrow>
      unat (cu_after_seq cursor) \<le> length log \<Longrightarrow>
      \<exists>w' b. client_materialized_changes cod tp pid cursor limit w = (w', Inr b) \<and> at w' log"
    and steady_clock: "at w log \<Longrightarrow> 0 \<le> tp_clock tp w \<and> tp_clock tp w \<le> i64_max"
begin

lemma steady_pull_batch:
  assumes "at w log" "holds log n db" "identity_scope i = scope" "bad_limit limit = Inr ()"
  shows "\<exists>w' db' b. pull_batch cod tp pid i limit (w, db) = ((w', db'), Inr b) \<and> at w' log \<and>
    holds log (min (n + limit) (length log)) db' \<and> (mb_has_more b \<longleftrightarrow> n + limit < length log)"
proof -
  let ?cursor = "\<lparr>cu_project_epoch = epoch, cu_after_seq = of_nat n\<rparr>"
  note cursor = cursor_holds [OF assms(1,2)]
  obtain w1 b where answer: "client_materialized_changes cod tp pid ?cursor limit w = (w1, Inr b)"
    and w1: "at w1 log"
    using steady_batch [OF assms(1,4), of ?cursor] cursor(2) assms(2) by auto
  have b: "b = log_batch vis scope epoch (take n log) (take limit (drop n log)) (n + limit < length log)"
    using batch_answer [OF assms(1) _ answer] cursor(2) by auto
  have valid: "validate_materialized_batch b = Inr ()"
    using answer by (auto simp: client_materialized_changes_def try_do_Inr try_ok_Inr)
  obtain db1 r1 where applied: "apply_materialized_batch (tp_clock tp w1) b db = (db1, r1)"
    by (cases "apply_materialized_batch (tp_clock tp w1) b db")
  have "take n log @ take limit (drop n log) = take (n + limit) log"
    by (simp only: take_add [symmetric])
  moreover have "log_ok dec scope (take (n + limit) log)"
    using log_good [OF assms(1)] log_ok_prefix [of dec scope _ "drop (n + limit) log"] by simp
  ultimately have "log_ok dec scope (take n log @ take limit (drop n log))" by (simp only:)
  from apply_log_batch(2) [where actor = actor, OF _ this _ _ _ _ applied [unfolded b]] assms(2) ids_good [OF assms(1)]
    steady_clock [OF w1] valid
  have "r1 = Inr ()" by (simp add: b)
  then have run: "pull_batch cod tp pid i limit (w, db) = ((w1, db1), Inr b)"
    using cursor(1) answer assms(3) applied
    by (simp add: pull_batch_def on_world_def on_replica_def ok_or_def b log_batch_def)
  from pull_batch_step [OF assms(1-3) run] show ?thesis using run w1 by auto
qed

lemma steady_pull_loop:
  assumes "at w log" "holds log n db" "identity_scope i = scope" "bad_limit limit = Inr ()"
    and "batches < MAX_PULL_BATCHES" "length log \<le> n + limit * (MAX_PULL_BATCHES - batches)"
  shows "\<exists>w' db' total c. pull_loop cod tp pid i limit batches consumed (w, db) =
      ((w', db'), Inr (total, c)) \<and> at w' log \<and> holds log (length log) db' \<and>
      total \<le> batches + (length log - n) div limit + 1"
  using assms(1,2,5,6)
proof (induction "MAX_PULL_BATCHES - batches" arbitrary: batches consumed w db n)
  case (Suc k)
  have pos: "0 < limit" using assms(4) by (auto simp: bad_limit_def split: if_splits)
  obtain w1 db1 b where one: "pull_batch cod tp pid i limit (w, db) = ((w1, db1), Inr b)" "at w1 log"
    "holds log (min (n + limit) (length log)) db1" "mb_has_more b \<longleftrightarrow> n + limit < length log"
    using steady_pull_batch [OF Suc.prems(1,2) assms(3,4)] by blast
  show ?case
  proof (cases "n + limit < length log")
    case False
    then have "pull_loop cod tp pid i limit batches consumed (w, db) =
        ((w1, db1), Inr (Suc batches, consumed + length (mb_entries b)))"
      using one Suc.prems(3) by (simp add: pull_loop.simps [of _ _ _ _ _ batches])
    moreover have "holds log (length log) db1" using one(3) False by (simp add: min_absorb2)
    ultimately show ?thesis using one(2) by auto
  next
    case True
    then have holds: "holds log (n + limit) db1" using one(3) by (simp add: min_absorb1)
    have lt: "Suc batches < MAX_PULL_BATCHES"
    proof (rule ccontr)
      assume "\<not> Suc batches < MAX_PULL_BATCHES"
      then have "MAX_PULL_BATCHES - batches \<le> 1" by simp
      then have "limit * (MAX_PULL_BATCHES - batches) \<le> limit"
        using mult_le_mono2 [of _ 1 limit] by simp
      then show False using Suc.prems(4) True by linarith
    qed
    have room: "length log \<le> n + limit + limit * (MAX_PULL_BATCHES - Suc batches)"
    proof -
      have "MAX_PULL_BATCHES - batches = Suc (MAX_PULL_BATCHES - Suc batches)" using Suc.prems(3) by simp
      then show ?thesis using Suc.prems(4) by simp
    qed
    have "k = MAX_PULL_BATCHES - Suc batches" using Suc.hyps(2) by simp
    then obtain w' db' total c where rest: "pull_loop cod tp pid i limit (Suc batches)
        (consumed + length (mb_entries b)) (w1, db1) = ((w', db'), Inr (total, c))" "at w' log"
      "holds log (length log) db'" "total \<le> Suc batches + (length log - (n + limit)) div limit + 1"
      using Suc.hyps(1) [OF _ one(2) holds lt room] by blast
    have "length log - n = (length log - (n + limit)) + limit" using True by simp
    then have "(length log - n) div limit = ((length log - (n + limit)) + limit) div limit"
      by (rule arg_cong)
    also have "\<dots> = (length log - (n + limit)) div limit + 1"
      using pos by (intro div_add_self2) simp
    finally have "(length log - n) div limit = (length log - (n + limit)) div limit + 1" .
    moreover have "pull_loop cod tp pid i limit batches consumed (w, db) = ((w', db'), Inr (total, c))"
      using one True Suc.prems(3) rest(1) by (simp add: pull_loop.simps [of _ _ _ _ _ batches])
    ultimately show ?thesis using rest(2-4) by auto
  qed
qed simp

lemma steady_status:
  assumes "at w log" "holds log n db"
  shows "\<exists>st. status_of db = Inr st"
proof -
  have "int n \<le> i64_max" using at_bound [OF assms(1)] assms(2) by simp
  then obtain t where "load_meta db = Inr (Some \<lparr>rm_scope = scope, rm_project_epoch = epoch,
      rm_actor_id = Some actor, rm_after_seq = of_nat (length (take n log)), rm_updated_at_ms = t\<rparr>)"
    using load_meta_at [of vis scope epoch actor "take n log" db] assms(2) ids_good [OF assms(1)]
    by auto
  then show ?thesis
    by (simp add: status_of_def client_from_i64_def i64_try_u64_def select_count_def ok_or_def Let_def)
qed

lemma steady_pull:
  assumes "at w log" "replica_empty db \<and> n = length log \<or> holds log n db"
    and "bad_limit limit = Inr ()" "length log \<le> n + limit * MAX_PULL_BATCHES"
  shows "\<exists>w' db' report. pull_to_current cod tp pid limit (w, db) = ((w', db'), Inr report) \<and>
    holds log (length log) db' \<and> pu_after_seq report = of_nat (length log) \<and>
    pu_batches report \<le> (length log - n) div limit + 1"
proof -
  obtain w1 i where identity: "tp_identity tp pid w = (w1, Inr i)" and w1: "at w1 log"
    using steady_identity [OF assms(1)] by blast
  have i: "identity_scope i = scope" "pi_project_epoch i = epoch" "pi_actor_id i = actor"
    using identity_answer [OF assms(1) identity] by auto
  have tail: "\<exists>w' db' total c st. pull_loop cod tp pid i limit 0 0 (w2, db2) = ((w', db'), Inr (total, c)) \<and>
      status_of db' = Inr st \<and> holds log (length log) db' \<and> su_after_seq st = of_nat (length log) \<and>
      total \<le> (length log - n) div limit + 1"
    if w2: "at w2 log" and h: "holds log n db2" for w2 db2
  proof -
    have "0 < MAX_PULL_BATCHES" by (simp add: MAX_PULL_BATCHES_def)
    then obtain w' db' total c where loop: "pull_loop cod tp pid i limit 0 0 (w2, db2) =
        ((w', db'), Inr (total, c))" "at w' log" "holds log (length log) db'"
      "total \<le> 0 + (length log - n) div limit + 1"
      using steady_pull_loop [OF w2 h i(1) assms(3), of 0 0] assms(4) by auto
    obtain st where "status_of db' = Inr st" using steady_status [OF loop(2,3)] by blast
    then show ?thesis using loop status_holds [OF loop(2,3)] by auto
  qed
  show ?thesis
  proof (cases "replica_empty db")
    case True
    then have n: "n = length log" using assms(2) by (auto simp: replica_empty_def replica_at_def)
    obtain w2 s where snap: "client_snapshot cod tp pid w1 = (w2, Inr s)" and w2: "at w2 log"
      using steady_snapshot [OF w1] by blast
    have shown: "shows_log vis scope epoch log s" using snapshot_answer [OF w1 snap] by auto
    have valid: "validate_snapshot s = Inr ()"
      using snap by (auto simp: client_snapshot_def try_do_Inr try_ok_Inr)
    obtain db1 r1 where applied: "apply_snapshot (tp_clock tp w2) s i db = (db1, r1)"
      by (cases "apply_snapshot (tp_clock tp w2) s i db")
    note apply_shown = apply_shown_snapshot [OF True shown _ _ i(1,2) applied, of dec]
    have r1: "r1 = Inr ()"
      using apply_shown(2) log_good [OF w1] steady_clock [OF w2] valid by simp
    then have "replica_at vis scope epoch actor log db1"
      using apply_shown(1) log_good [OF w1] i(3) by simp
    then have "holds log n db1" by (simp add: n)
    from tail [OF w2 this] obtain w' db' total c st where t: "pull_loop cod tp pid i limit 0 0 (w2, db1) =
        ((w', db'), Inr (total, c))" "status_of db' = Inr st" "holds log (length log) db'"
      "su_after_seq st = of_nat (length log)" "total \<le> (length log - n) div limit + 1" by blast
    have "pull_bootstrap cod tp pid i (w1, db) = ((w2, db1), Inr ())"
      using snap applied r1 i shown
      by (simp add: pull_bootstrap_def on_world_def on_replica_def shows_log_def)
    then show ?thesis
      using t identity assms(3) verify_holds(1) [OF w1 i True]
      by (simp add: pull_to_current_def on_world_def)
  next
    case False
    then have h: "holds log n db" using assms(2) by blast
    from tail [OF w1 h] obtain w' db' total c st where t: "pull_loop cod tp pid i limit 0 0 (w1, db) =
        ((w', db'), Inr (total, c))" "status_of db' = Inr st" "holds log (length log) db'"
      "su_after_seq st = of_nat (length log)" "total \<le> (length log - n) div limit + 1" by blast
    then show ?thesis
      using identity assms(3) verify_holds(2) [OF w1 i h]
      by (simp add: pull_to_current_def on_world_def)
  qed
qed

end

end
