(* ===== verification/Replica_Sync.thy ===== *)
theory Replica_Sync
  imports Replica_Pull Server_Guarantees
begin

text \<open>
  The replica and the server together: the modelled handlers answer the client's requests while the
  server serves others, and that is a feed source in the sense of \<open>feed_source\<close>.
\<close>

section \<open>Facts of a server's log\<close>

text \<open>What serde_json promises of canonical bytes: they parse, and printing the value gives them back.\<close>

definition value_codec :: "codec \<Rightarrow> bool" where
  "value_codec cod \<longleftrightarrow> (\<forall>v. \<exists>v'. cd_value_of cod (canonical_json_bytes cod v) = Some v' \<and>
     cd_to_vec cod v' = canonical_json_bytes cod v)"

definition context_codec :: "codec \<Rightarrow> bool" where
  "context_codec cod \<longleftrightarrow>
     (\<forall>c. cd_context_of cod (canonical_json_bytes cod (cd_context_value cod c)) \<noteq> None)"

lemma server_ledger_entries:
  assumes "server_ledger cod L" "e \<in> set (log_of L scope)"
  shows "\<exists>L0. server_entry cod L0 scope e"
  using assms
proof (induction arbitrary: scope rule: server_ledger.induct)
  case empty
  then show ?case by (simp add: log_of_def)
next
  case (registered L L')
  then have "log_of L' scope = log_of L scope" by (auto simp: registers_def log_of_def)
  then show ?case using registered by auto
next
  case (appended L scope' e' L')
  obtain epoch log where log: "L scope' = Some (epoch, log)" "L' = L(scope' \<mapsto> (epoch, log @ [e']))"
    using appended(3) by (auto simp: appends_def)
  have logs: "log_of L' scope = (if scope = scope' then log @ [e'] else log_of L scope)"
    by (simp add: log(2))
  show ?case
    using appended.IH [of scope] appended.prems appended.hyps(2) log(1) unfolding logs
    by (auto split: if_splits)
qed

lemma entry_written:
  "server_entry cod L scope e \<Longrightarrow>
    le_change e = Delete \<and> starts_with EXTENSION_RESOURCE_PREFIX (rf_kind (le_ref e)) \<or>
    (\<exists>v. writes cod e v)"
  by (cases rule: server_entry.cases) auto

lemma entry_context:
  assumes "server_entry cod L scope e" "rf_kind (le_ref e) = ''handoff_context''"
  shows "\<exists>c. writes cod e (cd_context_value cod c)"
  using assms by (cases rule: server_entry.cases)
    (auto simp: starts_with_def EXTENSION_RESOURCE_PREFIX_def)

lemma entry_body_canonical:
  assumes "server_ledger cod L" "e \<in> set (log_of L scope)" "entry_ok dec scope e"
    and "cr_state (entry_resource scope e) = Present body"
  shows "\<exists>v. body = canonical_json_bytes cod v"
proof -
  obtain L0 where "server_entry cod L0 scope e" using server_ledger_entries [OF assms(1,2)] by blast
  from entry_written [OF this] assms(4) show ?thesis
    by (auto simp: entry_resource_def state_of_def writes_def)
qed

lemma entry_context_decodes:
  assumes "server_ledger cod L" "e \<in> set (log_of L scope)" "context_codec cod"
  shows "context_decodes cod (entry_resource scope e)"
proof -
  obtain L0 where L0: "server_entry cod L0 scope e" using server_ledger_entries [OF assms(1,2)] by blast
  show ?thesis
    using entry_context [OF L0] assms(3)
    by (auto simp: context_decodes_def entry_resource_def state_of_def writes_def context_codec_def)
qed

definition member_sees :: "codec \<Rightarrow> actor_id \<Rightarrow> project_scope \<Rightarrow> log_entry \<Rightarrow> bool" where
  "member_sees cod actor scope e \<longleftrightarrow> may_see cod actor (entry_resource scope e)"

text \<open>A handoff entry, read back, is one of the versions in its history.\<close>

lemma handoff_entry_version:
  assumes "server_ledger cod L" "ledger_ok (cd_handoff_of cod) L" "e \<in> set (log_of L scope)"
    and "le_ref e = coord ''handoff'' hid"
  obtains body h where "cr_state (entry_resource scope e) = Present body" "cd_handoff_of cod body = Some h"
    "(entry_actor e, h) \<in> set (handoff_versions cod (log_of L scope) hid)"
proof -
  obtain L0 where L0: "server_entry cod L0 scope e" using server_ledger_entries [OF assms(1,3)] by blast
  from entry_written [OF L0] assms(4) obtain v where v: "writes cod e v"
    by (auto simp: starts_with_def EXTENSION_RESOURCE_PREFIX_def)
  have "entry_ok (cd_handoff_of cod) scope e" using ledger_entry_ok [OF assms(2,3)] .
  then have "check_handoff_body (cd_handoff_of cod) (le_ref e) (le_change e) (le_body e) = Inr ()"
    using entry_okD(10) by (simp add: le_ref_def)
  then obtain h where h: "cd_handoff_of cod (canonical_json_bytes cod v) = Some h"
    using v assms(4) by (auto simp: check_handoff_body_def writes_def split: if_splits option.splits)
  show thesis
  proof (rule that)
    show "cr_state (entry_resource scope e) = Present (canonical_json_bytes cod v)"
      using v by (simp add: entry_resource_def state_of_def writes_def)
    show "cd_handoff_of cod (canonical_json_bytes cod v) = Some h" by (rule h)
    have "the (cd_handoff_of cod (the (le_body e))) = h" using v h by (simp add: writes_def)
    then show "(entry_actor e, h) \<in> set (handoff_versions cod (log_of L scope) hid)"
      using assms(3,4) by (force simp: handoff_versions_def)
  qed
qed

lemma at_most_one: "length zs \<le> 1 \<Longrightarrow> x \<in> set zs \<Longrightarrow> y \<in> set zs \<Longrightarrow> x = y"
  by (cases zs) auto

text \<open>Since a handoff keeps its route and contexts are written once, visibility never changes.\<close>

lemma server_vis_stable:
  assumes "server_ledger cod L" "ledger_ok (cd_handoff_of cod) L" "handoff_codec cod"
  shows "vis_stable (member_sees cod actor scope) (log_of L scope)"
  unfolding vis_stable_def
proof (intro ballI impI)
  fix x y
  assume x: "x \<in> set (log_of L scope)" and y: "y \<in> set (log_of L scope)" and ref: "le_ref x = le_ref y"
  consider (on_handoff) "rf_kind (le_ref x) = ''handoff''" | (on_context) "rf_kind (le_ref x) = ''handoff_context''"
    | (on_other) "rf_kind (le_ref x) \<noteq> ''handoff''" "rf_kind (le_ref x) \<noteq> ''handoff_context''" by blast
  then show "member_sees cod actor scope x = member_sees cod actor scope y"
  proof cases
    case on_handoff
    define hid where "hid = rf_id (le_ref x)"
    have coords: "le_ref x = coord ''handoff'' hid" "le_ref y = coord ''handoff'' hid"
      using on_handoff ref by (simp_all add: hid_def coord_def)
    obtain bx hx where hx: "cr_state (entry_resource scope x) = Present bx" "cd_handoff_of cod bx = Some hx"
      "(entry_actor x, hx) \<in> set (handoff_versions cod (log_of L scope) hid)"
      using handoff_entry_version [OF assms(1,2) x coords(1)] by blast
    obtain bby hy where hy: "cr_state (entry_resource scope y) = Present bby" "cd_handoff_of cod bby = Some hy"
      "(entry_actor y, hy) \<in> set (handoff_versions cod (log_of L scope) hid)"
      using handoff_entry_version [OF assms(1,2) y coords(2)] by blast
    have "handoff_versions cod (log_of L scope) hid \<noteq> []" using hx(3) by auto
    then obtain F where "handoff_history F hid (handoff_versions cod (log_of L scope) hid)"
      using ledger_histories [OF assms(1,3,2), of scope] by (auto simp: histories_ok_def)
    from bspec [OF conjunct1 [OF history_facts [OF this]] hx(3)]
      bspec [OF conjunct1 [OF history_facts [OF this]] hy(3)]
    have "handoff_route hx = handoff_route hy" by simp
    then have "hr_from_actor hx = hr_from_actor hy" "hr_to_actor hx = hr_to_actor hy"
      by (simp_all add: handoff_route_def)
    then show ?thesis using hx(1,2) hy(1,2) coords by (simp add: member_sees_def may_see_def)
  next
    case on_context
    then have "prior_count (log_of L scope) (le_ref x) \<le> 1"
      using ledger_write_once [OF assms(1)] by (simp add: write_once_kinds_def)
    then have "length (filter (\<lambda>e. le_ref e = le_ref x) (log_of L scope)) \<le> 1"
      by (simp add: prior_count_def)
    moreover have "x \<in> set (filter (\<lambda>e. le_ref e = le_ref x) (log_of L scope))"
      "y \<in> set (filter (\<lambda>e. le_ref e = le_ref x) (log_of L scope))"
      using x y ref by auto
    ultimately have "x = y" by (rule at_most_one)
    then show ?thesis by simp
  next
    case on_other
    then show ?thesis using ref by (simp add: member_sees_def may_see_def)
  qed
qed

section \<open>The wire\<close>

lemma wire_resource:
  assumes "value_codec cod" "\<And>body. cr_state r = Present body \<Longrightarrow> \<exists>v. body = canonical_json_bytes cod v"
  shows "\<exists>w. resource_response cod r = Inr w \<and> resource_of_wire cod w = Inr r"
proof (cases "cr_state r")
  case (Present body)
  then obtain v v' where "body = canonical_json_bytes cod v" "cd_value_of cod body = Some v'"
    "cd_to_vec cod v' = body"
    using assms unfolding value_codec_def by metis
  then show ?thesis using Present by (simp add: resource_response_def resource_of_wire_def)
next
  case Deleted
  then show ?thesis by (simp add: resource_response_def resource_of_wire_def)
qed

lemma collect_wire:
  assumes "\<And>x. x \<in> set xs \<Longrightarrow> \<exists>w. f x = Inr w \<and> g w = Inr x"
  shows "\<exists>ws. collect_results f xs = Inr ws \<and> collect_results g ws = Inr xs"
  using assms
proof (induction xs)
  case (Cons x xs)
  then obtain ws where "collect_results f xs = Inr ws" "collect_results g ws = Inr xs" by auto
  moreover obtain w where "f x = Inr w" "g w = Inr x" using Cons.prems by auto
  ultimately show ?case by (intro exI [of _ "w # ws"]) simp
qed simp

lemma wire_snapshot:
  assumes "\<And>r. r \<in> set (sn_resources s) \<Longrightarrow>
      \<exists>w. resource_response cod r = Inr w \<and> resource_of_wire cod w = Inr r"
    and "snapshot_new (sn_scope s) (sn_project_epoch s) (sn_at_seq s) (sn_resources s) = Inr s"
  shows "\<exists>w. snapshot_response cod s = Inr w \<and> snapshot_of_wire cod w = Inr s"
proof -
  obtain ws where "collect_results (resource_response cod) (sn_resources s) = Inr ws"
    "collect_results (resource_of_wire cod) ws = Inr (sn_resources s)"
    using collect_wire [of "sn_resources s" "resource_response cod" "resource_of_wire cod"] assms(1)
    by blast
  then show ?thesis using assms(2) by (simp add: snapshot_response_def snapshot_of_wire_def)
qed

lemma wire_batch:
  assumes "\<And>e. e \<in> set (mb_entries b) \<Longrightarrow> \<exists>w. resource_response cod (mz_resource e) = Inr w \<and>
      resource_of_wire cod w = Inr (mz_resource e)"
    and "materialized_batch_projected (mb_scope b) (mb_cursor b) (mb_entries b) (mb_next_cursor b)
      (mb_has_more b) = Inr b"
  shows "\<exists>w. materialized_batch_response cod b = Inr w \<and> batch_of_wire cod w = Inr b"
proof -
  let ?f = "\<lambda>e. and_then (resource_response cod (mz_resource e)) (\<lambda>r.
    Inr \<lparr>mr_change = mz_change e, mr_resource = r\<rparr>)"
  let ?g = "\<lambda>e. and_then (resource_of_wire cod (mr_resource e)) (\<lambda>r.
    Inr \<lparr>mz_change = mr_change e, mz_resource = r\<rparr>)"
  have "\<exists>w. ?f e = Inr w \<and> ?g w = Inr e" if "e \<in> set (mb_entries b)" for e
  proof -
    obtain w where "resource_response cod (mz_resource e) = Inr w"
      "resource_of_wire cod w = Inr (mz_resource e)" using assms(1) [OF \<open>e \<in> set (mb_entries b)\<close>] by blast
    then show ?thesis by (intro exI [of _ "\<lparr>mr_change = mz_change e, mr_resource = w\<rparr>"]) simp
  qed
  then obtain ws where "collect_results ?f (mb_entries b) = Inr ws"
    "collect_results ?g ws = Inr (mb_entries b)"
    using collect_wire [of "mb_entries b" ?f ?g] by blast
  then show ?thesis using assms(2) by (simp add: materialized_batch_response_def batch_of_wire_def)
qed

end
