(* ===== verification/Replica_Server.thy ===== *)
theory Replica_Server
  imports Replica_Sync
begin

text \<open>
  The client's transport answered by the modelled server: call \<open>t\<close> of the client is served by the
  state \<open>runs t\<close> of a server that serves others between the calls.
\<close>

section \<open>The transport\<close>

definition wire_answer :: "api_error + 'a \<Rightarrow> 'a client_result" where
  "wire_answer r = map_err (\<lambda>e. let a = api_error_response [] e in Remote (er_status a) (er_message a)) r"

definition identity_of_wire :: "identity_response \<Rightarrow> project_identity" where
  "identity_of_wire ir = \<lparr>pi_tenant_id = ir_tenant_id ir, pi_project_id = ir_project_id ir,
     pi_project_epoch = ir_project_epoch ir, pi_actor_id = ir_actor_id ir, pi_role = ir_role ir\<rparr>"

text \<open>A call reaches the server and runs there with some outcome, or fails on the way.\<close>

definition delivered :: "run_outcome option \<Rightarrow> (run_outcome \<Rightarrow> 'st \<times> (api_error + 'a)) \<Rightarrow> 'a client_result" where
  "delivered out f = (case out of None \<Rightarrow> Inl (Transport External) | Some out \<Rightarrow> wire_answer (snd (f out)))"

definition server_transport ::
  "codec \<Rightarrow> (nat \<Rightarrow> sqlite_env) \<Rightarrow> (nat \<Rightarrow> run_outcome option) \<Rightarrow> (nat \<Rightarrow> int) \<Rightarrow> headers
    \<Rightarrow> nat transport" where
  "server_transport cod runs outs clk hdr =
     (let store = sqlite_store (cd_handoff_of cod) in
     \<lparr>tp_identity = (\<lambda>pid t. (Suc t, and_then
        (delivered (outs t) (\<lambda>out. get_identity cod store out hdr pid (runs t)))
        (\<lambda>ir. Inr (identity_of_wire ir)))),
      tp_materialized = (\<lambda>pid cursor limit t. (Suc t,
        delivered (outs t) (\<lambda>out. server_materialized_changes cod store out hdr pid
          (Inr \<lparr>cq_project_epoch = cu_project_epoch cursor, cq_after_seq = cu_after_seq cursor,
                cq_limit = Some limit\<rparr>) (runs t)))),
      tp_snapshot = (\<lambda>pid t. (Suc t,
        delivered (outs t) (\<lambda>out. server_snapshot cod store out hdr pid (runs t)))),
      tp_resource = (\<lambda>pid ref t. (Suc t,
        delivered (outs t) (\<lambda>out. server_resource cod store out hdr (pid, rf_kind ref, rf_id ref)
          (runs t)))),
      tp_clock = clk\<rparr>)"

section \<open>What the handlers answer\<close>

lemma delivered_Inr:
  "delivered out f = Inr x \<Longrightarrow> \<exists>o1. out = Some o1 \<and> snd (f o1) = Inr x"
  by (auto simp: delivered_def wire_answer_def Let_def result_iffs split: option.splits)

lemma run_reading_Inr: "snd (run_service out (reading f) s) = Inr x \<Longrightarrow> f s = Inr x"
  by (cases out) (auto simp: run_service_def reading_def result_iffs)

lemma try_api_Inr: "snd (try_api s r f) = Inr x \<Longrightarrow> \<exists>y. r = Inr y \<and> snd (f y) = Inr x"
  by (cases r) auto

lemma read_respond_Inr:
  assumes "snd (try_do (run_service out (reading f) s) (\<lambda>s y. try_api s (g y) (\<lambda>z. (s, Inr z)))) = Inr x"
  shows "\<exists>y. f s = Inr y \<and> g y = Inr x"
proof (cases "snd (run_service out (reading f) s)")
  case (Inl e)
  then show ?thesis using assms by (simp add: try_do_def)
next
  case (Inr y)
  then show ?thesis using assms run_reading_Inr [OF Inr] by (cases "g y") (auto simp: try_do_def)
qed

lemma snapshot_answered:
  assumes "snd (server_snapshot cod store out hdr pid s) = Inr w"
  obtains digest auth m snap where "bearer_digest_from_headers cod hdr = Inr digest"
    "request_context (sc_identity store) digest pid s = Inr (auth, m)"
    "service_snapshot cod store auth m pid s = Inr snap" "snapshot_response cod snap = Inr w"
  using assms by (auto simp: server_snapshot_def result_iffs
      dest!: try_api_Inr read_respond_Inr split: prod.splits)

lemma materialized_answered:
  assumes "snd (server_materialized_changes cod store out hdr pid (Inr q) s) = Inr w"
  obtains digest auth m batch where "bearer_digest_from_headers cod hdr = Inr digest"
    "request_context (sc_identity store) digest pid s = Inr (auth, m)"
    "service_materialized_changes cod store auth m (query_cursor q) (query_limit q) s = Inr batch"
    "materialized_batch_response cod batch = Inr w"
  using assms by (auto simp: server_materialized_changes_def extracted_def result_iffs
      dest!: try_api_Inr read_respond_Inr split: prod.splits)

lemma identity_answered:
  assumes "snd (get_identity cod store out hdr pid s) = Inr ir"
  obtains digest auth m epoch where "bearer_digest_from_headers cod hdr = Inr digest"
    "request_context (sc_identity store) digest pid s = Inr (auth, m)"
    "id_project_epoch (sc_identity store) s (scope_new (aa_tenant_id auth) pid) = Inr (Some epoch)"
    "ir = \<lparr>ir_tenant_id = aa_tenant_id auth, ir_project_id = pid, ir_project_epoch = epoch,
       ir_actor_id = aa_actor_id auth, ir_role = pm_role m\<rparr>"
  using assms by (auto simp: get_identity_def result_iffs Let_def
      dest!: try_api_Inr run_reading_Inr split: prod.splits)

section \<open>Reads of a reached ledger\<close>

text \<open>A ledger a server may have written, and the database that holds it.\<close>

definition server_db :: "codec \<Rightarrow> store_db \<Rightarrow> ledger \<Rightarrow> bool" where
  "server_db cod db L \<longleftrightarrow> store_rel (cd_handoff_of cod) db L \<and> server_ledger cod L"

lemma server_db_ok: "server_db cod db L \<Longrightarrow> ledger_ok (cd_handoff_of cod) L"
  by (simp add: server_db_def store_rel_def)

lemma served_batch:
  assumes "server_db cod (se_db s) L" "L scope = Some (epoch, log)" "context_codec cod"
    and "membership_admits auth m" "member_scope m = scope" "cu_project_epoch cursor = epoch"
    and "service_materialized_changes cod (sqlite_store (cd_handoff_of cod)) auth m cursor limit s = Inr b"
  shows "b = log_batch (member_sees cod (aa_actor_id auth) scope) scope epoch
      (take (unat (cu_after_seq cursor)) log) (take limit (drop (unat (cu_after_seq cursor)) log))
      (unat (cu_after_seq cursor) + limit < length log)"
    and "materialized_batch_projected (mb_scope b) (mb_cursor b) (mb_entries b) (mb_next_cursor b)
      (mb_has_more b) = Inr b"
    and "\<forall>e\<in>set (mb_entries b). \<exists>x\<in>set log. mz_resource e = entry_resource scope x"
proof -
  let ?n = "unat (cu_after_seq cursor)"
  let ?sees = "member_sees cod (aa_actor_id auth) scope"
  have rep: "sqlite_rep (cd_handoff_of cod) s L" using assms(1) by (simp add: server_db_def sqlite_rep_def)
  obtain access where access: "access_authorize auth m = Inr access" "access_scope access = scope"
    using access_granted [OF assms(4)] assms(5) by auto
  obtain full where full: "materialized_changes (se_db s) scope cursor limit = Inr full"
    using assms(7) access by (auto simp: service_materialized_changes_def Let_def result_iffs)
  then have ledger: "ledger_materialized L scope cursor limit = Inr full"
    using materialized_changes_rel [of "cd_handoff_of cod" "se_db s" L scope cursor limit] assms(1)
    by (simp add: server_db_def)
  obtain log0 where log0: "L scope = Some (cu_project_epoch cursor, log0)" "0 < limit"
    "limit \<le> MAX_CHANGE_LIMIT" "?n \<le> length log0"
    "full = \<lparr>mb_scope = scope, mb_cursor = cursor,
      mb_entries = map (entry_materialized scope (cu_project_epoch cursor)) (take limit (drop ?n log0)),
      mb_next_cursor = feed_next cursor (take limit (drop ?n log0)),
      mb_has_more = (length log0 > ?n + limit)\<rparr>"
    using ledger_materialized_Inr [OF ledger] by blast
  have "log0 = log" using log0(1) assms(2) by simp
  note at = log0(4,5) [unfolded this]
  have mem: "x \<in> set (take limit (drop ?n log)) \<Longrightarrow> x \<in> set (log_of L scope)" for x
    using assms(2) by (auto dest: in_set_takeD in_set_dropD)
  have "\<forall>e\<in>set (mb_entries full). context_decodes cod (mz_resource e)"
    using at(2) mem entry_context_decodes [OF _ _ assms(3), of L _ scope] assms(1)
    by (auto simp: entry_materialized_def server_db_def)
  then have b: "b = full\<lparr>mb_entries := filter (\<lambda>e. may_see cod (aa_actor_id auth) (mz_resource e))
      (mb_entries full)\<rparr>"
    using sqlite.materialized_projected [OF rep assms(4), of cod cursor limit full] full assms(5,7) by simp
  have entries: "filter (\<lambda>e. may_see cod (aa_actor_id auth) (mz_resource e)) (mb_entries full) =
      map (entry_materialized scope epoch) (filter ?sees (take limit (drop ?n log)))"
    using at(2) assms(6)
    by (simp add: filter_map o_def entry_materialized_def member_sees_def [abs_def])
  have cursor: "cursor = \<lparr>cu_project_epoch = epoch, cu_after_seq = of_nat (length (take ?n log))\<rparr>"
    using at(1) assms(6) by simp
  show "b = log_batch ?sees scope epoch (take ?n log) (take limit (drop ?n log)) (?n + limit < length log)"
    using at assms(6) cursor unfolding b entries log_batch_def
    by (simp add: feed_next_def)
  show "materialized_batch_projected (mb_scope b) (mb_cursor b) (mb_entries b) (mb_next_cursor b)
      (mb_has_more b) = Inr b"
    using materialized_projection [OF ledger_materialized_valid [OF server_db_ok [OF assms(1)] ledger]]
      at(2) unfolding b by simp
  show "\<forall>e\<in>set (mb_entries b). \<exists>x\<in>set log. mz_resource e = entry_resource scope x"
    unfolding b using entries by (auto simp: entry_materialized_def dest: in_set_takeD in_set_dropD)
qed

lemma served_snapshot:
  assumes "server_db cod (se_db s) L" "L scope = Some (epoch, log)" "context_codec cod"
    and "membership_admits auth m" "member_scope m = scope" "pm_project_id m = pid"
    and "service_snapshot cod (sqlite_store (cd_handoff_of cod)) auth m pid s = Inr snap"
  shows "shows_log (member_sees cod (aa_actor_id auth) scope) scope epoch log snap"
    and "snapshot_new (sn_scope snap) (sn_project_epoch snap) (sn_at_seq snap) (sn_resources snap) = Inr snap"
proof -
  have rep: "sqlite_rep (cd_handoff_of cod) s L" using assms(1) by (simp add: server_db_def sqlite_rep_def)
  obtain access where access: "access_authorize auth m = Inr access" "access_scope access = scope"
    using access_granted [OF assms(4)] assms(5) by auto
  obtain full where full: "snapshot (se_db s) scope = Inr full"
    using assms(7) access by (auto simp: service_snapshot_def Let_def result_iffs split: if_splits)
  then have ledger: "ledger_snapshot L scope = Inr full"
    using snapshot_rel [of "cd_handoff_of cod" "se_db s" L scope] assms(1) by (simp add: server_db_def)
  let ?refs = "sort_key ref_key (remdups (map le_ref log))"
  have f: "full = \<lparr>sn_scope = scope, sn_project_epoch = epoch, sn_at_seq = of_nat (length log),
      sn_resources = map (\<lambda>ref. the (ledger_resource L scope ref)) ?refs\<rparr>"
    using ledger assms(2) by (auto simp: ledger_snapshot_def Let_def split: if_splits)
  have res: "set (sn_resources full) = {entry_resource scope e | e. last_entry log (le_ref e) = Some e}"
  proof -
    have "the (ledger_resource L scope ref) = entry_resource scope (the (last_entry log ref))"
      if "ref \<in> le_ref ` set log" for ref
      using that assms(2) last_entry_None [of log ref]
      by (cases "last_entry log ref") (auto simp: ledger_resource_def)
    then have "set (sn_resources full) = (\<lambda>ref. entry_resource scope (the (last_entry log ref))) ` le_ref ` set log"
      using f by auto
    also have "\<dots> = {entry_resource scope e | e. last_entry log (le_ref e) = Some e}"
    proof (intro set_eqI iffI)
      fix r assume "r \<in> (\<lambda>ref. entry_resource scope (the (last_entry log ref))) ` le_ref ` set log"
      then obtain ref where ref: "ref \<in> le_ref ` set log" "r = entry_resource scope (the (last_entry log ref))"
        by blast
      then obtain e where e: "last_entry log ref = Some e" using last_entry_None [of log ref] by auto
      then have "le_ref e = ref" using last_entry_Some by blast
      then show "r \<in> {entry_resource scope e | e. last_entry log (le_ref e) = Some e}" using ref(2) e by auto
    next
      fix r assume "r \<in> {entry_resource scope e | e. last_entry log (le_ref e) = Some e}"
      then obtain e where e: "r = entry_resource scope e" "last_entry log (le_ref e) = Some e" by blast
      then have "e \<in> set log" using last_entry_Some by blast
      then show "r \<in> (\<lambda>ref. entry_resource scope (the (last_entry log ref))) ` le_ref ` set log"
        using e by (intro image_eqI [of _ _ "le_ref e"]) auto
    qed
    finally show ?thesis .
  qed
  have "context_decodes cod r" if r: "r \<in> set (sn_resources full)" for r
  proof -
    obtain e where e: "r = entry_resource scope e" "last_entry log (le_ref e) = Some e" using r res by blast
    then have "e \<in> set (log_of L scope)" using assms(2) last_entry_Some by auto
    then show ?thesis using entry_context_decodes [of cod L e scope] assms(1,3) e(1)
      by (simp add: server_db_def)
  qed
  then have snap: "snap = full\<lparr>sn_resources := filter (may_see cod (aa_actor_id auth)) (sn_resources full)\<rparr>"
    using sqlite.snapshot_projected [OF rep assms(4), of cod pid full] full assms(5-7) by simp
  note valid = ledger_snapshot_valid [OF server_db_ok [OF assms(1)] ledger]
  have proj: "snapshot_new scope (sn_project_epoch full) (sn_at_seq full)
      (filter (may_see cod (aa_actor_id auth)) (sn_resources full)) = Inr snap"
    using snapshot_projection [OF valid] snap by simp
  then have "distinct (map cr_resource (sn_resources snap))"
    by (auto simp: snapshot_new_Inr_iff snap)
  moreover have "set (sn_resources snap) = {entry_resource scope e | e.
      last_entry log (le_ref e) = Some e \<and> member_sees cod (aa_actor_id auth) scope e}"
    using res by (auto simp: snap member_sees_def)
  ultimately show "shows_log (member_sees cod (aa_actor_id auth) scope) scope epoch log snap"
    using f by (simp add: shows_log_def snap)
  show "snapshot_new (sn_scope snap) (sn_project_epoch snap) (sn_at_seq snap) (sn_resources snap) = Inr snap"
    using proj f by (simp add: snap)
qed

end
