(* ===== verification/Replica_Feed.thy ===== *)
theory Replica_Feed
  imports Replica_Server
begin

text \<open>
  The modelled server is a feed source for the modelled client: the laws of \<open>feed_source\<close>, proved of
  the handlers, and of \<open>steady_source\<close> while the server stands still and answers.
\<close>

section \<open>The server as a source\<close>

text \<open>
  The server's databases at the client's calls are those of one run; the codec does what serde_json
  does; and the client's bearer token belongs to one actor.
\<close>

definition feed_setting ::
  "codec \<Rightarrow> (nat \<Rightarrow> sqlite_env) \<Rightarrow> headers \<Rightarrow> authenticated_actor \<Rightarrow> bool" where
  "feed_setting cod runs hdr auth \<longleftrightarrow>
     sha256_sized cod \<and> handoff_codec cod \<and> context_codec cod \<and> value_codec cod \<and>
     id_ok (aa_tenant_id auth) \<and> id_ok (aa_actor_id auth) \<and>
     (\<forall>t. server_steps cod (se_db (runs t)) (se_db (runs (Suc t)))) \<and>
     (\<forall>t digest other. bearer_digest_from_headers cod hdr = Inr digest \<longrightarrow>
        authenticate_token (se_db (runs t)) digest = Inr (Some other) \<longrightarrow> other = auth)"

definition served_log ::
  "codec \<Rightarrow> (nat \<Rightarrow> sqlite_env) \<Rightarrow> headers \<Rightarrow> authenticated_actor \<Rightarrow> project_id \<Rightarrow> project_epoch
    \<Rightarrow> nat \<Rightarrow> log_entry list \<Rightarrow> bool" where
  "served_log cod runs hdr auth pid epoch t log \<longleftrightarrow>
     feed_setting cod runs hdr auth \<and> id_ok pid \<and>
     (\<exists>L. server_db cod (se_db (runs t)) L \<and> L (scope_new (aa_tenant_id auth) pid) = Some (epoch, log))"

lemma served_log_grows:
  assumes "served_log cod runs hdr auth pid epoch t log"
  shows "\<exists>ext. served_log cod runs hdr auth pid epoch (Suc t) (log @ ext)"
proof -
  let ?scope = "scope_new (aa_tenant_id auth) pid"
  obtain L where L: "server_db cod (se_db (runs t)) L" "L ?scope = Some (epoch, log)"
    using assms by (auto simp: served_log_def)
  have "server_steps cod (se_db (runs t)) (se_db (runs (Suc t)))" "sha256_sized cod"
    using assms by (auto simp: served_log_def feed_setting_def)
  then obtain L' where L': "server_db cod (se_db (runs (Suc t))) L'" "ledger_extends L L'"
    using steps_refine [of cod "se_db (runs t)" "se_db (runs (Suc t))" L] L(1)
    by (auto simp: server_db_def)
  obtain ext where "L' ?scope = Some (epoch, log @ ext)" using extendsD [OF L'(2) L(2)] .
  then show ?thesis using assms L'(1) by (auto simp: served_log_def)
qed

lemma served_context:
  assumes "served_log cod runs hdr auth pid epoch t log"
    and "bearer_digest_from_headers cod hdr = Inr digest"
    and "request_context (sc_identity (sqlite_store (cd_handoff_of cod))) digest pid (runs t) = Inr (other, m)"
  shows "other = auth" "membership_admits auth m" "member_scope m = scope_new (aa_tenant_id auth) pid"
    "pm_project_id m = pid"
proof -
  have "authenticate_token (se_db (runs t)) digest = Inr (Some other)"
    using assms(3) by (auto simp: request_context_def sqlite_store_simps sqlite_identity_store_def result_iffs)
  then show other: "other = auth"
    using assms(1,2) unfolding served_log_def feed_setting_def by blast
  from sqlite_server.context_admits [OF assms(3)]
  show "membership_admits auth m" "member_scope m = scope_new (aa_tenant_id auth) pid"
    "pm_project_id m = pid" by (simp_all add: other)
qed

lemma served_wire:
  assumes "server_db cod db L" "L scope = Some (epoch, log)" "value_codec cod" "x \<in> set log"
  shows "\<exists>w. resource_response cod (entry_resource scope x) = Inr w \<and>
    resource_of_wire cod w = Inr (entry_resource scope x)"
proof (rule wire_resource [OF assms(3)])
  fix body assume "cr_state (entry_resource scope x) = Present body"
  moreover have "x \<in> set (log_of L scope)" using assms(2,4) by simp
  ultimately show "\<exists>v. body = canonical_json_bytes cod v"
    using entry_body_canonical [of cod L x scope "cd_handoff_of cod" body] assms(1)
      ledger_entry_ok [OF server_db_ok [OF assms(1)]]
    by (simp add: server_db_def)
qed

text \<open>What the service hands to a member survives the wire.\<close>

lemma sent_snapshot:
  assumes "served_log cod runs hdr auth pid epoch t log" "membership_admits auth m"
    and "member_scope m = scope_new (aa_tenant_id auth) pid" "pm_project_id m = pid"
    and "service_snapshot cod (sqlite_store (cd_handoff_of cod)) auth m pid (runs t) = Inr s"
  shows "shows_log (member_sees cod (aa_actor_id auth) (scope_new (aa_tenant_id auth) pid))
      (scope_new (aa_tenant_id auth) pid) epoch log s"
    "\<exists>w. snapshot_response cod s = Inr w \<and> snapshot_of_wire cod w = Inr s"
    "validate_snapshot s = Inr ()"
proof -
  let ?scope = "scope_new (aa_tenant_id auth) pid"
  obtain L where L: "server_db cod (se_db (runs t)) L" "L ?scope = Some (epoch, log)"
    using assms(1) by (auto simp: served_log_def)
  have codecs: "context_codec cod" "value_codec cod"
    using assms(1) by (auto simp: served_log_def feed_setting_def)
  note served = served_snapshot [OF L codecs(1) assms(2-5)]
  show shown: "shows_log (member_sees cod (aa_actor_id auth) ?scope) ?scope epoch log s" by (rule served(1))
  show "validate_snapshot s = Inr ()" using served(2) by (simp add: validate_snapshot_def)
  show "\<exists>w. snapshot_response cod s = Inr w \<and> snapshot_of_wire cod w = Inr s"
  proof (rule wire_snapshot [OF _ served(2)])
    fix x assume "x \<in> set (sn_resources s)"
    then obtain e where e: "x = entry_resource ?scope e" "last_entry log (le_ref e) = Some e"
      using shown by (auto simp: shows_log_def)
    then show "\<exists>w. resource_response cod x = Inr w \<and> resource_of_wire cod w = Inr x"
      using served_wire [OF L codecs(2), of e] last_entry_Some [OF e(2)] by simp
  qed
qed

lemma sent_batch:
  assumes "served_log cod runs hdr auth pid epoch t log" "membership_admits auth m"
    and "member_scope m = scope_new (aa_tenant_id auth) pid" "cu_project_epoch cursor = epoch"
    and "service_materialized_changes cod (sqlite_store (cd_handoff_of cod)) auth m cursor limit (runs t) = Inr b"
  shows "b = log_batch (member_sees cod (aa_actor_id auth) (scope_new (aa_tenant_id auth) pid))
      (scope_new (aa_tenant_id auth) pid) epoch (take (unat (cu_after_seq cursor)) log)
      (take limit (drop (unat (cu_after_seq cursor)) log))
      (unat (cu_after_seq cursor) + limit < length log)"
    "\<exists>w. materialized_batch_response cod b = Inr w \<and> batch_of_wire cod w = Inr b"
    "validate_materialized_batch b = Inr ()"
proof -
  let ?scope = "scope_new (aa_tenant_id auth) pid"
  obtain L where L: "server_db cod (se_db (runs t)) L" "L ?scope = Some (epoch, log)"
    using assms(1) by (auto simp: served_log_def)
  have codecs: "context_codec cod" "value_codec cod"
    using assms(1) by (auto simp: served_log_def feed_setting_def)
  note served = served_batch [OF L codecs(1) assms(2-5)]
  show "b = log_batch (member_sees cod (aa_actor_id auth) ?scope) ?scope epoch
      (take (unat (cu_after_seq cursor)) log) (take limit (drop (unat (cu_after_seq cursor)) log))
      (unat (cu_after_seq cursor) + limit < length log)" by (rule served(1))
  show "validate_materialized_batch b = Inr ()"
    using served(2) by (simp add: validate_materialized_batch_def)
  show "\<exists>w. materialized_batch_response cod b = Inr w \<and> batch_of_wire cod w = Inr b"
  proof (rule wire_batch [OF _ served(2)])
    fix e assume "e \<in> set (mb_entries b)"
    then obtain x where "x \<in> set log" "mz_resource e = entry_resource ?scope x" using served(3) by blast
    then show "\<exists>w. resource_response cod (mz_resource e) = Inr w \<and>
        resource_of_wire cod w = Inr (mz_resource e)"
      using served_wire [OF L codecs(2), of x] by simp
  qed
qed

text \<open>Each of the three calls, when it is answered, is answered from the current log.\<close>

lemma member_identity_call:
  assumes "served_log cod runs hdr auth pid epoch t log"
    and "tp_identity (server_transport cod runs outs clk hdr) pid t = (t', r)"
  shows "t' = Suc t" "r = Inr i \<Longrightarrow> identity_scope i = scope_new (aa_tenant_id auth) pid \<and>
    pi_project_epoch i = epoch \<and> pi_actor_id i = aa_actor_id auth"
proof -
  show "t' = Suc t" using assms(2) by (simp add: server_transport_def Let_def)
  assume "r = Inr i"
  then obtain out ir where ir: "snd (get_identity cod (sqlite_store (cd_handoff_of cod)) out hdr pid (runs t)) = Inr ir"
    "i = identity_of_wire ir"
    using assms(2) by (auto simp: server_transport_def Let_def result_iffs dest!: delivered_Inr)
  from identity_answered [OF ir(1)] obtain digest other m epoch' where *:
    "bearer_digest_from_headers cod hdr = Inr digest"
    "request_context (sc_identity (sqlite_store (cd_handoff_of cod))) digest pid (runs t) = Inr (other, m)"
    "id_project_epoch (sc_identity (sqlite_store (cd_handoff_of cod))) (runs t)
       (scope_new (aa_tenant_id other) pid) = Inr (Some epoch')"
    "ir = \<lparr>ir_tenant_id = aa_tenant_id other, ir_project_id = pid, ir_project_epoch = epoch',
       ir_actor_id = aa_actor_id other, ir_role = pm_role m\<rparr>" by blast
  note other = served_context(1) [OF assms(1) *(1,2)]
  obtain L where L: "server_db cod (se_db (runs t)) L" "L (scope_new (aa_tenant_id auth) pid) = Some (epoch, log)"
    using assms(1) by (auto simp: served_log_def)
  have "store_rel (cd_handoff_of cod) (se_db (runs t)) L" using L(1) by (simp add: server_db_def)
  from load_project_rel [OF this] have "epoch' = epoch"
    using *(3) L(2) other by (simp add: sqlite_store_simps sqlite_identity_store_def project_epoch_of_def)
  then show "identity_scope i = scope_new (aa_tenant_id auth) pid \<and>
    pi_project_epoch i = epoch \<and> pi_actor_id i = aa_actor_id auth"
    using ir(2) *(4) other by (simp add: identity_of_wire_def identity_scope_def)
qed

lemma member_snapshot_call:
  assumes "served_log cod runs hdr auth pid epoch t log"
    and "client_snapshot cod (server_transport cod runs outs clk hdr) pid t = (t', r)"
  shows "t' = Suc t" "r = Inr snap \<Longrightarrow>
    shows_log (member_sees cod (aa_actor_id auth) (scope_new (aa_tenant_id auth) pid))
      (scope_new (aa_tenant_id auth) pid) epoch log snap"
proof -
  let ?tp = "server_transport cod runs outs clk hdr" and ?store = "sqlite_store (cd_handoff_of cod)"
  let ?scope = "scope_new (aa_tenant_id auth) pid"
  have world: "fst (tp_snapshot ?tp pid t) = Suc t" by (simp add: server_transport_def Let_def)
  then show "t' = Suc t"
    using assms(2) unfolding client_snapshot_def
    by (cases "tp_snapshot ?tp pid t"; cases "snd (tp_snapshot ?tp pid t)")
      (auto simp: try_ok_def split: sum.splits)
  assume r: "r = Inr snap"
  then obtain w where w: "snd (tp_snapshot ?tp pid t) = Inr w" "snapshot_of_wire cod w = Inr snap"
    using assms(2) by (auto simp: client_snapshot_def try_do_Inr try_ok_Inr)
  obtain out where "snd (server_snapshot cod ?store out hdr pid (runs t)) = Inr w"
    using w(1) by (auto simp: server_transport_def Let_def dest!: delivered_Inr)
  from snapshot_answered [OF this] obtain digest other m s where *:
    "bearer_digest_from_headers cod hdr = Inr digest"
    "request_context (sc_identity ?store) digest pid (runs t) = Inr (other, m)"
    "service_snapshot cod ?store other m pid (runs t) = Inr s" "snapshot_response cod s = Inr w" by blast
  note ctx = served_context [OF assms(1) *(1,2)]
  note sent = sent_snapshot [OF assms(1) ctx(2-4) *(3) [unfolded ctx(1)]]
  have "s = snap" using sent(2) *(4) w(2) by auto
  then show "shows_log (member_sees cod (aa_actor_id auth) ?scope) ?scope epoch log snap"
    using sent(1) by simp
qed

lemma member_batch_call:
  assumes "served_log cod runs hdr auth pid epoch t log" "cu_project_epoch cursor = epoch"
    and "client_materialized_changes cod (server_transport cod runs outs clk hdr) pid cursor limit t = (t', r)"
  shows "\<exists>ext. served_log cod runs hdr auth pid epoch t' (log @ ext)" "r = Inr b \<Longrightarrow>
    b = log_batch (member_sees cod (aa_actor_id auth) (scope_new (aa_tenant_id auth) pid))
      (scope_new (aa_tenant_id auth) pid) epoch (take (unat (cu_after_seq cursor)) log)
      (take limit (drop (unat (cu_after_seq cursor)) log))
      (unat (cu_after_seq cursor) + limit < length log)"
proof -
  let ?tp = "server_transport cod runs outs clk hdr" and ?store = "sqlite_store (cd_handoff_of cod)"
  let ?scope = "scope_new (aa_tenant_id auth) pid"
  have world: "fst (tp_materialized ?tp pid cursor limit t) = Suc t"
    by (simp add: server_transport_def Let_def)
  then have "t' = t \<or> t' = Suc t"
    using assms(3) unfolding client_materialized_changes_def
    by (cases "bad_limit limit"; cases "tp_materialized ?tp pid cursor limit t";
        cases "snd (tp_materialized ?tp pid cursor limit t)") (auto simp: try_ok_def split: sum.splits)
  then show "\<exists>ext. served_log cod runs hdr auth pid epoch t' (log @ ext)"
    using served_log_grows [OF assms(1)] assms(1) append_Nil2 by metis
  assume r: "r = Inr b"
  then obtain w where w: "snd (tp_materialized ?tp pid cursor limit t) = Inr w" "batch_of_wire cod w = Inr b"
    using assms(3) by (auto simp: client_materialized_changes_def try_do_Inr try_ok_Inr)
  define q where "q = \<lparr>cq_project_epoch = cu_project_epoch cursor, cq_after_seq = cu_after_seq cursor,
    cq_limit = Some limit\<rparr>"
  obtain out where "snd (server_materialized_changes cod ?store out hdr pid (Inr q) (runs t)) = Inr w"
    using w(1) by (auto simp: server_transport_def Let_def q_def dest!: delivered_Inr)
  from materialized_answered [OF this] obtain digest other m s where *:
    "bearer_digest_from_headers cod hdr = Inr digest"
    "request_context (sc_identity ?store) digest pid (runs t) = Inr (other, m)"
    "service_materialized_changes cod ?store other m (query_cursor q) (query_limit q) (runs t) = Inr s"
    "materialized_batch_response cod s = Inr w" by blast
  have q: "query_cursor q = cursor" "query_limit q = limit"
    by (simp_all add: q_def query_cursor_def query_limit_def)
  note ctx = served_context [OF assms(1) *(1,2)]
  note sent = sent_batch [OF assms(1) ctx(2,3) assms(2) *(3) [unfolded ctx(1) q]]
  have "s = b" using sent(2) *(4) w(2) by auto
  then show "b = log_batch (member_sees cod (aa_actor_id auth) ?scope) ?scope epoch
      (take (unat (cu_after_seq cursor)) log) (take limit (drop (unat (cu_after_seq cursor)) log))
      (unat (cu_after_seq cursor) + limit < length log)"
    using sent(1) by simp
qed

interpretation server_feed: feed_source cod "server_transport cod runs outs clk hdr" pid
    "scope_new (aa_tenant_id auth) pid" epoch "aa_actor_id auth"
    "member_sees cod (aa_actor_id auth) (scope_new (aa_tenant_id auth) pid)" "cd_handoff_of cod"
    "served_log cod runs hdr auth pid epoch"
  for cod runs outs clk hdr pid epoch auth
proof (unfold_locales, goal_cases)
  case (1 t log)
  then obtain L where L: "server_db cod (se_db (runs t)) L"
    "L (scope_new (aa_tenant_id auth) pid) = Some (epoch, log)" "handoff_codec cod"
    by (auto simp: served_log_def feed_setting_def)
  then show ?case
    using server_db_ok [OF L(1)] server_vis_stable [of cod L "aa_actor_id auth" "scope_new (aa_tenant_id auth) pid"]
    by (auto simp: ledger_ok_def server_db_def)
next
  case (2 t log)
  then obtain L where L: "server_db cod (se_db (runs t)) L"
    "L (scope_new (aa_tenant_id auth) pid) = Some (epoch, log)"
    by (auto simp: served_log_def)
  then show ?case
    using server_db_ok [OF L(1)] 2 by (auto simp: ledger_ok_def served_log_def feed_setting_def scope_new_def)
next
  case (3 t log t' r)
  then show ?case using member_identity_call [OF 3] served_log_grows [OF 3(1)] by auto
next
  case (4 t log t' r)
  then show ?case using member_snapshot_call [OF 4] served_log_grows [OF 4(1)] by auto
next
  case (5 t log cursor limit t' r)
  then show ?case using member_batch_call [OF 5] by blast
qed

section \<open>A server that stands still and answers\<close>

definition steady_setting ::
  "codec \<Rightarrow> sqlite_env \<Rightarrow> (nat \<Rightarrow> run_outcome option) \<Rightarrow> (nat \<Rightarrow> int) \<Rightarrow> headers \<Rightarrow> authenticated_actor
    \<Rightarrow> project_id \<Rightarrow> bool" where
  "steady_setting cod s outs clk hdr auth pid \<longleftrightarrow>
     (\<forall>t. outs t = Some Completes) \<and> (\<forall>t. 0 \<le> clk t \<and> clk t \<le> i64_max) \<and>
     (\<exists>digest m. bearer_digest_from_headers cod hdr = Inr digest \<and>
        request_context sqlite_identity_store digest pid s = Inr (auth, m)) \<and>
     (\<exists>snap. snapshot (se_db s) (scope_new (aa_tenant_id auth) pid) = Inr snap)"

definition steady_log ::
  "codec \<Rightarrow> sqlite_env \<Rightarrow> (nat \<Rightarrow> run_outcome option) \<Rightarrow> (nat \<Rightarrow> int) \<Rightarrow> headers \<Rightarrow> authenticated_actor
    \<Rightarrow> project_id \<Rightarrow> project_epoch \<Rightarrow> nat \<Rightarrow> log_entry list \<Rightarrow> bool" where
  "steady_log cod s outs clk hdr auth pid epoch t log \<longleftrightarrow>
     steady_setting cod s outs clk hdr auth pid \<and> served_log cod (\<lambda>_. s) hdr auth pid epoch t log"

lemma steady_context:
  assumes "steady_log cod s outs clk hdr auth pid epoch t log"
  obtains digest m where "bearer_digest_from_headers cod hdr = Inr digest"
    "request_context sqlite_identity_store digest pid s = Inr (auth, m)" "membership_admits auth m"
    "member_scope m = scope_new (aa_tenant_id auth) pid" "pm_project_id m = pid" "id_ok pid"
    "outs t = Some Completes" "server_steps cod (se_db s) (se_db s)"
proof -
  obtain digest m where *: "bearer_digest_from_headers cod hdr = Inr digest"
    "request_context sqlite_identity_store digest pid s = Inr (auth, m)"
    using assms by (auto simp: steady_log_def steady_setting_def)
  have "request_context (sc_identity (sqlite_store (cd_handoff_of cod))) digest pid s = Inr (auth, m)"
    using *(2) by (simp add: sqlite_store_simps)
  from sqlite_server.context_admits [OF this] that [OF *] assms show thesis
    by (auto simp: steady_log_def steady_setting_def served_log_def)
qed

lemma steady_log_Suc: "steady_log cod s outs clk hdr auth pid epoch t log \<Longrightarrow>
    steady_log cod s outs clk hdr auth pid epoch t' log"
  by (simp add: steady_log_def served_log_def)

lemma steady_log_ledger:
  assumes "steady_log cod s outs clk hdr auth pid epoch t log"
  obtains L where "server_db cod (se_db s) L" "L (scope_new (aa_tenant_id auth) pid) = Some (epoch, log)"
    "sqlite_rep (cd_handoff_of cod) s L" "context_codec cod"
  using assms by (auto simp: steady_log_def served_log_def feed_setting_def server_db_def sqlite_rep_def)

lemma steady_identity_call:
  assumes "steady_log cod s outs clk hdr auth pid epoch t log"
  shows "\<exists>i. tp_identity (server_transport cod (\<lambda>_. s) outs clk hdr) pid t = (Suc t, Inr i)"
proof -
  obtain digest m where ctx: "bearer_digest_from_headers cod hdr = Inr digest"
    "request_context sqlite_identity_store digest pid s = Inr (auth, m)" "id_ok pid"
    "outs t = Some Completes" using steady_context [OF assms] by metis
  obtain L where L: "store_rel (cd_handoff_of cod) (se_db s) L"
    "L (scope_new (aa_tenant_id auth) pid) = Some (epoch, log)"
    using steady_log_ledger [OF assms] by (metis server_db_def)
  have "project_epoch_of (se_db s) (scope_new (aa_tenant_id auth) pid) = Inr (Some epoch)"
    using load_project_rel [OF L(1)] L(2) by (simp add: project_epoch_of_def)
  then show ?thesis
    using ctx by (simp add: server_transport_def Let_def delivered_def get_identity_def sqlite_store_simps run_service_def reading_def ok_or_def wire_answer_def)
qed

lemma snapshot_entries:
  assumes "ledger_snapshot L scope = Inr full" "L scope = Some (epoch, log)" "r \<in> set (sn_resources full)"
  obtains e where "r = entry_resource scope e" "last_entry log (le_ref e) = Some e"
proof -
  have "r \<in> (\<lambda>ref. the (ledger_resource L scope ref)) ` le_ref ` set log"
    using assms by (auto simp: ledger_snapshot_def Let_def split: if_splits)
  then obtain ref where ref: "ref \<in> le_ref ` set log" "r = the (ledger_resource L scope ref)" by blast
  then obtain e where e: "last_entry log ref = Some e" using last_entry_None [of log ref] by auto
  moreover from e have "le_ref e = ref" using last_entry_Some by blast
  ultimately show thesis using that [of e] ref(2) assms(2) by (simp add: ledger_resource_def)
qed

lemma steady_snapshot_call:
  assumes "steady_log cod s outs clk hdr auth pid epoch t log"
  shows "\<exists>snap. client_snapshot cod (server_transport cod (\<lambda>_. s) outs clk hdr) pid t = (Suc t, Inr snap)"
proof -
  let ?store = "sqlite_store (cd_handoff_of cod)" and ?scope = "scope_new (aa_tenant_id auth) pid"
  obtain digest m where ctx: "bearer_digest_from_headers cod hdr = Inr digest"
    "request_context sqlite_identity_store digest pid s = Inr (auth, m)" "membership_admits auth m"
    "member_scope m = ?scope" "pm_project_id m = pid" "id_ok pid" "outs t = Some Completes"
    using steady_context [OF assms] by metis
  obtain L where L: "server_db cod (se_db s) L" "L ?scope = Some (epoch, log)"
    "sqlite_rep (cd_handoff_of cod) s L" "context_codec cod" using steady_log_ledger [OF assms] .
  obtain full where full: "snapshot (se_db s) ?scope = Inr full"
    using assms by (auto simp: steady_log_def steady_setting_def)
  then have "ledger_snapshot L ?scope = Inr full"
    using snapshot_rel [of "cd_handoff_of cod" "se_db s" L ?scope] L(1) by (simp add: server_db_def)
  then have shown: "r \<in> set (sn_resources full) \<Longrightarrow> context_decodes cod r" for r
    using snapshot_entries [of L ?scope full epoch log r, OF _ L(2)] entry_context_decodes [OF _ _ L(4), of L _ ?scope] L(1,2)
      last_entry_Some by (metis log_of_simps(2) server_db_def)
  then obtain snap where snap: "service_snapshot cod ?store auth m pid s = Inr snap"
    using sqlite.snapshot_projected [OF L(3) ctx(3) refl ctx(5)] full ctx(4)
    by (simp add: sqlite_store_simps)
  have "served_log cod (\<lambda>_. s) hdr auth pid epoch t log" using assms by (simp add: steady_log_def)
  note sent = sent_snapshot [OF this ctx(3-5) snap]
  then obtain w where "snapshot_response cod snap = Inr w" "snapshot_of_wire cod w = Inr snap" by blast
  then show ?thesis
    using ctx snap sent(3)
    by (simp add: client_snapshot_def server_transport_def Let_def delivered_def server_snapshot_def
        sqlite_store_simps run_service_def reading_def wire_answer_def)
qed

lemma steady_batch_call:
  assumes "steady_log cod s outs clk hdr auth pid epoch t log" "bad_limit limit = Inr ()"
    and "cu_project_epoch cursor = epoch" "unat (cu_after_seq cursor) \<le> length log"
  shows "\<exists>b. client_materialized_changes cod (server_transport cod (\<lambda>_. s) outs clk hdr) pid cursor limit t =
    (Suc t, Inr b)"
proof -
  let ?store = "sqlite_store (cd_handoff_of cod)" and ?scope = "scope_new (aa_tenant_id auth) pid"
  obtain digest m where ctx: "bearer_digest_from_headers cod hdr = Inr digest"
    "request_context sqlite_identity_store digest pid s = Inr (auth, m)" "membership_admits auth m"
    "member_scope m = ?scope" "id_ok pid" "outs t = Some Completes"
    using steady_context [OF assms(1)] by metis
  obtain L where L: "server_db cod (se_db s) L" "L ?scope = Some (epoch, log)"
    "sqlite_rep (cd_handoff_of cod) s L" "context_codec cod" using steady_log_ledger [OF assms(1)] .
  have "0 < limit" "limit \<le> MAX_CHANGE_LIMIT"
    using assms(2) by (auto simp: bad_limit_def CLIENT_CHANGE_LIMIT_def MAX_CHANGE_LIMIT_def split: if_splits)
  then have "\<exists>full. ledger_materialized L ?scope cursor limit = Inr full"
    using L(2) assms(3,4) by (simp add: ledger_materialized_def feed_window_def)
  then obtain full where full: "ledger_materialized L ?scope cursor limit = Inr full" by blast
  obtain log0 where "L ?scope = Some (cu_project_epoch cursor, log0)"
    "mb_entries full = map (entry_materialized ?scope (cu_project_epoch cursor))
      (take limit (drop (unat (cu_after_seq cursor)) log0))"
    using ledger_materialized_Inr [OF full] by (metis materialized_batch.select_convs(3))
  then have "\<forall>e\<in>set (mb_entries full). context_decodes cod (mz_resource e)"
    using entry_context_decodes [OF _ _ L(4), of L _ ?scope] L(1,2)
    by (auto simp: entry_materialized_def server_db_def dest!: in_set_takeD in_set_dropD)
  moreover have "materialized_changes (se_db s) ?scope cursor limit = Inr full"
    using materialized_changes_rel [of "cd_handoff_of cod" "se_db s" L ?scope cursor limit] full L(1)
    by (simp add: server_db_def)
  ultimately obtain b where b: "service_materialized_changes cod ?store auth m cursor limit s = Inr b"
    using sqlite.materialized_projected [OF L(3) ctx(3) refl, of cursor limit full] ctx(4)
    by (simp add: sqlite_store_simps)
  have "served_log cod (\<lambda>_. s) hdr auth pid epoch t log" using assms(1) by (simp add: steady_log_def)
  note sent = sent_batch [OF this ctx(3,4) assms(3) b]
  then obtain w where "materialized_batch_response cod b = Inr w" "batch_of_wire cod w = Inr b" by blast
  moreover obtain ep n where "cursor = \<lparr>cu_project_epoch = ep, cu_after_seq = n\<rparr>" by (cases cursor)
  ultimately show ?thesis
    using ctx b sent(3) assms(2)
    by (simp add: client_materialized_changes_def server_transport_def Let_def delivered_def
        server_materialized_changes_def sqlite_store_simps run_service_def reading_def wire_answer_def
        extracted_def query_cursor_def query_limit_def)
qed

interpretation steady_server: steady_source cod "server_transport cod (\<lambda>_. s) outs clk hdr" pid
    "scope_new (aa_tenant_id auth) pid" epoch "aa_actor_id auth"
    "member_sees cod (aa_actor_id auth) (scope_new (aa_tenant_id auth) pid)" "cd_handoff_of cod"
    "steady_log cod s outs clk hdr auth pid epoch"
  for cod s outs clk hdr pid epoch auth
proof (unfold_locales, goal_cases)
  case (1 t log)
  then show ?case using server_feed.log_good unfolding steady_log_def by blast
next
  case (2 t log)
  then show ?case using server_feed.ids_good unfolding steady_log_def by blast
next
  case (3 t log t' r)
  then show ?case using member_identity_call [of cod "\<lambda>_. s" hdr auth pid epoch t log outs clk t' r]
      steady_log_Suc [OF 3(1), of t'] append_Nil2 unfolding steady_log_def by metis
next
  case (4 t log t' r)
  then show ?case using member_snapshot_call [of cod "\<lambda>_. s" hdr auth pid epoch t log outs clk t' r]
      steady_log_Suc [OF 4(1), of t'] append_Nil2 unfolding steady_log_def by metis
next
  case (5 t log cursor limit t' r)
  then show ?case using member_batch_call [of cod "\<lambda>_. s" hdr auth pid epoch t log cursor outs clk limit t' r]
      steady_log_Suc [OF 5(1), of t'] append_Nil2 unfolding steady_log_def by metis
next
  case (6 t log)
  then show ?case using steady_identity_call [OF 6] steady_log_Suc [OF 6] by blast
next
  case (7 t log)
  then show ?case using steady_snapshot_call [OF 7] steady_log_Suc [OF 7] by blast
next
  case (8 t log limit cursor)
  then show ?case using steady_batch_call [OF 8] steady_log_Suc [OF 8(1)] by blast
next
  case (9 t log)
  then show ?case by (simp add: steady_log_def steady_setting_def server_transport_def Let_def)
qed

end
