(* ===== verification/Replica_Safety.thy ===== *)
theory Replica_Safety
  imports Replica_Log
begin

text \<open>
  What holds of a replica file whatever the servers it pulled from answered: it stays well-typed, so
  every read of it decodes, and nothing it knows is ever replaced by something older.
\<close>

section \<open>Well-typed files\<close>

definition meta_typed :: "meta_row \<Rightarrow> bool" where
  "meta_typed m \<longleftrightarrow> id_ok (mt_tenant_id m) \<and> id_ok (mt_project_id m) \<and> id_ok (mt_project_epoch m) \<and>
     (\<forall>a. mt_actor_id m = Some a \<longrightarrow> id_ok a) \<and> 0 \<le> mt_after_seq m \<and> mt_after_seq m \<le> i64_max"

definition row_typed :: "replica_row \<Rightarrow> bool" where
  "row_typed x \<longleftrightarrow> replica_check x \<and> rx_revision x \<le> i64_max"

definition replica_typed :: "replica_db \<Rightarrow> bool" where
  "replica_typed db \<longleftrightarrow> length (rp_meta db) \<le> 1 \<and> (\<forall>m\<in>set (rp_meta db). meta_typed m) \<and>
     (\<forall>x\<in>set (rp_resources db). row_typed x) \<and> distinct (map rx_ref (rp_resources db)) \<and>
     (rp_meta db = [] \<longrightarrow> rp_resources db = [])"

definition identity_typed :: "project_identity \<Rightarrow> bool" where
  "identity_typed i \<longleftrightarrow> id_ok (pi_tenant_id i) \<and> id_ok (pi_project_id i) \<and>
     id_ok (pi_project_epoch i) \<and> id_ok (pi_actor_id i)"

lemma replica_typed_cases:
  assumes "replica_typed db"
  obtains (fresh) "rp_meta db = []" "rp_resources db = []"
  | (initialized) m where "rp_meta db = [m]" "meta_typed m"
  using assms by (cases "rp_meta db") (auto simp: replica_typed_def)

lemma uint_of_int_i64: "0 \<le> v \<Longrightarrow> v \<le> i64_max \<Longrightarrow> uint (of_int v :: u64) = v"
  by (simp add: i64_max_def uint_word_of_int)

lemma load_meta_typed:
  "rp_meta db = [] \<Longrightarrow> load_meta db = Inr None"
  "rp_meta db = [m] \<Longrightarrow> meta_typed m \<Longrightarrow>
     load_meta db = Inr (Some \<lparr>rm_scope = scope_new (mt_tenant_id m) (mt_project_id m),
       rm_project_epoch = mt_project_epoch m, rm_actor_id = mt_actor_id m,
       rm_after_seq = of_int (mt_after_seq m), rm_updated_at_ms = mt_updated_at_ms m\<rparr>)"
proof -
  show "rp_meta db = [] \<Longrightarrow> load_meta db = Inr None" by (simp add: load_meta_def)
  assume m: "rp_meta db = [m]" "meta_typed m"
  then have "client_from_i64 field (mt_after_seq m) = Inr (of_int (mt_after_seq m))" for field
    by (simp add: client_from_i64_def i64_try_u64_def meta_typed_def)
  moreover have "map_transpose (\<lambda>a. in_domain (id_try_from ''actor_id'' a)) (mt_actor_id m) = Inr (mt_actor_id m)"
    using m(2) by (cases "mt_actor_id m") (simp_all add: meta_typed_def)
  ultimately show "load_meta db = Inr (Some \<lparr>rm_scope = scope_new (mt_tenant_id m) (mt_project_id m),
       rm_project_epoch = mt_project_epoch m, rm_actor_id = mt_actor_id m,
       rm_after_seq = of_int (mt_after_seq m), rm_updated_at_ms = mt_updated_at_ms m\<rparr>)"
    using m by (simp add: load_meta_def decode_meta_def meta_typed_def)
qed

lemma load_meta_total: "replica_typed db \<Longrightarrow> \<exists>found. load_meta db = Inr found"
  by (erule replica_typed_cases) (auto simp: load_meta_typed)

text \<open>Every read of a well-typed file decodes.\<close>

lemma decode_total:
  assumes "row_typed x"
  shows "\<exists>r. decode_replica_resource scope ref (rx_revision x) (rx_deleted x) (rx_body x) = Inr r"
proof -
  have x: "0 < rx_revision x" "rx_revision x \<le> i64_max"
    "rx_deleted x = 0 \<and> rx_body x \<noteq> None \<or> rx_deleted x = 1 \<and> rx_body x = None"
    using assms by (auto simp: row_typed_def replica_check_def)
  have "uint (of_int (rx_revision x) :: u64) = rx_revision x" using x(1,2) by (intro uint_of_int_i64) auto
  then have "rev_ok (of_int (rx_revision x))" using x(1) by (simp add: rev_ok_uint)
  then show ?thesis
    using x by (auto simp: decode_replica_resource_def client_from_i64_def i64_try_u64_def
        revision_new_def rev_ok_def)
qed

lemma reads_total:
  assumes "replica_typed db"
  shows "\<exists>cursor. replica_cursor db = Inr cursor" "\<exists>found. replica_resource db ref = Inr found"
    "\<exists>st. status_of db = Inr st"
proof -
  obtain meta where meta: "load_meta db = Inr meta" using load_meta_total [OF assms] by blast
  show "\<exists>cursor. replica_cursor db = Inr cursor" using meta by (simp add: replica_cursor_def)
  show "\<exists>st. status_of db = Inr st"
    using meta by (simp add: status_of_def select_count_def client_from_i64_def i64_try_u64_def Let_def)
  show "\<exists>found. replica_resource db ref = Inr found"
  proof (cases meta)
    case None
    then show ?thesis using meta by (simp add: replica_resource_def)
  next
    case (Some m)
    show ?thesis
    proof (cases "find (\<lambda>x. rx_ref x = ref) (rp_resources db)")
      case None
      then show ?thesis using meta Some by (simp add: replica_resource_def)
    next
      case found: (Some x)
      then have "row_typed x" using assms by (auto simp: replica_typed_def dest: find_Some_set)
      then show ?thesis
        using meta Some found decode_total [of x "rm_scope m" ref] by (auto simp: replica_resource_def)
    qed
  qed
qed

section \<open>Progress\<close>

text \<open>
  Every resource known before is known after, with the same content or a higher revision; the file
  keeps its project, epoch and actor, and the cursor does not move back.
\<close>

definition cells_advance ::
  "(resource_ref \<Rightarrow> (i64 \<times> i64 \<times> bytes option) option) \<Rightarrow>
    (resource_ref \<Rightarrow> (i64 \<times> i64 \<times> bytes option) option) \<Rightarrow> bool" where
  "cells_advance f g \<longleftrightarrow>
     (\<forall>ref c. f ref = Some c \<longrightarrow> (\<exists>c'. g ref = Some c' \<and> (c' = c \<or> fst c < fst c')))"

definition meta_owner :: "meta_row \<Rightarrow> string \<times> string \<times> string \<times> string option" where
  "meta_owner m = (mt_tenant_id m, mt_project_id m, mt_project_epoch m, mt_actor_id m)"

definition cursor_advances :: "meta_row list \<Rightarrow> meta_row list \<Rightarrow> bool" where
  "cursor_advances ms ms' \<longleftrightarrow> (\<forall>m\<in>set ms. \<exists>m'\<in>set ms'.
     meta_owner m' = meta_owner m \<and> mt_after_seq m \<le> mt_after_seq m')"

definition replica_advances :: "replica_db \<Rightarrow> replica_db \<Rightarrow> bool" where
  "replica_advances db db' \<longleftrightarrow> cells_advance (replica_view db) (replica_view db') \<and>
     cursor_advances (rp_meta db) (rp_meta db')"

lemma cells_advance_refl [simp]: "cells_advance f f"
  by (simp add: cells_advance_def)

lemma cells_advance_trans:
  assumes "cells_advance f g" "cells_advance g h"
  shows "cells_advance f h"
  unfolding cells_advance_def
proof (intro allI impI)
  fix ref c assume "f ref = Some c"
  then obtain c' where c': "g ref = Some c'" "c' = c \<or> fst c < fst c'"
    using assms(1) unfolding cells_advance_def by blast
  then obtain c'' where "h ref = Some c''" "c'' = c' \<or> fst c' < fst c''"
    using assms(2) unfolding cells_advance_def by blast
  with c'(2) show "\<exists>c''. h ref = Some c'' \<and> (c'' = c \<or> fst c < fst c'')"
    by (intro exI [of _ c'']) auto
qed

lemma cursor_advances_refl [simp]: "cursor_advances ms ms"
  unfolding cursor_advances_def by force

lemma cursor_advances_trans:
  assumes "cursor_advances ms ms'" "cursor_advances ms' ms''"
  shows "cursor_advances ms ms''"
  unfolding cursor_advances_def
proof
  fix m assume "m \<in> set ms"
  then obtain m' where m': "m' \<in> set ms'" "meta_owner m' = meta_owner m" "mt_after_seq m \<le> mt_after_seq m'"
    using assms(1) unfolding cursor_advances_def by blast
  then obtain m'' where "m'' \<in> set ms''" "meta_owner m'' = meta_owner m'" "mt_after_seq m' \<le> mt_after_seq m''"
    using assms(2) unfolding cursor_advances_def by blast
  with m' show "\<exists>m''\<in>set ms''. meta_owner m'' = meta_owner m \<and> mt_after_seq m \<le> mt_after_seq m''"
    by (intro bexI [of _ m'']) simp_all
qed

lemma replica_advances_refl [simp]: "replica_advances db db"
  by (simp add: replica_advances_def)

lemma replica_advances_trans:
  "replica_advances db db' \<Longrightarrow> replica_advances db' db'' \<Longrightarrow> replica_advances db db''"
  unfolding replica_advances_def using cells_advance_trans cursor_advances_trans by blast

section \<open>Applying resources\<close>

lemma apply_resource_Inr:
  assumes "apply_resource db r observed = Inr db'"
  obtains (kept) "db' = db"
  | (stored) row rows where "db' = db\<lparr>rp_resources := rows\<rparr>"
      "upsert_row rx_ref replica_check (\<lambda>_. True) row (rp_resources db) = Some rows"
      "rx_ref row = cr_resource r" "row_typed row"
      "\<And>x. find (\<lambda>x. rx_ref x = cr_resource r) (rp_resources db) = Some x \<Longrightarrow>
         rx_revision x < rx_revision row"
proof -
  obtain revision where rev': "client_to_i64 ''revision'' (cr_revision r) = Inr revision"
    using assms by (auto simp: apply_resource_def Let_def result_iffs)
  then have bound: "revision \<le> i64_max"
    by (auto simp: client_to_i64_def u64_try_i64_def result_iffs split: if_splits)
  define deleted where "deleted = fst (snd (resource_cell r))"
  define body where "body = snd (snd (resource_cell r))"
  have split: "(case cr_state r of Present b \<Rightarrow> (0, Some b) | Deleted \<Rightarrow> (1, None)) = (deleted, body)"
    by (cases "cr_state r") (simp_all add: deleted_def body_def resource_cell_def)
  show thesis
  proof (cases "db' = db")
    case False
    let ?find = "find (\<lambda>x. rx_ref x = cr_resource r) (rp_resources db)"
    have older: "rx_revision x < revision" if "?find = Some x" for x
      using assms that False rev' by (auto simp: apply_resource_def Let_def split split: if_splits)
    obtain obs rows where rows: "upsert_row rx_ref replica_check (\<lambda>_. True)
        \<lparr>rx_kind = rf_kind (cr_resource r), rx_id = rf_id (cr_resource r), rx_revision = revision,
         rx_deleted = deleted, rx_body = body, rx_observed_after_seq = obs\<rparr> (rp_resources db) = Some rows"
      "db' = db\<lparr>rp_resources := rows\<rparr>"
      using assms False rev' by (auto simp: apply_resource_def Let_def split result_iffs client_sql_def
          split: option.splits if_splits)
    then have "replica_check \<lparr>rx_kind = rf_kind (cr_resource r), rx_id = rf_id (cr_resource r),
        rx_revision = revision, rx_deleted = deleted, rx_body = body, rx_observed_after_seq = obs\<rparr>"
      by (simp add: upsert_row_def split: if_splits)
    then show thesis
      using stored [OF rows(2,1)] bound older by (simp add: rx_ref_def row_typed_def)
  qed (rule kept)
qed

lemma apply_resource_advances:
  assumes "apply_resource db r observed = Inr db'"
  shows "rp_meta db' = rp_meta db \<and> cells_advance (replica_view db) (replica_view db') \<and>
    ((\<forall>x\<in>set (rp_resources db). row_typed x) \<longrightarrow> (\<forall>x\<in>set (rp_resources db'). row_typed x)) \<and>
    (distinct (map rx_ref (rp_resources db)) \<longrightarrow> distinct (map rx_ref (rp_resources db')))"
proof (cases rule: apply_resource_Inr [OF assms])
  case (2 row rows)
  have "cells_advance (replica_view db) (replica_view db')"
    using 2(5)
    by (auto simp: cells_advance_def 2(1) replica_view_def find_upsert [OF 2(2)] 2(3) row_cell_def)
  moreover have "\<forall>x\<in>set (rp_resources db'). row_typed x" if "\<forall>x\<in>set (rp_resources db). row_typed x"
    using that 2(1,2,4) by (auto simp: upsert_row_def split: if_splits)
  moreover have "distinct (map rx_ref (rp_resources db'))" if "distinct (map rx_ref (rp_resources db))"
    using upsert_keys [OF 2(2) that] 2(1) by simp
  ultimately show ?thesis using 2(1) by simp
qed simp

lemma apply_resources_advance:
  assumes "apply_resources db rs = Inr db'"
  shows "rp_meta db' = rp_meta db \<and> cells_advance (replica_view db) (replica_view db') \<and>
    ((\<forall>x\<in>set (rp_resources db). row_typed x) \<longrightarrow> (\<forall>x\<in>set (rp_resources db'). row_typed x)) \<and>
    (distinct (map rx_ref (rp_resources db)) \<longrightarrow> distinct (map rx_ref (rp_resources db')))"
  using assms
proof (induction rs arbitrary: db)
  case (Cons a rs)
  obtain r observed where a: "a = (r, observed)" by (cases a)
  then obtain db1 where db1: "apply_resource db r observed = Inr db1" "apply_resources db1 rs = Inr db'"
    using Cons.prems by (auto simp: result_iffs)
  note one = apply_resource_advances [OF db1(1)]
  from Cons.IH [OF db1(2)] show ?case using one cells_advance_trans by (metis (no_types, lifting))
qed simp

section \<open>Transactions\<close>

text \<open>What every write of a client may do to the file.\<close>

definition replica_safe :: "replica_db \<Rightarrow> replica_db \<Rightarrow> bool" where
  "replica_safe db db' \<longleftrightarrow> (replica_typed db \<longrightarrow> replica_typed db' \<and> replica_advances db db')"

lemma replica_safe_refl [simp]: "replica_safe db db"
  by (simp add: replica_safe_def)

lemma replica_safe_trans: "replica_safe db db' \<Longrightarrow> replica_safe db' db'' \<Longrightarrow> replica_safe db db''"
  unfolding replica_safe_def using replica_advances_trans by blast

lemma uint_le_u64: "(a :: u64) \<le> b \<Longrightarrow> uint a \<le> uint b"
  by (simp add: word_le_def)

lemma batch_applied_safe:
  assumes "validate_materialized_batch b = Inr ()" "batch_tx clock b db = Inr db'"
  shows "replica_safe db db'"
  unfolding replica_safe_def
proof
  assume typed: "replica_typed db"
  obtain meta where meta: "load_meta db = Inr (Some meta)" "rm_after_seq meta = cu_after_seq (mb_cursor b)"
    using assms(2) by (auto simp: batch_tx_def result_iffs split: if_splits)
  then obtain m where m: "rp_meta db = [m]" "meta_typed m"
    by (cases rule: replica_typed_cases [OF typed]) (auto simp: load_meta_typed)
  have after: "cu_after_seq (mb_cursor b) = of_int (mt_after_seq m)"
    using meta load_meta_typed(2) [OF m] by auto
  have "cu_after_seq (mb_cursor b) \<le> cu_after_seq (mb_next_cursor b)"
  proof -
    have v: "sorted_wrt (<) (cu_after_seq (mb_cursor b) # map (ce_seq \<circ> mz_change) (mb_entries b))"
      "last (cu_after_seq (mb_cursor b) # map (ce_seq \<circ> mz_change) (mb_entries b)) \<le>
        cu_after_seq (mb_next_cursor b)"
      using assms(1) by (auto simp: validate_materialized_batch_def result_iffs
          materialized_batch_projected_Inr_iff split: if_splits)
    then show ?thesis
      by (cases "map (ce_seq \<circ> mz_change) (mb_entries b)" rule: rev_cases)
        (auto intro: order_trans less_imp_le simp: sorted_wrt_append)
  qed
  then have mono: "mt_after_seq m \<le> uint (cu_after_seq (mb_next_cursor b))"
    using uint_le_u64 m(2) uint_of_int_i64 [of "mt_after_seq m"] by (metis after meta_typed_def)
  obtain tx seq now where tx: "apply_resources db (map (\<lambda>e. (mz_resource e, ce_seq (mz_change e)))
      (mb_entries b)) = Inr tx" "client_to_i64 ''cursor'' (cu_after_seq (mb_next_cursor b)) = Inr seq"
    "rp_meta tx = rp_meta db \<Longrightarrow>
      db' = tx\<lparr>rp_meta := [m\<lparr>mt_after_seq := seq, mt_updated_at_ms := now\<rparr>]\<rparr>"
    using assms(2) meta m by (auto simp: batch_tx_def result_iffs client_sql_def update_rows_def
        split: if_splits)
  note res = apply_resources_advance [OF tx(1)]
  have seq: "seq = uint (cu_after_seq (mb_next_cursor b))" "seq \<le> i64_max"
    using tx(2) by (auto simp: client_to_i64_def u64_try_i64_def result_iffs split: if_splits)
  have db': "db' = tx\<lparr>rp_meta := [m\<lparr>mt_after_seq := seq, mt_updated_at_ms := now\<rparr>]\<rparr>"
    using tx(3) res by simp
  have "meta_typed (m\<lparr>mt_after_seq := seq, mt_updated_at_ms := now\<rparr>)"
    using m(2) seq by (simp add: meta_typed_def)
  then have "replica_typed db'" using typed res by (simp add: replica_typed_def db')
  moreover have "replica_advances db db'"
    using res m(1) mono seq(1) by (simp add: replica_advances_def db' cursor_advances_def meta_owner_def)
  ultimately show "replica_typed db' \<and> replica_advances db db'" ..
qed

lemma snapshot_applied_safe:
  assumes "identity_typed i" "sn_scope snap = identity_scope i" "sn_project_epoch snap = pi_project_epoch i"
    and "snapshot_tx clock snap i db = Inr db'"
  shows "replica_safe db db'"
  unfolding replica_safe_def
proof
  assume typed: "replica_typed db"
  have "load_meta db = Inr None" using assms(4) by (auto simp: snapshot_tx_def result_iffs split: if_splits)
  then have fresh: "rp_meta db = []" "rp_resources db = []"
    by (cases rule: replica_typed_cases [OF typed]; simp add: load_meta_typed)+
  obtain seq now where seq: "client_to_i64 ''snapshot_cursor'' (sn_at_seq snap) = Inr seq"
    and tx: "apply_resources (db\<lparr>rp_meta := [\<lparr>mt_tenant_id = sc_tenant_id (sn_scope snap),
      mt_project_id = sc_project_id (sn_scope snap), mt_project_epoch = sn_project_epoch snap,
      mt_actor_id = Some (pi_actor_id i), mt_after_seq = seq, mt_updated_at_ms = now\<rparr>]\<rparr>)
        (map (\<lambda>r. (r, sn_at_seq snap)) (sn_resources snap)) = Inr db'"
    using assms(4) fresh(1)
    by (auto simp: snapshot_tx_def result_iffs client_sql_def split: if_splits)
  have "seq = uint (sn_at_seq snap)" "seq \<le> i64_max"
    using seq by (auto simp: client_to_i64_def u64_try_i64_def result_iffs split: if_splits)
  then have "meta_typed \<lparr>mt_tenant_id = sc_tenant_id (sn_scope snap),
      mt_project_id = sc_project_id (sn_scope snap), mt_project_epoch = sn_project_epoch snap,
      mt_actor_id = Some (pi_actor_id i), mt_after_seq = seq, mt_updated_at_ms = now\<rparr>"
    using assms(1-3) by (simp add: meta_typed_def identity_typed_def identity_scope_def scope_new_def)
  then have "replica_typed db'" using apply_resources_advance [OF tx] fresh(2) by (simp add: replica_typed_def)
  moreover have "replica_advances db db'"
    using fresh by (simp add: replica_advances_def cursor_advances_def cells_advance_def replica_view_def)
  ultimately show "replica_typed db' \<and> replica_advances db db'" ..
qed

lemma apply_batch_safe:
  assumes "apply_materialized_batch clock b db = (db', r)"
  shows "replica_safe db db'"
  using assms batch_applied_safe [of b clock db db']
  by (cases "validate_materialized_batch b"; cases "batch_tx clock b db")
    (auto simp: apply_materialized_batch_def in_transaction_def)

lemma apply_snapshot_safe:
  assumes "identity_typed i" "apply_snapshot clock snap i db = (db', r)"
  shows "replica_safe db db'"
  using assms snapshot_applied_safe [OF assms(1), of snap clock db db']
  by (cases "validate_snapshot snap"; cases "snapshot_tx clock snap i db")
    (auto simp: apply_snapshot_def in_transaction_def split: if_splits)

section \<open>Pulls\<close>

text \<open>The only writes of a pull are those two, whatever the transport does.\<close>

lemma pull_batch_safe:
  assumes "pull_batch cod tp pid i limit (w, db) = ((w', db'), r)"
  shows "replica_safe db db'"
proof -
  have "db' = db \<or> (\<exists>clock b x. apply_materialized_batch clock b db = (db', x))"
    using assms by (fastforce simp: pull_batch_def on_world_def on_replica_def try_do_def try_ok_def
        split: sum.splits prod.splits if_splits)
  then show ?thesis using apply_batch_safe by auto
qed

lemma pull_loop_safe:
  assumes "pull_loop cod tp pid i limit batches consumed (w, db) = ((w', db'), r)"
  shows "replica_safe db db'"
  using assms
proof (induction "MAX_PULL_BATCHES - batches" arbitrary: batches consumed w db)
  case 0
  then show ?case by (simp add: pull_loop.simps [of _ _ _ _ _ batches])
next
  case (Suc k)
  obtain w1 db1 r1 where step: "pull_batch cod tp pid i limit (w, db) = ((w1, db1), r1)"
    by (metis prod.collapse)
  note safe = pull_batch_safe [OF step]
  have lt: "\<not> batches \<ge> MAX_PULL_BATCHES" using Suc.hyps(2) by simp
  have IH: "pull_loop cod tp pid i limit (Suc batches) c (w1, db1) = ((w', db'), r) \<Longrightarrow> replica_safe db1 db'"
    for c using Suc.hyps(1) [of "Suc batches"] Suc.hyps(2) by simp
  show ?case
    using Suc.prems step lt safe replica_safe_trans [OF safe] IH
    by (cases r1) (auto simp: pull_loop.simps [of _ _ _ _ _ batches] split: if_splits)
qed

definition typed_transport :: "'w transport \<Rightarrow> bool" where
  "typed_transport tp \<longleftrightarrow> (\<forall>pid w w' i. tp_identity tp pid w = (w', Inr i) \<longrightarrow> identity_typed i)"

lemma pull_bootstrap_safe:
  assumes "identity_typed i" "pull_bootstrap cod tp pid i (w, db) = ((w', db'), r)"
  shows "replica_safe db db'"
proof -
  have "db' = db \<or> (\<exists>clock s x. apply_snapshot clock s i db = (db', x))"
    using assms(2) by (fastforce simp: pull_bootstrap_def on_world_def on_replica_def try_do_def
        split: sum.splits prod.splits if_splits)
  then show ?thesis using apply_snapshot_safe [OF assms(1)] by auto
qed

lemma pull_safe:
  assumes "typed_transport tp" "pull_to_current cod tp pid limit (w, db) = ((w', db'), r)"
  shows "replica_safe db db'"
proof (cases "bad_limit limit")
  case (Inl e)
  then show ?thesis using assms(2) by (simp add: pull_to_current_def)
next
  case limit: (Inr u)
  obtain w1 answer where answer: "tp_identity tp pid w = (w1, answer)" by (cases "tp_identity tp pid w")
  show ?thesis
  proof (cases "and_then answer (\<lambda>i. and_then (verify_identity db i) (\<lambda>b. Inr (i, b)))")
    case (Inl e)
    then show ?thesis
      using assms(2) limit answer
      by (cases answer; cases "verify_identity db (projr answer)")
        (auto simp: pull_to_current_def on_world_def)
  next
    case (Inr ib)
    obtain i b where ib: "answer = Inr i" "verify_identity db i = Inr b"
      using Inr by (auto simp: result_iffs)
    have i: "identity_typed i" using assms(1) answer ib(1) by (auto simp: typed_transport_def)
    obtain w2 db2 r2 where boot: "(if b then pull_bootstrap cod tp pid i (w1, db) else ((w1, db), Inr ())) =
        ((w2, db2), r2)" by (metis prod.collapse)
    have safe: "replica_safe db db2"
      using boot pull_bootstrap_safe [OF i, of cod tp pid w1 db w2 db2 r2] by (auto split: if_splits)
    obtain w3 db3 r3 where loop: "pull_loop cod tp pid i limit 0 0 (w2, db2) = ((w3, db3), r3)"
      by (metis prod.collapse)
    have "db' = db2 \<or> db' = db3"
      using assms(2) limit answer ib boot loop
      by (cases r2; cases r3; cases "status_of db3")
        (auto simp: pull_to_current_def on_world_def split: prod.splits)
    then show ?thesis using safe replica_safe_trans [OF safe pull_loop_safe [OF loop]] by auto
  qed
qed

end
