(* ===== verification/Replica_Examples.thy ===== *)
theory Replica_Examples
  imports Replica_Feed Replica_Safety
begin

text \<open>
  Replicas of the example project: alice's client against the example server while it goes on
  serving, and against a server that sends a revision older than the one she has.
\<close>

definition rep_empty :: replica_db where
  "rep_empty = \<lparr>rp_user_version = 2, rp_meta = [], rp_resources = []\<rparr>"

definition rep_alice :: authenticated_actor where
  "rep_alice = \<lparr>aa_tenant_id = ''t1'', aa_actor_id = ''alice''\<rparr>"

definition rep_runs :: "nat \<Rightarrow> sqlite_env" where
  "rep_runs t = srv_env (if t = 0 then srv_db3 else srv_db5)"

lemma rep_digest: "bearer_digest_from_headers srv_codec (srv_bearer ''ta'') = Inr (1 # replicate 31 0)"
  by code_simp

lemma rep_authenticates:
  "authenticate_token srv_db3 (1 # replicate 31 0) = Inr (Some rep_alice)"
  "authenticate_token srv_db5 (1 # replicate 31 0) = Inr (Some rep_alice)"
  by code_simp+

lemma srv_codec_values: "value_codec srv_codec" "context_codec srv_codec"
proof -
  have "\<exists>v'. cd_value_of srv_codec (cd_to_vec srv_codec w) = Some v' \<and> cd_to_vec srv_codec v' = cd_to_vec srv_codec w"
    for w by (cases w) (simp_all add: srv_codec_def)
  then show "value_codec srv_codec" by (simp add: value_codec_def canonical_json_bytes_def)
  show "context_codec srv_codec"
    by (simp add: context_codec_def canonical_json_bytes_def srv_codec_def)
qed

lemma rep_setting:
  assumes "\<And>t. runs t \<in> {srv_env srv_db3, srv_env srv_db5}"
    and "\<And>t. server_steps srv_codec (se_db (runs t)) (se_db (runs (Suc t)))"
  shows "feed_setting srv_codec runs (srv_bearer ''ta'') rep_alice"
proof -
  have "id_ok ''t1''" "id_ok ''alice''" by code_simp+
  moreover have "other = rep_alice"
    if "authenticate_token (se_db (runs t)) (1 # replicate 31 0) = Inr (Some other)" for t other
    using that assms(1) [of t] rep_authenticates by (auto simp: srv_env_def)
  ultimately show ?thesis
    using srv_codec_ok srv_codec_values assms(2)
    by (simp add: feed_setting_def rep_digest) (simp add: rep_alice_def)
qed

lemma rep_heads:
  "load_project srv_db3 (scope_new (aa_tenant_id rep_alice) ''p1'') = Inr (Some (''e1'', 1))"
  "load_project srv_db5 (scope_new (aa_tenant_id rep_alice) ''p1'') = Inr (Some (''e1'', 3))"
  by code_simp+

lemma rep_steady:
  "steady_setting srv_codec (srv_env srv_db5) (\<lambda>_. Some Completes) (\<lambda>_. 7) (srv_bearer ''ta'') rep_alice ''p1''"
proof -
  have "\<exists>m. request_context sqlite_identity_store (1 # replicate 31 0) ''p1'' (srv_env srv_db5) = Inr (rep_alice, m)"
  proof
    show "request_context sqlite_identity_store (1 # replicate 31 0) ''p1'' (srv_env srv_db5) = Inr (rep_alice,
      \<lparr>pm_tenant_id = ''t1'', pm_project_id = ''p1'', pm_actor_id = ''alice'', pm_role = Writer,
       pm_status = MembershipActive\<rparr>)"
      by code_simp
  qed
  moreover have "\<not> isl (snapshot srv_db5 (scope_new (aa_tenant_id rep_alice) ''p1''))" by code_simp
  then have "\<exists>snap. snapshot srv_db5 (scope_new (aa_tenant_id rep_alice) ''p1'') = Inr snap"
    by (cases "snapshot srv_db5 (scope_new (aa_tenant_id rep_alice) ''p1'')") auto
  ultimately show ?thesis
    by (simp add: steady_setting_def rep_digest) (simp add: srv_env_def i64_max_def)
qed

section \<open>A server that goes back\<close>

definition rep_file :: "i64 \<Rightarrow> i64 \<Rightarrow> replica_db" where
  "rep_file seq now = \<lparr>rp_user_version = 2,
     rp_meta = [\<lparr>mt_tenant_id = ''t1'', mt_project_id = ''p1'', mt_project_epoch = ''e1'',
       mt_actor_id = Some ''alice'', mt_after_seq = seq, mt_updated_at_ms = now\<rparr>],
     rp_resources = [\<lparr>rx_kind = ''handoff'', rx_id = ''h1'', rx_revision = 2, rx_deleted = 0,
       rx_body = Some [2], rx_observed_after_seq = 3\<rparr>]\<rparr>"

text \<open>It sends revision 1 of the handoff once more, at the next sequence.\<close>

definition rep_stale :: "unit transport" where
  "rep_stale =
     \<lparr>tp_identity = (\<lambda>pid w. (w, Inr \<lparr>pi_tenant_id = ''t1'', pi_project_id = ''p1'',
        pi_project_epoch = ''e1'', pi_actor_id = ''alice'', pi_role = Writer\<rparr>)),
      tp_materialized = (\<lambda>pid cursor limit w.
        let seq = cu_after_seq cursor + 1 in
        (w, Inr \<lparr>br_scope = scope_new ''t1'' ''p1'', br_cursor = cursor,
          br_entries = [\<lparr>mr_change = \<lparr>ce_tenant_id = ''t1'', ce_project_id = ''p1'',
              ce_project_epoch = ''e1'', ce_seq = seq, ce_resource = coord ''handoff'' ''h1'',
              ce_operation = Upsert, ce_revision = 1, ce_actor_id = ''alice'', ce_committed_at_ms = 9\<rparr>,
            mr_resource = \<lparr>rr_scope = scope_new ''t1'' ''p1'', rr_resource = coord ''handoff'' ''h1'',
              rr_revision = 1, rr_state = ResponsePresent (JInt 1)\<rparr>\<rparr>],
          br_next_cursor = \<lparr>cu_project_epoch = ''e1'', cu_after_seq = seq\<rparr>, br_has_more = False\<rparr>)),
      tp_snapshot = (\<lambda>pid w. (w, Inl (Transport External))),
      tp_resource = (\<lambda>pid ref w. (w, Inl (Transport External))),
      tp_clock = (\<lambda>w. 8)\<rparr>"

definition rep_report :: pull_report where
  "rep_report = \<lparr>pu_bootstrapped = False, pu_batches = 1, pu_changes = 1, pu_after_seq = 4,
     pu_identity = \<lparr>pi_tenant_id = ''t1'', pi_project_id = ''p1'', pi_project_epoch = ''e1'',
       pi_actor_id = ''alice'', pi_role = Writer\<rparr>,
     pu_resource_count = 1, pu_tombstone_count = 0\<rparr>"

lemma rep_stale_pull:
  "pull_to_current srv_codec rep_stale ''p1'' 5 ((), rep_file 3 7) = (((), rep_file 4 8), Inr rep_report)"
  by code_simp

lemma rep_typed: "replica_typed (rep_file 3 7)" "typed_transport rep_stale"
proof -
  have ids: "id_ok ''t1''" "id_ok ''p1''" "id_ok ''e1''" "id_ok ''alice''" by code_simp+
  then show "replica_typed (rep_file 3 7)"
    by (simp add: replica_typed_def meta_typed_def row_typed_def replica_check_def rep_file_def i64_max_def)
  show "typed_transport rep_stale"
    using ids by (simp add: typed_transport_def rep_stale_def identity_typed_def)
qed

end
