(* ===== verification/Replica_Budget.thy ===== *)
theory Replica_Budget
  imports Replica_Store
begin

text \<open>
  How many requests a pull sends: the transport with a request counter, and the bound
  \<open>MAX_PULL_BATCHES\<close> puts on it whatever the server answers.
\<close>

definition counted :: "'w transport \<Rightarrow> ('w \<times> nat) transport" where
  "counted tp =
     \<lparr>tp_identity = (\<lambda>pid s. let (w, r) = tp_identity tp pid (fst s) in ((w, Suc (snd s)), r)),
      tp_materialized = (\<lambda>pid cursor limit s.
        let (w, r) = tp_materialized tp pid cursor limit (fst s) in ((w, Suc (snd s)), r)),
      tp_snapshot = (\<lambda>pid s. let (w, r) = tp_snapshot tp pid (fst s) in ((w, Suc (snd s)), r)),
      tp_resource = (\<lambda>pid ref s. let (w, r) = tp_resource tp pid ref (fst s) in ((w, Suc (snd s)), r)),
      tp_clock = (\<lambda>s. tp_clock tp (fst s))\<rparr>"

lemma counted_identity:
  "tp_identity tp pid w = (w', r) \<Longrightarrow> tp_identity (counted tp) pid (w, n) = ((w', Suc n), r)"
  by (simp add: counted_def)

lemma counted_clock [simp]: "tp_clock (counted tp) (w, n) = tp_clock tp w"
  by (simp add: counted_def)

lemma counted_snapshot:
  "client_snapshot cod tp pid w = (w', r) \<Longrightarrow>
     client_snapshot cod (counted tp) pid (w, n) = ((w', Suc n), r)"
  by (cases "tp_snapshot tp pid w"; cases "snd (tp_snapshot tp pid w)")
    (auto simp: client_snapshot_def counted_def try_ok_def split: sum.splits)

lemma counted_batch:
  "bad_limit limit = Inr () \<Longrightarrow> client_materialized_changes cod tp pid cursor limit w = (w', r) \<Longrightarrow>
     client_materialized_changes cod (counted tp) pid cursor limit (w, n) = ((w', Suc n), r)"
  by (cases "tp_materialized tp pid cursor limit w"; cases "snd (tp_materialized tp pid cursor limit w)")
    (auto simp: client_materialized_changes_def counted_def try_ok_def split: sum.splits)

text \<open>Counting changes nothing else.\<close>

lemma counted_pull_batch:
  assumes "bad_limit limit = Inr ()" "pull_batch cod tp pid i limit (w, db) = ((w', db'), r)"
  shows "\<exists>n'. pull_batch cod (counted tp) pid i limit ((w, n), db) = (((w', n'), db'), r) \<and>
    n' \<le> Suc n \<and> (\<forall>b. r = Inr b \<longrightarrow> n' = Suc n)"
proof (cases "and_then (replica_cursor db) (ok_or (Protocol (Text ''prepared replica omitted its cursor'')))")
  case (Inl e)
  then show ?thesis using assms(2) by (auto simp: pull_batch_def)
next
  case (Inr cursor)
  obtain w1 a where call: "client_materialized_changes cod tp pid cursor limit w = (w1, a)"
    by (cases "client_materialized_changes cod tp pid cursor limit w")
  note calls = call counted_batch [OF assms(1) call, of n]
  have "pull_batch cod (counted tp) pid i limit ((w, n), db) = (((w', Suc n), db'), r)"
    using assms(2) Inr calls
    by (cases a) (auto simp: pull_batch_def on_world_def on_replica_def try_do_def
        split: sum.splits prod.splits if_splits)
  then show ?thesis by simp
qed

lemma counted_pull_loop:
  assumes "bad_limit limit = Inr ()"
    and "pull_loop cod tp pid i limit batches consumed (w, db) = ((w', db'), r)"
  shows "\<exists>n'. pull_loop cod (counted tp) pid i limit batches consumed ((w, n), db) = (((w', n'), db'), r) \<and>
    n' \<le> n + (MAX_PULL_BATCHES - batches) \<and>
    (\<forall>t c. r = Inr (t, c) \<longrightarrow> batches < t \<and> t \<le> MAX_PULL_BATCHES \<and> n' = n + (t - batches))"
  using assms(2)
proof (induction "MAX_PULL_BATCHES - batches" arbitrary: batches consumed w db n)
  case 0
  then show ?case by (auto simp: pull_loop.simps [of _ _ _ _ _ batches])
next
  case (Suc k)
  have lt: "\<not> batches \<ge> MAX_PULL_BATCHES" using Suc.hyps(2) by simp
  obtain w1 db1 r1 where step: "pull_batch cod tp pid i limit (w, db) = ((w1, db1), r1)"
    by (metis prod.collapse)
  obtain n1 where counted_step: "pull_batch cod (counted tp) pid i limit ((w, n), db) = (((w1, n1), db1), r1)"
    and n1: "n1 \<le> Suc n" "\<And>b. r1 = Inr b \<Longrightarrow> n1 = Suc n"
    using counted_pull_batch [OF assms(1) step, of n] by blast
  show ?case
  proof (cases "\<exists>b. r1 = Inr b \<and> mb_has_more b")
    case False
    then have "pull_loop cod (counted tp) pid i limit batches consumed ((w, n), db) = (((w', n1), db'), r)"
      using Suc.prems step counted_step lt
      by (cases r1) (auto simp: pull_loop.simps [of _ _ _ _ _ batches])
    moreover have "r = Inr (t, c) \<Longrightarrow> t = Suc batches \<and> n1 = Suc n" for t c
      using Suc.prems step lt False n1(2)
      by (cases r1) (auto simp: pull_loop.simps [of _ _ _ _ _ batches])
    ultimately show ?thesis using n1(1) lt by (intro exI [of _ n1]) auto
  next
    case True
    then obtain b where b: "r1 = Inr b" "mb_has_more b" by blast
    then have rest: "pull_loop cod tp pid i limit (Suc batches) (consumed + length (mb_entries b)) (w1, db1) =
        ((w', db'), r)"
      using Suc.prems step lt by (simp add: pull_loop.simps [of _ _ _ _ _ batches])
    have k: "k = MAX_PULL_BATCHES - Suc batches" using Suc.hyps(2) by simp
    obtain n' where n': "pull_loop cod (counted tp) pid i limit (Suc batches)
        (consumed + length (mb_entries b)) ((w1, n1), db1) = (((w', n'), db'), r)"
      "n' \<le> n1 + (MAX_PULL_BATCHES - Suc batches)"
      "\<forall>t c. r = Inr (t, c) \<longrightarrow> Suc batches < t \<and> t \<le> MAX_PULL_BATCHES \<and> n' = n1 + (t - Suc batches)"
      using Suc.hyps(1) [OF k rest, of n1] by blast
    have "pull_loop cod (counted tp) pid i limit batches consumed ((w, n), db) = (((w', n'), db'), r)"
      using counted_step b lt n'(1) by (simp add: pull_loop.simps [of _ _ _ _ _ batches])
    then show ?thesis using n'(2,3) n1(2) [OF b(1)] lt by (intro exI [of _ n']) auto
  qed
qed

lemma counted_pull:
  assumes "pull_to_current cod tp pid limit (w, db) = ((w', db'), r)"
  shows "\<exists>n'. pull_to_current cod (counted tp) pid limit ((w, n), db) = (((w', n'), db'), r) \<and>
    n' \<le> n + 2 + MAX_PULL_BATCHES \<and>
    (\<forall>report. r = Inr report \<longrightarrow> 0 < pu_batches report \<and> pu_batches report \<le> MAX_PULL_BATCHES \<and>
       n' = n + (if pu_bootstrapped report then 2 else 1) + pu_batches report)"
proof (cases "bad_limit limit")
  case (Inl e)
  then show ?thesis using assms by (auto simp: pull_to_current_def)
next
  case limit: (Inr u)
  then have ok: "bad_limit limit = Inr ()" by simp
  obtain w1 a where call: "tp_identity tp pid w = (w1, a)" by (cases "tp_identity tp pid w")
  note calls = call counted_identity [OF call, of n]
  show ?thesis
  proof (cases "and_then a (\<lambda>i. and_then (verify_identity db i) (\<lambda>b. Inr (i, b)))")
    case (Inl e)
    then have "pull_to_current cod (counted tp) pid limit ((w, n), db) = (((w', Suc n), db'), r) \<and> isl r"
      using assms limit calls
      by (cases a; cases "verify_identity db (projr a)") (auto simp: pull_to_current_def on_world_def)
    then show ?thesis by auto
  next
    case (Inr ib)
    obtain i b where ib: "a = Inr i" "verify_identity db i = Inr b" using Inr by (auto simp: result_iffs)
    obtain w2 db2 r2 where boot: "(if b then pull_bootstrap cod tp pid i (w1, db) else ((w1, db), Inr ())) =
        ((w2, db2), r2)" by (metis prod.collapse)
    define n2 where "n2 = Suc n + (if b then 1 else 0)"
    have boot': "(if b then pull_bootstrap cod (counted tp) pid i ((w1, Suc n), db)
        else (((w1, Suc n), db), Inr ())) = (((w2, n2), db2), r2)"
    proof (cases b)
      case True
      obtain w3 s where snap: "client_snapshot cod tp pid w1 = (w3, s)"
        by (cases "client_snapshot cod tp pid w1")
      show ?thesis
        using boot True snap counted_snapshot [OF snap, of "Suc n"]
        by (cases s) (auto simp: pull_bootstrap_def on_world_def on_replica_def n2_def
            split: prod.splits if_splits)
    qed (use boot n2_def in simp)
    show ?thesis
    proof (cases r2)
      case (Inl e)
      then have "pull_to_current cod (counted tp) pid limit ((w, n), db) = (((w', n2), db'), r) \<and> isl r"
        using assms limit calls ib boot boot' by (auto simp: pull_to_current_def on_world_def)
      then show ?thesis by (auto simp: n2_def)
    next
      case (Inr v)
      obtain w3 db3 r3 where loop: "pull_loop cod tp pid i limit 0 0 (w2, db2) = ((w3, db3), r3)"
        by (metis prod.collapse)
      obtain n3 where n3: "pull_loop cod (counted tp) pid i limit 0 0 ((w2, n2), db2) = (((w3, n3), db3), r3)"
        "n3 \<le> n2 + MAX_PULL_BATCHES"
        "\<And>t c. r3 = Inr (t, c) \<Longrightarrow> 0 < t \<and> t \<le> MAX_PULL_BATCHES \<and> n3 = n2 + t"
        using counted_pull_loop [OF ok loop, of n2] by auto
      have "pull_to_current cod (counted tp) pid limit ((w, n), db) = (((w', n3), db'), r)"
        using assms limit calls ib boot boot' Inr loop n3(1)
        by (cases r3; cases "status_of db3") (auto simp: pull_to_current_def on_world_def split: prod.splits)
      moreover have "r = Inr report \<Longrightarrow> pu_bootstrapped report = b \<and> 0 < pu_batches report \<and>
          pu_batches report \<le> MAX_PULL_BATCHES \<and> n3 = n2 + pu_batches report" for report
        using assms limit calls ib boot Inr loop n3(3)
        by (cases r3; cases "status_of db3") (auto simp: pull_to_current_def on_world_def split: prod.splits)
      ultimately show ?thesis using n3(2) by (cases b) (auto simp: n2_def)
    qed
  qed
qed

end
