(* ===== verification/Replica_Properties.thy ===== *)
theory Replica_Properties
  imports Replica_Examples Replica_Budget
begin

text \<open>
  The properties of the replica and of the replica with its server: what a pull makes of the file
  against the modelled server, and what it can do to it against any.
\<close>

section \<open>Online reads\<close>


section \<open>Files that track a server\<close>




section \<open>Properties\<close>





text \<open>
  C26. A replica file is always readable: over any transport whose identities have well-formed
  identifiers, a pull of a well-typed file - whatever it is answered and however it ends - leaves a
  well-typed file, whose cursor, status and every resource decode without error.
\<close>

theorem replica_files_decode:
  assumes "replica_typed file" "typed_transport tp"
    and "pull_to_current cod tp pid limit (w, file) = ((w', file'), r)"
  shows "replica_typed file' \<and> (\<exists>cursor. replica_cursor file' = Inr cursor) \<and>
    (\<forall>ref. \<exists>found. replica_resource file' ref = Inr found) \<and> (\<exists>st. status_of file' = Inr st)"
proof -
  have "replica_typed file'" using pull_safe [OF assms(2,3)] assms(1) by (simp add: replica_safe_def)
  then show ?thesis using reads_total by blast
qed

theorem replica_files_decode_witness:
  "\<exists>found. replica_resource (rep_file 4 8) (coord ''handoff'' ''h1'') = Inr found"
  using replica_files_decode [OF rep_typed rep_stale_pull] by blast

text \<open>
  C27. A replica never goes back: whatever the server answers, a pull keeps every resource the file
  knew, with the same content or a higher revision; it keeps the file's tenant, project, epoch and
  actor, and does not move its cursor back.
\<close>

theorem replica_never_regresses:
  assumes "replica_typed file" "typed_transport tp"
    and "pull_to_current cod tp pid limit (w, file) = ((w', file'), r)"
  shows "cells_advance (replica_view file) (replica_view file') \<and> cursor_advances (rp_meta file) (rp_meta file')"
  using pull_safe [OF assms(2,3)] assms(1) by (simp add: replica_safe_def replica_advances_def)

theorem replica_never_regresses_witness:
  "cells_advance (replica_view (rep_file 3 7)) (replica_view (rep_file 4 8)) \<and>
   cursor_advances (rp_meta (rep_file 3 7)) (rp_meta (rep_file 4 8))"
  by (rule replica_never_regresses [OF rep_typed rep_stale_pull])

text \<open>
  C28. A pull sends a bounded number of requests, whatever the server answers: counting requests does
  not change it, and it sends at most \<open>MAX_PULL_BATCHES\<close> and two more; one that succeeds has sent one
  per batch, one for the identity and one for the snapshot if it bootstrapped.
\<close>

theorem pull_request_budget:
  assumes "pull_to_current cod tp pid limit (w, file) = ((w', file'), r)"
  shows "\<exists>n. pull_to_current cod (counted tp) pid limit ((w, 0), file) = (((w', n), file'), r) \<and>
    n \<le> MAX_PULL_BATCHES + 2 \<and>
    (\<forall>report. r = Inr report \<longrightarrow> 0 < pu_batches report \<and> pu_batches report \<le> MAX_PULL_BATCHES \<and>
       n = pu_batches report + (if pu_bootstrapped report then 2 else 1))"
  using counted_pull [OF assms, of 0] by (simp add: add.commute)

theorem pull_request_budget_witness:
  "pull_to_current srv_codec (counted rep_stale) ''p1'' 5 (((), 0), rep_file 3 7) =
     ((((), 2), rep_file 4 8), Inr rep_report)"
  using pull_request_budget [OF rep_stale_pull] by (simp add: rep_report_def)

end
