(* ===== verification/Pg_Store.thy ===== *)
theory Pg_Store
  imports Store_Command Store_Identity
begin

text \<open>
  \<open>aidememo-store-postgres/src/lib.rs\<close> and its \<open>schema.sql\<close>: the PostgreSQL tables and the command
  ledger over them. One connection is used at a time (the client's mutex), so a transaction is the
  database value its statements thread, as for SQLite. Tables with the columns and constraints of
  the SQLite store share its rows; the others have PostgreSQL's booleans, and changes always carry
  their state. A connection failure is not modelled, a constraint violation is.
\<close>

section \<open>Tables\<close>

record pg_token_row =
  qt_token_sha256 :: bytes
  qt_tenant_id :: string
  qt_actor_id :: string
  qt_active :: bool
  qt_created_at_ms :: i64

record pg_resource_row =
  qr_tenant_id :: string
  qr_project_id :: string
  qr_resource_kind :: string
  qr_resource_id :: string
  qr_revision :: i64
  qr_deleted :: bool
  qr_body_json :: "bytes option"

record pg_change_row =
  qc_tenant_id :: string
  qc_project_id :: string
  qc_project_epoch :: string
  qc_seq :: i64
  qc_resource_kind :: string
  qc_resource_id :: string
  qc_operation :: string
  qc_revision :: i64
  qc_actor_id :: string
  qc_committed_at_ms :: i64
  qc_body_json :: "bytes option"

text \<open>\<open>pg_version\<close> is the row of \<open>aidememo_schema\<close> for the canonical store, if there is one.\<close>

record pg_db =
  pg_version :: "i64 option"
  pg_tenants :: "tenant_row list"
  pg_projects :: "project_row list"
  pg_actors :: "actor_row list"
  pg_memberships :: "membership_row list"
  pg_tokens :: "pg_token_row list"
  pg_resources :: "pg_resource_row list"
  pg_receipts :: "receipt_row list"
  pg_changes :: "pg_change_row list"
  pg_audit :: "audit_row list"
  pg_handoff_index :: "index_row list"

definition qr_scope :: "pg_resource_row \<Rightarrow> project_scope" where
  "qr_scope r = scope_new (qr_tenant_id r) (qr_project_id r)"
definition qc_scope :: "pg_change_row \<Rightarrow> project_scope" where
  "qc_scope r = scope_new (qc_tenant_id r) (qc_project_id r)"

definition qr_key :: "pg_resource_row \<Rightarrow> project_scope \<times> resource_ref" where
  "qr_key r = (qr_scope r, \<lparr>rf_kind = qr_resource_kind r, rf_id = qr_resource_id r\<rparr>)"

section \<open>Constraints\<close>

definition pg_token_check :: "pg_token_row \<Rightarrow> bool" where
  "pg_token_check r \<longleftrightarrow> length (qt_token_sha256 r) = 32"

definition pg_resource_check :: "pg_resource_row \<Rightarrow> bool" where
  "pg_resource_check r \<longleftrightarrow> qr_revision r > 0 \<and>
     (\<not> qr_deleted r \<and> qr_body_json r \<noteq> None \<or> qr_deleted r \<and> qr_body_json r = None)"

definition pg_change_check :: "pg_change_row \<Rightarrow> bool" where
  "pg_change_check r \<longleftrightarrow> qc_seq r > 0 \<and> qc_operation r \<in> {''upsert'', ''delete''} \<and> qc_revision r > 0 \<and>
     (qc_operation r = ''upsert'' \<and> qc_body_json r \<noteq> None \<or>
      qc_operation r = ''delete'' \<and> qc_body_json r = None)"

definition pg_change_clash :: "pg_change_row \<Rightarrow> pg_change_row \<Rightarrow> bool" where
  "pg_change_clash r u \<longleftrightarrow> qc_scope u = qc_scope r \<and> qc_seq u = qc_seq r"

definition pg_project_exists :: "pg_db \<Rightarrow> project_scope \<Rightarrow> bool" where
  "pg_project_exists db scope \<longleftrightarrow> list_ex (\<lambda>p. pj_scope p = scope) (pg_projects db)"

definition pg_actor_exists :: "pg_db \<Rightarrow> string \<Rightarrow> string \<Rightarrow> bool" where
  "pg_actor_exists db t a \<longleftrightarrow> list_ex (\<lambda>r. at_tenant_id r = t \<and> at_actor_id r = a) (pg_actors db)"

definition pg_actor_fk :: "pg_db \<Rightarrow> actor_row \<Rightarrow> bool" where
  "pg_actor_fk db r \<longleftrightarrow> list_ex (\<lambda>t. tn_tenant_id t = at_tenant_id r) (pg_tenants db)"

definition pg_membership_fk :: "pg_db \<Rightarrow> membership_row \<Rightarrow> bool" where
  "pg_membership_fk db r \<longleftrightarrow> pg_project_exists db (scope_new (ms_tenant_id r) (ms_project_id r)) \<and>
     pg_actor_exists db (ms_tenant_id r) (ms_actor_id r)"

definition pg_token_fk :: "pg_db \<Rightarrow> pg_token_row \<Rightarrow> bool" where
  "pg_token_fk db r \<longleftrightarrow> pg_actor_exists db (qt_tenant_id r) (qt_actor_id r)"

definition pg_index_fk :: "pg_db \<Rightarrow> index_row \<Rightarrow> bool" where
  "pg_index_fk db r \<longleftrightarrow> list_ex (\<lambda>u. qr_key u =
     (ix_scope r, \<lparr>rf_kind = ix_resource_kind r, rf_id = ix_handoff_id r\<rparr>)) (pg_resources db)"

section \<open>Readers\<close>

definition pg_find_project :: "pg_db \<Rightarrow> project_scope \<Rightarrow> project_row option" where
  "pg_find_project db scope = select_first (\<lambda>p. pj_scope p = scope) (pg_projects db)"

definition pg_revision :: "string \<Rightarrow> i64 \<Rightarrow> revision domain_result" where
  "pg_revision operation i = and_then (from_i64 operation i) revision_new"

definition pg_decode_receipt :: "project_scope \<Rightarrow> receipt_row \<Rightarrow> command_receipt domain_result" where
  "pg_decode_receipt scope r =
     and_then (id_try_from ''command_id'' (rc_command_id r)) (\<lambda>cid.
     and_then (fingerprint_try_from (rc_fingerprint r)) (\<lambda>fp.
     and_then (id_try_from ''actor_id'' (rc_actor_id r)) (\<lambda>aid.
     and_then (from_i64 ''receipt_project_sequence'' (rc_project_seq r)) (\<lambda>seq.
     and_then (decode_ref (rc_resource_kind r) (rc_resource_id r)) (\<lambda>ref.
     and_then (pg_revision ''receipt_revision'' (rc_revision r)) (\<lambda>rev.
       Inr \<lparr>cp_command_id = cid, cp_fingerprint = fp, cp_tenant_id = sc_tenant_id scope,
            cp_project_id = sc_project_id scope, cp_actor_id = aid, cp_project_seq = seq,
            cp_resource = ref, cp_revision = rev, cp_committed_at_ms = rc_committed_at_ms r\<rparr>))))))"

definition pg_load_receipt ::
  "pg_db \<Rightarrow> project_scope \<Rightarrow> command_id \<Rightarrow> command_receipt option domain_result" where
  "pg_load_receipt db scope cid =
     map_transpose (pg_decode_receipt scope)
       (select_first (\<lambda>r. rc_scope r = scope \<and> rc_command_id r = cid) (pg_receipts db))"

definition pg_find_resource :: "pg_db \<Rightarrow> project_scope \<Rightarrow> resource_ref \<Rightarrow> pg_resource_row option" where
  "pg_find_resource db scope ref = select_first (\<lambda>r. qr_key r = (scope, ref)) (pg_resources db)"

definition pg_load_resource_revision ::
  "pg_db \<Rightarrow> project_scope \<Rightarrow> resource_ref \<Rightarrow> revision option domain_result" where
  "pg_load_resource_revision db scope ref =
     map_transpose (\<lambda>r. pg_revision ''resource_revision'' (qr_revision r)) (pg_find_resource db scope ref)"

section \<open>Writers\<close>

definition pg_write_resource ::
  "pg_db \<Rightarrow> project_scope \<Rightarrow> mutation_command \<Rightarrow> revision \<Rightarrow> pg_db domain_result" where
  "pg_write_resource db scope c revision =
     and_then (to_i64 ''resource_revision'' revision) (\<lambda>rev.
       let row = \<lparr>qr_tenant_id = sc_tenant_id scope, qr_project_id = sc_project_id scope,
                  qr_resource_kind = rf_kind (mc_resource c), qr_resource_id = rf_id (mc_resource c),
                  qr_revision = rev, qr_deleted = (mc_change c = Delete),
                  qr_body_json = mc_resource_body c\<rparr> in
       and_then (sql ''resource_write''
           (upsert_row qr_key pg_resource_check (\<lambda>r. pg_project_exists db (qr_scope r)) row
              (pg_resources db))) (\<lambda>t.
         Inr (db\<lparr>pg_resources := t\<rparr>)))"

definition pg_update_handoff_index ::
  "(bytes \<Rightarrow> handoff_record option) \<Rightarrow> pg_db \<Rightarrow> project_scope \<Rightarrow> resource_ref \<Rightarrow> change_operation
    \<Rightarrow> bytes option \<Rightarrow> revision \<Rightarrow> project_sequence \<Rightarrow> pg_db domain_result" where
  "pg_update_handoff_index decode_handoff db scope ref change body revision sequence =
    (if rf_kind ref \<noteq> ''handoff'' then Inr db
     else if change = Delete then
       Inr (db\<lparr>pg_handoff_index :=
         delete_rows (\<lambda>x. ix_key x = (scope, rf_id ref)) (pg_handoff_index db)\<rparr>)
     else
       and_then (ok_or (StorageFailure ''handoff_index_decode''
           (Text ''handoff upsert is missing its canonical body'')) body) (\<lambda>bytes.
       and_then (ok_or (StorageFailure ''handoff_index_decode'' External)
           (decode_handoff bytes)) (\<lambda>record.
       if hr_handoff_id record \<noteq> rf_id ref then
         Inl (StorageFailure ''handoff_index_decode''
           (Text ''handoff body identity does not match its resource coordinate''))
       else
         and_then (to_i64 ''handoff_revision'' revision) (\<lambda>rev.
         and_then (to_i64 ''handoff_project_sequence'' sequence) (\<lambda>seq.
           let row = \<lparr>ix_tenant_id = sc_tenant_id scope, ix_project_id = sc_project_id scope,
                      ix_handoff_id = hr_handoff_id record, ix_resource_kind = ''handoff'',
                      ix_from_actor = hr_from_actor record, ix_to_actor = hr_to_actor record,
                      ix_source_id = hr_source_id record,
                      ix_status = handoff_status_text (hr_status record),
                      ix_revision = rev, ix_updated_seq = seq\<rparr> in
           and_then (sql ''handoff_index_write''
               (upsert_row ix_key index_check (pg_index_fk db) row (pg_handoff_index db))) (\<lambda>t.
             Inr (db\<lparr>pg_handoff_index := t\<rparr>)))))))"

definition pg_insert_receipt :: "pg_db \<Rightarrow> command_receipt \<Rightarrow> pg_db domain_result" where
  "pg_insert_receipt db r =
     and_then (to_i64 ''receipt_project_sequence'' (cp_project_seq r)) (\<lambda>seq.
     and_then (to_i64 ''receipt_revision'' (cp_revision r)) (\<lambda>rev.
       let row = \<lparr>rc_tenant_id = cp_tenant_id r, rc_project_id = cp_project_id r,
                  rc_command_id = cp_command_id r, rc_fingerprint = cp_fingerprint r,
                  rc_actor_id = cp_actor_id r, rc_project_seq = seq,
                  rc_resource_kind = rf_kind (cp_resource r),
                  rc_resource_id = rf_id (cp_resource r), rc_revision = rev,
                  rc_committed_at_ms = cp_committed_at_ms r\<rparr> in
       and_then (sql ''receipt_write''
           (insert_row receipt_clash receipt_check (\<lambda>x. pg_project_exists db (rc_scope x)) row
              (pg_receipts db))) (\<lambda>t.
         Inr (db\<lparr>pg_receipts := t\<rparr>))))"

definition pg_insert_change ::
  "pg_db \<Rightarrow> command_receipt \<Rightarrow> string \<Rightarrow> change_operation \<Rightarrow> bytes option \<Rightarrow> pg_db domain_result" where
  "pg_insert_change db r epoch change body =
     and_then (to_i64 ''change_sequence'' (cp_project_seq r)) (\<lambda>seq.
     and_then (to_i64 ''change_revision'' (cp_revision r)) (\<lambda>rev.
       let row = \<lparr>qc_tenant_id = cp_tenant_id r, qc_project_id = cp_project_id r,
                  qc_project_epoch = epoch, qc_seq = seq,
                  qc_resource_kind = rf_kind (cp_resource r),
                  qc_resource_id = rf_id (cp_resource r), qc_operation = change_text change,
                  qc_revision = rev, qc_actor_id = cp_actor_id r,
                  qc_committed_at_ms = cp_committed_at_ms r, qc_body_json = body\<rparr> in
       and_then (sql ''change_write''
           (insert_row pg_change_clash pg_change_check (\<lambda>x. pg_project_exists db (qc_scope x)) row
              (pg_changes db))) (\<lambda>t.
         Inr (db\<lparr>pg_changes := t\<rparr>))))"

definition pg_insert_audit :: "pg_db \<Rightarrow> command_receipt \<Rightarrow> operation_name \<Rightarrow> pg_db domain_result" where
  "pg_insert_audit db r operation =
     and_then (to_i64 ''audit_sequence'' (cp_project_seq r)) (\<lambda>seq.
       let row = \<lparr>ad_tenant_id = cp_tenant_id r, ad_project_id = cp_project_id r,
                  ad_project_seq = seq, ad_command_id = cp_command_id r,
                  ad_operation = operation, ad_resource_kind = rf_kind (cp_resource r),
                  ad_resource_id = rf_id (cp_resource r), ad_actor_id = cp_actor_id r,
                  ad_committed_at_ms = cp_committed_at_ms r\<rparr> in
       and_then (sql ''audit_write''
           (insert_row audit_clash audit_check (\<lambda>x. pg_project_exists db (ad_scope x)) row
              (pg_audit db))) (\<lambda>t.
         Inr (db\<lparr>pg_audit := t\<rparr>)))"

definition pg_next_sequence :: "project_sequence \<Rightarrow> project_sequence domain_result" where
  "pg_next_sequence current =
     ok_or (StorageFailure ''project_sequence_overflow'' (Text ''project sequence overflow''))
       (u64_checked_add current 1)"

definition pg_advance_sequence ::
  "pg_db \<Rightarrow> project_scope \<Rightarrow> project_sequence \<Rightarrow> project_sequence \<Rightarrow> pg_db domain_result" where
  "pg_advance_sequence db scope sequence current =
     and_then (to_i64 ''project_sequence'' sequence) (\<lambda>seq.
     and_then (to_i64 ''project_sequence'' current) (\<lambda>cur.
     and_then (sql ''project_sequence_write''
         (update_rows project_check (\<lambda>p. pj_scope p = scope \<and> pj_next_seq p = cur)
            (\<lambda>p. p\<lparr>pj_next_seq := seq\<rparr>) (pg_projects db))) (\<lambda>(t, updated).
       if updated \<noteq> 1 then
         Inl (StorageFailure ''project_sequence_write''
           (Text ''project sequence compare-and-swap did not update one row''))
       else Inr (db\<lparr>pg_projects := t\<rparr>))))"

section \<open>Executing a command\<close>

definition pg_execute_transaction ::
  "(bytes \<Rightarrow> handoff_record option) \<Rightarrow> int \<Rightarrow> pg_db \<Rightarrow> mutation_command
    \<Rightarrow> (pg_db \<times> command_receipt) domain_result" where
  "pg_execute_transaction decode_handoff clock tx c =
    (let authorization = ac_authorization (mc_command c);
         envelope = ac_envelope (mc_command c);
         scope = authorization_scope authorization in
     and_then (check_change_body (mc_change c) (mc_resource_body c)) (\<lambda>_.
     case pg_find_project tx scope of
       None \<Rightarrow> Inl (ProjectUnauthorized (sc_project_id scope))
     | Some project \<Rightarrow>
       and_then (from_i64 ''project_sequence'' (pj_next_seq project)) (\<lambda>current_sequence.
       and_then (pg_load_receipt tx scope (en_command_id envelope)) (\<lambda>found.
       case found of
          Some known \<Rightarrow>
            if cp_actor_id known \<noteq> pz_actor_id authorization \<or>
               cp_fingerprint known \<noteq> mc_fingerprint c then Inl CommandConflict
            else Inr (tx, known)
        | None \<Rightarrow>
            and_then (pg_load_resource_revision tx scope (mc_resource c)) (\<lambda>current_revision.
            and_then (check_expected_revision (en_expected_revision envelope) current_revision) (\<lambda>_.
            and_then (next_revision current_revision) (\<lambda>revision.
            and_then (pg_next_sequence current_sequence) (\<lambda>sequence.
            and_then (unix_time_ms clock) (\<lambda>committed_at_ms.
            and_then (pg_write_resource tx scope c revision) (\<lambda>tx.
            and_then (pg_update_handoff_index decode_handoff tx scope (mc_resource c) (mc_change c)
               (mc_resource_body c) revision sequence) (\<lambda>tx.
            let receipt = new_receipt c sequence revision committed_at_ms in
            and_then (pg_insert_receipt tx receipt) (\<lambda>tx.
            and_then (pg_insert_change tx receipt (pj_project_epoch project) (mc_change c)
               (mc_resource_body c)) (\<lambda>tx.
            and_then (pg_insert_audit tx receipt (en_operation envelope)) (\<lambda>tx.
            and_then (pg_advance_sequence tx scope sequence current_sequence) (\<lambda>tx.
              Inr (tx, receipt))))))))))))))))"

definition pg_execute ::
  "(bytes \<Rightarrow> handoff_record option) \<Rightarrow> int \<Rightarrow> mutation_command \<Rightarrow> pg_db
    \<Rightarrow> pg_db \<times> command_receipt domain_result" where
  "pg_execute decode_handoff clock c db =
     (case pg_execute_transaction decode_handoff clock db c of
        Inl e \<Rightarrow> (db, Inl e)
      | Inr (tx, stored) \<Rightarrow> (tx, Inr stored))"

end
