(* ===== verification/Pg_Reads.thy ===== *)
theory Pg_Reads
  imports Pg_Store
begin

text \<open>
  \<open>aidememo-store-postgres/src/lib.rs\<close> and \<open>identity.rs\<close>: the reads of the PostgreSQL store (each one
  statement, or a repeatable-read transaction), projects, actors and authentication, schema
  migration, and the export and deletion of a tenant.
\<close>

section \<open>Row decoders\<close>

definition pg_parse_change :: "string \<Rightarrow> change_operation domain_result" where
  "pg_parse_change s =
    (if s = ''upsert'' then Inr Upsert else if s = ''delete'' then Inr Delete
     else Inl (StorageFailure ''change_operation_decode'' (Text (''invalid change operation '' @ s))))"

definition pg_decode_change :: "project_scope \<Rightarrow> pg_change_row \<Rightarrow> change_entry domain_result" where
  "pg_decode_change scope r =
     and_then (id_try_from ''project_epoch'' (qc_project_epoch r)) (\<lambda>epoch.
     and_then (from_i64 ''change_sequence'' (qc_seq r)) (\<lambda>seq.
     and_then (decode_ref (qc_resource_kind r) (qc_resource_id r)) (\<lambda>ref.
     and_then (pg_parse_change (qc_operation r)) (\<lambda>operation.
     and_then (pg_revision ''change_revision'' (qc_revision r)) (\<lambda>rev.
     and_then (id_try_from ''actor_id'' (qc_actor_id r)) (\<lambda>aid.
       Inr \<lparr>ce_tenant_id = sc_tenant_id scope, ce_project_id = sc_project_id scope,
            ce_project_epoch = epoch, ce_seq = seq, ce_resource = ref, ce_operation = operation,
            ce_revision = rev, ce_actor_id = aid,
            ce_committed_at_ms = qc_committed_at_ms r\<rparr>))))))"

definition pg_decode_materialized ::
  "project_scope \<Rightarrow> pg_change_row \<Rightarrow> materialized_change domain_result" where
  "pg_decode_materialized scope r =
     and_then (pg_decode_change scope r) (\<lambda>change.
     and_then
       (case (ce_operation change, qc_body_json r) of
          (Upsert, Some body) \<Rightarrow> Inr (Present body)
        | (Delete, None) \<Rightarrow> Inr Deleted
        | _ \<Rightarrow> Inl (StorageFailure ''materialized_change_decode''
            (Text ''change operation and stored state are inconsistent''))) (\<lambda>state.
       Inr \<lparr>mz_change = change,
            mz_resource = \<lparr>cr_scope = scope, cr_resource = ce_resource change,
                           cr_revision = ce_revision change, cr_state = state\<rparr>\<rparr>))"

definition pg_decode_resource :: "project_scope \<Rightarrow> pg_resource_row \<Rightarrow> canonical_resource domain_result" where
  "pg_decode_resource scope r =
     and_then (decode_ref (qr_resource_kind r) (qr_resource_id r)) (\<lambda>ref.
     and_then (pg_revision ''resource_revision'' (qr_revision r)) (\<lambda>rev.
     and_then
       (case (qr_deleted r, qr_body_json r) of
          (False, Some body) \<Rightarrow> Inr (Present body)
        | (True, None) \<Rightarrow> Inr Deleted
        | _ \<Rightarrow> Inl (StorageFailure ''resource_state_decode''
            (Text ''resource deletion flag and body are inconsistent''))) (\<lambda>state.
       Inr \<lparr>cr_scope = scope, cr_resource = ref, cr_revision = rev, cr_state = state\<rparr>)))"

section \<open>The change feed\<close>

definition pg_validate_limit :: "nat \<Rightarrow> unit domain_result" where
  "pg_validate_limit limit =
    (if limit = 0 \<or> limit > MAX_CHANGE_LIMIT then
       Inl (InvalidChangeBatch (''limit must be between 1 and '' @ nat_text MAX_CHANGE_LIMIT))
     else Inr ())"

definition pg_validate_cursor :: "pg_db \<Rightarrow> project_scope \<Rightarrow> change_cursor \<Rightarrow> unit domain_result" where
  "pg_validate_cursor db scope cursor =
     (case pg_find_project db scope of
        None \<Rightarrow> Inl (ProjectUnauthorized (sc_project_id scope))
      | Some p \<Rightarrow>
          and_then (id_try_from ''project_epoch'' (pj_project_epoch p)) (\<lambda>epoch.
          and_then (from_i64 ''project_sequence'' (pj_next_seq p)) (\<lambda>current.
            if cu_project_epoch cursor \<noteq> epoch then
              Inl (CursorEpochMismatch (cu_project_epoch cursor) epoch)
            else if cu_after_seq cursor > current then
              Inl (CursorOutOfRange (cu_after_seq cursor) current)
            else Inr ())))"

definition pg_select_changes :: "pg_db \<Rightarrow> project_scope \<Rightarrow> i64 \<Rightarrow> nat \<Rightarrow> pg_change_row list" where
  "pg_select_changes db scope after_seq n =
     select_ordered (\<lambda>r. qc_scope r = scope \<and> qc_seq r > after_seq) qc_seq n (pg_changes db)"

definition pg_change_feed ::
  "pg_db \<Rightarrow> project_scope \<Rightarrow> change_cursor \<Rightarrow> nat \<Rightarrow> change_batch domain_result" where
  "pg_change_feed db scope cursor limit =
     and_then (pg_validate_limit limit) (\<lambda>_.
     and_then (pg_validate_cursor db scope cursor) (\<lambda>_.
     and_then (to_i64 ''cursor_sequence'' (cu_after_seq cursor)) (\<lambda>after_seq.
     and_then (collect_results (pg_decode_change scope)
        (pg_select_changes db scope after_seq (limit + 1))) (\<lambda>entries.
       let has_more = length entries > limit in
       batch_new scope cursor (if has_more then take limit entries else entries) has_more))))"

definition pg_materialized_changes ::
  "pg_db \<Rightarrow> project_scope \<Rightarrow> change_cursor \<Rightarrow> nat \<Rightarrow> materialized_batch domain_result" where
  "pg_materialized_changes db scope cursor limit =
     and_then (pg_validate_limit limit) (\<lambda>_.
     and_then (pg_validate_cursor db scope cursor) (\<lambda>_.
     and_then (to_i64 ''cursor_sequence'' (cu_after_seq cursor)) (\<lambda>after_seq.
     and_then (collect_results (pg_decode_materialized scope)
        (pg_select_changes db scope after_seq (limit + 1))) (\<lambda>entries.
       let has_more = length entries > limit in
       materialized_batch_new scope cursor
         (if has_more then take limit entries else entries) has_more))))"

section \<open>Current state\<close>

text \<open>The order of text columns is the database's collation; the C collation, bytewise, is assumed.\<close>

definition pg_snapshot :: "pg_db \<Rightarrow> project_scope \<Rightarrow> project_snapshot domain_result" where
  "pg_snapshot db scope =
     (case pg_find_project db scope of
        None \<Rightarrow> Inl (ProjectUnauthorized (sc_project_id scope))
      | Some p \<Rightarrow>
          and_then (id_try_from ''project_epoch'' (pj_project_epoch p)) (\<lambda>epoch.
          and_then (from_i64 ''snapshot_sequence'' (pj_next_seq p)) (\<lambda>at_seq.
          let rows = select_ordered (\<lambda>r. qr_scope r = scope)
            (\<lambda>r. (qr_resource_kind r, qr_resource_id r)) (MAX_SNAPSHOT_RESOURCES + 1) (pg_resources db) in
          if length rows > MAX_SNAPSHOT_RESOURCES then Inl (SnapshotTooLarge MAX_SNAPSHOT_RESOURCES)
          else and_then (collect_results (pg_decode_resource scope) rows) (\<lambda>resources.
            snapshot_new scope epoch at_seq resources))))"

definition pg_resource ::
  "pg_db \<Rightarrow> project_scope \<Rightarrow> resource_ref \<Rightarrow> canonical_resource option domain_result" where
  "pg_resource db scope ref = map_transpose (pg_decode_resource scope) (pg_find_resource db scope ref)"

section \<open>The mailbox\<close>

definition pg_join_resource :: "pg_db \<Rightarrow> index_row \<Rightarrow> pg_resource_row option" where
  "pg_join_resource db x =
     select_first (\<lambda>r. qr_key r = (ix_scope x, handoff_ref (ix_handoff_id x))) (pg_resources db)"

definition pg_mailbox_where ::
  "pg_db \<Rightarrow> project_scope \<Rightarrow> actor_id \<Rightarrow> handoff_query \<Rightarrow> i64 option \<Rightarrow> index_row \<Rightarrow> bool" where
  "pg_mailbox_where db scope actor query before_seq x \<longleftrightarrow>
     ix_scope x = scope \<and>
     (case hq_mailbox query of Inbox \<Rightarrow> ix_to_actor x = actor | Outbox \<Rightarrow> ix_from_actor x = actor) \<and>
     (hq_source_id query = None \<or> ix_source_id x = hq_source_id query) \<and>
     (hq_include_completed query \<or> ix_status x \<noteq> ''completed'') \<and>
     (case before_seq of None \<Rightarrow> True | Some b \<Rightarrow> ix_updated_seq x < b) \<and>
     (case pg_join_resource db x of None \<Rightarrow> False | Some r \<Rightarrow> \<not> qr_deleted r)"

text \<open>
  \<open>row.get(8)\<close> panics on a NULL body, which \<open>NOT resource.deleted\<close> and the table's CHECK exclude; the
  failure below stands for the panic.
\<close>

definition pg_mailbox_entry ::
  "(bytes \<Rightarrow> handoff_record option) \<Rightarrow> pg_db \<Rightarrow> index_row \<Rightarrow> handoff_list_entry domain_result" where
  "pg_mailbox_entry decode_handoff db x =
     and_then (sql ''handoff_mailbox_row'' (pg_join_resource db x)) (\<lambda>r.
     and_then (sql ''handoff_mailbox_row'' (qr_body_json r)) (\<lambda>body.
     and_then (ok_or (StorageFailure ''handoff_mailbox_decode'' External) (decode_handoff body)) (\<lambda>record.
     and_then (index_row_validate
        \<lparr>hx_updated_seq = ix_updated_seq x, hx_index_revision = ix_revision x,
         hx_handoff_id = ix_handoff_id x, hx_from_actor = ix_from_actor x,
         hx_to_actor = ix_to_actor x, hx_source_id = ix_source_id x, hx_status = ix_status x,
         hx_resource_revision = qr_revision r, hx_body = body\<rparr> record) (\<lambda>_.
     and_then (from_i64 ''handoff_project_sequence'' (ix_updated_seq x)) (\<lambda>seq.
     and_then (pg_revision ''handoff_revision'' (qr_revision r)) (\<lambda>rev.
       Inr \<lparr>hl_project_seq = seq, hl_revision = rev, hl_record = record\<rparr>))))))"

definition pg_handoffs ::
  "(bytes \<Rightarrow> handoff_record option) \<Rightarrow> pg_db \<Rightarrow> project_scope \<Rightarrow> actor_id \<Rightarrow> handoff_query
    \<Rightarrow> handoff_page domain_result" where
  "pg_handoffs decode_handoff db scope actor query =
     and_then (map_transpose (to_i64 ''handoff_before_seq'') (hq_before_seq query)) (\<lambda>before_seq.
     and_then (collect_results (pg_mailbox_entry decode_handoff db)
        (select_ordered (pg_mailbox_where db scope actor query before_seq) (\<lambda>x. - ix_updated_seq x)
           (hq_limit query + 1) (pg_handoff_index db))) (\<lambda>assignments.
       let has_more = length assignments > hq_limit query;
           page = (if has_more then take (hq_limit query) assignments else assignments) in
       Inr \<lparr>hp_assignments = page,
            hp_next_before_seq =
              (if has_more then
                 (if page = [] then None else Some (hl_project_seq (last page)))
               else None)\<rparr>))"

section \<open>Schema\<close>

definition PG_SCHEMA_VERSION :: i64 where "PG_SCHEMA_VERSION = 2"

definition pg_empty :: pg_db where
  "pg_empty = \<lparr>pg_version = None, pg_tenants = [], pg_projects = [], pg_actors = [],
     pg_memberships = [], pg_tokens = [], pg_resources = [], pg_receipts = [], pg_changes = [],
     pg_audit = [], pg_handoff_index = []\<rparr>"

text \<open>
  A version 1 database is read with its absent tables empty and its absent project columns at their
  defaults, which is what the migration script makes of it.
\<close>

definition pg_migrate :: "pg_db \<Rightarrow> pg_db \<times> unit domain_result" where
  "pg_migrate db =
     (case pg_version db of
        None \<Rightarrow> (db\<lparr>pg_version := Some PG_SCHEMA_VERSION\<rparr>, Inr ())
      | Some v \<Rightarrow>
          if v = 1 then (db\<lparr>pg_version := Some PG_SCHEMA_VERSION\<rparr>, Inr ())
          else if v = PG_SCHEMA_VERSION then (db, Inr ())
          else (db, Inl (StorageFailure ''schema_version'' External)))"

definition pg_schema_version :: "pg_db \<Rightarrow> nat domain_result" where
  "pg_schema_version db =
     and_then (sql ''schema_version_read'' (pg_version db)) (\<lambda>v.
       if 0 \<le> v then Inr (nat v) else Inl (StorageFailure ''schema_version_decode'' External))"

definition pg_commit :: "pg_db \<Rightarrow> pg_db domain_result \<Rightarrow> pg_db \<times> unit domain_result" where
  "pg_commit db r = (case r of Inl e \<Rightarrow> (db, Inl e) | Inr tx \<Rightarrow> (tx, Inr ()))"

section \<open>Projects and bootstrap\<close>

definition pg_initialize_project ::
  "project_scope \<Rightarrow> project_epoch \<Rightarrow> pg_db \<Rightarrow> pg_db \<times> unit domain_result" where
  "pg_initialize_project scope epoch db = pg_commit db (
     let row = \<lparr>pj_tenant_id = sc_tenant_id scope, pj_project_id = sc_project_id scope,
                pj_project_epoch = epoch, pj_next_seq = 0, pj_display_name = '''',
                pj_status = ''active'', pj_revision = 1, pj_created_at_ms = 0,
                pj_updated_at_ms = 0\<rparr> in
     and_then (sql ''initialize_insert''
       (insert_or_ignore project_same_key project_check (\<lambda>_. True) row (pg_projects db))) (\<lambda>t.
     let tx = db\<lparr>pg_projects := t\<rparr> in
     and_then (sql ''initialize_read'' (pg_find_project tx scope)) (\<lambda>p.
       if pj_project_epoch p \<noteq> epoch then
         Inl (StorageFailure ''initialize_project''
           (Text ''project already exists with a different epoch''))
       else Inr tx)))"

definition pg_project_epoch :: "pg_db \<Rightarrow> project_scope \<Rightarrow> project_epoch option domain_result" where
  "pg_project_epoch db scope =
     map_transpose (\<lambda>p. id_try_from ''project_epoch'' (pj_project_epoch p)) (pg_find_project db scope)"

definition pg_ensure_tenant_matches :: "pg_db \<Rightarrow> tenant_record \<Rightarrow> unit domain_result" where
  "pg_ensure_tenant_matches db tenant =
     and_then (to_i64 ''tenant_revision'' (tr_revision tenant)) (\<lambda>rev.
       ensure_exact_match
         (select_count (\<lambda>r. tn_tenant_id r = tr_tenant_id tenant \<and>
            tn_status r = record_status_text (tr_status tenant) \<and> tn_revision r = rev)
            (pg_tenants db))
         ''tenant_bootstrap'' ''tenant record conflicts'')"

definition pg_ensure_project_matches :: "pg_db \<Rightarrow> project_record \<Rightarrow> unit domain_result" where
  "pg_ensure_project_matches db project =
     and_then (to_i64 ''project_revision'' (pr_revision project)) (\<lambda>rev.
       ensure_exact_match
         (select_count (\<lambda>r. pj_tenant_id r = pr_tenant_id project \<and>
            pj_project_id r = pr_project_id project \<and>
            pj_project_epoch r = pr_project_epoch project \<and>
            pj_status r = record_status_text (pr_status project) \<and> pj_revision r = rev)
            (pg_projects db))
         ''project_bootstrap'' ''project record conflicts'')"

definition pg_bootstrap_tx ::
  "pg_db \<Rightarrow> tenant_record \<Rightarrow> project_record \<Rightarrow> pg_db domain_result" where
  "pg_bootstrap_tx db tenant project =
     and_then (validate_tenant_project tenant project) (\<lambda>_.
     and_then (to_i64 ''tenant_revision'' (tr_revision tenant)) (\<lambda>trev.
     and_then (sql ''tenant_bootstrap_write'' (insert_or_ignore
         (\<lambda>r u. tn_tenant_id u = tn_tenant_id r) tenant_check (\<lambda>_. True)
         \<lparr>tn_tenant_id = tr_tenant_id tenant, tn_display_name = tr_display_name tenant,
          tn_status = record_status_text (tr_status tenant), tn_revision = trev,
          tn_created_at_ms = tr_created_at_ms tenant, tn_updated_at_ms = tr_updated_at_ms tenant\<rparr>
         (pg_tenants db))) (\<lambda>ts.
     let tx = db\<lparr>pg_tenants := ts\<rparr> in
     and_then (pg_ensure_tenant_matches tx tenant) (\<lambda>_.
     and_then (to_i64 ''project_revision'' (pr_revision project)) (\<lambda>prev.
     and_then (sql ''project_bootstrap_write'' (insert_or_ignore
         project_same_key project_check (\<lambda>_. True)
         \<lparr>pj_tenant_id = pr_tenant_id project, pj_project_id = pr_project_id project,
          pj_project_epoch = pr_project_epoch project, pj_next_seq = 0,
          pj_display_name = pr_display_name project,
          pj_status = record_status_text (pr_status project), pj_revision = prev,
          pj_created_at_ms = pr_created_at_ms project, pj_updated_at_ms = pr_updated_at_ms project\<rparr>
         (pg_projects tx))) (\<lambda>ps.
     and_then (sql ''project_bootstrap_adopt'' (update_rows project_check
         (\<lambda>p. pj_tenant_id p = pr_tenant_id project \<and> pj_project_id p = pr_project_id project \<and>
            pj_project_epoch p = pr_project_epoch project \<and> pj_display_name p = '''' \<and>
            pj_status p = ''active'' \<and> pj_revision p = 1 \<and> pj_created_at_ms p = 0 \<and>
            pj_updated_at_ms p = 0)
         (\<lambda>p. p\<lparr>pj_display_name := pr_display_name project,
                 pj_status := record_status_text (pr_status project), pj_revision := prev,
                 pj_created_at_ms := pr_created_at_ms project,
                 pj_updated_at_ms := pr_updated_at_ms project\<rparr>) ps)) (\<lambda>(ps, _).
     let tx = tx\<lparr>pg_projects := ps\<rparr> in
     and_then (pg_ensure_project_matches tx project) (\<lambda>_. Inr tx))))))))"

definition pg_bootstrap_project ::
  "tenant_record \<Rightarrow> project_record \<Rightarrow> pg_db \<Rightarrow> pg_db \<times> unit domain_result" where
  "pg_bootstrap_project tenant project db = pg_commit db (pg_bootstrap_tx db tenant project)"

section \<open>Actors and authentication\<close>

definition pg_ensure_actor_matches :: "pg_db \<Rightarrow> actor_record \<Rightarrow> unit domain_result" where
  "pg_ensure_actor_matches db actor =
     and_then (to_i64 ''actor_revision'' (ar_revision actor)) (\<lambda>rev.
       ensure_exact_match
         (select_count (\<lambda>r. at_tenant_id r = ar_tenant_id actor \<and>
            at_actor_id r = ar_actor_id actor \<and>
            at_kind r = actor_kind_text (ar_kind actor) \<and>
            at_status r = record_status_text (ar_status actor) \<and> at_revision r = rev)
            (pg_actors db))
         ''actor_provision'' ''actor record conflicts'')"

definition pg_ensure_membership_matches :: "pg_db \<Rightarrow> project_membership \<Rightarrow> unit domain_result" where
  "pg_ensure_membership_matches db m =
     ensure_exact_match
       (select_count (\<lambda>r. ms_tenant_id r = pm_tenant_id m \<and> ms_project_id r = pm_project_id m \<and>
          ms_actor_id r = pm_actor_id m \<and> ms_role r = membership_role_text (pm_role m) \<and>
          ms_status r = membership_status_text (pm_status m)) (pg_memberships db))
       ''membership_provision'' ''membership record conflicts''"

definition pg_ensure_token_matches :: "pg_db \<Rightarrow> bytes \<Rightarrow> actor_record \<Rightarrow> unit domain_result" where
  "pg_ensure_token_matches db token actor =
     ensure_exact_match
       (select_count (\<lambda>r. qt_token_sha256 r = token \<and> qt_tenant_id r = ar_tenant_id actor \<and>
          qt_actor_id r = ar_actor_id actor \<and> qt_active r) (pg_tokens db))
       ''token_provision'' ''token binding conflicts''"

definition pg_ensure_active_tenant_project ::
  "pg_db \<Rightarrow> tenant_id \<Rightarrow> project_id \<Rightarrow> unit domain_result" where
  "pg_ensure_active_tenant_project db tid pid =
     ensure_exact_match
       (select_count (\<lambda>(t, p). pj_tenant_id p = tn_tenant_id t \<and> tn_tenant_id t = tid \<and>
          pj_project_id p = pid \<and> tn_status t = ''active'' \<and> pj_status p = ''active'')
          (List.product (pg_tenants db) (pg_projects db)))
       ''active_project'' ''active tenant and project were not found''"

definition pg_provision_tx ::
  "pg_db \<Rightarrow> actor_record \<Rightarrow> project_membership \<Rightarrow> bytes \<Rightarrow> i64 \<Rightarrow> pg_db domain_result" where
  "pg_provision_tx db actor m token created_at_ms =
     and_then (validate_actor_membership actor m token) (\<lambda>_.
     and_then (pg_ensure_active_tenant_project db (pm_tenant_id m) (pm_project_id m)) (\<lambda>_.
     and_then (to_i64 ''actor_revision'' (ar_revision actor)) (\<lambda>rev.
     and_then (sql ''actor_provision_write'' (insert_or_ignore
         (\<lambda>r u. at_tenant_id u = at_tenant_id r \<and> at_actor_id u = at_actor_id r)
         actor_check (pg_actor_fk db)
         \<lparr>at_tenant_id = ar_tenant_id actor, at_actor_id = ar_actor_id actor,
          at_display_name = ar_display_name actor, at_kind = actor_kind_text (ar_kind actor),
          at_status = record_status_text (ar_status actor), at_revision = rev,
          at_created_at_ms = ar_created_at_ms actor, at_updated_at_ms = ar_updated_at_ms actor\<rparr>
         (pg_actors db))) (\<lambda>rows.
     let tx = db\<lparr>pg_actors := rows\<rparr> in
     and_then (pg_ensure_actor_matches tx actor) (\<lambda>_.
     and_then (sql ''membership_provision_write'' (insert_or_ignore
         (\<lambda>r u. ms_tenant_id u = ms_tenant_id r \<and> ms_project_id u = ms_project_id r \<and>
            ms_actor_id u = ms_actor_id r)
         membership_check (pg_membership_fk tx)
         \<lparr>ms_tenant_id = pm_tenant_id m, ms_project_id = pm_project_id m,
          ms_actor_id = pm_actor_id m, ms_role = membership_role_text (pm_role m),
          ms_status = membership_status_text (pm_status m)\<rparr>
         (pg_memberships tx))) (\<lambda>rows.
     let tx = tx\<lparr>pg_memberships := rows\<rparr> in
     and_then (pg_ensure_membership_matches tx m) (\<lambda>_.
     and_then (sql ''token_provision_write'' (insert_or_ignore
         (\<lambda>r u. qt_token_sha256 u = qt_token_sha256 r) pg_token_check (pg_token_fk tx)
         \<lparr>qt_token_sha256 = token, qt_tenant_id = ar_tenant_id actor,
          qt_actor_id = ar_actor_id actor, qt_active = True, qt_created_at_ms = created_at_ms\<rparr>
         (pg_tokens tx))) (\<lambda>rows.
     let tx = tx\<lparr>pg_tokens := rows\<rparr> in
     and_then (pg_ensure_token_matches tx token actor) (\<lambda>_. Inr tx)))))))))"

definition pg_provision_actor ::
  "actor_record \<Rightarrow> project_membership \<Rightarrow> bytes \<Rightarrow> i64 \<Rightarrow> pg_db \<Rightarrow> pg_db \<times> unit domain_result" where
  "pg_provision_actor actor m token created_at_ms db =
     pg_commit db (pg_provision_tx db actor m token created_at_ms)"

definition pg_active_tenant :: "pg_db \<Rightarrow> string \<Rightarrow> bool" where
  "pg_active_tenant db t \<longleftrightarrow>
     list_ex (\<lambda>r. tn_tenant_id r = t \<and> tn_status r = ''active'') (pg_tenants db)"

definition pg_active_project :: "pg_db \<Rightarrow> project_scope \<Rightarrow> bool" where
  "pg_active_project db scope \<longleftrightarrow>
     list_ex (\<lambda>r. pj_scope r = scope \<and> pj_status r = ''active'') (pg_projects db)"

definition pg_active_actor :: "pg_db \<Rightarrow> string \<Rightarrow> string \<Rightarrow> bool" where
  "pg_active_actor db t a \<longleftrightarrow>
     list_ex (\<lambda>r. at_tenant_id r = t \<and> at_actor_id r = a \<and> at_status r = ''active'') (pg_actors db)"

definition pg_authenticate_token ::
  "pg_db \<Rightarrow> bytes \<Rightarrow> authenticated_actor option domain_result" where
  "pg_authenticate_token db token =
    (if length token \<noteq> 32 then
       Inl (InvalidCommand (Text ''bearer token digest must contain 32 bytes''))
     else
       map_transpose (\<lambda>r. and_then (id_try_from ''tenant_id'' (qt_tenant_id r)) (\<lambda>t.
           and_then (id_try_from ''actor_id'' (qt_actor_id r)) (\<lambda>a.
             Inr \<lparr>aa_tenant_id = t, aa_actor_id = a\<rparr>)))
         (select_first (\<lambda>r. qt_token_sha256 r = token \<and> qt_active r \<and>
            pg_active_tenant db (qt_tenant_id r) \<and> pg_active_actor db (qt_tenant_id r) (qt_actor_id r))
            (pg_tokens db)))"

definition pg_project_membership ::
  "pg_db \<Rightarrow> project_scope \<Rightarrow> actor_id \<Rightarrow> project_membership option domain_result" where
  "pg_project_membership db scope actor =
     map_transpose (\<lambda>r. and_then (parse_membership_role (ms_role r)) (\<lambda>role.
         and_then (parse_membership_status (ms_status r)) (\<lambda>status.
           Inr \<lparr>pm_tenant_id = sc_tenant_id scope, pm_project_id = sc_project_id scope,
                pm_actor_id = actor, pm_role = role, pm_status = status\<rparr>)))
       (select_first (\<lambda>r. ms_tenant_id r = sc_tenant_id scope \<and>
          ms_project_id r = sc_project_id scope \<and> ms_actor_id r = actor \<and>
          ms_status r = ''active'' \<and> pg_active_tenant db (sc_tenant_id scope) \<and>
          pg_active_project db scope \<and> pg_active_actor db (sc_tenant_id scope) actor)
          (pg_memberships db))"

end
