(* ===== verification/Pg_Refinement.thy ===== *)
theory Pg_Refinement
  imports Pg_Reads Feed_Refinement Mailbox_Refinement Store_Admin
begin

text \<open>
  The PostgreSQL store against the SQLite store: \<open>pg_sqlite\<close> reads the PostgreSQL tables as SQLite
  tables (booleans as 0 and 1, every change with its state), each statement commutes with it, and on
  the databases that hold a ledger every operation answers as the SQLite operation does. The
  PostgreSQL store therefore implements the same abstract ledger.
\<close>

section \<open>Statements under a renaming of the rows\<close>

named_theorems row_maps \<open>statements on a mapped table\<close>

lemma map_ok_and_then [row_maps]:
  "map_sum id f (and_then r g) = and_then r (\<lambda>x. map_sum id f (g x))"
  by (cases r) simp_all

lemma and_then_map_ok [row_maps]: "and_then (map_sum id f r) h = and_then r (\<lambda>x. h (f x))"
  by (cases r) simp_all

lemma map_ok_if [row_maps]:
  "map_sum id f (if b then r else r') = (if b then map_sum id f r else map_sum id f r')"
  by simp

lemma sql_map [row_maps]: "sql operation (map_option f r) = map_sum id f (sql operation r)"
  by (cases r) (simp_all add: sql_def)

lemma map_transpose_map [row_maps]:
  "map_transpose g (map_option f r) = map_transpose (\<lambda>x. g (f x)) r"
  by (cases r) simp_all

lemma select_ordered_map [row_maps]:
  "select_ordered p k n (map f t) = map f (select_ordered (\<lambda>r. p (f r)) (\<lambda>r. k (f r)) n t)"
  by (simp add: select_ordered_def filter_map comp_def sort_key_map take_map)

lemma select_count_map [row_maps]: "select_count p (map f t) = select_count (\<lambda>r. p (f r)) t"
  by (simp add: select_count_def filter_map comp_def)

lemma insert_row_map:
  assumes "\<And>u. clash' (f r) (f u) = clash r u" "check' (f r) = check r" "fk' (f r) = fk r"
  shows "insert_row clash' check' fk' (f r) (map f t) = map_option (map f) (insert_row clash check fk r t)"
  using assms by (simp add: insert_row_def list_ex_iff)

lemma insert_or_ignore_map:
  assumes "\<And>u. clash' (f r) (f u) = clash r u" "check' (f r) = check r" "fk' (f r) = fk r"
  shows "insert_or_ignore clash' check' fk' (f r) (map f t) =
    map_option (map f) (insert_or_ignore clash check fk r t)"
  using assms by (simp add: insert_or_ignore_def list_ex_iff)

lemma upsert_row_map:
  assumes "\<And>u. key' (f u) = key u" "check' (f r) = check r" "fk' (f r) = fk r"
  shows "upsert_row key' check' fk' (f r) (map f t) = map_option (map f) (upsert_row key check fk r t)"
  using assms by (simp add: upsert_row_def list_ex_iff)

section \<open>PostgreSQL rows as SQLite rows\<close>

definition sql_bool :: "bool \<Rightarrow> i64" where "sql_bool b = (if b then 1 else 0)"

definition sq_token :: "pg_token_row \<Rightarrow> token_row" where
  "sq_token r = \<lparr>tk_token_sha256 = qt_token_sha256 r, tk_tenant_id = qt_tenant_id r,
     tk_actor_id = qt_actor_id r, tk_active = sql_bool (qt_active r),
     tk_created_at_ms = qt_created_at_ms r\<rparr>"

definition sq_resource :: "pg_resource_row \<Rightarrow> resource_row" where
  "sq_resource r = \<lparr>rs_tenant_id = qr_tenant_id r, rs_project_id = qr_project_id r,
     rs_resource_kind = qr_resource_kind r, rs_resource_id = qr_resource_id r,
     rs_revision = qr_revision r, rs_deleted = sql_bool (qr_deleted r), rs_body_json = qr_body_json r\<rparr>"

definition sq_change :: "pg_change_row \<Rightarrow> change_row" where
  "sq_change r = \<lparr>ch_tenant_id = qc_tenant_id r, ch_project_id = qc_project_id r,
     ch_project_epoch = qc_project_epoch r, ch_seq = qc_seq r,
     ch_resource_kind = qc_resource_kind r, ch_resource_id = qc_resource_id r,
     ch_operation = qc_operation r, ch_revision = qc_revision r, ch_actor_id = qc_actor_id r,
     ch_committed_at_ms = qc_committed_at_ms r, ch_state_available = 1,
     ch_body_json = qc_body_json r\<rparr>"

definition pg_sqlite :: "pg_db \<Rightarrow> store_db" where
  "pg_sqlite db = \<lparr>db_user_version = SCHEMA_VERSION, db_tenants = pg_tenants db,
     db_projects = pg_projects db, db_actors = pg_actors db, db_memberships = pg_memberships db,
     db_token_bindings = map sq_token (pg_tokens db),
     db_resources = map sq_resource (pg_resources db), db_receipts = pg_receipts db,
     db_changes = map sq_change (pg_changes db), db_audit = pg_audit db,
     db_handoff_index = pg_handoff_index db\<rparr>"

lemma sql_bool_simps [simp]: "sql_bool True = 1" "sql_bool False = 0" "sql_bool b = 0 \<longleftrightarrow> \<not> b" "sql_bool b = 1 \<longleftrightarrow> b"
  by (auto simp: sql_bool_def)

lemma sq_fields [simp]:
  "tk_token_sha256 (sq_token t) = qt_token_sha256 t" "tk_tenant_id (sq_token t) = qt_tenant_id t"
  "tk_actor_id (sq_token t) = qt_actor_id t" "tk_active (sq_token t) = sql_bool (qt_active t)"
  "rs_resource_kind (sq_resource r) = qr_resource_kind r"
  "rs_resource_id (sq_resource r) = qr_resource_id r" "rs_revision (sq_resource r) = qr_revision r"
  "rs_deleted (sq_resource r) = sql_bool (qr_deleted r)" "rs_body_json (sq_resource r) = qr_body_json r"
  "rs_scope (sq_resource r) = qr_scope r" "rs_key (sq_resource r) = qr_key r"
  "ch_scope (sq_change c) = qc_scope c" "ch_seq (sq_change c) = qc_seq c"
  "ch_state_available (sq_change c) = 1" "ch_body_json (sq_change c) = qc_body_json c"
  by (simp_all add: sq_token_def sq_resource_def sq_change_def rs_scope_def qr_scope_def
      ch_scope_def qc_scope_def rs_key_def rs_ref_def qr_key_def)

lemma sq_checks [simp]:
  "token_check (sq_token t) = pg_token_check t"
  "resource_check (sq_resource r) = pg_resource_check r"
  "change_check (sq_change c) = pg_change_check c"
  "change_clash (sq_change c) (sq_change c') = pg_change_clash c c'"
  by (auto simp: token_check_def pg_token_check_def resource_check_def pg_resource_check_def
      change_check_def pg_change_check_def change_clash_def pg_change_clash_def
      sq_change_def sql_bool_def)
    (simp_all add: ch_scope_def qc_scope_def)

lemma pg_sqlite_simps [simp]:
  "db_tenants (pg_sqlite db) = pg_tenants db" "db_projects (pg_sqlite db) = pg_projects db"
  "db_actors (pg_sqlite db) = pg_actors db" "db_memberships (pg_sqlite db) = pg_memberships db"
  "db_token_bindings (pg_sqlite db) = map sq_token (pg_tokens db)"
  "db_resources (pg_sqlite db) = map sq_resource (pg_resources db)"
  "db_receipts (pg_sqlite db) = pg_receipts db"
  "db_changes (pg_sqlite db) = map sq_change (pg_changes db)"
  "db_audit (pg_sqlite db) = pg_audit db"
  "db_handoff_index (pg_sqlite db) = pg_handoff_index db"
  by (simp_all add: pg_sqlite_def)

lemma pg_sqlite_updates:
  "pg_sqlite (db\<lparr>pg_tenants := ts\<rparr>) = pg_sqlite db\<lparr>db_tenants := ts\<rparr>"
  "pg_sqlite (db\<lparr>pg_projects := ps\<rparr>) = pg_sqlite db\<lparr>db_projects := ps\<rparr>"
  "pg_sqlite (db\<lparr>pg_actors := as\<rparr>) = pg_sqlite db\<lparr>db_actors := as\<rparr>"
  "pg_sqlite (db\<lparr>pg_memberships := ms\<rparr>) = pg_sqlite db\<lparr>db_memberships := ms\<rparr>"
  "pg_sqlite (db\<lparr>pg_tokens := tks\<rparr>) = pg_sqlite db\<lparr>db_token_bindings := map sq_token tks\<rparr>"
  "pg_sqlite (db\<lparr>pg_resources := rs\<rparr>) = pg_sqlite db\<lparr>db_resources := map sq_resource rs\<rparr>"
  "pg_sqlite (db\<lparr>pg_receipts := rcs\<rparr>) = pg_sqlite db\<lparr>db_receipts := rcs\<rparr>"
  "pg_sqlite (db\<lparr>pg_changes := cs\<rparr>) = pg_sqlite db\<lparr>db_changes := map sq_change cs\<rparr>"
  "pg_sqlite (db\<lparr>pg_audit := xs\<rparr>) = pg_sqlite db\<lparr>db_audit := xs\<rparr>"
  "pg_sqlite (db\<lparr>pg_handoff_index := is\<rparr>) = pg_sqlite db\<lparr>db_handoff_index := is\<rparr>"
  "pg_sqlite (db\<lparr>pg_version := v\<rparr>) = pg_sqlite db"
  by (simp_all add: pg_sqlite_def)

lemma pg_readers [simp]:
  "find_project (pg_sqlite db) scope = pg_find_project db scope"
  "find_resource (pg_sqlite db) scope ref = map_option sq_resource (pg_find_resource db scope ref)"
  "project_exists (pg_sqlite db) scope = pg_project_exists db scope"
  "actor_exists (pg_sqlite db) t a = pg_actor_exists db t a"
  "actor_fk (pg_sqlite db) = pg_actor_fk db"
  "membership_fk (pg_sqlite db) = pg_membership_fk db"
  "token_fk (pg_sqlite db) (sq_token tk) = pg_token_fk db tk"
  "index_fk (pg_sqlite db) = pg_index_fk db"
  by (auto simp: find_project_def pg_find_project_def find_resource_def pg_find_resource_def
      find_map comp_def project_exists_def pg_project_exists_def actor_exists_def
      pg_actor_exists_def actor_fk_def pg_actor_fk_def membership_fk_def pg_membership_fk_def
      token_fk_def pg_token_fk_def index_fk_def pg_index_fk_def list_ex_iff fun_eq_iff)

section \<open>Writers\<close>

lemma pg_write_resource_eq:
  "write_resource (pg_sqlite db) scope c revision =
     map_sum id pg_sqlite (pg_write_resource db scope c revision)"
proof -
  have row: "\<lparr>rs_tenant_id = sc_tenant_id scope, rs_project_id = sc_project_id scope,
      rs_resource_kind = rf_kind (mc_resource c), rs_resource_id = rf_id (mc_resource c),
      rs_revision = i, rs_deleted = (if mc_change c = Delete then 1 else 0),
      rs_body_json = mc_resource_body c\<rparr> =
    sq_resource \<lparr>qr_tenant_id = sc_tenant_id scope, qr_project_id = sc_project_id scope,
      qr_resource_kind = rf_kind (mc_resource c), qr_resource_id = rf_id (mc_resource c),
      qr_revision = i, qr_deleted = (mc_change c = Delete), qr_body_json = mc_resource_body c\<rparr>" for i
    by (simp add: sq_resource_def sql_bool_def)
  have upsert: "upsert_row rs_key resource_check (\<lambda>r. pg_project_exists db (rs_scope r))
      (sq_resource r) (map sq_resource t) = map_option (map sq_resource)
        (upsert_row qr_key pg_resource_check (\<lambda>r. pg_project_exists db (qr_scope r)) r t)" for r t
    by (intro upsert_row_map) simp_all
  show ?thesis
    by (simp add: write_resource_def pg_write_resource_def Let_def row upsert row_maps
        pg_sqlite_updates)
qed

lemma pg_update_handoff_index_eq:
  "update_handoff_index dec (pg_sqlite db) scope ref change body revision sequence =
     map_sum id pg_sqlite (pg_update_handoff_index dec db scope ref change body revision sequence)"
  by (simp add: update_handoff_index_def pg_update_handoff_index_def Let_def row_maps
      pg_sqlite_updates cong: if_cong)

lemma pg_insert_receipt_eq:
  assumes "uint (cp_project_seq r) \<le> i64_max" "uint (cp_revision r) \<le> i64_max"
  shows "insert_receipt (pg_sqlite db) r = map_sum id pg_sqlite (pg_insert_receipt db r)"
  using assms
  by (simp add: insert_receipt_def pg_insert_receipt_def Let_def row_maps pg_sqlite_updates)

lemma pg_insert_change_eq:
  assumes "uint (cp_project_seq r) \<le> i64_max" "uint (cp_revision r) \<le> i64_max"
    and "body_matches_change change body"
    and "pg_find_project db (receipt_scope r) = Some p"
  shows "insert_change (pg_sqlite db) r change body =
    map_sum id pg_sqlite (pg_insert_change db r (pj_project_epoch p) change body)"
proof -
  have insert: "insert_row change_clash change_check (\<lambda>x. pg_project_exists db (ch_scope x))
      (sq_change r) (map sq_change t) = map_option (map sq_change)
        (insert_row pg_change_clash pg_change_check (\<lambda>x. pg_project_exists db (qc_scope x)) r t)" for r t
    by (intro insert_row_map) simp_all
  have row: "\<lparr>ch_tenant_id = t, ch_project_id = i, ch_project_epoch = e, ch_seq = s,
      ch_resource_kind = k, ch_resource_id = j, ch_operation = op, ch_revision = v, ch_actor_id = a,
      ch_committed_at_ms = m, ch_state_available = 1, ch_body_json = b\<rparr> =
    sq_change \<lparr>qc_tenant_id = t, qc_project_id = i, qc_project_epoch = e, qc_seq = s,
      qc_resource_kind = k, qc_resource_id = j, qc_operation = op, qc_revision = v, qc_actor_id = a,
      qc_committed_at_ms = m, qc_body_json = b\<rparr>" for t i e s k j op v a m b
    by (simp add: sq_change_def)
  show ?thesis
    using assms
    by (simp add: insert_change_def pg_insert_change_def Let_def row insert row_maps
        pg_sqlite_updates)
qed

lemma pg_insert_audit_eq:
  assumes "uint (cp_project_seq r) \<le> i64_max"
  shows "insert_audit (pg_sqlite db) r op = map_sum id pg_sqlite (pg_insert_audit db r op)"
  using assms by (simp add: insert_audit_def pg_insert_audit_def Let_def row_maps pg_sqlite_updates)

lemma pg_advance_sequence_eq:
  "advance_sequence (pg_sqlite db) scope sequence current =
     map_sum id pg_sqlite (pg_advance_sequence db scope sequence current)"
  by (simp add: advance_sequence_def pg_advance_sequence_def row_maps pg_sqlite_updates
      split_def cong: if_cong)

section \<open>Executing a command\<close>

lemma and_then_step: "(\<And>x. r = Inr x \<Longrightarrow> f x = g x) \<Longrightarrow> and_then r f = and_then r g"
  by (cases r) simp_all

lemma pg_writers_keep_projects:
  "pg_write_resource db scope c revision = Inr db' \<Longrightarrow> pg_projects db' = pg_projects db"
  "pg_update_handoff_index dec db scope ref change body revision sequence = Inr db' \<Longrightarrow>
     pg_projects db' = pg_projects db"
  "pg_insert_receipt db r = Inr db' \<Longrightarrow> pg_projects db' = pg_projects db"
  by (auto simp: pg_write_resource_def pg_update_handoff_index_def pg_insert_receipt_def Let_def
      result_iffs split: if_splits)

definition pg_commit_entry ::
  "(bytes \<Rightarrow> handoff_record option) \<Rightarrow> pg_db \<Rightarrow> project_scope \<Rightarrow> mutation_command \<Rightarrow> log_entry
    \<Rightarrow> string \<Rightarrow> project_sequence \<Rightarrow> pg_db domain_result" where
  "pg_commit_entry dec tx scope c e epoch current =
     (let r = le_receipt e in
     and_then (pg_write_resource tx scope c (cp_revision r)) (\<lambda>tx.
     and_then (pg_update_handoff_index dec tx scope (le_ref e) (le_change e) (le_body e)
        (cp_revision r) (cp_project_seq r)) (\<lambda>tx.
     and_then (pg_insert_receipt tx r) (\<lambda>tx.
     and_then (pg_insert_change tx r epoch (le_change e) (le_body e)) (\<lambda>tx.
     and_then (pg_insert_audit tx r (le_operation e)) (\<lambda>tx.
       pg_advance_sequence tx scope (cp_project_seq r) current))))))"

lemma pg_commit_entry_eq:
  assumes "uint (cp_project_seq (le_receipt e)) \<le> i64_max"
    and "uint (cp_revision (le_receipt e)) \<le> i64_max"
    and "body_matches_change (le_change e) (le_body e)" "receipt_scope (le_receipt e) = scope"
    and "pg_find_project db scope = Some p"
  shows "commit_entry dec (pg_sqlite db) scope c e current =
    map_sum id pg_sqlite (pg_commit_entry dec db scope c e (pj_project_epoch p) current)"
proof -
  have change: "insert_change (pg_sqlite tx) (le_receipt e) (le_change e) (le_body e) =
      map_sum id pg_sqlite (pg_insert_change tx (le_receipt e) (pj_project_epoch p) (le_change e)
        (le_body e))" if "pg_projects tx = pg_projects db" for tx
    using assms that by (intro pg_insert_change_eq) (simp_all add: pg_find_project_def)
  show ?thesis
    unfolding commit_entry_def pg_commit_entry_def Let_def pg_write_resource_eq map_ok_and_then
      and_then_map_ok
  proof (rule and_then_step, goal_cases)
    case (1 tx1)
    show ?case
      unfolding pg_update_handoff_index_eq map_ok_and_then and_then_map_ok
    proof (rule and_then_step, goal_cases)
      case (1 tx2)
      show ?case
        unfolding pg_insert_receipt_eq [OF assms(1,2)] map_ok_and_then and_then_map_ok
      proof (rule and_then_step, goal_cases)
        case (1 tx3)
        have "pg_projects tx3 = pg_projects db"
          using pg_writers_keep_projects(1) [OF \<open>pg_write_resource _ _ _ _ = _\<close>]
            pg_writers_keep_projects(2) [OF \<open>pg_update_handoff_index _ _ _ _ _ _ _ _ = _\<close>]
            pg_writers_keep_projects(3) [OF 1]
          by simp
        then show ?case
          using assms(1) by (simp add: change pg_insert_audit_eq pg_advance_sequence_eq row_maps)
      qed
    qed
  qed
qed

lemma pg_revision_eq: "pg_revision ''resource_revision'' = decode_revision"
  by (simp add: fun_eq_iff pg_revision_def decode_revision_def)

lemma pg_load_revision_eq:
  "load_resource_revision (pg_sqlite db) scope ref = pg_load_resource_revision db scope ref"
  by (simp add: load_resource_revision_def pg_load_resource_revision_def pg_revision_eq row_maps)

lemma pg_decode_receipt_enc:
  "entry_ok dec scope e \<Longrightarrow> pg_decode_receipt scope (enc_receipt e) = Inr (le_receipt e)"
  by (frule entry_okD(1))
    (auto simp: pg_decode_receipt_def enc_receipt_def Let_def entry_okD pg_revision_def
      receipt_scope_def)

lemma pg_load_receipt_rel:
  assumes "store_rel dec (pg_sqlite db) L"
  shows "pg_load_receipt db scope cid =
    Inr (map_option le_receipt (find_command (log_of L scope) cid))"
proof -
  have "pg_load_receipt db scope cid =
      map_transpose (pg_decode_receipt scope) (find_receipt (pg_sqlite db) scope cid)"
    by (simp add: pg_load_receipt_def find_receipt_def)
  moreover have "pg_decode_receipt scope (enc_receipt e) = Inr (le_receipt e)"
    if "find_command (log_of L scope) cid = Some e" for e
    using find_command_Some [OF that] assms
    by (auto simp: store_rel_def intro: pg_decode_receipt_enc ledger_entry_ok)
  ultimately show ?thesis
    by (cases "find_command (log_of L scope) cid") (simp_all add: find_receipt_rel [OF assms])
qed

lemma pg_next_sequence_length:
  "int n < i64_max \<Longrightarrow> pg_next_sequence (of_nat n) = Inr (of_nat (n + 1))"
  using next_sequence_length [of n]
  by (auto simp: pg_next_sequence_def next_sequence_def result_iffs)

lemma pg_registered:
  assumes "store_rel dec (pg_sqlite db) L" "L scope = Some (epoch, log)"
  obtains p where "pg_find_project db scope = Some p" "pj_project_epoch p = epoch"
    "from_i64 operation (pj_next_seq p) = Inr (of_nat (length log))"
  using project_exists_rel(2) [OF assms] by (auto simp: from_i64_def i64_try_u64_def)

lemma pg_unregistered:
  assumes "store_rel dec (pg_sqlite db) L"
  shows "pg_find_project db scope = None \<longleftrightarrow> L scope = None"
  using assms projects_relD [of "pg_sqlite db" L scope] by (auto simp: store_rel_def)

abbreviation pg_tx_result :: "(pg_db \<times> 'a) domain_result \<Rightarrow> (store_db \<times> 'a) domain_result" where
  "pg_tx_result \<equiv> map_sum id (map_prod pg_sqlite id)"

lemma ledger_entry_bounds:
  assumes "log_ok dec scope log" "int (length log) < i64_max"
  shows "uint (of_nat (length log + 1) :: u64) \<le> i64_max"
    and "uint (succ_revision (current_revision log ref)) \<le> i64_max"
proof -
  have "uint (of_nat (length log + 1) :: u64) = int (length log + 1)"
    using assms(2) by (intro unat_of_nat_i64) simp
  then show "uint (of_nat (length log + 1) :: u64) \<le> i64_max"
    using assms(2) by simp
  have "unat (succ_revision (current_revision log ref)) = prior_count log ref + 1"
    using next_revision_count [OF assms] by blast
  then have "uint (succ_revision (current_revision log ref)) = int (prior_count log ref + 1)"
    by (metis uint_unat_u64)
  then show "uint (succ_revision (current_revision log ref)) \<le> i64_max"
    using assms(2) prior_count_le [of log ref] by simp
qed

lemma pg_execute_registered:
  assumes rel: "store_rel dec (pg_sqlite db) L" and L: "L (command_scope c) = Some (epoch, log)"
    and room: "int (length log) < i64_max"
    and body: "body_matches_change (mc_change c) (mc_resource_body c)"
  shows "execute_transaction dec clock (pg_sqlite db) c =
    pg_tx_result (pg_execute_transaction dec clock db c)"
proof -
  let ?cur = "current_revision log (mc_resource c)"
  obtain p where p: "pg_find_project db (command_scope c) = Some p"
    "from_i64 ''project_sequence'' (pj_next_seq p) = Inr (of_nat (length log))"
    using pg_registered [OF rel L] by metis
  have ok: "log_ok dec (command_scope c) log"
    using rel L ledger_ok_log [of dec L "command_scope c"] by (simp add: store_rel_def)
  have receipt: "pg_load_receipt db (command_scope c) cid = Inr (map_option le_receipt (find_command log cid))"
    for cid
    using pg_load_receipt_rel [OF rel, of "command_scope c"] L by simp
  have revision: "pg_load_resource_revision db (command_scope c) (mc_resource c) = Inr ?cur"
    using load_resource_revision_rel [OF rel, of "command_scope c"] L by (simp add: pg_load_revision_eq)
  have commit: "commit_entry dec (pg_sqlite db) (command_scope c) c (ledger_entry log now c) cur =
      map_sum id pg_sqlite (pg_commit_entry dec db (command_scope c) c (ledger_entry log now c)
        (pj_project_epoch p) cur)" for now cur
    using ledger_entry_bounds [OF ok room] body p(1) by (intro pg_commit_entry_eq) simp_all
  have checked: "check_change_body (mc_change c) (mc_resource_body c) = Inr ()"
    using body by (simp add: result_iffs)
  have "pg_execute_transaction dec clock db c =
    (case find_command log (command_id_of c) of
       Some e \<Rightarrow>
         if cp_actor_id (le_receipt e) \<noteq> command_actor c \<or>
            cp_fingerprint (le_receipt e) \<noteq> mc_fingerprint c then Inl CommandConflict
         else Inr (db, le_receipt e)
     | None \<Rightarrow>
         and_then (check_expected_revision (en_expected_revision (ac_envelope (mc_command c))) ?cur) (\<lambda>_.
         and_then (unix_time_ms clock) (\<lambda>now.
           let e = ledger_entry log now c in
           and_then (pg_commit_entry dec db (command_scope c) c e (pj_project_epoch p)
             (of_nat (length log))) (\<lambda>tx. Inr (tx, le_receipt e)))))"
    using checked p next_revision_count [OF ok room, of "mc_resource c"] pg_next_sequence_length [OF room]
    by (simp add: pg_execute_transaction_def Let_def pg_commit_entry_def receipt revision and_then_assoc
        flip: command_scope_def command_actor_def command_id_of_def split: option.splits)
  then show ?thesis
    unfolding execute_transaction_rel [OF rel L room body]
    by (simp add: commit row_maps Let_def split: option.splits cong: if_cong)
qed

lemma pg_execute_transaction_eq:
  assumes rel: "store_rel dec (pg_sqlite db) L"
    and room: "int (length (log_of L (command_scope c))) < i64_max"
  shows "execute_transaction dec clock (pg_sqlite db) c =
    pg_tx_result (pg_execute_transaction dec clock db c)"
proof (cases "check_change_body (mc_change c) (mc_resource_body c)")
  case (Inl er)
  then show ?thesis
    by (simp add: execute_transaction_def pg_execute_transaction_def Let_def)
next
  case (Inr u)
  then have body: "body_matches_change (mc_change c) (mc_resource_body c)"
    by (simp add: result_iffs)
  show ?thesis
  proof (cases "L (command_scope c)")
    case None
    then have "pg_find_project db (command_scope c) = None"
      by (simp add: pg_unregistered [OF rel])
    then show ?thesis
      using Inr execute_unauthorized [OF rel None body]
      by (simp add: pg_execute_transaction_def Let_def flip: command_scope_def)
  next
    case (Some el)
    then show ?thesis
      using pg_execute_registered [OF rel _ _ body, of "fst el" "snd el"] room by (cases el) simp
  qed
qed

lemma pg_execute_eq:
  assumes "store_rel dec (pg_sqlite db) L"
    and "int (length (log_of L (command_scope c))) < i64_max"
  shows "execute dec clock c (pg_sqlite db) = map_prod pg_sqlite id (pg_execute dec clock c db)"
  using pg_execute_transaction_eq [OF assms, of clock]
  by (cases "pg_execute_transaction dec clock db c") (auto simp: execute_def pg_execute_def)

end
