(* ===== verification/Pg_Feeds.thy ===== *)
theory Pg_Feeds
  imports Pg_Refinement
begin

text \<open>
  The reads and the administrative operations of the PostgreSQL store answer as the SQLite store's
  do on the tables \<open>pg_sqlite\<close> reads: the mailbox, bootstrap, provisioning, authentication and
  membership on every database, the feeds, the snapshot and the epoch on those that hold a ledger.
\<close>

section \<open>The mailbox\<close>

lemma pg_join_eq: "join_resource (pg_sqlite db) x = map_option sq_resource (pg_join_resource db x)"
  by (simp add: join_resource_def pg_join_resource_def find_map comp_def)

lemma pg_mailbox_where_eq:
  "mailbox_where (pg_sqlite db) = pg_mailbox_where db"
  by (simp add: fun_eq_iff mailbox_where_def pg_mailbox_where_def pg_join_eq split: option.split)

lemma pg_mailbox_entry_eq: "mailbox_entry dec (pg_sqlite db) = pg_mailbox_entry dec db"
  by (simp add: fun_eq_iff mailbox_entry_def mailbox_row_def pg_mailbox_entry_def pg_join_eq row_maps
      and_then_assoc pg_revision_def)

lemma pg_handoffs_eq: "handoffs dec (pg_sqlite db) scope actor query = pg_handoffs dec db scope actor query"
  by (simp add: handoffs_def pg_handoffs_def pg_mailbox_where_eq pg_mailbox_entry_eq)

section \<open>Identity\<close>

lemma pg_ensure_eq:
  "ensure_tenant_matches (pg_sqlite db) tenant = pg_ensure_tenant_matches db tenant"
  "ensure_project_matches (pg_sqlite db) project = pg_ensure_project_matches db project"
  "ensure_actor_matches (pg_sqlite db) actor = pg_ensure_actor_matches db actor"
  "ensure_membership_matches (pg_sqlite db) m = pg_ensure_membership_matches db m"
  "ensure_token_matches (pg_sqlite db) token actor = pg_ensure_token_matches db token actor"
  "ensure_active_tenant_project (pg_sqlite db) tid pid = pg_ensure_active_tenant_project db tid pid"
  by (simp_all add: ensure_tenant_matches_def pg_ensure_tenant_matches_def
      ensure_project_matches_def pg_ensure_project_matches_def ensure_actor_matches_def
      pg_ensure_actor_matches_def ensure_membership_matches_def pg_ensure_membership_matches_def
      ensure_token_matches_def pg_ensure_token_matches_def ensure_active_tenant_project_def
      pg_ensure_active_tenant_project_def row_maps)

lemma pg_bootstrap_tx_eq:
  "bootstrap_project_tx (pg_sqlite db) tenant project =
     map_sum id pg_sqlite (pg_bootstrap_tx db tenant project)"
  by (simp add: bootstrap_project_tx_def pg_bootstrap_tx_def Let_def row_maps split_def
      pg_ensure_eq flip: pg_sqlite_updates)

lemma pg_commit_eq:
  "commit_or_rollback (pg_sqlite db) (map_sum id pg_sqlite r) = map_prod pg_sqlite id (pg_commit db r)"
  by (cases r) (simp_all add: commit_or_rollback_def pg_commit_def)

lemma pg_bootstrap_eq:
  "bootstrap_project tenant project (pg_sqlite db) =
     map_prod pg_sqlite id (pg_bootstrap_project tenant project db)"
  by (simp add: bootstrap_project_def pg_bootstrap_project_def pg_bootstrap_tx_eq pg_commit_eq)

lemma pg_initialize_eq:
  "initialize_project scope epoch (pg_sqlite db) =
     map_prod pg_sqlite id (pg_initialize_project scope epoch db)"
  by (simp add: initialize_project_def pg_initialize_project_def Let_def row_maps
      flip: pg_commit_eq pg_sqlite_updates cong: if_cong)

lemma pg_token_insert_eq:
  "insert_or_ignore (\<lambda>r u. tk_token_sha256 u = tk_token_sha256 r) token_check (token_fk (pg_sqlite tx))
     \<lparr>tk_token_sha256 = token, tk_tenant_id = tid, tk_actor_id = aid, tk_active = 1,
      tk_created_at_ms = created\<rparr> (map sq_token t) =
   map_option (map sq_token) (insert_or_ignore (\<lambda>r u. qt_token_sha256 u = qt_token_sha256 r)
     pg_token_check (pg_token_fk tx)
     \<lparr>qt_token_sha256 = token, qt_tenant_id = tid, qt_actor_id = aid, qt_active = True,
      qt_created_at_ms = created\<rparr> t)"
proof -
  have row: "\<lparr>tk_token_sha256 = token, tk_tenant_id = tid, tk_actor_id = aid, tk_active = 1,
      tk_created_at_ms = created\<rparr> = sq_token \<lparr>qt_token_sha256 = token, qt_tenant_id = tid,
      qt_actor_id = aid, qt_active = True, qt_created_at_ms = created\<rparr>"
    by (simp add: sq_token_def)
  show ?thesis
    unfolding row by (rule insert_or_ignore_map) simp_all
qed

lemma pg_provision_tx_eq:
  "provision_actor_tx (pg_sqlite db) actor m token created_at_ms =
     map_sum id pg_sqlite (pg_provision_tx db actor m token created_at_ms)"
  by (simp add: provision_actor_tx_def pg_provision_tx_def Let_def row_maps pg_token_insert_eq
      pg_ensure_eq flip: pg_sqlite_updates)

lemma pg_provision_eq:
  "provision_actor actor m token created_at_ms (pg_sqlite db) =
     map_prod pg_sqlite id (pg_provision_actor actor m token created_at_ms db)"
  by (simp add: provision_actor_def pg_provision_actor_def pg_provision_tx_eq pg_commit_eq)

lemma pg_active_eq [simp]:
  "active_tenant (pg_sqlite db) = pg_active_tenant db"
  "active_project (pg_sqlite db) = pg_active_project db"
  "active_actor (pg_sqlite db) = pg_active_actor db"
  by (simp_all add: fun_eq_iff active_tenant_def pg_active_tenant_def active_project_def
      pg_active_project_def active_actor_def pg_active_actor_def)

lemma pg_authenticate_eq: "authenticate_token (pg_sqlite db) token = pg_authenticate_token db token"
  by (simp add: authenticate_token_def pg_authenticate_token_def find_map comp_def row_maps)

lemma pg_membership_eq:
  "project_membership_of (pg_sqlite db) scope actor = pg_project_membership db scope actor"
  by (simp add: project_membership_of_def pg_project_membership_def)

lemma pg_epoch_eq:
  assumes "store_rel dec (pg_sqlite db) L"
  shows "project_epoch_of (pg_sqlite db) scope = pg_project_epoch db scope"
proof (cases "L scope")
  case None
  then show ?thesis
    using load_project_rel [OF assms, of scope] pg_unregistered [OF assms, of scope]
    by (simp add: project_epoch_of_def pg_project_epoch_def)
next
  case (Some el)
  then obtain epoch log where L: "L scope = Some (epoch, log)" by (cases el) auto
  moreover obtain p where "pg_find_project db scope = Some p" "pj_project_epoch p = epoch"
    using pg_registered [OF assms L] by metis
  moreover have "id_ok epoch"
    using assms L by (auto simp: store_rel_def dest: ledger_ok_epoch)
  ultimately show ?thesis
    using load_project_rel [OF assms, of scope]
    by (simp add: project_epoch_of_def pg_project_epoch_def)
qed

section \<open>The change feed\<close>

lemma pg_parse_change_agrees: "parse_change s = Inr ch \<Longrightarrow> pg_parse_change s = Inr ch"
  by (auto simp: parse_change_def pg_parse_change_def split: if_splits)

lemma pg_decode_change_agrees:
  "change_row_decode scope (sq_change r) = Inr x \<Longrightarrow> pg_decode_change scope r = Inr x"
  by (auto simp: change_row_decode_def pg_decode_change_def sq_change_def result_iffs
      decode_revision_def pg_revision_def pg_parse_change_agrees)

lemma pg_decode_materialized_eq:
  "change_row_decode scope (sq_change r) = Inr x \<Longrightarrow>
     materialized_row_decode scope (sq_change r) = pg_decode_materialized scope r"
  by (simp add: materialized_row_decode_def pg_decode_materialized_def pg_decode_change_agrees)

lemma pg_change_row_decodes:
  assumes rel: "store_rel dec (pg_sqlite db) L" and r: "r \<in> set (pg_changes db)" "qc_scope r = scope"
  shows "\<exists>x. change_row_decode scope (sq_change r) = Inr x"
proof -
  have "sq_change r \<in> set (filter (\<lambda>r. ch_scope r = scope) (db_changes (pg_sqlite db)))"
    using r by auto
  also have "filter (\<lambda>r. ch_scope r = scope) (db_changes (pg_sqlite db)) =
      map (enc_change (epoch_of L scope)) (log_of L scope)"
    using rel by (simp only: store_rel_def rows_rel_def)
  finally obtain e where e: "sq_change r = enc_change (epoch_of L scope) e" "e \<in> set (log_of L scope)"
    by auto
  then obtain epoch log where L: "L scope = Some (epoch, log)"
    by (cases "L scope") auto
  have "entry_ok dec scope e" "id_ok (epoch_of L scope)"
    using rel e(2) L by (auto simp: store_rel_def intro: ledger_entry_ok ledger_ok_epoch)
  then show ?thesis
    unfolding e(1) using change_row_decode_enc by blast
qed

lemma pg_select_changes_eq:
  "select_changes (pg_sqlite db) scope a n = map sq_change (pg_select_changes db scope a n)"
  by (simp add: select_changes_def pg_select_changes_def row_maps)

lemma select_ordered_subset: "set (select_ordered p k n t) \<subseteq> {r \<in> set t. p r}"
  unfolding select_ordered_def by (auto dest: in_set_takeD)

lemma pg_selected_decode:
  assumes "store_rel dec (pg_sqlite db) L" "r \<in> set (pg_select_changes db scope a n)"
  shows "\<exists>x. change_row_decode scope (sq_change r) = Inr x"
  using assms select_ordered_subset
  by (intro pg_change_row_decodes) (fastforce simp: pg_select_changes_def)+

lemma collect_results_cong:
  "(\<And>x. x \<in> set xs \<Longrightarrow> f x = g x) \<Longrightarrow> collect_results f xs = collect_results g xs"
  by (induction xs) auto

lemma pg_validate_eq:
  assumes "store_rel dec (pg_sqlite db) L"
  shows "validate_change_cursor (pg_sqlite db) scope cursor limit =
    and_then (pg_validate_limit limit) (\<lambda>_. pg_validate_cursor db scope cursor)"
proof (cases "L scope")
  case None
  then show ?thesis
    using load_project_rel [OF assms, of scope] pg_unregistered [OF assms, of scope]
    by (simp add: validate_change_cursor_def pg_validate_limit_def pg_validate_cursor_def)
next
  case (Some el)
  then obtain epoch log where L: "L scope = Some (epoch, log)" by (cases el) auto
  moreover obtain p where "pg_find_project db scope = Some p" "pj_project_epoch p = epoch"
    "from_i64 ''project_sequence'' (pj_next_seq p) = Inr (of_nat (length log))"
    using pg_registered [OF assms L] by metis
  moreover have "id_ok epoch"
    using assms L by (auto simp: store_rel_def dest: ledger_ok_epoch)
  ultimately show ?thesis
    using load_project_rel [OF assms, of scope]
    by (simp add: validate_change_cursor_def pg_validate_limit_def pg_validate_cursor_def)
qed

lemma pg_change_feed_eq:
  assumes "store_rel dec (pg_sqlite db) L"
  shows "changes (pg_sqlite db) scope cursor limit = pg_change_feed db scope cursor limit"
proof -
  have "collect_results (change_row_decode scope) (select_changes (pg_sqlite db) scope a n) =
      collect_results (pg_decode_change scope) (pg_select_changes db scope a n)" for a n
    unfolding pg_select_changes_eq collect_results_map
    using pg_selected_decode [OF assms] pg_decode_change_agrees
    by (intro collect_results_cong) metis
  then show ?thesis
    by (simp add: changes_def pg_change_feed_def pg_validate_eq [OF assms] and_then_assoc)
qed

lemma pg_materialized_eq:
  assumes "store_rel dec (pg_sqlite db) L"
  shows "materialized_changes (pg_sqlite db) scope cursor limit =
    pg_materialized_changes db scope cursor limit"
proof -
  have "collect_results (materialized_row_decode scope) (select_changes (pg_sqlite db) scope a n) =
      collect_results (pg_decode_materialized scope) (pg_select_changes db scope a n)" for a n
    unfolding pg_select_changes_eq collect_results_map
    using pg_selected_decode [OF assms] pg_decode_materialized_eq
    by (intro collect_results_cong) metis
  then show ?thesis
    by (simp add: materialized_changes_def pg_materialized_changes_def pg_validate_eq [OF assms]
        and_then_assoc)
qed

section \<open>Current state\<close>

lemma pg_decode_resource_agrees:
  "snapshot_row_decode scope (sq_resource r) = Inr x \<Longrightarrow> pg_decode_resource scope r = Inr x"
  by (cases "qr_deleted r"; cases "qr_body_json r")
    (auto simp: snapshot_row_decode_def pg_decode_resource_def decode_canonical_resource_def
      pg_revision_eq result_iffs)

lemma snapshot_row_decode_enc:
  assumes "entry_ok dec scope e"
  shows "snapshot_row_decode scope (enc_resource scope e) = Inr (entry_resource scope e)"
proof -
  have "decode_ref (rf_kind (le_ref e)) (rf_id (le_ref e)) = Inr (le_ref e)"
    using entry_okD(7) [OF assms] by (simp add: le_ref_def)
  then show ?thesis
    using decode_canonical_resource_state [OF entry_okD(8,9) [OF assms], of scope "le_ref e"]
    by (simp add: snapshot_row_decode_def enc_resource_def entry_resource_def)
qed

lemma pg_resource_row_decodes:
  assumes rel: "store_rel dec (pg_sqlite db) L" and r: "r \<in> set (pg_resources db)" "qr_scope r = scope"
  obtains e where "last_entry (log_of L scope) (rs_ref (sq_resource r)) = Some e"
    "snapshot_row_decode scope (sq_resource r) = Inr (entry_resource scope e)"
proof -
  let ?rows = "filter (\<lambda>r. rs_scope r = scope) (db_resources (pg_sqlite db))"
  have mem: "sq_resource r \<in> set ?rows"
    using r by auto
  then have "rs_ref (sq_resource r) \<in> le_ref ` set (log_of L scope)"
    using resource_rows_rel(2) [OF rel refl, of scope] by blast
  then obtain e where e: "last_entry (log_of L scope) (rs_ref (sq_resource r)) = Some e"
    using last_entry_None by (cases "last_entry (log_of L scope) (rs_ref (sq_resource r))") auto
  then have "sq_resource r = enc_resource scope e"
    using resource_rows_rel(1) [OF rel refl mem] by simp
  with e that show thesis
    using snapshot_row_decode_enc [OF last_entry_ok [OF rel e]] by simp
qed

lemma pg_resource_eq:
  assumes rel: "store_rel dec (pg_sqlite db) L"
  shows "resource (pg_sqlite db) scope ref = pg_resource db scope ref"
proof (cases "pg_find_resource db scope ref")
  case None
  then show ?thesis by (simp add: resource_def pg_resource_def)
next
  case (Some r)
  then have r: "r \<in> set (pg_resources db)" "qr_key r = (scope, ref)"
    unfolding pg_find_resource_def by (auto dest: find_Some_set)
  then have key: "qr_scope r = scope" "rs_ref (sq_resource r) = ref"
    by (auto simp: qr_key_def rs_ref_def)
  obtain e where e: "last_entry (log_of L scope) ref = Some e"
    "snapshot_row_decode scope (sq_resource r) = Inr (entry_resource scope e)"
    using pg_resource_row_decodes [OF rel r(1) key(1)] unfolding key(2) .
  then show ?thesis
    using Some pg_decode_resource_agrees
    by (simp add: resource_rel [OF rel] pg_resource_def ledger_resource_def)
qed

lemma pg_snapshot_eq:
  assumes rel: "store_rel dec (pg_sqlite db) L"
  shows "snapshot (pg_sqlite db) scope = pg_snapshot db scope"
proof (cases "L scope")
  case None
  then show ?thesis
    using load_project_rel [OF rel, of scope] pg_unregistered [OF rel, of scope]
    by (simp add: snapshot_def pg_snapshot_def)
next
  case (Some el)
  then obtain epoch log where L: "L scope = Some (epoch, log)" by (cases el) auto
  obtain p where p: "pg_find_project db scope = Some p" "pj_project_epoch p = epoch"
    "from_i64 ''snapshot_sequence'' (pj_next_seq p) = Inr (of_nat (length log))"
    using pg_registered [OF rel L] by metis
  have epoch: "id_ok epoch"
    using rel L by (auto simp: store_rel_def dest: ledger_ok_epoch)
  define rows where "rows = select_ordered (\<lambda>r. qr_scope r = scope)
    (\<lambda>r. (qr_resource_kind r, qr_resource_id r)) (MAX_SNAPSHOT_RESOURCES + 1) (pg_resources db)"
  have rows: "select_ordered (\<lambda>r. rs_scope r = scope) (\<lambda>r. (rs_resource_kind r, rs_resource_id r))
      (MAX_SNAPSHOT_RESOURCES + 1) (db_resources (pg_sqlite db)) = map sq_resource rows"
    unfolding rows_def pg_sqlite_simps select_ordered_map by simp
  have "\<exists>x. snapshot_row_decode scope (sq_resource r) = Inr x \<and> pg_decode_resource scope r = Inr x"
    if "r \<in> set rows" for r
  proof -
    have "r \<in> set (pg_resources db)" "qr_scope r = scope"
      using that select_ordered_subset unfolding rows_def by fastforce+
    then show ?thesis
      using pg_resource_row_decodes [OF rel] pg_decode_resource_agrees by metis
  qed
  then obtain g where g: "\<And>r. r \<in> set rows \<Longrightarrow> snapshot_row_decode scope (sq_resource r) = Inr (g r)"
    "\<And>r. r \<in> set rows \<Longrightarrow> pg_decode_resource scope r = Inr (g r)"
    by metis
  have "collect_results (\<lambda>r. snapshot_row_decode scope (sq_resource r)) rows = Inr (map g rows)"
    "collect_results (pg_decode_resource scope) rows = Inr (map g rows)"
    by (rule collect_results_all_Inr, erule g)+
  then show ?thesis
    using load_project_rel [OF rel, of scope] p epoch L
    unfolding snapshot_def pg_snapshot_def rows rows_def [symmetric]
    by (simp add: collect_results_map)
qed

lemma pg_receipt_rel:
  "store_rel dec (pg_sqlite db) L \<Longrightarrow> receipt (pg_sqlite db) scope cid = pg_load_receipt db scope cid"
  by (simp add: receipt_rel pg_load_receipt_rel ledger_receipt_def)

end
