(* ===== verification/Pg_Server.thy ===== *)
theory Pg_Server
  imports Pg_Feeds Conformance_Passes Server_Runs Server_Router
begin

text \<open>
  Two canonical stores behind the same server. When a map between their states commutes with every
  operation of the traits, every request is served alike: the replies are equal, and the map relates
  the states the requests leave.
\<close>

section \<open>Two stores\<close>

locale store_morphism =
  fixes src :: "('a, 'x) canonical_store_scheme"
    and dst :: "('b, 'y) canonical_store_scheme"
    and f :: "'a \<Rightarrow> 'b"
    and inv :: "'a \<Rightarrow> bool"
  assumes execute_commutes: "inv s \<Longrightarrow> cs_execute dst c (f s) = map_prod f id (cs_execute src c s)"
    and receipt_agrees: "inv s \<Longrightarrow> cs_receipt dst (f s) scope cid = cs_receipt src s scope cid"
    and changes_agree: "inv s \<Longrightarrow>
      cs_changes dst (f s) scope cursor limit = cs_changes src s scope cursor limit"
    and materialized_agree: "inv s \<Longrightarrow>
      cs_materialized_changes dst (f s) scope cursor limit =
        cs_materialized_changes src s scope cursor limit"
    and snapshot_agrees: "inv s \<Longrightarrow> cs_snapshot dst (f s) scope = cs_snapshot src s scope"
    and resource_agrees: "inv s \<Longrightarrow> cs_resource dst (f s) scope ref = cs_resource src s scope ref"
    and handoffs_agree: "inv s \<Longrightarrow>
      hs_handoffs dst (f s) scope actor query = hs_handoffs src s scope actor query"
    and epoch_agrees: "inv s \<Longrightarrow> id_project_epoch (sc_identity dst) (f s) scope =
      id_project_epoch (sc_identity src) s scope"
    and authenticate_agrees: "inv s \<Longrightarrow> id_authenticate_token (sc_identity dst) (f s) digest =
      id_authenticate_token (sc_identity src) s digest"
    and membership_agrees: "inv s \<Longrightarrow> id_project_membership (sc_identity dst) (f s) scope actor =
      id_project_membership (sc_identity src) s scope actor"
begin

lemmas agree = receipt_agrees changes_agree materialized_agree snapshot_agrees resource_agrees
  handoffs_agree epoch_agrees authenticate_agrees membership_agrees

lemma context_agrees:
  "inv s \<Longrightarrow> request_context (sc_identity dst) digest pid (f s) =
     request_context (sc_identity src) digest pid s"
  by (simp add: request_context_def id_membership_def agree)

lemma reads_agree:
  assumes "inv s"
  shows "service_replay cod dst auth m env ref ch (f s) = service_replay cod src auth m env ref ch s"
    and "service_changes cod dst auth m cursor limit (f s) = service_changes cod src auth m cursor limit s"
    and "service_materialized_changes cod dst auth m cursor limit (f s) =
      service_materialized_changes cod src auth m cursor limit s"
    and "service_snapshot cod dst auth m pid (f s) = service_snapshot cod src auth m pid s"
    and "service_resource dst auth m pid ref (f s) = service_resource src auth m pid ref s"
    and "service_visible_resource cod dst auth m pid ref (f s) =
      service_visible_resource cod src auth m pid ref s"
    and "service_handoffs dst auth m pid query (f s) = service_handoffs src auth m pid query s"
proof -
  show resource: "service_resource dst auth m pid ref (f s) = service_resource src auth m pid ref s"
    for auth m pid ref
    using assms by (simp add: service_resource_def agree cong: if_cong)
  have visible: "entry_visible cod dst (f s) scope actor = entry_visible cod src s scope actor"
    for scope actor
    using assms by (simp add: fun_eq_iff entry_visible_def agree cong: if_cong)
  show "service_replay cod dst auth m env ref ch (f s) = service_replay cod src auth m env ref ch s"
    "service_changes cod dst auth m cursor limit (f s) = service_changes cod src auth m cursor limit s"
    "service_materialized_changes cod dst auth m cursor limit (f s) =
      service_materialized_changes cod src auth m cursor limit s"
    "service_snapshot cod dst auth m pid (f s) = service_snapshot cod src auth m pid s"
    "service_visible_resource cod dst auth m pid ref (f s) =
      service_visible_resource cod src auth m pid ref s"
    "service_handoffs dst auth m pid query (f s) = service_handoffs src auth m pid query s"
    using assms
    by (simp_all add: service_replay_def service_changes_def service_materialized_changes_def
        service_snapshot_def service_visible_resource_def service_handoffs_def agree visible resource
        cong: if_cong)
qed

lemma builds_agree:
  assumes "inv s"
  shows "session_build cod dst pid ref sp auth m (f s) = session_build cod src pid ref sp auth m s"
    and "fact_build cod dst pid ref fp auth m (f s) = fact_build cod src pid ref fp auth m s"
    and "send_build cod dst pid ref hp auth m (f s) = send_build cod src pid ref hp auth m s"
    and "context_build cod dst pid ref xp auth m (f s) = context_build cod src pid ref xp auth m s"
    and "load_record dec dst auth m pid ref (f s) = load_record dec src auth m pid ref s"
  using assms
  by (simp_all add: session_build_def fact_build_def send_build_def context_build_def
      load_record_def ensure_absent_def require_writable_receiver_def agree reads_agree
      cong: option.case_cong if_cong)

lemma execute_agrees:
  assumes "inv s"
  shows "service_execute cod dst auth m env ref ch (f s) =
      map_prod f id (service_execute cod src auth m env ref ch s)"
    and "service_execute_with_body cod dst auth m env ref ch body (f s) =
      map_prod f id (service_execute_with_body cod src auth m env ref ch body s)"
proof -
  have tried: "try_ok (f s) r g = map_prod f id (try_ok s r g')" if "\<And>x. g x = map_prod f id (g' x)" for r g g'
    using that by (cases r) simp_all
  have "execute_prepared cod dst auth m env ref ch b (f s) =
      map_prod f id (execute_prepared cod src auth m env ref ch b s)" for b
    using assms unfolding execute_prepared_def by (auto intro!: tried simp: execute_commutes)
  then show "service_execute cod dst auth m env ref ch (f s) =
      map_prod f id (service_execute cod src auth m env ref ch s)"
    "service_execute_with_body cod dst auth m env ref ch body (f s) =
      map_prod f id (service_execute_with_body cod src auth m env ref ch body s)"
    by (cases ch; simp add: service_execute_def service_execute_with_body_def)+
qed

section \<open>The handlers' frames\<close>

lemma commute_try_ok:
  "(\<And>x. g x = map_prod f id (g' x)) \<Longrightarrow> try_ok (f s) r g = map_prod f id (try_ok s r g')"
  by (cases r) simp_all

lemma commute_try_api:
  "(\<And>x. g x = map_prod f id (g' x)) \<Longrightarrow> try_api (f s) r g = map_prod f id (try_api s r g')"
  unfolding try_api_def by (rule commute_try_ok)

lemma commute_run:
  "operation (f s) = map_prod f id (operation' s) \<Longrightarrow>
     run_service outcome operation (f s) = map_prod f id (run_service outcome operation' s)"
  by (cases outcome) (simp_all add: run_service_def)

lemma commute_reading: "g (f s) = g' s \<Longrightarrow> reading g (f s) = map_prod f id (reading g' s)"
  by (simp add: reading_def)

lemma commute_then:
  "p = map_prod f id p' \<Longrightarrow>
     try_do p (\<lambda>s x. try_api s (g x) (\<lambda>y. (s, h y))) = map_prod f id (try_do p' (\<lambda>s x. try_api s (g x) (\<lambda>y. (s, h y))))"
  by (cases p'; cases "snd p'"; cases "g (projr (snd p'))") (auto simp: try_do_def try_api_def)

lemma commute_reply: "p = map_prod f id p' \<Longrightarrow> reply g p = map_prod f id (reply g p')"
  by (simp add: reply_def)

lemma commute_typed:
  assumes "inv s" "\<And>auth m. build auth m (f s) = build' auth m s"
  shows "typed_mutation cod dst digest pid ref env build (f s) =
    map_prod f id (typed_mutation cod src digest pid ref env build' s)"
proof -
  have "typed_prepare cod dst digest pid ref env build (f s) =
      typed_prepare cod src digest pid ref env build' s"
    using assms by (simp add: typed_prepare_def context_agrees reads_agree cong: option.case_cong)
  then show ?thesis
    unfolding typed_mutation_def
    by (auto intro!: commute_try_ok simp: execute_agrees [OF assms(1)] split: prepared.split)
qed

lemma commute_raw:
  "inv s \<Longrightarrow> raw_command_closure cod dst digest rq (f s) =
     map_prod f id (raw_command_closure cod src digest rq s)"
  unfolding raw_command_closure_def
  by (auto intro!: commute_try_ok simp: context_agrees execute_agrees)

lemmas commute_frame = commute_reply commute_try_api commute_run commute_reading commute_then
  commute_typed commute_raw

lemma handle_commutes:
  assumes "inv s" "rq \<noteq> GetHealth"
  shows "handle cod dst out clk rq (f s) = map_prod f id (handle cod src out clk rq s)"
  using assms(2)
  by (cases rq; simp only: handle.simps server_command_def server_changes_def
      server_materialized_changes_def server_snapshot_def server_resource_def get_identity_def
      create_session_def create_fact_def create_handoff_context_def send_handoff_def
      list_handoffs_def get_handoff_def accept_handoff_def heartbeat_handoff_def return_handoff_def
      split_beta; intro commute_frame assms(1);
      simp add: assms(1) context_agrees reads_agree builds_agree agree transition_build_def
        accept_move_def heartbeat_move_def return_move_def)

end

text \<open>
  The PostgreSQL store behind the traits: the dictionary of its operations, the instances of the
  ledger contract and of the canonical-store interface, and the server over it, which serves every
  request as the server over the SQLite store does.
\<close>

section \<open>The store\<close>

record pg_env =
  pe_db :: pg_db
  pe_clock :: "nat \<Rightarrow> int"
  pe_calls :: nat

definition pg_now :: "pg_env \<Rightarrow> int" where
  "pg_now s = pe_clock s (pe_calls s)"

definition pg_env_execute ::
  "(bytes \<Rightarrow> handoff_record option) \<Rightarrow> mutation_command \<Rightarrow> pg_env
    \<Rightarrow> pg_env \<times> command_receipt domain_result" where
  "pg_env_execute dec c s =
     (case pg_execute dec (pg_now s) c (pe_db s) of
        (db, r) \<Rightarrow> (s\<lparr>pe_db := db, pe_calls := Suc (pe_calls s)\<rparr>, r))"

definition on_pg :: "(pg_db \<Rightarrow> pg_db \<times> 'a) \<Rightarrow> pg_env \<Rightarrow> pg_env \<times> 'a" where
  "on_pg g s = (case g (pe_db s) of (db, r) \<Rightarrow> (s\<lparr>pe_db := db\<rparr>, r))"

definition pg_identity_store :: "pg_env identity_store" where
  "pg_identity_store =
     \<lparr>id_schema_version = (\<lambda>s. pg_schema_version (pe_db s)),
      id_project_epoch = (\<lambda>s. pg_project_epoch (pe_db s)),
      id_bootstrap_project = (\<lambda>tenant project. on_pg (pg_bootstrap_project tenant project)),
      id_provision_actor = (\<lambda>actor m token now. on_pg (pg_provision_actor actor m token now)),
      id_authenticate_token = (\<lambda>s. pg_authenticate_token (pe_db s)),
      id_project_membership = (\<lambda>s. pg_project_membership (pe_db s))\<rparr>"

definition pg_store :: "(bytes \<Rightarrow> handoff_record option) \<Rightarrow> pg_env canonical_store" where
  "pg_store dec =
     \<lparr>cs_execute = pg_env_execute dec,
      cs_receipt = (\<lambda>s. pg_load_receipt (pe_db s)),
      cs_changes = (\<lambda>s. pg_change_feed (pe_db s)),
      cs_materialized_changes = (\<lambda>s. pg_materialized_changes (pe_db s)),
      cs_snapshot = (\<lambda>s. pg_snapshot (pe_db s)),
      cs_resource = (\<lambda>s. pg_resource (pe_db s)),
      hs_handoffs = (\<lambda>s. pg_handoffs dec (pe_db s)),
      sc_identity = pg_identity_store\<rparr>"

lemma pg_store_simps [simp]:
  "cs_execute (pg_store dec) = pg_env_execute dec"
  "cs_receipt (pg_store dec) s = pg_load_receipt (pe_db s)"
  "cs_changes (pg_store dec) s = pg_change_feed (pe_db s)"
  "cs_materialized_changes (pg_store dec) s = pg_materialized_changes (pe_db s)"
  "cs_snapshot (pg_store dec) s = pg_snapshot (pe_db s)"
  "cs_resource (pg_store dec) s = pg_resource (pe_db s)"
  "hs_handoffs (pg_store dec) s = pg_handoffs dec (pe_db s)"
  "sc_identity (pg_store dec) = pg_identity_store"
  by (simp_all add: pg_store_def)

lemma pg_identity_simps [simp]:
  "id_project_epoch pg_identity_store s = pg_project_epoch (pe_db s)"
  "id_bootstrap_project pg_identity_store tenant project = on_pg (pg_bootstrap_project tenant project)"
  "id_provision_actor pg_identity_store actor m token now = on_pg (pg_provision_actor actor m token now)"
  "id_authenticate_token pg_identity_store s = pg_authenticate_token (pe_db s)"
  "id_project_membership pg_identity_store s = pg_project_membership (pe_db s)"
  by (simp_all add: pg_identity_store_def)

section \<open>The same server\<close>

definition to_sqlite :: "pg_env \<Rightarrow> sqlite_env" where
  "to_sqlite s = \<lparr>se_db = pg_sqlite (pe_db s), se_clock = pe_clock s, se_calls = pe_calls s\<rparr>"

lemma to_sqlite_simps [simp]:
  "se_db (to_sqlite s) = pg_sqlite (pe_db s)" "env_now (to_sqlite s) = pg_now s"
  by (simp_all add: to_sqlite_def env_now_def pg_now_def)

definition pg_holds_ledger :: "(bytes \<Rightarrow> handoff_record option) \<Rightarrow> pg_db \<Rightarrow> bool" where
  "pg_holds_ledger dec db \<longleftrightarrow> (\<exists>L. store_rel dec (pg_sqlite db) L)"

lemma pg_execute_roomy:
  assumes "store_rel dec (pg_sqlite db) L" "roomy (pg_sqlite db)"
  shows "execute dec clock c (pg_sqlite db) = map_prod pg_sqlite id (pg_execute dec clock c db)"
  by (rule pg_execute_eq [OF assms(1) roomy_log [OF assms]])

lemma to_sqlite_updates: "to_sqlite (s\<lparr>pe_db := db, pe_calls := n\<rparr>) =
    to_sqlite s\<lparr>se_db := pg_sqlite db, se_calls := n\<rparr>"
  by (simp add: to_sqlite_def)

lemma pg_env_execute_commutes:
  assumes "store_rel dec (pg_sqlite (pe_db s)) L"
    and "int (length (log_of L (command_scope c))) < i64_max"
  shows "env_execute dec c (to_sqlite s) = map_prod to_sqlite id (pg_env_execute dec c s)"
  using pg_execute_eq [OF assms, of "pg_now s"]
  by (cases "pg_execute dec (pg_now s) c (pe_db s)")
    (simp add: env_execute_def pg_env_execute_def to_sqlite_updates, simp add: to_sqlite_def)

interpretation postgres: store_morphism "pg_store dec" "sqlite_store dec" to_sqlite
  "\<lambda>s. pg_holds_ledger dec (pe_db s) \<and> roomy (pg_sqlite (pe_db s))" for dec
  by unfold_locales
    (auto simp: pg_holds_ledger_def pg_receipt_rel pg_change_feed_eq pg_materialized_eq
      pg_snapshot_eq pg_resource_eq pg_handoffs_eq pg_epoch_eq pg_authenticate_eq pg_membership_eq
      intro: pg_env_execute_commutes roomy_log)

section \<open>The contract\<close>

definition pg_rep :: "(bytes \<Rightarrow> handoff_record option) \<Rightarrow> pg_env \<Rightarrow> ledger \<Rightarrow> bool" where
  "pg_rep dec s L \<longleftrightarrow> sqlite_rep dec (to_sqlite s) L"

lemma pg_rep_store_rel: "pg_rep dec s L \<longleftrightarrow> store_rel dec (pg_sqlite (pe_db s)) L"
  by (simp add: pg_rep_def sqlite_rep_def)

lemma pg_env_execute_refines:
  assumes "pg_rep dec s L" "command_ok c" "int (length (log_of L (command_scope c))) < i64_max"
  shows "snd (pg_env_execute dec c s) = snd (ledger_execute dec (pg_now s) c L)"
    and "pg_rep dec (fst (pg_env_execute dec c s)) (fst (ledger_execute dec (pg_now s) c L))"
  using sqlite_execute [OF assms [unfolded pg_rep_def]]
    pg_env_execute_commutes [OF assms(1) [unfolded pg_rep_store_rel] assms(3)]
  by (simp_all add: pg_rep_def)

lemma pg_reads:
  assumes "pg_rep dec s L"
  shows "pg_load_receipt (pe_db s) scope cid = Inr (ledger_receipt L scope cid)"
    and "pg_change_feed (pe_db s) scope cursor limit = ledger_changes L scope cursor limit"
    and "pg_materialized_changes (pe_db s) scope cursor limit = ledger_materialized L scope cursor limit"
    and "pg_snapshot (pe_db s) scope = ledger_snapshot L scope"
    and "pg_resource (pe_db s) scope ref = Inr (ledger_resource L scope ref)"
    and "pg_handoffs dec (pe_db s) scope actor query = ledger_handoffs dec L scope actor query"
  using assms unfolding pg_rep_store_rel
  by (simp_all add: receipt_rel changes_rel materialized_changes_rel snapshot_rel resource_rel
      handoffs_rel flip: pg_receipt_rel pg_change_feed_eq pg_materialized_eq pg_snapshot_eq
      pg_resource_eq pg_handoffs_eq)

interpretation postgres_server: canonical_server "pg_store dec" dec "pg_rep dec" pg_now for dec
proof (unfold_locales, goal_cases)
  case 1
  then show ?case by (simp add: pg_rep_store_rel store_rel_def)
next
  case 2
  then show ?case unfolding pg_store_simps by (rule pg_env_execute_refines(1))
next
  case 3
  then show ?case unfolding pg_store_simps by (rule pg_env_execute_refines(2))
qed (simp_all add: pg_reads sqlite_authenticated_ids sqlite_membership_exact
    flip: pg_authenticate_eq pg_membership_eq)

definition pg_timed_rep :: "(bytes \<Rightarrow> handoff_record option) \<Rightarrow> pg_env \<Rightarrow> ledger \<Rightarrow> bool" where
  "pg_timed_rep dec s L \<longleftrightarrow> pg_rep dec s L \<and> (\<forall>n. 0 \<le> pe_clock s n \<and> pe_clock s n \<le> i64_max)"

lemma pg_env_execute_clock [simp]: "pe_clock (fst (pg_env_execute dec c s)) = pe_clock s"
  by (simp add: pg_env_execute_def split: prod.splits)

interpretation postgres_timed: timed_store "pg_store dec" dec "pg_timed_rep dec" pg_now for dec
proof (unfold_locales, goal_cases)
  case (1 s L)
  then show ?case using postgres_server.rep_ok [of dec s L] by (simp add: pg_timed_rep_def)
next
  case (2 s L c)
  then show ?case using postgres_server.execute_result [of dec s L c] by (simp add: pg_timed_rep_def)
next
  case (3 s L c)
  then show ?case using postgres_server.execute_state [of dec s L c] by (simp add: pg_timed_rep_def)
next
  case (9 s L)
  then show ?case by (simp add: pg_timed_rep_def pg_now_def unix_time_ms_def not_less)
qed (auto simp: pg_timed_rep_def intro: pg_reads)

end
