(* ===== verification/Pg_Tenants.thy ===== *)
theory Pg_Tenants
  imports Pg_Server
begin

text \<open>
  \<open>aidememo-store-postgres/src/lib.rs\<close>: export and deletion of a tenant, with the \<open>ON DELETE CASCADE\<close>
  foreign keys of \<open>schema.sql\<close>. A deletion leaves the ledger of the other tenants; the databases a
  PostgreSQL deployment reaches, deletions included, all hold a ledger.
\<close>

section \<open>Deletion\<close>

record tenant_delete_report =
  td_tenant_id :: string
  td_deleted_resources :: nat
  td_deleted_receipts :: nat
  td_deleted_changes :: nat

text \<open>\<open>DELETE FROM ssot_resources WHERE p\<close>, which deletes the index rows that refer to a deleted row.\<close>

definition pg_delete_resource_rows :: "(pg_resource_row \<Rightarrow> bool) \<Rightarrow> pg_db \<Rightarrow> pg_db" where
  "pg_delete_resource_rows p db =
     (let gone = filter p (pg_resources db) in
      db\<lparr>pg_resources := delete_rows p (pg_resources db),
         pg_handoff_index := delete_rows (\<lambda>x. list_ex (\<lambda>u. qr_key u =
           (ix_scope x, \<lparr>rf_kind = ix_resource_kind x, rf_id = ix_handoff_id x\<rparr>)) gone)
           (pg_handoff_index db)\<rparr>)"

text \<open>\<open>DELETE FROM ssot_projects WHERE p\<close>: six tables refer to a project.\<close>

definition pg_delete_project_rows :: "(project_row \<Rightarrow> bool) \<Rightarrow> pg_db \<Rightarrow> pg_db" where
  "pg_delete_project_rows p db =
     (let gone = (\<lambda>scope. list_ex (\<lambda>q. pj_scope q = scope) (filter p (pg_projects db)));
          db = pg_delete_resource_rows (\<lambda>r. gone (qr_scope r)) db in
      db\<lparr>pg_projects := delete_rows p (pg_projects db),
         pg_memberships := delete_rows (\<lambda>m. gone (scope_new (ms_tenant_id m) (ms_project_id m)))
           (pg_memberships db),
         pg_receipts := delete_rows (\<lambda>r. gone (rc_scope r)) (pg_receipts db),
         pg_changes := delete_rows (\<lambda>c. gone (qc_scope c)) (pg_changes db),
         pg_audit := delete_rows (\<lambda>a. gone (ad_scope a)) (pg_audit db)\<rparr>)"

definition pg_delete_tenant_data ::
  "tenant_id \<Rightarrow> pg_db \<Rightarrow> pg_db \<times> tenant_delete_report domain_result" where
  "pg_delete_tenant_data tid db =
     (let tx = pg_delete_resource_rows (\<lambda>r. qr_tenant_id r = tid) db;
          tx = tx\<lparr>pg_receipts := delete_rows (\<lambda>r. rc_tenant_id r = tid) (pg_receipts tx)\<rparr>;
          tx = tx\<lparr>pg_changes := delete_rows (\<lambda>c. qc_tenant_id c = tid) (pg_changes tx)\<rparr>;
          tx = tx\<lparr>pg_audit := delete_rows (\<lambda>a. ad_tenant_id a = tid) (pg_audit tx)\<rparr>;
          tx = pg_delete_project_rows (\<lambda>p. pj_tenant_id p = tid) tx;
          tx = tx\<lparr>pg_handoff_index := delete_rows (\<lambda>x. ix_tenant_id x = tid) (pg_handoff_index tx)\<rparr> in
      (tx, Inr \<lparr>td_tenant_id = tid,
         td_deleted_resources = length (filter (\<lambda>r. qr_tenant_id r = tid) (pg_resources db)),
         td_deleted_receipts = length (filter (\<lambda>r. rc_tenant_id r = tid) (pg_receipts db)),
         td_deleted_changes = length (filter (\<lambda>c. qc_tenant_id c = tid) (pg_changes db))\<rparr>))"

text \<open>
  The export selects a column \<open>body\<close> of \<open>ssot_resources\<close>, which the schema does not have (it has
  \<open>body_json\<close>): PostgreSQL rejects the statement on every database.
\<close>

definition pg_export_tenant_resources :: "pg_db \<Rightarrow> tenant_id \<Rightarrow> json list domain_result" where
  "pg_export_tenant_resources db tid = Inl (StorageFailure ''tenant_export'' External)"

section \<open>What a deletion leaves\<close>

definition drop_tenant :: "tenant_id \<Rightarrow> ledger \<Rightarrow> ledger" where
  "drop_tenant tid L = (\<lambda>scope. if sc_tenant_id scope = tid then None else L scope)"

lemma drop_tenant_log: "log_of (drop_tenant tid L) scope =
    (if sc_tenant_id scope = tid then [] else log_of L scope)"
  by (simp add: drop_tenant_def log_of_def)

lemma drop_tenant_epoch:
  "sc_tenant_id scope \<noteq> tid \<Longrightarrow> epoch_of (drop_tenant tid L) scope = epoch_of L scope"
  by (simp add: drop_tenant_def epoch_of_def)

lemma scope_tenants [simp]:
  "sc_tenant_id (pj_scope p) = pj_tenant_id p" "sc_tenant_id (rs_scope r) = rs_tenant_id r"
  "sc_tenant_id (rc_scope c) = rc_tenant_id c" "sc_tenant_id (ch_scope h) = ch_tenant_id h"
  "sc_tenant_id (ad_scope a) = ad_tenant_id a" "sc_tenant_id (ix_scope x) = ix_tenant_id x"
  "sc_tenant_id (qr_scope qr) = qr_tenant_id qr" "sc_tenant_id (qc_scope qc) = qc_tenant_id qc"
  by (simp_all add: scope_defs qr_scope_def qc_scope_def)

text \<open>The tables without the rows of one tenant.\<close>

definition without_tenant :: "tenant_id \<Rightarrow> store_db \<Rightarrow> store_db \<Rightarrow> bool" where
  "without_tenant tid db db' \<longleftrightarrow>
     db_projects db' = filter (\<lambda>p. pj_tenant_id p \<noteq> tid) (db_projects db) \<and>
     db_resources db' = filter (\<lambda>r. rs_tenant_id r \<noteq> tid) (db_resources db) \<and>
     db_receipts db' = filter (\<lambda>r. rc_tenant_id r \<noteq> tid) (db_receipts db) \<and>
     db_changes db' = filter (\<lambda>r. ch_tenant_id r \<noteq> tid) (db_changes db) \<and>
     db_audit db' = filter (\<lambda>r. ad_tenant_id r \<noteq> tid) (db_audit db) \<and>
     db_handoff_index db' = filter (\<lambda>r. ix_tenant_id r \<noteq> tid) (db_handoff_index db)"

lemma find_dropped:
  assumes "\<And>r. P r \<Longrightarrow> g r = t"
  shows "find P (filter (\<lambda>r. g r \<noteq> tid) rows) = (if t = tid then None else find P rows)"
proof (cases "t = tid")
  case True
  then have "find P (filter (\<lambda>r. g r \<noteq> tid) rows) = None"
    using assms by (auto simp: find_None_iff)
  with True show ?thesis by simp
next
  case False
  with assms show ?thesis by (induction rows) auto
qed

lemma filter_dropped:
  assumes "\<And>r. P r \<Longrightarrow> g r = t"
  shows "filter P (filter (\<lambda>r. g r \<noteq> tid) rows) = (if t = tid then [] else filter P rows)"
  using assms by (auto simp: filter_empty_conv intro!: filter_cong)

lemma store_rel_drop:
  assumes rel: "store_rel dec db L" and drop: "without_tenant tid db db'"
  shows "store_rel dec db' (drop_tenant tid L)"
proof -
  note tables = drop [unfolded without_tenant_def, THEN conjunct1]
    drop [unfolded without_tenant_def, THEN conjunct2, THEN conjunct1]
    drop [unfolded without_tenant_def, THEN conjunct2, THEN conjunct2]
  have ok: "ledger_ok dec (drop_tenant tid L)"
    using rel by (simp add: store_rel_def ledger_ok_def drop_tenant_def)
  have find: "find_project db' scope = (if sc_tenant_id scope = tid then None else find_project db scope)"
    for scope
    unfolding find_project_def tables(1) by (rule find_dropped) auto
  have projects: "projects_rel db' (drop_tenant tid L)"
    using rel drop
    by (auto simp: store_rel_def projects_rel_def find without_tenant_def drop_tenant_def
        distinct_map_filter)
  have row: "find_resource db' scope ref =
      (if sc_tenant_id scope = tid then None else find_resource db scope ref)" for scope ref
    unfolding find_resource_def tables(2) by (rule find_dropped) (auto simp: rs_key_def)
  have resources: "resources_rel db' (drop_tenant tid L)"
    using rel drop
    by (auto simp: store_rel_def resources_rel_def row without_tenant_def drop_tenant_log
        distinct_map_filter)
  have entry: "find (\<lambda>x. ix_key x = (scope, hid)) (db_handoff_index db') =
      (if sc_tenant_id scope = tid then None
       else find (\<lambda>x. ix_key x = (scope, hid)) (db_handoff_index db))" for scope hid
    unfolding tables(3) [THEN conjunct2, THEN conjunct2, THEN conjunct2]
    by (rule find_dropped) (auto simp: ix_key_def)
  have keys: "distinct (map ix_key (db_handoff_index db'))"
    using rel unfolding tables(3) [THEN conjunct2, THEN conjunct2, THEN conjunct2]
    by (simp add: store_rel_def index_rel_def distinct_map_filter)
  have "index_of dec scope (log_of (drop_tenant tid L) scope) hid =
      (if sc_tenant_id scope = tid then None else index_of dec scope (log_of L scope) hid)" for scope hid
    by (simp add: drop_tenant_log index_of_def)
  with rel keys have index: "index_rel dec db' (drop_tenant tid L)"
    by (simp add: store_rel_def index_rel_def entry)
  have rows: "rows_rel db' (drop_tenant tid L)"
    unfolding rows_rel_def
  proof
    fix scope
    have "filter (\<lambda>r. rc_scope r = scope) (db_receipts db') =
        (if sc_tenant_id scope = tid then [] else filter (\<lambda>r. rc_scope r = scope) (db_receipts db))"
      "filter (\<lambda>r. ch_scope r = scope) (db_changes db') =
        (if sc_tenant_id scope = tid then [] else filter (\<lambda>r. ch_scope r = scope) (db_changes db))"
      "filter (\<lambda>r. ad_scope r = scope) (db_audit db') =
        (if sc_tenant_id scope = tid then [] else filter (\<lambda>r. ad_scope r = scope) (db_audit db))"
      unfolding tables(3) [THEN conjunct1] tables(3) [THEN conjunct2, THEN conjunct1]
        tables(3) [THEN conjunct2, THEN conjunct2, THEN conjunct1]
      by ((rule filter_dropped, auto)[1])+
    with rel show "filter (\<lambda>r. rc_scope r = scope) (db_receipts db') =
        map enc_receipt (log_of (drop_tenant tid L) scope) \<and>
      filter (\<lambda>r. ch_scope r = scope) (db_changes db') =
        map (enc_change (epoch_of (drop_tenant tid L) scope)) (log_of (drop_tenant tid L) scope) \<and>
      filter (\<lambda>r. ad_scope r = scope) (db_audit db') =
        map enc_audit (log_of (drop_tenant tid L) scope)"
      by (simp add: store_rel_def rows_rel_def drop_tenant_log drop_tenant_epoch)
  qed
  show ?thesis
    using ok projects resources rows index by (simp add: store_rel_def)
qed

lemma delete_twice:
  assumes "\<And>r. r \<in> set rows \<Longrightarrow> q r \<Longrightarrow> p r"
  shows "delete_rows q (delete_rows p rows) = delete_rows p rows"
    and "delete_rows p (delete_rows q rows) = delete_rows p rows"
  using assms by (auto simp: delete_rows_def intro: filter_cong)

lemma delete_filter: "delete_rows (\<lambda>r. g r = tid) rows = filter (\<lambda>r. g r \<noteq> tid) rows"
  by (simp add: delete_rows_def)

text \<open>Every table after the deletion: the cascades reach rows of the tenant only.\<close>

lemma pg_delete_tables:
  assumes "pg_delete_tenant_data tid db = (db', r)"
  shows "pg_projects db' = filter (\<lambda>p. pj_tenant_id p \<noteq> tid) (pg_projects db)"
    and "pg_resources db' = filter (\<lambda>r. qr_tenant_id r \<noteq> tid) (pg_resources db)"
    and "pg_receipts db' = filter (\<lambda>r. rc_tenant_id r \<noteq> tid) (pg_receipts db)"
    and "pg_changes db' = filter (\<lambda>c. qc_tenant_id c \<noteq> tid) (pg_changes db)"
    and "pg_audit db' = filter (\<lambda>a. ad_tenant_id a \<noteq> tid) (pg_audit db)"
    and "pg_handoff_index db' = filter (\<lambda>x. ix_tenant_id x \<noteq> tid) (pg_handoff_index db)"
    and "pg_tenants db' = pg_tenants db" "pg_actors db' = pg_actors db" "pg_tokens db' = pg_tokens db"
    and "pg_memberships db' = delete_rows (\<lambda>m. ms_tenant_id m = tid \<and>
      pg_project_exists db (scope_new (ms_tenant_id m) (ms_project_id m))) (pg_memberships db)"
proof -
  note run = assms [unfolded pg_delete_tenant_data_def pg_delete_project_rows_def
      pg_delete_resource_rows_def Let_def, THEN arg_cong, of fst, simplified, symmetric]
  let ?gone = "\<lambda>scope. list_ex (\<lambda>q. pj_scope q = scope) (filter (\<lambda>p. pj_tenant_id p = tid) (pg_projects db))"
  have tenant: "?gone scope \<Longrightarrow> sc_tenant_id scope = tid" for scope
    by (auto simp: list_ex_iff)
  show "pg_projects db' = filter (\<lambda>p. pj_tenant_id p \<noteq> tid) (pg_projects db)"
    "pg_tenants db' = pg_tenants db" "pg_actors db' = pg_actors db" "pg_tokens db' = pg_tokens db"
    by (simp_all add: run delete_filter)
  show "pg_resources db' = filter (\<lambda>r. qr_tenant_id r \<noteq> tid) (pg_resources db)"
    unfolding run by (simp, subst delete_twice(1)) (auto simp: delete_filter dest!: tenant)
  show "pg_receipts db' = filter (\<lambda>r. rc_tenant_id r \<noteq> tid) (pg_receipts db)"
    unfolding run by (simp, subst delete_twice(1)) (auto simp: delete_filter dest!: tenant)
  show "pg_changes db' = filter (\<lambda>c. qc_tenant_id c \<noteq> tid) (pg_changes db)"
    unfolding run by (simp, subst delete_twice(1)) (auto simp: delete_filter dest!: tenant)
  show "pg_audit db' = filter (\<lambda>a. ad_tenant_id a \<noteq> tid) (pg_audit db)"
    unfolding run by (simp, subst delete_twice(1)) (auto simp: delete_filter dest!: tenant)
  show "pg_memberships db' = delete_rows (\<lambda>m. ms_tenant_id m = tid \<and>
      pg_project_exists db (scope_new (ms_tenant_id m) (ms_project_id m))) (pg_memberships db)"
    unfolding run
    by (simp, rule arg_cong [where f = "\<lambda>p. delete_rows p (pg_memberships db)"])
      (auto simp: fun_eq_iff list_ex_iff pg_project_exists_def pj_scope_def, metis)
  have cascade: "ix_tenant_id x = tid"
    if refers: "list_ex (\<lambda>u. qr_key u = (ix_scope x, ref)) us"
      and dropped: "\<And>u. u \<in> set us \<Longrightarrow> qr_tenant_id u = tid"
    for x ref us
  proof -
    obtain u where u: "u \<in> set us" "qr_key u = (ix_scope x, ref)"
      using refers by (auto simp: list_ex_iff)
    then have "qr_scope u = ix_scope x" by (simp add: qr_key_def)
    then show ?thesis
      using dropped [OF u(1)] scope_tenants(6,7) by metis
  qed
  let ?refers = "\<lambda>us x. list_ex (\<lambda>u. qr_key u =
    (ix_scope x, \<lparr>rf_kind = ix_resource_kind x, rf_id = ix_handoff_id x\<rparr>)) us"
  have "pg_handoff_index db' = delete_rows (\<lambda>x. ix_tenant_id x = tid)
    (delete_rows (?refers (filter (\<lambda>r. ?gone (qr_scope r)) (delete_rows (\<lambda>r. qr_tenant_id r = tid) (pg_resources db))))
      (delete_rows (?refers (filter (\<lambda>r. qr_tenant_id r = tid) (pg_resources db))) (pg_handoff_index db)))"
    by (simp add: run)
  also have "\<dots> = delete_rows (\<lambda>x. ix_tenant_id x = tid)
      (delete_rows (?refers (filter (\<lambda>r. qr_tenant_id r = tid) (pg_resources db))) (pg_handoff_index db))"
    by (rule delete_twice(2), erule cascade) (auto simp: delete_rows_def dest!: tenant)
  also have "\<dots> = delete_rows (\<lambda>x. ix_tenant_id x = tid) (pg_handoff_index db)"
    by (rule delete_twice(2), erule cascade) auto
  finally show "pg_handoff_index db' = filter (\<lambda>x. ix_tenant_id x \<noteq> tid) (pg_handoff_index db)"
    unfolding delete_filter .
qed

lemma pg_delete_without:
  assumes "pg_delete_tenant_data tid db = (db', r)"
  shows "without_tenant tid (pg_sqlite db) (pg_sqlite db')"
proof -
  have "rs_tenant_id (sq_resource r) = qr_tenant_id r" "ch_tenant_id (sq_change c) = qc_tenant_id c" for r c
    by (simp_all add: sq_resource_def sq_change_def)
  then show ?thesis
    by (simp add: without_tenant_def pg_delete_tables [OF assms] filter_map comp_def)
qed

lemma pg_delete_rel:
  "pg_delete_tenant_data tid db = (db', r) \<Longrightarrow> store_rel dec (pg_sqlite db) L \<Longrightarrow>
     store_rel dec (pg_sqlite db') (drop_tenant tid L)"
  by (rule store_rel_drop [OF _ pg_delete_without])

end
