(* ===== verification/Pg_Properties.thy ===== *)
theory Pg_Properties
  imports Pg_Tenants Server_Examples State_Properties
begin

text \<open>
  What the PostgreSQL deployment guarantees: its databases, reached through the server, the store's
  own operations, migration and tenant deletion, all hold a ledger; the server over them is the
  server over the SQLite store; it passes the conformance suite; a tenant deletion is exact.
\<close>

section \<open>Deployments\<close>

text \<open>The steps of a server over the PostgreSQL store, as \<open>server_step\<close>.\<close>

inductive pg_server_step :: "codec \<Rightarrow> pg_db \<Rightarrow> pg_db \<Rightarrow> bool" for cod where
  bootstrapped: "id_ok (pr_project_epoch project) \<Longrightarrow>
    pg_bootstrap_project tenant project db = (db', r) \<Longrightarrow> pg_server_step cod db db'"
| provisioned: "pg_provision_actor actor m token now db = (db', r) \<Longrightarrow> pg_server_step cod db db'"
| requested: "request_typed rq \<Longrightarrow> roomy (pg_sqlite (pe_db s)) \<Longrightarrow>
    handle cod (pg_store (cd_handoff_of cod)) out clk rq s = (s', answer) \<Longrightarrow>
    pg_server_step cod (pe_db s) (pe_db s')"

text \<open>Every change of a database: the server's, the store's own interface, migration, deletion.\<close>

inductive pg_step :: "codec \<Rightarrow> pg_db \<Rightarrow> pg_db \<Rightarrow> bool" for cod where
  served: "pg_server_step cod db db' \<Longrightarrow> pg_step cod db db'"
| initialized: "id_ok epoch \<Longrightarrow> pg_initialize_project scope epoch db = (db', r) \<Longrightarrow> pg_step cod db db'"
| executed: "command_ok c \<Longrightarrow> roomy (pg_sqlite db) \<Longrightarrow>
    pg_execute (cd_handoff_of cod) clock c db = (db', r') \<Longrightarrow> pg_step cod db db'"
| migrated: "pg_migrate db = (db', r) \<Longrightarrow> pg_step cod db db'"
| deleted: "pg_delete_tenant_data tid db = (db', report) \<Longrightarrow> pg_step cod db db'"

definition pg_server_run :: "codec \<Rightarrow> pg_db \<Rightarrow> bool" where
  "pg_server_run cod db \<longleftrightarrow> (pg_server_step cod)\<^sup>*\<^sup>* pg_empty db"

definition pg_reachable :: "codec \<Rightarrow> pg_db \<Rightarrow> bool" where
  "pg_reachable cod db \<longleftrightarrow> (pg_step cod)\<^sup>*\<^sup>* pg_empty db"

lemma pg_sqlite_empty [simp]: "pg_sqlite pg_empty = create_schema_v4"
  by (simp add: pg_sqlite_def pg_empty_def create_schema_v4_def)

lemma pg_request_commutes:
  assumes "store_rel (cd_handoff_of cod) (pg_sqlite (pe_db s)) L" "roomy (pg_sqlite (pe_db s))"
    and "handle cod (pg_store (cd_handoff_of cod)) out clk rq s = (s', answer)" "rq \<noteq> GetHealth"
  shows "handle cod (sqlite_store (cd_handoff_of cod)) out clk rq (to_sqlite s) = (to_sqlite s', answer)"
proof -
  have "pg_holds_ledger (cd_handoff_of cod) (pe_db s) \<and> roomy (pg_sqlite (pe_db s))"
    using assms(1,2) by (auto simp: pg_holds_ledger_def)
  from postgres.handle_commutes [OF this assms(4)] show ?thesis
    by (simp add: assms(3))
qed

lemma health_keeps_state:
  "handle cod store out clk GetHealth s = (s', answer) \<Longrightarrow> s' = s"
  by (auto simp: server_health_def reply_def)

lemma pg_server_step_sqlite:
  assumes "pg_server_step cod db db'" "store_rel (cd_handoff_of cod) (pg_sqlite db) L"
  shows "(server_step cod)\<^sup>=\<^sup>= (pg_sqlite db) (pg_sqlite db')"
  using assms(1)
proof (cases rule: pg_server_step.cases)
  case (bootstrapped project tenant r)
  then show ?thesis
    using server_step.bootstrapped [of project tenant "pg_sqlite db" "pg_sqlite db'" r]
    by (simp add: pg_bootstrap_eq)
next
  case (provisioned actor m token now r)
  then show ?thesis
    using server_step.provisioned [of actor m token now "pg_sqlite db" "pg_sqlite db'" r]
    by (simp add: pg_provision_eq)
next
  case (requested rq s out clk s' answer)
  show ?thesis
  proof (cases "rq = GetHealth")
    case True
    then have "s' = s" using requested(5) health_keeps_state by metis
    then show ?thesis using requested(1,2) by simp
  next
    case False
    have "server_step cod (se_db (to_sqlite s)) (se_db (to_sqlite s'))"
      using pg_request_commutes [of cod s L, OF _ _ _ False] requested assms(2)
      by (intro server_step.requested) auto
    then show ?thesis using requested by simp
  qed
qed


lemma pg_step_holds:
  assumes "pg_step cod db db'" "store_rel (cd_handoff_of cod) (pg_sqlite db) L" "sha256_sized cod"
  shows "\<exists>L'. store_rel (cd_handoff_of cod) (pg_sqlite db') L'"
  using assms(1)
proof (cases rule: pg_step.cases)
  case served
  then have "(server_step cod)\<^sup>=\<^sup>= (pg_sqlite db) (pg_sqlite db')"
    by (rule pg_server_step_sqlite [OF _ assms(2)])
  then show ?thesis
    using step_refines [OF _ assms(2,3)] assms(2) by auto
next
  case (initialized epoch scope r)
  then show ?thesis
    using initialize_rel [OF assms(2), of epoch scope] by (auto simp: pg_initialize_eq)
next
  case (executed c clock r')
  then show ?thesis
    using execute_refines [OF assms(2) executed(1) roomy_log [OF assms(2) executed(2)], of clock]
      pg_execute_roomy [OF assms(2) executed(2), of clock c]
    by auto
next
  case (migrated r)
  then have "pg_sqlite db' = pg_sqlite db"
    by (auto simp: pg_migrate_def pg_sqlite_updates split: option.splits if_splits)
  then show ?thesis using assms(2) by auto
next
  case (deleted tid report)
  then show ?thesis using pg_delete_rel [OF _ assms(2)] by blast
qed

lemma pg_reachable_holds:
  assumes "pg_reachable cod db" "sha256_sized cod"
  obtains L where "store_rel (cd_handoff_of cod) (pg_sqlite db) L"
proof -
  have "\<exists>L. store_rel (cd_handoff_of cod) (pg_sqlite db) L"
    using assms(1) unfolding pg_reachable_def
  proof (induction rule: rtranclp_induct)
    case base
    then show ?case using empty_rel by auto
  next
    case (step db db')
    then show ?case using pg_step_holds assms(2) by blast
  qed
  then show thesis using that by blast
qed

section \<open>An example\<close>

text \<open>The run of \<open>Server_Examples\<close> up to its first request, over PostgreSQL.\<close>

definition pg_srv_db :: pg_db where
  "pg_srv_db = fst (pg_provision_actor (ex_actor_record ''bob'') (ex_membership ''bob'')
     (cd_sha256 srv_codec (string_bytes ''tb'')) 5
     (fst (pg_provision_actor (ex_actor_record ''alice'') (ex_membership ''alice'')
       (cd_sha256 srv_codec (string_bytes ''ta'')) 5
       (fst (pg_bootstrap_project ex_tenant ex_project pg_empty)))))"

definition pg_srv_env :: pg_env where
  "pg_srv_env = \<lparr>pe_db = pg_srv_db, pe_clock = (\<lambda>_. 1000), pe_calls = 0\<rparr>"

lemma pg_fst_eq:
  "pg_sqlite (fst (pg_bootstrap_project tenant project db)) =
     fst (bootstrap_project tenant project (pg_sqlite db))"
  "pg_sqlite (fst (pg_provision_actor actor m token now db)) =
     fst (provision_actor actor m token now (pg_sqlite db))"
  by (simp_all add: pg_bootstrap_eq pg_provision_eq)

lemma pg_srv_sqlite [simp]: "pg_sqlite pg_srv_db = srv_db2" "to_sqlite pg_srv_env = srv_env srv_db2"
proof -
  show "pg_sqlite pg_srv_db = srv_db2"
    unfolding pg_srv_db_def pg_fst_eq pg_sqlite_empty srv_db0_def [symmetric] srv_db1_def [symmetric]
    by (rule srv_db2_provisioned)
  then show "to_sqlite pg_srv_env = srv_env srv_db2"
    by (simp add: to_sqlite_def pg_srv_env_def srv_env_def)
qed

lemma pg_srv_run: "pg_server_run srv_codec pg_srv_db"
proof -
  have "id_ok (pr_project_epoch ex_project)" by code_simp
  then have boot: "pg_server_step srv_codec pg_empty (fst (pg_bootstrap_project ex_tenant ex_project pg_empty))"
    by (rule pg_server_step.bootstrapped) (rule surjective_pairing)
  have provision: "pg_server_step srv_codec db (fst (pg_provision_actor actor m token now db))"
    for actor m token now db
    by (rule pg_server_step.provisioned) (rule surjective_pairing)
  show ?thesis
    unfolding pg_server_run_def pg_srv_db_def
    by (rule rtranclp.rtrancl_into_rtrancl, rule rtranclp.rtrancl_into_rtrancl,
        rule r_into_rtranclp [where r = "pg_server_step srv_codec", OF boot]) (rule provision)+
qed

lemma server_run_reachable: "pg_server_run cod db \<Longrightarrow> pg_reachable cod db"
  unfolding pg_server_run_def pg_reachable_def
  by (erule rtranclp_mono [THEN predicate2D, rotated]) (auto intro: pg_step.served)

section \<open>Properties\<close>



definition pg_reads_as :: "(bytes \<Rightarrow> handoff_record option) \<Rightarrow> pg_db \<Rightarrow> ledger \<Rightarrow> bool" where
  "pg_reads_as dec db L \<longleftrightarrow> (\<forall>scope cid cursor limit ref actor query.
     pg_load_receipt db scope cid = Inr (ledger_receipt L scope cid) \<and>
     pg_change_feed db scope cursor limit = ledger_changes L scope cursor limit \<and>
     pg_materialized_changes db scope cursor limit = ledger_materialized L scope cursor limit \<and>
     pg_snapshot db scope = ledger_snapshot L scope \<and>
     pg_resource db scope ref = Inr (ledger_resource L scope ref) \<and>
     pg_handoffs dec db scope actor query = ledger_handoffs dec L scope actor query)"

lemma pg_reads_as_rel: "store_rel dec (pg_sqlite db) L \<Longrightarrow> pg_reads_as dec db L"
  using pg_reads [of dec "\<lparr>pe_db = db, pe_clock = clk, pe_calls = n\<rparr>" L for clk n]
  by (simp add: pg_reads_as_def pg_rep_store_rel)



text \<open>
  The PostgreSQL store passes the conformance suite on every such database whose fixture project
  is registered and empty.
\<close>

theorem postgres_passes_conformance:
  assumes "pg_reachable cod db" "sha256_sized cod"
    and "pg_project_epoch db conf_scope = Inr (Some epoch)" "epoch \<noteq> ''epoch_replaced''"
    and "select_count (\<lambda>r. rc_scope r = conf_scope) (pg_receipts db) = 0"
    and "\<forall>n. 0 \<le> clk n \<and> clk n \<le> i64_max"
  shows "snd (conformance_run (pg_store (cd_handoff_of cod)) epoch
      \<lparr>pe_db = db, pe_clock = clk, pe_calls = k\<rparr>) =
    Inr \<lparr>cf_checks = conformance_checks, cf_final_sequence = 3, cf_tombstone_revision = 3\<rparr>"
proof -
  obtain L where L: "store_rel (cd_handoff_of cod) (pg_sqlite db) L"
    using pg_reachable_holds [OF assms(1,2)] .
  obtain log where log: "L conf_scope = Some (epoch, log)"
    using assms(3) load_project_rel [OF L, of conf_scope] pg_epoch_eq [OF L, of conf_scope]
    by (auto simp: project_epoch_of_def result_iffs)
  have "log = []"
    using receipts_count [OF L, of conf_scope] assms(5) log by simp
  with log have empty: "L conf_scope = Some (epoch, [])" by simp
  have "pg_timed_rep (cd_handoff_of cod) \<lparr>pe_db = db, pe_clock = clk, pe_calls = k\<rparr> L"
    using L assms(6) by (simp add: pg_timed_rep_def pg_rep_store_rel)
  from postgres_timed.conformance_run_passes [OF this empty assms(4)] show ?thesis
    by (simp add: conf_report_def)
qed

definition pg_conf_db :: pg_db where
  "pg_conf_db = fst (pg_initialize_project conf_scope ''e1'' pg_empty)"

lemma pg_conf_reachable: "pg_reachable cod pg_conf_db"
proof -
  have "id_ok ''e1''" by code_simp
  then have "pg_step cod pg_empty pg_conf_db"
    by (rule pg_step.initialized) (simp add: pg_conf_db_def prod_eq_iff)
  then show ?thesis unfolding pg_reachable_def by blast
qed

theorem postgres_passes_conformance_witness:
  "snd (conformance_run (pg_store (cd_handoff_of srv_codec)) ''e1''
      \<lparr>pe_db = pg_conf_db, pe_clock = (\<lambda>n. 1000), pe_calls = 0\<rparr>) =
    Inr \<lparr>cf_checks = conformance_checks, cf_final_sequence = 3, cf_tombstone_revision = 3\<rparr>"
proof -
  have "pg_project_epoch pg_conf_db conf_scope = Inr (Some ''e1'')"
    "select_count (\<lambda>r. rc_scope r = conf_scope) (pg_receipts pg_conf_db) = 0"
    by code_simp+
  then show ?thesis
    by (intro postgres_passes_conformance [OF pg_conf_reachable srv_codec_ok(1)])
      (simp_all add: i64_max_def)
qed

lemma ledger_reads_agree:
  assumes "L' scope = L scope" "pg_reads_as dec db L" "pg_reads_as dec db' L'"
  shows "pg_load_receipt db' scope cid = pg_load_receipt db scope cid"
    and "pg_change_feed db' scope cursor limit = pg_change_feed db scope cursor limit"
    and "pg_materialized_changes db' scope cursor limit = pg_materialized_changes db scope cursor limit"
    and "pg_snapshot db' scope = pg_snapshot db scope"
    and "pg_resource db' scope ref = pg_resource db scope ref"
    and "pg_handoffs dec db' scope actor query = pg_handoffs dec db scope actor query"
  using assms ledger_reads_cong [where L = L' and L' = L, OF assms(1)] by (simp_all add: pg_reads_as_def)

lemma pg_epoch_ledger:
  assumes "store_rel dec (pg_sqlite db) L"
  shows "pg_project_epoch db scope = Inr (map_option fst (L scope))"
  using load_project_rel [OF assms, of scope]
  by (simp add: project_epoch_of_def option.map_comp comp_def case_prod_beta flip: pg_epoch_eq [OF assms])

lemma find_delete_other:
  assumes "\<And>r. P r \<Longrightarrow> \<not> q r"
  shows "find P (delete_rows q rows) = find P rows"
  unfolding delete_rows_def using assms by (induction rows) auto

lemma deletion_identity:
  assumes "pg_delete_tenant_data tid db = (db', r)"
  shows "pg_authenticate_token db' digest = pg_authenticate_token db digest"
    and "pg_project_membership db' scope actor =
      (if sc_tenant_id scope = tid then Inr None else pg_project_membership db scope actor)"
proof -
  note tables = pg_delete_tables [OF assms]
  have same: "pg_active_tenant db' = pg_active_tenant db" "pg_active_actor db' = pg_active_actor db"
    by (simp_all add: fun_eq_iff pg_active_tenant_def pg_active_actor_def tables)
  show "pg_authenticate_token db' digest = pg_authenticate_token db digest"
    by (simp add: pg_authenticate_token_def same tables)
  have active: "pg_active_project db' scope \<longleftrightarrow> sc_tenant_id scope \<noteq> tid \<and> pg_active_project db scope"
    by (auto simp: pg_active_project_def tables list_ex_iff)
  have rows: "find P (pg_memberships db') = find P (pg_memberships db)"
    if "\<And>m. P m \<Longrightarrow> ms_tenant_id m \<noteq> tid" for P
    unfolding tables(10) using that by (intro find_delete_other) auto
  show "pg_project_membership db' scope actor =
      (if sc_tenant_id scope = tid then Inr None else pg_project_membership db scope actor)"
  proof (cases "sc_tenant_id scope = tid")
    case True
    then have "find (\<lambda>r. False) rows = None" for rows :: "membership_row list"
      by (simp add: find_None_iff)
    with True show ?thesis by (simp add: pg_project_membership_def active)
  next
    case False
    then show ?thesis
      unfolding pg_project_membership_def active same by (subst rows) auto
  qed
qed

lemma deletion_report:
  assumes "pg_delete_tenant_data tid db = (db', Inr report)"
  shows "td_deleted_resources report + length (pg_resources db') = length (pg_resources db)"
    and "td_deleted_receipts report + length (pg_receipts db') = length (pg_receipts db)"
    and "td_deleted_changes report + length (pg_changes db') = length (pg_changes db)"
proof -
  have report: "td_deleted_resources report = length (filter (\<lambda>r. qr_tenant_id r = tid) (pg_resources db))"
    "td_deleted_receipts report = length (filter (\<lambda>r. rc_tenant_id r = tid) (pg_receipts db))"
    "td_deleted_changes report = length (filter (\<lambda>c. qc_tenant_id c = tid) (pg_changes db))"
    using assms by (auto simp: pg_delete_tenant_data_def Let_def)
  show "td_deleted_resources report + length (pg_resources db') = length (pg_resources db)"
    "td_deleted_receipts report + length (pg_receipts db') = length (pg_receipts db)"
    "td_deleted_changes report + length (pg_changes db') = length (pg_changes db)"
    unfolding report pg_delete_tables [OF assms] by (rule sum_length_filter_compl)+
qed

text \<open>
  C31. Deleting a tenant removes the tenant's projects with their resources, receipts, changes and
  mailboxes, and nothing that any other tenant reads; the report counts the rows that went. The
  tenant's actors and bearer tokens are not part of the deletion: they authenticate as before.
\<close>

theorem tenant_deletion_exact:
  assumes "pg_reachable cod db" "sha256_sized cod"
    and "pg_delete_tenant_data tid db = (db', Inr report)"
  shows "td_deleted_resources report + length (pg_resources db') = length (pg_resources db) \<and>
    td_deleted_receipts report + length (pg_receipts db') = length (pg_receipts db) \<and>
    td_deleted_changes report + length (pg_changes db') = length (pg_changes db) \<and>
    pg_authenticate_token db' digest = pg_authenticate_token db digest \<and>
    (if sc_tenant_id scope = tid then
       pg_project_epoch db' scope = Inr None \<and> pg_load_receipt db' scope cid = Inr None \<and>
       pg_resource db' scope ref = Inr None \<and> pg_project_membership db' scope actor = Inr None \<and>
       pg_snapshot db' scope = Inl (ProjectUnauthorized (sc_project_id scope)) \<and>
       pg_handoffs (cd_handoff_of cod) db' scope actor query =
         ledger_handoffs (cd_handoff_of cod) Map.empty scope actor query
     else
       pg_project_epoch db' scope = pg_project_epoch db scope \<and>
       pg_load_receipt db' scope cid = pg_load_receipt db scope cid \<and>
       pg_change_feed db' scope cursor limit = pg_change_feed db scope cursor limit \<and>
       pg_materialized_changes db' scope cursor limit = pg_materialized_changes db scope cursor limit \<and>
       pg_snapshot db' scope = pg_snapshot db scope \<and>
       pg_resource db' scope ref = pg_resource db scope ref \<and>
       pg_project_membership db' scope actor = pg_project_membership db scope actor \<and>
       pg_handoffs (cd_handoff_of cod) db' scope actor query =
         pg_handoffs (cd_handoff_of cod) db scope actor query)"
proof -
  obtain L where L: "store_rel (cd_handoff_of cod) (pg_sqlite db) L"
    using pg_reachable_holds [OF assms(1,2)] .
  note L' = pg_delete_rel [OF assms(3) L]
  note before = pg_reads_as_rel [OF L] and after = pg_reads_as_rel [OF L']
  note epochs = pg_epoch_ledger [OF L, of scope] pg_epoch_ledger [OF L', of scope]
  note kept = deletion_report [OF assms(3)] deletion_identity [OF assms(3)]
  show ?thesis
  proof (cases "sc_tenant_id scope = tid")
    case True
    then have gone: "drop_tenant tid L scope = Map.empty scope" by (simp add: drop_tenant_def)
    show ?thesis
      using after True kept epochs ledger_reads_cong [where L = "drop_tenant tid L" and L' = Map.empty, OF gone]
      by (simp add: pg_reads_as_def gone ledger_receipt_def ledger_resource_def ledger_snapshot_def
          find_command_def)
  next
    case False
    then have same: "drop_tenant tid L scope = L scope" by (simp add: drop_tenant_def)
    show ?thesis
      using False kept epochs by (simp add: same ledger_reads_agree [OF same before after])
  qed
qed

text \<open>The tenant of the example: its two members keep their tokens, their project is gone.\<close>

theorem tenant_deletion_exact_witness:
  "pg_authenticate_token (fst (pg_delete_tenant_data ''t1'' pg_srv_db)) (1 # replicate 31 0) =
     Inr (Some \<lparr>aa_tenant_id = ''t1'', aa_actor_id = ''alice''\<rparr>) \<and>
   pg_project_epoch (fst (pg_delete_tenant_data ''t1'' pg_srv_db)) ex_scope = Inr None"
proof -
  obtain report where run: "pg_delete_tenant_data ''t1'' pg_srv_db =
      (fst (pg_delete_tenant_data ''t1'' pg_srv_db), Inr report)"
    by (simp add: pg_delete_tenant_data_def Let_def)
  have alice: "pg_authenticate_token pg_srv_db (1 # replicate 31 0) =
      Inr (Some \<lparr>aa_tenant_id = ''t1'', aa_actor_id = ''alice''\<rparr>)"
    by code_simp
  have "sc_tenant_id ex_scope = ''t1''" by (simp add: ex_scope_def)
  with tenant_deletion_exact [OF server_run_reachable [OF pg_srv_run] srv_codec_ok(1) run,
      of "1 # replicate 31 0" ex_scope]
  show ?thesis by (simp add: alice)
qed

end
