(* ===== verification/Pg_Backup.thy ===== *)
theory Pg_Backup
  imports Pg_Server Service_Visibility
begin

text \<open>
  \<open>aidememo-store-postgres/src/backup.rs\<close>: the manifest of a logical backup, its checks before
  \<open>pg_restore\<close> runs, and the form of a database URL a report shows; and \<open>cmd/postgres.rs\<close> of the
  command line, whose subcommands are not connected to any of it. Directories, files and the
  \<open>pg_dump\<close> and \<open>pg_restore\<close> processes are parameters: what each answers.
\<close>

section \<open>Manifests\<close>

record sequence_high_water =
  hw_tenant_id :: string
  hw_project_id :: string
  hw_sequence :: u64

record postgres_backup_database =
  bd_object :: string
  bd_compression :: string
  bd_stored_bytes :: u64
  bd_stored_sha256 :: string

record postgres_backup_manifest =
  bm_schema :: nat
  bm_backup_id :: string
  bm_created_at_ms :: u64
  bm_backend :: string
  bm_source_database :: string
  bm_database :: postgres_backup_database
  bm_sequence_high_water :: "sequence_high_water option"

definition POSTGRES_DUMP_OBJECT :: string where "POSTGRES_DUMP_OBJECT = ''canonical.pgdump''"

definition backup_sha256_hex :: "codec \<Rightarrow> bytes \<Rightarrow> string" where
  "backup_sha256_hex cod bs = concat (map hex_byte (cd_sha256 cod bs))"

text \<open>\<open>url.split('@').next_back()\<close>: the text after the last \<open>@\<close>.\<close>

definition after_last_at :: "string \<Rightarrow> string" where
  "after_last_at url = rev (takeWhile (\<lambda>c. c \<noteq> CHR ''@'') (rev url))"

definition sanitize_database_url :: "string \<Rightarrow> string" where
  "sanitize_database_url url =
    (if CHR ''@'' \<in> set url then ''postgres://<credentials>@'' @ after_last_at url
     else ''postgres://<redacted>'')"

definition validate_manifest_metadata :: "postgres_backup_manifest \<Rightarrow> unit domain_result" where
  "validate_manifest_metadata manifest =
    (if bm_schema manifest \<noteq> 1 then
       Inl (InvalidCommand (Text (''unsupported postgres backup manifest schema ''
         @ nat_text (bm_schema manifest))))
     else if bm_backend manifest \<noteq> ''postgres'' then
       Inl (InvalidCommand (Text (''postgres backup manifest backend `'' @ bm_backend manifest
         @ ''` is not postgres-compatible'')))
     else Inr ())"

text \<open>
  \<open>made\<close>: creating the directory; \<open>dumped\<close>: running \<open>pg_dump\<close>; \<open>dump\<close>: reading its output file;
  \<open>wrote\<close>: writing the manifest.
\<close>

definition create_postgres_backup ::
  "codec \<Rightarrow> string \<Rightarrow> u64 \<Rightarrow> string \<Rightarrow> unit domain_result \<Rightarrow> unit domain_result \<Rightarrow> bytes domain_result
    \<Rightarrow> (postgres_backup_manifest \<Rightarrow> unit domain_result) \<Rightarrow> postgres_backup_manifest domain_result" where
  "create_postgres_backup cod backup_id now url made dumped dump wrote =
     and_then made (\<lambda>_.
     and_then dumped (\<lambda>_.
     and_then dump (\<lambda>dump_bytes.
     let manifest = \<lparr>bm_schema = 1, bm_backup_id = backup_id, bm_created_at_ms = now,
           bm_backend = ''postgres'', bm_source_database = sanitize_database_url url,
           bm_database = \<lparr>bd_object = POSTGRES_DUMP_OBJECT, bd_compression = ''pg_custom'',
             bd_stored_bytes = of_nat (length dump_bytes),
             bd_stored_sha256 = backup_sha256_hex cod dump_bytes\<rparr>,
           bm_sequence_high_water = None\<rparr> in
     and_then (wrote manifest) (\<lambda>_. Inr manifest))))"

text \<open>
  \<open>manifest\<close>: reading and decoding the manifest; \<open>read\<close>: reading an object of the backup;
  \<open>restore\<close>: running \<open>pg_restore\<close> on an object. The report is the manifest and the sanitized URL.
\<close>

definition restore_postgres_backup ::
  "codec \<Rightarrow> postgres_backup_manifest domain_result \<Rightarrow> (string \<Rightarrow> bytes domain_result)
    \<Rightarrow> (string \<Rightarrow> unit domain_result) \<Rightarrow> string \<Rightarrow> (postgres_backup_manifest \<times> string) domain_result" where
  "restore_postgres_backup cod manifest read restore url =
     and_then manifest (\<lambda>manifest.
     and_then (validate_manifest_metadata manifest) (\<lambda>_.
     and_then (read (bd_object (bm_database manifest))) (\<lambda>dump_bytes.
       if of_nat (length dump_bytes) \<noteq> bd_stored_bytes (bm_database manifest) then
         Inl (InvalidCommand (Text ''backup dump file size mismatch''))
       else if backup_sha256_hex cod dump_bytes \<noteq> bd_stored_sha256 (bm_database manifest) then
         Inl (InvalidCommand (Text ''backup dump checksum mismatch''))
       else and_then (restore (bd_object (bm_database manifest))) (\<lambda>_.
         Inr (manifest, sanitize_database_url url)))))"

section \<open>The command line\<close>

datatype postgres_sub =
    BackupCreate string bool
  | BackupRestore string bool
  | TenantExport string string bool
  | TenantDelete string bool bool

text \<open>\<open>url\<close>: the environment variable \<open>AIDEMEMO_POSTGRES_URL\<close>, if set.\<close>

fun run_postgres :: "string option \<Rightarrow> postgres_sub \<Rightarrow> bool \<Rightarrow> string + string" where
  "run_postgres None sub json = Inl (''AIDEMEMO_POSTGRES_URL environment variable is required for ''
     @ ''PostgreSQL operations'')"
| "run_postgres (Some url) (BackupCreate dest j) json = Inl (''PostgreSQL backup requires ''
     @ ''aidememo-store-postgres; use --backend postgres with aidememo backup for SQLite-like stores'')"
| "run_postgres (Some url) (BackupRestore source j) json = Inl (''PostgreSQL restore requires ''
     @ ''aidememo-store-postgres; use --backend postgres with aidememo backup for SQLite-like stores'')"
| "run_postgres (Some url) (TenantExport tid dest j) json =
     Inl ''Tenant export requires aidememo-store-postgres''"
| "run_postgres (Some url) (TenantDelete tid confirm j) json =
     Inl (if \<not> confirm then ''tenant delete is destructive; pass --confirm to proceed''
       else ''Tenant delete requires aidememo-store-postgres'')"

section \<open>Lemmas\<close>

lemma backup_restores:
  assumes "create_postgres_backup cod backup_id now url made dumped (Inr dump) wrote = Inr manifest"
    and "read POSTGRES_DUMP_OBJECT = Inr dump" "restore POSTGRES_DUMP_OBJECT = Inr ()"
  shows "restore_postgres_backup cod (Inr manifest) read restore target =
    Inr (manifest, sanitize_database_url target)"
  using assms
  by (auto simp: create_postgres_backup_def restore_postgres_backup_def validate_manifest_metadata_def
      Let_def result_iffs)

lemma restored_digest:
  assumes "restore_postgres_backup cod (Inr manifest) read restore target = Inr report"
  shows "\<exists>dump. read (bd_object (bm_database manifest)) = Inr dump \<and>
    backup_sha256_hex cod dump = bd_stored_sha256 (bm_database manifest) \<and>
    restore (bd_object (bm_database manifest)) = Inr ()"
  using assms by (auto simp: restore_postgres_backup_def result_iffs)

lemma sanitized_suffix:
  assumes "CHR ''@'' \<notin> set host"
  shows "sanitize_database_url (credentials @ CHR ''@'' # host) = ''postgres://<credentials>@'' @ host"
  using assms by (simp add: sanitize_database_url_def after_last_at_def takeWhile_append)

text \<open>A password in the query part of the URL is shown.\<close>

lemma sanitized_query_password:
  "sanitize_database_url ''postgres://app@db/aide?password=hunter2'' =
     ''postgres://<credentials>@db/aide?password=hunter2''"
  by code_simp

lemma run_postgres_fails: "\<exists>e. run_postgres url sub json = Inl e"
  by (cases url; cases sub) auto

end
