(* ===== verification/Rust_F32.thy ===== *)
theory Rust_F32
  imports Prelude
begin

text \<open>
  Rust's \<open>f32\<close> as its 32-bit pattern: IEEE 754 comparison, addition rounded to nearest even,
  \<open>min\<close>, \<open>max\<close>. A finite pattern denotes an integer multiple of \<open>2^-149\<close>, so sums are exact
  integer sums before they are rounded.
\<close>

type_synonym f32 = "32 word"

section \<open>Patterns\<close>

text \<open>The 31 bits below the sign.\<close>

definition f32_magnitude :: "f32 \<Rightarrow> nat" where
  "f32_magnitude x = unat x mod 2 ^ 31"

definition f32_negative :: "f32 \<Rightarrow> bool" where
  "f32_negative x \<longleftrightarrow> 2 ^ 31 \<le> unat x"

definition f32_infinity_bits :: nat where
  "f32_infinity_bits = 2139095040"

definition f32_is_nan :: "f32 \<Rightarrow> bool" where
  "f32_is_nan x \<longleftrightarrow> f32_infinity_bits < f32_magnitude x"

definition f32_is_finite :: "f32 \<Rightarrow> bool" where
  "f32_is_finite x \<longleftrightarrow> f32_magnitude x < f32_infinity_bits"

text \<open>
  The value of a magnitude in units of \<open>2^-149\<close>: the exponent field is \<open>e\<close>, the significand \<open>m\<close>,
  with the implicit bit unless the number is subnormal.
\<close>

definition f32_units :: "nat \<Rightarrow> nat" where
  "f32_units b =
    (let e = b div 2 ^ 23; m = b mod 2 ^ 23 in
     if e = 0 then m else (m + 2 ^ 23) * 2 ^ (e - 1))"

definition f32_int :: "f32 \<Rightarrow> int" where
  "f32_int x =
    (if f32_negative x then - int (f32_units (f32_magnitude x)) else int (f32_units (f32_magnitude x)))"

text \<open>\<open>a < b\<close>: false when either is a NaN; infinities compare by their patterns.\<close>

definition f32_lt :: "f32 \<Rightarrow> f32 \<Rightarrow> bool" where
  "f32_lt a b \<longleftrightarrow> \<not> f32_is_nan a \<and> \<not> f32_is_nan b \<and> f32_int a < f32_int b"

definition f32_le :: "f32 \<Rightarrow> f32 \<Rightarrow> bool" where
  "f32_le a b \<longleftrightarrow> \<not> f32_is_nan a \<and> \<not> f32_is_nan b \<and> f32_int a \<le> f32_int b"

text \<open>\<open>a.min(b)\<close> and \<open>a.max(b)\<close>: a NaN argument is ignored.\<close>

definition f32_min :: "f32 \<Rightarrow> f32 \<Rightarrow> f32" where
  "f32_min a b = (if f32_is_nan a then b else if f32_is_nan b then a else if f32_lt b a then b else a)"

definition f32_max :: "f32 \<Rightarrow> f32 \<Rightarrow> f32" where
  "f32_max a b = (if f32_is_nan a then b else if f32_is_nan b then a else if f32_lt a b then b else a)"

section \<open>Rounding\<close>

text \<open>Bits of \<open>n\<close> beyond the 24 of a significand.\<close>

fun f32_excess :: "nat \<Rightarrow> nat" where
  "f32_excess n = (if n < 2 ^ 24 then 0 else Suc (f32_excess (n div 2)))"

declare f32_excess.simps [simp del]

text \<open>
  \<open>n\<close> units rounded to the nearest pattern, ties to even. Below \<open>2^24\<close> units a pattern is its own
  value; above, the exponent field counts the dropped bits, and a significand that rounds up to
  \<open>2^24\<close> carries into it.
\<close>

definition f32_round :: "nat \<Rightarrow> nat" where
  "f32_round n =
    (let k = f32_excess n; q = n div 2 ^ k; r = n mod 2 ^ k;
         q' = (if 2 ^ k < 2 * r \<or> (2 ^ k = 2 * r \<and> odd q) then Suc q else q)
     in min f32_infinity_bits (k * 2 ^ 23 + q'))"

definition f32_of_int :: "int \<Rightarrow> f32" where
  "f32_of_int i =
    (if i < 0 then of_nat (2 ^ 31 + f32_round (nat (- i))) else of_nat (f32_round (nat i)))"

definition f32_nan :: f32 where
  "f32_nan = 2143289344"

text \<open>
  \<open>a + b\<close> and \<open>a - b\<close>. An exact zero sum is \<open>+0\<close> unless both operands are \<open>-0\<close>; the code adds no
  infinities of opposite signs, which would give a NaN.
\<close>

definition f32_neg :: "f32 \<Rightarrow> f32" where
  "f32_neg x = (if f32_negative x then of_nat (f32_magnitude x) else of_nat (2 ^ 31 + f32_magnitude x))"

definition f32_add :: "f32 \<Rightarrow> f32 \<Rightarrow> f32" where
  "f32_add a b =
    (if f32_is_nan a \<or> f32_is_nan b then f32_nan
     else if \<not> f32_is_finite a then
       (if \<not> f32_is_finite b \<and> f32_negative a \<noteq> f32_negative b then f32_nan else a)
     else if \<not> f32_is_finite b then b
     else if f32_int a + f32_int b = 0 then
       (if f32_negative a \<and> f32_negative b then of_nat (2 ^ 31) else 0)
     else f32_of_int (f32_int a + f32_int b))"

definition f32_sub :: "f32 \<Rightarrow> f32 \<Rightarrow> f32" where
  "f32_sub a b = f32_add a (f32_neg b)"

section \<open>Literals of the code\<close>

definition f32_zero :: f32 where "f32_zero = 0"
definition f32_one :: f32 where "f32_one = 0x3F800000"
definition f32_half :: f32 where "f32_half = 0x3F000000"
definition f32_0_10 :: f32 where "f32_0_10 = 0x3DCCCCCD"
definition f32_0_15 :: f32 where "f32_0_15 = 0x3E19999A"
definition f32_infinity :: f32 where "f32_infinity = 0x7F800000"

section \<open>Lemmas\<close>

lemmas f32_literals =
  f32_zero_def f32_one_def f32_half_def f32_0_10_def f32_0_15_def f32_infinity_def f32_nan_def

lemmas f32_patterns =
  f32_int_def f32_negative_def f32_magnitude_def f32_is_nan_def f32_is_finite_def
  f32_infinity_bits_def

lemma f32_literal_values:
  "f32_int f32_zero = 0" "f32_int f32_one = 2 ^ 149" "f32_int f32_half = 2 ^ 148"
  "0 < f32_int f32_0_10" "0 < f32_int f32_0_15"
  "f32_is_finite f32_zero" "f32_is_finite f32_one" "f32_is_finite f32_half"
  "\<not> f32_is_nan f32_zero" "\<not> f32_is_nan f32_one" "\<not> f32_is_nan f32_half"
  by (simp_all add: f32_literals f32_patterns f32_units_def Let_def)

lemma f32_min_int:
  "\<not> f32_is_nan b \<Longrightarrow> \<not> f32_is_nan (f32_min a b) \<and> f32_int (f32_min a b) \<le> f32_int b"
  by (auto simp: f32_min_def f32_lt_def)

lemma f32_max_int:
  "\<not> f32_is_nan b \<Longrightarrow> \<not> f32_is_nan (f32_max a b) \<and> f32_int b \<le> f32_int (f32_max a b)"
  by (auto simp: f32_max_def f32_lt_def)

lemma f32_min_cases: "f32_min a b = b \<or> f32_min a b = a \<and> \<not> f32_is_nan a"
  by (auto simp: f32_min_def)

lemma f32_max_cases: "f32_max a b = b \<or> f32_max a b = a \<and> \<not> f32_is_nan a"
  by (auto simp: f32_max_def)

lemma f32_nonnegative_int: "\<not> f32_negative x \<Longrightarrow> 0 \<le> f32_int x"
  by (simp add: f32_int_def)

lemma f32_of_nat_nonneg:
  assumes "n < 2 ^ 31"
  shows "\<not> f32_negative (of_nat n)" "f32_magnitude (of_nat n) = n"
proof -
  have "unat (of_nat n :: f32) = n"
    using assms by (simp add: unsigned_of_nat take_bit_nat_eq_self)
  then show "\<not> f32_negative (of_nat n)" "f32_magnitude (of_nat n) = n"
    using assms by (simp_all add: f32_negative_def f32_magnitude_def)
qed

lemma f32_round_bound: "f32_round n \<le> f32_infinity_bits"
  by (simp add: f32_round_def Let_def)

lemma f32_of_int_nonneg:
  assumes "0 \<le> i"
  shows "0 \<le> f32_int (f32_of_int i)" and "\<not> f32_is_nan (f32_of_int i)"
proof -
  have b: "f32_round (nat i) < 2 ^ 31" "f32_round (nat i) \<le> f32_infinity_bits"
    using f32_round_bound [of "nat i"] by (simp_all add: f32_infinity_bits_def)
  show "0 \<le> f32_int (f32_of_int i)"
    using assms f32_of_nat_nonneg(1) [OF b(1)] by (simp add: f32_of_int_def f32_nonnegative_int)
  show "\<not> f32_is_nan (f32_of_int i)"
    using assms f32_of_nat_nonneg(2) [OF b(1)] b(2) by (simp add: f32_of_int_def f32_is_nan_def)
qed

section \<open>Rounding is monotone, and exact on representable values\<close>

lemma f32_excess_bounds:
  "n < 2 ^ (24 + f32_excess n) \<and> (0 < f32_excess n \<longrightarrow> 2 ^ (23 + f32_excess n) \<le> n)"
proof (induction n rule: f32_excess.induct)
  case (1 n)
  show ?case
  proof (cases "n < 2 ^ 24")
    case True
    then show ?thesis by (simp add: f32_excess.simps)
  next
    case False
    define k where "k = f32_excess (n div 2)"
    have ex: "f32_excess n = Suc k"
      using False by (simp add: f32_excess.simps [of n] k_def)
    have half: "n div 2 < 2 ^ (24 + k)" "0 < k \<longrightarrow> 2 ^ (23 + k) \<le> n div 2"
      using 1 [OF False] by (simp_all add: k_def)
    have "2 ^ (23 + k) \<le> n div 2"
      using half(2) False by (cases "k = 0") auto
    then show ?thesis
      using half(1) unfolding ex by (simp add: power_add) linarith
  qed
qed

lemma f32_excess_unique:
  assumes "n < 2 ^ (24 + k)" "0 < k \<longrightarrow> 2 ^ (23 + k) \<le> n"
  shows "f32_excess n = k"
proof (rule ccontr)
  assume "f32_excess n \<noteq> k"
  then consider "f32_excess n < k" | "k < f32_excess n" by linarith
  then show False
  proof cases
    case 1
    then have "(2 :: nat) ^ (24 + f32_excess n) \<le> 2 ^ (23 + k)"
      by (intro power_increasing) auto
    with 1 assms(2) f32_excess_bounds [of n] show ?thesis by linarith
  next
    case 2
    then have "(2 :: nat) ^ (24 + k) \<le> 2 ^ (23 + f32_excess n)"
      by (intro power_increasing) auto
    with 2 assms(1) f32_excess_bounds [of n] show ?thesis by linarith
  qed
qed

text \<open>The significand before and after rounding.\<close>

definition f32_significand :: "nat \<Rightarrow> nat" where
  "f32_significand n =
    (let k = f32_excess n; q = n div 2 ^ k; r = n mod 2 ^ k in
     if 2 ^ k < 2 * r \<or> (2 ^ k = 2 * r \<and> odd q) then Suc q else q)"

lemma f32_round_significand:
  "f32_round n = min f32_infinity_bits (f32_excess n * 2 ^ 23 + f32_significand n)"
  by (simp add: f32_round_def f32_significand_def Let_def)

lemma f32_quotient_bounds:
  "n div 2 ^ f32_excess n < 2 ^ 24" "0 < f32_excess n \<Longrightarrow> 2 ^ 23 \<le> n div 2 ^ f32_excess n"
  using f32_excess_bounds [of n]
  by (simp_all add: less_mult_imp_div_less power_add less_eq_div_iff_mult_less_eq)

lemma f32_significand_near:
  "n div 2 ^ f32_excess n \<le> f32_significand n" "f32_significand n \<le> Suc (n div 2 ^ f32_excess n)"
  by (simp_all add: f32_significand_def Let_def)

lemma f32_significand_mono:
  assumes "n \<le> m" "f32_excess n = f32_excess m"
  shows "f32_significand n \<le> f32_significand m"
proof (cases "n div 2 ^ f32_excess m = m div 2 ^ f32_excess m")
  case True
  have "n = n div 2 ^ f32_excess m * 2 ^ f32_excess m + n mod 2 ^ f32_excess m"
    "m = m div 2 ^ f32_excess m * 2 ^ f32_excess m + m mod 2 ^ f32_excess m"
    by (rule div_mult_mod_eq [symmetric])+
  then have "n mod 2 ^ f32_excess m \<le> m mod 2 ^ f32_excess m"
    using True assms(1) by (metis add_le_cancel_left)
  with True show ?thesis
    by (auto simp: f32_significand_def Let_def assms(2))
next
  case False
  then have "Suc (n div 2 ^ f32_excess m) \<le> m div 2 ^ f32_excess m"
    using div_le_mono [OF assms(1), of "2 ^ f32_excess m"] by simp
  then show ?thesis
    using f32_significand_near(2) [of n] f32_significand_near(1) [of m] assms(2) by simp
qed

lemma f32_excess_mono: "n \<le> m \<Longrightarrow> f32_excess n \<le> f32_excess m"
proof (rule ccontr)
  assume "n \<le> m" and "\<not> f32_excess n \<le> f32_excess m"
  then have "(2 :: nat) ^ (24 + f32_excess m) \<le> 2 ^ (23 + f32_excess n)"
    by (intro power_increasing) auto
  with \<open>n \<le> m\<close> \<open>\<not> _\<close> f32_excess_bounds [of n] f32_excess_bounds [of m] show False
    by linarith
qed

lemma f32_round_mono:
  assumes "n \<le> m"
  shows "f32_round n \<le> f32_round m"
proof -
  have "f32_excess n * 2 ^ 23 + f32_significand n \<le> f32_excess m * 2 ^ 23 + f32_significand m"
  proof (cases "f32_excess n = f32_excess m")
    case True
    then show ?thesis
      using f32_significand_mono [OF assms] by simp
  next
    case False
    then have less: "f32_excess n + 1 \<le> f32_excess m"
      using f32_excess_mono [OF assms] by simp
    have "f32_significand n \<le> 2 * 2 ^ 23"
      using f32_significand_near(2) [of n] f32_quotient_bounds(1) [of n] by simp
    moreover have "2 ^ 23 \<le> f32_significand m"
      using f32_significand_near(1) [of m] f32_quotient_bounds(2) [of m] less by simp
    moreover have "(f32_excess n + 1) * 2 ^ 23 \<le> f32_excess m * 2 ^ 23"
      using less by (rule mult_le_mono1)
    ultimately show ?thesis by simp
  qed
  then show ?thesis
    unfolding f32_round_significand by simp
qed

lemma f32_round_units:
  assumes "b \<le> f32_infinity_bits"
  shows "f32_round (f32_units b) = b"
proof -
  define e m where "e = b div 2 ^ 23" "m = b mod 2 ^ 23"
  have b: "b = e * 2 ^ 23 + m" and m: "m < 2 ^ 23"
    by (simp_all add: e_m_def)
  have "f32_excess (f32_units b) * 2 ^ 23 + f32_significand (f32_units b) = b"
  proof (cases "e = 0")
    case True
    then have u: "f32_units b = m"
      by (simp add: f32_units_def Let_def e_m_def)
    have "f32_excess m = 0"
      by (rule f32_excess_unique) (use m in simp_all)
    then show ?thesis
      using True b unfolding u by (simp add: f32_significand_def Let_def)
  next
    case False
    then have u: "f32_units b = (m + 2 ^ 23) * 2 ^ (e - 1)"
      by (simp add: f32_units_def Let_def e_m_def)
    have ex: "f32_excess (f32_units b) = e - 1"
    proof (unfold u, rule f32_excess_unique)
      have "(m + 2 ^ 23) * 2 ^ (e - 1) < 2 ^ 24 * 2 ^ (e - 1)"
        using m by (intro mult_strict_right_mono) simp_all
      then show "(m + 2 ^ 23) * 2 ^ (e - 1) < 2 ^ (24 + (e - 1))"
        by (simp only: power_add)
      have "2 ^ 23 * 2 ^ (e - 1) \<le> (m + 2 ^ 23) * 2 ^ (e - 1)"
        by (intro mult_right_mono) simp_all
      then show "0 < e - 1 \<longrightarrow> 2 ^ (23 + (e - 1)) \<le> (m + 2 ^ 23) * 2 ^ (e - 1)"
        by (simp only: power_add simp_thms)
    qed
    then have "f32_significand (f32_units b) = m + 2 ^ 23"
      unfolding f32_significand_def ex Let_def by (simp add: u)
    with ex False b show ?thesis
      by (cases e) simp_all
  qed
  then show ?thesis
    using assms unfolding f32_round_significand by simp
qed

lemma f32_units_mono:
  assumes "a \<le> b" "b \<le> f32_infinity_bits"
  shows "f32_units a \<le> f32_units b"
proof (rule ccontr)
  assume "\<not> f32_units a \<le> f32_units b"
  then have "f32_units b \<le> f32_units a" and neq: "f32_units a \<noteq> f32_units b" by simp_all
  then have "f32_round (f32_units b) \<le> f32_round (f32_units a)"
    by (intro f32_round_mono)
  then have "b \<le> a"
    using assms by (simp add: f32_round_units)
  with assms(1) neq show False by simp
qed

section \<open>Sums and their order\<close>

definition f32_rounded :: "int \<Rightarrow> int" where
  "f32_rounded i =
    (if i < 0 then - int (f32_units (f32_round (nat (- i)))) else int (f32_units (f32_round (nat i))))"

lemma unat_f32: "m < 2 ^ 32 \<Longrightarrow> unat (of_nat m :: f32) = m"
  by (simp add: unsigned_of_nat take_bit_nat_eq_self)

lemma f32_zero_values:
  "f32_round 0 = 0" "f32_units 0 = 0" "f32_int 2147483648 = 0" "f32_int 0 = 0" "f32_rounded 0 = 0"
  by (simp_all add: f32_patterns f32_units_def f32_rounded_def f32_round_def f32_excess.simps Let_def)

lemma f32_of_int_neg:
  assumes "i < 0"
  shows "f32_negative (f32_of_int i)" "f32_magnitude (f32_of_int i) = f32_round (nat (- i))"
proof -
  have b: "f32_round (nat (- i)) < 2 ^ 31"
    using f32_round_bound [of "nat (- i)"] by (simp add: f32_infinity_bits_def)
  have "unat (of_nat (2 ^ 31 + f32_round (nat (- i))) :: f32) = 2 ^ 31 + f32_round (nat (- i))"
    by (rule unat_f32) (use b in simp)
  then have "unat (f32_of_int i) = 2 ^ 31 + f32_round (nat (- i))"
    using assms by (simp only: f32_of_int_def if_True)
  then show "f32_negative (f32_of_int i)" "f32_magnitude (f32_of_int i) = f32_round (nat (- i))"
    using b by (simp_all add: f32_negative_def f32_magnitude_def)
qed

lemma f32_of_int_value: "f32_int (f32_of_int i) = f32_rounded i"
proof (cases "i < 0")
  case False
  have "f32_round (nat i) < 2 ^ 31"
    using f32_round_bound [of "nat i"] by (simp add: f32_infinity_bits_def)
  from f32_of_nat_nonneg [OF this] False show ?thesis
    by (simp add: f32_of_int_def f32_rounded_def f32_int_def)
qed (simp add: f32_rounded_def f32_int_def f32_of_int_neg)

lemma f32_rounded_mono: "i \<le> j \<Longrightarrow> f32_rounded i \<le> f32_rounded j"
  by (auto simp: f32_rounded_def intro!: f32_units_mono f32_round_mono f32_round_bound)

lemma f32_rounded_exact:
  assumes "\<not> f32_is_nan x"
  shows "f32_rounded (f32_int x) = f32_int x"
proof -
  have "f32_magnitude x \<le> f32_infinity_bits"
    using assms by (simp add: f32_is_nan_def)
  then show ?thesis
    by (auto simp: f32_rounded_def f32_int_def f32_round_units f32_zero_values)
qed

lemma f32_finite_not_nan: "f32_is_finite x \<Longrightarrow> \<not> f32_is_nan x"
  by (simp add: f32_is_finite_def f32_is_nan_def)

lemma f32_add_value:
  assumes "f32_is_finite a" "f32_is_finite b"
  shows "f32_int (f32_add a b) = f32_rounded (f32_int a + f32_int b)"
  using assms f32_finite_not_nan
  unfolding f32_add_def by (simp add: f32_zero_values f32_of_int_value)

lemma f32_add_mono:
  assumes "f32_is_finite a" "f32_is_finite b"
  shows "0 \<le> f32_int b \<Longrightarrow> f32_int a \<le> f32_int (f32_add a b)"
    and "f32_int b \<le> 0 \<Longrightarrow> f32_int (f32_add a b) \<le> f32_int a"
  using f32_rounded_mono [of "f32_int a" "f32_int a + f32_int b"]
    f32_rounded_mono [of "f32_int a + f32_int b" "f32_int a"]
    f32_rounded_exact [OF f32_finite_not_nan [OF assms(1)]]
  by (simp_all add: f32_add_value [OF assms])

lemma f32_units_inj:
  assumes "f32_units a = f32_units b" "a \<le> f32_infinity_bits" "b \<le> f32_infinity_bits"
  shows "a = b"
  using assms by (metis f32_round_units)

text \<open>A number that is not a NaN is finite exactly when it lies strictly between the infinities.\<close>

lemma f32_finite_iff:
  assumes "\<not> f32_is_nan x"
  shows "f32_is_finite x \<longleftrightarrow> \<bar>f32_int x\<bar> < int (f32_units f32_infinity_bits)"
proof -
  have le: "f32_magnitude x \<le> f32_infinity_bits"
    using assms by (simp add: f32_is_nan_def)
  then have "f32_units (f32_magnitude x) \<le> f32_units f32_infinity_bits"
    by (intro f32_units_mono) simp_all
  then have "f32_units (f32_magnitude x) < f32_units f32_infinity_bits \<longleftrightarrow>
      f32_magnitude x \<noteq> f32_infinity_bits"
    using f32_units_inj [OF _ le order_refl] by (auto simp: le_less)
  then show ?thesis
    using le by (auto simp: f32_int_def f32_is_finite_def)
qed

lemma f32_add_not_nan:
  assumes "f32_is_finite a" "f32_is_finite b"
  shows "\<not> f32_is_nan (f32_add a b)"
proof -
  have "\<not> f32_is_nan (f32_of_int i)" for i
    using f32_of_int_nonneg(2) [of i] f32_round_bound [of "nat (- i)"]
    by (cases "i < 0") (simp_all add: f32_is_nan_def f32_of_int_neg)
  moreover have "\<not> f32_is_nan 0" "\<not> f32_is_nan (of_nat (2 ^ 31))"
    by (simp_all add: f32_patterns)
  ultimately show ?thesis
    using assms f32_finite_not_nan unfolding f32_add_def by (simp del: of_nat_power)
qed

lemma f32_sub_simps:
  "f32_sub a f32_0_15 = f32_add a (f32_neg f32_0_15)"
  "f32_is_finite (f32_neg f32_0_15)" "f32_int (f32_neg f32_0_15) < 0" "f32_is_finite f32_0_10"
  by (simp_all add: f32_sub_def f32_neg_def f32_literals f32_patterns f32_units_def Let_def)

lemma f32_min_value:
  "\<not> f32_is_nan a \<Longrightarrow> \<not> f32_is_nan b \<Longrightarrow> f32_int (f32_min a b) = min (f32_int a) (f32_int b)"
  by (auto simp: f32_min_def f32_lt_def)

lemma f32_max_value:
  "\<not> f32_is_nan a \<Longrightarrow> \<not> f32_is_nan b \<Longrightarrow> f32_int (f32_max a b) = max (f32_int a) (f32_int b)"
  by (auto simp: f32_max_def f32_lt_def)

end
