(* ===== verification/Wiki_Types.thy ===== *)
theory Wiki_Types
  imports Rust_F32 Rust_Text Rust_Bytes
begin

text \<open>
  \<open>aidememo-core/src/types.rs\<close>, \<open>error.rs\<close>: the records of the embedded wiki store - entities,
  facts, relations -, their inputs and updates, the options of the reading operations, and the
  error type. Timestamps are \<open>u64\<close> milliseconds; \<open>current_epoch_ms\<close> is an argument \<open>now\<close> of the
  operations that read it, a fresh ULID an argument of those that draw one.
\<close>

section \<open>Identifiers\<close>

text \<open>\<open>Ulid(u128)\<close>: ordered as a number, and its text form orders the same way.\<close>

type_synonym ulid = "128 word"
type_synonym entity_id = ulid
type_synonym wiki_fact_id = ulid

section \<open>Kinds\<close>

datatype entity_type =
  EtTechnology | EtConcept | EtComparison | EtQuery | EtPerson | EtTeam | EtUnknown | EtCustom string

text \<open>\<open>EntityType::parse\<close>, of the lower-cased text.\<close>

definition entity_type_of_lower :: "string \<Rightarrow> entity_type" where
  "entity_type_of_lower s =
    (if s = ''technology'' \<or> s = ''tech'' then EtTechnology
     else if s = ''concept'' then EtConcept
     else if s = ''comparison'' \<or> s = ''compare'' then EtComparison
     else if s = ''query'' \<or> s = ''question'' then EtQuery
     else if s = ''person'' then EtPerson
     else if s = ''team'' then EtTeam
     else if s = '''' \<or> s = ''unknown'' then EtUnknown
     else EtCustom s)"

definition entity_type_parse :: "(string \<Rightarrow> string) \<Rightarrow> string \<Rightarrow> entity_type" where
  "entity_type_parse lower s = entity_type_of_lower (lower s)"

fun entity_type_text :: "entity_type \<Rightarrow> string" where
  "entity_type_text EtTechnology = ''technology''"
| "entity_type_text EtConcept = ''concept''"
| "entity_type_text EtComparison = ''comparison''"
| "entity_type_text EtQuery = ''query''"
| "entity_type_text EtPerson = ''person''"
| "entity_type_text EtTeam = ''team''"
| "entity_type_text EtUnknown = ''unknown''"
| "entity_type_text (EtCustom s) = s"

datatype fact_type =
  FtDecision | FtPattern | FtConvention | FtClaim | FtNote | FtQuestion | FtPreference | FtLesson
  | FtError | FtUnknown

fun fact_type_text :: "fact_type \<Rightarrow> string" where
  "fact_type_text FtDecision = ''decision''"
| "fact_type_text FtPattern = ''pattern''"
| "fact_type_text FtConvention = ''convention''"
| "fact_type_text FtClaim = ''claim''"
| "fact_type_text FtNote = ''note''"
| "fact_type_text FtQuestion = ''question''"
| "fact_type_text FtPreference = ''preference''"
| "fact_type_text FtLesson = ''lesson''"
| "fact_type_text FtError = ''error''"
| "fact_type_text FtUnknown = ''unknown''"

definition fact_type_of_lower :: "string \<Rightarrow> fact_type" where
  "fact_type_of_lower s =
    (if s \<in> set [''decision'', ''decisions''] then FtDecision
     else if s \<in> set [''pattern'', ''patterns''] then FtPattern
     else if s \<in> set [''convention'', ''conventions'', ''rule''] then FtConvention
     else if s \<in> set [''claim'', ''claims''] then FtClaim
     else if s \<in> set [''note'', ''notes''] then FtNote
     else if s \<in> set [''question'', ''questions''] then FtQuestion
     else if s \<in> set [''preference'', ''preferences'', ''pref''] then FtPreference
     else if s \<in> set [''lesson'', ''lessons'', ''learning''] then FtLesson
     else if s \<in> set [''error'', ''err'', ''errors'', ''mistake'', ''failure''] then FtError
     else FtUnknown)"

definition fact_type_parse :: "(string \<Rightarrow> string) \<Rightarrow> string \<Rightarrow> fact_type" where
  "fact_type_parse lower s = fact_type_of_lower (lower s)"

lemma fact_type_of_text [simp]: "fact_type_of_lower (fact_type_text t) = t"
  by (cases t) (simp_all add: fact_type_of_lower_def)

section \<open>Entities\<close>

record entity_record =
  we_id :: entity_id
  we_name :: string
  we_name_lower :: string
  we_type :: entity_type
  we_aliases :: "string list"
  we_tags :: "string list"
  we_source_page :: "string option"
  we_created_at :: u64
  we_updated_at :: u64
  we_summary :: "string option"
  we_summary_updated_at :: "u64 option"

definition entity_record_new ::
  "(string \<Rightarrow> string) \<Rightarrow> u64 \<Rightarrow> entity_id \<Rightarrow> string \<Rightarrow> entity_type \<Rightarrow> entity_record" where
  "entity_record_new lower now i name ty =
    \<lparr>we_id = i, we_name = name, we_name_lower = lower name, we_type = ty, we_aliases = [],
     we_tags = [], we_source_page = None, we_created_at = now, we_updated_at = now,
     we_summary = None, we_summary_updated_at = None\<rparr>"

record entity_input =
  ei_name :: string
  ei_type :: "entity_type option"
  ei_aliases :: "string list option"
  ei_tags :: "string list option"
  ei_source_page :: "string option"

record entity_update =
  eu_name :: "string option"
  eu_type :: "entity_type option"
  eu_aliases :: "string list option"
  eu_tags :: "string list option"
  eu_source_page :: "string option"
  eu_expected_updated_at :: "u64 option"
  eu_summary :: "string option"

definition entity_update_default :: entity_update where
  "entity_update_default =
    \<lparr>eu_name = None, eu_type = None, eu_aliases = None, eu_tags = None, eu_source_page = None,
     eu_expected_updated_at = None, eu_summary = None\<rparr>"

definition u64_saturating_add :: "u64 \<Rightarrow> u64 \<Rightarrow> u64" where
  "u64_saturating_add a b = (if uint a + uint b < 2 ^ 64 then a + b else - 1)"

definition u64_saturating_sub :: "u64 \<Rightarrow> u64 \<Rightarrow> u64" where
  "u64_saturating_sub a b = (if a < b then 0 else a - b)"

text \<open>The time an update is stamped with: later than the previous one, even in the same millisecond.\<close>

definition bumped :: "u64 \<Rightarrow> u64 \<Rightarrow> u64" where
  "bumped now previous = max now (u64_saturating_add previous 1)"

definition entity_record_update ::
  "(string \<Rightarrow> string) \<Rightarrow> u64 \<Rightarrow> entity_record \<Rightarrow> entity_update \<Rightarrow> entity_record" where
  "entity_record_update lower clock r u =
    (let now = bumped clock (we_updated_at r);
         r1 = (case eu_name u of None \<Rightarrow> r | Some n \<Rightarrow> r\<lparr>we_name := n, we_name_lower := lower n\<rparr>);
         r2 = (case eu_type u of None \<Rightarrow> r1 | Some t \<Rightarrow> r1\<lparr>we_type := t\<rparr>);
         r3 = (case eu_aliases u of None \<Rightarrow> r2 | Some a \<Rightarrow> r2\<lparr>we_aliases := a\<rparr>);
         r4 = (case eu_tags u of None \<Rightarrow> r3 | Some t \<Rightarrow> r3\<lparr>we_tags := t\<rparr>);
         r5 = (case eu_source_page u of None \<Rightarrow> r4 | Some p \<Rightarrow> r4\<lparr>we_source_page := Some p\<rparr>);
         r6 = (case eu_summary u of None \<Rightarrow> r5
               | Some s \<Rightarrow>
                   if s = [] then r5\<lparr>we_summary := None, we_summary_updated_at := None\<rparr>
                   else r5\<lparr>we_summary := Some s, we_summary_updated_at := Some now\<rparr>)
     in r6\<lparr>we_updated_at := now\<rparr>)"

record entity_summary =
  es_id :: entity_id
  es_name :: string
  es_type :: entity_type
  es_fact_count :: "32 word"
  es_tags :: "string list"

section \<open>Facts\<close>

record wiki_fact =
  wf_id :: wiki_fact_id
  wf_content :: string
  wf_type :: fact_type
  wf_entity_ids :: "entity_id list"
  wf_tags :: "string list"
  wf_source :: "string option"
  wf_source_id :: "string option"
  wf_actor_id :: "string option"
  wf_source_confidence :: f32
  wf_relevance_score :: f32
  wf_created_at :: u64
  wf_updated_at :: u64
  wf_observed_at :: "u64 option"
  wf_superseded_at :: "u64 option"
  wf_superseded_by :: "wiki_fact_id option"
  wf_access_count :: "32 word"
  wf_last_accessed_at :: u64
  wf_pinned :: bool

definition normalize_source_id :: "string option \<Rightarrow> string option" where
  "normalize_source_id s =
    (case s of None \<Rightarrow> None | Some x \<Rightarrow> if trim_text x = [] then None else Some (trim_text x))"

definition fact_record_new ::
  "u64 \<Rightarrow> wiki_fact_id \<Rightarrow> string \<Rightarrow> fact_type \<Rightarrow> entity_id list \<Rightarrow> wiki_fact" where
  "fact_record_new now i content ty es =
    \<lparr>wf_id = i, wf_content = content, wf_type = ty, wf_entity_ids = es, wf_tags = [],
     wf_source = None, wf_source_id = None, wf_actor_id = None, wf_source_confidence = f32_half,
     wf_relevance_score = f32_half, wf_created_at = now, wf_updated_at = now, wf_observed_at = None,
     wf_superseded_at = None, wf_superseded_by = None, wf_access_count = 0,
     wf_last_accessed_at = now, wf_pinned = False\<rparr>"

record fact_input =
  fi_content :: string
  fi_type :: "fact_type option"
  fi_entity_ids :: "entity_id list option"
  fi_tags :: "string list option"
  fi_source :: "string option"
  fi_source_id :: "string option"
  fi_actor_id :: "string option"
  fi_source_confidence :: "f32 option"
  fi_observed_at :: "u64 option"

record fact_update =
  fu_content :: "string option"
  fu_type :: "fact_type option"
  fu_tags :: "string list option"
  fu_source :: "string option"
  fu_source_id :: "string option"
  fu_actor_id :: "string option"
  fu_observed_at :: "u64 option"
  fu_superseded_at :: "u64 option"
  fu_superseded_by :: "wiki_fact_id option"
  fu_pinned :: "bool option"

definition fact_update_default :: fact_update where
  "fact_update_default =
    \<lparr>fu_content = None, fu_type = None, fu_tags = None, fu_source = None, fu_source_id = None,
     fu_actor_id = None, fu_observed_at = None, fu_superseded_at = None, fu_superseded_by = None,
     fu_pinned = None\<rparr>"

definition or_keep :: "'a option \<Rightarrow> 'a \<Rightarrow> 'a" where
  "or_keep new old = (case new of None \<Rightarrow> old | Some x \<Rightarrow> x)"

definition or_keep_some :: "'a option \<Rightarrow> 'a option \<Rightarrow> 'a option" where
  "or_keep_some new old = (case new of None \<Rightarrow> old | Some x \<Rightarrow> Some x)"

definition fact_record_update :: "u64 \<Rightarrow> wiki_fact \<Rightarrow> fact_update \<Rightarrow> wiki_fact" where
  "fact_record_update now r u =
    r\<lparr>wf_content := or_keep (fu_content u) (wf_content r),
      wf_type := or_keep (fu_type u) (wf_type r),
      wf_tags := or_keep (fu_tags u) (wf_tags r),
      wf_source := or_keep_some (fu_source u) (wf_source r),
      wf_source_id := or_keep_some (fu_source_id u) (wf_source_id r),
      wf_actor_id := or_keep_some (fu_actor_id u) (wf_actor_id r),
      wf_observed_at := or_keep_some (fu_observed_at u) (wf_observed_at r),
      wf_superseded_at :=
        (case fu_superseded_at u of None \<Rightarrow> wf_superseded_at r
         | Some ts \<Rightarrow> if ts = 0 then None else Some ts),
      wf_superseded_by := or_keep_some (fu_superseded_by u) (wf_superseded_by r),
      wf_pinned := or_keep (fu_pinned u) (wf_pinned r),
      wf_updated_at := now\<rparr>"

section \<open>Relations\<close>

record relation_record =
  wr_source_id :: entity_id
  wr_target_id :: entity_id
  wr_scope_source_id :: "string option"
  wr_type :: string
  wr_weight :: f32
  wr_evidence :: "string list"
  wr_created_at :: u64

record relation_input =
  ri_source :: string
  ri_target :: string
  ri_scope_source_id :: "string option"
  ri_type :: string
  ri_weight :: "f32 option"
  ri_evidence :: "string list option"

datatype traverse_direction = Forward | Reverse | Both

section \<open>Reading options\<close>

datatype entity_sort = ByName | ByUpdatedAt | ByFactCount

record list_opts =
  lo_type :: "entity_type option"
  lo_min_facts :: "32 word option"
  lo_sort_by :: entity_sort
  lo_limit :: "nat option"
  lo_offset :: nat

definition list_opts_default :: list_opts where
  "list_opts_default =
    \<lparr>lo_type = None, lo_min_facts = None, lo_sort_by = ByUpdatedAt, lo_limit = None, lo_offset = 0\<rparr>"

record fact_list_opts =
  fo_type :: "fact_type option"
  fo_entity_id :: "entity_id option"
  fo_min_confidence :: "f32 option"
  fo_source_id :: "string option"
  fo_limit :: "nat option"
  fo_offset :: nat
  fo_since :: "u64 option"
  fo_until :: "u64 option"
  fo_current_only :: bool
  fo_as_of :: "u64 option"

definition fact_list_opts_default :: fact_list_opts where
  "fact_list_opts_default =
    \<lparr>fo_type = None, fo_entity_id = None, fo_min_confidence = None, fo_source_id = None,
     fo_limit = None, fo_offset = 0, fo_since = None, fo_until = None, fo_current_only = False,
     fo_as_of = None\<rparr>"

text \<open>\<open>iter.skip(offset).take(limit.unwrap_or(usize::MAX))\<close>: no list is longer than \<open>usize::MAX\<close>.\<close>

definition page :: "nat \<Rightarrow> nat option \<Rightarrow> 'a list \<Rightarrow> 'a list" where
  "page offset limit xs = (case limit of None \<Rightarrow> drop offset xs | Some n \<Rightarrow> take n (drop offset xs))"

record search_session =
  ss_id :: string
  ss_query :: string
  ss_timestamp :: u64
  ss_result_count :: nat

record search_feedback =
  sf_session_id :: string
  sf_fact_id :: wiki_fact_id
  sf_helpful :: bool
  sf_timestamp :: u64

record store_stats =
  st_entity_count :: u64
  st_fact_count :: u64
  st_relation_count :: u64
  st_total_size_bytes :: u64
  st_last_ingest_at :: "u64 option"

section \<open>Errors\<close>

text \<open>
  \<open>AideMemoError\<close>. The boxed cause of an error that wraps one is dropped, a path is its text.
\<close>

datatype wiki_error =
    StoreOpen string
  | StoreRead string string
  | StoreWrite string string
  | TransactionBegin
  | TransactionConflict
  | Serialize string
  | Deserialize string
  | EntityNotFound string "string list"
  | EntityAlreadyExists string
  | EntityIdNotFound string
  | FactNotFound string
  | RelationNotFound string string string
  | CycleDetected "string list"
  | PathNotFound string string
  | ConfigRead string
  | ConfigParse string
  | ConfigKeyNotFound string
  | FrontmatterParse string string
  | WikilinkParse string nat string
  | IngestFailed string
  | FileRead string string
  | ModelNotFound string string
  | ModelDownloadFailed string
  | ModelLoadFailed string
  | ModelInferenceFailed string
  | MigrationFailed string wiki_error
  | SchemaVersionMismatch "32 word" "32 word"
  | UnsupportedSchemaVersion "32 word"
  | SearchFailed string
  | IndexCorrupted string
  | LintFailed string
  | WikiInvalidInput string
  | WikiInternal string

type_synonym 'a wiki_result = "wiki_error + 'a"

fun wiki_error_code :: "wiki_error \<Rightarrow> string" where
  "wiki_error_code (StoreOpen a) = ''store_open''"
| "wiki_error_code (StoreRead a b) = ''store_read''"
| "wiki_error_code (StoreWrite a b) = ''store_write''"
| "wiki_error_code TransactionBegin = ''transaction_begin''"
| "wiki_error_code TransactionConflict = ''transaction_conflict''"
| "wiki_error_code (Serialize a) = ''serialize''"
| "wiki_error_code (Deserialize a) = ''deserialize''"
| "wiki_error_code (EntityNotFound a b) = ''entity_not_found''"
| "wiki_error_code (EntityAlreadyExists a) = ''entity_already_exists''"
| "wiki_error_code (EntityIdNotFound a) = ''entity_id_not_found''"
| "wiki_error_code (FactNotFound a) = ''fact_not_found''"
| "wiki_error_code (RelationNotFound a b c) = ''relation_not_found''"
| "wiki_error_code (CycleDetected a) = ''cycle_detected''"
| "wiki_error_code (PathNotFound a b) = ''path_not_found''"
| "wiki_error_code (ConfigRead a) = ''config_read''"
| "wiki_error_code (ConfigParse a) = ''config_parse''"
| "wiki_error_code (ConfigKeyNotFound a) = ''config_key_not_found''"
| "wiki_error_code (FrontmatterParse a b) = ''frontmatter_parse''"
| "wiki_error_code (WikilinkParse a b c) = ''wikilink_parse''"
| "wiki_error_code (IngestFailed a) = ''ingest_failed''"
| "wiki_error_code (FileRead a b) = ''file_read''"
| "wiki_error_code (ModelNotFound a b) = ''model_not_found''"
| "wiki_error_code (ModelDownloadFailed a) = ''model_download_failed''"
| "wiki_error_code (ModelLoadFailed a) = ''model_load_failed''"
| "wiki_error_code (ModelInferenceFailed a) = ''model_inference_failed''"
| "wiki_error_code (MigrationFailed a b) = ''migration_failed''"
| "wiki_error_code (SchemaVersionMismatch a b) = ''schema_version_mismatch''"
| "wiki_error_code (UnsupportedSchemaVersion a) = ''unsupported_schema_version''"
| "wiki_error_code (SearchFailed a) = ''search_failed''"
| "wiki_error_code (IndexCorrupted a) = ''index_corrupted''"
| "wiki_error_code (LintFailed a) = ''lint_failed''"
| "wiki_error_code (WikiInvalidInput a) = ''invalid_input''"
| "wiki_error_code (WikiInternal a) = ''internal''"

fun is_not_found :: "wiki_error \<Rightarrow> bool" where
  "is_not_found (EntityNotFound n s) = True"
| "is_not_found (EntityIdNotFound i) = True"
| "is_not_found (FactNotFound i) = True"
| "is_not_found (RelationNotFound s r t) = True"
| "is_not_found (PathNotFound a b) = True"
| "is_not_found _ = False"

text \<open>The hint of the rendered \<open>EntityNotFound\<close>: at most three suggestions.\<close>

fun comma_join :: "string list \<Rightarrow> string" where
  "comma_join [] = []"
| "comma_join [w] = w"
| "comma_join (w # ws) = w @ '', '' @ comma_join ws"

definition format_entity_suggestions :: "string list \<Rightarrow> string" where
  "format_entity_suggestions s =
    (if s = [] then [] else '' (did you mean: '' @ comma_join (take 3 s) @ ''?)'')"

end
