(* ===== verification/Wiki_Store.thy ===== *)
theory Wiki_Store
  imports Wiki_Types Sql_Table
begin

text \<open>
  \<open>aidememo-core/src/sqlite_store.rs\<close>: the SQLite backend of the embedded wiki store, its tables
  and the operations that write them. An operation that runs in a transaction returns the new
  database with its answer, or an error, and then the transaction is dropped and nothing changes.
\<close>

section \<open>What the store takes from elsewhere\<close>

text \<open>
  Lower-casing and the text forms of a ULID, the SHA-256 of a text in hexadecimal, trigram
  similarity, and \<open>serde_json\<close>: the document \<open>'j\<close> of a record and the record read from a document.
\<close>

record 'j wiki_codec =
  wc_lower :: "string \<Rightarrow> string"
  wc_sha_hex :: "string \<Rightarrow> string"
  wc_ulid_text :: "ulid \<Rightarrow> string"
  wc_ulid_debug :: "ulid \<Rightarrow> string"
  wc_similarity :: "string \<Rightarrow> string \<Rightarrow> f32"
  wc_entity_json :: "entity_record \<Rightarrow> 'j"
  wc_entity_of :: "'j \<Rightarrow> entity_record option"
  wc_fact_json :: "wiki_fact \<Rightarrow> 'j"
  wc_fact_of :: "'j \<Rightarrow> wiki_fact option"
  wc_relation_json :: "relation_record \<Rightarrow> 'j"
  wc_relation_of :: "'j \<Rightarrow> relation_record option"
  wc_session_json :: "search_session \<Rightarrow> 'j"
  wc_feedback_json :: "search_feedback \<Rightarrow> 'j"

section \<open>Tables\<close>

record 'j entity_row =
  en_id :: entity_id
  en_name :: string
  en_name_lower :: string
  en_type :: string
  en_updated_at :: i64
  en_json :: 'j

record name_row =
  nm_lower :: string
  nm_entity_id :: entity_id

record tag_row =
  tg_entity_id :: entity_id
  tg_tag :: string

record 'j wiki_fact_row =
  fr_id :: wiki_fact_id
  fr_content_hash :: string
  fr_content :: string
  fr_type :: string
  fr_source_confidence :: f32
  fr_source_id :: "string option"
  fr_created_at :: i64
  fr_updated_at :: i64
  fr_observed_at :: "i64 option"
  fr_superseded_at :: "i64 option"
  fr_pinned :: bool
  fr_json :: 'j

record link_row =
  lk_entity_id :: entity_id
  lk_fact_id :: wiki_fact_id

record 'j relation_row =
  rr_source_id :: entity_id
  rr_type :: string
  rr_target_id :: entity_id
  rr_scope :: string
  rr_created_at :: i64
  rr_json :: 'j

record 'j session_row =
  sr_id :: string
  sr_json :: 'j

record 'j feedback_row =
  fb_key :: string
  fb_session_id :: string
  fb_fact_id :: wiki_fact_id
  fb_helpful :: bool
  fb_timestamp :: i64
  fb_json :: 'j

record fts_row =
  ft_fact_id :: wiki_fact_id
  ft_content :: string

record 'j wiki_db =
  t_meta :: "(string \<times> string) list"
  t_entities :: "'j entity_row list"
  t_names :: "name_row list"
  t_tags :: "tag_row list"
  t_facts :: "'j wiki_fact_row list"
  t_links :: "link_row list"
  t_relations :: "'j relation_row list"
  t_sessions :: "'j session_row list"
  t_feedback :: "'j feedback_row list"
  t_fts :: "fts_row list"

definition wiki_empty :: "'j wiki_db" where
  "wiki_empty =
    \<lparr>t_meta = [], t_entities = [], t_names = [], t_tags = [], t_facts = [], t_links = [],
     t_relations = [], t_sessions = [], t_feedback = [], t_fts = []\<rparr>"

section \<open>Statements\<close>

text \<open>
  \<open>UPDATE ... WHERE id = ?\<close> on a table with further unique columns: the rows that are not updated
  must not clash with an updated one. \<open>INSERT OR REPLACE\<close> removes the clashing rows first.
\<close>

definition update_unique ::
  "('r \<Rightarrow> 'r \<Rightarrow> bool) \<Rightarrow> ('r \<Rightarrow> bool) \<Rightarrow> ('r \<Rightarrow> bool) \<Rightarrow> ('r \<Rightarrow> 'r) \<Rightarrow> 'r list \<Rightarrow> 'r list option" where
  "update_unique clash check p f t =
    (if list_all (\<lambda>r. p r \<longrightarrow> check (f r) \<and> \<not> list_ex (\<lambda>u. \<not> p u \<and> clash (f r) u) t) t
     then Some (map (\<lambda>r. if p r then f r else r) t) else None)"

definition insert_or_replace :: "('r \<Rightarrow> 'k) \<Rightarrow> 'r \<Rightarrow> 'r list \<Rightarrow> 'r list" where
  "insert_or_replace key r t = delete_rows (\<lambda>u. key u = key r) t @ [r]"

text \<open>A write that violates a constraint is a \<open>StoreWrite\<close> error naming the table and the key.\<close>

definition sql_write :: "string \<Rightarrow> string \<Rightarrow> 'a option \<Rightarrow> 'a wiki_result" where
  "sql_write table key r = ok_or (StoreWrite table key) r"

section \<open>Entity rows\<close>

definition entity_row_of :: "'j wiki_codec \<Rightarrow> entity_record \<Rightarrow> 'j entity_row" where
  "entity_row_of c r =
    \<lparr>en_id = we_id r, en_name = we_name r, en_name_lower = we_name_lower r,
     en_type = entity_type_text (we_type r), en_updated_at = sint (we_updated_at r),
     en_json = wc_entity_json c r\<rparr>"

text \<open>\<open>id TEXT PRIMARY KEY\<close>, \<open>name_lower TEXT NOT NULL UNIQUE\<close>.\<close>

definition entity_clash :: "'j entity_row \<Rightarrow> 'j entity_row \<Rightarrow> bool" where
  "entity_clash a b \<longleftrightarrow> en_id a = en_id b \<or> en_name_lower a = en_name_lower b"

definition name_clash :: "name_row \<Rightarrow> name_row \<Rightarrow> bool" where
  "name_clash a b \<longleftrightarrow> nm_lower a = nm_lower b"

text \<open>One row per name and alias of the record.\<close>

fun insert_names ::
  "'j wiki_codec \<Rightarrow> entity_id \<Rightarrow> string list \<Rightarrow> name_row list \<Rightarrow> name_row list wiki_result" where
  "insert_names c i [] t = Inr t"
| "insert_names c i (n # ns) t =
    and_then (sql_write ''entity_names'' n
        (insert_row name_clash (\<lambda>_. True) (\<lambda>_. True)
          \<lparr>nm_lower = wc_lower c n, nm_entity_id = i\<rparr> t))
      (insert_names c i ns)"

text \<open>\<open>FOREIGN KEY (entity_id) REFERENCES entities(id)\<close>.\<close>

fun insert_tags ::
  "(entity_id \<Rightarrow> bool) \<Rightarrow> entity_id \<Rightarrow> string list \<Rightarrow> tag_row list \<Rightarrow> tag_row list wiki_result" where
  "insert_tags known i [] t = Inr t"
| "insert_tags known i (g # gs) t =
    and_then (sql_write ''entity_tags'' g
        (insert_or_ignore (=) (\<lambda>_. True) (\<lambda>r. known (tg_entity_id r))
          \<lparr>tg_entity_id = i, tg_tag = g\<rparr> t))
      (insert_tags known i gs)"

definition entity_known :: "'j wiki_db \<Rightarrow> entity_id \<Rightarrow> bool" where
  "entity_known db i = list_ex (\<lambda>r. en_id r = i) (t_entities db)"

definition replace_entity_tags :: "entity_record \<Rightarrow> 'j wiki_db \<Rightarrow> 'j wiki_db wiki_result" where
  "replace_entity_tags r db =
    and_then (insert_tags (entity_known db) (we_id r) (we_tags r)
        (delete_rows (\<lambda>u. tg_entity_id u = we_id r) (t_tags db)))
      (\<lambda>t. Inr (db\<lparr>t_tags := t\<rparr>))"

definition insert_entity_record ::
  "'j wiki_codec \<Rightarrow> entity_record \<Rightarrow> 'j wiki_db \<Rightarrow> 'j wiki_db wiki_result" where
  "insert_entity_record c r db =
    and_then (sql_write ''entities'' (wc_ulid_text c (we_id r))
        (insert_row entity_clash (\<lambda>_. True) (\<lambda>_. True) (entity_row_of c r) (t_entities db)))
      (\<lambda>es. and_then (insert_names c (we_id r) (we_name r # we_aliases r) (t_names db))
        (\<lambda>ns. replace_entity_tags r (db\<lparr>t_entities := es, t_names := ns\<rparr>)))"

definition update_entity_record ::
  "'j wiki_codec \<Rightarrow> entity_record \<Rightarrow> 'j wiki_db \<Rightarrow> 'j wiki_db wiki_result" where
  "update_entity_record c r db =
    and_then (sql_write ''entities'' (wc_ulid_text c (we_id r))
        (update_unique (\<lambda>a b. en_name_lower a = en_name_lower b) (\<lambda>_. True)
          (\<lambda>u. en_id u = we_id r) (\<lambda>_. entity_row_of c r) (t_entities db)))
      (\<lambda>es. and_then (insert_names c (we_id r) (we_name r # we_aliases r)
          (delete_rows (\<lambda>u. nm_entity_id u = we_id r) (t_names db)))
        (\<lambda>ns. replace_entity_tags r (db\<lparr>t_entities := es, t_names := ns\<rparr>)))"

definition get_entity_record :: "'j wiki_codec \<Rightarrow> 'j wiki_db \<Rightarrow> entity_id \<Rightarrow> entity_record wiki_result" where
  "get_entity_record c db i =
    and_then (ok_or (EntityIdNotFound (wc_ulid_text c i)) (find (\<lambda>r. en_id r = i) (t_entities db)))
      (\<lambda>row. ok_or (Deserialize (''entity '' @ wc_ulid_debug c i)) (wc_entity_of c (en_json row)))"

section \<open>Entities\<close>

definition suggest_similar_entities ::
  "'j wiki_codec \<Rightarrow> 'j wiki_db \<Rightarrow> string \<Rightarrow> string list wiki_result" where
  "suggest_similar_entities c db name =
    and_then (collect_results
        (\<lambda>row. ok_or (Deserialize ''suggest entities'') (wc_entity_of c (en_json row))) (t_entities db))
      (\<lambda>rs.
        let score = (\<lambda>r. foldl (\<lambda>s a. f32_max s (wc_similarity c (wc_lower c name) (wc_lower c a)))
                      (wc_similarity c (wc_lower c name) (we_name_lower r)) (we_aliases r));
            close = filter (\<lambda>r. f32_lt f32_half (score r)) rs
        in Inr (take 5 (map we_name (sort_key (\<lambda>r. - f32_int (score r)) close))))"

definition resolve_entity :: "'j wiki_codec \<Rightarrow> 'j wiki_db \<Rightarrow> string \<Rightarrow> entity_id wiki_result" where
  "resolve_entity c db name =
    (case find (\<lambda>r. nm_lower r = wc_lower c name) (t_names db) of
       Some row \<Rightarrow> Inr (nm_entity_id row)
     | None \<Rightarrow> Inl (EntityNotFound name
         (case suggest_similar_entities c db name of Inl _ \<Rightarrow> [] | Inr s \<Rightarrow> s)))"

definition entity_get :: "'j wiki_codec \<Rightarrow> 'j wiki_db \<Rightarrow> string \<Rightarrow> entity_record wiki_result" where
  "entity_get c db name = and_then (resolve_entity c db name) (get_entity_record c db)"

definition entity_of_input ::
  "'j wiki_codec \<Rightarrow> u64 \<Rightarrow> entity_id \<Rightarrow> entity_input \<Rightarrow> entity_record" where
  "entity_of_input c now i e =
    (entity_record_new (wc_lower c) now i (ei_name e) (or_keep (ei_type e) EtUnknown))
      \<lparr>we_aliases := or_keep (ei_aliases e) [], we_tags := or_keep (ei_tags e) [],
       we_source_page := ei_source_page e\<rparr>"

definition entity_add ::
  "'j wiki_codec \<Rightarrow> u64 \<Rightarrow> entity_id \<Rightarrow> entity_input \<Rightarrow> 'j wiki_db \<Rightarrow> ('j wiki_db \<times> entity_id) wiki_result" where
  "entity_add c now i e db =
    and_then (insert_entity_record c (entity_of_input c now i e) db) (\<lambda>db'. Inr (db', i))"

definition entity_update ::
  "'j wiki_codec \<Rightarrow> u64 \<Rightarrow> string \<Rightarrow> entity_update \<Rightarrow> 'j wiki_db \<Rightarrow> 'j wiki_db wiki_result" where
  "entity_update c now name u db =
    (case find (\<lambda>r. nm_lower r = wc_lower c name) (t_names db) of
       None \<Rightarrow> Inl (EntityNotFound name [])
     | Some row \<Rightarrow>
         and_then (get_entity_record c db (nm_entity_id row)) (\<lambda>r.
           if (case eu_expected_updated_at u of None \<Rightarrow> False | Some t \<Rightarrow> t \<noteq> we_updated_at r)
           then Inl TransactionConflict
           else update_entity_record c (entity_record_update (wc_lower c) now r u) db))"

text \<open>\<open>COUNT(*) ... as u32\<close>.\<close>

definition count_entity_facts :: "'j wiki_db \<Rightarrow> entity_id \<Rightarrow> 32 word" where
  "count_entity_facts db i = word_of_int (select_count (\<lambda>l. lk_entity_id l = i) (t_links db))"

definition entity_list :: "'j wiki_codec \<Rightarrow> 'j wiki_db \<Rightarrow> list_opts \<Rightarrow> entity_summary list wiki_result" where
  "entity_list c db opts =
    (let rows = sort_key en_id (filter (\<lambda>r. case lo_type opts of None \<Rightarrow> True
                  | Some t \<Rightarrow> en_type r = entity_type_text t) (t_entities db)) in
     and_then (collect_results (\<lambda>row. ok_or (Deserialize (''entity '' @ wc_ulid_text c (en_id row)))
         (wc_entity_of c (en_json row))) rows)
       (\<lambda>rs.
         let counted = map (\<lambda>r. (r, count_entity_facts db (we_id r))) rs;
             kept = filter (\<lambda>(r, n). case lo_min_facts opts of None \<Rightarrow> True | Some m \<Rightarrow> \<not> n < m) counted;
             sorted = (case lo_sort_by opts of
                 ByName \<Rightarrow> sort_key (\<lambda>(r, n). we_name r) kept
               | ByUpdatedAt \<Rightarrow> sort_key (\<lambda>(r, n). - uint (we_updated_at r)) kept
               | ByFactCount \<Rightarrow> sort_key (\<lambda>(r, n). - uint n) kept)
         in Inr (page (lo_offset opts) (lo_limit opts)
              (map (\<lambda>(r, n). \<lparr>es_id = we_id r, es_name = we_name r, es_type = we_type r,
                              es_fact_count = n, es_tags = we_tags r\<rparr>) sorted))))"

text \<open>\<open>JOIN entity_tags t ON t.entity_id = e.id AND t.tag = ?\<close>, once per required tag.\<close>

definition entity_records_by_type_and_tags ::
  "'j wiki_codec \<Rightarrow> 'j wiki_db \<Rightarrow> entity_type \<Rightarrow> string list \<Rightarrow> entity_record list wiki_result" where
  "entity_records_by_type_and_tags c db t required =
    collect_results (\<lambda>row. ok_or (Deserialize (''entity '' @ wc_ulid_text c (en_id row)))
        (wc_entity_of c (en_json row)))
      (sort_key (\<lambda>r. (- en_updated_at r, - uint (en_id r)))
        (filter (\<lambda>r. en_type r = entity_type_text t \<and>
            list_all (\<lambda>g. list_ex (\<lambda>u. tg_entity_id u = en_id r \<and> tg_tag u = g) (t_tags db)) required)
          (t_entities db)))"

definition entity_records_by_type ::
  "'j wiki_codec \<Rightarrow> 'j wiki_db \<Rightarrow> entity_type \<Rightarrow> entity_record list wiki_result" where
  "entity_records_by_type c db t =
    collect_results (\<lambda>row. ok_or (Deserialize (''entity '' @ wc_ulid_text c (en_id row)))
        (wc_entity_of c (en_json row)))
      (sort_key (\<lambda>r. (- en_updated_at r, - uint (en_id r)))
        (filter (\<lambda>r. en_type r = entity_type_text t) (t_entities db)))"

text \<open>Deleting an entity row cascades to its tags.\<close>

definition delete_entity_rows :: "entity_id \<Rightarrow> 'j wiki_db \<Rightarrow> 'j wiki_db" where
  "delete_entity_rows i db =
    db\<lparr>t_names := delete_rows (\<lambda>u. nm_entity_id u = i) (t_names db),
       t_relations := delete_rows (\<lambda>u. rr_source_id u = i \<or> rr_target_id u = i) (t_relations db),
       t_links := delete_rows (\<lambda>u. lk_entity_id u = i) (t_links db),
       t_entities := delete_rows (\<lambda>u. en_id u = i) (t_entities db),
       t_tags := delete_rows (\<lambda>u. tg_entity_id u = i) (t_tags db)\<rparr>"

definition entity_delete :: "'j wiki_codec \<Rightarrow> string \<Rightarrow> 'j wiki_db \<Rightarrow> 'j wiki_db wiki_result" where
  "entity_delete c name db =
    and_then (entity_get c db name) (\<lambda>r. Inr (delete_entity_rows (we_id r) db))"

definition entity_upsert_record ::
  "'j wiki_codec \<Rightarrow> entity_record \<Rightarrow> 'j wiki_db \<Rightarrow> ('j wiki_db \<times> bool) wiki_result" where
  "entity_upsert_record c r db =
    (case get_entity_record c db (we_id r) of
       Inr local \<Rightarrow>
         if we_updated_at r \<le> we_updated_at local then Inr (db, False)
         else and_then (update_entity_record c r db) (\<lambda>db'. Inr (db', True))
     | Inl _ \<Rightarrow>
         if (case resolve_entity c db (we_name r) of Inr existing \<Rightarrow> existing \<noteq> we_id r | Inl _ \<Rightarrow> False)
         then Inr (db, False)
         else and_then (insert_entity_record c r db) (\<lambda>db'. Inr (db', True)))"

end
