(* ===== verification/Wiki_Facts.thy ===== *)
theory Wiki_Facts
  imports Wiki_Store
begin

text \<open>
  \<open>aidememo-core/src/sqlite_store.rs\<close>: facts, relations, search feedback and counters of the
  embedded wiki store.
\<close>

section \<open>Fact rows\<close>

definition fact_row_of :: "'j wiki_codec \<Rightarrow> wiki_fact \<Rightarrow> string \<Rightarrow> 'j wiki_fact_row" where
  "fact_row_of c r hash =
    \<lparr>fr_id = wf_id r, fr_content_hash = hash, fr_content = wf_content r,
     fr_type = fact_type_text (wf_type r), fr_source_confidence = wf_source_confidence r,
     fr_source_id = wf_source_id r, fr_created_at = sint (wf_created_at r),
     fr_updated_at = sint (wf_updated_at r), fr_observed_at = map_option sint (wf_observed_at r),
     fr_superseded_at = map_option sint (wf_superseded_at r), fr_pinned = wf_pinned r,
     fr_json = wc_fact_json c r\<rparr>"

text \<open>\<open>UNIQUE (COALESCE(source_id, ''), content_hash)\<close>.\<close>

definition source_key :: "string option \<Rightarrow> string" where
  "source_key s = (case s of None \<Rightarrow> '''' | Some x \<Rightarrow> x)"

definition dedup_key :: "'j wiki_fact_row \<Rightarrow> string \<times> string" where
  "dedup_key r = (source_key (fr_source_id r), fr_content_hash r)"

definition fact_clash :: "'j wiki_fact_row \<Rightarrow> 'j wiki_fact_row \<Rightarrow> bool" where
  "fact_clash a b \<longleftrightarrow> fr_id a = fr_id b \<or> dedup_key a = dedup_key b"

text \<open>\<open>source_confidence REAL NOT NULL\<close>: SQLite binds a NaN as NULL.\<close>

definition fact_check :: "'j wiki_fact_row \<Rightarrow> bool" where
  "fact_check r \<longleftrightarrow> \<not> f32_is_nan (fr_source_confidence r)"

text \<open>\<open>INSERT OR IGNORE INTO fact_entities\<close>, one row per entity.\<close>

fun link_entities :: "wiki_fact_id \<Rightarrow> entity_id list \<Rightarrow> link_row list \<Rightarrow> link_row list" where
  "link_entities f [] t = t"
| "link_entities f (e # es) t =
    link_entities f es
      (let r = \<lparr>lk_entity_id = e, lk_fact_id = f\<rparr> in if r \<in> set t then t else t @ [r])"

definition insert_fact_record ::
  "'j wiki_codec \<Rightarrow> wiki_fact \<Rightarrow> string \<Rightarrow> 'j wiki_db \<Rightarrow> 'j wiki_db wiki_result" where
  "insert_fact_record c r hash db =
    and_then (sql_write ''facts'' (wc_ulid_text c (wf_id r))
        (insert_row fact_clash fact_check (\<lambda>_. True) (fact_row_of c r hash) (t_facts db)))
      (\<lambda>fs. Inr (db\<lparr>t_facts := fs,
        t_fts := t_fts db @ [\<lparr>ft_fact_id = wf_id r, ft_content = wf_content r\<rparr>],
        t_links := link_entities (wf_id r) (wf_entity_ids r) (t_links db)\<rparr>))"

text \<open>An update keeps \<open>created_at\<close>, re-hashes the content and re-indexes it.\<close>

definition update_fact_record :: "'j wiki_codec \<Rightarrow> wiki_fact \<Rightarrow> 'j wiki_db \<Rightarrow> 'j wiki_db wiki_result" where
  "update_fact_record c r db =
    and_then (sql_write ''facts'' (wc_ulid_text c (wf_id r))
        (update_unique (\<lambda>a b. dedup_key a = dedup_key b) fact_check (\<lambda>u. fr_id u = wf_id r)
          (\<lambda>u. (fact_row_of c r (wc_sha_hex c (wf_content r)))\<lparr>fr_created_at := fr_created_at u\<rparr>)
          (t_facts db)))
      (\<lambda>fs. Inr (db\<lparr>t_facts := fs,
        t_fts := delete_rows (\<lambda>u. ft_fact_id u = wf_id r) (t_fts db)
                 @ [\<lparr>ft_fact_id = wf_id r, ft_content = wf_content r\<rparr>]\<rparr>))"

definition replace_fact_entities :: "wiki_fact \<Rightarrow> 'j wiki_db \<Rightarrow> 'j wiki_db" where
  "replace_fact_entities r db =
    db\<lparr>t_links := link_entities (wf_id r) (wf_entity_ids r)
         (delete_rows (\<lambda>u. lk_fact_id u = wf_id r) (t_links db))\<rparr>"

definition get_fact_record :: "'j wiki_codec \<Rightarrow> 'j wiki_db \<Rightarrow> wiki_fact_id \<Rightarrow> wiki_fact wiki_result" where
  "get_fact_record c db i =
    and_then (ok_or (FactNotFound (wc_ulid_text c i)) (find (\<lambda>r. fr_id r = i) (t_facts db)))
      (\<lambda>row. ok_or (Deserialize (''fact '' @ wc_ulid_debug c i)) (wc_fact_of c (fr_json row)))"

definition fact_id_by_hash :: "'j wiki_db \<Rightarrow> string option \<Rightarrow> string \<Rightarrow> wiki_fact_id option" where
  "fact_id_by_hash db s hash =
    map_option fr_id (find (\<lambda>r. dedup_key r = (source_key (normalize_source_id s), hash)) (t_facts db))"

text \<open>New entities are appended to the record in order; links are added in any case.\<close>

definition merge_fact_entities ::
  "'j wiki_codec \<Rightarrow> wiki_fact_id \<Rightarrow> entity_id list \<Rightarrow> 'j wiki_db \<Rightarrow> 'j wiki_db wiki_result" where
  "merge_fact_entities c i es db =
    (if es = [] then Inr db
     else and_then (get_fact_record c db i) (\<lambda>r.
       let ids = foldl (\<lambda>acc e. if e \<in> set acc then acc else acc @ [e]) (wf_entity_ids r) es;
           db' = db\<lparr>t_links := link_entities i es (t_links db)\<rparr>
       in if ids = wf_entity_ids r then Inr db'
          else update_fact_record c (r\<lparr>wf_entity_ids := ids\<rparr>) db'))"

section \<open>Adding facts\<close>

definition fact_of_input :: "u64 \<Rightarrow> wiki_fact_id \<Rightarrow> fact_input \<Rightarrow> wiki_fact" where
  "fact_of_input now i f =
    (let r = fact_record_new now i (fi_content f) (or_keep (fi_type f) FtUnknown)
               (or_keep (fi_entity_ids f) []) in
     r\<lparr>wf_tags := or_keep (fi_tags f) (wf_tags r), wf_source := fi_source f,
       wf_source_id := normalize_source_id (fi_source_id f), wf_actor_id := fi_actor_id f,
       wf_source_confidence := or_keep (fi_source_confidence f) (wf_source_confidence r),
       wf_observed_at := fi_observed_at f\<rparr>)"

text \<open>
  \<open>sqlite_fact_add_many_once\<close>: each input comes with the clock and the ULID its record would get.
  Content already known in the input's source namespace gives the known id, and only new entity
  links are recorded.
\<close>

fun add_facts ::
  "'j wiki_codec \<Rightarrow> (fact_input \<times> u64 \<times> wiki_fact_id) list \<Rightarrow> 'j wiki_db \<Rightarrow>
     ('j wiki_db \<times> wiki_fact_id list) wiki_result" where
  "add_facts c [] db = Inr (db, [])"
| "add_facts c ((f, now, i) # rest) db =
    (let hash = wc_sha_hex c (fi_content f) in
     case fact_id_by_hash db (normalize_source_id (fi_source_id f)) hash of
       Some known \<Rightarrow>
         and_then (case fi_entity_ids f of None \<Rightarrow> Inr db
                   | Some es \<Rightarrow> merge_fact_entities c known es db)
           (\<lambda>db'. and_then (add_facts c rest db') (\<lambda>(db'', ids). Inr (db'', known # ids)))
     | None \<Rightarrow>
         and_then (insert_fact_record c (fact_of_input now i f) hash db)
           (\<lambda>db'. and_then (add_facts c rest db') (\<lambda>(db'', ids). Inr (db'', i # ids))))"

definition fact_add ::
  "'j wiki_codec \<Rightarrow> u64 \<Rightarrow> wiki_fact_id \<Rightarrow> fact_input \<Rightarrow> 'j wiki_db \<Rightarrow>
     ('j wiki_db \<times> wiki_fact_id) wiki_result" where
  "fact_add c now i f db =
    and_then (add_facts c [(f, now, i)] db)
      (\<lambda>(db', ids). if ids = [] then Inl (WikiInternal ''sqlite fact_add returned no id'')
                    else Inr (db', last ids))"

section \<open>Reading facts\<close>

definition fact_get_many :: "'j wiki_codec \<Rightarrow> 'j wiki_db \<Rightarrow> wiki_fact_id list \<Rightarrow> wiki_fact list" where
  "fact_get_many c db ids =
    concat (map (\<lambda>i. case get_fact_record c db i of Inl _ \<Rightarrow> [] | Inr r \<Rightarrow> [r]) ids)"

definition fact_time :: "wiki_fact \<Rightarrow> u64" where
  "fact_time r = or_keep (wf_observed_at r) (wf_created_at r)"

definition fact_matches_list_opts :: "wiki_fact \<Rightarrow> fact_list_opts \<Rightarrow> bool" where
  "fact_matches_list_opts r opts \<longleftrightarrow>
    (case fo_type opts of None \<Rightarrow> True | Some t \<Rightarrow> wf_type r = t) \<and>
    (case fo_min_confidence opts of None \<Rightarrow> True | Some m \<Rightarrow> \<not> f32_lt (wf_source_confidence r) m) \<and>
    (case fo_entity_id opts of None \<Rightarrow> True | Some e \<Rightarrow> e \<in> set (wf_entity_ids r)) \<and>
    (case fo_source_id opts of None \<Rightarrow> True | Some s \<Rightarrow> wf_source_id r = Some s) \<and>
    (case fo_since opts of None \<Rightarrow> True | Some s \<Rightarrow> \<not> fact_time r < s) \<and>
    (case fo_until opts of None \<Rightarrow> True | Some u \<Rightarrow> \<not> u < fact_time r) \<and>
    (fo_current_only opts \<longrightarrow> wf_superseded_at r = None) \<and>
    (case fo_as_of opts of None \<Rightarrow> True
     | Some t \<Rightarrow> \<not> t < wf_created_at r \<and>
         (case wf_superseded_at r of None \<Rightarrow> True | Some s \<Rightarrow> \<not> s \<le> t))"

text \<open>\<open>fact_entities JOIN facts\<close> for one entity, or the whole table, in the order of ids.\<close>

definition fact_rows_for :: "'j wiki_db \<Rightarrow> entity_id option \<Rightarrow> 'j wiki_fact_row list" where
  "fact_rows_for db e =
    sort_key fr_id
      (case e of None \<Rightarrow> t_facts db
       | Some i \<Rightarrow> concat (map (\<lambda>l. filter (\<lambda>r. fr_id r = lk_fact_id l) (t_facts db))
                    (filter (\<lambda>l. lk_entity_id l = i) (t_links db))))"

definition fact_list :: "'j wiki_codec \<Rightarrow> 'j wiki_db \<Rightarrow> fact_list_opts \<Rightarrow> wiki_fact list wiki_result" where
  "fact_list c db opts =
    and_then (collect_results
        (\<lambda>row. ok_or (Deserialize ''sqlite fact list'') (wc_fact_of c (fr_json row)))
        (fact_rows_for db (fo_entity_id opts)))
      (\<lambda>rs. Inr (page (fo_offset opts) (fo_limit opts)
               (filter (\<lambda>r. fact_matches_list_opts r opts) rs)))"

definition latest_accessed :: "wiki_fact list \<Rightarrow> wiki_fact list" where
  "latest_accessed fs = sort_key (\<lambda>r. - uint (wf_last_accessed_at r)) (filter wf_pinned fs)"

definition pinned_facts :: "'j wiki_codec \<Rightarrow> 'j wiki_db \<Rightarrow> nat \<Rightarrow> wiki_fact list wiki_result" where
  "pinned_facts c db n =
    and_then (fact_list c db (fact_list_opts_default\<lparr>fo_current_only := True\<rparr>))
      (\<lambda>fs. Inr (take n (latest_accessed fs)))"

section \<open>Changing facts\<close>

definition fact_update ::
  "'j wiki_codec \<Rightarrow> u64 \<Rightarrow> wiki_fact_id \<Rightarrow> fact_update \<Rightarrow> 'j wiki_db \<Rightarrow> 'j wiki_db wiki_result" where
  "fact_update c now i u db =
    and_then (get_fact_record c db i) (\<lambda>old.
      let r0 = fact_record_update now old u;
          r = r0\<lparr>wf_source_id := normalize_source_id (wf_source_id r0)\<rparr>
      in case fact_id_by_hash db (wf_source_id r) (wc_sha_hex c (wf_content r)) of
           Some other \<Rightarrow>
             if other \<noteq> i
             then Inl (WikiInvalidInput (''fact content already exists in source namespace as ''
                    @ wc_ulid_text c other))
             else update_fact_record c r db
         | None \<Rightarrow> update_fact_record c r db)"

text \<open>
  The transaction commits before the number of deleted rows is looked at: the index entries of the
  id are gone even when the answer is \<open>FactNotFound\<close>.
\<close>

definition fact_delete ::
  "'j wiki_codec \<Rightarrow> wiki_fact_id \<Rightarrow> 'j wiki_db \<Rightarrow> 'j wiki_db \<times> unit wiki_result" where
  "fact_delete c i db =
    (db\<lparr>t_fts := delete_rows (\<lambda>u. ft_fact_id u = i) (t_fts db),
        t_links := delete_rows (\<lambda>u. lk_fact_id u = i) (t_links db),
        t_facts := delete_rows (\<lambda>u. fr_id u = i) (t_facts db)\<rparr>,
     if list_ex (\<lambda>u. fr_id u = i) (t_facts db) then Inr ()
     else Inl (FactNotFound (wc_ulid_text c i)))"

definition fact_upsert_record ::
  "'j wiki_codec \<Rightarrow> wiki_fact \<Rightarrow> 'j wiki_db \<Rightarrow> ('j wiki_db \<times> bool) wiki_result" where
  "fact_upsert_record c r0 db =
    (let r = r0\<lparr>wf_source_id := normalize_source_id (wf_source_id r0)\<rparr>;
         hash = wc_sha_hex c (wf_content r) in
     if (case get_fact_record c db (wf_id r) of
           Inr local \<Rightarrow> wf_updated_at r \<le> wf_updated_at local | Inl _ \<Rightarrow> False)
     then Inr (db, False)
     else if (case fact_id_by_hash db (wf_source_id r) hash of
                Some other \<Rightarrow> other \<noteq> wf_id r | None \<Rightarrow> False)
     then Inr (db, False)
     else (case get_fact_record c db (wf_id r) of
             Inr _ \<Rightarrow> and_then (update_fact_record c r db)
                        (\<lambda>db'. Inr (replace_fact_entities r db', True))
           | Inl _ \<Rightarrow> and_then (insert_fact_record c r hash db) (\<lambda>db'. Inr (db', True))))"

definition feedback_score :: "bool \<Rightarrow> f32 \<Rightarrow> f32" where
  "feedback_score helpful s =
    (if helpful then f32_min (f32_add s f32_0_10) f32_one else f32_max (f32_sub s f32_0_15) f32_zero)"

definition fact_feedback ::
  "'j wiki_codec \<Rightarrow> u64 \<Rightarrow> wiki_fact_id \<Rightarrow> bool \<Rightarrow> 'j wiki_db \<Rightarrow> 'j wiki_db wiki_result" where
  "fact_feedback c now i helpful db =
    and_then (get_fact_record c db i) (\<lambda>r.
      update_fact_record c
        (r\<lparr>wf_relevance_score := feedback_score helpful (wf_relevance_score r),
           wf_updated_at := bumped now (wf_updated_at r)\<rparr>) db)"

section \<open>Search feedback and counters\<close>

definition search_session_add :: "'j wiki_codec \<Rightarrow> search_session \<Rightarrow> 'j wiki_db \<Rightarrow> 'j wiki_db" where
  "search_session_add c s db =
    db\<lparr>t_sessions := insert_or_replace sr_id
         \<lparr>sr_id = ss_id s, sr_json = wc_session_json c s\<rparr> (t_sessions db)\<rparr>"

definition search_feedback_add :: "'j wiki_codec \<Rightarrow> search_feedback \<Rightarrow> 'j wiki_db \<Rightarrow> 'j wiki_db" where
  "search_feedback_add c f db =
    db\<lparr>t_feedback := insert_or_replace fb_key
         \<lparr>fb_key = sf_session_id f @ '':'' @ wc_ulid_text c (sf_fact_id f),
          fb_session_id = sf_session_id f, fb_fact_id = sf_fact_id f, fb_helpful = sf_helpful f,
          fb_timestamp = sint (sf_timestamp f), fb_json = wc_feedback_json c f\<rparr> (t_feedback db)\<rparr>"

definition search_feedback_count :: "'j wiki_db \<Rightarrow> nat" where
  "search_feedback_count db = length (t_feedback db)"

definition meta_put :: "string \<Rightarrow> string \<Rightarrow> 'j wiki_db \<Rightarrow> 'j wiki_db" where
  "meta_put k v db =
    db\<lparr>t_meta := (if list_ex (\<lambda>r. fst r = k) (t_meta db)
         then map (\<lambda>r. if fst r = k then (k, v) else r) (t_meta db) else t_meta db @ [(k, v)])\<rparr>"

definition set_last_ingest_at :: "u64 \<Rightarrow> 'j wiki_db \<Rightarrow> 'j wiki_db" where
  "set_last_ingest_at now db = meta_put ''last_ingest_at'' (nat_text (unat now)) db"

text \<open>\<open>str::parse::<u64>\<close>: an optional sign, then digits that do not overflow.\<close>

fun parse_digits :: "nat \<Rightarrow> string \<Rightarrow> nat option" where
  "parse_digits n [] = Some n"
| "parse_digits n (d # ds) =
    (if is_ascii_digit d \<and> n * 10 + (of_char d - 48) < 2 ^ 64
     then parse_digits (n * 10 + (of_char d - 48)) ds else None)"

definition parse_u64 :: "string \<Rightarrow> u64 option" where
  "parse_u64 s =
    (let d = (case s of [] \<Rightarrow> [] | x # xs \<Rightarrow> if x = CHR ''+'' then xs else s) in
     if d = [] then None else map_option of_nat (parse_digits 0 d))"

definition meta_get_u64 :: "'j wiki_db \<Rightarrow> string \<Rightarrow> u64 option" where
  "meta_get_u64 db k =
    (case find (\<lambda>r. fst r = k) (t_meta db) of None \<Rightarrow> None | Some r \<Rightarrow> parse_u64 (snd r))"

text \<open>The size of the database file is read from the file system.\<close>

definition wiki_stats :: "u64 \<Rightarrow> 'j wiki_db \<Rightarrow> store_stats" where
  "wiki_stats file_size db =
    \<lparr>st_entity_count = of_nat (length (t_entities db)), st_fact_count = of_nat (length (t_facts db)),
     st_relation_count = of_nat (length (t_relations db)), st_total_size_bytes = file_size,
     st_last_ingest_at = meta_get_u64 db ''last_ingest_at''\<rparr>"

section \<open>Relations\<close>

definition relation_row_of :: "'j wiki_codec \<Rightarrow> relation_record \<Rightarrow> 'j relation_row" where
  "relation_row_of c r =
    \<lparr>rr_source_id = wr_source_id r, rr_type = wr_type r, rr_target_id = wr_target_id r,
     rr_scope = source_key (wr_scope_source_id r), rr_created_at = sint (wr_created_at r),
     rr_json = wc_relation_json c r\<rparr>"

definition relation_row_key :: "'j relation_row \<Rightarrow> entity_id \<times> string \<times> entity_id \<times> string" where
  "relation_row_key r = (rr_source_id r, rr_type r, rr_target_id r, rr_scope r)"

definition insert_relation_record :: "'j wiki_codec \<Rightarrow> relation_record \<Rightarrow> 'j wiki_db \<Rightarrow> 'j wiki_db" where
  "insert_relation_record c r db =
    db\<lparr>t_relations := insert_or_replace relation_row_key (relation_row_of c r) (t_relations db)\<rparr>"

definition relation_add ::
  "'j wiki_codec \<Rightarrow> u64 \<Rightarrow> relation_input \<Rightarrow> 'j wiki_db \<Rightarrow> 'j wiki_db wiki_result" where
  "relation_add c now i db =
    and_then (resolve_entity c db (ri_source i)) (\<lambda>s.
      and_then (resolve_entity c db (ri_target i)) (\<lambda>t.
        Inr (insert_relation_record c
          \<lparr>wr_source_id = s, wr_target_id = t,
           wr_scope_source_id = normalize_source_id (ri_scope_source_id i), wr_type = ri_type i,
           wr_weight = or_keep (ri_weight i) f32_one, wr_evidence = or_keep (ri_evidence i) [],
           wr_created_at = now\<rparr> db)))"

text \<open>An identical stored document is left alone.\<close>

definition relation_upsert_record ::
  "'j wiki_codec \<Rightarrow> relation_record \<Rightarrow> 'j wiki_db \<Rightarrow> 'j wiki_db \<times> bool" where
  "relation_upsert_record c r0 db =
    (let r = r0\<lparr>wr_scope_source_id := normalize_source_id (wr_scope_source_id r0)\<rparr>;
         row = relation_row_of c r in
     if map_option rr_json (find (\<lambda>u. relation_row_key u = relation_row_key row) (t_relations db))
          = Some (rr_json row)
     then (db, False) else (insert_relation_record c r db, True))"

definition relation_remove ::
  "'j wiki_codec \<Rightarrow> string \<Rightarrow> string \<Rightarrow> string \<Rightarrow> 'j wiki_db \<Rightarrow> 'j wiki_db wiki_result" where
  "relation_remove c source target ty db =
    and_then (resolve_entity c db source) (\<lambda>s.
      and_then (resolve_entity c db target) (\<lambda>t.
        let gone = (\<lambda>u. relation_row_key u = (s, ty, t, [])) in
        if list_ex gone (t_relations db)
        then Inr (db\<lparr>t_relations := delete_rows gone (t_relations db)\<rparr>)
        else Inl (RelationNotFound source ty target)))"

fun direction_matches :: "traverse_direction \<Rightarrow> entity_id \<Rightarrow> 'j relation_row \<Rightarrow> bool" where
  "direction_matches Forward i r \<longleftrightarrow> rr_source_id r = i"
| "direction_matches Reverse i r \<longleftrightarrow> rr_target_id r = i"
| "direction_matches Both i r \<longleftrightarrow> rr_source_id r = i \<or> rr_target_id r = i"

definition read_relations ::
  "'j wiki_codec \<Rightarrow> string \<Rightarrow> 'j relation_row list \<Rightarrow> relation_record list wiki_result" where
  "read_relations c ctx rows =
    collect_results (\<lambda>row. ok_or (Deserialize ctx) (wc_relation_of c (rr_json row)))
      (sort_key rr_created_at rows)"

definition relations_get ::
  "'j wiki_codec \<Rightarrow> 'j wiki_db \<Rightarrow> string \<Rightarrow> traverse_direction \<Rightarrow> relation_record list wiki_result" where
  "relations_get c db name d =
    and_then (resolve_entity c db name) (\<lambda>i.
      read_relations c ''relations_get'' (filter (direction_matches d i) (t_relations db)))"

definition relations_list_all :: "'j wiki_codec \<Rightarrow> 'j wiki_db \<Rightarrow> relation_record list wiki_result" where
  "relations_list_all c db = read_relations c ''relations_list_all'' (t_relations db)"

text \<open>
  \<open>aidememo-core/src/backend.rs\<close>: the operations the storage trait derives from the ones a backend
  gives - reads restricted to a source namespace, and the transfer of facts to a cold store.
\<close>

section \<open>Visibility\<close>

definition count_entity_facts_scoped ::
  "'j wiki_codec \<Rightarrow> 'j wiki_db \<Rightarrow> entity_id \<Rightarrow> string option \<Rightarrow> (32 word) wiki_result" where
  "count_entity_facts_scoped c db i scope =
    (case scope of None \<Rightarrow> Inr (count_entity_facts db i)
     | Some s \<Rightarrow>
         and_then (fact_list c db (fact_list_opts_default\<lparr>fo_entity_id := Some i, fo_source_id := Some s\<rparr>))
           (\<lambda>fs. Inr (if length fs < 2 ^ 32 then of_nat (length fs) else - 1)))"

definition redact_unscoped_entity_metadata :: "entity_record \<Rightarrow> entity_record" where
  "redact_unscoped_entity_metadata r =
    r\<lparr>we_aliases := [], we_tags := [], we_source_page := None, we_summary := None,
      we_summary_updated_at := None, we_created_at := 0, we_updated_at := 0\<rparr>"

definition entity_get_scoped ::
  "'j wiki_codec \<Rightarrow> 'j wiki_db \<Rightarrow> string \<Rightarrow> string option \<Rightarrow> entity_record wiki_result" where
  "entity_get_scoped c db name scope =
    (case entity_get c db name of
       Inl e \<Rightarrow> Inl (case e of EntityNotFound n s \<Rightarrow>
                 if scope = None then e else EntityNotFound name [] | _ \<Rightarrow> e)
     | Inr r \<Rightarrow>
         if scope = None then Inr r
         else and_then (count_entity_facts_scoped c db (we_id r) scope) (\<lambda>n.
           if n = 0 then Inl (EntityNotFound name [])
           else Inr (redact_unscoped_entity_metadata r)))"

definition entity_get_by_id_scoped ::
  "'j wiki_codec \<Rightarrow> 'j wiki_db \<Rightarrow> entity_id \<Rightarrow> string option \<Rightarrow> entity_record wiki_result" where
  "entity_get_by_id_scoped c db i scope =
    and_then (get_entity_record c db i) (\<lambda>r.
      if scope = None then Inr r
      else and_then (count_entity_facts_scoped c db (we_id r) scope) (\<lambda>n.
        if n = 0 then Inl (EntityIdNotFound (wc_ulid_text c i))
        else Inr (redact_unscoped_entity_metadata r)))"

definition pinned_facts_scoped ::
  "'j wiki_codec \<Rightarrow> 'j wiki_db \<Rightarrow> nat \<Rightarrow> string option \<Rightarrow> wiki_fact list wiki_result" where
  "pinned_facts_scoped c db n scope =
    (case scope of None \<Rightarrow> pinned_facts c db n
     | Some s \<Rightarrow>
         and_then (fact_list c db
             (fact_list_opts_default\<lparr>fo_source_id := Some s, fo_current_only := True\<rparr>))
           (\<lambda>fs. Inr (take n (latest_accessed fs))))"

definition in_scope :: "string option \<Rightarrow> relation_record \<Rightarrow> bool" where
  "in_scope scope r = (case scope of None \<Rightarrow> True | Some s \<Rightarrow> wr_scope_source_id r = Some (trim_text s))"

definition relations_get_scoped ::
  "'j wiki_codec \<Rightarrow> 'j wiki_db \<Rightarrow> string \<Rightarrow> traverse_direction \<Rightarrow> string option \<Rightarrow>
     relation_record list wiki_result" where
  "relations_get_scoped c db name d scope =
    and_then (relations_get c db name d) (\<lambda>rs. Inr (filter (in_scope scope) rs))"

text \<open>Relations of an entity id are those of the name its record carries.\<close>

definition relations_get_by_id ::
  "'j wiki_codec \<Rightarrow> 'j wiki_db \<Rightarrow> entity_id \<Rightarrow> traverse_direction \<Rightarrow> relation_record list wiki_result" where
  "relations_get_by_id c db i d =
    and_then (get_entity_record c db i) (\<lambda>r. relations_get c db (we_name r) d)"

definition relations_get_by_id_scoped ::
  "'j wiki_codec \<Rightarrow> 'j wiki_db \<Rightarrow> entity_id \<Rightarrow> traverse_direction \<Rightarrow> string option \<Rightarrow>
     relation_record list wiki_result" where
  "relations_get_by_id_scoped c db i d scope =
    and_then (relations_get_by_id c db i d) (\<lambda>rs. Inr (filter (in_scope scope) rs))"

section \<open>Archiving\<close>

definition existing_fact_ids :: "'j wiki_codec \<Rightarrow> 'j wiki_db \<Rightarrow> wiki_fact_id list \<Rightarrow> wiki_fact_id list" where
  "existing_fact_ids c db ids =
    filter (\<lambda>i. case get_fact_record c db i of Inl _ \<Rightarrow> False | Inr _ \<Rightarrow> True) ids"

text \<open>
  Copying facts to the cold store, each upsert its own transaction: what has been copied stays
  copied when a later fact fails.
\<close>

fun archive_copy :: "'j wiki_codec \<Rightarrow> wiki_fact list \<Rightarrow> 'j wiki_db \<Rightarrow> 'j wiki_db \<times> unit wiki_result" where
  "archive_copy c [] cold = (cold, Inr ())"
| "archive_copy c (f # fs) cold =
    (case fact_upsert_record c f cold of
       Inl e \<Rightarrow> (cold, Inl e)
     | Inr (cold', _) \<Rightarrow>
         (case get_fact_record c cold' (wf_id f) of
            Inl e \<Rightarrow> (cold', Inl e)
          | Inr a \<Rightarrow>
              if wf_content a \<noteq> wf_content f \<or> wf_entity_ids a \<noteq> wf_entity_ids f \<or> wf_type a \<noteq> wf_type f
              then (cold', Inl (WikiInvalidInput
                     (''cold-tier archive verification failed for fact '' @ wc_ulid_text c (wf_id f))))
              else archive_copy c fs cold'))"

fun archive_drop :: "'j wiki_codec \<Rightarrow> wiki_fact list \<Rightarrow> 'j wiki_db \<Rightarrow> 'j wiki_db \<times> nat" where
  "archive_drop c [] hot = (hot, 0)"
| "archive_drop c (f # fs) hot =
    (let (hot', r) = fact_delete c (wf_id f) hot; (hot'', n) = archive_drop c fs hot' in
     (hot'', (case r of Inl _ \<Rightarrow> n | Inr _ \<Rightarrow> Suc n)))"

definition fact_archive_to ::
  "'j wiki_codec \<Rightarrow> wiki_fact_id list \<Rightarrow> 'j wiki_db \<Rightarrow> 'j wiki_db \<Rightarrow>
     'j wiki_db \<times> 'j wiki_db \<times> nat wiki_result" where
  "fact_archive_to c ids hot cold =
    (let moving = fact_get_many c hot ids in
     if moving = [] then (hot, cold, Inr 0)
     else (case archive_copy c moving cold of
             (cold', Inl e) \<Rightarrow> (hot, cold', Inl e)
           | (cold', Inr _) \<Rightarrow>
               let (hot', n) = archive_drop c moving hot in (hot', cold', Inr n)))"

end
