(* ===== verification/Wiki_Abstract.thy ===== *)
theory Wiki_Abstract
  imports Wiki_Facts
begin

text \<open>
  What the tables of the embedded wiki store mean: lists of entity, fact and relation records, and
  the links from entities to facts. \<open>represents c db w\<close> says that the database holds exactly the
  wiki \<open>w\<close>, every index in step with the records.
\<close>

record wiki =
  wk_entities :: "entity_record list"
  wk_facts :: "wiki_fact list"
  wk_links :: "link_row list"
  wk_relations :: "relation_record list"

lemma collect_all_Inr:
  assumes "\<And>x. x \<in> set xs \<Longrightarrow> f x = Inr x"
  shows "collect_results f xs = Inr xs"
  using collect_results_all_Inr [OF assms, of xs] by simp

section \<open>Laws of the encodings\<close>

text \<open>
  A record read back from its document. The type of an entity goes through its text, so an
  unusual custom type comes back as the type its text names; \<open>serde_json\<close> writes a float that is
  not finite as \<open>null\<close>, which does not read as a float.
\<close>

definition stored_entity :: "'j wiki_codec \<Rightarrow> entity_record \<Rightarrow> entity_record" where
  "stored_entity c r = r\<lparr>we_type := entity_type_parse (wc_lower c) (entity_type_text (we_type r))\<rparr>"

definition fact_floats_finite :: "wiki_fact \<Rightarrow> bool" where
  "fact_floats_finite f \<longleftrightarrow>
     f32_is_finite (wf_source_confidence f) \<and> f32_is_finite (wf_relevance_score f)"

definition wiki_codec_ok :: "'j wiki_codec \<Rightarrow> bool" where
  "wiki_codec_ok c \<longleftrightarrow>
     (\<forall>s. wc_lower c (wc_lower c s) = wc_lower c s) \<and>
     (\<forall>r. wc_entity_of c (wc_entity_json c r) = Some (stored_entity c r)) \<and>
     (\<forall>f. wc_fact_of c (wc_fact_json c f) = (if fact_floats_finite f then Some f else None)) \<and>
     (\<forall>r. wc_relation_of c (wc_relation_json c r) =
        (if f32_is_finite (wr_weight r) then Some r else None))"

lemma codec_okD:
  assumes "wiki_codec_ok c"
  shows "wc_lower c (wc_lower c s) = wc_lower c s"
    and "wc_entity_of c (wc_entity_json c r) = Some (stored_entity c r)"
    and "wc_fact_of c (wc_fact_json c f) = (if fact_floats_finite f then Some f else None)"
    and "wc_relation_of c (wc_relation_json c q) = (if f32_is_finite (wr_weight q) then Some q else None)"
  using assms unfolding wiki_codec_ok_def by blast+

lemma stored_entity_simps [simp]:
  "we_id (stored_entity c r) = we_id r" "we_name (stored_entity c r) = we_name r"
  "we_name_lower (stored_entity c r) = we_name_lower r"
  "we_aliases (stored_entity c r) = we_aliases r" "we_tags (stored_entity c r) = we_tags r"
  "we_updated_at (stored_entity c r) = we_updated_at r"
  "we_created_at (stored_entity c r) = we_created_at r"
  "we_summary (stored_entity c r) = we_summary r"
  "we_source_page (stored_entity c r) = we_source_page r"
  by (simp_all add: stored_entity_def)

section \<open>The wiki invariant\<close>

definition entity_names :: "entity_record \<Rightarrow> string list" where
  "entity_names r = we_name r # we_aliases r"

definition name_rows :: "'j wiki_codec \<Rightarrow> entity_record \<Rightarrow> name_row list" where
  "name_rows c r = map (\<lambda>n. \<lparr>nm_lower = wc_lower c n, nm_entity_id = we_id r\<rparr>) (entity_names r)"

definition tag_rows :: "entity_record \<Rightarrow> tag_row set" where
  "tag_rows r = (\<lambda>g. \<lparr>tg_entity_id = we_id r, tg_tag = g\<rparr>) ` set (we_tags r)"

definition fact_key :: "'j wiki_codec \<Rightarrow> wiki_fact \<Rightarrow> string \<times> string" where
  "fact_key c f = (source_key (wf_source_id f), wc_sha_hex c (wf_content f))"

definition relation_key :: "relation_record \<Rightarrow> entity_id \<times> string \<times> entity_id \<times> string" where
  "relation_key r = (wr_source_id r, wr_type r, wr_target_id r, source_key (wr_scope_source_id r))"

text \<open>
  Ids, lower-cased names, source and content of facts, and relation keys are unique; no two
  entities share a name or an alias; floats are finite; source namespaces are in normal form; a
  link joins a fact to an entity its record lists.
\<close>

definition wiki_inv :: "'j wiki_codec \<Rightarrow> wiki \<Rightarrow> bool" where
  "wiki_inv c w \<longleftrightarrow>
     distinct (map we_id (wk_entities w)) \<and> distinct (map we_name_lower (wk_entities w)) \<and>
     distinct (map nm_lower (concat (map (name_rows c) (wk_entities w)))) \<and>
     distinct (map wf_id (wk_facts w)) \<and> distinct (map (fact_key c) (wk_facts w)) \<and>
     list_all (\<lambda>f. fact_floats_finite f \<and> normalize_source_id (wf_source_id f) = wf_source_id f)
       (wk_facts w) \<and>
     distinct (wk_links w) \<and>
     list_all (\<lambda>l. list_ex (\<lambda>f. wf_id f = lk_fact_id l \<and> lk_entity_id l \<in> set (wf_entity_ids f))
       (wk_facts w)) (wk_links w) \<and>
     distinct (map relation_key (wk_relations w)) \<and>
     list_all (\<lambda>r. f32_is_finite (wr_weight r) \<and>
       normalize_source_id (wr_scope_source_id r) = wr_scope_source_id r) (wk_relations w)"

text \<open>The \<open>created_at\<close> column keeps the value of the first insert; nothing reads it.\<close>

definition undated :: "'j wiki_fact_row \<Rightarrow> 'j wiki_fact_row" where
  "undated r = r\<lparr>fr_created_at := 0\<rparr>"

definition fact_row :: "'j wiki_codec \<Rightarrow> wiki_fact \<Rightarrow> 'j wiki_fact_row" where
  "fact_row c f = fact_row_of c f (wc_sha_hex c (wf_content f))"

definition represents :: "'j wiki_codec \<Rightarrow> 'j wiki_db \<Rightarrow> wiki \<Rightarrow> bool" where
  "represents c db w \<longleftrightarrow>
     t_entities db = map (entity_row_of c) (wk_entities w) \<and>
     map undated (t_facts db) = map (\<lambda>f. undated (fact_row c f)) (wk_facts w) \<and>
     t_links db = wk_links w \<and>
     t_relations db = map (relation_row_of c) (wk_relations w) \<and>
     set (t_names db) = set (concat (map (name_rows c) (wk_entities w))) \<and>
     distinct (map nm_lower (t_names db)) \<and>
     set (t_tags db) = (\<Union>r\<in>set (wk_entities w). tag_rows r) \<and> distinct (t_tags db) \<and>
     set (t_fts db) = (\<lambda>f. \<lparr>ft_fact_id = wf_id f, ft_content = wf_content f\<rparr>) ` set (wk_facts w) \<and>
     distinct (map ft_fact_id (t_fts db)) \<and>
     wiki_inv c w"

lemma representsD:
  assumes "represents c db w"
  shows "t_entities db = map (entity_row_of c) (wk_entities w)"
    and "map undated (t_facts db) = map (\<lambda>f. undated (fact_row c f)) (wk_facts w)"
    and "t_links db = wk_links w" "t_relations db = map (relation_row_of c) (wk_relations w)"
    and "set (t_names db) = set (concat (map (name_rows c) (wk_entities w)))"
    and "distinct (map nm_lower (t_names db))"
    and "set (t_tags db) = (\<Union>r\<in>set (wk_entities w). tag_rows r)" "distinct (t_tags db)"
    and "set (t_fts db) = (\<lambda>f. \<lparr>ft_fact_id = wf_id f, ft_content = wf_content f\<rparr>) ` set (wk_facts w)"
    and "distinct (map ft_fact_id (t_fts db))" "wiki_inv c w"
  using assms unfolding represents_def by blast+

lemma wiki_invD:
  assumes "wiki_inv c w"
  shows "distinct (map we_id (wk_entities w))" "distinct (map we_name_lower (wk_entities w))"
    and "distinct (map nm_lower (concat (map (name_rows c) (wk_entities w))))"
    and "distinct (map wf_id (wk_facts w))" "distinct (map (fact_key c) (wk_facts w))"
    and "\<And>f. f \<in> set (wk_facts w) \<Longrightarrow> fact_floats_finite f"
    and "\<And>f. f \<in> set (wk_facts w) \<Longrightarrow> normalize_source_id (wf_source_id f) = wf_source_id f"
    and "distinct (wk_links w)"
    and "\<And>l. l \<in> set (wk_links w) \<Longrightarrow>
          \<exists>f\<in>set (wk_facts w). wf_id f = lk_fact_id l \<and> lk_entity_id l \<in> set (wf_entity_ids f)"
    and "distinct (map relation_key (wk_relations w))"
    and "\<And>r. r \<in> set (wk_relations w) \<Longrightarrow> f32_is_finite (wr_weight r)"
    and "\<And>r. r \<in> set (wk_relations w) \<Longrightarrow>
          normalize_source_id (wr_scope_source_id r) = wr_scope_source_id r"
  using assms unfolding wiki_inv_def list_all_iff list_ex_iff by blast+

section \<open>Reading the representation\<close>

definition wiki_entity :: "wiki \<Rightarrow> entity_id \<Rightarrow> entity_record option" where
  "wiki_entity w i = find (\<lambda>r. we_id r = i) (wk_entities w)"

definition wiki_fact_of :: "wiki \<Rightarrow> wiki_fact_id \<Rightarrow> wiki_fact option" where
  "wiki_fact_of w i = find (\<lambda>f. wf_id f = i) (wk_facts w)"

text \<open>The entity that answers to a name, in any case.\<close>

definition wiki_named :: "'j wiki_codec \<Rightarrow> wiki \<Rightarrow> string \<Rightarrow> entity_record option" where
  "wiki_named c w name =
     find (\<lambda>r. wc_lower c name \<in> set (map (wc_lower c) (entity_names r))) (wk_entities w)"

lemma entity_row_simps [simp]:
  "en_id (entity_row_of c r) = we_id r" "en_name_lower (entity_row_of c r) = we_name_lower r"
  "en_json (entity_row_of c r) = wc_entity_json c r"
  "en_type (entity_row_of c r) = entity_type_text (we_type r)"
  "en_updated_at (entity_row_of c r) = sint (we_updated_at r)"
  by (simp_all add: entity_row_of_def)

lemma relation_row_simps [simp]:
  "rr_source_id (relation_row_of c r) = wr_source_id r" "rr_target_id (relation_row_of c r) = wr_target_id r"
  "rr_json (relation_row_of c r) = wc_relation_json c r"
  "rr_created_at (relation_row_of c r) = sint (wr_created_at r)"
  "relation_row_key (relation_row_of c r) = relation_key r"
  by (simp_all add: relation_row_of_def relation_row_key_def relation_key_def)

lemma undated_simps [simp]:
  "fr_id (undated r) = fr_id r" "fr_json (undated r) = fr_json r" "dedup_key (undated r) = dedup_key r"
  "fr_source_id (undated r) = fr_source_id r" "fr_content_hash (undated r) = fr_content_hash r"
  "undated (r\<lparr>fr_created_at := t\<rparr>) = undated r"
  by (simp_all add: undated_def dedup_key_def)

lemma fact_row_simps [simp]:
  "fr_id (fact_row c f) = wf_id f" "fr_json (fact_row c f) = wc_fact_json c f"
  "dedup_key (fact_row c f) = fact_key c f"
  by (simp_all add: fact_row_def fact_row_of_def dedup_key_def fact_key_def)

lemma entity_record_read:
  assumes "represents c db w" "wiki_codec_ok c"
  shows "get_entity_record c db i =
    (case wiki_entity w i of None \<Rightarrow> Inl (EntityIdNotFound (wc_ulid_text c i))
     | Some r \<Rightarrow> Inr (stored_entity c r))"
  by (simp add: get_entity_record_def wiki_entity_def representsD(1) [OF assms(1)] find_map o_def
      codec_okD(2) [OF assms(2)] split: option.split)

text \<open>A function of rows that does not look at the date is a function of the facts.\<close>

lemma facts_map:
  assumes "represents c db w" "\<And>r. g (undated r) = g r"
  shows "map g (t_facts db) = map (\<lambda>f. g (fact_row c f)) (wk_facts w)"
proof -
  have "map g (t_facts db) = map g (map undated (t_facts db))"
    by (simp add: assms(2))
  also have "\<dots> = map (\<lambda>f. g (fact_row c f)) (wk_facts w)"
    by (simp add: representsD(2) [OF assms(1)] assms(2) del: map_map) (simp add: assms(2))
  finally show ?thesis .
qed

lemma find_as_map:
  "map_option g (find P xs) = map_option snd (find (\<lambda>p. fst p) (map (\<lambda>x. (P x, g x)) xs))"
  by (induction xs) auto

lemma facts_find:
  assumes "represents c db w" "\<And>r. P (undated r) = P r" "\<And>r. g (undated r) = g r"
  shows "map_option g (find P (t_facts db)) =
    map_option (\<lambda>f. g (fact_row c f)) (find (\<lambda>f. P (fact_row c f)) (wk_facts w))"
  unfolding find_as_map [of g] find_as_map [of "\<lambda>f. g (fact_row c f)"]
  by (rule arg_cong [where f = "\<lambda>l. map_option snd (find fst l)"],
      rule facts_map [OF assms(1)]) (simp add: assms(2,3))

lemma ok_or_map: "ok_or e (map_option g x) = and_then (ok_or e x) (\<lambda>y. Inr (g y))"
  by (cases x) auto

lemma and_then_ok_or:
  "and_then (ok_or e x) (\<lambda>y. f (g y)) = and_then (ok_or e (map_option g x)) f"
  by (cases x) auto

lemma fact_record_read:
  assumes "represents c db w" "wiki_codec_ok c"
  shows "get_fact_record c db i =
    (case wiki_fact_of w i of None \<Rightarrow> Inl (FactNotFound (wc_ulid_text c i)) | Some f \<Rightarrow> Inr f)"
proof -
  have "map_option fr_json (find (\<lambda>r. fr_id r = i) (t_facts db)) =
      map_option (wc_fact_json c) (wiki_fact_of w i)"
    using facts_find [OF assms(1), of "\<lambda>r. fr_id r = i" fr_json] by (simp add: wiki_fact_of_def)
  moreover have "fact_floats_finite f" if "wiki_fact_of w i = Some f" for f
    using wiki_invD(6) [OF representsD(11) [OF assms(1)]] find_Some_set that
    by (fastforce simp: wiki_fact_of_def)
  ultimately show ?thesis
    unfolding get_fact_record_def
      and_then_ok_or [where g = fr_json
        and f = "\<lambda>d. ok_or (Deserialize (''fact '' @ wc_ulid_debug c i)) (wc_fact_of c d)"]
    by (auto simp: codec_okD(3) [OF assms(2)] split: option.split)
qed

lemma hash_lookup:
  assumes "represents c db w"
  shows "fact_id_by_hash db s h =
    map_option wf_id (find (\<lambda>f. fact_key c f = (source_key (normalize_source_id s), h)) (wk_facts w))"
  unfolding fact_id_by_hash_def
  using facts_find [OF assms, of "\<lambda>r. dedup_key r = (source_key (normalize_source_id s), h)" fr_id]
  by simp

lemma count_links:
  assumes "represents c db w"
  shows "count_entity_facts db i = of_nat (length (filter (\<lambda>l. lk_entity_id l = i) (wk_links w)))"
  by (simp add: count_entity_facts_def select_count_def representsD(3) [OF assms])

lemma relations_read:
  assumes "represents c db w" "wiki_codec_ok c"
  shows "read_relations c ctx (filter (direction_matches d i) (t_relations db)) =
    Inr (filter (\<lambda>r. direction_matches d i (relation_row_of c r))
          (sort_key (\<lambda>r. sint (wr_created_at r)) (wk_relations w)))"
proof -
  have "f32_is_finite (wr_weight r)" if "r \<in> set (wk_relations w)" for r
    using wiki_invD(11) [OF representsD(11) [OF assms(1)] that] .
  then have "collect_results (\<lambda>r. ok_or (Deserialize ctx) (wc_relation_of c (wc_relation_json c r)))
      (sort_key (\<lambda>r. sint (wr_created_at r)) (filter (\<lambda>r. direction_matches d i (relation_row_of c r))
        (wk_relations w))) =
    Inr (sort_key (\<lambda>r. sint (wr_created_at r)) (filter (\<lambda>r. direction_matches d i (relation_row_of c r))
        (wk_relations w)))"
    by (intro collect_all_Inr) (auto simp: codec_okD(4) [OF assms(2)])
  then show ?thesis
    by (simp add: read_relations_def representsD(4) [OF assms(1)] filter_map sort_key_map o_def
        filter_sort collect_results_map)
qed

end
