(* ===== verification/Wiki_Entities.thy ===== *)
theory Wiki_Entities
  imports Wiki_Abstract "HOL-Library.Multiset"
begin

text \<open>
  The entity operations of the SQLite wiki store against the wiki its tables represent: a write
  succeeds exactly when the wiki it asks for satisfies the invariant.
\<close>

section \<open>Names\<close>

lemma distinct_concat_unique:
  assumes "distinct (concat (map g xs))" "x \<in> set xs" "y \<in> set xs" "z \<in> set (g x)" "z \<in> set (g y)"
  shows "x = y"
  using assms by (induction xs) auto

lemma lower_names_concat:
  "map nm_lower (concat (map (name_rows c) es)) =
     concat (map (\<lambda>r. map (wc_lower c) (entity_names r)) es)"
  by (simp add: map_concat name_rows_def o_def)

lemma name_unique:
  assumes "wiki_inv c w" "r \<in> set (wk_entities w)" "s \<in> set (wk_entities w)"
    and "l \<in> wc_lower c ` set (entity_names r)" "l \<in> wc_lower c ` set (entity_names s)"
  shows "r = s"
  using distinct_concat_unique [OF wiki_invD(3) [OF assms(1), unfolded lower_names_concat] assms(2,3)]
    assms(4,5) by auto

lemma wiki_named_iff:
  assumes "wiki_inv c w"
  shows "wiki_named c w name = Some r \<longleftrightarrow>
    r \<in> set (wk_entities w) \<and> wc_lower c name \<in> wc_lower c ` set (entity_names r)"
    (is "?l \<longleftrightarrow> ?r")
proof
  assume ?l
  then show ?r
    by (auto simp: wiki_named_def dest: find_Some_set)
next
  assume ?r
  then show ?l
    unfolding wiki_named_def
    by (intro find_unique) (auto intro: name_unique [OF assms])
qed

lemma wiki_named_None:
  "wiki_named c w name = None \<longleftrightarrow>
     (\<forall>r\<in>set (wk_entities w). wc_lower c name \<notin> wc_lower c ` set (entity_names r))"
  by (simp add: wiki_named_def find_None_set)

lemma wiki_entity_iff:
  assumes "wiki_inv c w"
  shows "wiki_entity w i = Some r \<longleftrightarrow> r \<in> set (wk_entities w) \<and> we_id r = i"
proof -
  have "r = s" if "r \<in> set (wk_entities w)" "s \<in> set (wk_entities w)" "we_id r = we_id s" for r s
    using that wiki_invD(1) [OF assms] by (auto simp: distinct_map inj_on_def)
  then show ?thesis
    unfolding wiki_entity_def by (auto dest: find_Some_set intro!: find_unique)
qed

lemma wiki_fact_iff:
  assumes "wiki_inv c w"
  shows "wiki_fact_of w i = Some f \<longleftrightarrow> f \<in> set (wk_facts w) \<and> wf_id f = i"
proof -
  have "f = g" if "f \<in> set (wk_facts w)" "g \<in> set (wk_facts w)" "wf_id f = wf_id g" for f g
    using that wiki_invD(4) [OF assms] by (auto simp: distinct_map inj_on_def)
  then show ?thesis
    unfolding wiki_fact_of_def by (auto dest: find_Some_set intro!: find_unique)
qed

text \<open>The row found in \<open>entity_names\<close>.\<close>

lemma name_lookup:
  assumes "represents c db w"
  shows "map_option nm_entity_id (find (\<lambda>r. nm_lower r = wc_lower c name) (t_names db)) =
    map_option we_id (wiki_named c w name)"
proof (cases "wiki_named c w name")
  case None
  then have "\<forall>r\<in>set (wk_entities w). \<forall>n\<in>set (entity_names r). wc_lower c n \<noteq> wc_lower c name"
    by (metis wiki_named_None imageI)
  then have "find (\<lambda>r. nm_lower r = wc_lower c name) (t_names db) = None"
    by (auto simp: find_None_set representsD(5) [OF assms] name_rows_def)
  with None show ?thesis by simp
next
  case (Some r)
  then have r: "r \<in> set (wk_entities w)" "wc_lower c name \<in> wc_lower c ` set (entity_names r)"
    by (simp_all add: wiki_named_iff [OF representsD(11) [OF assms]])
  let ?row = "\<lparr>nm_lower = wc_lower c name, nm_entity_id = we_id r\<rparr>"
  have "?row \<in> set (t_names db)"
    using r by (auto simp: representsD(5) [OF assms] name_rows_def)
  then have "find (\<lambda>u. nm_lower u = nm_lower ?row) (t_names db) = Some ?row"
    by (rule find_key_unique [OF representsD(6) [OF assms]])
  with Some show ?thesis by simp
qed

theorem resolve_entity_read:
  assumes "represents c db w"
  shows "resolve_entity c db name =
    (case wiki_named c w name of
       Some r \<Rightarrow> Inr (we_id r)
     | None \<Rightarrow> Inl (EntityNotFound name
         (case suggest_similar_entities c db name of Inl _ \<Rightarrow> [] | Inr s \<Rightarrow> s)))"
  using name_lookup [OF assms, of name]
  by (cases "wiki_named c w name"; cases "find (\<lambda>r. nm_lower r = wc_lower c name) (t_names db)")
    (simp_all add: resolve_entity_def)

theorem entity_get_read:
  assumes "represents c db w" "wiki_codec_ok c"
  shows "entity_get c db name =
    (case wiki_named c w name of
       Some r \<Rightarrow> Inr (stored_entity c r)
     | None \<Rightarrow> Inl (EntityNotFound name
         (case suggest_similar_entities c db name of Inl _ \<Rightarrow> [] | Inr s \<Rightarrow> s)))"
proof (cases "wiki_named c w name")
  case (Some r)
  then have "wiki_entity w (we_id r) = Some r"
    using wiki_named_iff wiki_entity_iff representsD(11) [OF assms(1)] by metis
  with Some show ?thesis
    by (simp add: entity_get_def resolve_entity_read [OF assms(1)] entity_record_read [OF assms])
qed (simp add: entity_get_def resolve_entity_read [OF assms(1)])

section \<open>Index rows\<close>

lemma insert_names_Inr:
  "insert_names c i ns t = Inr t' \<longleftrightarrow>
     distinct (map (wc_lower c) ns) \<and> wc_lower c ` set ns \<inter> nm_lower ` set t = {} \<and>
     t' = t @ map (\<lambda>n. \<lparr>nm_lower = wc_lower c n, nm_entity_id = i\<rparr>) ns"
  by (induction ns arbitrary: t)
    (auto simp: sql_write_def insert_row_def name_clash_def list_ex_iff)

lemma insert_names_distinct:
  assumes "insert_names c i ns t = Inr t'" "distinct (map nm_lower t)"
  shows "distinct (map nm_lower t')"
  using assms unfolding insert_names_Inr by (auto simp: o_def)

lemma insert_names_Inl: "insert_names c i ns t = Inl e \<Longrightarrow> \<exists>k. e = StoreWrite ''entity_names'' k"
  by (induction ns arbitrary: t) (auto simp: sql_write_def and_then_Inl_iff ok_or_def split: option.splits)

lemma insert_tags_Inr:
  assumes "known i" "distinct t"
  shows "\<exists>t'. insert_tags known i gs t = Inr t' \<and> distinct t' \<and>
    set t' = set t \<union> (\<lambda>g. \<lparr>tg_entity_id = i, tg_tag = g\<rparr>) ` set gs"
  using assms(2)
proof (induction gs arbitrary: t)
  case (Cons g gs)
  let ?row = "\<lparr>tg_entity_id = i, tg_tag = g\<rparr>"
  define u where "u = (if ?row \<in> set t then t else t @ [?row])"
  have "insert_or_ignore (=) (\<lambda>_. True) (\<lambda>r. known (tg_entity_id r)) ?row t = Some u"
    using assms(1) by (auto simp: insert_or_ignore_def list_ex_iff u_def)
  moreover have "distinct u" "set u = insert ?row (set t)"
    using Cons.prems by (auto simp: u_def)
  ultimately show ?case
    using Cons.IH [of u] by (auto simp: sql_write_def)
qed simp

lemma replace_tags_Inr:
  assumes "entity_known db (we_id r)" "distinct (t_tags db)"
  shows "\<exists>t. replace_entity_tags r db = Inr (db\<lparr>t_tags := t\<rparr>) \<and> distinct t \<and>
    set t = {u \<in> set (t_tags db). tg_entity_id u \<noteq> we_id r} \<union> tag_rows r"
proof -
  have "distinct (delete_rows (\<lambda>u. tg_entity_id u = we_id r) (t_tags db))"
    using assms(2) by (simp add: delete_rows_def)
  from insert_tags_Inr [where known = "entity_known db" and i = "we_id r" and gs = "we_tags r",
      OF assms(1) this] show ?thesis
    by (auto simp: replace_entity_tags_def tag_rows_def delete_rows_def)
qed

section \<open>Adding\<close>

definition add_entity :: "entity_record \<Rightarrow> wiki \<Rightarrow> wiki" where
  "add_entity r w = w\<lparr>wk_entities := wk_entities w @ [r]\<rparr>"

lemma wiki_inv_entities:
  assumes "wiki_inv c w"
  shows "wiki_inv c (w\<lparr>wk_entities := es\<rparr>) \<longleftrightarrow>
    distinct (map we_id es) \<and> distinct (map we_name_lower es) \<and>
    distinct (map nm_lower (concat (map (name_rows c) es)))"
  using assms by (simp add: wiki_inv_def)

lemma wiki_inv_add:
  assumes "wiki_inv c w"
  shows "wiki_inv c (add_entity r w) \<longleftrightarrow>
    we_id r \<notin> we_id ` set (wk_entities w) \<and> we_name_lower r \<notin> we_name_lower ` set (wk_entities w) \<and>
    distinct (map (wc_lower c) (entity_names r)) \<and>
    wc_lower c ` set (entity_names r) \<inter> nm_lower ` set (concat (map (name_rows c) (wk_entities w))) = {}"
proof -
  have "map nm_lower (name_rows c r) = map (wc_lower c) (entity_names r)"
    by (simp add: name_rows_def)
  then show ?thesis
    using assms
    unfolding wiki_inv_def add_entity_def
    by (simp del: set_concat) (metis (no_types, lifting) Int_commute list.set_map)
qed

text \<open>
  An insert succeeds exactly when the enlarged wiki satisfies the invariant, and then represents
  it; otherwise it is a \<open>StoreWrite\<close> error.
\<close>

theorem insert_entity_refines:
  assumes "represents c db w"
  shows "if wiki_inv c (add_entity r w)
    then \<exists>db'. insert_entity_record c r db = Inr db' \<and> represents c db' (add_entity r w)
    else \<exists>t k. insert_entity_record c r db = Inl (StoreWrite t k)"
proof -
  note rep = representsD [OF assms]
  note inv = wiki_inv_add [OF rep(11), of r]
  let ?row = "entity_row_of c r"
  have ins: "insert_row entity_clash (\<lambda>_. True) (\<lambda>_. True) ?row (t_entities db) =
      (if we_id r \<notin> we_id ` set (wk_entities w) \<and> we_name_lower r \<notin> we_name_lower ` set (wk_entities w)
       then Some (t_entities db @ [?row]) else None)"
    by (auto simp: insert_row_def list_ex_iff entity_clash_def rep(1))
  show ?thesis
  proof (cases "we_id r \<notin> we_id ` set (wk_entities w) \<and>
      we_name_lower r \<notin> we_name_lower ` set (wk_entities w)")
    case False
    then show ?thesis
      unfolding inv insert_entity_record_def ins sql_write_def by auto
  next
    case fresh: True
    note names = insert_names_Inr [of c "we_id r" "entity_names r" "t_names db"]
    show ?thesis
    proof (cases "insert_names c (we_id r) (entity_names r) (t_names db)")
      case (Inl e)
      then have "\<not> wiki_inv c (add_entity r w)"
        using names fresh unfolding inv rep(5) [symmetric] by (auto simp del: set_concat)
      moreover have "insert_entity_record c r db = Inl e"
        using fresh Inl unfolding insert_entity_record_def ins sql_write_def entity_names_def by simp
      ultimately show ?thesis
        using insert_names_Inl [OF Inl] by auto
    next
      case (Inr ns)
      then have ok: "wiki_inv c (add_entity r w)" and ns: "ns = t_names db @ name_rows c r"
        using names fresh unfolding inv rep(5) [symmetric]
        by (auto simp del: set_concat simp: name_rows_def)
      let ?db = "db\<lparr>t_entities := t_entities db @ [?row], t_names := ns\<rparr>"
      obtain t where t: "replace_entity_tags r ?db = Inr (?db\<lparr>t_tags := t\<rparr>)" "distinct t"
        "set t = {u \<in> set (t_tags db). tg_entity_id u \<noteq> we_id r} \<union> tag_rows r"
        using replace_tags_Inr [of ?db r] rep(8) by (auto simp: entity_known_def)
      have "{u \<in> set (t_tags db). tg_entity_id u \<noteq> we_id r} = set (t_tags db)"
        using fresh by (auto simp: rep(7) tag_rows_def) (metis imageI)
      moreover have "distinct (map nm_lower ns)"
        by (rule insert_names_distinct [OF Inr rep(6)])
      ultimately have "represents c (?db\<lparr>t_tags := t\<rparr>) (add_entity r w)"
        using t(2,3) ok rep
        unfolding represents_def by (auto simp: add_entity_def ns)
      moreover have "insert_entity_record c r db = Inr (?db\<lparr>t_tags := t\<rparr>)"
        using fresh Inr t(1) unfolding insert_entity_record_def ins sql_write_def entity_names_def
        by simp
      ultimately show ?thesis
        using ok by auto
    qed
  qed
qed

section \<open>Updating\<close>

lemma replace_split:
  assumes "distinct (map k xs)" "k r \<in> k ` set xs"
  obtains as x bs where "xs = as @ x # bs" "k x = k r" "k r \<notin> k ` set (as @ bs)"
    "map (\<lambda>u. if k u = k r then r else u) xs = as @ r # bs"
proof -
  obtain x where x: "x \<in> set xs" "k x = k r"
    using assms(2) by auto
  then obtain as bs where xs: "xs = as @ x # bs"
    by (metis split_list)
  then have out: "k r \<notin> k ` set (as @ bs)"
    using assms(1) x(2) by auto
  then have "map (\<lambda>u. if k u = k r then r else u) ys = ys" if "set ys \<subseteq> set (as @ bs)" for ys
    using that by (intro map_idI) (metis imageI subsetD)
  then have "map (\<lambda>u. if k u = k r then r else u) xs = as @ r # bs"
    using x(2) by (simp add: xs)
  with that xs x(2) out show thesis by blast
qed

definition put_entity :: "entity_record \<Rightarrow> wiki \<Rightarrow> wiki" where
  "put_entity r w = w\<lparr>wk_entities := map (\<lambda>u. if we_id u = we_id r then r else u) (wk_entities w)\<rparr>"

definition others :: "entity_id \<Rightarrow> entity_record list \<Rightarrow> entity_record list" where
  "others i es = filter (\<lambda>u. we_id u \<noteq> i) es"

lemma others_split:
  assumes "we_id x = i" "i \<notin> we_id ` set (as @ bs)"
  shows "others i (as @ x # bs) = as @ bs"
proof -
  have "filter (\<lambda>u. we_id u \<noteq> i) ys = ys" if "set ys \<subseteq> set (as @ bs)" for ys
    using that assms(2) by (intro filter_True) (auto simp: image_iff)
  then show ?thesis
    using assms(1) by (simp add: others_def)
qed

lemma wiki_inv_put:
  assumes "wiki_inv c w" "we_id r \<in> we_id ` set (wk_entities w)"
  shows "wiki_inv c (put_entity r w) \<longleftrightarrow>
    we_name_lower r \<notin> we_name_lower ` set (others (we_id r) (wk_entities w)) \<and>
    distinct (map (wc_lower c) (entity_names r)) \<and>
    wc_lower c ` set (entity_names r) \<inter>
      nm_lower ` set (concat (map (name_rows c) (others (we_id r) (wk_entities w)))) = {}"
proof -
  obtain as x bs where sp: "wk_entities w = as @ x # bs" "we_id x = we_id r"
    "we_id r \<notin> we_id ` set (as @ bs)"
    "map (\<lambda>u. if we_id u = we_id r then r else u) (wk_entities w) = as @ r # bs"
    by (rule replace_split [OF wiki_invD(1) [OF assms(1)] assms(2)])
  have ot: "others (we_id r) (wk_entities w) = as @ bs"
    unfolding sp(1) by (rule others_split [OF sp(2,3)])
  have names: "map nm_lower (name_rows c r) = map (wc_lower c) (entity_names r)"
    by (simp add: name_rows_def)
  have old: "distinct (map we_id (as @ bs))" "distinct (map we_name_lower (as @ bs))"
    "distinct (map nm_lower (concat (map (name_rows c) (as @ bs))))"
    using wiki_invD(1-3) [OF assms(1)] unfolding sp(1)
    by (simp_all add: Int_Un_distrib del: set_concat)
  have new: "wiki_inv c (put_entity r w) \<longleftrightarrow>
      distinct (map we_id (as @ r # bs)) \<and> distinct (map we_name_lower (as @ r # bs)) \<and>
      distinct (map nm_lower (concat (map (name_rows c) (as @ r # bs))))"
    unfolding put_entity_def wiki_inv_entities [OF assms(1)] sp(4) ..
  have ids: "distinct (map we_id (as @ r # bs))"
    using old(1) sp(3) by auto
  have lower: "distinct (map we_name_lower (as @ r # bs)) \<longleftrightarrow>
      we_name_lower r \<notin> we_name_lower ` set (as @ bs)"
    using old(2) by auto
  have "mset (map nm_lower (concat (map (name_rows c) (as @ r # bs)))) =
      mset (map nm_lower (name_rows c r @ concat (map (name_rows c) (as @ bs))))"
    by simp
  then have "distinct (map nm_lower (concat (map (name_rows c) (as @ r # bs)))) \<longleftrightarrow>
      distinct (map nm_lower (name_rows c r @ concat (map (name_rows c) (as @ bs))))"
    by (metis mset_eq_imp_distinct_iff)
  also have "\<dots> \<longleftrightarrow> distinct (map (wc_lower c) (entity_names r)) \<and>
      wc_lower c ` set (entity_names r) \<inter> nm_lower ` set (concat (map (name_rows c) (as @ bs))) = {}"
    using old(3) by (simp only: map_append distinct_append names set_map simp_thms conj_commute)
  finally show ?thesis
    unfolding new ot using ids lower by blast
qed

theorem update_entity_refines:
  assumes "represents c db w" "we_id r \<in> we_id ` set (wk_entities w)"
  shows "if wiki_inv c (put_entity r w)
    then \<exists>db'. update_entity_record c r db = Inr db' \<and> represents c db' (put_entity r w)
    else \<exists>t k. update_entity_record c r db = Inl (StoreWrite t k)"
proof -
  note rep = representsD [OF assms(1)]
  note inv = wiki_inv_put [OF rep(11) assms(2)]
  let ?os = "others (we_id r) (wk_entities w)"
  let ?row = "entity_row_of c r"
  let ?names = "delete_rows (\<lambda>u. nm_entity_id u = we_id r) (t_names db)"
  have os: "set ?os = {u \<in> set (wk_entities w). we_id u \<noteq> we_id r}"
    by (auto simp: others_def)
  have upd: "update_unique (\<lambda>a b. en_name_lower a = en_name_lower b) (\<lambda>_. True)
      (\<lambda>u. en_id u = we_id r) (\<lambda>_. ?row) (t_entities db) =
    (if we_name_lower r \<notin> we_name_lower ` set ?os
     then Some (map (entity_row_of c) (wk_entities (put_entity r w))) else None)"
    using assms(2)
    by (auto simp: update_unique_def list_all_iff list_ex_iff rep(1) os put_entity_def)
  have kept: "set ?names = set (concat (map (name_rows c) ?os))"
    by (auto simp: delete_rows_def rep(5) others_def name_rows_def)
  show ?thesis
  proof (cases "we_name_lower r \<notin> we_name_lower ` set ?os")
    case False
    then show ?thesis
      unfolding inv update_entity_record_def upd sql_write_def by auto
  next
    case free: True
    note names = insert_names_Inr [of c "we_id r" "entity_names r" ?names, unfolded kept]
    show ?thesis
    proof (cases "insert_names c (we_id r) (entity_names r) ?names")
      case (Inl e)
      then have "\<not> wiki_inv c (put_entity r w)"
        using names free unfolding inv by (auto simp del: set_concat)
      moreover have "update_entity_record c r db = Inl e"
        using free Inl unfolding update_entity_record_def upd sql_write_def entity_names_def by simp
      ultimately show ?thesis
        using insert_names_Inl [OF Inl] by auto
    next
      case (Inr ns)
      then have ok: "wiki_inv c (put_entity r w)" and ns: "ns = ?names @ name_rows c r"
        using names free unfolding inv by (auto simp del: set_concat simp: name_rows_def)
      let ?db = "db\<lparr>t_entities := map (entity_row_of c) (wk_entities (put_entity r w)), t_names := ns\<rparr>"
      have "entity_known ?db (we_id r)"
        using assms(2) by (auto simp: entity_known_def list_ex_iff put_entity_def)
      then obtain t where t: "replace_entity_tags r ?db = Inr (?db\<lparr>t_tags := t\<rparr>)" "distinct t"
        "set t = {u \<in> set (t_tags db). tg_entity_id u \<noteq> we_id r} \<union> tag_rows r"
        using replace_tags_Inr [of ?db r] rep(8) by auto
      have es: "set (wk_entities (put_entity r w)) = insert r (set ?os)"
        using assms(2) by (auto simp: put_entity_def os)
      have "set t = (\<Union>u\<in>set (wk_entities (put_entity r w)). tag_rows u)"
        unfolding t(3) es by (auto simp: rep(7) tag_rows_def os)
      moreover have "distinct (map nm_lower ns)"
        by (rule insert_names_distinct [OF Inr delete_keys [OF rep(6)]])
      moreover have "set ns = set (concat (map (name_rows c) (wk_entities (put_entity r w))))"
        unfolding ns using es by (simp add: kept Un_commute)
      ultimately have "represents c (?db\<lparr>t_tags := t\<rparr>) (put_entity r w)"
        using t(2) ok rep
        unfolding represents_def by (simp add: put_entity_def)
      moreover have "update_entity_record c r db = Inr (?db\<lparr>t_tags := t\<rparr>)"
        using free Inr t(1) unfolding update_entity_record_def upd sql_write_def entity_names_def
        by simp
      ultimately show ?thesis
        using ok by auto
    qed
  qed
qed

end
