(* ===== verification/Wiki_Records.thy ===== *)
theory Wiki_Records
  imports Wiki_Entities
begin

text \<open>
  Fact and relation writes of the SQLite wiki store against the wiki its tables represent.
\<close>

section \<open>Links\<close>

lemma link_entities_set:
  "set (link_entities f es t) = set t \<union> (\<lambda>e. \<lparr>lk_entity_id = e, lk_fact_id = f\<rparr>) ` set es"
  by (induction es arbitrary: t) (auto simp: Let_def)

lemma link_entities_distinct: "distinct t \<Longrightarrow> distinct (link_entities f es t)"
  by (induction es arbitrary: t) (auto simp: Let_def)

definition links_ok :: "wiki_fact list \<Rightarrow> link_row list \<Rightarrow> bool" where
  "links_ok fs ls \<longleftrightarrow>
     (\<forall>l\<in>set ls. \<exists>f\<in>set fs. wf_id f = lk_fact_id l \<and> lk_entity_id l \<in> set (wf_entity_ids f))"

definition fact_ok :: "wiki_fact \<Rightarrow> bool" where
  "fact_ok f \<longleftrightarrow> fact_floats_finite f \<and> normalize_source_id (wf_source_id f) = wf_source_id f"

lemma wiki_inv_facts:
  assumes "wiki_inv c w"
  shows "wiki_inv c (w\<lparr>wk_facts := fs, wk_links := ls\<rparr>) \<longleftrightarrow>
    distinct (map wf_id fs) \<and> distinct (map (fact_key c) fs) \<and> (\<forall>f\<in>set fs. fact_ok f) \<and>
    distinct ls \<and> links_ok fs ls"
  using assms by (auto simp: wiki_inv_def links_ok_def fact_ok_def list_all_iff list_ex_iff)

lemma facts_okD:
  assumes "wiki_inv c w"
  shows "\<And>f. f \<in> set (wk_facts w) \<Longrightarrow> fact_ok f" "links_ok (wk_facts w) (wk_links w)"
  using wiki_invD(6,7,9) [OF assms] by (auto simp: fact_ok_def links_ok_def)

lemma fact_ok_not_nan: "fact_ok f \<Longrightarrow> \<not> f32_is_nan (wf_source_confidence f)"
  by (simp add: fact_ok_def fact_floats_finite_def f32_is_finite_def f32_is_nan_def)

text \<open>Ids and deduplication keys of the rows.\<close>

lemma fact_rows_keys:
  assumes "represents c db w"
  shows "map (\<lambda>r. (fr_id r, dedup_key r)) (t_facts db) =
    map (\<lambda>f. (wf_id f, fact_key c f)) (wk_facts w)"
  using facts_map [OF assms, of "\<lambda>r. (fr_id r, dedup_key r)"] by simp

lemma ex_fact_row:
  assumes "represents c db w"
  shows "(\<exists>r\<in>set (t_facts db). P (fr_id r) (dedup_key r)) \<longleftrightarrow>
    (\<exists>f\<in>set (wk_facts w). P (wf_id f) (fact_key c f))"
proof -
  have "(\<exists>k\<in>set (map (\<lambda>r. (fr_id r, dedup_key r)) (t_facts db)). P (fst k) (snd k)) \<longleftrightarrow>
      (\<exists>k\<in>set (map (\<lambda>f. (wf_id f, fact_key c f)) (wk_facts w)). P (fst k) (snd k))"
    unfolding fact_rows_keys [OF assms] ..
  then show ?thesis by simp
qed

section \<open>Inserting a fact\<close>

definition add_fact :: "wiki_fact \<Rightarrow> wiki \<Rightarrow> wiki" where
  "add_fact f w = w\<lparr>wk_facts := wk_facts w @ [f],
     wk_links := link_entities (wf_id f) (wf_entity_ids f) (wk_links w)\<rparr>"

lemma wiki_inv_add_fact:
  assumes "wiki_inv c w" "fact_ok f"
  shows "wiki_inv c (add_fact f w) \<longleftrightarrow>
    wf_id f \<notin> wf_id ` set (wk_facts w) \<and> fact_key c f \<notin> fact_key c ` set (wk_facts w)"
proof -
  have "links_ok (wk_facts w @ [f]) (link_entities (wf_id f) (wf_entity_ids f) (wk_links w))"
    using facts_okD(2) [OF assms(1)] by (auto simp: links_ok_def link_entities_set)
  then show ?thesis
    unfolding add_fact_def wiki_inv_facts [OF assms(1)]
    using wiki_invD(4,5,8) [OF assms(1)] facts_okD(1) [OF assms(1)] assms(2)
    by (auto simp: link_entities_distinct)
qed

theorem insert_fact_refines:
  assumes "represents c db w" "fact_ok f"
  shows "if wiki_inv c (add_fact f w)
    then \<exists>db'. insert_fact_record c f (wc_sha_hex c (wf_content f)) db = Inr db' \<and>
           represents c db' (add_fact f w)
    else insert_fact_record c f (wc_sha_hex c (wf_content f)) db =
           Inl (StoreWrite ''facts'' (wc_ulid_text c (wf_id f)))"
proof -
  note rep = representsD [OF assms(1)]
  let ?row = "fact_row_of c f (wc_sha_hex c (wf_content f))"
  have row: "?row = fact_row c f"
    by (simp add: fact_row_def)
  have "list_ex (fact_clash ?row) (t_facts db) \<longleftrightarrow> \<not> wiki_inv c (add_fact f w)"
    unfolding wiki_inv_add_fact [OF rep(11) assms(2)] list_ex_iff row fact_clash_def fact_row_simps
      ex_fact_row [OF assms(1), where P = "\<lambda>i k. wf_id f = i \<or> fact_key c f = k"]
    by auto
  moreover have "fact_check ?row"
    using fact_ok_not_nan [OF assms(2)] by (simp add: fact_check_def fact_row_of_def)
  ultimately have ins: "insert_row fact_clash fact_check (\<lambda>_. True) ?row (t_facts db) =
      (if wiki_inv c (add_fact f w) then Some (t_facts db @ [?row]) else None)"
    by (simp add: insert_row_def)
  let ?db = "db\<lparr>t_facts := t_facts db @ [?row],
    t_fts := t_fts db @ [\<lparr>ft_fact_id = wf_id f, ft_content = wf_content f\<rparr>],
    t_links := link_entities (wf_id f) (wf_entity_ids f) (t_links db)\<rparr>"
  have "represents c ?db (add_fact f w)" if "wiki_inv c (add_fact f w)"
  proof -
    have "wf_id f \<notin> ft_fact_id ` set (t_fts db)"
      using that wiki_inv_add_fact [OF rep(11) assms(2)] by (auto simp: rep(9))
    then show ?thesis
      using that rep unfolding represents_def by (simp add: add_fact_def row)
  qed
  then show ?thesis
    by (simp add: insert_fact_record_def ins sql_write_def)
qed

section \<open>Updating a fact\<close>

definition put_facts :: "wiki_fact \<Rightarrow> wiki_fact list \<Rightarrow> wiki_fact list" where
  "put_facts f fs = map (\<lambda>u. if wf_id u = wf_id f then f else u) fs"

definition put_fact :: "wiki_fact \<Rightarrow> wiki \<Rightarrow> wiki" where
  "put_fact f w = w\<lparr>wk_facts := put_facts f (wk_facts w)\<rparr>"

definition key_free :: "'j wiki_codec \<Rightarrow> wiki_fact \<Rightarrow> wiki \<Rightarrow> bool" where
  "key_free c f w \<longleftrightarrow> (\<forall>u\<in>set (wk_facts w). wf_id u \<noteq> wf_id f \<longrightarrow> fact_key c u \<noteq> fact_key c f)"

lemma put_facts_ids: "map wf_id (put_facts f fs) = map wf_id fs"
  by (simp add: put_facts_def)

lemma put_facts_set:
  assumes "wf_id f \<in> wf_id ` set fs"
  shows "set (put_facts f fs) = insert f {u \<in> set fs. wf_id u \<noteq> wf_id f}"
  using assms by (auto simp: put_facts_def)

lemma put_facts_keys:
  assumes "wiki_inv c w" "wf_id f \<in> wf_id ` set (wk_facts w)"
  shows "distinct (map (fact_key c) (put_facts f (wk_facts w))) \<longleftrightarrow> key_free c f w"
proof -
  obtain as x bs where sp: "wk_facts w = as @ x # bs" "wf_id x = wf_id f"
    "wf_id f \<notin> wf_id ` set (as @ bs)"
    "map (\<lambda>u. if wf_id u = wf_id f then f else u) (wk_facts w) = as @ f # bs"
    by (rule replace_split [OF wiki_invD(4) [OF assms(1)] assms(2)])
  have "distinct (map (fact_key c) (as @ bs))"
    using wiki_invD(5) [OF assms(1)] unfolding sp(1) by simp
  then have "distinct (map (fact_key c) (as @ f # bs)) \<longleftrightarrow> fact_key c f \<notin> fact_key c ` set (as @ bs)"
    by auto
  also have "\<dots> \<longleftrightarrow> key_free c f w"
    using sp(2,3) unfolding key_free_def sp(1) by (simp add: image_iff) metis
  finally show ?thesis
    by (simp add: put_facts_def sp(4))
qed

text \<open>The table write, whatever the links are.\<close>

lemma update_fact_tables:
  assumes "represents c db w" "fact_ok f"
  shows "if key_free c f w
    then \<exists>fs ts. update_fact_record c f db = Inr (db\<lparr>t_facts := fs, t_fts := ts\<rparr>) \<and>
      map undated fs = map (\<lambda>u. undated (fact_row c u)) (put_facts f (wk_facts w)) \<and>
      (wf_id f \<in> wf_id ` set (wk_facts w) \<longrightarrow>
        set ts = (\<lambda>u. \<lparr>ft_fact_id = wf_id u, ft_content = wf_content u\<rparr>) ` set (put_facts f (wk_facts w)) \<and>
        distinct (map ft_fact_id ts))
    else update_fact_record c f db = Inl (StoreWrite ''facts'' (wc_ulid_text c (wf_id f))) \<or>
         wf_id f \<notin> wf_id ` set (wk_facts w)"
proof -
  note rep = representsD [OF assms(1)]
  let ?new = "\<lambda>u :: 'a wiki_fact_row. (fact_row c f)\<lparr>fr_created_at := fr_created_at u\<rparr>"
  let ?fs = "map (\<lambda>r. if fr_id r = wf_id f then ?new r else r) (t_facts db)"
  let ?ts = "delete_rows (\<lambda>u. ft_fact_id u = wf_id f) (t_fts db)
    @ [\<lparr>ft_fact_id = wf_id f, ft_content = wf_content f\<rparr>]"
  have new: "dedup_key (?new u) = fact_key c f" "fact_check (?new u)" for u
    using fact_ok_not_nan [OF assms(2)] fact_row_simps(3) [of c f]
    by (simp_all add: dedup_key_def fact_check_def) (simp add: fact_row_def fact_row_of_def)
  have clash: "list_ex (\<lambda>u. fr_id u \<noteq> wf_id f \<and> fact_key c f = dedup_key u) (t_facts db) \<longleftrightarrow> \<not> key_free c f w"
    unfolding list_ex_iff key_free_def
      ex_fact_row [OF assms(1), where P = "\<lambda>i k. i \<noteq> wf_id f \<and> fact_key c f = k"] by auto
  have present: "(\<exists>r\<in>set (t_facts db). fr_id r = wf_id f) \<longleftrightarrow> wf_id f \<in> wf_id ` set (wk_facts w)"
    using ex_fact_row [OF assms(1), where P = "\<lambda>i k. i = wf_id f"]
    by (simp add: image_iff eq_commute)
  have upd: "update_unique (\<lambda>a b. dedup_key a = dedup_key b) fact_check (\<lambda>u. fr_id u = wf_id f) ?new
      (t_facts db) =
    (if wf_id f \<in> wf_id ` set (wk_facts w) \<and> \<not> key_free c f w then None else Some ?fs)"
    unfolding update_unique_def new clash list_all_iff present [symmetric]
    by (auto simp: new(2))
  have "map undated ?fs = map (\<lambda>u. if fr_id u = wf_id f then undated (fact_row c f) else u)
      (map undated (t_facts db))"
    by simp
  also have "\<dots> = map (\<lambda>u. undated (fact_row c u)) (put_facts f (wk_facts w))"
    unfolding rep(2) by (simp add: put_facts_def)
  finally have facts: "map undated ?fs = map (\<lambda>u. undated (fact_row c u)) (put_facts f (wk_facts w))" .
  have index: "set ?ts = (\<lambda>u. \<lparr>ft_fact_id = wf_id u, ft_content = wf_content u\<rparr>) ` set (put_facts f (wk_facts w)) \<and>
      distinct (map ft_fact_id ?ts)" if "wf_id f \<in> wf_id ` set (wk_facts w)"
    using rep(10) delete_keys [OF rep(10), of "\<lambda>u. ft_fact_id u = wf_id f"]
    unfolding put_facts_set [OF that] by (auto simp: delete_rows_def rep(9))
  have res: "update_fact_record c f db =
      (if wf_id f \<in> wf_id ` set (wk_facts w) \<and> \<not> key_free c f w
       then Inl (StoreWrite ''facts'' (wc_ulid_text c (wf_id f)))
       else Inr (db\<lparr>t_facts := ?fs, t_fts := ?ts\<rparr>))"
    by (simp add: update_fact_record_def fact_row_def [symmetric] upd sql_write_def)
  show ?thesis
  proof (cases "key_free c f w")
    case True
    then have "update_fact_record c f db = Inr (db\<lparr>t_facts := ?fs, t_fts := ?ts\<rparr>)"
      by (simp add: res)
    with True facts index show ?thesis by (simp only: if_True) blast
  qed (simp add: res)
qed

lemma put_fact_links:
  assumes "links_ok fs ls" "\<And>u. u \<in> set fs \<Longrightarrow> wf_id u = wf_id f \<Longrightarrow> set (wf_entity_ids u) \<subseteq> set (wf_entity_ids f)"
  shows "links_ok (put_facts f fs) ls"
proof -
  have "\<exists>v\<in>set (put_facts f fs). wf_id v = wf_id u \<and> set (wf_entity_ids u) \<subseteq> set (wf_entity_ids v)"
    if "u \<in> set fs" for u
    using that assms(2) by (cases "wf_id u = wf_id f") (force simp: put_facts_def)+
  then show ?thesis
    using assms(1) unfolding links_ok_def by (metis subsetD)
qed

text \<open>An update of a known fact, with any set of links the new records allow.\<close>

lemma update_fact_with_links:
  assumes "represents c db w" "fact_ok f" "wf_id f \<in> wf_id ` set (wk_facts w)" "key_free c f w"
    and "distinct ls" "links_ok (put_facts f (wk_facts w)) ls"
  shows "\<exists>db'. update_fact_record c f db = Inr db' \<and>
    represents c (db'\<lparr>t_links := ls\<rparr>) (w\<lparr>wk_facts := put_facts f (wk_facts w), wk_links := ls\<rparr>)"
proof -
  note rep = representsD [OF assms(1)]
  obtain fs ts where upd: "update_fact_record c f db = Inr (db\<lparr>t_facts := fs, t_fts := ts\<rparr>)"
    "map undated fs = map (\<lambda>u. undated (fact_row c u)) (put_facts f (wk_facts w))"
    "set ts = (\<lambda>u. \<lparr>ft_fact_id = wf_id u, ft_content = wf_content u\<rparr>) ` set (put_facts f (wk_facts w))"
    "distinct (map ft_fact_id ts)"
    using update_fact_tables [OF assms(1,2)] assms(3,4) by auto
  have "wiki_inv c (w\<lparr>wk_facts := put_facts f (wk_facts w), wk_links := ls\<rparr>)"
    unfolding wiki_inv_facts [OF rep(11)] put_facts_ids put_facts_keys [OF rep(11) assms(3)]
    using assms wiki_invD(4) [OF rep(11)] facts_okD(1) [OF rep(11)]
    by (auto simp: put_facts_set [OF assms(3)])
  then have "represents c (db\<lparr>t_facts := fs, t_fts := ts, t_links := ls\<rparr>)
      (w\<lparr>wk_facts := put_facts f (wk_facts w), wk_links := ls\<rparr>)"
    using rep upd(2-4) unfolding represents_def by simp
  then show ?thesis
    using upd(1) by auto
qed

lemma update_fact_clash:
  assumes "represents c db w" "fact_ok f" "wf_id f \<in> wf_id ` set (wk_facts w)" "\<not> key_free c f w"
  shows "update_fact_record c f db = Inl (StoreWrite ''facts'' (wc_ulid_text c (wf_id f)))"
  using update_fact_tables [OF assms(1,2)] assms(3,4) by auto

lemma known_fact:
  assumes "wiki_inv c w" "wiki_fact_of w i = Some old"
  shows "old \<in> set (wk_facts w)" "wf_id old = i" "i \<in> wf_id ` set (wk_facts w)"
    "\<And>u. u \<in> set (wk_facts w) \<Longrightarrow> wf_id u = i \<Longrightarrow> u = old"
proof -
  show "old \<in> set (wk_facts w)" "wf_id old = i"
    using assms(2) by (simp_all add: wiki_fact_iff [OF assms(1)])
  then show "i \<in> wf_id ` set (wk_facts w)" by blast
  show "u = old" if "u \<in> set (wk_facts w)" "wf_id u = i" for u
    using that wiki_fact_iff [OF assms(1)] assms(2) by (metis option.inject)
qed

theorem update_fact_refines:
  assumes "represents c db w" "fact_ok f" "wiki_fact_of w (wf_id f) = Some old"
    and "set (wf_entity_ids old) \<subseteq> set (wf_entity_ids f)"
  shows "if key_free c f w
    then \<exists>db'. update_fact_record c f db = Inr db' \<and> represents c db' (put_fact f w)
    else update_fact_record c f db = Inl (StoreWrite ''facts'' (wc_ulid_text c (wf_id f)))"
proof (cases "key_free c f w")
  case True
  note inv = representsD(11) [OF assms(1)]
  note old = known_fact [OF inv assms(3)]
  have "links_ok (put_facts f (wk_facts w)) (wk_links w)"
    using put_fact_links [OF facts_okD(2) [OF inv], of f] assms(4) old(4) by blast
  from update_fact_with_links [OF assms(1,2) old(3) True wiki_invD(8) [OF inv] this]
  obtain db' where db': "update_fact_record c f db = Inr db'"
    "represents c (db'\<lparr>t_links := wk_links w\<rparr>) (put_fact f w)"
    by (auto simp: put_fact_def)
  moreover have "t_links db' = wk_links w"
    using db'(1) representsD(3) [OF assms(1)]
    by (auto simp: update_fact_record_def sql_write_def result_iffs)
  ultimately show ?thesis
    using True by (metis wiki_db.surjective wiki_db.update_convs(6))
qed (use update_fact_clash [OF assms(1,2)] known_fact(3) [OF representsD(11) [OF assms(1)] assms(3)]
    in auto)

section \<open>Deleting\<close>

definition del_fact :: "wiki_fact_id \<Rightarrow> wiki \<Rightarrow> wiki" where
  "del_fact i w = w\<lparr>wk_facts := filter (\<lambda>f. wf_id f \<noteq> i) (wk_facts w),
     wk_links := filter (\<lambda>l. lk_fact_id l \<noteq> i) (wk_links w)\<rparr>"

lemma distinct_map_filter_key: "distinct (map k xs) \<Longrightarrow> distinct (map k (filter P xs))"
  by (induction xs) auto

theorem fact_delete_refines:
  assumes "represents c db w"
  shows "represents c (fst (fact_delete c i db)) (del_fact i w)"
    and "snd (fact_delete c i db) =
      (case wiki_fact_of w i of None \<Rightarrow> Inl (FactNotFound (wc_ulid_text c i)) | Some _ \<Rightarrow> Inr ())"
proof -
  note rep = representsD [OF assms]
  note inv = rep(11)
  have "links_ok (filter (\<lambda>f. wf_id f \<noteq> i) (wk_facts w)) (filter (\<lambda>l. lk_fact_id l \<noteq> i) (wk_links w))"
    using facts_okD(2) [OF inv] unfolding links_ok_def by fastforce
  then have "wiki_inv c (del_fact i w)"
    using facts_okD(1) [OF inv] wiki_invD(4,5,8) [OF inv]
    unfolding del_fact_def wiki_inv_facts [OF inv]
    by (auto simp: distinct_map_filter_key)
  moreover have "map undated (delete_rows (\<lambda>u. fr_id u = i) (t_facts db)) =
      map (\<lambda>f. undated (fact_row c f)) (filter (\<lambda>f. wf_id f \<noteq> i) (wk_facts w))"
  proof -
    have "map undated (delete_rows (\<lambda>u. fr_id u = i) (t_facts db)) =
        filter (\<lambda>u. fr_id u \<noteq> i) (map undated (t_facts db))"
      by (simp add: delete_rows_def filter_map o_def)
    then show ?thesis
      unfolding rep(2) by (simp add: filter_map o_def)
  qed
  moreover have "set (delete_rows (\<lambda>u. ft_fact_id u = i) (t_fts db)) =
      (\<lambda>f. \<lparr>ft_fact_id = wf_id f, ft_content = wf_content f\<rparr>) ` {f \<in> set (wk_facts w). wf_id f \<noteq> i}"
    by (auto simp: delete_rows_def rep(9))
  ultimately show "represents c (fst (fact_delete c i db)) (del_fact i w)"
    using rep delete_keys [OF rep(10)]
    unfolding represents_def fact_delete_def by (simp add: del_fact_def delete_rows_def)
  have "list_ex (\<lambda>u. fr_id u = i) (t_facts db) \<longleftrightarrow> wiki_fact_of w i \<noteq> None"
    using ex_fact_row [OF assms, where P = "\<lambda>j k. j = i"]
    by (auto simp: list_ex_iff wiki_fact_of_def find_None_set)
  then show "snd (fact_delete c i db) =
      (case wiki_fact_of w i of None \<Rightarrow> Inl (FactNotFound (wc_ulid_text c i)) | Some _ \<Rightarrow> Inr ())"
    by (auto simp: fact_delete_def split: option.split)
qed

text \<open>Deleting what is not there changes nothing.\<close>

lemma del_fact_unknown:
  assumes "wiki_inv c w" "wiki_fact_of w i = None"
  shows "del_fact i w = w"
proof -
  have "\<forall>f\<in>set (wk_facts w). wf_id f \<noteq> i"
    using assms(2) by (simp add: wiki_fact_of_def find_None_set)
  moreover from this have "\<forall>l\<in>set (wk_links w). lk_fact_id l \<noteq> i"
    using facts_okD(2) [OF assms(1)] by (auto simp: links_ok_def)
  ultimately show ?thesis
    by (simp add: del_fact_def filter_id_conv)
qed

definition del_entity :: "entity_id \<Rightarrow> wiki \<Rightarrow> wiki" where
  "del_entity i w = w\<lparr>wk_entities := others i (wk_entities w),
     wk_links := filter (\<lambda>l. lk_entity_id l \<noteq> i) (wk_links w),
     wk_relations := filter (\<lambda>r. wr_source_id r \<noteq> i \<and> wr_target_id r \<noteq> i) (wk_relations w)\<rparr>"

lemma distinct_concat_filter:
  "distinct (map k (concat (map g xs))) \<Longrightarrow> distinct (map k (concat (map g (filter P xs))))"
proof (induction xs)
  case (Cons a xs)
  have "k ` set (concat (map g (filter P xs))) \<subseteq> k ` set (concat (map g xs))"
    by auto
  with Cons show ?case
    by (simp del: set_concat) blast
qed simp

theorem delete_entity_refines:
  assumes "represents c db w"
  shows "represents c (delete_entity_rows i db) (del_entity i w)"
proof -
  note rep = representsD [OF assms]
  note inv = rep(11)
  have links: "links_ok (wk_facts w) (filter (\<lambda>l. lk_entity_id l \<noteq> i) (wk_links w))"
    using facts_okD(2) [OF inv] by (auto simp: links_ok_def)
  have "wiki_inv c (del_entity i w)"
    using inv links
    unfolding wiki_inv_def del_entity_def others_def links_ok_def
    by (simp add: distinct_map_filter_key distinct_concat_filter list_all_iff list_ex_iff del: set_concat)
  moreover have "set (delete_rows (\<lambda>u. nm_entity_id u = i) (t_names db)) =
      set (concat (map (name_rows c) (others i (wk_entities w))))"
    by (auto simp: delete_rows_def rep(5) others_def name_rows_def)
  moreover have "set (delete_rows (\<lambda>u. tg_entity_id u = i) (t_tags db)) =
      (\<Union>r\<in>set (others i (wk_entities w)). tag_rows r)"
    by (auto simp: delete_rows_def rep(7) others_def tag_rows_def)
  ultimately show ?thesis
    using rep delete_keys [OF rep(6)]
    unfolding represents_def delete_entity_rows_def
    by (simp add: del_entity_def others_def delete_rows_def filter_map o_def del: set_concat)
qed

section \<open>Relations\<close>

definition relation_ok :: "relation_record \<Rightarrow> bool" where
  "relation_ok r \<longleftrightarrow> f32_is_finite (wr_weight r) \<and>
     normalize_source_id (wr_scope_source_id r) = wr_scope_source_id r"

definition put_relation :: "relation_record \<Rightarrow> wiki \<Rightarrow> wiki" where
  "put_relation r w =
    w\<lparr>wk_relations := filter (\<lambda>u. relation_key u \<noteq> relation_key r) (wk_relations w) @ [r]\<rparr>"

theorem insert_relation_refines:
  assumes "represents c db w" "relation_ok r"
  shows "represents c (insert_relation_record c r db) (put_relation r w)"
proof -
  note rep = representsD [OF assms(1)]
  have "wiki_inv c (put_relation r w)"
    using rep(11) assms(2)
    unfolding wiki_inv_def put_relation_def relation_ok_def
    by (auto simp: distinct_map_filter_key list_all_iff)
  then show ?thesis
    using rep unfolding represents_def
    by (simp add: put_relation_def insert_relation_record_def insert_or_replace_def delete_rows_def
        filter_map o_def)
qed

definition del_relation ::
  "entity_id \<times> string \<times> entity_id \<times> string \<Rightarrow> wiki \<Rightarrow> wiki" where
  "del_relation k w = w\<lparr>wk_relations := filter (\<lambda>u. relation_key u \<noteq> k) (wk_relations w)\<rparr>"

lemma delete_relation_refines:
  assumes "represents c db w"
  shows "represents c (db\<lparr>t_relations := delete_rows (\<lambda>u. relation_row_key u = k) (t_relations db)\<rparr>)
    (del_relation k w)"
proof -
  note rep = representsD [OF assms]
  have "wiki_inv c (del_relation k w)"
    using rep(11) unfolding wiki_inv_def del_relation_def
    by (auto simp: distinct_map_filter_key list_all_iff)
  then show ?thesis
    using rep unfolding represents_def
    by (simp add: del_relation_def delete_rows_def filter_map o_def)
qed

end
