(* ===== verification/Wiki_Operations.thy ===== *)
theory Wiki_Operations
  imports Wiki_Records
begin

text \<open>
  The public write operations of the SQLite wiki store on the wiki its tables represent.
\<close>

section \<open>Source namespaces\<close>

lemma normalize_idem [simp]: "normalize_source_id (normalize_source_id s) = normalize_source_id s"
  by (auto simp: normalize_source_id_def trim_text_idem split: option.splits)

section \<open>Entities\<close>

theorem entity_add_refines:
  assumes "represents c db w"
  shows "if wiki_inv c (add_entity (entity_of_input c now i e) w)
    then \<exists>db'. entity_add c now i e db = Inr (db', i) \<and>
           represents c db' (add_entity (entity_of_input c now i e) w)
    else \<exists>t k. entity_add c now i e db = Inl (StoreWrite t k)"
  using insert_entity_refines [OF assms, of "entity_of_input c now i e"]
  by (auto simp: entity_add_def split: if_splits)

text \<open>An update of the entity a name resolves to, under its optimistic token.\<close>

definition updated_entity :: "'j wiki_codec \<Rightarrow> u64 \<Rightarrow> entity_record \<Rightarrow> entity_update \<Rightarrow> entity_record" where
  "updated_entity c now r u = entity_record_update (wc_lower c) now (stored_entity c r) u"

lemma update_keeps_id [simp]: "we_id (entity_record_update lower now r u) = we_id r"
  by (simp add: entity_record_update_def Let_def split: option.split)

lemma update_stamp [simp]:
  "we_updated_at (entity_record_update lower now r u) = bumped now (we_updated_at r)"
  by (simp add: entity_record_update_def Let_def)

theorem entity_update_refines:
  assumes "represents c db w" "wiki_codec_ok c"
  shows "case wiki_named c w name of
      None \<Rightarrow> entity_update c now name u db = Inl (EntityNotFound name [])
    | Some r \<Rightarrow>
        if eu_expected_updated_at u \<noteq> None \<and> eu_expected_updated_at u \<noteq> Some (we_updated_at r)
        then entity_update c now name u db = Inl TransactionConflict
        else if wiki_inv c (put_entity (updated_entity c now r u) w)
        then \<exists>db'. entity_update c now name u db = Inr db' \<and>
               represents c db' (put_entity (updated_entity c now r u) w)
        else \<exists>t k. entity_update c now name u db = Inl (StoreWrite t k)"
proof (cases "wiki_named c w name")
  case None
  then show ?thesis
    using name_lookup [OF assms(1), of name] by (simp add: entity_update_def)
next
  case (Some r)
  note inv = representsD(11) [OF assms(1)]
  have r: "r \<in> set (wk_entities w)"
    using Some by (simp add: wiki_named_iff [OF inv])
  then have get: "get_entity_record c db (we_id r) = Inr (stored_entity c r)"
    using wiki_entity_iff [OF inv, of "we_id r" r] by (simp add: entity_record_read [OF assms])
  obtain row where row: "find (\<lambda>u. nm_lower u = wc_lower c name) (t_names db) = Some row"
    "nm_entity_id row = we_id r"
    using name_lookup [OF assms(1), of name] Some by auto
  have "we_id (updated_entity c now r u) \<in> we_id ` set (wk_entities w)"
    using r by (simp add: updated_entity_def)
  from update_entity_refines [OF assms(1) this] show ?thesis
    unfolding updated_entity_def [symmetric]
    by (auto simp: Some entity_update_def row get updated_entity_def split: option.splits if_splits)
qed

theorem entity_delete_refines:
  assumes "represents c db w" "wiki_codec_ok c"
  shows "case wiki_named c w name of
      None \<Rightarrow> \<exists>s. entity_delete c name db = Inl (EntityNotFound name s)
    | Some r \<Rightarrow> \<exists>db'. entity_delete c name db = Inr db' \<and> represents c db' (del_entity (we_id r) w)"
  using delete_entity_refines [OF assms(1)]
  by (auto simp: entity_delete_def entity_get_read [OF assms] split: option.split)

text \<open>
  Replicated records: an older or equally old version is skipped, as is a new entity whose name
  is taken.
\<close>

theorem entity_upsert_refines:
  assumes "represents c db w" "wiki_codec_ok c"
  shows "case wiki_entity w (we_id r) of
      Some old \<Rightarrow>
        if we_updated_at r \<le> we_updated_at old then entity_upsert_record c r db = Inr (db, False)
        else if wiki_inv c (put_entity r w)
        then \<exists>db'. entity_upsert_record c r db = Inr (db', True) \<and> represents c db' (put_entity r w)
        else \<exists>t k. entity_upsert_record c r db = Inl (StoreWrite t k)
    | None \<Rightarrow>
        if wiki_named c w (we_name r) \<noteq> None then entity_upsert_record c r db = Inr (db, False)
        else if wiki_inv c (add_entity r w)
        then \<exists>db'. entity_upsert_record c r db = Inr (db', True) \<and> represents c db' (add_entity r w)
        else \<exists>t k. entity_upsert_record c r db = Inl (StoreWrite t k)"
proof (cases "wiki_entity w (we_id r)")
  case (Some old)
  then have "we_id r \<in> we_id ` set (wk_entities w)"
    using wiki_entity_iff [OF representsD(11) [OF assms(1)]] by (metis imageI)
  from update_entity_refines [OF assms(1) this] Some show ?thesis
    by (auto simp: entity_upsert_record_def entity_record_read [OF assms] split: if_splits)
next
  case None
  have "existing \<noteq> we_id r" if "wiki_named c w (we_name r) = Some s" "existing = we_id s" for s existing
    using that None wiki_named_iff [OF representsD(11) [OF assms(1)]]
    by (auto simp: wiki_entity_def find_None_set)
  with insert_entity_refines [OF assms(1), of r] None show ?thesis
    by (auto simp: entity_upsert_record_def entity_record_read [OF assms]
        resolve_entity_read [OF assms(1)] split: if_splits option.splits)
qed

section \<open>Facts\<close>

definition appended :: "'a list \<Rightarrow> 'a list \<Rightarrow> 'a list" where
  "appended xs ys = foldl (\<lambda>acc y. if y \<in> set acc then acc else acc @ [y]) xs ys"

lemma appended_simps [simp]: "appended xs [] = xs"
  "appended xs (y # ys) = (if y \<in> set xs then appended xs ys else appended (xs @ [y]) ys)"
  by (simp_all add: appended_def)

lemma appended_set [simp]: "set (appended xs ys) = set xs \<union> set ys"
  by (induction ys arbitrary: xs) auto

text \<open>The record with the entities merged in, and the links.\<close>

definition merged_fact :: "entity_id list \<Rightarrow> wiki_fact \<Rightarrow> wiki_fact" where
  "merged_fact es f = f\<lparr>wf_entity_ids := appended (wf_entity_ids f) es\<rparr>"

definition merge_fact :: "entity_id list \<Rightarrow> wiki_fact \<Rightarrow> wiki \<Rightarrow> wiki" where
  "merge_fact es f w = w\<lparr>wk_facts := put_facts (merged_fact es f) (wk_facts w),
     wk_links := link_entities (wf_id f) es (wk_links w)\<rparr>"

lemma merged_fact_simps [simp]:
  "wf_id (merged_fact es f) = wf_id f" "fact_key c (merged_fact es f) = fact_key c f"
  "fact_ok (merged_fact es f) = fact_ok f"
  by (simp_all add: merged_fact_def fact_key_def fact_ok_def fact_floats_finite_def)

lemma put_facts_same:
  assumes "wiki_inv c w" "f \<in> set (wk_facts w)"
  shows "put_facts f (wk_facts w) = wk_facts w"
proof -
  have "u = f" if "u \<in> set (wk_facts w)" "wf_id u = wf_id f" for u
    using that wiki_fact_iff [OF assms(1)] assms(2) by (metis option.inject)
  then show ?thesis
    unfolding put_facts_def by (intro map_idI) auto
qed

lemma update_ignores_links:
  "update_fact_record c f (db\<lparr>t_links := ls\<rparr>) =
     and_then (update_fact_record c f db) (\<lambda>db'. Inr (db'\<lparr>t_links := ls\<rparr>))"
  by (cases "update_unique (\<lambda>a b. dedup_key a = dedup_key b) fact_check (\<lambda>u. fr_id u = wf_id f)
      (\<lambda>u. (fact_row_of c f (wc_sha_hex c (wf_content f)))\<lparr>fr_created_at := fr_created_at u\<rparr>) (t_facts db)")
    (simp_all add: update_fact_record_def sql_write_def)

lemma key_free_member:
  assumes "wiki_inv c w" "f \<in> set (wk_facts w)"
  shows "key_free c f w"
  using wiki_invD(5) [OF assms(1)] assms(2) by (auto simp: key_free_def distinct_map inj_on_def)

theorem merge_fact_entities_refines:
  assumes "represents c db w" "wiki_codec_ok c" "f \<in> set (wk_facts w)"
  shows "\<exists>db'. merge_fact_entities c (wf_id f) es db = Inr db' \<and> represents c db' (merge_fact es f w)"
proof (cases "es = []")
  note inv = representsD(11) [OF assms(1)]
  case True
  have "merge_fact es f w = w"
    by (simp add: merge_fact_def True merged_fact_def put_facts_same [OF inv assms(3)])
  with True assms(1) show ?thesis
    by (simp add: merge_fact_entities_def)
next
  note inv = representsD(11) [OF assms(1)]
  case False
  let ?g = "merged_fact es f"
  let ?ls = "link_entities (wf_id f) es (t_links db)"
  have known: "wf_id ?g \<in> wf_id ` set (wk_facts w)"
    using assms(3) by simp
  have only: "u = f" if "u \<in> set (wk_facts w)" "wf_id u = wf_id f" for u
    using that wiki_fact_iff [OF inv] assms(3) by (metis option.inject)
  have ls: "distinct ?ls" "links_ok (put_facts ?g (wk_facts w)) ?ls"
  proof -
    show "distinct ?ls"
      using wiki_invD(8) [OF inv] by (simp add: link_entities_distinct representsD(3) [OF assms(1)])
    have "links_ok (put_facts ?g (wk_facts w)) (wk_links w)"
      by (rule put_fact_links [OF facts_okD(2) [OF inv]]) (use only in \<open>auto simp: merged_fact_def\<close>)
    moreover have "?g \<in> set (put_facts ?g (wk_facts w))" "set es \<subseteq> set (wf_entity_ids ?g)"
      by (simp_all add: put_facts_set [OF known]) (simp add: merged_fact_def)
    then have "\<exists>u\<in>set (put_facts ?g (wk_facts w)). wf_id u = wf_id f \<and> e \<in> set (wf_entity_ids u)"
      if "e \<in> set es" for e
      using that by (metis merged_fact_simps(1) subsetD)
    ultimately show "links_ok (put_facts ?g (wk_facts w)) ?ls"
      unfolding links_ok_def link_entities_set representsD(3) [OF assms(1)] by auto
  qed
  have "key_free c ?g w"
    using key_free_member [OF inv assms(3)] by (simp add: key_free_def)
  moreover have "fact_ok ?g"
    using facts_okD(1) [OF inv assms(3)] by simp
  ultimately obtain db' where db': "update_fact_record c ?g db = Inr db'"
    "represents c (db'\<lparr>t_links := ?ls\<rparr>) (merge_fact es f w)"
    using update_fact_with_links [OF assms(1) _ known _ ls] by (auto simp: merge_fact_def representsD(3) [OF assms(1)])
  have get: "get_fact_record c db (wf_id f) = Inr f"
    using wiki_fact_iff [OF inv, of "wf_id f" f] assms(3) by (simp add: fact_record_read [OF assms(1,2)])
  show ?thesis
  proof (cases "appended (wf_entity_ids f) es = wf_entity_ids f")
    case True
    then have "?g = f"
      by (simp add: merged_fact_def)
    then have "merge_fact es f w = w\<lparr>wk_links := ?ls\<rparr>"
      by (simp add: merge_fact_def put_facts_same [OF inv assms(3)] representsD(3) [OF assms(1)])
    moreover have "wiki_inv c (w\<lparr>wk_links := ?ls\<rparr>)"
      using ls \<open>?g = f\<close> inv
      by (auto simp: wiki_inv_def links_ok_def list_all_iff list_ex_iff put_facts_same [OF inv assms(3)])
    ultimately have "represents c (db\<lparr>t_links := ?ls\<rparr>) (merge_fact es f w)"
      using representsD [OF assms(1)] unfolding represents_def by simp
    then show ?thesis
      using False True by (simp add: merge_fact_entities_def get appended_def [symmetric])
  next
    case change: False
    then show ?thesis
      using False db'
      by (simp add: merge_fact_entities_def get appended_def [symmetric] merged_fact_def [symmetric]
          update_ignores_links)
  qed
qed

section \<open>Adding facts\<close>

definition input_finite :: "fact_input \<Rightarrow> bool" where
  "input_finite f \<longleftrightarrow> (case fi_source_confidence f of None \<Rightarrow> True | Some x \<Rightarrow> f32_is_finite x)"

definition input_key :: "'j wiki_codec \<Rightarrow> fact_input \<Rightarrow> string \<times> string" where
  "input_key c f = (source_key (normalize_source_id (fi_source_id f)), wc_sha_hex c (fi_content f))"

text \<open>
  What adding one fact does: content known in the namespace gives the known fact, with the new
  entities merged in; other content a new record.
\<close>

definition note_fact ::
  "'j wiki_codec \<Rightarrow> fact_input \<times> u64 \<times> wiki_fact_id \<Rightarrow> wiki \<Rightarrow> wiki \<times> wiki_fact_id" where
  "note_fact c p w =
    (case find (\<lambda>g. fact_key c g = input_key c (fst p)) (wk_facts w) of
       Some g \<Rightarrow> ((case fi_entity_ids (fst p) of None \<Rightarrow> w | Some es \<Rightarrow> merge_fact es g w), wf_id g)
     | None \<Rightarrow> (add_fact (fact_of_input (fst (snd p)) (snd (snd p)) (fst p)) w, snd (snd p)))"

fun note_facts ::
  "'j wiki_codec \<Rightarrow> (fact_input \<times> u64 \<times> wiki_fact_id) list \<Rightarrow> wiki \<Rightarrow> wiki \<times> wiki_fact_id list" where
  "note_facts c [] w = (w, [])"
| "note_facts c (p # ps) w =
    (let (w', i) = note_fact c p w; (w'', is) = note_facts c ps w' in (w'', i # is))"

lemma fact_of_input_simps [simp]:
  "wf_id (fact_of_input now i f) = i" "wf_content (fact_of_input now i f) = fi_content f"
  "wf_source_id (fact_of_input now i f) = normalize_source_id (fi_source_id f)"
  "wf_entity_ids (fact_of_input now i f) = or_keep (fi_entity_ids f) []"
  "fact_key c (fact_of_input now i f) = input_key c f"
  by (simp_all add: fact_of_input_def fact_record_new_def Let_def fact_key_def input_key_def)

lemma fact_of_input_ok: "input_finite f \<Longrightarrow> fact_ok (fact_of_input now i f)"
  using f32_literal_values(8)
  by (auto simp: fact_ok_def fact_floats_finite_def input_finite_def fact_of_input_def
      fact_record_new_def Let_def or_keep_def split: option.splits)

lemma add_one_fact:
  assumes "represents c db w" "wiki_codec_ok c" "input_finite f"
    and new: "find (\<lambda>g. fact_key c g = input_key c f) (wk_facts w) = None \<Longrightarrow> i \<notin> wf_id ` set (wk_facts w)"
  shows "\<exists>db'. represents c db' (fst (note_fact c (f, now, i) w)) \<and>
    (\<forall>rest. add_facts c ((f, now, i) # rest) db =
       and_then (add_facts c rest db') (\<lambda>(db'', ids). Inr (db'', snd (note_fact c (f, now, i) w) # ids)))"
proof -
  note inv = representsD(11) [OF assms(1)]
  have look: "fact_id_by_hash db (normalize_source_id (fi_source_id f)) (wc_sha_hex c (fi_content f)) =
      map_option wf_id (find (\<lambda>g. fact_key c g = input_key c f) (wk_facts w))"
    by (simp add: hash_lookup [OF assms(1)] input_key_def)
  show ?thesis
  proof (cases "find (\<lambda>g. fact_key c g = input_key c f) (wk_facts w)")
    case None
    let ?r = "fact_of_input now i f"
    have "fact_key c ?r \<notin> fact_key c ` set (wk_facts w)"
      using None unfolding find_None_set fact_of_input_simps by (metis imageE)
    then have "wiki_inv c (add_fact ?r w)"
      using new [OF None] wiki_inv_add_fact [OF inv fact_of_input_ok [OF assms(3)]] by simp
    then obtain db' where "insert_fact_record c ?r (wc_sha_hex c (fi_content f)) db = Inr db'"
      "represents c db' (add_fact ?r w)"
      using insert_fact_refines [OF assms(1) fact_of_input_ok [OF assms(3)], of now i] by auto
    then show ?thesis
      by (intro exI [where x = db']) (simp add: note_fact_def None look)
  next
    case (Some g)
    then have g: "g \<in> set (wk_facts w)"
      by (simp add: find_Some_set)
    show ?thesis
    proof (cases "fi_entity_ids f")
      case None
      with Some assms(1) show ?thesis
        by (intro exI [where x = db]) (simp add: note_fact_def look)
    next
      case (Some es)
      then show ?thesis
        using merge_fact_entities_refines [OF assms(1,2) g, of es] \<open>find _ _ = Some g\<close>
        by (auto simp: note_fact_def look)
    qed
  qed
qed

lemma note_fact_ids:
  "wf_id ` set (wk_facts (fst (note_fact c p w))) \<subseteq> insert (snd (snd p)) (wf_id ` set (wk_facts w))"
  by (auto simp: note_fact_def merge_fact_def add_fact_def put_facts_def split: option.splits dest: find_Some_set)

text \<open>A batch with fresh ULIDs never fails, and returns one id per input.\<close>

theorem add_facts_refines:
  assumes "represents c db w" "wiki_codec_ok c" "\<forall>p\<in>set ps. input_finite (fst p)"
    and "distinct (map (\<lambda>p. snd (snd p)) ps)"
    and "\<forall>p\<in>set ps. snd (snd p) \<notin> wf_id ` set (wk_facts w)"
  shows "\<exists>db'. add_facts c ps db = Inr (db', snd (note_facts c ps w)) \<and>
    represents c db' (fst (note_facts c ps w))"
  using assms(1,3-)
proof (induction ps arbitrary: db w)
  case (Cons p ps)
  obtain f now i where p: "p = (f, now, i)"
    by (cases p)
  have "i \<notin> wf_id ` set (wk_facts w)" "input_finite f"
    using Cons.prems(2,4) by (simp_all add: p)
  from add_one_fact [OF Cons.prems(1) assms(2) this(2) this(1)] obtain db' where
    db': "represents c db' (fst (note_fact c p w))"
    "add_facts c (p # ps) db =
       and_then (add_facts c ps db') (\<lambda>(db'', ids). Inr (db'', snd (note_fact c p w) # ids))"
    unfolding p by metis
  have "\<forall>q\<in>set ps. snd (snd q) \<notin> wf_id ` set (wk_facts (fst (note_fact c p w)))"
  proof
    fix q
    assume q: "q \<in> set ps"
    then have "snd (snd q) \<noteq> snd (snd p)" "snd (snd q) \<notin> wf_id ` set (wk_facts w)"
      using Cons.prems(3,4) by (simp_all add: image_iff) metis
    then show "snd (snd q) \<notin> wf_id ` set (wk_facts (fst (note_fact c p w)))"
      using note_fact_ids [of c p w] by blast
  qed
  then obtain db'' where "add_facts c ps db' = Inr (db'', snd (note_facts c ps (fst (note_fact c p w))))"
    "represents c db'' (fst (note_facts c ps (fst (note_fact c p w))))"
    using Cons.IH [OF db'(1)] Cons.prems(2,3) by auto
  then show ?case
    using db'(2) by (auto simp: split_beta)
qed simp

section \<open>Changing facts\<close>

definition updated_fact :: "u64 \<Rightarrow> wiki_fact \<Rightarrow> fact_update \<Rightarrow> wiki_fact" where
  "updated_fact now old u =
    (let r = fact_record_update now old u in r\<lparr>wf_source_id := normalize_source_id (wf_source_id r)\<rparr>)"

lemma updated_fact_simps [simp]:
  "wf_id (updated_fact now old u) = wf_id old"
  "wf_entity_ids (updated_fact now old u) = wf_entity_ids old"
  by (simp_all add: updated_fact_def fact_record_update_def Let_def)

lemma updated_fact_ok: "fact_ok old \<Longrightarrow> fact_ok (updated_fact now old u)"
  by (simp add: fact_ok_def fact_floats_finite_def updated_fact_def fact_record_update_def Let_def)

text \<open>The fact that already has a record's content in its namespace.\<close>

definition key_holder :: "'j wiki_codec \<Rightarrow> wiki_fact \<Rightarrow> wiki \<Rightarrow> wiki_fact option" where
  "key_holder c f w = find (\<lambda>g. fact_key c g = fact_key c f) (wk_facts w)"

lemma key_holder_lookup:
  assumes "represents c db w" "normalize_source_id (wf_source_id f) = wf_source_id f"
  shows "fact_id_by_hash db (wf_source_id f) (wc_sha_hex c (wf_content f)) =
    map_option wf_id (key_holder c f w)"
  by (simp add: hash_lookup [OF assms(1)] key_holder_def fact_key_def assms(2))

lemma key_free_holder:
  assumes "wiki_inv c w"
  shows "key_free c f w \<longleftrightarrow> (case key_holder c f w of None \<Rightarrow> True | Some g \<Rightarrow> wf_id g = wf_id f)"
proof (cases "key_holder c f w")
  case None
  then have "\<forall>u\<in>set (wk_facts w). fact_key c u \<noteq> fact_key c f"
    by (simp add: key_holder_def find_None_set)
  with None show ?thesis by (simp add: key_free_def)
next
  case (Some g)
  then have g: "g \<in> set (wk_facts w)" "fact_key c g = fact_key c f"
    by (auto simp: key_holder_def dest: find_Some_set)
  have only: "u = g" if "u \<in> set (wk_facts w)" "fact_key c u = fact_key c f" for u
    using that g wiki_invD(5) [OF assms] by (auto simp: distinct_map inj_on_def)
  have "key_free c f w \<longleftrightarrow> wf_id g = wf_id f"
    using g only unfolding key_free_def by blast
  with Some show ?thesis by simp
qed

theorem fact_update_refines:
  assumes "represents c db w" "wiki_codec_ok c"
  shows "case wiki_fact_of w i of
      None \<Rightarrow> fact_update c now i u db = Inl (FactNotFound (wc_ulid_text c i))
    | Some old \<Rightarrow>
        (case key_holder c (updated_fact now old u) w of
           Some g \<Rightarrow>
             if wf_id g \<noteq> i
             then fact_update c now i u db = Inl (WikiInvalidInput
                    (''fact content already exists in source namespace as '' @ wc_ulid_text c (wf_id g)))
             else \<exists>db'. fact_update c now i u db = Inr db' \<and>
                    represents c db' (put_fact (updated_fact now old u) w)
         | None \<Rightarrow> \<exists>db'. fact_update c now i u db = Inr db' \<and>
                    represents c db' (put_fact (updated_fact now old u) w))"
proof (cases "wiki_fact_of w i")
  case None
  then show ?thesis by (simp add: fact_update_def fact_record_read [OF assms])
next
  case (Some old)
  note inv = representsD(11) [OF assms(1)]
  let ?r = "updated_fact now old u"
  have old: "old \<in> set (wk_facts w)" "wf_id ?r = i"
    using known_fact(1,2) [OF inv Some] by simp_all
  have ok: "fact_ok ?r"
    by (rule updated_fact_ok) (rule facts_okD(1) [OF inv old(1)])
  then have holder: "fact_id_by_hash db (wf_source_id ?r) (wc_sha_hex c (wf_content ?r)) =
      map_option wf_id (key_holder c ?r w)"
    by (intro key_holder_lookup [OF assms(1)]) (simp add: fact_ok_def)
  have upd: "fact_update c now i u db =
      (case map_option wf_id (key_holder c ?r w) of
         Some other \<Rightarrow>
           if other \<noteq> i
           then Inl (WikiInvalidInput (''fact content already exists in source namespace as ''
                  @ wc_ulid_text c other))
           else update_fact_record c ?r db
       | None \<Rightarrow> update_fact_record c ?r db)"
    unfolding holder [symmetric]
    by (simp add: fact_update_def fact_record_read [OF assms] Some updated_fact_def Let_def
        split: option.split)
  have known: "wiki_fact_of w (wf_id ?r) = Some old"
    using Some old(2) by simp
  from update_fact_refines [OF assms(1) ok known] show ?thesis
    unfolding upd key_free_holder [OF inv] Some
    by (auto simp: old(2) known_fact(2) [OF inv Some] split: option.splits if_splits)
qed

lemma feedback_finite:
  assumes "f32_is_finite s"
  shows "f32_is_finite (feedback_score helpful s)"
proof -
  note nan = f32_finite_not_nan [OF assms] f32_add_not_nan [OF assms]
  have lit: "\<not> f32_is_nan f32_one" "\<not> f32_is_nan f32_zero"
    "\<bar>f32_int f32_one\<bar> < int (f32_units f32_infinity_bits)"
    "\<bar>f32_int f32_zero\<bar> < int (f32_units f32_infinity_bits)"
    using f32_literal_values f32_finite_iff by blast+
  have s: "\<bar>f32_int s\<bar> < int (f32_units f32_infinity_bits)"
    using assms f32_finite_iff [OF nan(1)] by simp
  show ?thesis
  proof (cases helpful)
    case True
    have "f32_int s \<le> f32_int (f32_add s f32_0_10)"
      using f32_add_mono(1) [OF assms f32_sub_simps(4)] f32_literal_values(4) by simp
    with True s lit f32_min_int [OF lit(1), of "f32_add s f32_0_10"] show ?thesis
      by (auto simp: feedback_score_def f32_finite_iff f32_min_value nan f32_sub_simps(4))
  next
    case False
    have "f32_int (f32_add s (f32_neg f32_0_15)) \<le> f32_int s"
      using f32_add_mono(2) [OF assms f32_sub_simps(2)] f32_sub_simps(3) by simp
    with False s lit f32_max_int [OF lit(2), of "f32_sub s f32_0_15"] show ?thesis
      by (auto simp: feedback_score_def f32_finite_iff f32_max_value nan f32_sub_simps)
  qed
qed

text \<open>A score in the unit interval stays there, and feedback moves it the way it says.\<close>

theorem feedback_score_bounds:
  assumes "f32_is_finite s" "0 \<le> f32_int s" "f32_int s \<le> f32_int f32_one"
  shows "f32_is_finite (feedback_score helpful s)"
    and "0 \<le> f32_int (feedback_score helpful s)"
    and "f32_int (feedback_score helpful s) \<le> f32_int f32_one"
    and "if helpful then f32_int s \<le> f32_int (feedback_score helpful s)
         else f32_int (feedback_score helpful s) \<le> f32_int s"
proof -
  note nan = f32_add_not_nan [OF assms(1)]
  show "f32_is_finite (feedback_score helpful s)"
    by (rule feedback_finite [OF assms(1)])
  have up: "f32_int s \<le> f32_int (f32_add s f32_0_10)"
    using f32_add_mono(1) [OF assms(1) f32_sub_simps(4)] f32_literal_values(4) by simp
  have down: "f32_int (f32_add s (f32_neg f32_0_15)) \<le> f32_int s"
    using f32_add_mono(2) [OF assms(1) f32_sub_simps(2)] f32_sub_simps(3) by simp
  have score: "f32_int (feedback_score helpful s) =
      (if helpful then min (f32_int (f32_add s f32_0_10)) (f32_int f32_one)
       else max (f32_int (f32_add s (f32_neg f32_0_15))) 0)"
    using f32_literal_values
    by (simp add: feedback_score_def f32_min_value f32_max_value nan f32_sub_simps)
  show "0 \<le> f32_int (feedback_score helpful s)"
    "f32_int (feedback_score helpful s) \<le> f32_int f32_one"
    "if helpful then f32_int s \<le> f32_int (feedback_score helpful s)
     else f32_int (feedback_score helpful s) \<le> f32_int s"
    using up down assms(2,3) order_trans [OF assms(2,3)] unfolding score by (simp_all split: if_split)
qed

definition judged_fact :: "u64 \<Rightarrow> bool \<Rightarrow> wiki_fact \<Rightarrow> wiki_fact" where
  "judged_fact now helpful f =
    f\<lparr>wf_relevance_score := feedback_score helpful (wf_relevance_score f),
      wf_updated_at := bumped now (wf_updated_at f)\<rparr>"

theorem fact_feedback_refines:
  assumes "represents c db w" "wiki_codec_ok c"
  shows "case wiki_fact_of w i of
      None \<Rightarrow> fact_feedback c now i helpful db = Inl (FactNotFound (wc_ulid_text c i))
    | Some f \<Rightarrow> \<exists>db'. fact_feedback c now i helpful db = Inr db' \<and>
        represents c db' (put_fact (judged_fact now helpful f) w)"
proof (cases "wiki_fact_of w i")
  case (Some f)
  note inv = representsD(11) [OF assms(1)]
  let ?g = "judged_fact now helpful f"
  have f: "f \<in> set (wk_facts w)" "wf_id f = i"
    using known_fact(1,2) [OF inv Some] by simp_all
  have "fact_ok ?g"
    using facts_okD(1) [OF inv f(1)]
    by (simp add: fact_ok_def fact_floats_finite_def judged_fact_def feedback_finite)
  moreover have "wiki_fact_of w (wf_id ?g) = Some f" "set (wf_entity_ids f) \<subseteq> set (wf_entity_ids ?g)"
    using Some f(2) by (simp_all add: judged_fact_def)
  moreover have "key_free c ?g w"
    using key_free_member [OF inv f(1)] by (simp add: key_free_def judged_fact_def fact_key_def)
  ultimately show ?thesis
    using update_fact_refines [OF assms(1), of ?g f]
    by (simp add: Some fact_feedback_def fact_record_read [OF assms] judged_fact_def)
qed (simp add: fact_feedback_def fact_record_read [OF assms])

section \<open>Replicated facts\<close>

definition stored_fact :: "wiki_fact \<Rightarrow> wiki_fact" where
  "stored_fact f = f\<lparr>wf_source_id := normalize_source_id (wf_source_id f)\<rparr>"

lemma stored_fact_simps [simp]:
  "wf_id (stored_fact f) = wf_id f" "wf_updated_at (stored_fact f) = wf_updated_at f"
  "wf_entity_ids (stored_fact f) = wf_entity_ids f" "wf_content (stored_fact f) = wf_content f"
  "wf_type (stored_fact f) = wf_type f"
  by (simp_all add: stored_fact_def)

lemma stored_fact_ok: "fact_floats_finite f \<Longrightarrow> fact_ok (stored_fact f)"
  by (simp add: fact_ok_def fact_floats_finite_def stored_fact_def)

text \<open>The version of a fact that replaces another: the record, and links to exactly its entities.\<close>

definition replace_fact :: "wiki_fact \<Rightarrow> wiki \<Rightarrow> wiki" where
  "replace_fact f w = w\<lparr>wk_facts := put_facts f (wk_facts w),
     wk_links := link_entities (wf_id f) (wf_entity_ids f)
       (filter (\<lambda>l. lk_fact_id l \<noteq> wf_id f) (wk_links w))\<rparr>"

definition upsert_fact :: "'j wiki_codec \<Rightarrow> wiki_fact \<Rightarrow> wiki \<Rightarrow> wiki option" where
  "upsert_fact c f w =
    (if (case wiki_fact_of w (wf_id f) of None \<Rightarrow> False | Some old \<Rightarrow> wf_updated_at f \<le> wf_updated_at old)
        \<or> (case key_holder c (stored_fact f) w of None \<Rightarrow> False | Some g \<Rightarrow> wf_id g \<noteq> wf_id f)
     then None
     else Some (if wiki_fact_of w (wf_id f) = None then add_fact (stored_fact f) w
                else replace_fact (stored_fact f) w))"

theorem fact_upsert_refines:
  assumes "represents c db w" "wiki_codec_ok c" "fact_floats_finite f"
  shows "case upsert_fact c f w of
      None \<Rightarrow> fact_upsert_record c f db = Inr (db, False)
    | Some w' \<Rightarrow> \<exists>db'. fact_upsert_record c f db = Inr (db', True) \<and> represents c db' w'"
proof -
  note inv = representsD(11) [OF assms(1)]
  let ?r = "stored_fact f"
  note ok = stored_fact_ok [OF assms(3)]
  have holder: "fact_id_by_hash db (wf_source_id ?r) (wc_sha_hex c (wf_content f)) =
      map_option wf_id (key_holder c ?r w)"
    using key_holder_lookup [OF assms(1), of ?r] ok by (simp add: fact_ok_def)
  have get: "get_fact_record c db (wf_id f) =
      (case wiki_fact_of w (wf_id f) of None \<Rightarrow> Inl (FactNotFound (wc_ulid_text c (wf_id f)))
       | Some g \<Rightarrow> Inr g)"
    by (rule fact_record_read [OF assms(1,2)])
  show ?thesis
  proof (cases "upsert_fact c f w")
    case None
    then show ?thesis
      using holder
      by (auto simp: upsert_fact_def fact_upsert_record_def Let_def stored_fact_def [symmetric] get
          split: option.splits if_splits)
  next
    case (Some w')
    then have fresh: "\<not> (case wiki_fact_of w (wf_id f) of None \<Rightarrow> False
          | Some old \<Rightarrow> wf_updated_at f \<le> wf_updated_at old)"
      and free: "key_free c ?r w"
      unfolding key_free_holder [OF inv]
      by (auto simp: upsert_fact_def split: if_splits option.splits)
    from Some have w': "w' = (if wiki_fact_of w (wf_id f) = None then add_fact ?r w else replace_fact ?r w)"
      by (auto simp: upsert_fact_def split: if_splits)
    have nohold: "\<not> (case fact_id_by_hash db (wf_source_id ?r) (wc_sha_hex c (wf_content f)) of
        Some other \<Rightarrow> other \<noteq> wf_id ?r | None \<Rightarrow> False)"
      using free unfolding holder key_free_holder [OF inv] by (auto split: option.splits)
    show ?thesis
    proof (cases "wiki_fact_of w (wf_id f)")
      case None
      then have "wf_id ?r \<notin> wf_id ` set (wk_facts w)"
        by (auto simp: wiki_fact_of_def find_None_set)
      moreover from this have "fact_key c ?r \<notin> fact_key c ` set (wk_facts w)"
        using free by (auto simp: key_free_def) (metis imageI)
      ultimately have "wiki_inv c (add_fact ?r w)"
        by (simp add: wiki_inv_add_fact [OF inv ok])
      with insert_fact_refines [OF assms(1) ok] obtain db' where
        "insert_fact_record c ?r (wc_sha_hex c (wf_content f)) db = Inr db'"
        "represents c db' (add_fact ?r w)"
        by auto
      then show ?thesis
        using None nohold Some w'
        by (auto simp: fact_upsert_record_def Let_def stored_fact_def [symmetric] get)
    next
      case old: (Some old)
      let ?ls = "link_entities (wf_id f) (wf_entity_ids f)
        (filter (\<lambda>l. lk_fact_id l \<noteq> wf_id f) (wk_links w))"
      have known: "wf_id ?r \<in> wf_id ` set (wk_facts w)"
        using known_fact(3) [OF inv old] by simp
      have "distinct ?ls"
        using wiki_invD(8) [OF inv] by (simp add: link_entities_distinct)
      moreover have "links_ok (put_facts ?r (wk_facts w)) ?ls"
        using facts_okD(2) [OF inv]
        unfolding links_ok_def link_entities_set put_facts_set [OF known] by fastforce
      ultimately obtain db' where db': "update_fact_record c ?r db = Inr db'"
        "represents c (db'\<lparr>t_links := ?ls\<rparr>) (replace_fact ?r w)"
        using update_fact_with_links [OF assms(1) ok known free] by (auto simp: replace_fact_def)
      have "t_links db' = wk_links w"
        using db'(1) representsD(3) [OF assms(1)]
        by (auto simp: update_fact_record_def sql_write_def result_iffs)
      then have "replace_fact_entities ?r db' = db'\<lparr>t_links := ?ls\<rparr>"
        by (simp add: replace_fact_entities_def delete_rows_def)
      then show ?thesis
        using db' old fresh nohold Some w'
        by (auto simp: fact_upsert_record_def Let_def stored_fact_def [symmetric] get)
    qed
  qed
qed

end
