(* ===== verification/Wiki_Machine.thy ===== *)
theory Wiki_Machine
  imports Wiki_Operations
begin

text \<open>
  The embedded wiki store as a machine: the write operations of \<open>StoreBackend\<close> as one transition
  function over the tables, the wiki it implements as another over records, and that any sequence
  of operations keeps the two together, reply for reply.
\<close>

section \<open>Operations and replies\<close>

text \<open>The clock and the ULIDs an operation draws are arguments of it.\<close>

datatype wiki_op =
    OpEntityAdd u64 entity_id entity_input
  | OpEntityUpdate u64 string entity_update
  | OpEntityDelete string
  | OpEntityUpsert entity_record
  | OpFactAddMany "(fact_input \<times> u64 \<times> wiki_fact_id) list"
  | OpFactUpdate u64 wiki_fact_id fact_update
  | OpFactDelete wiki_fact_id
  | OpFactUpsert wiki_fact
  | OpFactFeedback u64 wiki_fact_id bool
  | OpRelationAdd u64 relation_input
  | OpRelationUpsert relation_record
  | OpRelationRemove string string string
  | OpSessionAdd search_session
  | OpFeedbackAdd search_feedback
  | OpLastIngest u64

datatype wiki_reply = RUnit | REntity entity_id | RFacts "wiki_fact_id list" | RChanged bool

text \<open>A failed operation leaves the tables as they were.\<close>

definition settle ::
  "('a \<Rightarrow> 's) \<Rightarrow> ('a \<Rightarrow> wiki_reply) \<Rightarrow> 's \<Rightarrow> 'a wiki_result \<Rightarrow>
     's \<times> wiki_reply wiki_result" where
  "settle state reply db r = (case r of Inl e \<Rightarrow> (db, Inl e) | Inr x \<Rightarrow> (state x, Inr (reply x)))"

lemma settle_simps [simp]:
  "settle s p db (Inl e) = (db, Inl e)" "settle s p db (Inr x) = (s x, Inr (p x))"
  by (simp_all add: settle_def)

fun wiki_do :: "'j wiki_codec \<Rightarrow> wiki_op \<Rightarrow> 'j wiki_db \<Rightarrow> 'j wiki_db \<times> wiki_reply wiki_result" where
  "wiki_do c (OpEntityAdd now i e) db = settle fst (\<lambda>p. REntity (snd p)) db (entity_add c now i e db)"
| "wiki_do c (OpEntityUpdate now n u) db = settle id (\<lambda>_. RUnit) db (entity_update c now n u db)"
| "wiki_do c (OpEntityDelete n) db = settle id (\<lambda>_. RUnit) db (entity_delete c n db)"
| "wiki_do c (OpEntityUpsert r) db =
    settle fst (\<lambda>p. RChanged (snd p)) db (entity_upsert_record c r db)"
| "wiki_do c (OpFactAddMany ps) db = settle fst (\<lambda>p. RFacts (snd p)) db (add_facts c ps db)"
| "wiki_do c (OpFactUpdate now i u) db = settle id (\<lambda>_. RUnit) db (fact_update c now i u db)"
| "wiki_do c (OpFactDelete i) db =
    (let (db', r) = fact_delete c i db in (db', and_then r (\<lambda>_. Inr RUnit)))"
| "wiki_do c (OpFactUpsert f) db = settle fst (\<lambda>p. RChanged (snd p)) db (fact_upsert_record c f db)"
| "wiki_do c (OpFactFeedback now i h) db = settle id (\<lambda>_. RUnit) db (fact_feedback c now i h db)"
| "wiki_do c (OpRelationAdd now i) db = settle id (\<lambda>_. RUnit) db (relation_add c now i db)"
| "wiki_do c (OpRelationUpsert r) db =
    (let (db', b) = relation_upsert_record c r db in (db', Inr (RChanged b)))"
| "wiki_do c (OpRelationRemove s t ty) db =
    settle id (\<lambda>_. RUnit) db (relation_remove c s t ty db)"
| "wiki_do c (OpSessionAdd s) db = (search_session_add c s db, Inr RUnit)"
| "wiki_do c (OpFeedbackAdd f) db = (search_feedback_add c f db, Inr RUnit)"
| "wiki_do c (OpLastIngest now) db = (set_last_ingest_at now db, Inr RUnit)"

fun wiki_run ::
  "'j wiki_codec \<Rightarrow> wiki_op list \<Rightarrow> 'j wiki_db \<Rightarrow> 'j wiki_db \<times> wiki_reply wiki_result list" where
  "wiki_run c [] db = (db, [])"
| "wiki_run c (x # xs) db =
    (let (db', r) = wiki_do c x db; (db'', rs) = wiki_run c xs db' in (db'', r # rs))"

text \<open>
  What is asked of an operation: floats are finite, and the ULIDs drawn for new facts are fresh.
\<close>

fun op_ok :: "wiki_op \<Rightarrow> 'j wiki_db \<Rightarrow> bool" where
  "op_ok (OpFactAddMany ps) db \<longleftrightarrow>
     list_all (\<lambda>p. input_finite (fst p)) ps \<and> distinct (map (\<lambda>p. snd (snd p)) ps) \<and>
     list_all (\<lambda>p. snd (snd p) \<notin> fr_id ` set (t_facts db)) ps"
| "op_ok (OpFactUpsert f) db \<longleftrightarrow> fact_floats_finite f"
| "op_ok (OpRelationAdd now i) db \<longleftrightarrow> f32_is_finite (or_keep (ri_weight i) f32_one)"
| "op_ok (OpRelationUpsert r) db \<longleftrightarrow> f32_is_finite (wr_weight r)"
| "op_ok _ db \<longleftrightarrow> True"

fun run_ok :: "'j wiki_codec \<Rightarrow> wiki_op list \<Rightarrow> 'j wiki_db \<Rightarrow> bool" where
  "run_ok c [] db \<longleftrightarrow> True"
| "run_ok c (x # xs) db \<longleftrightarrow> op_ok x db \<and> run_ok c xs (fst (wiki_do c x db))"

inductive wiki_reachable :: "'j wiki_codec \<Rightarrow> 'j wiki_db \<Rightarrow> bool" for c where
  reach_empty: "wiki_reachable c wiki_empty"
| reach_step: "wiki_reachable c db \<Longrightarrow> op_ok x db \<Longrightarrow> wiki_reachable c (fst (wiki_do c x db))"

section \<open>The wiki\<close>

definition empty_wiki :: wiki where
  "empty_wiki = \<lparr>wk_entities = [], wk_facts = [], wk_links = [], wk_relations = []\<rparr>"

type_synonym spec_result = "wiki \<times> (string + wiki_reply)"

text \<open>A change that would break the uniqueness of ids or names is refused.\<close>

definition guarded :: "'j wiki_codec \<Rightarrow> wiki \<Rightarrow> wiki_reply \<Rightarrow> wiki \<Rightarrow> spec_result" where
  "guarded c w' r w = (if wiki_inv c w' then (w', Inr r) else (w, Inl ''store_write''))"

definition related :: "entity_id \<Rightarrow> entity_id \<Rightarrow> u64 \<Rightarrow> relation_input \<Rightarrow> relation_record" where
  "related s t now i =
    \<lparr>wr_source_id = s, wr_target_id = t,
     wr_scope_source_id = normalize_source_id (ri_scope_source_id i), wr_type = ri_type i,
     wr_weight = or_keep (ri_weight i) f32_one, wr_evidence = or_keep (ri_evidence i) [],
     wr_created_at = now\<rparr>"

definition stored_relation :: "relation_record \<Rightarrow> relation_record" where
  "stored_relation r = r\<lparr>wr_scope_source_id := normalize_source_id (wr_scope_source_id r)\<rparr>"

fun wiki_spec :: "'j wiki_codec \<Rightarrow> wiki_op \<Rightarrow> wiki \<Rightarrow> spec_result" where
  "wiki_spec c (OpEntityAdd now i e) w =
    guarded c (add_entity (entity_of_input c now i e) w) (REntity i) w"
| "wiki_spec c (OpEntityUpdate now n u) w =
    (case wiki_named c w n of None \<Rightarrow> (w, Inl ''entity_not_found'')
     | Some r \<Rightarrow>
         if eu_expected_updated_at u \<noteq> None \<and> eu_expected_updated_at u \<noteq> Some (we_updated_at r)
         then (w, Inl ''transaction_conflict'')
         else guarded c (put_entity (updated_entity c now r u) w) RUnit w)"
| "wiki_spec c (OpEntityDelete n) w =
    (case wiki_named c w n of None \<Rightarrow> (w, Inl ''entity_not_found'')
     | Some r \<Rightarrow> (del_entity (we_id r) w, Inr RUnit))"
| "wiki_spec c (OpEntityUpsert r) w =
    (case wiki_entity w (we_id r) of
       Some old \<Rightarrow> if we_updated_at r \<le> we_updated_at old then (w, Inr (RChanged False))
                   else guarded c (put_entity r w) (RChanged True) w
     | None \<Rightarrow> if wiki_named c w (we_name r) \<noteq> None then (w, Inr (RChanged False))
               else guarded c (add_entity r w) (RChanged True) w)"
| "wiki_spec c (OpFactAddMany ps) w = (let (w', is) = note_facts c ps w in (w', Inr (RFacts is)))"
| "wiki_spec c (OpFactUpdate now i u) w =
    (case wiki_fact_of w i of None \<Rightarrow> (w, Inl ''fact_not_found'')
     | Some old \<Rightarrow>
         if (case key_holder c (updated_fact now old u) w of None \<Rightarrow> False | Some g \<Rightarrow> wf_id g \<noteq> i)
         then (w, Inl ''invalid_input'') else (put_fact (updated_fact now old u) w, Inr RUnit))"
| "wiki_spec c (OpFactDelete i) w =
    (case wiki_fact_of w i of None \<Rightarrow> (w, Inl ''fact_not_found'') | Some _ \<Rightarrow> (del_fact i w, Inr RUnit))"
| "wiki_spec c (OpFactUpsert f) w =
    (case upsert_fact c f w of None \<Rightarrow> (w, Inr (RChanged False)) | Some w' \<Rightarrow> (w', Inr (RChanged True)))"
| "wiki_spec c (OpFactFeedback now i h) w =
    (case wiki_fact_of w i of None \<Rightarrow> (w, Inl ''fact_not_found'')
     | Some f \<Rightarrow> (put_fact (judged_fact now h f) w, Inr RUnit))"
| "wiki_spec c (OpRelationAdd now i) w =
    (case (wiki_named c w (ri_source i), wiki_named c w (ri_target i)) of
       (Some s, Some t) \<Rightarrow> (put_relation (related (we_id s) (we_id t) now i) w, Inr RUnit)
     | _ \<Rightarrow> (w, Inl ''entity_not_found''))"
| "wiki_spec c (OpRelationUpsert r) w =
    (if stored_relation r \<in> set (wk_relations w) then (w, Inr (RChanged False))
     else (put_relation (stored_relation r) w, Inr (RChanged True)))"
| "wiki_spec c (OpRelationRemove s t ty) w =
    (case (wiki_named c w s, wiki_named c w t) of
       (Some a, Some b) \<Rightarrow>
         let k = (we_id a, ty, we_id b, []) in
         if k \<in> relation_key ` set (wk_relations w) then (del_relation k w, Inr RUnit)
         else (w, Inl ''relation_not_found'')
     | _ \<Rightarrow> (w, Inl ''entity_not_found''))"
| "wiki_spec c _ w = (w, Inr RUnit)"

fun spec_run :: "'j wiki_codec \<Rightarrow> wiki_op list \<Rightarrow> wiki \<Rightarrow> wiki \<times> (string + wiki_reply) list" where
  "spec_run c [] w = (w, [])"
| "spec_run c (x # xs) w =
    (let (w', r) = wiki_spec c x w; (w'', rs) = spec_run c xs w' in (w'', r # rs))"


section \<open>Every operation implements the wiki\<close>

definition implements ::
  "'j wiki_codec \<Rightarrow> 'j wiki_db \<times> wiki_reply wiki_result \<Rightarrow> spec_result \<Rightarrow> bool" where
  "implements c a s \<longleftrightarrow>
     represents c (fst a) (fst s) \<and> map_sum wiki_error_code id (snd a) = snd s"

lemma implements_simps [simp]:
  "implements c (db, Inr r) (w, Inr q) \<longleftrightarrow> represents c db w \<and> r = q"
  "implements c (db, Inl e) (w, Inl code) \<longleftrightarrow> represents c db w \<and> wiki_error_code e = code"
  by (auto simp: implements_def)

lemma represents_empty: "represents c wiki_empty empty_wiki"
  by (simp add: represents_def wiki_inv_def wiki_empty_def empty_wiki_def)

lemma represents_frame [simp]:
  "represents c (db\<lparr>t_sessions := x\<rparr>) w \<longleftrightarrow> represents c db w"
  "represents c (db\<lparr>t_feedback := y\<rparr>) w \<longleftrightarrow> represents c db w"
  "represents c (db\<lparr>t_meta := z\<rparr>) w \<longleftrightarrow> represents c db w"
  by (simp_all add: represents_def)

text \<open>An operation that either makes the guarded change or fails to write.\<close>

lemma implements_guarded:
  assumes "represents c db w"
    and "if wiki_inv c w' then \<exists>x. r = Inr x \<and> represents c (s x) w' \<and> p x = q
      else \<exists>t k. r = Inl (StoreWrite t k)"
  shows "implements c (settle s p db r) (guarded c w' q w)"
  using assms by (auto simp: guarded_def split: if_splits)

lemma fact_ids:
  assumes "represents c db w"
  shows "fr_id ` set (t_facts db) = wf_id ` set (wk_facts w)"
  using arg_cong [OF facts_map [OF assms, of fr_id], of set] by simp

text \<open>Equal documents are equal records.\<close>

lemma same_relation:
  assumes "represents c db w" "wiki_codec_ok c" "relation_ok r"
  shows "map_option rr_json (find (\<lambda>u. relation_row_key u = relation_row_key (relation_row_of c r))
      (t_relations db)) = Some (rr_json (relation_row_of c r)) \<longleftrightarrow> r \<in> set (wk_relations w)"
proof -
  note inv = representsD(11) [OF assms(1)]
  have "wc_relation_json c a = wc_relation_json c r \<longleftrightarrow> a = r" if "a \<in> set (wk_relations w)" for a
  proof -
    have "wc_relation_of c (wc_relation_json c a) = Some a" "wc_relation_of c (wc_relation_json c r) = Some r"
      using wiki_invD(11) [OF inv that] assms(3) by (simp_all add: codec_okD(4) [OF assms(2)] relation_ok_def)
    then show ?thesis by (metis option.inject)
  qed
  moreover have "a = r" if "a \<in> set (wk_relations w)" "r \<in> set (wk_relations w)"
      "relation_key a = relation_key r" for a
    using that wiki_invD(10) [OF inv] by (auto simp: distinct_map inj_on_def)
  moreover from this have "find (\<lambda>a. relation_key a = relation_key r) (wk_relations w) = Some r"
    if "r \<in> set (wk_relations w)"
    using that by (intro find_unique) auto
  ultimately show ?thesis
    by (auto simp: representsD(4) [OF assms(1)] find_map o_def dest!: find_Some_set)
qed

lemma implements_entity_add:
  assumes "represents c db w" "wiki_codec_ok c"
  shows "implements c (wiki_do c (OpEntityAdd now i e) db) (wiki_spec c (OpEntityAdd now i e) w)"
  unfolding wiki_do.simps wiki_spec.simps
  by (rule implements_guarded [OF assms(1)])
    (use entity_add_refines [OF assms(1), of now i e] in \<open>simp split: if_splits\<close>)

lemma implements_entity_update:
  assumes "represents c db w" "wiki_codec_ok c"
  shows "implements c (wiki_do c (OpEntityUpdate now n u) db) (wiki_spec c (OpEntityUpdate now n u) w)"
  using entity_update_refines [OF assms, of now n u] assms(1)
  by (cases "wiki_named c w n") (auto intro!: implements_guarded [OF assms(1)] split: if_splits)

lemma implements_entity_delete:
  assumes "represents c db w" "wiki_codec_ok c"
  shows "implements c (wiki_do c (OpEntityDelete n) db) (wiki_spec c (OpEntityDelete n) w)"
  using entity_delete_refines [OF assms, of n] assms(1) by (auto split: option.splits)

lemma implements_entity_upsert:
  assumes "represents c db w" "wiki_codec_ok c"
  shows "implements c (wiki_do c (OpEntityUpsert r) db) (wiki_spec c (OpEntityUpsert r) w)"
  using entity_upsert_refines [OF assms, of r] assms(1)
  by (cases "wiki_entity w (we_id r)") (auto intro!: implements_guarded [OF assms(1)] split: if_splits)

lemma implements_fact_add:
  assumes "represents c db w" "wiki_codec_ok c"
    and "op_ok (OpFactAddMany ps) db"
  shows "implements c (wiki_do c (OpFactAddMany ps) db) (wiki_spec c (OpFactAddMany ps) w)"
proof -
  have "\<exists>db'. add_facts c ps db = Inr (db', snd (note_facts c ps w)) \<and>
      represents c db' (fst (note_facts c ps w))"
  proof (rule add_facts_refines [OF assms(1,2)])
    show "\<forall>p\<in>set ps. snd (snd p) \<notin> wf_id ` set (wk_facts w)"
      using assms(3) fact_ids [OF assms(1)] by (auto simp: list_all_iff)
  qed (use assms(3) in \<open>auto simp: list_all_iff\<close>)
  then show ?thesis by (auto simp: case_prod_beta)
qed

lemma implements_fact_update:
  assumes "represents c db w" "wiki_codec_ok c"
  shows "implements c (wiki_do c (OpFactUpdate now i u) db) (wiki_spec c (OpFactUpdate now i u) w)"
  using fact_update_refines [OF assms, of now i u] assms(1)
  by (auto split: option.splits if_splits)

lemma implements_fact_delete:
  assumes "represents c db w" "wiki_codec_ok c"
  shows "implements c (wiki_do c (OpFactDelete i) db) (wiki_spec c (OpFactDelete i) w)"
proof -
  note del = fact_delete_refines [OF assms(1), of i]
  obtain db' r where r: "fact_delete c i db = (db', r)"
    by (cases "fact_delete c i db")
  show ?thesis
  proof (cases "wiki_fact_of w i")
    case None
    with del show ?thesis
      by (simp add: r del_fact_unknown [OF representsD(11) [OF assms(1)] None])
  qed (use del in \<open>simp add: r\<close>)
qed

lemma implements_fact_upsert:
  assumes "represents c db w" "wiki_codec_ok c"
    and "op_ok (OpFactUpsert f) db"
  shows "implements c (wiki_do c (OpFactUpsert f) db) (wiki_spec c (OpFactUpsert f) w)"
  using fact_upsert_refines [OF assms(1,2), of f] assms(1,3) by (auto split: option.splits)

lemma implements_fact_feedback:
  assumes "represents c db w" "wiki_codec_ok c"
  shows "implements c (wiki_do c (OpFactFeedback now i h) db) (wiki_spec c (OpFactFeedback now i h) w)"
  using fact_feedback_refines [OF assms, of now i h] assms(1) by (auto split: option.splits)

lemma implements_relation_add:
  assumes "represents c db w" "wiki_codec_ok c"
    and "op_ok (OpRelationAdd now i) db"
  shows "implements c (wiki_do c (OpRelationAdd now i) db) (wiki_spec c (OpRelationAdd now i) w)"
proof -
  have "relation_ok (related s t now i)" for s t
    using assms(3) by (simp add: relation_ok_def related_def)
  then show ?thesis
    using insert_relation_refines [OF assms(1)] assms(1)
    by (auto simp: relation_add_def resolve_entity_read [OF assms(1)] related_def split: option.splits)
qed

lemma implements_relation_upsert:
  assumes "represents c db w" "wiki_codec_ok c"
    and "op_ok (OpRelationUpsert r) db"
  shows "implements c (wiki_do c (OpRelationUpsert r) db) (wiki_spec c (OpRelationUpsert r) w)"
proof -
  have ok: "relation_ok (stored_relation r)"
    using assms(3) by (simp add: relation_ok_def stored_relation_def)
  have same: "map_option rr_json (find (\<lambda>u. relation_row_key u = relation_row_key (relation_row_of c (stored_relation r)))
        (t_relations db)) = Some (rr_json (relation_row_of c (stored_relation r))) \<longleftrightarrow>
      stored_relation r \<in> set (wk_relations w)"
    by (rule same_relation [OF assms(1,2) ok])
  show ?thesis
    using insert_relation_refines [OF assms(1) ok] assms(1) same
    by (auto simp: relation_upsert_record_def Let_def stored_relation_def [symmetric] simp del: relation_row_simps)
qed

lemma implements_relation_remove:
  assumes "represents c db w" "wiki_codec_ok c"
  shows "implements c (wiki_do c (OpRelationRemove s t ty) db) (wiki_spec c (OpRelationRemove s t ty) w)"
proof -
  have "list_ex (\<lambda>u. relation_row_key u = k) (t_relations db) \<longleftrightarrow> k \<in> relation_key ` set (wk_relations w)" for k
    by (auto simp: representsD(4) [OF assms(1)] list_ex_iff)
  then show ?thesis
    using delete_relation_refines [OF assms(1)] assms(1)
    by (auto simp: relation_remove_def Let_def resolve_entity_read [OF assms(1)] split: option.splits)
qed

lemma implements_frames:
  assumes "represents c db w"
  shows "implements c (wiki_do c (OpSessionAdd s) db) (wiki_spec c (OpSessionAdd s) w)"
    and "implements c (wiki_do c (OpFeedbackAdd f) db) (wiki_spec c (OpFeedbackAdd f) w)"
    and "implements c (wiki_do c (OpLastIngest now) db) (wiki_spec c (OpLastIngest now) w)"
  using assms
  by (simp_all add: search_session_add_def search_feedback_add_def set_last_ingest_at_def meta_put_def)

theorem op_implements:
  assumes "represents c db w" "wiki_codec_ok c" "op_ok x db"
  shows "implements c (wiki_do c x db) (wiki_spec c x w)"
proof (cases x)
  case (OpFactAddMany ps)
  then show ?thesis
    using implements_fact_add [OF assms(1,2), of ps] assms(3) by blast
next
  case (OpFactUpsert f)
  then show ?thesis
    using implements_fact_upsert [OF assms(1,2), of f] assms(3) by blast
next
  case (OpRelationAdd now i)
  then show ?thesis
    using implements_relation_add [OF assms(1,2), of now i] assms(3) by blast
next
  case (OpRelationUpsert r)
  then show ?thesis
    using implements_relation_upsert [OF assms(1,2), of r] assms(3) by blast
qed (use assms(1,2) implements_entity_add implements_entity_update implements_entity_delete
  implements_entity_upsert implements_fact_update implements_fact_delete implements_fact_feedback
  implements_relation_remove implements_frames in
  \<open>simp_all del: wiki_do.simps wiki_spec.simps\<close>)

lemma run_implements:
  assumes "represents c db w" "wiki_codec_ok c" "run_ok c xs db"
  shows "represents c (fst (wiki_run c xs db)) (fst (spec_run c xs w)) \<and>
    map (map_sum wiki_error_code id) (snd (wiki_run c xs db)) = snd (spec_run c xs w)"
  using assms(1,3)
proof (induction xs arbitrary: db w)
  case (Cons x xs)
  then have "implements c (wiki_do c x db) (wiki_spec c x w)"
    using op_implements [OF _ assms(2)] by simp
  then show ?case
    using Cons.IH Cons.prems(2) by (auto simp: implements_def case_prod_beta id_def)
qed simp

lemma reachable_represents:
  assumes "wiki_reachable c db" "wiki_codec_ok c"
  shows "\<exists>w. represents c db w"
  using assms(1)
proof (induction rule: wiki_reachable.induct)
  case reach_empty
  show ?case using represents_empty by blast
next
  case (reach_step db x)
  then show ?case using op_implements [OF _ assms(2)] by (auto simp: implements_def)
qed

end
