(* ===== verification/Wiki_Graph.thy ===== *)
theory Wiki_Graph
  imports Wiki_Facts
begin

text \<open>
  \<open>aidememo-core/src/graph.rs\<close>: traversal, path search and cycle detection over the relations of
  the store. The loops pop their work list at the end, so it is a stack. A loop that may need more
  steps than a bound known in advance runs on fuel; \<open>None\<close> is running out of it.
\<close>

record traverse_opts =
  to_depth :: "32 word"
  to_relation_types :: "string list option"
  to_direction :: traverse_direction

record traverse_result =
  tr_entities :: "entity_summary list"
  tr_relations :: "relation_record list"
  tr_visited_count :: nat

record path_step =
  ps_from :: entity_id
  ps_type :: string
  ps_to :: entity_id

section \<open>Traversal\<close>

text \<open>The endpoint of a relation opposite the current node.\<close>

definition opposite :: "entity_id \<Rightarrow> relation_record \<Rightarrow> entity_id" where
  "opposite current r = (if wr_source_id r = current then wr_target_id r else wr_source_id r)"

text \<open>\<open>source_id.is_some() && count_entity_facts_scoped(next) == 0\<close>: hidden from the scope.\<close>

definition hidden_entity ::
  "'j wiki_codec \<Rightarrow> 'j wiki_db \<Rightarrow> string option \<Rightarrow> entity_id \<Rightarrow> bool wiki_result" where
  "hidden_entity c db scope i =
    (if scope = None then Inr False
     else and_then (count_entity_facts_scoped c db i scope) (\<lambda>n. Inr (n = 0)))"

type_synonym visit = "entity_id \<times> 32 word"

text \<open>The loop over the relations of one node: the relations kept, and the neighbours pushed.\<close>

fun expand_relations ::
  "(relation_record \<Rightarrow> bool) \<Rightarrow> (entity_id \<Rightarrow> bool wiki_result) \<Rightarrow> visit \<Rightarrow> relation_record list \<Rightarrow>
     entity_id list \<Rightarrow> visit list \<Rightarrow> relation_record list \<Rightarrow>
     (entity_id list \<times> visit list \<times> relation_record list) wiki_result" where
  "expand_relations wanted hidden v [] visited stack out = Inr (visited, stack, out)"
| "expand_relations wanted hidden v (r # rs) visited stack out =
    (if \<not> wanted r then expand_relations wanted hidden v rs visited stack out
     else
       (let next = opposite (fst v) r in
        and_then (hidden next) (\<lambda>h.
          if h then expand_relations wanted hidden v rs visited stack out
          else if next \<in> set visited
          then expand_relations wanted hidden v rs visited stack (out @ [r])
          else expand_relations wanted hidden v rs (visited @ [next]) (stack @ [(next, snd v + 1)])
                 (out @ [r]))))"

definition wanted_relation :: "string list option \<Rightarrow> relation_record \<Rightarrow> bool" where
  "wanted_relation types r = (case types of None \<Rightarrow> True | Some ts \<Rightarrow> wr_type r \<in> set ts)"

definition entity_summary_of :: "entity_id \<Rightarrow> entity_record \<Rightarrow> 32 word \<Rightarrow> entity_summary" where
  "entity_summary_of i r n =
    \<lparr>es_id = i, es_name = we_name r, es_type = we_type r, es_fact_count = n, es_tags = we_tags r\<rparr>"

fun traverse_loop ::
  "nat \<Rightarrow> 'j wiki_codec \<Rightarrow> 'j wiki_db \<Rightarrow> traverse_opts \<Rightarrow> string option \<Rightarrow>
     entity_id list \<Rightarrow> visit list \<Rightarrow> entity_summary list \<Rightarrow> relation_record list \<Rightarrow>
     traverse_result wiki_result option" where
  "traverse_loop 0 c db opts scope visited stack es rs = None"
| "traverse_loop (Suc fuel) c db opts scope visited stack es rs =
    (if stack = []
     then Some (Inr \<lparr>tr_entities = es, tr_relations = rs, tr_visited_count = length visited\<rparr>)
     else
       (let v = last stack; rest = butlast stack in
        if to_depth opts < snd v then traverse_loop fuel c db opts scope visited rest es rs
        else
          (case and_then (entity_get_by_id_scoped c db (fst v) scope) (\<lambda>rec.
                 and_then (count_entity_facts_scoped c db (fst v) scope) (\<lambda>n.
                   and_then (relations_get_by_id_scoped c db (fst v) (to_direction opts) scope) (\<lambda>rels.
                     and_then (expand_relations (wanted_relation (to_relation_types opts))
                         (hidden_entity c db scope) v rels visited rest rs)
                       (\<lambda>(visited', stack', rs').
                         Inr (visited', stack', es @ [entity_summary_of (fst v) rec n], rs')))))
           of Inl e \<Rightarrow> Some (Inl e)
            | Inr (visited', stack', es', rs') \<Rightarrow>
                traverse_loop fuel c db opts scope visited' stack' es' rs')))"

definition traverse_scoped ::
  "nat \<Rightarrow> 'j wiki_codec \<Rightarrow> 'j wiki_db \<Rightarrow> string \<Rightarrow> traverse_opts \<Rightarrow> string option \<Rightarrow>
     traverse_result wiki_result option" where
  "traverse_scoped fuel c db name opts scope =
    (case entity_get_scoped c db name scope of
       Inl e \<Rightarrow> Some (Inl e)
     | Inr start \<Rightarrow> traverse_loop fuel c db opts scope [we_id start] [(we_id start, 0)] [] [])"

section \<open>Paths\<close>

type_synonym search_node = "entity_id \<times> path_step list"

datatype path_progress = Found "path_step list" | Pushed "entity_id list" "search_node list"

fun path_expand ::
  "(entity_id \<Rightarrow> bool wiki_result) \<Rightarrow> entity_id \<Rightarrow> search_node \<Rightarrow> relation_record list \<Rightarrow>
     entity_id list \<Rightarrow> search_node list \<Rightarrow> path_progress wiki_result" where
  "path_expand hidden goal v [] visited stack = Inr (Pushed visited stack)"
| "path_expand hidden goal v (r # rs) visited stack =
    (let next = wr_target_id r;
         step = \<lparr>ps_from = fst v, ps_type = wr_type r, ps_to = next\<rparr> in
     and_then (hidden next) (\<lambda>h.
       if h then path_expand hidden goal v rs visited stack
       else if next = goal then Inr (Found (snd v @ [step]))
       else if next \<in> set visited then path_expand hidden goal v rs visited stack
       else path_expand hidden goal v rs (visited @ [next]) (stack @ [(next, snd v @ [step])])))"

fun path_loop ::
  "nat \<Rightarrow> 'j wiki_codec \<Rightarrow> 'j wiki_db \<Rightarrow> string option \<Rightarrow> entity_id \<Rightarrow>
     entity_id list \<Rightarrow> search_node list \<Rightarrow> path_step list option wiki_result option" where
  "path_loop 0 c db scope goal visited stack = None"
| "path_loop (Suc fuel) c db scope goal visited stack =
    (if stack = [] then Some (Inr None)
     else
       (let v = last stack; rest = butlast stack in
        case and_then (relations_get_by_id_scoped c db (fst v) Forward scope)
               (\<lambda>rels. path_expand (hidden_entity c db scope) goal v rels visited rest)
        of Inl e \<Rightarrow> Some (Inl e)
         | Inr (Found p) \<Rightarrow> Some (Inr (Some p))
         | Inr (Pushed visited' stack') \<Rightarrow> path_loop fuel c db scope goal visited' stack'))"

definition path_find_scoped ::
  "nat \<Rightarrow> 'j wiki_codec \<Rightarrow> 'j wiki_db \<Rightarrow> string \<Rightarrow> string \<Rightarrow> string option \<Rightarrow>
     path_step list option wiki_result option" where
  "path_find_scoped fuel c db a b scope =
    (case entity_get_scoped c db a scope of
       Inl e \<Rightarrow> Some (Inl e)
     | Inr s \<Rightarrow>
         (case entity_get_scoped c db b scope of
            Inl e \<Rightarrow> Some (Inl e)
          | Inr t \<Rightarrow>
              if we_id s = we_id t then Some (Inr (Some []))
              else path_loop fuel c db scope (we_id t) [we_id s] [(we_id s, [])]))"

section \<open>All paths\<close>

text \<open>
  \<open>dfs_find_paths\<close> over an entity's outgoing relations: every way on to a node that is not on the
  current branch.
\<close>

fun dfs_find_paths ::
  "nat \<Rightarrow> (entity_id \<Rightarrow> relation_record list wiki_result) \<Rightarrow> entity_id \<Rightarrow> entity_id \<Rightarrow>
     path_step list \<Rightarrow> entity_id list \<Rightarrow> path_step list list wiki_result option"
  and dfs_each ::
  "nat \<Rightarrow> (entity_id \<Rightarrow> relation_record list wiki_result) \<Rightarrow> entity_id \<Rightarrow> entity_id \<Rightarrow>
     path_step list \<Rightarrow> entity_id list \<Rightarrow> relation_record list \<Rightarrow> path_step list list wiki_result option"
  where
  "dfs_find_paths 0 out current goal path visited = None"
| "dfs_find_paths (Suc fuel) out current goal path visited =
    (if current = goal then Some (Inr [path])
     else
       (case out current of
          Inl e \<Rightarrow> Some (Inl e)
        | Inr rels \<Rightarrow> dfs_each fuel out current goal path (current # visited) rels))"
| "dfs_each fuel out current goal path visited [] = Some (Inr [])"
| "dfs_each fuel out current goal path visited (r # rs) =
    (if wr_target_id r \<in> set visited then dfs_each fuel out current goal path visited rs
     else
       (case dfs_find_paths fuel out (wr_target_id r) goal
               (path @ [\<lparr>ps_from = current, ps_type = wr_type r, ps_to = wr_target_id r\<rparr>]) visited of
          None \<Rightarrow> None
        | Some (Inl e) \<Rightarrow> Some (Inl e)
        | Some (Inr ps) \<Rightarrow>
            (case dfs_each fuel out current goal path visited rs of
               None \<Rightarrow> None
             | Some (Inl e) \<Rightarrow> Some (Inl e)
             | Some (Inr qs) \<Rightarrow> Some (Inr (ps @ qs)))))"

definition find_all_paths ::
  "nat \<Rightarrow> 'j wiki_codec \<Rightarrow> 'j wiki_db \<Rightarrow> string \<Rightarrow> string \<Rightarrow> path_step list list wiki_result option" where
  "find_all_paths fuel c db a b =
    (case resolve_entity c db a of
       Inl e \<Rightarrow> Some (Inl e)
     | Inr s \<Rightarrow>
         (case resolve_entity c db b of
            Inl e \<Rightarrow> Some (Inl e)
          | Inr t \<Rightarrow>
              dfs_find_paths fuel (\<lambda>i. relations_get_by_id_scoped c db i Forward None) s t [] []))"

section \<open>Cycles\<close>

record dfs_state =
  ds_visited :: "entity_id list"
  ds_stack :: "entity_id list"
  ds_path :: "entity_id list"
  ds_cycles :: "entity_id list list"

definition dfs_start :: dfs_state where
  "dfs_start = \<lparr>ds_visited = [], ds_stack = [], ds_path = [], ds_cycles = []\<rparr>"

datatype 'a run = Done 'a | Panicked | OutOfFuel

text \<open>
  \<open>dfs_detect_cycles\<close>. An error of a recursive call is ignored (no call raises \<open>CycleDetected\<close>),
  which leaves the failed node on the path and on the recursion stack. Looking up the start of a
  cycle panics when the node is on the recursion stack but not on the path.
\<close>

fun dfs_cycles ::
  "nat \<Rightarrow> (entity_id \<Rightarrow> relation_record list wiki_result) \<Rightarrow> entity_id \<Rightarrow> dfs_state \<Rightarrow>
     (dfs_state \<times> unit wiki_result) run"
  and dfs_cycles_each ::
  "nat \<Rightarrow> (entity_id \<Rightarrow> relation_record list wiki_result) \<Rightarrow> relation_record list \<Rightarrow> dfs_state \<Rightarrow>
     (dfs_state \<times> unit wiki_result) run"
  where
  "dfs_cycles 0 out current s = OutOfFuel"
| "dfs_cycles (Suc fuel) out current s =
    (let s1 = s\<lparr>ds_visited := current # ds_visited s, ds_stack := current # ds_stack s,
               ds_path := ds_path s @ [current]\<rparr> in
     case out current of
       Inl e \<Rightarrow> Done (s1, Inl e)
     | Inr rels \<Rightarrow>
         (case dfs_cycles_each fuel out rels s1 of
            Done (s2, Inr _) \<Rightarrow>
              Done (s2\<lparr>ds_path := butlast (ds_path s2), ds_stack := removeAll current (ds_stack s2)\<rparr>,
                    Inr ())
          | r \<Rightarrow> r))"
| "dfs_cycles_each fuel out [] s = Done (s, Inr ())"
| "dfs_cycles_each fuel out (r # rs) s =
    (if wr_target_id r \<notin> set (ds_visited s)
     then (case dfs_cycles fuel out (wr_target_id r) s of
             Done (s', Inl (CycleDetected p)) \<Rightarrow> Done (s', Inl (CycleDetected p))
           | Done (s', _) \<Rightarrow> dfs_cycles_each fuel out rs s'
           | Panicked \<Rightarrow> Panicked
           | OutOfFuel \<Rightarrow> OutOfFuel)
     else if wr_target_id r \<in> set (ds_stack s)
     then (if wr_target_id r \<in> set (ds_path s)
           then dfs_cycles_each fuel out rs
                  (s\<lparr>ds_cycles := ds_cycles s
                       @ [dropWhile (\<lambda>i. i \<noteq> wr_target_id r) (ds_path s)]\<rparr>)
           else Panicked)
     else dfs_cycles_each fuel out rs s)"

fun detect_from ::
  "nat \<Rightarrow> (entity_id \<Rightarrow> relation_record list wiki_result) \<Rightarrow> entity_id list \<Rightarrow> dfs_state \<Rightarrow>
     dfs_state wiki_result run" where
  "detect_from fuel out [] s = Done (Inr s)"
| "detect_from fuel out (i # is) s =
    (if i \<in> set (ds_visited s) then detect_from fuel out is s
     else (case dfs_cycles fuel out i s of
             Done (s', Inr _) \<Rightarrow> detect_from fuel out is s'
           | Done (s', Inl e) \<Rightarrow> Done (Inl e)
           | Panicked \<Rightarrow> Panicked
           | OutOfFuel \<Rightarrow> OutOfFuel))"

definition detect_cycles ::
  "nat \<Rightarrow> 'j wiki_codec \<Rightarrow> 'j wiki_db \<Rightarrow> entity_id list list wiki_result run" where
  "detect_cycles fuel c db =
    (case entity_list c db (list_opts_default\<lparr>lo_limit := Some 10000\<rparr>) of
       Inl e \<Rightarrow> Done (Inl e)
     | Inr es \<Rightarrow>
         (case detect_from fuel (\<lambda>i. relations_get_by_id_scoped c db i Forward None) (map es_id es)
                 dfs_start of
            Done (Inr s) \<Rightarrow> Done (Inr (ds_cycles s))
          | Done (Inl e) \<Rightarrow> Done (Inl e)
          | Panicked \<Rightarrow> Panicked
          | OutOfFuel \<Rightarrow> OutOfFuel))"

end
