(* ===== verification/Wiki_Examples.thy ===== *)
theory Wiki_Examples
  imports Wiki_Machine Wiki_Graph
begin

text \<open>
  Concrete encodings and runs of the embedded wiki store, for the witnesses of its properties.
\<close>

text \<open>No relation has an end that is not stored.\<close>

definition no_dangling :: "'j wiki_db \<Rightarrow> bool" where
  "no_dangling db \<longleftrightarrow>
     list_all (\<lambda>r. rr_source_id r \<in> en_id ` set (t_entities db) \<and> rr_target_id r \<in> en_id ` set (t_entities db))
       (t_relations db)"

section \<open>A concrete store\<close>

datatype wiki_doc =
    DocEntity entity_record
  | DocFact wiki_fact
  | DocRelation relation_record
  | DocSession search_session
  | DocFeedback search_feedback

definition ascii_lower :: "string \<Rightarrow> string" where
  "ascii_lower = map (\<lambda>x. if is_ascii_uppercase x then char_of (of_char x + (32::nat)) else x)"

definition ex_wc :: "wiki_doc wiki_codec" where
  "ex_wc =
    \<lparr>wc_lower = ascii_lower, wc_sha_hex = (\<lambda>s. s), wc_ulid_text = (\<lambda>i. nat_text (unat i)),
     wc_ulid_debug = (\<lambda>i. nat_text (unat i)), wc_similarity = (\<lambda>a b. if a = b then f32_one else f32_zero),
     wc_entity_json = DocEntity,
     wc_entity_of = (\<lambda>d. case d of
         DocEntity r \<Rightarrow> Some (r\<lparr>we_type := entity_type_parse ascii_lower (entity_type_text (we_type r))\<rparr>)
       | _ \<Rightarrow> None),
     wc_fact_json = DocFact,
     wc_fact_of = (\<lambda>d. case d of DocFact f \<Rightarrow> if fact_floats_finite f then Some f else None | _ \<Rightarrow> None),
     wc_relation_json = DocRelation,
     wc_relation_of = (\<lambda>d. case d of
         DocRelation r \<Rightarrow> if f32_is_finite (wr_weight r) then Some r else None | _ \<Rightarrow> None),
     wc_session_json = DocSession, wc_feedback_json = DocFeedback\<rparr>"

lemma ascii_lower_idem: "ascii_lower (ascii_lower s) = ascii_lower s"
proof -
  have "\<not> is_ascii_uppercase (char_of (of_char x + (32::nat)))" if "is_ascii_uppercase x" for x
    using that by (auto simp: is_ascii_uppercase_def byte_between_def)
  then show ?thesis by (simp add: ascii_lower_def)
qed

lemma ex_wc_ok: "wiki_codec_ok ex_wc"
  by (simp add: wiki_codec_ok_def ex_wc_def ascii_lower_idem stored_entity_def)

definition ex_person :: "string \<Rightarrow> string list \<Rightarrow> entity_input" where
  "ex_person n as = \<lparr>ei_name = n, ei_type = Some EtPerson, ei_aliases = Some as, ei_tags = None,
     ei_source_page = None\<rparr>"

definition ex_say :: "string \<Rightarrow> entity_id list \<Rightarrow> fact_input" where
  "ex_say s es = \<lparr>fi_content = s, fi_type = None, fi_entity_ids = Some es, fi_tags = None, fi_source = None,
     fi_source_id = Some ''notes'', fi_actor_id = None, fi_source_confidence = None, fi_observed_at = None\<rparr>"

definition ex_knows :: "string \<Rightarrow> string \<Rightarrow> relation_input" where
  "ex_knows a b = \<lparr>ri_source = a, ri_target = b, ri_scope_source_id = None, ri_type = ''knows'',
     ri_weight = None, ri_evidence = None\<rparr>"

definition ex_ops :: "wiki_op list" where
  "ex_ops =
    [OpEntityAdd 10 1 (ex_person ''Ada'' [''Countess'']), OpEntityAdd 11 2 (ex_person ''Bob'' []),
     OpEntityAdd 12 3 (ex_person ''ADA'' []),
     OpFactAddMany [(ex_say ''wrote a program'' [1], 13, 7), (ex_say ''wrote a program'' [2], 14, 8)],
     OpRelationAdd 15 (ex_knows ''ada'' ''BOB'')]"

definition ex_wiki :: "wiki_doc wiki_db" where
  "ex_wiki = fst (wiki_run ex_wc ex_ops wiki_empty)"

text \<open>Two ways from \<open>a\<close> to \<open>e\<close>, of two and of three steps, and on to \<open>f\<close>.\<close>

definition ex_graph_ops :: "wiki_op list" where
  "ex_graph_ops =
    [OpEntityAdd 1 1 (ex_person ''a'' []), OpEntityAdd 1 2 (ex_person ''b'' []),
     OpEntityAdd 1 3 (ex_person ''c'' []), OpEntityAdd 1 4 (ex_person ''d'' []),
     OpEntityAdd 1 5 (ex_person ''e'' []), OpEntityAdd 1 6 (ex_person ''f'' []),
     OpRelationAdd 1 (ex_knows ''a'' ''b''), OpRelationAdd 2 (ex_knows ''a'' ''c''),
     OpRelationAdd 3 (ex_knows ''c'' ''d''), OpRelationAdd 4 (ex_knows ''d'' ''e''),
     OpRelationAdd 5 (ex_knows ''b'' ''e''), OpRelationAdd 6 (ex_knows ''e'' ''f'')]"

definition ex_graph :: "wiki_doc wiki_db" where
  "ex_graph = fst (wiki_run ex_wc ex_graph_ops wiki_empty)"

section \<open>Evaluation\<close>

lemma ex_wc_simps [simp]:
  "wc_lower ex_wc = ascii_lower" "wc_sha_hex ex_wc s = s" "wc_ulid_text ex_wc i = nat_text (unat i)"
  "wc_entity_json ex_wc r = DocEntity r" "wc_fact_json ex_wc f = DocFact f"
  "wc_relation_json ex_wc q = DocRelation q"
  "wc_entity_of ex_wc (DocEntity r) =
    Some (r\<lparr>we_type := entity_type_parse ascii_lower (entity_type_text (we_type r))\<rparr>)"
  "wc_fact_of ex_wc (DocFact f) = (if fact_floats_finite f then Some f else None)"
  "wc_relation_of ex_wc (DocRelation q) = (if f32_is_finite (wr_weight q) then Some q else None)"
  by (simp_all add: ex_wc_def)

lemma ex_lower [simp]:
  "ascii_lower ''Ada'' = ''ada''" "ascii_lower ''ADA'' = ''ada''" "ascii_lower ''Bob'' = ''bob''"
  "ascii_lower ''Countess'' = ''countess''" "ascii_lower ''ada'' = ''ada''" "ascii_lower ''BOB'' = ''bob''"
  "ascii_lower ''bob'' = ''bob''" "ascii_lower ''person'' = ''person''"
  "ascii_lower ''a'' = ''a''" "ascii_lower ''b'' = ''b''" "ascii_lower ''c'' = ''c''" "ascii_lower ''d'' = ''d''"
  "ascii_lower ''e'' = ''e''" "ascii_lower ''f'' = ''f''" "ascii_lower ''COUNTESS'' = ''countess''"
  by code_simp+

lemma ex_trim [simp]: "trim_text ''notes'' = ''notes''"
  by code_simp

lemmas ex_floats [simp] = f32_literal_values(6-11)

lemmas wiki_eval =
  ex_person_def ex_say_def ex_knows_def Let_def
  entity_add_def insert_entity_record_def entity_of_input_def entity_record_new_def or_keep_def
  sql_write_def insert_row_def entity_clash_def entity_row_of_def name_clash_def
  replace_entity_tags_def entity_known_def delete_rows_def wiki_empty_def
  entity_type_parse_def entity_type_of_lower_def list_ex_iff input_finite_def
  insert_fact_record_def fact_of_input_def fact_record_new_def fact_id_by_hash_def normalize_source_id_def
  fact_row_of_def fact_clash_def fact_check_def dedup_key_def source_key_def merge_fact_entities_def 
  update_fact_record_def get_fact_record_def update_unique_def relation_add_def resolve_entity_def 
  insert_relation_record_def insert_or_replace_def relation_row_of_def relation_row_key_def 
  entity_delete_def delete_entity_rows_def entity_get_def get_entity_record_def  replace_fact_entities_def
  fact_floats_finite_def


definition ex_ada :: entity_record where
  "ex_ada = \<lparr>we_id = 1, we_name = ''Ada'', we_name_lower = ''ada'', we_type = EtPerson,
     we_aliases = [''Countess''], we_tags = [], we_source_page = None, we_created_at = 10,
     we_updated_at = 10, we_summary = None, we_summary_updated_at = None\<rparr>"

lemma ex_ops_ok: "run_ok ex_wc ex_ops wiki_empty"
  by (simp add: ex_ops_def wiki_eval)

lemma ex_graph_ops_ok: "run_ok ex_wc ex_graph_ops wiki_empty"
  by (simp add: ex_graph_ops_def wiki_eval)

lemma run_reachable:
  "wiki_reachable c db \<Longrightarrow> run_ok c xs db \<Longrightarrow> wiki_reachable c (fst (wiki_run c xs db))"
  by (induction xs arbitrary: db) (auto simp: case_prod_beta intro: reach_step)

lemma ex_wiki_reachable: "wiki_reachable ex_wc ex_wiki" "wiki_reachable ex_wc ex_graph"
  unfolding ex_wiki_def ex_graph_def
  by (rule run_reachable [OF reach_empty ex_ops_ok]) (rule run_reachable [OF reach_empty ex_graph_ops_ok])

definition ex_fact :: wiki_fact where
  "ex_fact =
    (fact_record_new 13 7 ''wrote a program'' FtUnknown [1, 2])\<lparr>wf_source_id := Some ''notes''\<rparr>"

lemma ex_wiki_reads:
  "get_entity_record ex_wc ex_wiki 1 = Inr ex_ada" "resolve_entity ex_wc ex_wiki ''COUNTESS'' = Inr 1"
  "get_fact_record ex_wc ex_wiki 7 = Inr ex_fact" "map fr_id (t_facts ex_wiki) = [7]"
  by (simp_all add: ex_wiki_def ex_ops_def ex_ada_def ex_fact_def wiki_eval)

lemma ex_graph_reads:
  "entity_get_scoped ex_wc ex_graph ''a'' None = Inr (entity_record_new ascii_lower 1 1 ''a'' EtPerson)"
  "entity_get_scoped ex_wc ex_graph ''e'' None = Inr (entity_record_new ascii_lower 1 5 ''e'' EtPerson)"
  "no_dangling ex_graph"
  "length (t_relations ex_graph) = 6"
  by (simp_all add: ex_graph_def ex_graph_ops_def entity_get_scoped_def no_dangling_def wiki_eval)

definition ex_step :: "entity_id \<Rightarrow> entity_id \<Rightarrow> path_step" where
  "ex_step a b = \<lparr>ps_from = a, ps_type = ''knows'', ps_to = b\<rparr>"

lemmas relation_eval = relations_get_by_id_scoped_def relations_get_by_id_def relations_get_def
  read_relations_def in_scope_def hidden_entity_def

lemma ex_eight: "8 = Suc (Suc (Suc (Suc (Suc (Suc (Suc (Suc 0)))))))"
  by simp

lemma ex_path:
  "path_find_scoped 8 ex_wc ex_graph ''a'' ''e'' None =
     Some (Inr (Some [ex_step 1 3, ex_step 3 4, ex_step 4 5]))"
  unfolding ex_eight
  by (simp add: path_find_scoped_def ex_graph_reads entity_record_new_def ex_step_def)
    (simp add: ex_graph_def ex_graph_ops_def wiki_eval relation_eval)

definition ex_depth3 :: traverse_opts where
  "ex_depth3 = \<lparr>to_depth = 3, to_relation_types = None, to_direction = Forward\<rparr>"

lemma ex_traverse:
  "map_option (map_sum id (\<lambda>r. map es_id (tr_entities r)))
     (traverse_scoped 8 ex_wc ex_graph ''a'' ex_depth3 None) = Some (Inr [1, 3, 4, 5, 2])"
  unfolding ex_eight
  by (simp add: traverse_scoped_def ex_graph_reads entity_record_new_def ex_depth3_def)
    (simp add: ex_graph_def ex_graph_ops_def wiki_eval relation_eval entity_get_by_id_scoped_def
      count_entity_facts_scoped_def opposite_def wanted_relation_def entity_summary_of_def)

end
