(* ===== verification/Wiki_Search.thy ===== *)
theory Wiki_Search
  imports Wiki_Examples
begin

text \<open>
  Path search in the graph of the embedded wiki store (\<open>path_find\<close> of \<open>aidememo-core/src/graph.rs\<close>):
  what a path is, that the search stops, and that it finds a path exactly when there is one.
\<close>

section \<open>Paths\<close>

definition leads ::
  "'j wiki_codec \<Rightarrow> 'j wiki_db \<Rightarrow> string option \<Rightarrow> entity_id \<Rightarrow> string \<Rightarrow> entity_id \<Rightarrow> bool" where
  "leads c db scope a ty b \<longleftrightarrow>
     (\<exists>rels. relations_get_by_id_scoped c db a Forward scope = Inr rels \<and>
        (\<exists>r\<in>set rels. wr_type r = ty \<and> wr_target_id r = b)) \<and>
     hidden_entity c db scope b = Inr False"

text \<open>Every step goes along a relation in the scope, to an entity visible in the scope.\<close>

fun is_path ::
  "'j wiki_codec \<Rightarrow> 'j wiki_db \<Rightarrow> string option \<Rightarrow> entity_id \<Rightarrow> path_step list \<Rightarrow> entity_id \<Rightarrow> bool" where
  "is_path c db scope a [] b \<longleftrightarrow> a = b"
| "is_path c db scope a (s # ss) b \<longleftrightarrow>
     ps_from s = a \<and> leads c db scope a (ps_type s) (ps_to s) \<and> is_path c db scope (ps_to s) ss b"

lemma is_path_snoc:
  "is_path c db scope a (p @ [s]) b \<longleftrightarrow>
     is_path c db scope a p (ps_from s) \<and> leads c db scope (ps_from s) (ps_type s) (ps_to s) \<and> ps_to s = b"
  by (induction p arbitrary: a) auto

lemma closed_no_path:
  assumes "is_path c db scope a p b" "a \<in> V"
    and "\<And>x ty y. x \<in> V \<Longrightarrow> leads c db scope x ty y \<Longrightarrow> y \<in> V"
  shows "b \<in> V"
  using assms(1,2) by (induction p arbitrary: a) (auto dest: assms(3))

section \<open>One node\<close>

lemma path_expand_found:
  assumes "path_expand hidden goal v rels V S = Inr (Found p)"
  shows "\<exists>r\<in>set rels. hidden goal = Inr False \<and> wr_target_id r = goal \<and>
    p = snd v @ [\<lparr>ps_from = fst v, ps_type = wr_type r, ps_to = goal\<rparr>]"
  using assms by (induction rels arbitrary: V S) (auto simp: Let_def and_then_Inr_iff split: if_splits)

lemma path_expand_total:
  assumes "\<forall>r\<in>set rels. \<exists>h. hidden (wr_target_id r) = Inr h"
  shows "\<exists>x. path_expand hidden goal v rels V S = Inr x"
  using assms by (induction rels arbitrary: V S) (auto simp: Let_def)

text \<open>What is pushed are new visible neighbours, and no visible neighbour is left out.\<close>

lemma path_expand_pushed:
  assumes "path_expand hidden goal v rels V S = Inr (Pushed V' S')" "distinct V"
  shows "\<exists>new. V' = V @ map fst new \<and> S' = S @ new \<and> distinct V' \<and>
    (\<forall>(j, p)\<in>set new. j \<noteq> goal \<and> (\<exists>r\<in>set rels. hidden j = Inr False \<and> wr_target_id r = j \<and>
        p = snd v @ [\<lparr>ps_from = fst v, ps_type = wr_type r, ps_to = j\<rparr>])) \<and>
    (\<forall>r\<in>set rels. hidden (wr_target_id r) = Inr False \<longrightarrow>
        wr_target_id r \<in> set V' \<and> wr_target_id r \<noteq> goal)"
  using assms
proof (induction rels arbitrary: V S)
  case (Cons r rs)
  let ?next = "wr_target_id r"
  obtain h where h: "hidden ?next = Inr h"
    using Cons.prems(1) by (cases "hidden ?next") auto
  show ?case
  proof (cases "h \<or> ?next \<in> set V")
    case True
    then have "path_expand hidden goal v rs V S = Inr (Pushed V' S')" "\<not> h \<longrightarrow> ?next \<noteq> goal"
      using Cons.prems(1) h by (auto simp: Let_def split: if_splits)
    from Cons.IH [OF this(1) Cons.prems(2)] this(2) True h show ?thesis
      by fastforce
  next
    case False
    let ?n = "(?next, snd v @ [\<lparr>ps_from = fst v, ps_type = wr_type r, ps_to = ?next\<rparr>])"
    have go: "?next \<noteq> goal" "path_expand hidden goal v rs (V @ [?next]) (S @ [?n]) = Inr (Pushed V' S')"
      using False Cons.prems(1) h by (auto simp: Let_def split: if_splits)
    have "distinct (V @ [?next])"
      using False Cons.prems(2) by simp
    from Cons.IH [OF go(2) this] obtain new where new: "V' = (V @ [?next]) @ map fst new"
      "S' = (S @ [?n]) @ new" "distinct V'"
      "\<forall>(j, p)\<in>set new. j \<noteq> goal \<and> (\<exists>r\<in>set rs. hidden j = Inr False \<and> wr_target_id r = j \<and>
        p = snd v @ [\<lparr>ps_from = fst v, ps_type = wr_type r, ps_to = j\<rparr>])"
      "\<forall>r\<in>set rs. hidden (wr_target_id r) = Inr False \<longrightarrow>
        wr_target_id r \<in> set V' \<and> wr_target_id r \<noteq> goal"
      by blast
    show ?thesis
      by (rule exI [where x = "?n # new"]) (use new go(1) False h in auto)
  qed
qed auto

section \<open>The loop\<close>

definition known_targets :: "'j wiki_codec \<Rightarrow> 'j wiki_db \<Rightarrow> entity_id set" where
  "known_targets c db =
    {wr_target_id r |r row. row \<in> set (t_relations db) \<and> wc_relation_of c (rr_json row) = Some r}"

lemma known_targets_card:
  "finite (known_targets c db)" "card (known_targets c db) \<le> length (t_relations db)"
proof -
  let ?f = "\<lambda>row. wr_target_id (the (wc_relation_of c (rr_json row)))"
  have sub: "known_targets c db \<subseteq> ?f ` set (t_relations db)"
    by (force simp: known_targets_def)
  then show "finite (known_targets c db)"
    by (rule finite_subset) simp
  show "card (known_targets c db) \<le> length (t_relations db)"
    using card_mono [OF _ sub] card_image_le [of "set (t_relations db)" ?f] card_length [of "t_relations db"]
    by simp
qed

lemma read_relations_rows:
  assumes "read_relations c ctx rows = Inr rels" "r \<in> set rels"
  shows "\<exists>row\<in>set rows. wc_relation_of c (rr_json row) = Some r"
proof -
  have "\<exists>x\<in>set xs. f x = Inr r" if "collect_results f xs = Inr rs" "r \<in> set rs" for f :: "'b \<Rightarrow> 'e + 'c" and xs rs r
    using that by (induction xs arbitrary: rs) (auto simp: and_then_Inr_iff)
  from this [OF assms(1) [unfolded read_relations_def] assms(2)] show ?thesis
    by (auto simp: ok_or_def split: option.splits)
qed

lemma relation_targets_known:
  assumes "relations_get_by_id_scoped c db i d scope = Inr rels" "r \<in> set rels"
  shows "wr_target_id r \<in> known_targets c db"
  using assms
  by (auto simp: relations_get_by_id_scoped_def relations_get_by_id_def relations_get_def
      and_then_Inr_iff known_targets_def dest!: read_relations_rows) blast

definition search_inv ::
  "'j wiki_codec \<Rightarrow> 'j wiki_db \<Rightarrow> string option \<Rightarrow> entity_id \<Rightarrow> entity_id \<Rightarrow>
     entity_id list \<Rightarrow> search_node list \<Rightarrow> bool" where
  "search_inv c db scope s t V S \<longleftrightarrow>
     distinct V \<and> s \<in> set V \<and> t \<notin> set V \<and> set V \<subseteq> insert s (known_targets c db) \<and>
     (\<forall>(j, p)\<in>set S. j \<in> set V \<and> is_path c db scope s p j) \<and>
     (\<forall>j\<in>set V. j \<notin> fst ` set S \<longrightarrow> (\<forall>ty k. leads c db scope j ty k \<longrightarrow> k \<in> set V))"

lemma search_step:
  assumes "search_inv c db scope s t V S" "S \<noteq> []"
    and "relations_get_by_id_scoped c db (fst (last S)) Forward scope = Inr rels"
    and "path_expand (hidden_entity c db scope) t (last S) rels V (butlast S) = Inr (Pushed V' S')"
  shows "search_inv c db scope s t V' S'"
    and "length S' + length V = length V' + length S - 1" "length V \<le> length V'"
proof -
  let ?v = "last S"
  obtain new where new: "V' = V @ map fst new" "S' = butlast S @ new" "distinct V'"
    "\<forall>(j, p)\<in>set new. j \<noteq> t \<and> (\<exists>r\<in>set rels. hidden_entity c db scope j = Inr False \<and>
        wr_target_id r = j \<and> p = snd ?v @ [\<lparr>ps_from = fst ?v, ps_type = wr_type r, ps_to = j\<rparr>])"
    "\<forall>r\<in>set rels. hidden_entity c db scope (wr_target_id r) = Inr False \<longrightarrow>
        wr_target_id r \<in> set V' \<and> wr_target_id r \<noteq> t"
    using path_expand_pushed [OF assms(4)] assms(1) by (auto simp: search_inv_def)
  have S: "S = butlast S @ [?v]"
    using assms(2) by simp
  have v: "fst ?v \<in> set V" "is_path c db scope s (snd ?v) (fst ?v)"
    using assms(1) last_in_set [OF assms(2)] by (auto simp: search_inv_def case_prod_beta)
  have pushed: "j \<noteq> t \<and> j \<in> known_targets c db \<and> is_path c db scope s p j" if "(j, p) \<in> set new" for j p
    using that new(4) v(2) relation_targets_known [OF assms(3)] assms(3)
    by (fastforce simp: is_path_snoc leads_def)
  have pushed_node: "j \<noteq> t \<and> j \<in> known_targets c db" if "j \<in> fst ` set new" for j
    using that pushed by fastforce
  have done_v: "k \<in> set V'" if "leads c db scope (fst ?v) ty k" for ty k
    using that new(5) assms(3) by (auto simp: leads_def)
  have rest: "k \<in> set V'" if "j \<in> set V" "j \<notin> fst ` set S'" "leads c db scope j ty k" for j ty k
  proof (cases "j = fst ?v")
    case False
    then have "j \<notin> fst ` set S"
      using that(2) arg_cong [OF S, of "\<lambda>l. fst ` set l"] by (auto simp: new(2))
    then have "k \<in> set V"
      using that(1,3) assms(1) by (auto simp: search_inv_def)
    then show ?thesis by (simp add: new(1))
  qed (use done_v that(3) in simp)
  have new_on_stack: "j \<in> fst ` set S'" if "j \<in> fst ` set new" for j
    using that new(2) by auto
  show "search_inv c db scope s t V' S'"
    unfolding search_inv_def
  proof (intro conjI)
    show "distinct V'" by (rule new(3))
    show "s \<in> set V'" "t \<notin> set V'" "set V' \<subseteq> insert s (known_targets c db)"
      using assms(1) pushed_node unfolding search_inv_def new(1) set_append set_map by blast+
    have "j \<in> set V \<and> is_path c db scope s p j" if "(j, p) \<in> set (butlast S)" for j p
      using assms(1) in_set_butlastD [OF that] unfolding search_inv_def by blast
    moreover have "j \<in> set V'" if "(j, p) \<in> set new" for j p
      using that by (force simp: new(1))
    ultimately show "\<forall>(j, p)\<in>set S'. j \<in> set V' \<and> is_path c db scope s p j"
      using pushed by (auto simp: new(1,2))
    show "\<forall>j\<in>set V'. j \<notin> fst ` set S' \<longrightarrow> (\<forall>ty k. leads c db scope j ty k \<longrightarrow> k \<in> set V')"
      using rest new_on_stack unfolding new(1) set_append set_map by blast
  qed
  show "length S' + length V = length V' + length S - 1" "length V \<le> length V'"
    using assms(2) by (cases S; simp add: new(1,2))+
qed

text \<open>Within the fuel the loop returns, and what it returns is right.\<close>

lemma path_loop_correct:
  assumes "search_inv c db scope s t V S"
    and "length S + Suc (card (known_targets c db)) - length V < fuel"
    and "\<And>j. j \<in> set V \<union> known_targets c db \<Longrightarrow> \<exists>rels. relations_get_by_id_scoped c db j Forward scope = Inr rels"
    and "\<And>j. j \<in> known_targets c db \<Longrightarrow> \<exists>h. hidden_entity c db scope j = Inr h"
  shows "\<exists>q. path_loop fuel c db scope t V S = Some (Inr q) \<and>
    (case q of None \<Rightarrow> \<not> (\<exists>p. is_path c db scope s p t) | Some p \<Rightarrow> is_path c db scope s p t)"
  using assms
proof (induction fuel arbitrary: V S)
  case (Suc fuel)
  note inv = Suc.prems(1)
  show ?case
  proof (cases "S = []")
    case True
    then have "\<And>x ty y. x \<in> set V \<Longrightarrow> leads c db scope x ty y \<Longrightarrow> y \<in> set V"
      using inv by (auto simp: search_inv_def)
    then have "\<not> is_path c db scope s p t" for p
      using closed_no_path [of c db scope s p t "set V"] inv by (auto simp: search_inv_def)
    with True show ?thesis by auto
  next
    case False
    let ?v = "last S"
    have v: "fst ?v \<in> set V" "is_path c db scope s (snd ?v) (fst ?v)"
      using inv last_in_set [OF False] by (auto simp: search_inv_def case_prod_beta)
    obtain rels where rels: "relations_get_by_id_scoped c db (fst ?v) Forward scope = Inr rels"
      using Suc.prems(3) v(1) by blast
    have known: "\<forall>r\<in>set rels. \<exists>h. hidden_entity c db scope (wr_target_id r) = Inr h"
      using relation_targets_known [OF rels] Suc.prems(4) by blast
    obtain x where x: "path_expand (hidden_entity c db scope) t ?v rels V (butlast S) = Inr x"
      using path_expand_total [OF known] by blast
    show ?thesis
    proof (cases x)
      case (Found p)
      then have "is_path c db scope s p t"
        using path_expand_found [OF x [unfolded Found]] v(2) rels
        by (auto simp: is_path_snoc leads_def)
      with False x rels Found show ?thesis by simp
    next
      case (Pushed V' S')
      note st = search_step [OF inv False rels x [unfolded Pushed]]
      have "length V' \<le> card (insert s (known_targets c db))"
        using st(1) known_targets_card(1) [of c db]
        by (metis search_inv_def card_mono distinct_card finite_insert)
      then have le: "length V' \<le> Suc (card (known_targets c db))"
        using card_insert_le_m1 known_targets_card(1) by (metis card_insert_if le_SucI)
      have fuel: "length S' + Suc (card (known_targets c db)) - length V' < fuel"
        using Suc.prems(2) st(2,3) le False by (cases S) auto
      have "\<exists>rels. relations_get_by_id_scoped c db j Forward scope = Inr rels"
        if "j \<in> set V' \<union> known_targets c db" for j
        using that st(1) Suc.prems(3) inv by (auto simp: search_inv_def)
      from Suc.IH [OF st(1) fuel this Suc.prems(4)] False x rels Pushed show ?thesis
        by simp
    qed
  qed
qed simp


section \<open>Nothing fails on a well-kept store\<close>

lemma fact_list_total:
  assumes "represents c db w" "wiki_codec_ok c"
  shows "\<exists>fs. fact_list c db opts = Inr fs"
proof -
  have doc: "\<exists>f\<in>set (wk_facts w). fr_json r = wc_fact_json c f" if "r \<in> set (t_facts db)" for r
    using that arg_cong [OF facts_map [OF assms(1), of fr_json], of set] by (auto simp: image_iff)
  have "\<exists>f. ok_or (Deserialize ''sqlite fact list'') (wc_fact_of c (fr_json r)) = Inr f"
    if "r \<in> set (t_facts db)" for r
    using doc [OF that] wiki_invD(6) [OF representsD(11) [OF assms(1)]]
    by (auto simp: codec_okD(3) [OF assms(2)])
  moreover have "set (fact_rows_for db e) \<subseteq> set (t_facts db)" for e
    by (auto simp: fact_rows_for_def split: option.splits)
  moreover have "\<exists>ys. collect_results g xs = Inr ys" if "\<forall>x\<in>set xs. \<exists>y. g x = Inr y"
    for g :: "'b \<Rightarrow> 'e + 'c" and xs
    using that by (induction xs) auto
  ultimately have "\<exists>rs. collect_results (\<lambda>row. ok_or (Deserialize ''sqlite fact list'')
      (wc_fact_of c (fr_json row))) (fact_rows_for db (fo_entity_id opts)) = Inr rs"
    by (meson subset_iff)
  then show ?thesis
    by (auto simp: fact_list_def)
qed

lemma hidden_total:
  assumes "represents c db w" "wiki_codec_ok c"
  shows "\<exists>h. hidden_entity c db scope i = Inr h"
proof -
  have "\<exists>n. count_entity_facts_scoped c db i scope = Inr n"
  proof (cases scope)
    case (Some x)
    obtain fs where "fact_list c db (fact_list_opts_default\<lparr>fo_entity_id := Some i, fo_source_id := Some x\<rparr>) = Inr fs"
      using fact_list_total [OF assms] by blast
    with Some show ?thesis
      by (simp add: count_entity_facts_scoped_def)
  qed (simp add: count_entity_facts_scoped_def)
  then show ?thesis
    by (auto simp: hidden_entity_def)
qed

text \<open>The relations of a stored entity, by its id.\<close>

lemma relations_of_entity:
  assumes "represents c db w" "wiki_codec_ok c" "wiki_entity w i \<noteq> None"
  shows "relations_get_by_id_scoped c db i d scope =
    Inr (filter (in_scope scope) (filter (\<lambda>r. direction_matches d i (relation_row_of c r))
      (sort_key (\<lambda>r. sint (wr_created_at r)) (wk_relations w))))"
proof -
  note inv = representsD(11) [OF assms(1)]
  obtain e where e: "wiki_entity w i = Some e"
    using assms(3) by blast
  have "wiki_named c w (we_name e) = Some e"
    using e wiki_entity_iff [OF inv] by (auto simp: wiki_named_iff [OF inv] entity_names_def)
  moreover have "we_id e = i"
    using e wiki_entity_iff [OF inv] by blast
  ultimately show ?thesis
    by (simp add: relations_get_by_id_scoped_def relations_get_by_id_def relations_get_def e
        entity_record_read [OF assms(1,2)] resolve_entity_read [OF assms(1)] relations_read [OF assms(1,2)])
qed

lemma entity_ids:
  assumes "represents c db w"
  shows "i \<in> en_id ` set (t_entities db) \<longleftrightarrow> wiki_entity w i \<noteq> None"
  by (auto simp: representsD(1) [OF assms] wiki_entity_def find_None_set image_iff)

lemma targets_stored:
  assumes "represents c db w" "wiki_codec_ok c" "no_dangling db" "i \<in> known_targets c db"
  shows "wiki_entity w i \<noteq> None"
proof -
  obtain q where q: "q \<in> set (wk_relations w)" "i = wr_target_id q"
    using assms(4) codec_okD(4) [OF assms(2)]
    by (auto simp: known_targets_def representsD(4) [OF assms(1)] split: if_splits)
  then show ?thesis
    using assms(3) entity_ids [OF assms(1), of i]
    by (auto simp: no_dangling_def representsD(4) [OF assms(1)] list_all_iff)
qed

lemma scoped_entity_stored:
  assumes "represents c db w" "wiki_codec_ok c" "entity_get_scoped c db a scope = Inr s"
  shows "wiki_entity w (we_id s) \<noteq> None"
proof -
  note inv = representsD(11) [OF assms(1)]
  have "wiki_entity w (we_id e) \<noteq> None" if "wiki_named c w a = Some e" for e
    using that wiki_named_iff [OF inv] by (simp add: wiki_entity_def find_None_set) blast
  with assms(3) show ?thesis
    by (auto simp: entity_get_scoped_def entity_get_read [OF assms(1,2)] and_then_Inr_iff
        redact_unscoped_entity_metadata_def split: option.splits if_splits)
qed

text \<open>
  C37. On a store in which every relation joins stored entities, a path search between two entities
  visible in the scope always returns within as many rounds as there are relations and two more: a
  path through visible entities if there is one, and nothing exactly when there is none.
\<close>

theorem path_find_correct:
  assumes "wiki_reachable c db" "wiki_codec_ok c" "no_dangling db"
    and "entity_get_scoped c db a scope = Inr s" "entity_get_scoped c db b scope = Inr t"
    and "length (t_relations db) + 2 \<le> fuel"
  shows "\<exists>q. path_find_scoped fuel c db a b scope = Some (Inr q) \<and>
    (case q of None \<Rightarrow> \<not> (\<exists>p. is_path c db scope (we_id s) p (we_id t))
     | Some p \<Rightarrow> is_path c db scope (we_id s) p (we_id t))"
proof (cases "we_id s = we_id t")
  case False
  obtain w where rep: "represents c db w"
    using reachable_represents [OF assms(1,2)] by blast
  have "search_inv c db scope (we_id s) (we_id t) [we_id s] [(we_id s, [])]"
    using False by (simp add: search_inv_def)
  moreover have "length [(we_id s, [])] + Suc (card (known_targets c db)) - length [we_id s] < fuel"
    using assms(6) known_targets_card(2) [of c db] by simp
  moreover have "\<exists>rels. relations_get_by_id_scoped c db j Forward scope = Inr rels"
    if "j \<in> set [we_id s] \<union> known_targets c db" for j
  proof -
    have "wiki_entity w j \<noteq> None"
      using that scoped_entity_stored [OF rep assms(2,4)] targets_stored [OF rep assms(2,3)] by auto
    from relations_of_entity [OF rep assms(2) this] show ?thesis by blast
  qed
  ultimately have "\<exists>q. path_loop fuel c db scope (we_id t) [we_id s] [(we_id s, [])] = Some (Inr q) \<and>
      (case q of None \<Rightarrow> \<not> (\<exists>p. is_path c db scope (we_id s) p (we_id t))
       | Some p \<Rightarrow> is_path c db scope (we_id s) p (we_id t))"
    using hidden_total [OF rep assms(2)] by (rule path_loop_correct)
  then show ?thesis
    using False assms(4,5) by (simp add: path_find_scoped_def)
qed (use assms(4,5) in \<open>auto simp: path_find_scoped_def\<close>)

theorem path_find_correct_witness:
  "\<exists>p. path_find_scoped 8 ex_wc ex_graph ''a'' ''e'' None = Some (Inr (Some p)) \<and>
     is_path ex_wc ex_graph None 1 p 5"
  using path_find_correct [OF ex_wiki_reachable(2) ex_wc_ok ex_graph_reads(3,1,2), of 8]
  by (simp add: ex_graph_reads(4) ex_path entity_record_new_def del: is_path.simps)


end
