(* ===== verification/Wiki_Properties.thy ===== *)
theory Wiki_Properties
  imports Wiki_Examples
begin

text \<open>
  What users of the embedded wiki store may rely on: the store is a wiki whatever was done to it,
  names identify entities, content identifies facts, a stale update is refused, and archiving moves
  facts without losing any.
\<close>

section \<open>The store is a wiki\<close>

text \<open>
  C32. After any sequence of operations from an empty store, the tables represent exactly the wiki
  that the specification reaches - records, names, tags, links, full-text index in step - and every
  reply, or the code of every error, is the specified one.
\<close>

theorem wiki_store_refines:
  assumes "wiki_codec_ok c" "run_ok c xs wiki_empty"
  shows "represents c (fst (wiki_run c xs wiki_empty)) (fst (spec_run c xs empty_wiki)) \<and>
    map (map_sum wiki_error_code id) (snd (wiki_run c xs wiki_empty)) = snd (spec_run c xs empty_wiki)"
  by (rule run_implements [OF represents_empty assms])

theorem wiki_store_refines_witness:
  "represents ex_wc ex_wiki (fst (spec_run ex_wc ex_ops empty_wiki)) \<and>
   map (map_sum wiki_error_code id) (snd (wiki_run ex_wc ex_ops wiki_empty)) =
     snd (spec_run ex_wc ex_ops empty_wiki)"
  using wiki_store_refines [OF ex_wc_ok ex_ops_ok] by (simp only: ex_wiki_def)

section \<open>Entities\<close>

lemma entity_record_Inr:
  assumes "represents c db w" "wiki_codec_ok c"
  shows "get_entity_record c db i = Inr r \<longleftrightarrow> (\<exists>e. wiki_entity w i = Some e \<and> r = stored_entity c e)"
  by (auto simp: entity_record_read [OF assms] split: option.split)

lemma resolve_Inr:
  assumes "represents c db w"
  shows "resolve_entity c db n = Inr i \<longleftrightarrow> (\<exists>e. wiki_named c w n = Some e \<and> we_id e = i)"
  by (auto simp: resolve_entity_read [OF assms] split: option.split)

text \<open>
  C33. A name resolves to an entity exactly when it is the name or an alias of that entity's record,
  up to case: every alias works, none is stale, and no two entities answer to one name.
\<close>

theorem names_identify_entities:
  assumes "wiki_reachable c db" "wiki_codec_ok c"
  shows "resolve_entity c db n = Inr i \<longleftrightarrow>
    (\<exists>r. get_entity_record c db i = Inr r \<and>
         wc_lower c n \<in> wc_lower c ` set (we_name r # we_aliases r))"
proof -
  obtain w where rep: "represents c db w"
    using reachable_represents [OF assms] by blast
  note inv = representsD(11) [OF rep]
  show ?thesis
    unfolding resolve_Inr [OF rep] entity_record_Inr [OF rep assms(2)]
    by (auto simp: wiki_named_iff [OF inv] wiki_entity_iff [OF inv] entity_names_def)
qed

theorem names_identify_entities_witness:
  "\<exists>r. get_entity_record ex_wc ex_wiki 1 = Inr r \<and>
     wc_lower ex_wc ''COUNTESS'' \<in> wc_lower ex_wc ` set (we_name r # we_aliases r)"
  using names_identify_entities [OF ex_wiki_reachable(1) ex_wc_ok, of "''COUNTESS''" 1] ex_wiki_reads(2)
  by blast

lemma bumped_later: "t \<noteq> - 1 \<Longrightarrow> t < bumped now (t :: u64)"
proof -
  assume "t \<noteq> - 1"
  then have "uint t \<noteq> 18446744073709551615"
    by (simp add: word_uint_eq_iff uint_word_ariths)
  then have "uint t < 18446744073709551615"
    using uint_u64_bounds(2) [of t] by linarith
  then have "t < u64_saturating_add t 1"
    by (simp add: u64_saturating_add_def u64_less_uint uint_word_ariths)
  then show "t < bumped now t"
    by (auto simp: bumped_def max_def)
qed

lemma entity_update_Inr:
  assumes "represents c db w" "wiki_codec_ok c" "entity_update c now n u db = Inr db'"
  obtains e where "wiki_named c w n = Some e" "represents c db' (put_entity (updated_entity c now e u) w)"
    "eu_expected_updated_at u = None \<or> eu_expected_updated_at u = Some (we_updated_at e)"
  using entity_update_refines [OF assms(1,2), of now n u] assms(3)
  by (auto split: option.splits if_splits)

text \<open>
  C34. Optimistic concurrency: once an update of an entity has been committed, a second update that
  expects the version read before it is refused, whatever name it uses and even in the same
  millisecond (unless the version is the last \<open>u64\<close>).
\<close>

theorem stale_entity_update_refused:
  assumes "wiki_reachable c db" "wiki_codec_ok c"
    and "resolve_entity c db n = Inr i" "get_entity_record c db i = Inr r" "we_updated_at r \<noteq> - 1"
    and "entity_update c now n u db = Inr db'"
    and "resolve_entity c db' m = Inr i" "eu_expected_updated_at v = Some (we_updated_at r)"
  shows "entity_update c later m v db' = Inl TransactionConflict"
proof -
  obtain w where rep: "represents c db w"
    using reachable_represents [OF assms(1,2)] by blast
  note inv = representsD(11) [OF rep]
  obtain e where e: "wiki_named c w n = Some e" "represents c db' (put_entity (updated_entity c now e u) w)"
    using entity_update_Inr [OF rep assms(2,6)] by metis
  have i: "we_id e = i" "wiki_entity w i = Some e"
    using assms(3) e(1) wiki_named_iff [OF inv] wiki_entity_iff [OF inv] by (auto simp: resolve_Inr [OF rep])
  have r: "we_updated_at r = we_updated_at e"
    using assms(4) i(2) by (auto simp: entity_record_Inr [OF rep assms(2)])
  let ?w = "put_entity (updated_entity c now e u) w"
  obtain e' where e': "wiki_named c ?w m = Some e'" "we_id e' = i"
    using assms(7) by (auto simp: resolve_Inr [OF e(2)])
  have "e' \<in> set (wk_entities ?w)"
    using e'(1) wiki_named_iff [OF representsD(11) [OF e(2)]] by blast
  then have "e' = updated_entity c now e u"
    using e'(2) i(1) by (auto simp: put_entity_def updated_entity_def split: if_splits)
  then have "we_updated_at e' = bumped now (we_updated_at e)"
    by (simp add: updated_entity_def)
  then have "we_updated_at e' \<noteq> we_updated_at r"
    using bumped_later [of "we_updated_at e" now] assms(5) r by auto
  then show ?thesis
    using entity_update_refines [OF e(2) assms(2), of later m v] assms(8) e'(1) by auto
qed

definition ex_describe :: entity_update where
  "ex_describe = entity_update_default\<lparr>eu_summary := Some ''pioneer'', eu_expected_updated_at := Some 10\<rparr>"

theorem stale_entity_update_refused_witness:
  "\<exists>db'. entity_update ex_wc 10 ''ada'' ex_describe ex_wiki = Inr db' \<and>
     entity_update ex_wc 10 ''COUNTESS'' ex_describe db' = Inl TransactionConflict"
proof -
  obtain db' where db': "entity_update ex_wc 10 ''ada'' ex_describe ex_wiki = Inr db'"
    "resolve_entity ex_wc db' ''COUNTESS'' = Inr 1"
    by (simp add: ex_wiki_def ex_ops_def wiki_eval entity_update_def update_entity_record_def ex_describe_def
        entity_update_default_def entity_record_update_def)
  have ada: "resolve_entity ex_wc ex_wiki ''ada'' = Inr 1"
    by (simp add: ex_wiki_def ex_ops_def wiki_eval)
  from stale_entity_update_refused [OF ex_wiki_reachable(1) ex_wc_ok ada ex_wiki_reads(1) _ db', of ex_describe 10]
  show ?thesis
    using db'(1) by (simp add: ex_ada_def ex_describe_def)
qed

section \<open>Facts\<close>

lemma fact_record_Inr:
  assumes "represents c db w" "wiki_codec_ok c"
  shows "get_fact_record c db i = Inr f \<longleftrightarrow> wiki_fact_of w i = Some f"
  by (auto simp: fact_record_read [OF assms] split: option.split)

lemma fact_add_single:
  assumes "add_facts c [(f, now, i)] db = Inr (db', [k])"
  shows "fact_add c now i f db = Inr (db', k)"
  using assms by (simp add: fact_add_def)

text \<open>
  C35. Adding content that is already known in its source namespace returns the known fact and adds
  no second one; in a namespace there is only one fact with a content.
\<close>

theorem content_identifies_facts:
  assumes "wiki_reachable c db" "wiki_codec_ok c" "get_fact_record c db k = Inr g"
    and "fi_content f = wf_content g" "normalize_source_id (fi_source_id f) = wf_source_id g"
    and "op_ok (OpFactAddMany [(f, now, i)]) db"
  shows "\<exists>db'. fact_add c now i f db = Inr (db', k) \<and>
    map fr_id (t_facts db') = map fr_id (t_facts db) \<and>
    (\<forall>j h. get_fact_record c db j = Inr h \<and> wf_content h = wf_content g \<and>
       wf_source_id h = wf_source_id g \<longrightarrow> j = k)"
proof -
  obtain w where rep: "represents c db w"
    using reachable_represents [OF assms(1,2)] by blast
  note inv = representsD(11) [OF rep]
  have g: "g \<in> set (wk_facts w)" "wf_id g = k"
    using assms(3) wiki_fact_iff [OF inv] by (auto simp: fact_record_Inr [OF rep assms(2)])
  have key: "input_key c f = fact_key c g"
    by (simp add: input_key_def fact_key_def assms(4,5))
  have only: "h = g" if "h \<in> set (wk_facts w)" "fact_key c h = fact_key c g" for h
    using that g(1) wiki_invD(5) [OF inv] by (auto simp: distinct_map inj_on_def)
  have "find (\<lambda>g. fact_key c g = input_key c f) (wk_facts w) = Some g"
    using g(1) only by (intro find_unique) (auto simp: key)
  then have noted: "note_facts c [(f, now, i)] w =
      ((case fi_entity_ids f of None \<Rightarrow> w | Some es \<Rightarrow> merge_fact es g w), [k])"
    by (simp add: note_fact_def g(2))
  obtain db' where db': "add_facts c [(f, now, i)] db = Inr (db', [k])"
      "represents c db' (case fi_entity_ids f of None \<Rightarrow> w | Some es \<Rightarrow> merge_fact es g w)"
    using implements_fact_add [OF rep assms(2,6)] noted
    by (auto simp: implements_def settle_def id_def split: sum.splits)
  have "map fr_id (t_facts db') = map fr_id (t_facts db)"
    using facts_map [OF db'(2), of fr_id] facts_map [OF rep, of fr_id]
    by (auto simp: merge_fact_def put_facts_ids split: option.splits)
  moreover have "j = k" if "get_fact_record c db j = Inr h" "wf_content h = wf_content g"
      "wf_source_id h = wf_source_id g" for j h
    using that only [of h] wiki_fact_iff [OF inv] g(2)
    by (auto simp: fact_record_Inr [OF rep assms(2)] fact_key_def)
  ultimately show ?thesis
    using fact_add_single [OF db'(1)] by blast
qed


theorem content_identifies_facts_witness:
  "\<exists>db'. fact_add ex_wc 30 9 (ex_say ''wrote a program'' []) ex_wiki = Inr (db', 7) \<and>
     map fr_id (t_facts db') = [7]"
proof -
  have "op_ok (OpFactAddMany [(ex_say ''wrote a program'' [], 30, 9)]) ex_wiki"
    using arg_cong [OF ex_wiki_reads(4), of set] by (simp add: ex_say_def input_finite_def)
  from content_identifies_facts [OF ex_wiki_reachable(1) ex_wc_ok ex_wiki_reads(3) _ _ this] show ?thesis
    by (auto simp: ex_wiki_reads(4) ex_say_def ex_fact_def fact_record_new_def normalize_source_id_def)
qed

section \<open>Archiving\<close>

lemma wiki_fact_add: "wf_id f \<noteq> i \<Longrightarrow> wiki_fact_of (add_fact f w) i = wiki_fact_of w i"
  by (simp add: wiki_fact_of_def add_fact_def find_append split: option.split)

lemma wiki_fact_replace: "wf_id f \<noteq> i \<Longrightarrow> wiki_fact_of (replace_fact f w) i = wiki_fact_of w i"
proof -
  assume "wf_id f \<noteq> i"
  then have "find (\<lambda>g. wf_id g = i) (put_facts f fs) = find (\<lambda>g. wf_id g = i) fs" for fs
    by (induction fs) (auto simp: put_facts_def)
  then show ?thesis
    by (simp add: wiki_fact_of_def replace_fact_def)
qed

text \<open>Replicating a fact changes no other fact.\<close>

lemma fact_upsert_frame:
  assumes "represents c db w" "wiki_codec_ok c" "fact_floats_finite f"
    and "fact_upsert_record c f db = Inr (db', b)"
  shows "\<exists>w'. represents c db' w' \<and> (\<forall>i. i \<noteq> wf_id f \<longrightarrow> wiki_fact_of w' i = wiki_fact_of w i)"
proof (cases "upsert_fact c f w")
  case None
  then show ?thesis
    using fact_upsert_refines [OF assms(1-3)] assms(1,4) by auto
next
  case (Some w')
  then have "represents c db' w'"
    using fact_upsert_refines [OF assms(1-3)] assms(4) by auto
  moreover have "w' = add_fact (stored_fact f) w \<or> w' = replace_fact (stored_fact f) w"
    using Some by (auto simp: upsert_fact_def split: if_splits)
  ultimately show ?thesis
    using wiki_fact_add [of "stored_fact f"] wiki_fact_replace [of "stored_fact f"] by fastforce
qed

definition same_fact :: "wiki_fact \<Rightarrow> wiki_fact \<Rightarrow> bool" where
  "same_fact g f \<longleftrightarrow>
     wf_content g = wf_content f \<and> wf_entity_ids g = wf_entity_ids f \<and> wf_type g = wf_type f"

lemma archive_copy_keeps:
  assumes "represents c cold w" "wiki_codec_ok c" "\<forall>f\<in>set fs. fact_floats_finite f"
    and "\<forall>f\<in>set fs. \<forall>g\<in>set fs. wf_id f = wf_id g \<longrightarrow> f = g"
    and "archive_copy c fs cold = (cold', Inr u)"
  shows "\<exists>w'. represents c cold' w' \<and>
    (\<forall>f\<in>set fs. \<exists>g. wiki_fact_of w' (wf_id f) = Some g \<and> same_fact g f) \<and>
    (\<forall>i. i \<notin> wf_id ` set fs \<longrightarrow> wiki_fact_of w' i = wiki_fact_of w i)"
  using assms(1,3-5)
proof (induction fs arbitrary: cold w)
  case Nil
  then show ?case by auto
next
  case (Cons f fs)
  obtain cold1 b where up: "fact_upsert_record c f cold = Inr (cold1, b)"
    using Cons.prems(4) by (auto split: sum.splits)
  obtain w1 where w1: "represents c cold1 w1" "\<forall>i. i \<noteq> wf_id f \<longrightarrow> wiki_fact_of w1 i = wiki_fact_of w i"
    using fact_upsert_frame [OF Cons.prems(1) assms(2) _ up] Cons.prems(2) by auto
  obtain g where g: "wiki_fact_of w1 (wf_id f) = Some g" "same_fact g f"
    and rest: "archive_copy c fs cold1 = (cold', Inr u)"
    using Cons.prems(4)
    by (auto simp: up fact_record_read [OF w1(1) assms(2)] same_fact_def split: option.splits if_splits)
  obtain w' where w': "represents c cold' w'"
    "\<forall>f\<in>set fs. \<exists>g. wiki_fact_of w' (wf_id f) = Some g \<and> same_fact g f"
    "\<forall>i. i \<notin> wf_id ` set fs \<longrightarrow> wiki_fact_of w' i = wiki_fact_of w1 i"
    using Cons.IH [OF w1(1) _ _ rest] Cons.prems(2,3) by auto
  have "\<exists>g. wiki_fact_of w' (wf_id f) = Some g \<and> same_fact g f"
  proof (cases "wf_id f \<in> wf_id ` set fs")
    case True
    then have "f \<in> set fs" using Cons.prems(3) by auto
    then show ?thesis using w'(2) by blast
  qed (use w'(3) g in auto)
  with w' w1(2) show ?case by auto
qed

lemma wiki_fact_del: "wiki_fact_of (del_fact j w) i = (if i = j then None else wiki_fact_of w i)"
proof -
  have "find (\<lambda>f. wf_id f = i) (filter (\<lambda>f. wf_id f \<noteq> j) fs) =
      (if i = j then None else find (\<lambda>f. wf_id f = i) fs)" for fs
    by (induction fs) auto
  from this [of "wk_facts w"] show ?thesis by (simp add: wiki_fact_of_def del_fact_def)
qed

lemma archive_drop_keeps:
  assumes "represents c hot w"
  shows "\<exists>w'. represents c (fst (archive_drop c fs hot)) w' \<and>
    (\<forall>i. wiki_fact_of w' i = (if i \<in> wf_id ` set fs then None else wiki_fact_of w i))"
  using assms
proof (induction fs arbitrary: hot w)
  case Nil
  then show ?case by auto
next
  case (Cons f fs)
  have "represents c (fst (fact_delete c (wf_id f) hot)) (del_fact (wf_id f) w)"
    using fact_delete_refines(1) [OF Cons.prems] .
  from Cons.IH [OF this] show ?case
    by (auto simp: case_prod_beta wiki_fact_del)
qed

lemma fact_get_many_facts:
  assumes "represents c db w" "wiki_codec_ok c"
  shows "set (fact_get_many c db ids) = {f. \<exists>i\<in>set ids. wiki_fact_of w i = Some f}"
  by (auto simp: fact_get_many_def fact_record_read [OF assms] split: option.splits)

text \<open>
  C36. Archiving moves facts from a store to another and loses none: when it succeeds, the requested
  facts are gone from the first and present in the second with their content, type and entities;
  other facts stay, and when it fails all do.
\<close>

theorem archive_loses_no_fact:
  assumes "wiki_reachable c hot" "wiki_reachable c cold" "wiki_codec_ok c"
    and "fact_archive_to c ids hot cold = (hot', cold', r)" "get_fact_record c hot i = Inr f"
  shows "if i \<in> set ids \<and> (\<exists>n. r = Inr n)
    then get_fact_record c hot' i = Inl (FactNotFound (wc_ulid_text c i)) \<and>
      (\<exists>g. get_fact_record c cold' i = Inr g \<and> wf_content g = wf_content f \<and>
           wf_entity_ids g = wf_entity_ids f \<and> wf_type g = wf_type f)
    else get_fact_record c hot' i = Inr f"
proof -
  obtain w where hot: "represents c hot w"
    using reachable_represents [OF assms(1,3)] by blast
  obtain v where cold: "represents c cold v"
    using reachable_represents [OF assms(2,3)] by blast
  note inv = representsD(11) [OF hot]
  define fs where "fs = fact_get_many c hot ids"
  note fs = fact_get_many_facts [OF hot assms(3), of ids, folded fs_def]
  have fs_facts: "f \<in> set (wk_facts w)" if "f \<in> set fs" for f
    using that wiki_fact_iff [OF inv] by (auto simp: fs)
  have fs_ids: "i \<in> wf_id ` set fs \<longleftrightarrow> i \<in> set ids \<and> wiki_fact_of w i \<noteq> None" for i
    using wiki_fact_iff [OF inv] by (force simp: fs)
  have f: "wiki_fact_of w i = Some f"
    using assms(5) by (simp add: fact_record_Inr [OF hot assms(3)])
  obtain cold2 q where q: "archive_copy c fs cold = (cold2, q)"
    by (cases "archive_copy c fs cold")
  show ?thesis
  proof (cases "\<exists>n. fs \<noteq> [] \<and> r = Inr n")
    case True
    then obtain u where copy: "archive_copy c fs cold = (cold', Inr u)"
      and drop: "hot' = fst (archive_drop c fs hot)"
      using assms(4) q
      by (auto simp: fact_archive_to_def fs_def [symmetric] Let_def case_prod_beta split: sum.splits)
    obtain v' where v': "represents c cold' v'"
      "\<forall>f\<in>set fs. \<exists>g. wiki_fact_of v' (wf_id f) = Some g \<and> same_fact g f"
      using archive_copy_keeps [OF cold assms(3) _ _ copy] fs_facts wiki_invD(6) [OF inv]
        wiki_fact_iff [OF inv] by (metis option.inject)
    obtain w' where w': "represents c hot' w'"
      "\<forall>i. wiki_fact_of w' i = (if i \<in> wf_id ` set fs then None else wiki_fact_of w i)"
      using archive_drop_keeps [OF hot, of fs] by (auto simp: drop)
    have "f \<in> set fs" if "i \<in> set ids"
      using that f by (auto simp: fs)
    moreover have "wf_id f = i"
      using f wiki_fact_iff [OF inv] by blast
    ultimately have copied: "\<exists>g. wiki_fact_of v' i = Some g \<and> same_fact g f" if "i \<in> set ids"
      using that v'(2) by metis
    have "wiki_fact_of w' i = (if i \<in> set ids then None else Some f)"
      using w'(2) fs_ids [of i] f by simp
    then show ?thesis
      using True copied
      by (simp add: fact_record_read [OF w'(1) assms(3)] fact_record_Inr [OF v'(1) assms(3)] same_fact_def)
  next
    case False
    then have "hot' = hot"
      using assms(4)
      by (auto simp: fact_archive_to_def fs_def [symmetric] q Let_def case_prod_beta split: sum.splits if_splits)
    moreover have "i \<notin> set ids" if "fs = []"
      using that fs_ids [of i] f by auto
    moreover have "r = Inr 0" if "fs = []"
      using that assms(4) by (auto simp: fact_archive_to_def fs_def)
    ultimately show ?thesis
      using False assms(5) by auto
  qed
qed

theorem archive_loses_no_fact_witness:
  "\<exists>hot' cold'. fact_archive_to ex_wc [7] ex_wiki ex_graph = (hot', cold', Inr 1) \<and>
     get_fact_record ex_wc hot' 7 = Inl (FactNotFound (wc_ulid_text ex_wc 7)) \<and>
     (\<exists>g. get_fact_record ex_wc cold' 7 = Inr g \<and> wf_content g = ''wrote a program'')"
proof -
  obtain hot' cold' where run: "fact_archive_to ex_wc [7] ex_wiki ex_graph = (hot', cold', Inr 1)"
    by (simp add: fact_archive_to_def fact_get_many_def ex_wiki_reads ex_fact_def)
      (simp add: ex_wiki_def ex_ops_def ex_graph_def ex_graph_ops_def wiki_eval fact_upsert_record_def fact_delete_def)
  show ?thesis
    using archive_loses_no_fact [OF ex_wiki_reachable ex_wc_ok run ex_wiki_reads(3)] run
    by (auto simp: ex_fact_def fact_record_new_def)
qed

end
