(* ===== verification/Wiki_Sync.thy ===== *)
theory Wiki_Sync
  imports Wiki_Facts Json_Value
begin

text \<open>
  \<open>aidememo-core/src/sync.rs\<close>: the pull-only replication of one wiki store into another. An export
  is a text of JSON lines - a header, records, a cursor -, an import checks the whole text before it
  applies the first record.
\<close>

section \<open>Cursors and records\<close>

record sync_cursor =
  sc_entity :: "entity_id option"
  sc_fact :: "wiki_fact_id option"
  sc_entity_updated_at :: "u64 option"
  sc_entity_updated_id :: "entity_id option"
  sc_fact_updated_at :: "u64 option"
  sc_fact_updated_id :: "wiki_fact_id option"
  sc_relation_created_at :: "u64 option"
  sc_relation_key :: "string option"
  sc_relation_generation :: "string option"
  sc_relation_scan_key :: "string option"

definition sync_cursor_default :: sync_cursor where
  "sync_cursor_default =
    \<lparr>sc_entity = None, sc_fact = None, sc_entity_updated_at = None, sc_entity_updated_id = None,
     sc_fact_updated_at = None, sc_fact_updated_id = None, sc_relation_created_at = None,
     sc_relation_key = None, sc_relation_generation = None, sc_relation_scan_key = None\<rparr>"

record sync_export_opts =
  so_since :: sync_cursor
  so_limit :: nat
  so_include_relations :: bool

record sync_import_stats =
  si_entities_inserted :: nat
  si_entities_skipped :: nat
  si_facts_inserted :: nat
  si_facts_skipped :: nat
  si_relations_inserted :: nat
  si_relations_skipped :: nat
  si_errors :: nat
  si_new_cursor :: sync_cursor

definition sync_import_stats_default :: sync_import_stats where
  "sync_import_stats_default =
    \<lparr>si_entities_inserted = 0, si_entities_skipped = 0, si_facts_inserted = 0, si_facts_skipped = 0,
     si_relations_inserted = 0, si_relations_skipped = 0, si_errors = 0,
     si_new_cursor = sync_cursor_default\<rparr>"

datatype sync_wire_record =
    WireEntity entity_record
  | WireFact wiki_fact
  | WireRelation relation_record

definition SYNC_SCHEMA :: nat where
  "SYNC_SCHEMA = 2"

text \<open>
  \<open>serde_json\<close>'s text of a value and the value of a text, the JSON of a record and the record of a
  JSON, the bytes of a relation; and the ULID a text stands for, with the message when it is none.
\<close>

record sync_codec =
  yc_render :: "json \<Rightarrow> string"
  yc_parse :: "string \<Rightarrow> json option"
  yc_entity_json :: "entity_record \<Rightarrow> json"
  yc_entity_of :: "json \<Rightarrow> entity_record option"
  yc_fact_json :: "wiki_fact \<Rightarrow> json"
  yc_fact_of :: "json \<Rightarrow> wiki_fact option"
  yc_relation_json :: "relation_record \<Rightarrow> json"
  yc_relation_of :: "json \<Rightarrow> relation_record option"
  yc_relation_bytes :: "relation_record \<Rightarrow> string"
  yc_ulid_of :: "string \<Rightarrow> string + ulid"

section \<open>JSON access\<close>

text \<open>\<open>Value::get\<close>, \<open>as_str\<close>, \<open>as_u64\<close>.\<close>

fun json_get :: "json \<Rightarrow> string \<Rightarrow> json option" where
  "json_get (JObject kvs) k = map_of kvs k"
| "json_get _ k = None"

fun json_str :: "json \<Rightarrow> string option" where
  "json_str (JString s) = Some s"
| "json_str _ = None"

fun json_u64 :: "json \<Rightarrow> u64 option" where
  "json_u64 (JInt i) = (if 0 \<le> i \<and> i < 2 ^ 64 then Some (word_of_int i) else None)"
| "json_u64 _ = None"

fun json_opt :: "('a \<Rightarrow> json) \<Rightarrow> 'a option \<Rightarrow> json" where
  "json_opt f None = JNull"
| "json_opt f (Some x) = f x"

definition json_word :: "u64 \<Rightarrow> json" where
  "json_word n = JInt (uint n)"

section \<open>Lines\<close>

text \<open>A \<open>json!\<close> object iterates over its keys in sorted order.\<close>

definition header_line :: "u64 \<Rightarrow> json" where
  "header_line clock =
    JObject [(''kind'', JString ''header''), (''schema'', JInt (int SYNC_SCHEMA)),
      (''upstream_clock_ms'', json_word clock)]"

fun record_line :: "sync_codec \<Rightarrow> sync_wire_record \<Rightarrow> json" where
  "record_line y (WireEntity e) = JObject [(''data'', yc_entity_json y e), (''kind'', JString ''entity'')]"
| "record_line y (WireFact f) = JObject [(''data'', yc_fact_json y f), (''kind'', JString ''fact'')]"
| "record_line y (WireRelation r) =
    JObject [(''data'', yc_relation_json y r), (''kind'', JString ''relation'')]"

definition cursor_line :: "'j wiki_codec \<Rightarrow> sync_cursor \<Rightarrow> json" where
  "cursor_line c s =
    (let ulid = json_opt (\<lambda>i. JString (wc_ulid_text c i)) in
     JObject
       [(''entity'', ulid (sc_entity s)),
        (''entity_updated_at'', json_opt json_word (sc_entity_updated_at s)),
        (''entity_updated_id'', ulid (sc_entity_updated_id s)),
        (''fact'', ulid (sc_fact s)),
        (''fact_updated_at'', json_opt json_word (sc_fact_updated_at s)),
        (''fact_updated_id'', ulid (sc_fact_updated_id s)),
        (''kind'', JString ''cursor''),
        (''relation_created_at'', json_opt json_word (sc_relation_created_at s)),
        (''relation_generation'', json_opt JString (sc_relation_generation s)),
        (''relation_key'', json_opt JString (sc_relation_key s)),
        (''relation_scan_key'', json_opt JString (sc_relation_scan_key s))])"

section \<open>Reading an envelope\<close>

definition parse_optional_u64 :: "json \<Rightarrow> string \<Rightarrow> u64 option wiki_result" where
  "parse_optional_u64 v key =
    (case json_get v key of None \<Rightarrow> Inr None
     | Some JNull \<Rightarrow> Inr None
     | Some raw \<Rightarrow>
         (case json_u64 raw of Some n \<Rightarrow> Inr (Some n)
          | None \<Rightarrow> Inl (WikiInvalidInput (''sync cursor '' @ key @ '' must be an unsigned integer or null''))))"

definition parse_optional_string :: "json \<Rightarrow> string \<Rightarrow> string option wiki_result" where
  "parse_optional_string v key =
    (case json_get v key of None \<Rightarrow> Inr None
     | Some JNull \<Rightarrow> Inr None
     | Some raw \<Rightarrow>
         (case json_str raw of Some s \<Rightarrow> Inr (Some s)
          | None \<Rightarrow> Inl (WikiInvalidInput (''sync cursor '' @ key @ '' must be a string or null''))))"

definition parse_cursor_ulid :: "sync_codec \<Rightarrow> json \<Rightarrow> string \<Rightarrow> ulid option wiki_result" where
  "parse_cursor_ulid y v key =
    and_then (parse_optional_string v key) (\<lambda>s.
      case s of None \<Rightarrow> Inr None
      | Some raw \<Rightarrow>
          (case yc_ulid_of y raw of Inr i \<Rightarrow> Inr (Some i)
           | Inl why \<Rightarrow> Inl (WikiInvalidInput
               (''invalid sync cursor '' @ key @ '' ULID `'' @ raw @ ''`: '' @ why))))"

definition parse_cursor_value :: "sync_codec \<Rightarrow> json \<Rightarrow> sync_cursor wiki_result" where
  "parse_cursor_value y v =
    and_then (parse_cursor_ulid y v ''entity'') (\<lambda>e.
    and_then (parse_cursor_ulid y v ''fact'') (\<lambda>f.
    and_then (parse_optional_u64 v ''entity_updated_at'') (\<lambda>eu.
    and_then (parse_cursor_ulid y v ''entity_updated_id'') (\<lambda>ei.
    and_then (parse_optional_u64 v ''fact_updated_at'') (\<lambda>fu.
    and_then (parse_cursor_ulid y v ''fact_updated_id'') (\<lambda>fi.
    and_then (parse_optional_u64 v ''relation_created_at'') (\<lambda>rc.
    and_then (parse_optional_string v ''relation_key'') (\<lambda>rk.
    and_then (parse_optional_string v ''relation_generation'') (\<lambda>rg.
    and_then (parse_optional_string v ''relation_scan_key'') (\<lambda>rs.
      Inr \<lparr>sc_entity = e, sc_fact = f, sc_entity_updated_at = eu, sc_entity_updated_id = ei,
           sc_fact_updated_at = fu, sc_fact_updated_id = fi, sc_relation_created_at = rc,
           sc_relation_key = rk, sc_relation_generation = rg, sc_relation_scan_key = rs\<rparr>))))))))))"

text \<open>The value and the kind of line number \<open>n\<close>, counted from 1.\<close>

definition line_value :: "sync_codec \<Rightarrow> nat \<Rightarrow> string \<Rightarrow> (json \<times> string) wiki_result" where
  "line_value y n line =
    and_then (ok_or (Deserialize (''sync envelope line '' @ nat_text n)) (yc_parse y line)) (\<lambda>v.
    and_then (ok_or (WikiInvalidInput (''sync envelope line '' @ nat_text n @ '' has no string kind''))
        (case json_get v ''kind'' of None \<Rightarrow> None | Some k \<Rightarrow> json_str k)) (\<lambda>kind. Inr (v, kind)))"

definition check_header :: "json \<Rightarrow> string \<Rightarrow> unit wiki_result" where
  "check_header v kind =
    (if kind \<noteq> ''header'' then Inl (WikiInvalidInput ''sync envelope first record must be a header'')
     else and_then (ok_or (WikiInvalidInput ''sync header schema must be a positive integer'')
         (case json_get v ''schema'' of None \<Rightarrow> None | Some s \<Rightarrow> json_u64 s)) (\<lambda>schema.
       if schema = 0 \<or> of_nat SYNC_SCHEMA < schema
       then Inl (WikiInvalidInput (''sync schema '' @ nat_text (unat schema) @ '' is not supported (maximum ''
              @ nat_text SYNC_SCHEMA @ '')''))
       else Inr ()))"

definition wire_record :: "sync_codec \<Rightarrow> nat \<Rightarrow> json \<Rightarrow> string \<Rightarrow> sync_wire_record wiki_result" where
  "wire_record y n v kind =
    and_then (ok_or (WikiInvalidInput
        (''sync '' @ kind @ '' record on line '' @ nat_text n @ '' is missing data'')) (json_get v ''data''))
      (\<lambda>d.
        let bad = \<lambda>what. Deserialize (''sync '' @ what @ '' record on line '' @ nat_text n) in
        if kind = ''entity'' then and_then (ok_or (bad ''entity'') (yc_entity_of y d)) (\<lambda>r. Inr (WireEntity r))
        else if kind = ''fact'' then and_then (ok_or (bad ''fact'') (yc_fact_of y d)) (\<lambda>r. Inr (WireFact r))
        else if kind = ''relation''
        then and_then (ok_or (bad ''relation'') (yc_relation_of y d)) (\<lambda>r. Inr (WireRelation r))
        else if kind = ''header''
        then Inl (WikiInvalidInput ''sync envelope may contain only one leading header'')
        else if kind = ''cursor'' then Inl (WikiInvalidInput ''sync cursor must be the trailing record'')
        else Inl (WikiInvalidInput (''unknown sync record kind `'' @ kind @ ''`'')))"

text \<open>The lines after the header: records, and a cursor on the last.\<close>

fun wire_lines ::
  "sync_codec \<Rightarrow> nat \<Rightarrow> string list \<Rightarrow> (sync_wire_record list \<times> sync_cursor) wiki_result" where
  "wire_lines y n [] = Inl (WikiInvalidInput ''sync envelope missing trailing cursor'')"
| "wire_lines y n [line] =
    and_then (line_value y n line) (\<lambda>(v, kind).
      if kind \<noteq> ''cursor'' then Inl (WikiInvalidInput ''sync envelope must end with exactly one cursor'')
      else and_then (parse_cursor_value y v) (\<lambda>s. Inr ([], s)))"
| "wire_lines y n (line # next # rest) =
    and_then (line_value y n line) (\<lambda>(v, kind).
      and_then (wire_record y n v kind) (\<lambda>r.
        and_then (wire_lines y (n + 1) (next # rest)) (\<lambda>(rs, s). Inr (r # rs, s))))"

definition newline :: char where
  "newline = char_of (10 :: nat)"

definition envelope_lines :: "string \<Rightarrow> string list" where
  "envelope_lines text = filter (\<lambda>l. l \<noteq> []) (map trim_text (split_on newline text))"

definition preflight_sync_jsonl :: "sync_codec \<Rightarrow> string \<Rightarrow> (sync_wire_record list \<times> sync_cursor) wiki_result" where
  "preflight_sync_jsonl y text =
    (case envelope_lines text of
       first # second # rest \<Rightarrow>
         and_then (line_value y 1 first) (\<lambda>(v, kind).
           and_then (check_header v kind) (\<lambda>_. wire_lines y 2 (second # rest)))
     | _ \<Rightarrow> Inl (WikiInvalidInput ''sync envelope requires a header first and one trailing cursor''))"

definition cursor_from_jsonl :: "sync_codec \<Rightarrow> string \<Rightarrow> sync_cursor wiki_result" where
  "cursor_from_jsonl y text = and_then (preflight_sync_jsonl y text) (\<lambda>(rs, s). Inr s)"

section \<open>Import\<close>

text \<open>One record; a failed one is counted and leaves the store as it is.\<close>

fun import_record ::
  "'j wiki_codec \<Rightarrow> sync_wire_record \<Rightarrow> 'j wiki_db \<times> sync_import_stats \<Rightarrow> 'j wiki_db \<times> sync_import_stats" where
  "import_record c (WireEntity r) (db, st) =
    (case entity_upsert_record c r db of
       Inr (db', b) \<Rightarrow>
         (db', if b then st\<lparr>si_entities_inserted := si_entities_inserted st + 1\<rparr>
               else st\<lparr>si_entities_skipped := si_entities_skipped st + 1\<rparr>)
     | Inl _ \<Rightarrow> (db, st\<lparr>si_errors := si_errors st + 1\<rparr>))"
| "import_record c (WireFact f) (db, st) =
    (case fact_upsert_record c f db of
       Inr (db', b) \<Rightarrow>
         (db', if b then st\<lparr>si_facts_inserted := si_facts_inserted st + 1\<rparr>
               else st\<lparr>si_facts_skipped := si_facts_skipped st + 1\<rparr>)
     | Inl _ \<Rightarrow> (db, st\<lparr>si_errors := si_errors st + 1\<rparr>))"
| "import_record c (WireRelation r) (db, st) =
    (let (db', b) = relation_upsert_record c r db in
     (db', if b then st\<lparr>si_relations_inserted := si_relations_inserted st + 1\<rparr>
           else st\<lparr>si_relations_skipped := si_relations_skipped st + 1\<rparr>))"

definition sync_import ::
  "'j wiki_codec \<Rightarrow> sync_codec \<Rightarrow> string \<Rightarrow> 'j wiki_db \<Rightarrow> 'j wiki_db \<times> sync_import_stats wiki_result" where
  "sync_import c y text db =
    (case preflight_sync_jsonl y text of
       Inl e \<Rightarrow> (db, Inl e)
     | Inr (rs, s) \<Rightarrow>
         let (db', st) = foldl (\<lambda>a r. import_record c r a) (db, sync_import_stats_default) rs in
         (db', Inr (if si_errors st = 0 then st\<lparr>si_new_cursor := s\<rparr> else st)))"

section \<open>Export\<close>

definition update_is_after_cursor :: "u64 \<Rightarrow> ulid \<Rightarrow> u64 option \<Rightarrow> ulid option \<Rightarrow> bool" where
  "update_is_after_cursor updated_at i cursor_at cursor_id \<longleftrightarrow>
    (case cursor_at of None \<Rightarrow> True
     | Some t \<Rightarrow> t < updated_at \<or>
         \<not> updated_at < t \<and> (case cursor_id of None \<Rightarrow> True | Some j \<Rightarrow> j < i))"

definition is_new :: "ulid option \<Rightarrow> ulid \<Rightarrow> bool" where
  "is_new mark i \<longleftrightarrow> (case mark of None \<Rightarrow> True | Some k \<Rightarrow> \<not> i \<le> k)"

text \<open>
  One pass over sorted records: what the budget lets through, and the place of the last of them, or
  the old place when there is none.
\<close>

definition last_or :: "'b option \<Rightarrow> ('a \<Rightarrow> 'b) \<Rightarrow> 'a list \<Rightarrow> 'b option" where
  "last_or old f xs = (if xs = [] then old else Some (f (last xs)))"

definition all_entities :: "'j wiki_codec \<Rightarrow> 'j wiki_db \<Rightarrow> entity_record list wiki_result" where
  "all_entities c db =
    and_then (entity_list c db (list_opts_default\<lparr>lo_limit := Some (2 ^ 64 - 1)\<rparr>)) (\<lambda>es.
      Inr (concat (map (\<lambda>e. case get_entity_record c db (es_id e) of Inl _ \<Rightarrow> [] | Inr r \<Rightarrow> [r]) es)))"

text \<open>
  The two passes, over entities and then over facts alike: records above the ULID mark in the order
  of ids, then, once there is a mark, records at or below it that changed after the update cursor,
  in the order of change. A pass that sends nothing leaves its place as it was.
\<close>

type_synonym stream_cursor = "ulid option \<times> u64 option \<times> ulid option"

definition stream_new :: "('a \<Rightarrow> ulid) \<Rightarrow> ulid option \<Rightarrow> 'a list \<Rightarrow> 'a list" where
  "stream_new ident mark xs = sort_key ident (filter (\<lambda>x. is_new mark (ident x)) xs)"

definition stream_updated ::
  "('a \<Rightarrow> ulid) \<Rightarrow> ('a \<Rightarrow> u64) \<Rightarrow> stream_cursor \<Rightarrow> 'a list \<Rightarrow> 'a list" where
  "stream_updated ident stamp cur xs =
    sort_key (\<lambda>x. (stamp x, ident x))
      (filter (\<lambda>x. \<not> is_new (fst cur) (ident x) \<and>
        update_is_after_cursor (stamp x) (ident x) (fst (snd cur)) (snd (snd cur))) xs)"

definition export_stream ::
  "('a \<Rightarrow> ulid) \<Rightarrow> ('a \<Rightarrow> u64) \<Rightarrow> nat \<Rightarrow> stream_cursor \<Rightarrow> 'a list \<Rightarrow> 'a list \<times> stream_cursor" where
  "export_stream ident stamp limit cur xs =
    (let new = take limit (stream_new ident (fst cur) xs);
         upd = (if length new < limit \<and> fst cur \<noteq> None
                then take (limit - length new) (stream_updated ident stamp cur xs) else [])
     in (new @ upd,
         (last_or (fst cur) ident new, last_or (fst (snd cur)) stamp upd,
          last_or (snd (snd cur)) ident upd)))"

definition entity_cursor :: "sync_cursor \<Rightarrow> stream_cursor" where
  "entity_cursor s = (sc_entity s, sc_entity_updated_at s, sc_entity_updated_id s)"

definition fact_cursor :: "sync_cursor \<Rightarrow> stream_cursor" where
  "fact_cursor s = (sc_fact s, sc_fact_updated_at s, sc_fact_updated_id s)"

definition export_entities ::
  "nat \<Rightarrow> sync_cursor \<Rightarrow> entity_record list \<Rightarrow> entity_record list \<times> sync_cursor" where
  "export_entities limit since es =
    (let (sent, mark, at, i) = export_stream we_id we_updated_at limit (entity_cursor since) es
     in (sent, since\<lparr>sc_entity := mark, sc_entity_updated_at := at, sc_entity_updated_id := i\<rparr>))"

definition export_facts ::
  "nat \<Rightarrow> sync_cursor \<Rightarrow> wiki_fact list \<Rightarrow> wiki_fact list \<times> sync_cursor" where
  "export_facts limit since fs =
    (let (sent, mark, at, i) = export_stream wf_id wf_updated_at limit (fact_cursor since) fs
     in (sent, since\<lparr>sc_fact := mark, sc_fact_updated_at := at, sc_fact_updated_id := i\<rparr>))"

record relation_entry =
  re_scan_key :: string
  re_identity_key :: string
  re_relation :: relation_record

definition zero_byte :: char where
  "zero_byte = char_of (0 :: nat)"

definition relation_cursor_key :: "'j wiki_codec \<Rightarrow> relation_record \<Rightarrow> string" where
  "relation_cursor_key c r =
    wc_sha_hex c (wc_ulid_text c (wr_source_id r) @ [zero_byte] @ source_key (wr_scope_source_id r)
      @ [zero_byte] @ wr_type r @ [zero_byte] @ wc_ulid_text c (wr_target_id r))"

text \<open>\<open>{:020}\<close> and \<open>u64::to_be_bytes\<close>.\<close>

definition padded_text :: "nat \<Rightarrow> nat \<Rightarrow> string" where
  "padded_text width n = replicate (width - length (nat_text n)) (CHR ''0'') @ nat_text n"

definition be_bytes :: "nat \<Rightarrow> string" where
  "be_bytes n = map (\<lambda>i. char_of (n div 256 ^ (7 - i) mod 256)) [0..<8]"

definition relation_entry_of :: "'j wiki_codec \<Rightarrow> relation_record \<Rightarrow> relation_entry" where
  "relation_entry_of c r =
    \<lparr>re_scan_key = padded_text 20 (unat (wr_created_at r)) @ ''-'' @ relation_cursor_key c r,
     re_identity_key = relation_cursor_key c r, re_relation = r\<rparr>"

definition relation_snapshot ::
  "'j wiki_codec \<Rightarrow> sync_codec \<Rightarrow> relation_record list \<Rightarrow> string \<times> relation_entry list" where
  "relation_snapshot c y rs =
    (let es = sort_key re_scan_key (map (relation_entry_of c) rs);
         bytes = (\<lambda>e. yc_relation_bytes y (re_relation e))
     in (wc_sha_hex c (concat (map (\<lambda>e. be_bytes (length (bytes e)) @ bytes e) es)), es))"

definition relation_is_after_cursor :: "u64 \<Rightarrow> string \<Rightarrow> u64 option \<Rightarrow> string option \<Rightarrow> bool" where
  "relation_is_after_cursor created_at key cursor_at cursor_key \<longleftrightarrow>
    (case (cursor_at, cursor_key) of
       (Some t, Some k) \<Rightarrow> (t, k) < (created_at, key)
     | (Some t, None) \<Rightarrow> t \<le> created_at
     | _ \<Rightarrow> True)"

text \<open>A cursor that follows snapshots, or starts afresh; not one of the older timestamp kind.\<close>

definition snapshot_cursor :: "sync_cursor \<Rightarrow> bool" where
  "snapshot_cursor since \<longleftrightarrow>
     sc_relation_generation since \<noteq> None \<or> sc_relation_scan_key since \<noteq> None \<or>
     sc_relation_created_at since = None \<and> sc_relation_key since = None"

definition pending_relations :: "sync_cursor \<Rightarrow> string \<Rightarrow> relation_entry list \<Rightarrow> relation_entry list" where
  "pending_relations since generation es =
    (if snapshot_cursor since
     then if sc_relation_generation since = Some generation
          then (case sc_relation_scan_key since of
                  Some k \<Rightarrow> filter (\<lambda>e. k < re_scan_key e) es | None \<Rightarrow> [])
          else es
     else filter (\<lambda>e. relation_is_after_cursor (wr_created_at (re_relation e)) (re_identity_key e)
            (sc_relation_created_at since) (sc_relation_key since)) es)"

definition export_relations ::
  "'j wiki_codec \<Rightarrow> sync_codec \<Rightarrow> nat \<Rightarrow> sync_cursor \<Rightarrow> relation_record list \<Rightarrow>
     relation_record list \<times> sync_cursor" where
  "export_relations c y budget since rs =
    (let (generation, es) = relation_snapshot c y rs;
         pending = pending_relations since generation es;
         sent = take budget pending;
         s = since\<lparr>sc_relation_created_at := last_or (sc_relation_created_at since)
                        (\<lambda>e. wr_created_at (re_relation e)) sent,
                   sc_relation_key := last_or (sc_relation_key since) re_identity_key sent\<rparr>
     in (map re_relation sent,
         if length sent = length pending
         then s\<lparr>sc_relation_generation := Some generation, sc_relation_scan_key := None\<rparr>
         else if snapshot_cursor since \<and> sent \<noteq> []
         then s\<lparr>sc_relation_generation := Some generation,
                sc_relation_scan_key := Some (re_scan_key (last sent))\<rparr>
         else s))"

text \<open>The records of one batch and the cursor after it.\<close>

definition export_batch ::
  "'j wiki_codec \<Rightarrow> sync_codec \<Rightarrow> sync_export_opts \<Rightarrow> 'j wiki_db \<Rightarrow>
     (sync_wire_record list \<times> sync_cursor) wiki_result" where
  "export_batch c y opts db =
    (let limit = (if so_limit opts = 0 then 2 ^ 64 - 1 else so_limit opts) in
     and_then (all_entities c db) (\<lambda>es.
       let (sent_es, s1) = export_entities limit (so_since opts) es;
           n1 = length sent_es in
       and_then
         (if n1 < limit
          then and_then (fact_list c db fact_list_opts_default)
                 (\<lambda>fs. Inr (export_facts (limit - n1) s1 fs))
          else Inr ([], s1)) (\<lambda>(sent_fs, s2).
         let n2 = n1 + length sent_fs in
         and_then
           (if so_include_relations opts \<and> n2 < limit
            then and_then (relations_list_all c db)
                   (\<lambda>rs. Inr (export_relations c y (limit - n2) s2 rs))
            else Inr ([], s2)) (\<lambda>(sent_rs, s3).
           Inr (map WireEntity sent_es @ map WireFact sent_fs @ map WireRelation sent_rs, s3)))))"

text \<open>The text of an export, and the number of records in it.\<close>

definition envelope_text :: "'j wiki_codec \<Rightarrow> sync_codec \<Rightarrow> u64 \<Rightarrow> sync_wire_record list \<Rightarrow> sync_cursor \<Rightarrow> string" where
  "envelope_text c y clock rs s =
    concat (map (\<lambda>v. yc_render y v @ [newline])
      (header_line clock # map (record_line y) rs @ [cursor_line c s]))"

definition sync_export ::
  "'j wiki_codec \<Rightarrow> sync_codec \<Rightarrow> u64 \<Rightarrow> sync_export_opts \<Rightarrow> 'j wiki_db \<Rightarrow> (string \<times> nat) wiki_result" where
  "sync_export c y clock opts db =
    and_then (export_batch c y opts db) (\<lambda>(rs, s). Inr (envelope_text c y clock rs s, length rs))"

end
