(* ===== verification/Wiki_Replication.thy ===== *)
theory Wiki_Replication
  imports Wiki_Sync Wiki_Examples
begin

text \<open>
  Replication of the embedded wiki store: what the cursors of an export keep, that repeated exports
  send every record, and that importing a full export gives the same wiki.
\<close>

section \<open>Streams\<close>

text \<open>A record a stream still owes: above the mark, or changed after the update cursor.\<close>

definition owes :: "('a \<Rightarrow> ulid) \<Rightarrow> ('a \<Rightarrow> u64) \<Rightarrow> stream_cursor \<Rightarrow> 'a \<Rightarrow> bool" where
  "owes ident stamp cur x \<longleftrightarrow>
     is_new (fst cur) (ident x) \<or>
     update_is_after_cursor (stamp x) (ident x) (fst (snd cur)) (snd (snd cur))"

text \<open>How often it may still be sent: a new record once, and once more by the update pass.\<close>

definition dues :: "('a \<Rightarrow> ulid) \<Rightarrow> ('a \<Rightarrow> u64) \<Rightarrow> stream_cursor \<Rightarrow> 'a \<Rightarrow> nat" where
  "dues ident stamp cur x =
    (if is_new (fst cur) (ident x) then 2 else if owes ident stamp cur x then 1 else 0)"

lemma take_sorted_key:
  assumes "sorted (map k xs)" "xs \<noteq> []" "0 < n"
  shows "\<And>x. x \<in> set (take n xs) \<Longrightarrow> k x \<le> k (last (take n xs))"
    and "\<And>x. x \<in> set (drop n xs) \<Longrightarrow> k (last (take n xs)) \<le> k x"
proof -
  have split: "sorted (map k (take n xs) @ map k (drop n xs))"
    using assms(1) by (simp flip: map_append)
  have ne: "take n xs \<noteq> []"
    using assms(2,3) by simp
  show "k x \<le> k (last (take n xs))" if "x \<in> set (take n xs)" for x
  proof -
    have "sorted (map k (butlast (take n xs)) @ [k (last (take n xs))])"
      using split ne by (metis append_butlast_last_id list.simps(8,9) map_append sorted_append)
    then show ?thesis
      using that ne by (metis (no_types, lifting) Un_iff append_butlast_last_id image_eqI list.set_map
          order_refl set_ConsD set_append sorted_append list.set_intros(1) empty_iff list.set(1))
  qed
  show "k (last (take n xs)) \<le> k x" if "x \<in> set (drop n xs)" for x
    using split that last_in_set [OF ne] by (auto simp: sorted_append)
qed

lemma after_cursor_alt:
  "update_is_after_cursor u i (Some t) (Some j) \<longleftrightarrow> (t, j) < (u, i)"
  by (auto simp: update_is_after_cursor_def less_prod_def' not_less)


lemma after_cursor_mono:
  assumes "update_is_after_cursor u i a b" "(u, i) \<le> (u', i')"
  shows "update_is_after_cursor u' i' a b"
proof -
  have "u < u' \<or> u = u' \<and> i \<le> i'"
    using assms(2) by (auto simp: less_eq_prod_def)
  then show ?thesis
    using assms(1) unfolding update_is_after_cursor_def
    by (cases a; cases b) (auto dest: less_le_trans less_trans)
qed

lemma key_unique:
  assumes "distinct (map f xs)" "x \<in> set xs" "y \<in> set xs" "f x = f y"
  shows "x = y"
  using assms by (auto simp: distinct_map inj_on_def)

text \<open>One pass: what is sent, and where the pass stands afterwards.\<close>

lemma pass_facts:
  fixes key :: "'a \<Rightarrow> 'k :: linorder"
  assumes "sent = take n (sort_key key (filter P xs))" "distinct (map key xs)"
  shows "set sent \<subseteq> {x \<in> set xs. P x}" "distinct sent"
    and "x \<in> set sent \<Longrightarrow> key x \<le> key (last sent)"
    and "x \<in> set xs \<Longrightarrow> P x \<Longrightarrow> x \<notin> set sent \<Longrightarrow> sent \<noteq> [] \<Longrightarrow> key (last sent) < key x"
proof -
  let ?l = "sort_key key (filter P xs)"
  have d: "distinct xs" using assms(2) by (simp add: distinct_map)
  show sub: "set sent \<subseteq> {x \<in> set xs. P x}"
    using set_take_subset [of n ?l] by (auto simp: assms(1))
  show "distinct sent"
    using d by (simp add: assms(1))
  have sorted: "sorted (map key ?l)" by simp
  show "key x \<le> key (last sent)" if "x \<in> set sent"
  proof -
    have "?l \<noteq> []" "0 < n"
      using that by (cases n; auto simp: assms(1))+
    from take_sorted_key(1) [OF sorted this] that show ?thesis
      by (simp add: assms(1))
  qed
  show "key (last sent) < key x" if "x \<in> set xs" "P x" "x \<notin> set sent" "sent \<noteq> []"
  proof -
    have ne: "?l \<noteq> []" "0 < n"
      using that(4) by (auto simp: assms(1))
    have "x \<in> set ?l"
      using that(1,2) by simp
    then have "x \<in> set (take n ?l) \<union> set (drop n ?l)"
      by (metis append_take_drop_id set_append)
    then have "x \<in> set (drop n ?l)"
      using that(3) by (simp add: assms(1))
    then have "key (last sent) \<le> key x"
      using take_sorted_key(2) [OF sorted ne] by (simp add: assms(1))
    moreover have "last sent \<in> set xs"
      using sub last_in_set [OF that(4)] by blast
    ultimately show ?thesis
      using key_unique [OF assms(2) _ that(1)] that(3,4) by (metis last_in_set order.order_iff_strict)
  qed
qed

lemma export_stream_dues:
  fixes ident :: "'a \<Rightarrow> ulid" and stamp :: "'a \<Rightarrow> u64"
  assumes "export_stream ident stamp limit cur xs = (sent, cur')" "distinct (map ident xs)"
  shows "distinct sent" "set sent \<subseteq> set xs"
    and "x \<in> set xs \<Longrightarrow> x \<in> set sent \<Longrightarrow> dues ident stamp cur' x < dues ident stamp cur x"
    and "x \<in> set xs \<Longrightarrow> x \<notin> set sent \<Longrightarrow> dues ident stamp cur' x = dues ident stamp cur x"
proof -
  obtain mark at i where cur: "cur = (mark, at, i)"
    by (cases cur)
  define new where "new = take limit (stream_new ident mark xs)"
  define upd where "upd = (if length new < limit \<and> mark \<noteq> None
    then take (limit - length new) (stream_updated ident stamp (mark, at, i) xs) else [])"
  have "(sent, cur') = (new @ upd, last_or mark ident new, last_or at stamp upd, last_or i ident upd)"
    using assms(1) unfolding export_stream_def cur Let_def fst_conv snd_conv
      new_def [symmetric] upd_def [symmetric] by simp
  then have sent: "sent = new @ upd" and cur': "cur' = (last_or mark ident new, last_or at stamp upd, last_or i ident upd)"
    by simp_all
  let ?key = "\<lambda>x. (stamp x, ident x)"
  have dkey: "distinct (map ?key xs)"
    using assms(2) by (auto simp: distinct_map inj_on_def)
  note N = pass_facts [OF new_def [unfolded stream_new_def] assms(2)]
  have upd_take: "upd = take (if length new < limit \<and> mark \<noteq> None then limit - length new else 0)
      (sort_key ?key (filter (\<lambda>x. \<not> is_new mark (ident x) \<and> update_is_after_cursor (stamp x) (ident x) at i) xs))"
    by (auto simp: upd_def stream_updated_def is_new_def)
  note U = pass_facts [OF upd_take dkey]
  show "distinct sent" "set sent \<subseteq> set xs"
    using N(1,2) U(1,2) by (auto simp: sent)
  have new_case: "dues ident stamp cur' x + (if x \<in> set sent then 1 else 0) \<le> 2 \<and>
      (x \<notin> set sent \<longrightarrow> dues ident stamp cur' x = 2)" if "x \<in> set xs" "is_new mark (ident x)" for x
  proof -
    have "x \<notin> set upd" using U(1) that(2) by auto
    moreover have "\<not> is_new (last_or mark ident new) (ident x)" if "x \<in> set new"
      using N(3) [OF that] that by (auto simp: last_or_def is_new_def)
    moreover have "is_new (last_or mark ident new) (ident x)" if "x \<notin> set new"
      using N(4) [OF \<open>x \<in> set xs\<close> \<open>is_new mark (ident x)\<close> that] \<open>is_new mark (ident x)\<close>
      by (auto simp: last_or_def is_new_def not_le)
    ultimately show ?thesis
      by (auto simp: dues_def cur' sent)
  qed
  have old_case: "\<not> is_new (last_or mark ident new) (ident x) \<and>
      (update_is_after_cursor (stamp x) (ident x) (last_or at stamp upd) (last_or i ident upd) \<longleftrightarrow>
       update_is_after_cursor (stamp x) (ident x) at i \<and> x \<notin> set upd) \<and> x \<notin> set new"
    if "x \<in> set xs" "\<not> is_new mark (ident x)" for x
  proof (intro conjI)
    show "x \<notin> set new" using N(1) that(2) by auto
    show "\<not> is_new (last_or mark ident new) (ident x)"
    proof (cases "new = []")
      case False
      then have "is_new mark (ident (last new))"
        using N(1) last_in_set by blast
      with False that(2) show ?thesis
        by (auto simp: last_or_def is_new_def split: option.splits)
    qed (use that(2) in \<open>simp add: last_or_def\<close>)
    show "update_is_after_cursor (stamp x) (ident x) (last_or at stamp upd) (last_or i ident upd) \<longleftrightarrow>
       update_is_after_cursor (stamp x) (ident x) at i \<and> x \<notin> set upd"
    proof (cases "upd = []")
      case False
      then have last: "update_is_after_cursor (stamp (last upd)) (ident (last upd)) at i"
        using U(1) last_in_set [OF False] by blast
      have mark: "update_is_after_cursor (stamp x) (ident x) (last_or at stamp upd) (last_or i ident upd) \<longleftrightarrow>
          ?key (last upd) < ?key x"
        using False by (simp add: last_or_def after_cursor_alt)
      show ?thesis
      proof (cases "x \<in> set upd")
        case True
        then show ?thesis using U(3) [OF True] mark by (metis not_less)
      next
        case out: False
        show ?thesis
        proof (cases "update_is_after_cursor (stamp x) (ident x) at i")
          case True
          then show ?thesis
            using U(4) [OF that(1) _ out False] that(2) out by (simp add: mark)
        next
          case False
          then show ?thesis
            using after_cursor_mono [OF last, of "stamp x" "ident x"] mark by (auto dest: less_imp_le)
        qed
      qed
    qed (simp add: last_or_def)
  qed
  show "dues ident stamp cur' x < dues ident stamp cur x" if "x \<in> set xs" "x \<in> set sent"
  proof (cases "is_new mark (ident x)")
    case True
    then have "dues ident stamp cur x = 2"
      by (simp add: dues_def cur)
    then show ?thesis
      using new_case [OF that(1) True] that(2) by simp
  next
    case False
    moreover have "update_is_after_cursor (stamp x) (ident x) at i" "x \<in> set upd"
      using that(2) old_case [OF that(1) False] U(1) by (auto simp: sent)
    ultimately show ?thesis
      using old_case [OF that(1) False] by (simp add: dues_def owes_def cur cur')
  qed
  show "dues ident stamp cur' x = dues ident stamp cur x" if "x \<in> set xs" "x \<notin> set sent"
  proof (cases "is_new mark (ident x)")
    case True
    then have "dues ident stamp cur x = 2"
      by (simp add: dues_def cur)
    then show ?thesis
      using new_case [OF that(1) True] that(2) by simp
  next
    case False
    then show ?thesis
      using old_case [OF that(1) False] that(2) by (simp add: dues_def owes_def cur cur' sent)
  qed
qed


section \<open>What an export reads\<close>

lemma collect_Inr: "collect_results (\<lambda>x. Inr (f x)) xs = Inr (map f xs)"
  by (induction xs) auto

lemma fact_list_read:
  assumes "represents c db w" "wiki_codec_ok c"
  shows "fact_list c db fact_list_opts_default = Inr (sort_key wf_id (wk_facts w))"
proof -
  let ?pair = "\<lambda>r. (fr_id r, fr_json r)"
  have "map ?pair (sort_key fr_id (t_facts db)) = sort_key fst (map ?pair (t_facts db))"
    by (simp add: sort_key_map)
  also have "\<dots> = sort_key fst (map (\<lambda>f. (wf_id f, wc_fact_json c f)) (wk_facts w))"
    using facts_map [OF assms(1), of ?pair] by simp
  also have "\<dots> = map (\<lambda>f. (wf_id f, wc_fact_json c f)) (sort_key wf_id (wk_facts w))"
    by (simp add: sort_key_map)
  finally have "map snd (map ?pair (sort_key fr_id (t_facts db))) =
      map snd (map (\<lambda>f. (wf_id f, wc_fact_json c f)) (sort_key wf_id (wk_facts w)))"
    by (rule arg_cong)
  then have docs: "map fr_json (sort_key fr_id (t_facts db)) = map (wc_fact_json c) (sort_key wf_id (wk_facts w))"
    by (simp add: o_def)
  have "collect_results (\<lambda>row. ok_or e (wc_fact_of c (fr_json row))) (sort_key fr_id (t_facts db)) =
      collect_results (\<lambda>f. ok_or e (wc_fact_of c (wc_fact_json c f))) (sort_key wf_id (wk_facts w))" for e :: wiki_error
    using collect_results_map [of "\<lambda>d. ok_or e (wc_fact_of c d)" fr_json "sort_key fr_id (t_facts db)"]
      collect_results_map [of "\<lambda>d. ok_or e (wc_fact_of c d)" "wc_fact_json c" "sort_key wf_id (wk_facts w)"]
    by (simp add: docs o_def)
  moreover have "collect_results (\<lambda>f. ok_or e (wc_fact_of c (wc_fact_json c f))) (sort_key wf_id (wk_facts w)) =
      Inr (sort_key wf_id (wk_facts w))" for e :: wiki_error
    using wiki_invD(6) [OF representsD(11) [OF assms(1)]]
    by (intro collect_all_Inr) (simp add: codec_okD(3) [OF assms(2)])
  ultimately show ?thesis
    by (simp add: fact_list_def fact_rows_for_def fact_list_opts_default_def page_def
        fact_matches_list_opts_def)
qed

lemma entity_list_read:
  assumes "represents c (db :: 'j wiki_db) w" "wiki_codec_ok c" "length (t_entities db) < 2 ^ 64"
  shows "\<exists>es. entity_list c db (list_opts_default\<lparr>lo_limit := Some (2 ^ 64 - 1)\<rparr>) = Inr es \<and>
    mset (map es_id es) = mset (map we_id (wk_entities w))"
proof -
  let ?l = "sort_key we_id (wk_entities w)"
  have rows: "sort_key en_id (t_entities db) = map (entity_row_of c) ?l"
    by (simp add: representsD(1) [OF assms(1)] sort_key_map)
  have read: "collect_results (\<lambda>row. ok_or (h row) (wc_entity_of c (en_json row)))
      (map (entity_row_of c) ?l) = Inr (map (stored_entity c) ?l)" for h :: "'j entity_row \<Rightarrow> wiki_error"
    using codec_okD(2) [OF assms(2)]
    by (simp add: collect_results_map o_def collect_Inr)
  have small: "length (wk_entities w) \<le> 18446744073709551615"
    using assms(3) by (simp add: representsD(1) [OF assms(1)])
  show ?thesis
    using small
    by (simp add: entity_list_def list_opts_default_def rows read page_def Let_def o_def case_prod_beta
        mset_map [symmetric] del: mset_map)
      (simp add: image_mset.compositionality o_def)
qed


lemma all_entities_read:
  assumes "represents c db w" "wiki_codec_ok c" "length (t_entities db) < 2 ^ 64"
  shows "\<exists>es. all_entities c db = Inr es \<and> mset es = mset (map (stored_entity c) (wk_entities w))"
proof -
  note inv = representsD(11) [OF assms(1)]
  obtain ss where ss: "entity_list c db (list_opts_default\<lparr>lo_limit := Some (2 ^ 64 - 1)\<rparr>) = Inr ss"
    "mset (map es_id ss) = mset (map we_id (wk_entities w))"
    using entity_list_read [OF assms] by blast
  have known: "wiki_entity w (we_id e) = Some e" if "e \<in> set (wk_entities w)" for e
    using that wiki_entity_iff [OF inv] by blast
  define rec where "rec i = stored_entity c (the (wiki_entity w i))" for i
  have get: "get_entity_record c db (es_id s) = Inr (rec (es_id s))" if "s \<in> set ss" for s
  proof -
    have "es_id s \<in> set (map we_id (wk_entities w))"
      using that arg_cong [OF ss(2), of set_mset] by auto
    then show ?thesis
      using known by (auto simp: entity_record_read [OF assms(1,2)] rec_def)
  qed
  have "concat (map (\<lambda>e. case get_entity_record c db (es_id e) of Inl _ \<Rightarrow> [] | Inr r \<Rightarrow> [r]) ss) =
      map (\<lambda>e. rec (es_id e)) ss"
    using get by (induction ss) auto
  then have "all_entities c db = Inr (map rec (map es_id ss))"
    unfolding all_entities_def ss(1) by (simp add: o_def)
  moreover have "mset (map rec (map es_id ss)) = mset (map rec (map we_id (wk_entities w)))"
    unfolding mset_map [of rec] ss(2) ..
  moreover have "map rec (map we_id (wk_entities w)) = map (stored_entity c) (wk_entities w)"
    using known by (simp add: rec_def)
  ultimately show ?thesis by metis
qed

lemma relations_all_read:
  assumes "represents c db w" "wiki_codec_ok c"
  shows "relations_list_all c db = Inr (sort_key (\<lambda>r. sint (wr_created_at r)) (wk_relations w))"
proof -
  have "collect_results (\<lambda>r. ok_or e (wc_relation_of c (wc_relation_json c r)))
      (sort_key (\<lambda>r. sint (wr_created_at r)) (wk_relations w)) =
    Inr (sort_key (\<lambda>r. sint (wr_created_at r)) (wk_relations w))" for e :: wiki_error
    using wiki_invD(11) [OF representsD(11) [OF assms(1)]]
    by (intro collect_all_Inr) (simp add: codec_okD(4) [OF assms(2)])
  then show ?thesis
    by (simp add: relations_list_all_def read_relations_def representsD(4) [OF assms(1)] sort_key_map
        o_def collect_results_map)
qed

lemma export_relations_frame:
  "export_relations c y n s rs = (sent, s') \<Longrightarrow> entity_cursor s' = entity_cursor s \<and> fact_cursor s' = fact_cursor s"
  by (auto simp: export_relations_def Let_def case_prod_beta entity_cursor_def fact_cursor_def split: if_splits)

text \<open>A batch is a batch of each of the two streams.\<close>

definition entities_of :: "sync_wire_record list \<Rightarrow> entity_record set" where
  "entities_of rs = {e. WireEntity e \<in> set rs}"

definition facts_of :: "sync_wire_record list \<Rightarrow> wiki_fact set" where
  "facts_of rs = {f. WireFact f \<in> set rs}"

definition batch_limit :: "sync_export_opts \<Rightarrow> nat" where
  "batch_limit opts = (if so_limit opts = 0 then 2 ^ 64 - 1 else so_limit opts)"

lemma export_batch_streams:
  assumes "represents c db w" "wiki_codec_ok c" "all_entities c db = Inr es"
  shows "\<exists>rs s sent_es sent_fs. export_batch c y opts db = Inr (rs, s) \<and>
    entities_of rs = set sent_es \<and> facts_of rs = set sent_fs \<and>
    export_stream we_id we_updated_at (batch_limit opts) (entity_cursor (so_since opts)) es =
      (sent_es, entity_cursor s) \<and>
    (if length sent_es < batch_limit opts
     then export_stream wf_id wf_updated_at (batch_limit opts - length sent_es) (fact_cursor (so_since opts))
            (sort_key wf_id (wk_facts w)) = (sent_fs, fact_cursor s)
     else sent_fs = [] \<and> fact_cursor s = fact_cursor (so_since opts))"
proof -
  let ?limit = "batch_limit opts" and ?since = "so_since opts" and ?fs = "sort_key wf_id (wk_facts w)"
  obtain sent_es s1 where es: "export_entities ?limit ?since es = (sent_es, s1)"
    by (cases "export_entities ?limit ?since es")
  then have es': "export_stream we_id we_updated_at ?limit (entity_cursor ?since) es = (sent_es, entity_cursor s1)"
    "fact_cursor s1 = fact_cursor ?since"
    by (auto simp: export_entities_def entity_cursor_def fact_cursor_def case_prod_beta)
  define fp where "fp = (if length sent_es < ?limit then export_facts (?limit - length sent_es) s1 ?fs else ([], s1))"
  obtain sent_fs s2 where fs: "fp = (sent_fs, s2)"
    by (cases fp)
  have fs': "entity_cursor s2 = entity_cursor s1"
    "if length sent_es < ?limit
     then export_stream wf_id wf_updated_at (?limit - length sent_es) (fact_cursor ?since) ?fs = (sent_fs, fact_cursor s2)
     else sent_fs = [] \<and> fact_cursor s2 = fact_cursor ?since"
    using fs es'(2)
    by (auto simp: fp_def export_facts_def entity_cursor_def fact_cursor_def case_prod_beta split: if_splits)
  define rp where "rp = (if so_include_relations opts \<and> length sent_es + length sent_fs < ?limit
    then export_relations c y (?limit - (length sent_es + length sent_fs)) s2
      (sort_key (\<lambda>r. sint (wr_created_at r)) (wk_relations w)) else ([], s2))"
  obtain sent_rs s3 where rs: "rp = (sent_rs, s3)"
    by (cases rp)
  have "entity_cursor s3 = entity_cursor s2 \<and> fact_cursor s3 = fact_cursor s2"
    using rs by (auto simp: rp_def dest!: export_relations_frame split: if_splits)
  moreover have "(if length sent_es < ?limit then and_then (fact_list c db fact_list_opts_default)
      (\<lambda>fs. Inr (export_facts (?limit - length sent_es) s1 fs)) else Inr ([], s1)) = (Inr fp :: _ wiki_result)"
    by (simp add: fp_def fact_list_read [OF assms(1,2)])
  moreover have "(if so_include_relations opts \<and> length sent_es + length sent_fs < ?limit
      then and_then (relations_list_all c db)
        (\<lambda>rs. Inr (export_relations c y (?limit - (length sent_es + length sent_fs)) s2 rs))
      else Inr ([], s2)) = (Inr rp :: _ wiki_result)"
    by (simp add: rp_def relations_all_read [OF assms(1,2)])
  ultimately have "export_batch c y opts db =
      Inr (map WireEntity sent_es @ map WireFact sent_fs @ map WireRelation sent_rs, s3)"
    unfolding export_batch_def batch_limit_def [symmetric] assms(3) Let_def and_then.simps es prod.case
    by (simp add: fs rs)
  moreover have "entities_of (map WireEntity sent_es @ map WireFact sent_fs @ map WireRelation sent_rs) = set sent_es"
    "facts_of (map WireEntity sent_es @ map WireFact sent_fs @ map WireRelation sent_rs) = set sent_fs"
    by (auto simp: entities_of_def facts_of_def)
  ultimately show ?thesis
    using es'(1) fs' \<open>entity_cursor s3 = entity_cursor s2 \<and> fact_cursor s3 = fact_cursor s2\<close> by metis
qed


section \<open>Pulling until nothing is owed\<close>

text \<open>Pulls from an upstream that stands still, each with the cursor of the one before.\<close>

fun sync_pulls ::
  "nat \<Rightarrow> 'j wiki_codec \<Rightarrow> sync_codec \<Rightarrow> sync_export_opts \<Rightarrow> 'j wiki_db \<Rightarrow>
     (sync_wire_record list \<times> sync_cursor) wiki_result" where
  "sync_pulls 0 c y opts db = Inr ([], so_since opts)"
| "sync_pulls (Suc n) c y opts db =
    and_then (export_batch c y opts db) (\<lambda>(rs, s).
      and_then (sync_pulls n c y (opts\<lparr>so_since := s\<rparr>) db) (\<lambda>(qs, s'). Inr (rs @ qs, s')))"

abbreviation entity_dues :: "sync_cursor \<Rightarrow> entity_record \<Rightarrow> nat" where
  "entity_dues s \<equiv> dues we_id we_updated_at (entity_cursor s)"

abbreviation fact_dues :: "sync_cursor \<Rightarrow> wiki_fact \<Rightarrow> nat" where
  "fact_dues s \<equiv> dues wf_id wf_updated_at (fact_cursor s)"

definition total_dues :: "entity_record list \<Rightarrow> wiki_fact list \<Rightarrow> sync_cursor \<Rightarrow> nat" where
  "total_dues es fs s = sum_list (map (entity_dues s) es) + sum_list (map (fact_dues s) fs)"

lemma export_stream_progress:
  assumes "export_stream ident stamp limit cur xs = (sent, cur')" "distinct (map ident xs)"
    and "0 < limit" "x \<in> set xs" "0 < dues ident stamp cur x"
  shows "sent \<noteq> []"
proof (cases "filter (\<lambda>x. is_new (fst cur) (ident x)) xs = []")
  case False
  then have "take limit (stream_new ident (fst cur) xs) \<noteq> []"
    using assms(3) by (metis stream_new_def take_eq_Nil not_less0 length_0_conv length_sort)
  then show ?thesis
    using assms(1) by (auto simp: export_stream_def Let_def)
next
  case True
  then have old: "\<not> is_new (fst cur) (ident x)"
    using assms(4) by (auto simp: filter_empty_conv)
  then have "fst cur \<noteq> None"
    by (cases "fst cur") (auto simp: is_new_def)
  moreover have "x \<in> set (stream_updated ident stamp cur xs)"
    using old assms(4,5) by (auto simp: dues_def owes_def stream_updated_def split: if_splits)
  then have "take limit (stream_updated ident stamp cur xs) \<noteq> []"
    using assms(3) by auto
  moreover have "stream_new ident (fst cur) xs = []"
    by (simp add: stream_new_def True)
  ultimately show ?thesis
    using assms(1,3) by (auto simp: export_stream_def Let_def)
qed

lemma stream_sum:
  assumes "export_stream ident stamp limit cur xs = (sent, cur')" "distinct (map ident xs)"
  shows "sum_list (map (dues ident stamp cur') xs) \<le> sum_list (map (dues ident stamp cur) xs)"
    and "sent \<noteq> [] \<Longrightarrow> sum_list (map (dues ident stamp cur') xs) < sum_list (map (dues ident stamp cur) xs)"
proof -
  note st = export_stream_dues [OF assms]
  have le: "dues ident stamp cur' x \<le> dues ident stamp cur x" if "x \<in> set xs" for x
    using st(3,4) [OF that] by (cases "x \<in> set sent") auto
  then show "sum_list (map (dues ident stamp cur') xs) \<le> sum_list (map (dues ident stamp cur) xs)"
    by (rule sum_list_mono)
  assume "sent \<noteq> []"
  then obtain x where x: "x \<in> set sent" "x \<in> set xs"
    using st(2) by (cases sent) auto
  then obtain as bs where sp: "xs = as @ x # bs"
    by (metis split_list)
  have "sum_list (map (dues ident stamp cur') as) \<le> sum_list (map (dues ident stamp cur) as)"
    "sum_list (map (dues ident stamp cur') bs) \<le> sum_list (map (dues ident stamp cur) bs)"
    using le by (auto intro!: sum_list_mono simp: sp)
  with st(3) [OF x(2,1)] show "sum_list (map (dues ident stamp cur') xs) < sum_list (map (dues ident stamp cur) xs)"
    by (simp add: sp)
qed

lemma sum_zero: "sum_list (map g xs) = 0 \<longleftrightarrow> (\<forall>x\<in>set xs. g x = (0 :: nat))"
  by (induction xs) auto

text \<open>A batch pays dues: what is not sent is owed as before, and something is sent if anything is owed.\<close>

lemma batch_pays:
  assumes "represents c db w" "wiki_codec_ok c" "all_entities c db = Inr es"
    and "mset es = mset (map (stored_entity c) (wk_entities w))" "fs = sort_key wf_id (wk_facts w)"
  shows "\<exists>rs s. export_batch c y opts db = Inr (rs, s) \<and>
    (\<forall>e\<in>set es. e \<notin> entities_of rs \<longrightarrow> entity_dues s e = entity_dues (so_since opts) e) \<and>
    (\<forall>f\<in>set fs. f \<notin> facts_of rs \<longrightarrow> fact_dues s f = fact_dues (so_since opts) f) \<and>
    total_dues es fs s \<le> total_dues es fs (so_since opts) \<and>
    (0 < total_dues es fs (so_since opts) \<longrightarrow> total_dues es fs s < total_dues es fs (so_since opts))"
proof -
  note inv = representsD(11) [OF assms(1)]
  have "mset (map we_id es) = mset (map we_id (wk_entities w))"
    using arg_cong [OF assms(4), of "image_mset we_id"] by (simp add: image_mset.compositionality o_def)
  then have ids: "distinct (map we_id es)"
    using wiki_invD(1) [OF inv] by (metis mset_eq_imp_distinct_iff)
  have fids: "distinct (map wf_id fs)"
    using wiki_invD(4) [OF inv] by (simp add: assms(5) distinct_map)
  let ?limit = "batch_limit opts"
  have pos: "0 < ?limit" by (simp add: batch_limit_def)
  obtain rs s sent_es sent_fs where batch: "export_batch c y opts db = Inr (rs, s)"
    "entities_of rs = set sent_es" "facts_of rs = set sent_fs"
    and E: "export_stream we_id we_updated_at ?limit (entity_cursor (so_since opts)) es = (sent_es, entity_cursor s)"
    and F: "if length sent_es < ?limit
     then export_stream wf_id wf_updated_at (?limit - length sent_es) (fact_cursor (so_since opts)) fs = (sent_fs, fact_cursor s)
     else sent_fs = [] \<and> fact_cursor s = fact_cursor (so_since opts)"
    using export_batch_streams [OF assms(1-3)] unfolding assms(5) [symmetric] by blast
  note E_dues = export_stream_dues [OF E ids] and E_sum = stream_sum [OF E ids]
  have F_dues: "fact_dues s f = fact_dues (so_since opts) f" if "f \<in> set fs" "f \<notin> set sent_fs" for f
    using F export_stream_dues(4) [OF _ fids that] by (auto split: if_splits)
  have F_sum: "sum_list (map (fact_dues s) fs) \<le> sum_list (map (fact_dues (so_since opts)) fs)"
    using F stream_sum(1) [OF _ fids] by (auto split: if_splits)
  have "total_dues es fs s < total_dues es fs (so_since opts)" if due: "0 < total_dues es fs (so_since opts)"
  proof (cases "sent_es = []")
    case False
    then show ?thesis using E_sum(2) F_sum by (simp add: total_dues_def)
  next
    case True
    have "entity_dues (so_since opts) e = 0" if "e \<in> set es" for e
      using export_stream_progress [OF E ids pos that] True by blast
    then have "sum_list (map (entity_dues (so_since opts)) es) = 0"
      unfolding sum_zero by blast
    then have "0 < sum_list (map (fact_dues (so_since opts)) fs)"
      using due unfolding total_dues_def by linarith
    then obtain f where f: "f \<in> set fs" "0 < fact_dues (so_since opts) f"
      unfolding neq0_conv [symmetric] sum_zero by blast
    have F': "export_stream wf_id wf_updated_at ?limit (fact_cursor (so_since opts)) fs = (sent_fs, fact_cursor s)"
      using F True pos by simp
    from stream_sum(2) [OF F' fids export_stream_progress [OF F' fids pos f]] E_sum(1) show ?thesis
      by (simp add: total_dues_def)
  qed
  moreover have "total_dues es fs s \<le> total_dues es fs (so_since opts)"
    using E_sum(1) F_sum by (simp add: total_dues_def)
  ultimately show ?thesis
    using E_dues(4) F_dues by (intro exI [where x = rs] exI [where x = s]) (auto simp: batch)
qed


lemma owed_pulled:
  assumes "represents c db w" "wiki_codec_ok c" "all_entities c db = Inr es"
    and "mset es = mset (map (stored_entity c) (wk_entities w))" "fs = sort_key wf_id (wk_facts w)"
    and "total_dues es fs (so_since opts) \<le> n"
  shows "\<exists>rs s. sync_pulls n c y opts db = Inr (rs, s) \<and>
    (\<forall>e\<in>set es. 0 < entity_dues (so_since opts) e \<longrightarrow> e \<in> entities_of rs) \<and>
    (\<forall>f\<in>set fs. 0 < fact_dues (so_since opts) f \<longrightarrow> f \<in> facts_of rs)"
  using assms(6)
proof (induction n arbitrary: opts)
  case 0
  then show ?case by (auto simp: total_dues_def sum_zero)
next
  case (Suc n)
  obtain rs s where batch: "export_batch c y opts db = Inr (rs, s)"
    "\<forall>e\<in>set es. e \<notin> entities_of rs \<longrightarrow> entity_dues s e = entity_dues (so_since opts) e"
    "\<forall>f\<in>set fs. f \<notin> facts_of rs \<longrightarrow> fact_dues s f = fact_dues (so_since opts) f"
    "total_dues es fs s \<le> total_dues es fs (so_since opts)"
    "0 < total_dues es fs (so_since opts) \<longrightarrow> total_dues es fs s < total_dues es fs (so_since opts)"
    using batch_pays [OF assms(1-5)] by blast
  have "total_dues es fs (so_since (opts\<lparr>so_since := s\<rparr>)) \<le> n"
    using batch(4,5) Suc.prems by (cases "total_dues es fs (so_since opts)") auto
  from Suc.IH [OF this] obtain qs s' where
    "sync_pulls n c y (opts\<lparr>so_since := s\<rparr>) db = Inr (qs, s')"
    "\<forall>e\<in>set es. 0 < entity_dues s e \<longrightarrow> e \<in> entities_of qs"
    "\<forall>f\<in>set fs. 0 < fact_dues s f \<longrightarrow> f \<in> facts_of qs"
    by auto
  then show ?case
    using batch(1-3) by (auto simp: entities_of_def facts_of_def)
qed

lemma dues_le: "dues ident stamp cur x \<le> 2"
  by (simp add: dues_def)

lemma sum_dues_le: "sum_list (map (dues ident stamp cur) xs) \<le> 2 * length xs"
proof (induction xs)
  case (Cons x xs)
  then show ?case using dues_le [of ident stamp cur x] by simp
qed simp

lemma total_dues_le: "total_dues es fs s \<le> 2 * length es + 2 * length fs"
  unfolding total_dues_def by (intro add_mono sum_dues_le)

definition owed_entity :: "sync_cursor \<Rightarrow> entity_record \<Rightarrow> bool" where
  "owed_entity s e = owes we_id we_updated_at (entity_cursor s) e"

definition owed_fact :: "sync_cursor \<Rightarrow> wiki_fact \<Rightarrow> bool" where
  "owed_fact s f = owes wf_id wf_updated_at (fact_cursor s) f"

lemma owed_dues:
  "owed_entity s e \<longleftrightarrow> 0 < entity_dues s e" "owed_fact s f \<longleftrightarrow> 0 < fact_dues s f"
  by (auto simp: owed_entity_def owed_fact_def dues_def owes_def)

text \<open>
  C39. A downstream that keeps pulling from an upstream that stands still, each time with the cursor of
  the last batch, gets everything: after twice as many pulls as the upstream has entities and facts,
  whatever the batch limit and wherever the cursor started, every entity and fact that is new to the
  cursor or has changed after it has been sent.
\<close>

theorem sync_pulls_complete:
  assumes "wiki_reachable c db" "wiki_codec_ok c" "length (t_entities db) < 2 ^ 64"
    and "2 * length (t_entities db) + 2 * length (t_facts db) \<le> n"
  shows "\<exists>rs s. sync_pulls n c y opts db = Inr (rs, s) \<and>
    (\<forall>i e. get_entity_record c db i = Inr e \<and> owed_entity (so_since opts) e \<longrightarrow> WireEntity e \<in> set rs) \<and>
    (\<forall>i f. get_fact_record c db i = Inr f \<and> owed_fact (so_since opts) f \<longrightarrow> WireFact f \<in> set rs)"
proof -
  obtain w where rep: "represents c db w"
    using reachable_represents [OF assms(1,2)] by blast
  note inv = representsD(11) [OF rep]
  obtain es where es: "all_entities c db = Inr es" "mset es = mset (map (stored_entity c) (wk_entities w))"
    using all_entities_read [OF rep assms(2,3)] by blast
  let ?fs = "sort_key wf_id (wk_facts w)"
  have "length es = length (wk_entities w)"
    using arg_cong [OF es(2), of size] by simp
  moreover have "length (wk_facts w) = length (t_facts db)"
    using arg_cong [OF representsD(2) [OF rep], of length] by simp
  ultimately have "total_dues es ?fs (so_since opts) \<le> n"
    using total_dues_le [of es ?fs "so_since opts"] assms(4) representsD(1) [OF rep] by simp
  from owed_pulled [OF rep assms(2) es refl this] obtain rs s where pulls: "sync_pulls n c y opts db = Inr (rs, s)"
    "\<forall>e\<in>set es. 0 < entity_dues (so_since opts) e \<longrightarrow> e \<in> entities_of rs"
    "\<forall>f\<in>set ?fs. 0 < fact_dues (so_since opts) f \<longrightarrow> f \<in> facts_of rs"
    by blast
  have "e \<in> set es" if "get_entity_record c db i = Inr e" for i e
    using that arg_cong [OF es(2), of set_mset] wiki_entity_iff [OF inv]
    by (auto simp: entity_record_read [OF rep assms(2)] split: option.splits)
  moreover have "f \<in> set ?fs" if "get_fact_record c db i = Inr f" for i f
    using that wiki_fact_iff [OF inv]
    by (auto simp: fact_record_read [OF rep assms(2)] split: option.splits)
  ultimately show ?thesis
    using pulls by (auto simp: owed_dues entities_of_def facts_of_def)
qed


section \<open>The envelope\<close>

text \<open>
  The parser reads back what was written: the value of each line, the record of each value, the ULIDs
  of the cursor. An entity type comes back as the type its text names.
\<close>

definition readable_line :: "sync_codec \<Rightarrow> json \<Rightarrow> bool" where
  "readable_line y v \<longleftrightarrow>
     yc_parse y (yc_render y v) = Some v \<and> newline \<notin> set (yc_render y v) \<and>
     yc_render y v \<noteq> [] \<and> trim_text (yc_render y v) = yc_render y v"

fun readable_record :: "'j wiki_codec \<Rightarrow> sync_codec \<Rightarrow> sync_wire_record \<Rightarrow> bool" where
  "readable_record c y (WireEntity e) \<longleftrightarrow> yc_entity_of y (yc_entity_json y e) = Some (stored_entity c e)"
| "readable_record c y (WireFact f) \<longleftrightarrow> yc_fact_of y (yc_fact_json y f) = Some f"
| "readable_record c y (WireRelation r) \<longleftrightarrow> yc_relation_of y (yc_relation_json y r) = Some r"

fun read_record :: "'j wiki_codec \<Rightarrow> sync_wire_record \<Rightarrow> sync_wire_record" where
  "read_record c (WireEntity e) = WireEntity (stored_entity c e)"
| "read_record c r = r"

definition export_readable ::
  "'j wiki_codec \<Rightarrow> sync_codec \<Rightarrow> u64 \<Rightarrow> sync_wire_record list \<Rightarrow> sync_cursor \<Rightarrow> bool" where
  "export_readable c y clock rs s \<longleftrightarrow>
     list_all (readable_line y) (header_line clock # map (record_line y) rs @ [cursor_line c s]) \<and>
     list_all (readable_record c y) rs \<and>
     list_all (\<lambda>i. case i of None \<Rightarrow> True | Some u \<Rightarrow> yc_ulid_of y (wc_ulid_text c u) = Inr u)
       [sc_entity s, sc_fact s, sc_entity_updated_id s, sc_fact_updated_id s]"

lemma split_lines:
  assumes "\<forall>l\<in>set ls. newline \<notin> set l"
  shows "split_on newline (concat (map (\<lambda>l. l @ [newline]) ls)) = ls @ [[]]"
  using assms by (induction ls) (simp_all add: split_on_append)

lemma envelope_lines_text:
  assumes "list_all (readable_line y) vs"
  shows "envelope_lines (concat (map (\<lambda>v. yc_render y v @ [newline]) vs)) = map (yc_render y) vs"
proof -
  have "split_on newline (concat (map (\<lambda>l. l @ [newline]) (map (yc_render y) vs))) = map (yc_render y) vs @ [[]]"
    using assms by (intro split_lines) (auto simp: list_all_iff readable_line_def)
  moreover have "filter (\<lambda>l. l \<noteq> []) (map trim_text (map (yc_render y) vs)) = map (yc_render y) vs"
    using assms by (induction vs) (auto simp: readable_line_def)
  moreover have "trim_text [] = []"
    by code_simp
  ultimately show ?thesis
    by (simp add: envelope_lines_def o_def)
qed

lemma line_value_read:
  assumes "readable_line y v" "json_get v ''kind'' = Some (JString k)"
  shows "line_value y n (yc_render y v) = Inr (v, k)"
  using assms by (simp add: line_value_def readable_line_def)

lemma header_read: "check_header (header_line clock) ''header'' = Inr ()"
  by (simp add: check_header_def header_line_def SYNC_SCHEMA_def)

lemma wire_record_read:
  assumes "readable_record c y r"
  shows "\<exists>k. json_get (record_line y r) ''kind'' = Some (JString k) \<and>
    wire_record y n (record_line y r) k = Inr (read_record c r)"
  using assms by (cases r) (auto simp: wire_record_def Let_def)

lemma json_opt_read:
  "parse_optional_u64 (JObject kvs) k = Inr x" if "map_of kvs k = Some (json_opt json_word x)"
  using that uint_u64_bounds
  by (cases x) (simp_all add: parse_optional_u64_def json_word_def)

lemma json_opt_text:
  "parse_optional_string (JObject kvs) k = Inr x" if "map_of kvs k = Some (json_opt JString x)"
  using that by (cases x) (simp_all add: parse_optional_string_def)

lemma json_opt_ulid:
  "parse_cursor_ulid y (JObject kvs) k = Inr x"
  if "map_of kvs k = Some (json_opt (\<lambda>i. JString (wc_ulid_text c i)) x)"
    "case x of None \<Rightarrow> True | Some u \<Rightarrow> yc_ulid_of y (wc_ulid_text c u) = Inr u"
  using that by (cases x) (simp_all add: parse_cursor_ulid_def parse_optional_string_def)

lemma cursor_read:
  assumes "list_all (\<lambda>i. case i of None \<Rightarrow> True | Some u \<Rightarrow> yc_ulid_of y (wc_ulid_text c u) = Inr u)
      [sc_entity s, sc_fact s, sc_entity_updated_id s, sc_fact_updated_id s]"
  shows "parse_cursor_value y (cursor_line c s) = Inr s"
  using assms
  by (simp add: parse_cursor_value_def cursor_line_def Let_def json_opt_read json_opt_text
      json_opt_ulid [where c = c])

lemma wire_lines_read:
  assumes "export_readable c y clock rs s"
  shows "wire_lines y n (map (yc_render y) (map (record_line y) rs @ [cursor_line c s])) =
    Inr (map (read_record c) rs, s)"
  using assms
proof (induction rs arbitrary: n)
  case Nil
  have "json_get (cursor_line c s) ''kind'' = Some (JString ''cursor'')"
    by (simp add: cursor_line_def Let_def)
  with Nil show ?case
    by (simp add: export_readable_def line_value_read cursor_read)
next
  case (Cons r rs)
  obtain k where k: "json_get (record_line y r) ''kind'' = Some (JString k)"
    "wire_record y n (record_line y r) k = Inr (read_record c r)"
    using wire_record_read Cons.prems by (fastforce simp: export_readable_def)
  have rest: "wire_lines y (n + 1) (map (yc_render y) (map (record_line y) rs @ [cursor_line c s])) =
      Inr (map (read_record c) rs, s)"
    using Cons by (simp add: export_readable_def)
  obtain l ls where ls: "map (yc_render y) (map (record_line y) rs @ [cursor_line c s]) = l # ls"
    by (cases rs) auto
  have "line_value y n (yc_render y (record_line y r)) = Inr (record_line y r, k)"
    using Cons.prems k(1) by (intro line_value_read) (simp_all add: export_readable_def)
  with k(2) rest show ?case
    using ls by simp
qed

theorem envelope_roundtrip:
  assumes "export_readable c y clock rs s"
  shows "preflight_sync_jsonl y (envelope_text c y clock rs s) = Inr (map (read_record c) rs, s)"
proof -
  let ?tail = "map (yc_render y) (map (record_line y) rs @ [cursor_line c s])"
  have lines: "envelope_lines (envelope_text c y clock rs s) = yc_render y (header_line clock) # ?tail"
    unfolding envelope_text_def using assms
    by (subst envelope_lines_text) (simp_all add: export_readable_def)
  obtain l ls where ls: "?tail = l # ls"
    by (cases rs) auto
  have "line_value y 1 (yc_render y (header_line clock)) = Inr (header_line clock, ''header'')"
    using assms by (intro line_value_read) (simp_all add: export_readable_def header_line_def)
  moreover have "wire_lines y 2 (l # ls) = Inr (map (read_record c) rs, s)"
    using wire_lines_read [OF assms, of 2] by (simp only: ls)
  moreover have "envelope_lines (envelope_text c y clock rs s) = yc_render y (header_line clock) # l # ls"
    by (simp only: lines ls)
  ultimately show ?thesis
    by (simp add: preflight_sync_jsonl_def header_read)
qed

section \<open>Importing\<close>

text \<open>An import applies the replication operations of the machine.\<close>

fun wire_op :: "sync_wire_record \<Rightarrow> wiki_op" where
  "wire_op (WireEntity e) = OpEntityUpsert e"
| "wire_op (WireFact f) = OpFactUpsert f"
| "wire_op (WireRelation r) = OpRelationUpsert r"

lemma import_record_do:
  "fst (import_record c r (db, st)) = fst (wiki_do c (wire_op r) db)"
  "si_errors (snd (import_record c r (db, st))) =
     si_errors st + (case snd (wiki_do c (wire_op r) db) of Inl _ \<Rightarrow> 1 | Inr _ \<Rightarrow> 0)"
  by (cases r; auto simp: settle_def case_prod_beta split: sum.splits)+

lemma import_records_run:
  "fst (foldl (\<lambda>a r. import_record c r a) (db, st) rs) = fst (wiki_run c (map wire_op rs) db) \<and>
   si_errors (snd (foldl (\<lambda>a r. import_record c r a) (db, st) rs)) =
     si_errors st + length (filter (\<lambda>r. \<exists>e. r = Inl e) (snd (wiki_run c (map wire_op rs) db)))"
proof (induction rs arbitrary: db st)
  case (Cons r rs)
  obtain db' st' where one: "import_record c r (db, st) = (db', st')"
    by (cases "import_record c r (db, st)")
  show ?case
    using Cons.IH [of db' st'] import_record_do [of c r db st]
    by (auto simp: one case_prod_beta split: sum.splits)
qed simp

text \<open>Replicating records that do not clash with what is there appends them.\<close>

lemma wiki_inv_prefix_entities:
  assumes "wiki_inv c (w\<lparr>wk_entities := es @ gs\<rparr>)"
  shows "wiki_inv c (w\<lparr>wk_entities := es\<rparr>)"
  using assms by (auto simp: wiki_inv_def)

lemma spec_entities:
  assumes "wiki_inv c (w\<lparr>wk_entities := wk_entities w @ es\<rparr>)"
  shows "spec_run c (map OpEntityUpsert es) w =
    (w\<lparr>wk_entities := wk_entities w @ es\<rparr>, map (\<lambda>_. Inr (RChanged True)) es)"
  using assms
proof (induction es arbitrary: w)
  case (Cons e es)
  let ?w = "add_entity e w"
  have ext: "wk_entities w @ e # es = wk_entities ?w @ es" "?w\<lparr>wk_entities := x\<rparr> = w\<lparr>wk_entities := x\<rparr>" for x
    by (simp_all add: add_entity_def)
  have inv': "wiki_inv c (?w\<lparr>wk_entities := wk_entities ?w @ es\<rparr>)"
    using Cons.prems by (simp only: ext)
  then have inv: "wiki_inv c ?w"
    using wiki_inv_prefix_entities [where w = ?w and es = "wk_entities ?w" and gs = es] by simp
  then have w: "wiki_inv c w"
    using wiki_inv_prefix_entities [where w = w and es = "wk_entities w" and gs = "[e]"]
    by (simp add: add_entity_def)
  have new: "we_id e \<notin> we_id ` set (wk_entities w)"
    "wc_lower c ` set (entity_names e) \<inter> nm_lower ` set (concat (map (name_rows c) (wk_entities w))) = {}"
    using inv unfolding wiki_inv_add [OF w] by blast+
  have "wiki_entity w (we_id e) = None"
    using new(1) by (auto simp: wiki_entity_def find_None_set image_iff)
  moreover have "wiki_named c w (we_name e) = None"
    using new(2) by (auto simp: wiki_named_None entity_names_def name_rows_def image_iff)
  ultimately have "wiki_spec c (OpEntityUpsert e) w = (?w, Inr (RChanged True))"
    using inv by (simp add: guarded_def)
  with Cons.IH [OF inv'] show ?case
    by (simp add: ext)
qed simp

lemma spec_facts:
  assumes "distinct (map wf_id (wk_facts w @ fs))" "distinct (map (fact_key c) (wk_facts w @ fs))"
    and "\<forall>f\<in>set fs. normalize_source_id (wf_source_id f) = wf_source_id f"
  shows "\<exists>ls. spec_run c (map OpFactUpsert fs) w =
    (w\<lparr>wk_facts := wk_facts w @ fs, wk_links := ls\<rparr>, map (\<lambda>_. Inr (RChanged True)) fs)"
  using assms
proof (induction fs arbitrary: w)
  case Nil
  show ?case by (intro exI [where x = "wk_links w"]) simp
next
  case (Cons f fs)
  have f: "stored_fact f = f"
    using Cons.prems(3) by (simp add: stored_fact_def)
  have "wiki_fact_of w (wf_id f) = None" "key_holder c f w = None"
    using Cons.prems(1,2) by (auto simp: wiki_fact_of_def key_holder_def find_None_set image_iff)
  then have one: "wiki_spec c (OpFactUpsert f) w = (add_fact f w, Inr (RChanged True))"
    by (simp add: upsert_fact_def f)
  obtain ls where "spec_run c (map OpFactUpsert fs) (add_fact f w) =
      ((add_fact f w)\<lparr>wk_facts := wk_facts (add_fact f w) @ fs, wk_links := ls\<rparr>, map (\<lambda>_. Inr (RChanged True)) fs)"
    using Cons.IH [of "add_fact f w"] Cons.prems by (auto simp: add_fact_def)
  then show ?case
    by (intro exI [where x = ls]) (simp add: one add_fact_def del: wiki_spec.simps)
qed

lemma spec_relations:
  assumes "distinct (map relation_key (wk_relations w @ rs))"
    and "\<forall>r\<in>set rs. normalize_source_id (wr_scope_source_id r) = wr_scope_source_id r"
  shows "spec_run c (map OpRelationUpsert rs) w =
    (w\<lparr>wk_relations := wk_relations w @ rs\<rparr>, map (\<lambda>_. Inr (RChanged True)) rs)"
  using assms
proof (induction rs arbitrary: w)
  case (Cons r rs)
  have r: "stored_relation r = r"
    using Cons.prems(2) by (simp add: stored_relation_def)
  have "relation_key r \<notin> relation_key ` set (wk_relations w)"
    using Cons.prems(1) by simp
  then have fresh: "\<forall>u\<in>set (wk_relations w). relation_key u \<noteq> relation_key r"
    by (metis image_eqI)
  then have "put_relation r w = w\<lparr>wk_relations := wk_relations w @ [r]\<rparr>"
    by (simp add: put_relation_def filter_id_conv)
  moreover have "r \<notin> set (wk_relations w)"
    using fresh by blast
  ultimately show ?case
    using Cons.IH [of "w\<lparr>wk_relations := wk_relations w @ [r]\<rparr>"] Cons.prems by (simp add: r)
qed simp

lemma spec_run_append:
  "spec_run c (xs @ ys) w =
    (let (w', rs) = spec_run c xs w; (w'', qs) = spec_run c ys w' in (w'', rs @ qs))"
  by (induction xs arbitrary: w) (auto simp: case_prod_beta)


text \<open>The first batch of an unbounded pull carries the whole store.\<close>

definition full_export :: "sync_export_opts \<Rightarrow> bool" where
  "full_export opts \<longleftrightarrow> so_since opts = sync_cursor_default \<and> so_limit opts = 0 \<and> so_include_relations opts"

lemma full_stream:
  assumes "length xs \<le> limit"
  shows "fst (export_stream ident stamp limit (None, None, None) xs) = sort_key ident xs"
  using assms by (simp add: export_stream_def stream_new_def is_new_def Let_def)

lemma full_relations:
  assumes "length rs \<le> budget" "sc_relation_generation since = None" "sc_relation_scan_key since = None"
    "sc_relation_created_at since = None" "sc_relation_key since = None"
  shows "mset (fst (export_relations c y budget since rs)) = mset rs"
proof -
  have "snapshot_cursor since" "pending_relations since g es = es" for g es
    using assms by (simp_all add: snapshot_cursor_def pending_relations_def)
  then show ?thesis
    using assms(1)
    by (simp add: export_relations_def relation_snapshot_def case_prod_beta Let_def o_def
        relation_entry_of_def multiset.map_comp)
qed

lemma export_batch_full:
  assumes "represents c db w" "wiki_codec_ok c" "full_export opts"
    "length (wk_entities w) + length (wk_facts w) + length (wk_relations w) < 2 ^ 64 - 1"
  shows "\<exists>es fs qs s. export_batch c y opts db =
      Inr (map WireEntity es @ map WireFact fs @ map WireRelation qs, s) \<and>
    mset es = mset (map (stored_entity c) (wk_entities w)) \<and> mset fs = mset (wk_facts w) \<and>
    mset qs = mset (wk_relations w)"
proof -
  let ?N = "2 ^ 64 - 1 :: nat" and ?fs = "sort_key wf_id (wk_facts w)"
    and ?rs = "sort_key (\<lambda>r. sint (wr_created_at r)) (wk_relations w)" and ?s = sync_cursor_default
  obtain es where es: "all_entities c db = Inr es" "mset es = mset (map (stored_entity c) (wk_entities w))"
    using all_entities_read [OF assms(1,2)] assms(4) representsD(1) [OF assms(1)] by auto
  have len: "length es = length (wk_entities w)"
    using arg_cong [OF es(2), of size] by simp
  obtain s1 where s1: "export_entities ?N ?s es = (sort_key we_id es, s1)"
    "fact_cursor s1 = (None, None, None)" "sc_relation_generation s1 = None" "sc_relation_scan_key s1 = None"
    "sc_relation_created_at s1 = None" "sc_relation_key s1 = None"
  proof -
    have "fst (export_stream we_id we_updated_at ?N (entity_cursor ?s) es) = sort_key we_id es"
      using full_stream [of es ?N we_id we_updated_at] len assms(4)
      by (simp add: entity_cursor_def sync_cursor_default_def)
    then show thesis
      using that by (simp add: export_entities_def case_prod_beta fact_cursor_def sync_cursor_default_def)
  qed
  obtain s2 where s2: "export_facts (?N - length es) s1 ?fs = (sort_key wf_id ?fs, s2)"
    "sc_relation_generation s2 = None" "sc_relation_scan_key s2 = None"
    "sc_relation_created_at s2 = None" "sc_relation_key s2 = None"
  proof -
    have "fst (export_stream wf_id wf_updated_at (?N - length es) (fact_cursor s1) ?fs) = sort_key wf_id ?fs"
      using full_stream [of ?fs "?N - length es" wf_id wf_updated_at] len assms(4) s1(2) by simp
    then show thesis
      using that s1 by (simp add: export_facts_def case_prod_beta)
  qed
  obtain qs s3 where s3: "export_relations c y (?N - (length es + length ?fs)) s2 ?rs = (qs, s3)"
    by (cases "export_relations c y (?N - (length es + length ?fs)) s2 ?rs")
  have "mset qs = mset (wk_relations w)"
    using full_relations [of ?rs "?N - (length es + length ?fs)" s2 c y] len assms(4) s2 s3 by simp
  moreover have "export_batch c y opts db =
      Inr (map WireEntity (sort_key we_id es) @ map WireFact (sort_key wf_id ?fs) @ map WireRelation qs, s3)"
  proof -
    have small: "length es < ?N" "length es + length ?fs < ?N"
      using len assms(4) by simp_all
    have "so_since opts = ?s" "(if so_limit opts = 0 then ?N else so_limit opts) = ?N" "so_include_relations opts"
      using assms(3) by (simp_all add: full_export_def)
    note opts = this
    show ?thesis
      unfolding export_batch_def opts Let_def es(1) and_then.simps s1(1) prod.case length_sort
        fact_list_read [OF assms(1,2)] relations_all_read [OF assms(1,2)]
      using small s2(1) s3 opts(3) by simp
  qed
  ultimately show ?thesis
    using es(2) by (metis mset_sort)
qed

text \<open>Lower-casing leaves the names of the entity types alone; then a stored type stays as it is.\<close>

definition lower_keeps_types :: "'j wiki_codec \<Rightarrow> bool" where
  "lower_keeps_types c \<longleftrightarrow>
     list_all (\<lambda>t. wc_lower c (entity_type_text t) = entity_type_text t)
       [EtTechnology, EtConcept, EtComparison, EtQuery, EtPerson, EtTeam, EtUnknown]"

lemma stored_entity_idem:
  assumes "wiki_codec_ok c" "lower_keeps_types c"
  shows "stored_entity c (stored_entity c e) = stored_entity c e"
proof -
  have "entity_type_parse (wc_lower c) (entity_type_text (entity_type_of_lower (wc_lower c s))) =
      entity_type_of_lower (wc_lower c s)" for s
    using assms(2) codec_okD(1) [OF assms(1), of s]
    by (simp add: entity_type_parse_def lower_keeps_types_def) (auto simp: entity_type_of_lower_def)
  then show ?thesis
    by (simp add: stored_entity_def entity_type_parse_def)
qed

section \<open>A replica of the whole store\<close>

definition wiki_of ::
  "entity_record list \<Rightarrow> wiki_fact list \<Rightarrow> link_row list \<Rightarrow> relation_record list \<Rightarrow> wiki" where
  "wiki_of es fs ls qs = \<lparr>wk_entities = es, wk_facts = fs, wk_links = ls, wk_relations = qs\<rparr>"

lemma mset_concat_map: "mset xs = mset ys \<Longrightarrow> mset (concat (map f xs)) = mset (concat (map f ys))"
  by (simp add: mset_concat) (metis mset_map sum_mset_sum_list)

lemma distinct_mset_map: "mset xs = mset ys \<Longrightarrow> distinct (map f xs) = distinct (map f ys)"
  by (metis mset_map mset_eq_imp_distinct_iff)

lemma replica_inv:
  assumes "wiki_inv c w" "mset es = mset (map (stored_entity c) (wk_entities w))"
  shows "wiki_inv c (wiki_of es [] [] [])"
proof -
  have "name_rows c (stored_entity c e) = name_rows c e" for e
    by (simp add: name_rows_def entity_names_def)
  then have "map (name_rows c) (map (stored_entity c) (wk_entities w)) = map (name_rows c) (wk_entities w)"
    by simp
  then have "distinct (map nm_lower (concat (map (name_rows c) es)))"
    using wiki_invD(3) [OF assms(1)] distinct_mset_map [OF mset_concat_map [OF assms(2)]] by metis
  moreover have "distinct (map we_id es)" "distinct (map we_name_lower es)"
    using wiki_invD(1,2) [OF assms(1)] by (simp_all add: distinct_mset_map [OF assms(2)] o_def)
  ultimately show ?thesis
    by (simp add: wiki_inv_def wiki_of_def)
qed

lemma replica_run:
  assumes "wiki_inv c w" "mset es = mset (map (stored_entity c) (wk_entities w))"
    and "mset fs = mset (wk_facts w)" "mset qs = mset (wk_relations w)"
  shows "\<exists>ls. spec_run c (map OpEntityUpsert es @ map OpFactUpsert fs @ map OpRelationUpsert qs) empty_wiki =
    (wiki_of es fs ls qs, map (\<lambda>_. Inr (RChanged True)) es @ map (\<lambda>_. Inr (RChanged True)) fs @
      map (\<lambda>_. Inr (RChanged True)) qs)"
proof -
  have "spec_run c (map OpEntityUpsert es) empty_wiki = (wiki_of es [] [] [], map (\<lambda>_. Inr (RChanged True)) es)"
    using spec_entities [of c empty_wiki es] replica_inv [OF assms(1,2)]
    by (simp add: empty_wiki_def wiki_of_def)
  moreover have "distinct (map wf_id fs)" "distinct (map (fact_key c) fs)"
    using wiki_invD(4,5) [OF assms(1)] by (simp_all add: distinct_mset_map [OF assms(3)])
  then have "\<exists>ls. spec_run c (map OpFactUpsert fs) (wiki_of es [] [] []) =
      (wiki_of es fs ls [], map (\<lambda>_. Inr (RChanged True)) fs)"
    using spec_facts [of "wiki_of es [] [] []" fs c] wiki_invD(7) [OF assms(1)]
      mset_eq_setD [OF assms(3)]
    by (simp add: wiki_of_def)
  moreover have "distinct (map relation_key qs)"
    using wiki_invD(10) [OF assms(1)] by (simp add: distinct_mset_map [OF assms(4)])
  then have "spec_run c (map OpRelationUpsert qs) (wiki_of es fs ls []) =
      (wiki_of es fs ls qs, map (\<lambda>_. Inr (RChanged True)) qs)" for ls
    using spec_relations [of "wiki_of es fs ls []" qs c] wiki_invD(12) [OF assms(1)]
      mset_eq_setD [OF assms(4)]
    by (simp add: wiki_of_def)
  ultimately show ?thesis
    by (force simp: spec_run_append Let_def)
qed

lemma replica_run_ok:
  assumes "wiki_inv c w" "mset fs = mset (wk_facts w)" "mset qs = mset (wk_relations w)"
  shows "run_ok c (map OpEntityUpsert es @ map OpFactUpsert fs @ map OpRelationUpsert qs) (db :: 'b wiki_db)"
proof -
  have ok: "\<forall>x\<in>set xs. \<forall>d :: 'b wiki_db. op_ok x d \<Longrightarrow> run_ok c xs d'"
    for xs and d' :: "'b wiki_db"
    by (induction xs arbitrary: d') auto
  show ?thesis
    using wiki_invD(6,11) [OF assms(1)] mset_eq_setD [OF assms(2)] mset_eq_setD [OF assms(3)]
    by (intro ok) auto
qed

lemma same_lookup:
  assumes "wiki_inv c w" "wiki_inv c w'" "set (wk_entities w') = stored_entity c ` set (wk_entities w)"
  shows "wiki_entity w' i = map_option (stored_entity c) (wiki_entity w i)"
proof (cases "wiki_entity w i")
  case None
  then have "wiki_entity w' i = None"
    using assms(3) by (simp add: wiki_entity_def find_None_set)
  with None show ?thesis by simp
next
  case (Some e)
  then have "stored_entity c e \<in> set (wk_entities w')" "we_id (stored_entity c e) = i"
    using assms(3) wiki_entity_iff [OF assms(1)] by auto
  then show ?thesis
    using Some wiki_entity_iff [OF assms(2)] by simp
qed

lemma same_fact:
  assumes "wiki_inv c w" "wiki_inv c w'" "set (wk_facts w') = set (wk_facts w)"
  shows "wiki_fact_of w' i = wiki_fact_of w i"
proof -
  have "wiki_fact_of w' i = Some f \<longleftrightarrow> wiki_fact_of w i = Some f" for f
    by (simp add: wiki_fact_iff [OF assms(1)] wiki_fact_iff [OF assms(2)] assms(3))
  then show ?thesis
    by (metis not_Some_eq)
qed

text \<open>
  C40. A full export of any store that operations reach, imported into an empty store, makes a faithful
  copy: no record fails, the cursor of the export is kept, and every entity, every fact and the
  relations read the same in the copy. Asked of \<open>serde_json\<close> is that it reads back the lines it
  wrote for this export.
\<close>

theorem sync_full_roundtrip:
  assumes "wiki_reachable c db" "wiki_codec_ok c" "lower_keeps_types c" "full_export opts"
    and "length (t_entities db) + length (t_facts db) + length (t_relations db) < 2 ^ 64 - 1"
    and "export_batch c y opts db = Inr (rs, s)" "export_readable c y clock rs s"
  shows "\<exists>text n db' st qs qs'. sync_export c y clock opts db = Inr (text, n) \<and>
    sync_import c y text wiki_empty = (db', Inr st) \<and> si_errors st = 0 \<and> si_new_cursor st = s \<and>
    (\<forall>i. get_entity_record c db' i = get_entity_record c db i) \<and>
    (\<forall>i. get_fact_record c db' i = get_fact_record c db i) \<and>
    relations_list_all c db = Inr qs \<and> relations_list_all c db' = Inr qs' \<and> mset qs' = mset qs"
proof -
  obtain w where rep: "represents c db w"
    using reachable_represents [OF assms(1,2)] by blast
  note inv = representsD(11) [OF rep]
  have "length (wk_facts w) = length (t_facts db)"
    using arg_cong [OF representsD(2) [OF rep], of length] by simp
  then have small: "length (wk_entities w) + length (wk_facts w) + length (wk_relations w) < 2 ^ 64 - 1"
    using assms(5) representsD(1,4) [OF rep] by simp
  obtain es fs qs where rs: "rs = map WireEntity es @ map WireFact fs @ map WireRelation qs"
    "mset es = mset (map (stored_entity c) (wk_entities w))" "mset fs = mset (wk_facts w)"
    "mset qs = mset (wk_relations w)"
    using export_batch_full [OF rep assms(2,4) small, of y] unfolding assms(6) by auto
  have "\<forall>e\<in>set es. stored_entity c e = e"
    using mset_eq_setD [OF rs(2)] stored_entity_idem [OF assms(2,3)] by auto
  then have read: "map (read_record c) rs = rs"
    by (simp add: rs(1) map_idI)
  define ops where "ops = map OpEntityUpsert es @ map OpFactUpsert fs @ map OpRelationUpsert qs"
  have ops: "map wire_op rs = ops"
    by (simp add: rs(1) ops_def o_def)
  obtain ls where ls: "spec_run c ops empty_wiki =
      (wiki_of es fs ls qs, map (\<lambda>_. Inr (RChanged True)) es @ map (\<lambda>_. Inr (RChanged True)) fs @
        map (\<lambda>_. Inr (RChanged True)) qs)"
    using replica_run [OF inv rs(2-4)] unfolding ops_def [symmetric] by blast
  have run: "fst (spec_run c ops empty_wiki) = wiki_of es fs ls qs"
    "\<forall>r\<in>set (snd (spec_run c ops empty_wiki)). r = Inr (RChanged True)"
    unfolding ls by auto
  define db' where "db' = fst (wiki_run c ops (wiki_empty :: 'a wiki_db))"
  have impl: "represents c db' (wiki_of es fs ls qs)"
    "map (map_sum wiki_error_code id) (snd (wiki_run c ops (wiki_empty :: 'a wiki_db))) =
      snd (spec_run c ops empty_wiki)"
    using run_implements [OF represents_empty assms(2), of ops] replica_run_ok [OF inv rs(3,4), of es wiki_empty] run(1)
    by (simp_all add: ops_def db'_def)
  have "\<not> (\<exists>e. r = Inl e)" if "r \<in> set (snd (wiki_run c ops (wiki_empty :: 'a wiki_db)))" for r
  proof -
    have "map_sum wiki_error_code id r \<in> set (snd (spec_run c ops empty_wiki))"
      unfolding impl(2) [symmetric] using that by simp
    with run(2) show ?thesis
      by (cases r) auto
  qed
  then have none: "filter (\<lambda>r. \<exists>e. r = Inl e) (snd (wiki_run c ops (wiki_empty :: 'a wiki_db))) = []"
    by (simp add: filter_empty_conv)
  obtain st where st: "foldl (\<lambda>a r. import_record c r a) (wiki_empty, sync_import_stats_default) rs = (db', st)"
    "si_errors st = 0"
    using import_records_run [of c wiki_empty sync_import_stats_default rs] none
    by (cases "foldl (\<lambda>a r. import_record c r a) (wiki_empty, sync_import_stats_default) rs")
      (simp add: ops db'_def sync_import_stats_default_def)
  note inv' = representsD(11) [OF impl(1)]
  have "wiki_entity (wiki_of es fs ls qs) i = map_option (stored_entity c) (wiki_entity w i)" for i
    using mset_eq_setD [OF rs(2)]
    by (intro same_lookup [OF inv inv']) (simp add: wiki_of_def)
  then have entities: "get_entity_record c db' i = get_entity_record c db i" for i
    by (simp add: entity_record_read [OF impl(1) assms(2)] entity_record_read [OF rep assms(2)]
        stored_entity_idem [OF assms(2,3)] split: option.split)
  have "wiki_fact_of (wiki_of es fs ls qs) i = wiki_fact_of w i" for i
    using mset_eq_setD [OF rs(3)]
    by (intro same_fact [OF inv inv']) (simp add: wiki_of_def)
  then have facts: "get_fact_record c db' i = get_fact_record c db i" for i
    by (simp add: fact_record_read [OF impl(1) assms(2)] fact_record_read [OF rep assms(2)])
  have "relations_list_all c db' = Inr (sort_key (\<lambda>r. sint (wr_created_at r)) qs)"
    using relations_all_read [OF impl(1) assms(2)] by (simp add: wiki_of_def)
  moreover note relations_all_read [OF rep assms(2)] rs(4)
  moreover have "sync_export c y clock opts db = Inr (envelope_text c y clock rs s, length rs)"
    by (simp add: sync_export_def assms(6))
  moreover have "sync_import c y (envelope_text c y clock rs s) wiki_empty =
      (db', Inr (st\<lparr>si_new_cursor := s\<rparr>))"
    using envelope_roundtrip [OF assms(7)] st by (simp add: sync_import_def read)
  ultimately show ?thesis
    using st(2) entities facts
    by (intro exI [where x = "envelope_text c y clock rs s"] exI [where x = "length rs"]
        exI [where x = db'] exI [where x = "st\<lparr>si_new_cursor := s\<rparr>"]) simp
qed

section \<open>A concrete pull\<close>

text \<open>The replicated store of the examples, and a codec for the lines of its export.\<close>

definition ex_bob :: entity_record where
  "ex_bob = entity_record_new ascii_lower 11 2 ''Bob'' EtPerson"

definition ex_rel :: relation_record where
  "ex_rel = \<lparr>wr_source_id = 1, wr_target_id = 2, wr_scope_source_id = None, wr_type = ''knows'',
     wr_weight = f32_one, wr_evidence = [], wr_created_at = 15\<rparr>"

definition ex_cursor :: sync_cursor where
  "ex_cursor =
    \<lparr>sc_entity = Some 2, sc_fact = Some 7, sc_entity_updated_at = None, sc_entity_updated_id = None,
     sc_fact_updated_at = None, sc_fact_updated_id = None, sc_relation_created_at = Some 15,
     sc_relation_key = Some (relation_cursor_key ex_wc ex_rel),
     sc_relation_generation = Some (be_bytes 1 @ ''r''), sc_relation_scan_key = None\<rparr>"

definition ex_record_line :: "int \<Rightarrow> string \<Rightarrow> json" where
  "ex_record_line i kind = JObject [(''data'', JInt i), (''kind'', JString kind)]"

definition ex_lines :: "(json \<times> string) list" where
  "ex_lines =
    [(header_line 99, ''h''), (ex_record_line 1 ''entity'', ''a''), (ex_record_line 2 ''entity'', ''b''),
     (ex_record_line 7 ''fact'', ''f''), (ex_record_line 9 ''relation'', ''r''),
     (cursor_line ex_wc ex_cursor, ''c'')]"

definition ex_sc :: sync_codec where
  "ex_sc =
    \<lparr>yc_render = (\<lambda>v. case map_of ex_lines v of None \<Rightarrow> ''?'' | Some t \<Rightarrow> t),
     yc_parse = map_of (map (\<lambda>(v, t). (t, v)) ex_lines),
     yc_entity_json = (\<lambda>e. JInt (uint (we_id e))),
     yc_entity_of = (\<lambda>j. if j = JInt 1 then Some ex_ada else if j = JInt 2 then Some ex_bob else None),
     yc_fact_json = (\<lambda>f. JInt 7), yc_fact_of = (\<lambda>j. if j = JInt 7 then Some ex_fact else None),
     yc_relation_json = (\<lambda>r. JInt 9), yc_relation_of = (\<lambda>j. if j = JInt 9 then Some ex_rel else None),
     yc_relation_bytes = (\<lambda>r. ''r''),
     yc_ulid_of = (\<lambda>t. if t = ''2'' then Inr 2 else if t = ''7'' then Inr 7 else Inl ''no ULID'')\<rparr>"

definition ex_all :: sync_export_opts where
  "ex_all = \<lparr>so_since = sync_cursor_default, so_limit = 0, so_include_relations = True\<rparr>"

definition ex_sent :: "sync_wire_record list" where
  "ex_sent = [WireEntity ex_ada, WireEntity ex_bob, WireFact ex_fact, WireRelation ex_rel]"

lemma ex_tables:
  "t_entities ex_wiki = map (entity_row_of ex_wc) [ex_ada, ex_bob]"
  "map fr_json (t_facts ex_wiki) = [DocFact ex_fact]" "length (t_facts ex_wiki) = 1"
  "t_relations ex_wiki = [relation_row_of ex_wc ex_rel]"
  by (simp_all add: ex_wiki_def ex_ops_def ex_ada_def ex_bob_def ex_rel_def ex_fact_def wiki_eval)

lemma ex_read_bob: "get_entity_record ex_wc ex_wiki 2 = Inr ex_bob"
  by (simp add: get_entity_record_def ex_tables ex_ada_def ex_bob_def entity_record_new_def
      entity_type_parse_def entity_type_of_lower_def)

lemma ex_lower_types: "lower_keeps_types ex_wc"
proof -
  have "ascii_lower ''technology'' = ''technology''" "ascii_lower ''concept'' = ''concept''"
    "ascii_lower ''comparison'' = ''comparison''" "ascii_lower ''query'' = ''query''"
    "ascii_lower ''team'' = ''team''" "ascii_lower ''unknown'' = ''unknown''"
    by code_simp+
  then show ?thesis by (simp add: lower_keeps_types_def)
qed

lemma ex_reads:
  "all_entities ex_wc ex_wiki = Inr [ex_bob, ex_ada]"
  "fact_list ex_wc ex_wiki fact_list_opts_default = Inr [ex_fact]"
  "relations_list_all ex_wc ex_wiki = Inr [ex_rel]"
proof -
  have "map_sum id (map es_id) (entity_list ex_wc ex_wiki (list_opts_default\<lparr>lo_limit := Some (2 ^ 64 - 1)\<rparr>)) =
      Inr [2, 1]"
    by (simp add: entity_list_def ex_tables list_opts_default_def page_def ex_ada_def ex_bob_def
        entity_record_new_def entity_type_parse_def entity_type_of_lower_def)
  then obtain a b where "entity_list ex_wc ex_wiki (list_opts_default\<lparr>lo_limit := Some (2 ^ 64 - 1)\<rparr>) = Inr [a, b]"
    "es_id a = 2" "es_id b = 1"
    by (cases "entity_list ex_wc ex_wiki (list_opts_default\<lparr>lo_limit := Some (2 ^ 64 - 1)\<rparr>)") auto
  then show "all_entities ex_wc ex_wiki = Inr [ex_bob, ex_ada]"
    by (simp add: all_entities_def ex_read_bob ex_wiki_reads)
  obtain r where r: "t_facts ex_wiki = [r]" "fr_json r = DocFact ex_fact"
    using ex_tables(2,3) by (auto simp: length_Suc_conv)
  have "fact_floats_finite ex_fact"
    by (simp add: ex_fact_def fact_record_new_def fact_floats_finite_def)
  then show "fact_list ex_wc ex_wiki fact_list_opts_default = Inr [ex_fact]"
    by (simp add: fact_list_def fact_rows_for_def r fact_list_opts_default_def page_def fact_matches_list_opts_def)
  show "relations_list_all ex_wc ex_wiki = Inr [ex_rel]"
    by (simp add: relations_list_all_def read_relations_def ex_tables ex_rel_def)
qed

lemma ex_export: "export_batch ex_wc ex_sc ex_all ex_wiki = Inr (ex_sent, ex_cursor)"
proof -
  have ids: "we_id ex_ada = 1" "we_id ex_bob = 2" "wf_id ex_fact = 7" "wr_created_at ex_rel = 15"
    by (simp_all add: ex_ada_def ex_bob_def entity_record_new_def ex_fact_def fact_record_new_def ex_rel_def)
  have order: "\<not> (2 :: ulid) \<le> 1"
    by (simp add: word_le_nat_alt)
  show ?thesis
    by (simp add: export_batch_def ex_reads ex_all_def Let_def export_entities_def export_facts_def
        export_stream_def stream_new_def is_new_def last_or_def sync_cursor_default_def entity_cursor_def
        fact_cursor_def ids order export_relations_def relation_snapshot_def pending_relations_def
        snapshot_cursor_def relation_entry_of_def ex_sc_def ex_sent_def ex_cursor_def)
qed

lemma ex_texts: "nat_text 2 = ''2''" "nat_text 7 = ''7''"
  by code_simp+

lemma ex_marks: "newline \<notin> set ''habfrc''"
  by (simp add: newline_def char_of_def)

lemma ex_trim_h: "trim_text ''h'' = ''h''" by code_simp
lemma ex_trim_a: "trim_text ''a'' = ''a''" by code_simp
lemma ex_trim_b: "trim_text ''b'' = ''b''" by code_simp
lemma ex_trim_f: "trim_text ''f'' = ''f''" by code_simp
lemma ex_trim_r: "trim_text ''r'' = ''r''" by code_simp
lemma ex_trim_c: "trim_text ''c'' = ''c''" by code_simp
lemmas ex_trims = ex_trim_h ex_trim_a ex_trim_b ex_trim_f ex_trim_r ex_trim_c

lemma ex_readable: "export_readable ex_wc ex_sc 99 ex_sent ex_cursor"
proof -
  have lines: "record_line ex_sc (WireEntity ex_ada) = ex_record_line 1 ''entity''"
    "record_line ex_sc (WireEntity ex_bob) = ex_record_line 2 ''entity''"
    "record_line ex_sc (WireFact ex_fact) = ex_record_line 7 ''fact''"
    "record_line ex_sc (WireRelation ex_rel) = ex_record_line 9 ''relation''"
    by (simp_all add: ex_sc_def ex_record_line_def ex_ada_def ex_bob_def entity_record_new_def)
  have render: "yc_render ex_sc (header_line 99) = ''h''" "yc_render ex_sc (ex_record_line 1 ''entity'') = ''a''"
    "yc_render ex_sc (ex_record_line 2 ''entity'') = ''b''" "yc_render ex_sc (ex_record_line 7 ''fact'') = ''f''"
    "yc_render ex_sc (ex_record_line 9 ''relation'') = ''r''" "yc_render ex_sc (cursor_line ex_wc ex_cursor) = ''c''"
    by (simp_all add: ex_sc_def ex_lines_def header_line_def ex_record_line_def cursor_line_def Let_def)
  have parse: "yc_parse ex_sc ''h'' = Some (header_line 99)" "yc_parse ex_sc ''a'' = Some (ex_record_line 1 ''entity'')"
    "yc_parse ex_sc ''b'' = Some (ex_record_line 2 ''entity'')" "yc_parse ex_sc ''f'' = Some (ex_record_line 7 ''fact'')"
    "yc_parse ex_sc ''r'' = Some (ex_record_line 9 ''relation'')" "yc_parse ex_sc ''c'' = Some (cursor_line ex_wc ex_cursor)"
    by (simp_all add: ex_sc_def ex_lines_def)
  have "list_all (readable_line ex_sc) (header_line 99 # map (record_line ex_sc) ex_sent @ [cursor_line ex_wc ex_cursor])"
    using ex_marks by (simp add: ex_trims ex_sent_def lines readable_line_def render parse del: record_line.simps)
  moreover have "list_all (readable_record ex_wc ex_sc) ex_sent"
    by (simp add: ex_sent_def ex_sc_def ex_ada_def ex_bob_def entity_record_new_def stored_entity_def
        entity_type_parse_def entity_type_of_lower_def)
  ultimately show ?thesis
    by (simp add: export_readable_def ex_texts ex_cursor_def ex_sc_def)
qed

theorem sync_pulls_complete_witness:
  "\<exists>rs s. sync_pulls 6 ex_wc ex_sc (ex_all\<lparr>so_limit := 1\<rparr>) ex_wiki = Inr (rs, s) \<and>
     WireEntity ex_bob \<in> set rs \<and> WireFact ex_fact \<in> set rs"
proof -
  have "owed_entity (so_since (ex_all\<lparr>so_limit := 1\<rparr>)) ex_bob" "owed_fact (so_since (ex_all\<lparr>so_limit := 1\<rparr>)) ex_fact"
    by (simp_all add: owed_entity_def owed_fact_def owes_def ex_all_def sync_cursor_default_def entity_cursor_def
        fact_cursor_def is_new_def)
  then show ?thesis
    using sync_pulls_complete [OF ex_wiki_reachable(1) ex_wc_ok, of 6 ex_sc "ex_all\<lparr>so_limit := 1\<rparr>"]
      ex_read_bob ex_wiki_reads(3) by (simp add: ex_tables) blast
qed

theorem sync_full_roundtrip_witness:
  "\<exists>text n db' st. sync_export ex_wc ex_sc 99 ex_all ex_wiki = Inr (text, n) \<and>
     sync_import ex_wc ex_sc text wiki_empty = (db', Inr st) \<and> si_errors st = 0 \<and>
     get_fact_record ex_wc db' 7 = Inr ex_fact"
proof -
  have "full_export ex_all"
    by (simp add: full_export_def ex_all_def)
  from sync_full_roundtrip [OF ex_wiki_reachable(1) ex_wc_ok ex_lower_types this _ ex_export ex_readable]
  show ?thesis
    by (simp add: ex_tables) (metis ex_wiki_reads(3))
qed

theorem envelope_roundtrip_witness:
  "\<exists>rs. preflight_sync_jsonl ex_sc (envelope_text ex_wc ex_sc 99 ex_sent ex_cursor) = Inr (rs, ex_cursor)"
  using envelope_roundtrip [OF ex_readable] by blast

end
